(* ===== verification/Prelude.thy ===== *)
theory Prelude
  imports "HOL-Library.AList" "HOL-Library.Word" "HOL-Library.Multiset"
begin

text \<open>
  Vocabulary shared by every component: the integer types of the Go code, Go maps as
  association lists (the list order stands for the unspecified iteration order of a Go
  map), nil-safe getters of protobuf and ygot structs, and the lemmas on association lists,
  multisets and 64-bit counters that the component proofs use.  The collection
  \<open>gomap\<close> holds the map equations.
\<close>

named_theorems gomap \<open>equations for Go maps\<close>

type_synonym u64 = "64 word"
type_synonym u32 = "32 word"
type_synonym ('k, 'v) gomap = "('k \<times> 'v) list"

subsection \<open>Go maps\<close>

abbreviation gm_get :: "('k, 'v) gomap \<Rightarrow> 'k \<Rightarrow> 'v option" where
  "gm_get m k \<equiv> map_of m k"

abbreviation gm_put :: "'k \<Rightarrow> 'v \<Rightarrow> ('k, 'v) gomap \<Rightarrow> ('k, 'v) gomap" where
  "gm_put k v m \<equiv> AList.update k v m"

abbreviation gm_del :: "'k \<Rightarrow> ('k, 'v) gomap \<Rightarrow> ('k, 'v) gomap" where
  "gm_del k m \<equiv> AList.delete k m"

abbreviation gm_wf :: "('k, 'v) gomap \<Rightarrow> bool" where
  "gm_wf m \<equiv> distinct (map fst m)"

lemma gm_get_put [gomap]: "gm_get (gm_put k v m) k' = (if k = k' then Some v else gm_get m k')"
  by (simp add: AList.update_conv')

lemma gm_get_del [gomap]: "gm_get (gm_del k m) k' = (if k = k' then None else gm_get m k')"
  by (simp add: AList.delete_conv')

lemma gm_wf_put [simp]: "gm_wf m \<Longrightarrow> gm_wf (gm_put k v m)"
  by (rule AList.distinct_update)

lemma gm_wf_del [simp]: "gm_wf m \<Longrightarrow> gm_wf (gm_del k m)"
  by (rule AList.distinct_delete)

lemma gm_set_put: "gm_wf m \<Longrightarrow> set (gm_put k v m) = insert (k, v) {p \<in> set m. fst p \<noteq> k}"
  by (induction m) (force simp: image_iff)+

lemma gm_set_del: "set (gm_del k m) = {p \<in> set m. fst p \<noteq> k}"
  by (auto simp: AList.delete_eq)

lemma gm_get_Some_iff: "gm_wf m \<Longrightarrow> gm_get m k = Some v \<longleftrightarrow> (k, v) \<in> set m"
  by (simp add: map_of_eq_Some_iff)

lemma gm_put_same [simp]: "gm_get m k = Some v \<Longrightarrow> gm_put k v m = m"
  by (rule AList.update_triv)

lemma gm_length_put_le: "length (gm_put k v m) \<le> Suc (length m)"
  by (induction m) auto

lemma gm_length_put_present: "gm_get m k \<noteq> None \<Longrightarrow> length (gm_put k v m) = length m"
  by (induction m) auto

lemma gm_del_absent: "gm_get m k = None \<Longrightarrow> gm_del k m = m"
  by (simp add: map_of_eq_None_iff AList.delete_id)

lemma gm_put_del: "gm_wf m \<Longrightarrow> set (gm_put k v (gm_del k m)) = set (gm_put k v m)"
  by (auto simp: gm_set_put gm_set_del)

lemma gm_put_absent: "gm_get m k = None \<Longrightarrow> gm_put k v m = m @ [(k, v)]"
  by (induction m) auto

lemma gm_put_put: "gm_put k v (gm_put k w m) = gm_put k v m"
  by (induction m) auto

lemma gm_del_keys: "map fst (gm_del k m) = filter (\<lambda>i. i \<noteq> k) (map fst m)"
  by (induction m) auto

lemma gm_del_mset: "gm_wf m \<Longrightarrow> gm_get m k \<noteq> None \<Longrightarrow> mset (map fst m) = add_mset k (mset (map fst (gm_del k m)))"
proof (induction m)
  case (Cons p m)
  show ?case
  proof (cases "fst p = k")
    case True
    with Cons.prems show ?thesis by (auto simp: gm_del_absent map_of_eq_None_iff)
  next
    case False
    with Cons show ?thesis by auto
  qed
qed simp

text \<open>Sums over a map's entries, before and after an update of one entry.\<close>

lemma sum_list_put_absent:
  fixes f :: "_ \<Rightarrow> 'a :: comm_monoid_add"
  shows "gm_get m k = None \<Longrightarrow>
    sum_list (map f (gm_put k v m)) = sum_list (map f m) + f (k, v)"
  by (induction m) (auto simp: add_ac split: if_splits)

lemma sum_list_put_present:
  fixes f :: "_ \<Rightarrow> 'a :: comm_monoid_add"
  shows "gm_wf m \<Longrightarrow> gm_get m k = Some w \<Longrightarrow>
    sum_list (map f (gm_put k v m)) + f (k, w) = sum_list (map f m) + f (k, v)"
proof (induction m)
  case Nil
  then show ?case by simp
next
  case (Cons p m)
  show ?case
  proof (cases "fst p = k")
    case True
    with Cons.prems show ?thesis by (cases p) (auto simp: add_ac)
  next
    case False
    with Cons have "sum_list (map f (gm_put k v m)) + f (k, w) = sum_list (map f m) + f (k, v)"
      by (cases p) auto
    with False show ?thesis by (cases p) (simp add: add.assoc)
  qed
qed

lemma sum_list_del_present:
  fixes f :: "_ \<Rightarrow> 'a :: comm_monoid_add"
  shows "gm_wf m \<Longrightarrow> gm_get m k = Some w \<Longrightarrow>
    sum_list (map f (gm_del k m)) + f (k, w) = sum_list (map f m)"
proof (induction m)
  case Nil
  then show ?case by simp
next
  case (Cons p m)
  show ?case
  proof (cases "fst p = k")
    case True
    with Cons.prems have "k \<notin> fst ` set m" by auto
    with True Cons.prems show ?thesis by (cases p) (auto simp: add_ac)
  next
    case False
    with Cons have "sum_list (map f (gm_del k m)) + f (k, w) = sum_list (map f m)"
      by (cases p) auto
    with False show ?thesis by (cases p) (simp add: add.assoc)
  qed
qed

lemma sum_list_map_cong: "(\<And>x. x \<in> set xs \<Longrightarrow> f x = g x) \<Longrightarrow>
    sum_list (map f xs) = sum_list (map g xs)"
  by (rule arg_cong [of _ _ sum_list]) (simp cong: map_cong)

subsection \<open>Nil-safe getters\<close>

text \<open>\<open>GetX().GetValue()\<close> of a wrapper message and \<open>GetX()\<close> of an optional leaf return the
  zero value of the type when the pointer is nil.\<close>

definition sval :: "string option \<Rightarrow> string" where
  "sval x = (case x of None \<Rightarrow> [] | Some s \<Rightarrow> s)"

definition uval :: "u64 option \<Rightarrow> u64" where
  "uval x = (case x of None \<Rightarrow> 0 | Some u \<Rightarrow> u)"

lemma sval_simps [simp]: "sval None = []" "sval (Some s) = s"
  by (simp_all add: sval_def)

lemma uval_simps [simp]: "uval None = 0" "uval (Some u) = u"
  by (simp_all add: uval_def)

subsection \<open>64-bit counters\<close>

lemma unat_u64_less: "unat (x :: u64) < 2 ^ 64"
proof -
  have "unat x < 2 ^ LENGTH(64)" by (rule unsigned_less)
  then show ?thesis by simp
qed

lemma of_nat_u64_eq_0:
  assumes "n < 2 ^ 64"
  shows "(of_nat n :: u64) = 0 \<longleftrightarrow> n = 0"
  using assms by (auto simp: word_of_nat_eq_0_iff dest: nat_dvd_not_less [rotated])

lemma of_nat_u64_pred: "0 < n \<Longrightarrow> (of_nat n :: u64) - 1 = of_nat (n - 1)"
  by (cases n) simp_all

end
