(* ===== verification/Gribi.thy ===== *)
theory Gribi
  imports Prelude
begin

text \<open>
  The gRIBI protocol buffer messages that gribigo exchanges: the service messages
  (package \<open>spb\<close>) and the AFT payloads (package \<open>aftpb\<close>).  The messages are generated
  from the gRIBI protobufs, which are not part of the repository; the records here carry
  the fields that the repository's code reads or writes.  A pointer to a message or to a
  wrapper value is an \<open>option\<close>; a repeated field is a list, the empty list being the
  nil slice that an absent field decodes to.
\<close>

subsection \<open>Common values\<close>

record Uint128 =
  High :: u64
  Low :: u64

text \<open>The value that \<open>uint128.New(lo, hi)\<close> builds; \<open>Cmp\<close> and \<open>Equals\<close> compare it.\<close>

definition u128 :: "Uint128 \<Rightarrow> int" where
  "u128 i = uint (High i) * 2 ^ 64 + uint (Low i)"

lemma uint_u64_bounds: "0 \<le> uint (x :: u64)" "uint (x :: u64) < 2 ^ 64"
  using uint_lt2p [of x] by simp_all

lemma u128_eq_iff: "u128 a = u128 b \<longleftrightarrow> High a = High b \<and> Low a = Low b"
proof
  assume eq: "u128 a = u128 b"
  have "u128 x mod 2 ^ 64 = uint (Low x)" "u128 x div 2 ^ 64 = uint (High x)" for x :: Uint128
    using uint_u64_bounds [of "Low x"] by (simp_all add: u128_def)
  with eq show "High a = High b \<and> Low a = Low b" by (metis word_uint_eq_iff)
qed (simp add: u128_def)

lemma u128_less_iff:
  "u128 a < u128 b \<longleftrightarrow> High a < High b \<or> High a = High b \<and> Low a < Low b"
proof -
  have "ha * 2 ^ 64 + la < hb * 2 ^ 64 + lb \<longleftrightarrow> ha < hb \<or> ha = hb \<and> la < lb"
    if "0 \<le> la" "la < 2 ^ 64" "0 \<le> lb" "lb < 2 ^ 64" for ha hb la lb :: int
  proof (cases ha hb rule: linorder_cases)
    case less
    then have "(ha + 1) * 2 ^ 64 \<le> hb * 2 ^ 64" by simp
    with less that show ?thesis by (simp add: algebra_simps)
  next
    case greater
    then have "(hb + 1) * 2 ^ 64 \<le> ha * 2 ^ 64" by simp
    with greater that show ?thesis by (simp add: algebra_simps)
  qed simp
  then show ?thesis
    unfolding u128_def word_less_alt word_uint_eq_iff using uint_u64_bounds by blast
qed

subsection \<open>AFT payloads\<close>

record Afts_Ipv4Entry_pb =
  v4pb_NextHopGroup :: "u64 option"
  v4pb_NextHopGroupNetworkInstance :: "string option"
  v4pb_EntryMetadata :: "string option"

record Afts_Ipv4EntryKey =
  v4k_Prefix :: string
  v4k_Ipv4Entry :: "Afts_Ipv4Entry_pb option"

record Afts_Ipv6Entry_pb =
  v6pb_NextHopGroup :: "u64 option"
  v6pb_NextHopGroupNetworkInstance :: "string option"
  v6pb_EntryMetadata :: "string option"

record Afts_Ipv6EntryKey =
  v6k_Prefix :: string
  v6k_Ipv6Entry :: "Afts_Ipv6Entry_pb option"

record Afts_LabelEntry_pb =
  lepb_NextHopGroup :: "u64 option"
  lepb_NextHopGroupNetworkInstance :: "string option"
  lepb_PoppedMplsLabelStack :: "u64 list"

text \<open>The label oneof: the numeric member, or the reserved-label enumeration.\<close>

datatype LabelEntryKey_Label = LabelUint64 u64 | LabelOpenconfig nat

record Afts_LabelEntryKey =
  lek_Label :: "LabelEntryKey_Label option"
  lek_LabelEntry :: "Afts_LabelEntry_pb option"

definition GetLabelUint64 :: "Afts_LabelEntryKey \<Rightarrow> u64" where
  "GetLabelUint64 e = (case lek_Label e of Some (LabelUint64 l) \<Rightarrow> l | _ \<Rightarrow> 0)"

record Afts_NextHopGroup_NextHop_pb =
  nhgnhpb_Weight :: "u64 option"

record Afts_NextHopGroup_NextHopKey =
  nhgnhk_Index :: u64
  nhgnhk_NextHop :: "Afts_NextHopGroup_NextHop_pb option"

record Afts_NextHopGroup_pb =
  nhgpb_NextHop :: "Afts_NextHopGroup_NextHopKey list"
  nhgpb_BackupNextHopGroup :: "u64 option"

record Afts_NextHopGroupKey =
  nhgk_Id :: u64
  nhgk_NextHopGroup :: "Afts_NextHopGroup_pb option"

datatype EncapType = ENCAP_UNSET | ENCAP_IPV4 | ENCAP_MPLS | ENCAP_UDPV4 | ENCAP_UDPV6

record EncapUdp_pb =
  udp_Dscp :: "u64 option"
  udp_DstIp :: "string option"
  udp_DstUdpPort :: "u64 option"
  udp_IpTtl :: "u64 option"
  udp_SrcIp :: "string option"
  udp_SrcUdpPort :: "u64 option"

record Afts_NextHop_EncapHeader_pb =
  eh_Type :: EncapType
  eh_Mpls :: "u64 list option"
  eh_UdpV4 :: "EncapUdp_pb option"
  eh_UdpV6 :: "EncapUdp_pb option"

record Afts_NextHop_InterfaceRef_pb =
  ifr_Interface :: "string option"
  ifr_Subinterface :: "u64 option"

record Afts_NextHop_pb =
  nhpb_IpAddress :: "string option"
  nhpb_InterfaceRef :: "Afts_NextHop_InterfaceRef_pb option"
  nhpb_MacAddress :: "string option"
  nhpb_IpInIp :: "(string option \<times> string option) option"
  nhpb_NetworkInstance :: "string option"
  nhpb_PopTopLabel :: "bool option"
  nhpb_PushedMplsLabelStack :: "u64 list"
  nhpb_EncapHeader :: "(u64 \<times> Afts_NextHop_EncapHeader_pb) list"
  nhpb_DecapsulateHeader :: EncapType
  nhpb_EncapsulateHeader :: EncapType

record Afts_NextHopKey =
  nhk_Index :: u64
  nhk_NextHop :: "Afts_NextHop_pb option"

text \<open>The \<open>aftpb.Afts\<close> message that wraps the entries of a candidate RIB.\<close>

record Afts_pb =
  pb_Ipv4Entry :: "Afts_Ipv4EntryKey list"
  pb_Ipv6Entry :: "Afts_Ipv6EntryKey list"
  pb_LabelEntry :: "Afts_LabelEntryKey list"
  pb_NextHopGroup :: "Afts_NextHopGroupKey list"
  pb_NextHop :: "Afts_NextHopKey list"

definition empty_Afts_pb :: Afts_pb where
  "empty_Afts_pb = \<lparr>pb_Ipv4Entry = [], pb_Ipv6Entry = [], pb_LabelEntry = [],
     pb_NextHopGroup = [], pb_NextHop = []\<rparr>"

subsection \<open>Modify\<close>

datatype AFTOperation_Operation = Op_INVALID | Op_ADD | Op_REPLACE | Op_DELETE

text \<open>
  The \<open>entry\<close> oneof of an operation.  Each member holds a pointer that may be nil;
  \<open>OtherEntry\<close> stands for the members (MAC, policy forwarding) gribigo does not handle.
\<close>

datatype AFTOperation_Entry =
    AFTOp_Ipv4 "Afts_Ipv4EntryKey option"
  | AFTOp_Ipv6 "Afts_Ipv6EntryKey option"
  | AFTOp_Mpls "Afts_LabelEntryKey option"
  | AFTOp_NextHopGroup "Afts_NextHopGroupKey option"
  | AFTOp_NextHop "Afts_NextHopKey option"
  | OtherEntry

record AFTOperation =
  op_Id :: u64
  op_NetworkInstance :: string
  op_Op :: AFTOperation_Operation
  op_Entry :: "AFTOperation_Entry option"
  op_ElectionId :: "Uint128 option"

datatype Redundancy = ALL_PRIMARY | SINGLE_PRIMARY
datatype Persistence = Persist_DELETE | PRESERVE
datatype AckType = RIB_ACK | RIB_AND_FIB_ACK

record SessionParameters =
  sp_Redundancy :: Redundancy
  sp_Persistence :: Persistence
  sp_AckType :: AckType

record ModifyRequest =
  mreq_Operation :: "AFTOperation list"
  mreq_ElectionId :: "Uint128 option"
  mreq_Params :: "SessionParameters option"

datatype AFTResult_Status =
  Res_UNSET | Res_OK | Res_FAILED | RIB_PROGRAMMED | FIB_PROGRAMMED | FIB_FAILED

datatype SessionParametersResult = SessionParams_OK

subsection \<open>Get and Flush\<close>

datatype AFTType =
  AFT_INVALID | AFT_ALL | AFT_IPV4 | AFT_IPV6 | AFT_MPLS | AFT_NEXTHOP | AFT_NEXTHOP_GROUP
  | AFT_OTHER

datatype AFTEntry_Entry =
    AFTEntry_Ipv4 "Afts_Ipv4EntryKey"
  | AFTEntry_Ipv6 "Afts_Ipv6EntryKey"
  | AFTEntry_Mpls "Afts_LabelEntryKey"
  | AFTEntry_NextHopGroup "Afts_NextHopGroupKey"
  | AFTEntry_NextHop "Afts_NextHopKey"
  | AFTEntry_Other

record AFTEntry =
  ae_NetworkInstance :: string
  ae_Entry :: "AFTEntry_Entry option"

text \<open>The network-instance oneof of Get and Flush requests.\<close>

datatype NetworkInstanceSel = NI_All | NI_Name string

record GetRequest =
  get_NetworkInstance :: "NetworkInstanceSel option"
  get_Aft :: AFTType

type_synonym GetResponse = "AFTEntry list"

datatype FlushElection = Flush_Id Uint128 | Flush_Override

record FlushRequest =
  flush_NetworkInstance :: "NetworkInstanceSel option"
  flush_Election :: "FlushElection option"

end
