(* ===== verification/Constants.thy ===== *)
theory Constants
  imports Gribi
begin

text \<open>
  Package \<open>constants\<close> (\<open>constants/const.go\<close>): the operation types and AFT names shared by
  the RIB, the client and the hooks, and their translation from and to the protobuf
  enumerations.  A Go map literal read at a missing key gives the zero value of the
  enumeration, which is the constructor listed first.
\<close>

datatype OpType = OpType_unset | Add | Delete | Replace

definition OpType_String :: "OpType \<Rightarrow> string" where
  "OpType_String o' = (case o' of
     Add \<Rightarrow> ''Add'' | Delete \<Rightarrow> ''Delete'' | Replace \<Rightarrow> ''Replace'' | OpType_unset \<Rightarrow> '''')"

definition OpFromAFTOp :: "AFTOperation_Operation \<Rightarrow> OpType" where
  "OpFromAFTOp o' = (case o' of
     Op_ADD \<Rightarrow> Add | Op_DELETE \<Rightarrow> Delete | Op_REPLACE \<Rightarrow> Replace | Op_INVALID \<Rightarrow> OpType_unset)"

datatype AFT = AFT_unset | All | IPv4 | NextHop | NextHopGroup | MPLS | IPv6

definition AFT_String :: "AFT \<Rightarrow> string" where
  "AFT_String a = (case a of
     All \<Rightarrow> ''ALL'' | IPv4 \<Rightarrow> ''IPv4'' | NextHop \<Rightarrow> ''NextHop'' | NextHopGroup \<Rightarrow> ''NextHopGroup''
   | MPLS \<Rightarrow> ''MPLS'' | IPv6 \<Rightarrow> ''IPv6'' | AFT_unset \<Rightarrow> '''')"

text \<open>\<open>aftMap\<close> has no entry for \<open>MPLS\<close>, so its lookup gives the zero value \<open>AFTType_INVALID\<close>.\<close>

definition AFTTypeFromAFT :: "AFT \<Rightarrow> AFTType" where
  "AFTTypeFromAFT a = (case a of
     All \<Rightarrow> AFT_ALL | IPv4 \<Rightarrow> AFT_IPV4 | IPv6 \<Rightarrow> AFT_IPV6 | NextHop \<Rightarrow> AFT_NEXTHOP
   | NextHopGroup \<Rightarrow> AFT_NEXTHOP_GROUP | MPLS \<Rightarrow> AFT_INVALID | AFT_unset \<Rightarrow> AFT_INVALID)"

end
