(* ===== verification/AftStructs.thy ===== *)
theory AftStructs
  imports Constants
begin

text \<open>
  The structs of \<open>aft/oc.go\<close>, generated by ygot from the gRIBI AFT schema, field by field: the
  AFTs and the entries of their lists.

  A generated map field is a Go map (\<^typ>\<open>('k, 'v) gomap\<close>, the nil map and the empty one being
  the same), a pointer an \<open>option\<close>, a slice a list with the nil slice as the empty one, a
  \<open>Binary\<close> leaf an optional byte string.  An enumerated leaf holds its \<open>int64\<close> value, zero
  when it is unset.  The value of an entry that a \<open>New\<close> method puts into its list, all fields
  nil but the key, has the name of the method.
\<close>

subsection \<open>Leaves\<close>

type_synonym u16 = "16 word"
type_synonym u8 = "8 word"

type_synonym E_AftTypes_EncapsulationHeaderType = int
type_synonym E_MplsTypes_MplsLabel_Enum = int
type_synonym E_PacketMatchTypes_IP_PROTOCOL = int

text \<open>
  The unions of a label: the label-stack leaves and the label of a policy have the same two
  members as the key of a label entry.
\<close>

datatype Label_Union = UnionUint32 u32 | E_MplsLabel_Enum E_MplsTypes_MplsLabel_Enum

datatype IpProtocol_Union = UnionUint8 u8 | E_IP_PROTOCOL E_PacketMatchTypes_IP_PROTOCOL

subsection \<open>The entries of the AFTs\<close>

record Afts_Ipv4Entry =
  v4_DecapsulateHeader :: E_AftTypes_EncapsulationHeaderType
  v4_EntryMetadata :: "string option"
  v4_NextHopGroup :: "u64 option"
  v4_NextHopGroupNetworkInstance :: "string option"
  v4_Prefix :: "string option"

definition NewIpv4Entry :: "string \<Rightarrow> Afts_Ipv4Entry" where
  "NewIpv4Entry k = \<lparr>v4_DecapsulateHeader = 0, v4_EntryMetadata = None,
     v4_NextHopGroup = None, v4_NextHopGroupNetworkInstance = None, v4_Prefix = Some k\<rparr>"

record Afts_Ipv6Entry =
  v6_DecapsulateHeader :: E_AftTypes_EncapsulationHeaderType
  v6_EntryMetadata :: "string option"
  v6_NextHopGroup :: "u64 option"
  v6_NextHopGroupNetworkInstance :: "string option"
  v6_Prefix :: "string option"

definition NewIpv6Entry :: "string \<Rightarrow> Afts_Ipv6Entry" where
  "NewIpv6Entry k = \<lparr>v6_DecapsulateHeader = 0, v6_EntryMetadata = None,
     v6_NextHopGroup = None, v6_NextHopGroupNetworkInstance = None, v6_Prefix = Some k\<rparr>"

record Afts_LabelEntry =
  le_EntryMetadata :: "string option"
  le_Label :: "Label_Union option"
  le_NextHopGroup :: "u64 option"
  le_NextHopGroupNetworkInstance :: "string option"
  le_PoppedMplsLabelStack :: "Label_Union list"

definition NewLabelEntry :: "Label_Union \<Rightarrow> Afts_LabelEntry" where
  "NewLabelEntry k = \<lparr>le_EntryMetadata = None, le_Label = Some k,
     le_NextHopGroup = None, le_NextHopGroupNetworkInstance = None, le_PoppedMplsLabelStack = []\<rparr>"

record Afts_MacEntry =
  mac_EntryMetadata :: "string option"
  mac_MacAddress :: "string option"
  mac_NextHopGroup :: "u64 option"
  mac_NextHopGroupNetworkInstance :: "string option"

definition NewMacEntry :: "string \<Rightarrow> Afts_MacEntry" where
  "NewMacEntry k = \<lparr>mac_EntryMetadata = None, mac_MacAddress = Some k,
     mac_NextHopGroup = None, mac_NextHopGroupNetworkInstance = None\<rparr>"

record Afts_PolicyForwardingEntry =
  pf_EntryMetadata :: "string option"
  pf_Index :: "u64 option"
  pf_IpDscp :: "u8 option"
  pf_IpPrefix :: "string option"
  pf_IpProtocol :: "IpProtocol_Union option"
  pf_L4DstPort :: "u16 option"
  pf_L4SrcPort :: "u16 option"
  pf_MacAddress :: "string option"
  pf_MplsLabel :: "Label_Union option"
  pf_MplsTc :: "u8 option"
  pf_NextHopGroup :: "u64 option"
  pf_NextHopGroupNetworkInstance :: "string option"

definition NewPolicyForwardingEntry :: "u64 \<Rightarrow> Afts_PolicyForwardingEntry" where
  "NewPolicyForwardingEntry k = \<lparr>pf_EntryMetadata = None, pf_Index = Some k,
     pf_IpDscp = None, pf_IpPrefix = None, pf_IpProtocol = None, pf_L4DstPort = None,
     pf_L4SrcPort = None, pf_MacAddress = None, pf_MplsLabel = None, pf_MplsTc = None,
     pf_NextHopGroup = None, pf_NextHopGroupNetworkInstance = None\<rparr>"

record Afts_NextHopGroup_NextHop =
  nhgnh_Index :: "u64 option"
  nhgnh_Weight :: "u64 option"

definition NewNHG_NextHop :: "u64 \<Rightarrow> Afts_NextHopGroup_NextHop" where
  "NewNHG_NextHop k = \<lparr>nhgnh_Index = Some k, nhgnh_Weight = None\<rparr>"

record Afts_NextHopGroup =
  nhg_BackupNextHopGroup :: "u64 option"
  nhg_Color :: "u64 option"
  nhg_Id :: "u64 option"
  nhg_NextHop :: "(u64, Afts_NextHopGroup_NextHop) gomap"

definition NewNextHopGroup :: "u64 \<Rightarrow> Afts_NextHopGroup" where
  "NewNextHopGroup k = \<lparr>nhg_BackupNextHopGroup = None, nhg_Color = None,
     nhg_Id = Some k, nhg_NextHop = []\<rparr>"

subsection \<open>Next-hops\<close>

record Afts_NextHop_Gre =
  nhgre_DstIp :: "string option"
  nhgre_SrcIp :: "string option"
  nhgre_Ttl :: "u8 option"

definition zero_NextHop_Gre :: Afts_NextHop_Gre where
  "zero_NextHop_Gre = \<lparr>nhgre_DstIp = None, nhgre_SrcIp = None, nhgre_Ttl = None\<rparr>"

record Afts_NextHop_InterfaceRef =
  nhif_Interface :: "string option"
  nhif_Subinterface :: "u32 option"

definition zero_NextHop_InterfaceRef :: Afts_NextHop_InterfaceRef where
  "zero_NextHop_InterfaceRef = \<lparr>nhif_Interface = None, nhif_Subinterface = None\<rparr>"

record Afts_NextHop_IpInIp =
  nhip_DstIp :: "string option"
  nhip_SrcIp :: "string option"

definition zero_NextHop_IpInIp :: Afts_NextHop_IpInIp where
  "zero_NextHop_IpInIp = \<lparr>nhip_DstIp = None, nhip_SrcIp = None\<rparr>"

record Afts_NextHop_EncapHeader_Gre =
  ehgre_DstIp :: "string option"
  ehgre_SrcIp :: "string option"
  ehgre_Ttl :: "u8 option"

definition zero_NextHop_EncapHeader_Gre :: Afts_NextHop_EncapHeader_Gre where
  "zero_NextHop_EncapHeader_Gre = \<lparr>ehgre_DstIp = None, ehgre_SrcIp = None,
     ehgre_Ttl = None\<rparr>"

record Afts_NextHop_EncapHeader_Ipv4 =
  ehv4_DstIp :: "string option"
  ehv4_SrcIp :: "string option"

definition zero_NextHop_EncapHeader_Ipv4 :: Afts_NextHop_EncapHeader_Ipv4 where
  "zero_NextHop_EncapHeader_Ipv4 = \<lparr>ehv4_DstIp = None, ehv4_SrcIp = None\<rparr>"

record Afts_NextHop_EncapHeader_Ipv6 =
  ehv6_DstIp :: "string option"
  ehv6_SrcIp :: "string option"

definition zero_NextHop_EncapHeader_Ipv6 :: Afts_NextHop_EncapHeader_Ipv6 where
  "zero_NextHop_EncapHeader_Ipv6 = \<lparr>ehv6_DstIp = None, ehv6_SrcIp = None\<rparr>"

record Afts_NextHop_EncapHeader_Mpls =
  ehmpls_MplsLabelStack :: "Label_Union list"
  ehmpls_TrafficClass :: "u8 option"

definition zero_NextHop_EncapHeader_Mpls :: Afts_NextHop_EncapHeader_Mpls where
  "zero_NextHop_EncapHeader_Mpls = \<lparr>ehmpls_MplsLabelStack = [],
     ehmpls_TrafficClass = None\<rparr>"

record Afts_NextHop_EncapHeader_UdpV4 =
  ehudp4_Dscp :: "u8 option"
  ehudp4_DstIp :: "string option"
  ehudp4_DstUdpPort :: "u16 option"
  ehudp4_IpTtl :: "u8 option"
  ehudp4_SrcIp :: "string option"
  ehudp4_SrcUdpPort :: "u16 option"

definition zero_NextHop_EncapHeader_UdpV4 :: Afts_NextHop_EncapHeader_UdpV4 where
  "zero_NextHop_EncapHeader_UdpV4 = \<lparr>ehudp4_Dscp = None, ehudp4_DstIp = None,
     ehudp4_DstUdpPort = None, ehudp4_IpTtl = None, ehudp4_SrcIp = None,
     ehudp4_SrcUdpPort = None\<rparr>"

record Afts_NextHop_EncapHeader_UdpV6 =
  ehudp6_Dscp :: "u8 option"
  ehudp6_DstIp :: "string option"
  ehudp6_DstUdpPort :: "u16 option"
  ehudp6_IpTtl :: "u8 option"
  ehudp6_SrcIp :: "string option"
  ehudp6_SrcUdpPort :: "u16 option"

definition zero_NextHop_EncapHeader_UdpV6 :: Afts_NextHop_EncapHeader_UdpV6 where
  "zero_NextHop_EncapHeader_UdpV6 = \<lparr>ehudp6_Dscp = None, ehudp6_DstIp = None,
     ehudp6_DstUdpPort = None, ehudp6_IpTtl = None, ehudp6_SrcIp = None,
     ehudp6_SrcUdpPort = None\<rparr>"

record Afts_NextHop_EncapHeader =
  nheh_Gre :: "Afts_NextHop_EncapHeader_Gre option"
  nheh_Index :: "u8 option"
  nheh_Ipv4 :: "Afts_NextHop_EncapHeader_Ipv4 option"
  nheh_Ipv6 :: "Afts_NextHop_EncapHeader_Ipv6 option"
  nheh_Mpls :: "Afts_NextHop_EncapHeader_Mpls option"
  nheh_Type :: E_AftTypes_EncapsulationHeaderType
  nheh_UdpV4 :: "Afts_NextHop_EncapHeader_UdpV4 option"
  nheh_UdpV6 :: "Afts_NextHop_EncapHeader_UdpV6 option"

definition NewEncapHeader :: "u8 \<Rightarrow> Afts_NextHop_EncapHeader" where
  "NewEncapHeader k = \<lparr>nheh_Gre = None, nheh_Index = Some k, nheh_Ipv4 = None,
     nheh_Ipv6 = None, nheh_Mpls = None, nheh_Type = 0, nheh_UdpV4 = None, nheh_UdpV6 = None\<rparr>"

record Afts_NextHop =
  nh_DecapsulateHeader :: E_AftTypes_EncapsulationHeaderType
  nh_EncapHeader :: "(u8, Afts_NextHop_EncapHeader) gomap"
  nh_EncapsulateHeader :: E_AftTypes_EncapsulationHeaderType
  nh_Gre :: "Afts_NextHop_Gre option"
  nh_Index :: "u64 option"
  nh_InterfaceRef :: "Afts_NextHop_InterfaceRef option"
  nh_IpAddress :: "string option"
  nh_IpInIp :: "Afts_NextHop_IpInIp option"
  nh_MacAddress :: "string option"
  nh_NetworkInstance :: "string option"
  nh_PopTopLabel :: "bool option"
  nh_PushedMplsLabelStack :: "Label_Union list"
  nh_TunnelSrcIpAddress :: "string option"
  nh_VniLabel :: "u32 option"

definition NewNextHop :: "u64 \<Rightarrow> Afts_NextHop" where
  "NewNextHop k = \<lparr>nh_DecapsulateHeader = 0, nh_EncapHeader = [],
     nh_EncapsulateHeader = 0, nh_Gre = None, nh_Index = Some k, nh_InterfaceRef = None,
     nh_IpAddress = None, nh_IpInIp = None, nh_MacAddress = None, nh_NetworkInstance = None,
     nh_PopTopLabel = None, nh_PushedMplsLabelStack = [], nh_TunnelSrcIpAddress = None,
     nh_VniLabel = None\<rparr>"

subsection \<open>AFTs\<close>

record Afts =
  Ipv4Entry :: "(string, Afts_Ipv4Entry) gomap"
  Ipv6Entry :: "(string, Afts_Ipv6Entry) gomap"
  LabelEntry :: "(Label_Union, Afts_LabelEntry) gomap"
  MacEntry :: "(string, Afts_MacEntry) gomap"
  aft_NextHop :: "(u64, Afts_NextHop) gomap"
  aft_NextHopGroup :: "(u64, Afts_NextHopGroup) gomap"
  PolicyForwardingEntry :: "(u64, Afts_PolicyForwardingEntry) gomap"

definition empty_Afts :: Afts where
  "empty_Afts = \<lparr>Ipv4Entry = [], Ipv6Entry = [], LabelEntry = [], MacEntry = [],
     aft_NextHop = [], aft_NextHopGroup = [], PolicyForwardingEntry = []\<rparr>"

end
