(* ===== verification/AftAccess.thy ===== *)
theory AftAccess
  imports AftStructs
begin

text \<open>
  The methods that \<open>aft/oc.go\<close> generates for the lists and containers of its structs, under the
  name of the struct and the method.  Each list has the same five: \<open>New\<close> refuses a key in use,
  \<open>GetOrCreate\<close> creates a missing entry, \<open>Get\<close> is safe on a nil receiver, \<open>Delete\<close> ignores a
  missing key, \<open>GetOrCreate...Map\<close> returns the map itself.  A container has \<open>Get\<close> and
  \<open>GetOrCreate\<close>.  A method that changes its receiver returns it with the result; the pointer
  to an entry that it returns is the entry's value.
\<close>

subsection \<open>The common shape\<close>

text \<open>\<open>fmt.Errorf("duplicate key ...")\<close> with the name of the list, and the error of a nil key leaf.\<close>

datatype list_err = DuplicateKey string | NilKey string

text \<open>The body of a \<open>New\<close> method on its map, given the struct literal of a new entry.\<close>

definition list_new ::
    "string \<Rightarrow> ('k \<Rightarrow> 'e) \<Rightarrow> 'k \<Rightarrow> ('k, 'e) gomap \<Rightarrow> (list_err + 'e) \<times> ('k, 'e) gomap" where
  "list_new name fresh k m =
     (case gm_get m k of
        Some _ \<Rightarrow> (Inl (DuplicateKey name), m)
      | None \<Rightarrow> (Inr (fresh k), gm_put k (fresh k) m))"

text \<open>\<open>GetOrCreate\<close> panics (\<open>None\<close>) when the \<open>New\<close> method of the list returns an error.\<close>

definition list_get_or_create ::
    "('s \<Rightarrow> ('k, 'e) gomap) \<Rightarrow> ('k \<Rightarrow> 's \<Rightarrow> (list_err + 'e) \<times> 's) \<Rightarrow> 'k \<Rightarrow> 's \<Rightarrow> 'e option \<times> 's" where
  "list_get_or_create field new k t =
     (case gm_get (field t) k of
        Some v \<Rightarrow> (Some v, t)
      | None \<Rightarrow>
         (case new k t of
            (Inl _, t') \<Rightarrow> (None, t')
          | (Inr v, t') \<Rightarrow> (Some v, t')))"

definition list_get :: "('s \<Rightarrow> ('k, 'e) gomap) \<Rightarrow> 'k \<Rightarrow> 's option \<Rightarrow> 'e option" where
  "list_get field k t = (case t of None \<Rightarrow> None | Some s \<Rightarrow> gm_get (field s) k)"

text \<open>\<open>Get\<close> of a container: nil for a nil receiver and for a nil field.\<close>

definition container :: "('s \<Rightarrow> 'c option) \<Rightarrow> 's option \<Rightarrow> 'c option" where
  "container field t = (case t of None \<Rightarrow> None | Some s \<Rightarrow> field s)"

subsection \<open>The lists of the AFTs\<close>

definition Afts_NewIpv4Entry :: "string \<Rightarrow> Afts \<Rightarrow> (list_err + Afts_Ipv4Entry) \<times> Afts" where
  "Afts_NewIpv4Entry k t = (case list_new ''Ipv4Entry'' NewIpv4Entry k (Ipv4Entry t) of (r, m) \<Rightarrow> (r, t\<lparr>Ipv4Entry := m\<rparr>))"

definition Afts_GetOrCreateIpv4EntryMap :: "Afts \<Rightarrow> (string, Afts_Ipv4Entry) gomap \<times> Afts" where
  "Afts_GetOrCreateIpv4EntryMap t = (Ipv4Entry t, t)"

definition Afts_GetOrCreateIpv4Entry :: "string \<Rightarrow> Afts \<Rightarrow> Afts_Ipv4Entry option \<times> Afts" where
  "Afts_GetOrCreateIpv4Entry = list_get_or_create Ipv4Entry Afts_NewIpv4Entry"

definition Afts_GetIpv4Entry :: "string \<Rightarrow> Afts option \<Rightarrow> Afts_Ipv4Entry option" where
  "Afts_GetIpv4Entry = list_get Ipv4Entry"

definition Afts_DeleteIpv4Entry :: "string \<Rightarrow> Afts \<Rightarrow> Afts" where
  "Afts_DeleteIpv4Entry k t = t\<lparr>Ipv4Entry := gm_del k (Ipv4Entry t)\<rparr>"

definition Afts_NewIpv6Entry :: "string \<Rightarrow> Afts \<Rightarrow> (list_err + Afts_Ipv6Entry) \<times> Afts" where
  "Afts_NewIpv6Entry k t = (case list_new ''Ipv6Entry'' NewIpv6Entry k (Ipv6Entry t) of (r, m) \<Rightarrow> (r, t\<lparr>Ipv6Entry := m\<rparr>))"

definition Afts_GetOrCreateIpv6EntryMap :: "Afts \<Rightarrow> (string, Afts_Ipv6Entry) gomap \<times> Afts" where
  "Afts_GetOrCreateIpv6EntryMap t = (Ipv6Entry t, t)"

definition Afts_GetOrCreateIpv6Entry :: "string \<Rightarrow> Afts \<Rightarrow> Afts_Ipv6Entry option \<times> Afts" where
  "Afts_GetOrCreateIpv6Entry = list_get_or_create Ipv6Entry Afts_NewIpv6Entry"

definition Afts_GetIpv6Entry :: "string \<Rightarrow> Afts option \<Rightarrow> Afts_Ipv6Entry option" where
  "Afts_GetIpv6Entry = list_get Ipv6Entry"

definition Afts_DeleteIpv6Entry :: "string \<Rightarrow> Afts \<Rightarrow> Afts" where
  "Afts_DeleteIpv6Entry k t = t\<lparr>Ipv6Entry := gm_del k (Ipv6Entry t)\<rparr>"

definition Afts_NewLabelEntry :: "Label_Union \<Rightarrow> Afts \<Rightarrow> (list_err + Afts_LabelEntry) \<times> Afts" where
  "Afts_NewLabelEntry k t = (case list_new ''LabelEntry'' NewLabelEntry k (LabelEntry t) of (r, m) \<Rightarrow> (r, t\<lparr>LabelEntry := m\<rparr>))"

definition Afts_GetOrCreateLabelEntryMap :: "Afts \<Rightarrow> (Label_Union, Afts_LabelEntry) gomap \<times> Afts" where
  "Afts_GetOrCreateLabelEntryMap t = (LabelEntry t, t)"

definition Afts_GetOrCreateLabelEntry :: "Label_Union \<Rightarrow> Afts \<Rightarrow> Afts_LabelEntry option \<times> Afts" where
  "Afts_GetOrCreateLabelEntry = list_get_or_create LabelEntry Afts_NewLabelEntry"

definition Afts_GetLabelEntry :: "Label_Union \<Rightarrow> Afts option \<Rightarrow> Afts_LabelEntry option" where
  "Afts_GetLabelEntry = list_get LabelEntry"

definition Afts_DeleteLabelEntry :: "Label_Union \<Rightarrow> Afts \<Rightarrow> Afts" where
  "Afts_DeleteLabelEntry k t = t\<lparr>LabelEntry := gm_del k (LabelEntry t)\<rparr>"

definition Afts_NewMacEntry :: "string \<Rightarrow> Afts \<Rightarrow> (list_err + Afts_MacEntry) \<times> Afts" where
  "Afts_NewMacEntry k t = (case list_new ''MacEntry'' NewMacEntry k (MacEntry t) of (r, m) \<Rightarrow> (r, t\<lparr>MacEntry := m\<rparr>))"

definition Afts_GetOrCreateMacEntryMap :: "Afts \<Rightarrow> (string, Afts_MacEntry) gomap \<times> Afts" where
  "Afts_GetOrCreateMacEntryMap t = (MacEntry t, t)"

definition Afts_GetOrCreateMacEntry :: "string \<Rightarrow> Afts \<Rightarrow> Afts_MacEntry option \<times> Afts" where
  "Afts_GetOrCreateMacEntry = list_get_or_create MacEntry Afts_NewMacEntry"

definition Afts_GetMacEntry :: "string \<Rightarrow> Afts option \<Rightarrow> Afts_MacEntry option" where
  "Afts_GetMacEntry = list_get MacEntry"

definition Afts_DeleteMacEntry :: "string \<Rightarrow> Afts \<Rightarrow> Afts" where
  "Afts_DeleteMacEntry k t = t\<lparr>MacEntry := gm_del k (MacEntry t)\<rparr>"

definition Afts_NewNextHop :: "u64 \<Rightarrow> Afts \<Rightarrow> (list_err + Afts_NextHop) \<times> Afts" where
  "Afts_NewNextHop k t = (case list_new ''NextHop'' NewNextHop k (aft_NextHop t) of (r, m) \<Rightarrow> (r, t\<lparr>aft_NextHop := m\<rparr>))"

definition Afts_GetOrCreateNextHopMap :: "Afts \<Rightarrow> (u64, Afts_NextHop) gomap \<times> Afts" where
  "Afts_GetOrCreateNextHopMap t = (aft_NextHop t, t)"

definition Afts_GetOrCreateNextHop :: "u64 \<Rightarrow> Afts \<Rightarrow> Afts_NextHop option \<times> Afts" where
  "Afts_GetOrCreateNextHop = list_get_or_create aft_NextHop Afts_NewNextHop"

definition Afts_GetNextHop :: "u64 \<Rightarrow> Afts option \<Rightarrow> Afts_NextHop option" where
  "Afts_GetNextHop = list_get aft_NextHop"

definition Afts_DeleteNextHop :: "u64 \<Rightarrow> Afts \<Rightarrow> Afts" where
  "Afts_DeleteNextHop k t = t\<lparr>aft_NextHop := gm_del k (aft_NextHop t)\<rparr>"

definition Afts_NewNextHopGroup :: "u64 \<Rightarrow> Afts \<Rightarrow> (list_err + Afts_NextHopGroup) \<times> Afts" where
  "Afts_NewNextHopGroup k t = (case list_new ''NextHopGroup'' NewNextHopGroup k (aft_NextHopGroup t) of (r, m) \<Rightarrow> (r, t\<lparr>aft_NextHopGroup := m\<rparr>))"

definition Afts_GetOrCreateNextHopGroupMap :: "Afts \<Rightarrow> (u64, Afts_NextHopGroup) gomap \<times> Afts" where
  "Afts_GetOrCreateNextHopGroupMap t = (aft_NextHopGroup t, t)"

definition Afts_GetOrCreateNextHopGroup :: "u64 \<Rightarrow> Afts \<Rightarrow> Afts_NextHopGroup option \<times> Afts" where
  "Afts_GetOrCreateNextHopGroup = list_get_or_create aft_NextHopGroup Afts_NewNextHopGroup"

definition Afts_GetNextHopGroup :: "u64 \<Rightarrow> Afts option \<Rightarrow> Afts_NextHopGroup option" where
  "Afts_GetNextHopGroup = list_get aft_NextHopGroup"

definition Afts_DeleteNextHopGroup :: "u64 \<Rightarrow> Afts \<Rightarrow> Afts" where
  "Afts_DeleteNextHopGroup k t = t\<lparr>aft_NextHopGroup := gm_del k (aft_NextHopGroup t)\<rparr>"

definition Afts_NewPolicyForwardingEntry :: "u64 \<Rightarrow> Afts \<Rightarrow> (list_err + Afts_PolicyForwardingEntry) \<times> Afts" where
  "Afts_NewPolicyForwardingEntry k t = (case list_new ''PolicyForwardingEntry'' NewPolicyForwardingEntry k (PolicyForwardingEntry t) of (r, m) \<Rightarrow> (r, t\<lparr>PolicyForwardingEntry := m\<rparr>))"

definition Afts_GetOrCreatePolicyForwardingEntryMap :: "Afts \<Rightarrow> (u64, Afts_PolicyForwardingEntry) gomap \<times> Afts" where
  "Afts_GetOrCreatePolicyForwardingEntryMap t = (PolicyForwardingEntry t, t)"

definition Afts_GetOrCreatePolicyForwardingEntry :: "u64 \<Rightarrow> Afts \<Rightarrow> Afts_PolicyForwardingEntry option \<times> Afts" where
  "Afts_GetOrCreatePolicyForwardingEntry = list_get_or_create PolicyForwardingEntry Afts_NewPolicyForwardingEntry"

definition Afts_GetPolicyForwardingEntry :: "u64 \<Rightarrow> Afts option \<Rightarrow> Afts_PolicyForwardingEntry option" where
  "Afts_GetPolicyForwardingEntry = list_get PolicyForwardingEntry"

definition Afts_DeletePolicyForwardingEntry :: "u64 \<Rightarrow> Afts \<Rightarrow> Afts" where
  "Afts_DeletePolicyForwardingEntry k t = t\<lparr>PolicyForwardingEntry := gm_del k (PolicyForwardingEntry t)\<rparr>"

subsection \<open>Next-hops of a group\<close>

definition Afts_NextHopGroup_NewNextHop :: "u64 \<Rightarrow> Afts_NextHopGroup \<Rightarrow> (list_err + Afts_NextHopGroup_NextHop) \<times> Afts_NextHopGroup" where
  "Afts_NextHopGroup_NewNextHop k t = (case list_new ''NextHop'' NewNHG_NextHop k (nhg_NextHop t) of (r, m) \<Rightarrow> (r, t\<lparr>nhg_NextHop := m\<rparr>))"

definition Afts_NextHopGroup_GetOrCreateNextHopMap :: "Afts_NextHopGroup \<Rightarrow> (u64, Afts_NextHopGroup_NextHop) gomap \<times> Afts_NextHopGroup" where
  "Afts_NextHopGroup_GetOrCreateNextHopMap t = (nhg_NextHop t, t)"

definition Afts_NextHopGroup_GetOrCreateNextHop :: "u64 \<Rightarrow> Afts_NextHopGroup \<Rightarrow> Afts_NextHopGroup_NextHop option \<times> Afts_NextHopGroup" where
  "Afts_NextHopGroup_GetOrCreateNextHop = list_get_or_create nhg_NextHop Afts_NextHopGroup_NewNextHop"

definition Afts_NextHopGroup_GetNextHop :: "u64 \<Rightarrow> Afts_NextHopGroup option \<Rightarrow> Afts_NextHopGroup_NextHop option" where
  "Afts_NextHopGroup_GetNextHop = list_get nhg_NextHop"

definition Afts_NextHopGroup_DeleteNextHop :: "u64 \<Rightarrow> Afts_NextHopGroup \<Rightarrow> Afts_NextHopGroup" where
  "Afts_NextHopGroup_DeleteNextHop k t = t\<lparr>nhg_NextHop := gm_del k (nhg_NextHop t)\<rparr>"

subsection \<open>Encapsulation headers and containers of a next-hop\<close>

definition Afts_NextHop_NewEncapHeader :: "u8 \<Rightarrow> Afts_NextHop \<Rightarrow> (list_err + Afts_NextHop_EncapHeader) \<times> Afts_NextHop" where
  "Afts_NextHop_NewEncapHeader k t = (case list_new ''EncapHeader'' NewEncapHeader k (nh_EncapHeader t) of (r, m) \<Rightarrow> (r, t\<lparr>nh_EncapHeader := m\<rparr>))"

definition Afts_NextHop_GetOrCreateEncapHeaderMap :: "Afts_NextHop \<Rightarrow> (u8, Afts_NextHop_EncapHeader) gomap \<times> Afts_NextHop" where
  "Afts_NextHop_GetOrCreateEncapHeaderMap t = (nh_EncapHeader t, t)"

definition Afts_NextHop_GetOrCreateEncapHeader :: "u8 \<Rightarrow> Afts_NextHop \<Rightarrow> Afts_NextHop_EncapHeader option \<times> Afts_NextHop" where
  "Afts_NextHop_GetOrCreateEncapHeader = list_get_or_create nh_EncapHeader Afts_NextHop_NewEncapHeader"

definition Afts_NextHop_GetEncapHeader :: "u8 \<Rightarrow> Afts_NextHop option \<Rightarrow> Afts_NextHop_EncapHeader option" where
  "Afts_NextHop_GetEncapHeader = list_get nh_EncapHeader"

definition Afts_NextHop_DeleteEncapHeader :: "u8 \<Rightarrow> Afts_NextHop \<Rightarrow> Afts_NextHop" where
  "Afts_NextHop_DeleteEncapHeader k t = t\<lparr>nh_EncapHeader := gm_del k (nh_EncapHeader t)\<rparr>"

definition Afts_NextHop_GetOrCreateGre :: "Afts_NextHop \<Rightarrow> Afts_NextHop_Gre \<times> Afts_NextHop" where
  "Afts_NextHop_GetOrCreateGre t = (case nh_Gre t of Some v \<Rightarrow> (v, t) | None \<Rightarrow> (zero_NextHop_Gre, t\<lparr>nh_Gre := Some zero_NextHop_Gre\<rparr>))"

definition Afts_NextHop_GetGre :: "Afts_NextHop option \<Rightarrow> Afts_NextHop_Gre option" where
  "Afts_NextHop_GetGre = container nh_Gre"

definition Afts_NextHop_GetOrCreateInterfaceRef :: "Afts_NextHop \<Rightarrow> Afts_NextHop_InterfaceRef \<times> Afts_NextHop" where
  "Afts_NextHop_GetOrCreateInterfaceRef t = (case nh_InterfaceRef t of Some v \<Rightarrow> (v, t) | None \<Rightarrow> (zero_NextHop_InterfaceRef, t\<lparr>nh_InterfaceRef := Some zero_NextHop_InterfaceRef\<rparr>))"

definition Afts_NextHop_GetInterfaceRef :: "Afts_NextHop option \<Rightarrow> Afts_NextHop_InterfaceRef option" where
  "Afts_NextHop_GetInterfaceRef = container nh_InterfaceRef"

definition Afts_NextHop_GetOrCreateIpInIp :: "Afts_NextHop \<Rightarrow> Afts_NextHop_IpInIp \<times> Afts_NextHop" where
  "Afts_NextHop_GetOrCreateIpInIp t = (case nh_IpInIp t of Some v \<Rightarrow> (v, t) | None \<Rightarrow> (zero_NextHop_IpInIp, t\<lparr>nh_IpInIp := Some zero_NextHop_IpInIp\<rparr>))"

definition Afts_NextHop_GetIpInIp :: "Afts_NextHop option \<Rightarrow> Afts_NextHop_IpInIp option" where
  "Afts_NextHop_GetIpInIp = container nh_IpInIp"

subsection \<open>Containers of an encapsulation header\<close>

definition Afts_NextHop_EncapHeader_GetOrCreateGre :: "Afts_NextHop_EncapHeader \<Rightarrow> Afts_NextHop_EncapHeader_Gre \<times> Afts_NextHop_EncapHeader" where
  "Afts_NextHop_EncapHeader_GetOrCreateGre t = (case nheh_Gre t of Some v \<Rightarrow> (v, t) | None \<Rightarrow> (zero_NextHop_EncapHeader_Gre, t\<lparr>nheh_Gre := Some zero_NextHop_EncapHeader_Gre\<rparr>))"

definition Afts_NextHop_EncapHeader_GetGre :: "Afts_NextHop_EncapHeader option \<Rightarrow> Afts_NextHop_EncapHeader_Gre option" where
  "Afts_NextHop_EncapHeader_GetGre = container nheh_Gre"

definition Afts_NextHop_EncapHeader_GetOrCreateIpv4 :: "Afts_NextHop_EncapHeader \<Rightarrow> Afts_NextHop_EncapHeader_Ipv4 \<times> Afts_NextHop_EncapHeader" where
  "Afts_NextHop_EncapHeader_GetOrCreateIpv4 t = (case nheh_Ipv4 t of Some v \<Rightarrow> (v, t) | None \<Rightarrow> (zero_NextHop_EncapHeader_Ipv4, t\<lparr>nheh_Ipv4 := Some zero_NextHop_EncapHeader_Ipv4\<rparr>))"

definition Afts_NextHop_EncapHeader_GetIpv4 :: "Afts_NextHop_EncapHeader option \<Rightarrow> Afts_NextHop_EncapHeader_Ipv4 option" where
  "Afts_NextHop_EncapHeader_GetIpv4 = container nheh_Ipv4"

definition Afts_NextHop_EncapHeader_GetOrCreateIpv6 :: "Afts_NextHop_EncapHeader \<Rightarrow> Afts_NextHop_EncapHeader_Ipv6 \<times> Afts_NextHop_EncapHeader" where
  "Afts_NextHop_EncapHeader_GetOrCreateIpv6 t = (case nheh_Ipv6 t of Some v \<Rightarrow> (v, t) | None \<Rightarrow> (zero_NextHop_EncapHeader_Ipv6, t\<lparr>nheh_Ipv6 := Some zero_NextHop_EncapHeader_Ipv6\<rparr>))"

definition Afts_NextHop_EncapHeader_GetIpv6 :: "Afts_NextHop_EncapHeader option \<Rightarrow> Afts_NextHop_EncapHeader_Ipv6 option" where
  "Afts_NextHop_EncapHeader_GetIpv6 = container nheh_Ipv6"

definition Afts_NextHop_EncapHeader_GetOrCreateMpls :: "Afts_NextHop_EncapHeader \<Rightarrow> Afts_NextHop_EncapHeader_Mpls \<times> Afts_NextHop_EncapHeader" where
  "Afts_NextHop_EncapHeader_GetOrCreateMpls t = (case nheh_Mpls t of Some v \<Rightarrow> (v, t) | None \<Rightarrow> (zero_NextHop_EncapHeader_Mpls, t\<lparr>nheh_Mpls := Some zero_NextHop_EncapHeader_Mpls\<rparr>))"

definition Afts_NextHop_EncapHeader_GetMpls :: "Afts_NextHop_EncapHeader option \<Rightarrow> Afts_NextHop_EncapHeader_Mpls option" where
  "Afts_NextHop_EncapHeader_GetMpls = container nheh_Mpls"

definition Afts_NextHop_EncapHeader_GetOrCreateUdpV4 :: "Afts_NextHop_EncapHeader \<Rightarrow> Afts_NextHop_EncapHeader_UdpV4 \<times> Afts_NextHop_EncapHeader" where
  "Afts_NextHop_EncapHeader_GetOrCreateUdpV4 t = (case nheh_UdpV4 t of Some v \<Rightarrow> (v, t) | None \<Rightarrow> (zero_NextHop_EncapHeader_UdpV4, t\<lparr>nheh_UdpV4 := Some zero_NextHop_EncapHeader_UdpV4\<rparr>))"

definition Afts_NextHop_EncapHeader_GetUdpV4 :: "Afts_NextHop_EncapHeader option \<Rightarrow> Afts_NextHop_EncapHeader_UdpV4 option" where
  "Afts_NextHop_EncapHeader_GetUdpV4 = container nheh_UdpV4"

definition Afts_NextHop_EncapHeader_GetOrCreateUdpV6 :: "Afts_NextHop_EncapHeader \<Rightarrow> Afts_NextHop_EncapHeader_UdpV6 \<times> Afts_NextHop_EncapHeader" where
  "Afts_NextHop_EncapHeader_GetOrCreateUdpV6 t = (case nheh_UdpV6 t of Some v \<Rightarrow> (v, t) | None \<Rightarrow> (zero_NextHop_EncapHeader_UdpV6, t\<lparr>nheh_UdpV6 := Some zero_NextHop_EncapHeader_UdpV6\<rparr>))"

definition Afts_NextHop_EncapHeader_GetUdpV6 :: "Afts_NextHop_EncapHeader option \<Rightarrow> Afts_NextHop_EncapHeader_UdpV6 option" where
  "Afts_NextHop_EncapHeader_GetUdpV6 = container nheh_UdpV6"

subsection \<open>Keys of entries\<close>

text \<open>
  \<open>ListKeyMap\<close> of an entry: the schema name of its key leaf with the value, or the error that
  the leaf is nil.  A label entry has no such check, so its key may be nil.
\<close>

definition Afts_Ipv4Entry_ListKeyMap :: "Afts_Ipv4Entry \<Rightarrow> list_err + string \<times> string" where
  "Afts_Ipv4Entry_ListKeyMap e = (case v4_Prefix e of None \<Rightarrow> Inl (NilKey ''Prefix'') | Some k \<Rightarrow> Inr (''prefix'', k))"

definition Afts_Ipv6Entry_ListKeyMap :: "Afts_Ipv6Entry \<Rightarrow> list_err + string \<times> string" where
  "Afts_Ipv6Entry_ListKeyMap e = (case v6_Prefix e of None \<Rightarrow> Inl (NilKey ''Prefix'') | Some k \<Rightarrow> Inr (''prefix'', k))"

definition Afts_LabelEntry_ListKeyMap :: "Afts_LabelEntry \<Rightarrow> list_err + string \<times> Label_Union option" where
  "Afts_LabelEntry_ListKeyMap e = Inr (''label'', le_Label e)"

definition Afts_MacEntry_ListKeyMap :: "Afts_MacEntry \<Rightarrow> list_err + string \<times> string" where
  "Afts_MacEntry_ListKeyMap e = (case mac_MacAddress e of None \<Rightarrow> Inl (NilKey ''MacAddress'') | Some k \<Rightarrow> Inr (''mac-address'', k))"

definition Afts_NextHop_ListKeyMap :: "Afts_NextHop \<Rightarrow> list_err + string \<times> u64" where
  "Afts_NextHop_ListKeyMap e = (case nh_Index e of None \<Rightarrow> Inl (NilKey ''Index'') | Some k \<Rightarrow> Inr (''index'', k))"

definition Afts_NextHopGroup_ListKeyMap :: "Afts_NextHopGroup \<Rightarrow> list_err + string \<times> u64" where
  "Afts_NextHopGroup_ListKeyMap e = (case nhg_Id e of None \<Rightarrow> Inl (NilKey ''Id'') | Some k \<Rightarrow> Inr (''id'', k))"

definition Afts_NextHopGroup_NextHop_ListKeyMap :: "Afts_NextHopGroup_NextHop \<Rightarrow> list_err + string \<times> u64" where
  "Afts_NextHopGroup_NextHop_ListKeyMap e = (case nhgnh_Index e of None \<Rightarrow> Inl (NilKey ''Index'') | Some k \<Rightarrow> Inr (''index'', k))"

definition Afts_NextHop_EncapHeader_ListKeyMap :: "Afts_NextHop_EncapHeader \<Rightarrow> list_err + string \<times> u8" where
  "Afts_NextHop_EncapHeader_ListKeyMap e = (case nheh_Index e of None \<Rightarrow> Inl (NilKey ''Index'') | Some k \<Rightarrow> Inr (''index'', k))"

definition Afts_PolicyForwardingEntry_ListKeyMap :: "Afts_PolicyForwardingEntry \<Rightarrow> list_err + string \<times> u64" where
  "Afts_PolicyForwardingEntry_ListKeyMap e = (case pf_Index e of None \<Rightarrow> Inl (NilKey ''Index'') | Some k \<Rightarrow> Inr (''index'', k))"

subsection \<open>Conversions to unions\<close>

text \<open>
  The Go values that the \<open>To_..._Union\<close> methods tell apart: the members of the unions, the
  plain integers they convert, and anything else, which is an error.
\<close>

datatype go_any = Any_Label Label_Union | Any_IpProtocol IpProtocol_Union | Any_uint32 u32 | Any_uint8 u8 | Any_other

definition to_label_union :: "go_any \<Rightarrow> Label_Union option" where
  "to_label_union i = (case i of Any_Label v \<Rightarrow> Some v | Any_uint32 v \<Rightarrow> Some (UnionUint32 v) | _ \<Rightarrow> None)"

definition To_Afts_LabelEntry_Label_Union :: "go_any \<Rightarrow> Label_Union option" where
  "To_Afts_LabelEntry_Label_Union = to_label_union"

definition To_Afts_LabelEntry_PoppedMplsLabelStack_Union :: "go_any \<Rightarrow> Label_Union option" where
  "To_Afts_LabelEntry_PoppedMplsLabelStack_Union = to_label_union"

definition To_Afts_NextHop_PushedMplsLabelStack_Union :: "go_any \<Rightarrow> Label_Union option" where
  "To_Afts_NextHop_PushedMplsLabelStack_Union = to_label_union"

definition To_Afts_NextHop_EncapHeader_Mpls_MplsLabelStack_Union :: "go_any \<Rightarrow> Label_Union option" where
  "To_Afts_NextHop_EncapHeader_Mpls_MplsLabelStack_Union = to_label_union"

definition To_Afts_PolicyForwardingEntry_IpProtocol_Union :: "go_any \<Rightarrow> IpProtocol_Union option" where
  "To_Afts_PolicyForwardingEntry_IpProtocol_Union i =
     (case i of Any_IpProtocol v \<Rightarrow> Some v | Any_uint8 v \<Rightarrow> Some (UnionUint8 v) | _ \<Rightarrow> None)"

definition To_Afts_PolicyForwardingEntry_MplsLabel_Union :: "go_any \<Rightarrow> Label_Union option" where
  "To_Afts_PolicyForwardingEntry_MplsLabel_Union = to_label_union"

subsection \<open>Facts for the code that calls them\<close>

lemmas list_defs = list_new_def list_get_or_create_def list_get_def

text \<open>The blank RIB that \<open>GetOrCreate\<close> makes of one key.\<close>

lemma blank_RIB [simp]:
  "snd (Afts_GetOrCreateIpv4Entry p empty_Afts) = empty_Afts\<lparr>Ipv4Entry := [(p, NewIpv4Entry p)]\<rparr>"
  "snd (Afts_GetOrCreateIpv6Entry p empty_Afts) = empty_Afts\<lparr>Ipv6Entry := [(p, NewIpv6Entry p)]\<rparr>"
  "snd (Afts_GetOrCreateLabelEntry l empty_Afts) = empty_Afts\<lparr>LabelEntry := [(l, NewLabelEntry l)]\<rparr>"
  "snd (Afts_GetOrCreateNextHopGroup i empty_Afts) = empty_Afts\<lparr>aft_NextHopGroup := [(i, NewNextHopGroup i)]\<rparr>"
  "snd (Afts_GetOrCreateNextHop i empty_Afts) = empty_Afts\<lparr>aft_NextHop := [(i, NewNextHop i)]\<rparr>"
  by (simp_all add: empty_Afts_def list_defs Afts_GetOrCreateIpv4Entry_def Afts_NewIpv4Entry_def
      Afts_GetOrCreateIpv6Entry_def Afts_NewIpv6Entry_def Afts_GetOrCreateLabelEntry_def Afts_NewLabelEntry_def
      Afts_GetOrCreateNextHopGroup_def Afts_NewNextHopGroup_def Afts_GetOrCreateNextHop_def Afts_NewNextHop_def)

end
