(* ===== verification/AftLeaves.thy ===== *)
theory AftLeaves
  imports AftAccess
begin

text \<open>
  The leaf getters of \<open>aft/oc.go\<close>.  On a nil receiver or a nil leaf they return the zero value
  of Go, or the default of the schema (true for \<open>Enabled\<close>).  A binary leaf, a union and a slice
  keep their nil.
\<close>

subsection \<open>The common shapes\<close>

definition leaf :: "'v \<Rightarrow> ('s \<Rightarrow> 'v option) \<Rightarrow> 's option \<Rightarrow> 'v" where
  "leaf d field t = (case t of None \<Rightarrow> d | Some s \<Rightarrow> (case field s of None \<Rightarrow> d | Some v \<Rightarrow> v))"

definition enum_leaf :: "('s \<Rightarrow> int) \<Rightarrow> 's option \<Rightarrow> int" where
  "enum_leaf field t = (case t of None \<Rightarrow> 0 | Some s \<Rightarrow> field s)"

definition slice_leaf :: "('s \<Rightarrow> 'v list) \<Rightarrow> 's option \<Rightarrow> 'v list" where
  "slice_leaf field t = (case t of None \<Rightarrow> [] | Some s \<Rightarrow> field s)"

subsection \<open>Afts_Ipv4Entry\<close>

definition Afts_Ipv4Entry_GetDecapsulateHeader :: "Afts_Ipv4Entry option \<Rightarrow> E_AftTypes_EncapsulationHeaderType" where
  "Afts_Ipv4Entry_GetDecapsulateHeader = enum_leaf v4_DecapsulateHeader"

definition Afts_Ipv4Entry_GetEntryMetadata :: "Afts_Ipv4Entry option \<Rightarrow> string option" where
  "Afts_Ipv4Entry_GetEntryMetadata = container v4_EntryMetadata"

definition Afts_Ipv4Entry_GetNextHopGroup :: "Afts_Ipv4Entry option \<Rightarrow> u64" where
  "Afts_Ipv4Entry_GetNextHopGroup = leaf 0 v4_NextHopGroup"

definition Afts_Ipv4Entry_GetNextHopGroupNetworkInstance :: "Afts_Ipv4Entry option \<Rightarrow> string" where
  "Afts_Ipv4Entry_GetNextHopGroupNetworkInstance = leaf '''' v4_NextHopGroupNetworkInstance"

definition Afts_Ipv4Entry_GetPrefix :: "Afts_Ipv4Entry option \<Rightarrow> string" where
  "Afts_Ipv4Entry_GetPrefix = leaf '''' v4_Prefix"

subsection \<open>Afts_Ipv6Entry\<close>

definition Afts_Ipv6Entry_GetDecapsulateHeader :: "Afts_Ipv6Entry option \<Rightarrow> E_AftTypes_EncapsulationHeaderType" where
  "Afts_Ipv6Entry_GetDecapsulateHeader = enum_leaf v6_DecapsulateHeader"

definition Afts_Ipv6Entry_GetEntryMetadata :: "Afts_Ipv6Entry option \<Rightarrow> string option" where
  "Afts_Ipv6Entry_GetEntryMetadata = container v6_EntryMetadata"

definition Afts_Ipv6Entry_GetNextHopGroup :: "Afts_Ipv6Entry option \<Rightarrow> u64" where
  "Afts_Ipv6Entry_GetNextHopGroup = leaf 0 v6_NextHopGroup"

definition Afts_Ipv6Entry_GetNextHopGroupNetworkInstance :: "Afts_Ipv6Entry option \<Rightarrow> string" where
  "Afts_Ipv6Entry_GetNextHopGroupNetworkInstance = leaf '''' v6_NextHopGroupNetworkInstance"

definition Afts_Ipv6Entry_GetPrefix :: "Afts_Ipv6Entry option \<Rightarrow> string" where
  "Afts_Ipv6Entry_GetPrefix = leaf '''' v6_Prefix"

subsection \<open>Afts_LabelEntry\<close>

definition Afts_LabelEntry_GetEntryMetadata :: "Afts_LabelEntry option \<Rightarrow> string option" where
  "Afts_LabelEntry_GetEntryMetadata = container le_EntryMetadata"

definition Afts_LabelEntry_GetLabel :: "Afts_LabelEntry option \<Rightarrow> Label_Union option" where
  "Afts_LabelEntry_GetLabel = container le_Label"

definition Afts_LabelEntry_GetNextHopGroup :: "Afts_LabelEntry option \<Rightarrow> u64" where
  "Afts_LabelEntry_GetNextHopGroup = leaf 0 le_NextHopGroup"

definition Afts_LabelEntry_GetNextHopGroupNetworkInstance :: "Afts_LabelEntry option \<Rightarrow> string" where
  "Afts_LabelEntry_GetNextHopGroupNetworkInstance = leaf '''' le_NextHopGroupNetworkInstance"

definition Afts_LabelEntry_GetPoppedMplsLabelStack :: "Afts_LabelEntry option \<Rightarrow> Label_Union list" where
  "Afts_LabelEntry_GetPoppedMplsLabelStack = slice_leaf le_PoppedMplsLabelStack"

subsection \<open>Afts_MacEntry\<close>

definition Afts_MacEntry_GetEntryMetadata :: "Afts_MacEntry option \<Rightarrow> string option" where
  "Afts_MacEntry_GetEntryMetadata = container mac_EntryMetadata"

definition Afts_MacEntry_GetMacAddress :: "Afts_MacEntry option \<Rightarrow> string" where
  "Afts_MacEntry_GetMacAddress = leaf '''' mac_MacAddress"

definition Afts_MacEntry_GetNextHopGroup :: "Afts_MacEntry option \<Rightarrow> u64" where
  "Afts_MacEntry_GetNextHopGroup = leaf 0 mac_NextHopGroup"

definition Afts_MacEntry_GetNextHopGroupNetworkInstance :: "Afts_MacEntry option \<Rightarrow> string" where
  "Afts_MacEntry_GetNextHopGroupNetworkInstance = leaf '''' mac_NextHopGroupNetworkInstance"

subsection \<open>Afts_NextHop\<close>

definition Afts_NextHop_GetDecapsulateHeader :: "Afts_NextHop option \<Rightarrow> E_AftTypes_EncapsulationHeaderType" where
  "Afts_NextHop_GetDecapsulateHeader = enum_leaf nh_DecapsulateHeader"

definition Afts_NextHop_GetEncapsulateHeader :: "Afts_NextHop option \<Rightarrow> E_AftTypes_EncapsulationHeaderType" where
  "Afts_NextHop_GetEncapsulateHeader = enum_leaf nh_EncapsulateHeader"

definition Afts_NextHop_GetIndex :: "Afts_NextHop option \<Rightarrow> u64" where
  "Afts_NextHop_GetIndex = leaf 0 nh_Index"

definition Afts_NextHop_GetIpAddress :: "Afts_NextHop option \<Rightarrow> string" where
  "Afts_NextHop_GetIpAddress = leaf '''' nh_IpAddress"

definition Afts_NextHop_GetMacAddress :: "Afts_NextHop option \<Rightarrow> string" where
  "Afts_NextHop_GetMacAddress = leaf '''' nh_MacAddress"

definition Afts_NextHop_GetNetworkInstance :: "Afts_NextHop option \<Rightarrow> string" where
  "Afts_NextHop_GetNetworkInstance = leaf '''' nh_NetworkInstance"

definition Afts_NextHop_GetPopTopLabel :: "Afts_NextHop option \<Rightarrow> bool" where
  "Afts_NextHop_GetPopTopLabel = leaf False nh_PopTopLabel"

definition Afts_NextHop_GetPushedMplsLabelStack :: "Afts_NextHop option \<Rightarrow> Label_Union list" where
  "Afts_NextHop_GetPushedMplsLabelStack = slice_leaf nh_PushedMplsLabelStack"

definition Afts_NextHop_GetTunnelSrcIpAddress :: "Afts_NextHop option \<Rightarrow> string" where
  "Afts_NextHop_GetTunnelSrcIpAddress = leaf '''' nh_TunnelSrcIpAddress"

definition Afts_NextHop_GetVniLabel :: "Afts_NextHop option \<Rightarrow> u32" where
  "Afts_NextHop_GetVniLabel = leaf 0 nh_VniLabel"

subsection \<open>Afts_NextHopGroup\<close>

definition Afts_NextHopGroup_GetBackupNextHopGroup :: "Afts_NextHopGroup option \<Rightarrow> u64" where
  "Afts_NextHopGroup_GetBackupNextHopGroup = leaf 0 nhg_BackupNextHopGroup"

definition Afts_NextHopGroup_GetColor :: "Afts_NextHopGroup option \<Rightarrow> u64" where
  "Afts_NextHopGroup_GetColor = leaf 0 nhg_Color"

definition Afts_NextHopGroup_GetId :: "Afts_NextHopGroup option \<Rightarrow> u64" where
  "Afts_NextHopGroup_GetId = leaf 0 nhg_Id"

subsection \<open>Afts_NextHopGroup_NextHop\<close>

definition Afts_NextHopGroup_NextHop_GetIndex :: "Afts_NextHopGroup_NextHop option \<Rightarrow> u64" where
  "Afts_NextHopGroup_NextHop_GetIndex = leaf 0 nhgnh_Index"

definition Afts_NextHopGroup_NextHop_GetWeight :: "Afts_NextHopGroup_NextHop option \<Rightarrow> u64" where
  "Afts_NextHopGroup_NextHop_GetWeight = leaf 0 nhgnh_Weight"

subsection \<open>Afts_NextHop_EncapHeader\<close>

definition Afts_NextHop_EncapHeader_GetIndex :: "Afts_NextHop_EncapHeader option \<Rightarrow> u8" where
  "Afts_NextHop_EncapHeader_GetIndex = leaf 0 nheh_Index"

definition Afts_NextHop_EncapHeader_GetType :: "Afts_NextHop_EncapHeader option \<Rightarrow> E_AftTypes_EncapsulationHeaderType" where
  "Afts_NextHop_EncapHeader_GetType = enum_leaf nheh_Type"

subsection \<open>Afts_NextHop_EncapHeader_Gre\<close>

definition Afts_NextHop_EncapHeader_Gre_GetDstIp :: "Afts_NextHop_EncapHeader_Gre option \<Rightarrow> string" where
  "Afts_NextHop_EncapHeader_Gre_GetDstIp = leaf '''' ehgre_DstIp"

definition Afts_NextHop_EncapHeader_Gre_GetSrcIp :: "Afts_NextHop_EncapHeader_Gre option \<Rightarrow> string" where
  "Afts_NextHop_EncapHeader_Gre_GetSrcIp = leaf '''' ehgre_SrcIp"

definition Afts_NextHop_EncapHeader_Gre_GetTtl :: "Afts_NextHop_EncapHeader_Gre option \<Rightarrow> u8" where
  "Afts_NextHop_EncapHeader_Gre_GetTtl = leaf 0 ehgre_Ttl"

subsection \<open>Afts_NextHop_EncapHeader_Ipv4\<close>

definition Afts_NextHop_EncapHeader_Ipv4_GetDstIp :: "Afts_NextHop_EncapHeader_Ipv4 option \<Rightarrow> string" where
  "Afts_NextHop_EncapHeader_Ipv4_GetDstIp = leaf '''' ehv4_DstIp"

definition Afts_NextHop_EncapHeader_Ipv4_GetSrcIp :: "Afts_NextHop_EncapHeader_Ipv4 option \<Rightarrow> string" where
  "Afts_NextHop_EncapHeader_Ipv4_GetSrcIp = leaf '''' ehv4_SrcIp"

subsection \<open>Afts_NextHop_EncapHeader_Ipv6\<close>

definition Afts_NextHop_EncapHeader_Ipv6_GetDstIp :: "Afts_NextHop_EncapHeader_Ipv6 option \<Rightarrow> string" where
  "Afts_NextHop_EncapHeader_Ipv6_GetDstIp = leaf '''' ehv6_DstIp"

definition Afts_NextHop_EncapHeader_Ipv6_GetSrcIp :: "Afts_NextHop_EncapHeader_Ipv6 option \<Rightarrow> string" where
  "Afts_NextHop_EncapHeader_Ipv6_GetSrcIp = leaf '''' ehv6_SrcIp"

subsection \<open>Afts_NextHop_EncapHeader_Mpls\<close>

definition Afts_NextHop_EncapHeader_Mpls_GetMplsLabelStack :: "Afts_NextHop_EncapHeader_Mpls option \<Rightarrow> Label_Union list" where
  "Afts_NextHop_EncapHeader_Mpls_GetMplsLabelStack = slice_leaf ehmpls_MplsLabelStack"

definition Afts_NextHop_EncapHeader_Mpls_GetTrafficClass :: "Afts_NextHop_EncapHeader_Mpls option \<Rightarrow> u8" where
  "Afts_NextHop_EncapHeader_Mpls_GetTrafficClass = leaf 0 ehmpls_TrafficClass"

subsection \<open>Afts_NextHop_EncapHeader_UdpV4\<close>

definition Afts_NextHop_EncapHeader_UdpV4_GetDscp :: "Afts_NextHop_EncapHeader_UdpV4 option \<Rightarrow> u8" where
  "Afts_NextHop_EncapHeader_UdpV4_GetDscp = leaf 0 ehudp4_Dscp"

definition Afts_NextHop_EncapHeader_UdpV4_GetDstIp :: "Afts_NextHop_EncapHeader_UdpV4 option \<Rightarrow> string" where
  "Afts_NextHop_EncapHeader_UdpV4_GetDstIp = leaf '''' ehudp4_DstIp"

definition Afts_NextHop_EncapHeader_UdpV4_GetDstUdpPort :: "Afts_NextHop_EncapHeader_UdpV4 option \<Rightarrow> u16" where
  "Afts_NextHop_EncapHeader_UdpV4_GetDstUdpPort = leaf 0 ehudp4_DstUdpPort"

definition Afts_NextHop_EncapHeader_UdpV4_GetIpTtl :: "Afts_NextHop_EncapHeader_UdpV4 option \<Rightarrow> u8" where
  "Afts_NextHop_EncapHeader_UdpV4_GetIpTtl = leaf 0 ehudp4_IpTtl"

definition Afts_NextHop_EncapHeader_UdpV4_GetSrcIp :: "Afts_NextHop_EncapHeader_UdpV4 option \<Rightarrow> string" where
  "Afts_NextHop_EncapHeader_UdpV4_GetSrcIp = leaf '''' ehudp4_SrcIp"

definition Afts_NextHop_EncapHeader_UdpV4_GetSrcUdpPort :: "Afts_NextHop_EncapHeader_UdpV4 option \<Rightarrow> u16" where
  "Afts_NextHop_EncapHeader_UdpV4_GetSrcUdpPort = leaf 0 ehudp4_SrcUdpPort"

subsection \<open>Afts_NextHop_EncapHeader_UdpV6\<close>

definition Afts_NextHop_EncapHeader_UdpV6_GetDscp :: "Afts_NextHop_EncapHeader_UdpV6 option \<Rightarrow> u8" where
  "Afts_NextHop_EncapHeader_UdpV6_GetDscp = leaf 0 ehudp6_Dscp"

definition Afts_NextHop_EncapHeader_UdpV6_GetDstIp :: "Afts_NextHop_EncapHeader_UdpV6 option \<Rightarrow> string" where
  "Afts_NextHop_EncapHeader_UdpV6_GetDstIp = leaf '''' ehudp6_DstIp"

definition Afts_NextHop_EncapHeader_UdpV6_GetDstUdpPort :: "Afts_NextHop_EncapHeader_UdpV6 option \<Rightarrow> u16" where
  "Afts_NextHop_EncapHeader_UdpV6_GetDstUdpPort = leaf 0 ehudp6_DstUdpPort"

definition Afts_NextHop_EncapHeader_UdpV6_GetIpTtl :: "Afts_NextHop_EncapHeader_UdpV6 option \<Rightarrow> u8" where
  "Afts_NextHop_EncapHeader_UdpV6_GetIpTtl = leaf 0 ehudp6_IpTtl"

definition Afts_NextHop_EncapHeader_UdpV6_GetSrcIp :: "Afts_NextHop_EncapHeader_UdpV6 option \<Rightarrow> string" where
  "Afts_NextHop_EncapHeader_UdpV6_GetSrcIp = leaf '''' ehudp6_SrcIp"

definition Afts_NextHop_EncapHeader_UdpV6_GetSrcUdpPort :: "Afts_NextHop_EncapHeader_UdpV6 option \<Rightarrow> u16" where
  "Afts_NextHop_EncapHeader_UdpV6_GetSrcUdpPort = leaf 0 ehudp6_SrcUdpPort"

subsection \<open>Afts_NextHop_Gre\<close>

definition Afts_NextHop_Gre_GetDstIp :: "Afts_NextHop_Gre option \<Rightarrow> string" where
  "Afts_NextHop_Gre_GetDstIp = leaf '''' nhgre_DstIp"

definition Afts_NextHop_Gre_GetSrcIp :: "Afts_NextHop_Gre option \<Rightarrow> string" where
  "Afts_NextHop_Gre_GetSrcIp = leaf '''' nhgre_SrcIp"

definition Afts_NextHop_Gre_GetTtl :: "Afts_NextHop_Gre option \<Rightarrow> u8" where
  "Afts_NextHop_Gre_GetTtl = leaf 0 nhgre_Ttl"

subsection \<open>Afts_NextHop_InterfaceRef\<close>

definition Afts_NextHop_InterfaceRef_GetInterface :: "Afts_NextHop_InterfaceRef option \<Rightarrow> string" where
  "Afts_NextHop_InterfaceRef_GetInterface = leaf '''' nhif_Interface"

definition Afts_NextHop_InterfaceRef_GetSubinterface :: "Afts_NextHop_InterfaceRef option \<Rightarrow> u32" where
  "Afts_NextHop_InterfaceRef_GetSubinterface = leaf 0 nhif_Subinterface"

subsection \<open>Afts_NextHop_IpInIp\<close>

definition Afts_NextHop_IpInIp_GetDstIp :: "Afts_NextHop_IpInIp option \<Rightarrow> string" where
  "Afts_NextHop_IpInIp_GetDstIp = leaf '''' nhip_DstIp"

definition Afts_NextHop_IpInIp_GetSrcIp :: "Afts_NextHop_IpInIp option \<Rightarrow> string" where
  "Afts_NextHop_IpInIp_GetSrcIp = leaf '''' nhip_SrcIp"

subsection \<open>Afts_PolicyForwardingEntry\<close>

definition Afts_PolicyForwardingEntry_GetEntryMetadata :: "Afts_PolicyForwardingEntry option \<Rightarrow> string option" where
  "Afts_PolicyForwardingEntry_GetEntryMetadata = container pf_EntryMetadata"

definition Afts_PolicyForwardingEntry_GetIndex :: "Afts_PolicyForwardingEntry option \<Rightarrow> u64" where
  "Afts_PolicyForwardingEntry_GetIndex = leaf 0 pf_Index"

definition Afts_PolicyForwardingEntry_GetIpDscp :: "Afts_PolicyForwardingEntry option \<Rightarrow> u8" where
  "Afts_PolicyForwardingEntry_GetIpDscp = leaf 0 pf_IpDscp"

definition Afts_PolicyForwardingEntry_GetIpPrefix :: "Afts_PolicyForwardingEntry option \<Rightarrow> string" where
  "Afts_PolicyForwardingEntry_GetIpPrefix = leaf '''' pf_IpPrefix"

definition Afts_PolicyForwardingEntry_GetIpProtocol :: "Afts_PolicyForwardingEntry option \<Rightarrow> IpProtocol_Union option" where
  "Afts_PolicyForwardingEntry_GetIpProtocol = container pf_IpProtocol"

definition Afts_PolicyForwardingEntry_GetL4DstPort :: "Afts_PolicyForwardingEntry option \<Rightarrow> u16" where
  "Afts_PolicyForwardingEntry_GetL4DstPort = leaf 0 pf_L4DstPort"

definition Afts_PolicyForwardingEntry_GetL4SrcPort :: "Afts_PolicyForwardingEntry option \<Rightarrow> u16" where
  "Afts_PolicyForwardingEntry_GetL4SrcPort = leaf 0 pf_L4SrcPort"

definition Afts_PolicyForwardingEntry_GetMacAddress :: "Afts_PolicyForwardingEntry option \<Rightarrow> string" where
  "Afts_PolicyForwardingEntry_GetMacAddress = leaf '''' pf_MacAddress"

definition Afts_PolicyForwardingEntry_GetMplsLabel :: "Afts_PolicyForwardingEntry option \<Rightarrow> Label_Union option" where
  "Afts_PolicyForwardingEntry_GetMplsLabel = container pf_MplsLabel"

definition Afts_PolicyForwardingEntry_GetMplsTc :: "Afts_PolicyForwardingEntry option \<Rightarrow> u8" where
  "Afts_PolicyForwardingEntry_GetMplsTc = leaf 0 pf_MplsTc"

definition Afts_PolicyForwardingEntry_GetNextHopGroup :: "Afts_PolicyForwardingEntry option \<Rightarrow> u64" where
  "Afts_PolicyForwardingEntry_GetNextHopGroup = leaf 0 pf_NextHopGroup"

definition Afts_PolicyForwardingEntry_GetNextHopGroupNetworkInstance :: "Afts_PolicyForwardingEntry option \<Rightarrow> string" where
  "Afts_PolicyForwardingEntry_GetNextHopGroupNetworkInstance = leaf '''' pf_NextHopGroupNetworkInstance"

subsection \<open>Facts for the code that calls them\<close>

lemma leaf_simps [simp]:
  "leaf d f None = d" "leaf d f (Some s) = (case f s of None \<Rightarrow> d | Some v \<Rightarrow> v)"
  "enum_leaf g None = 0" "enum_leaf g (Some s) = g s" "slice_leaf h None = []" "slice_leaf h (Some s) = h s"
  "container c None = None" "container c (Some s) = c s"
  by (simp_all add: leaf_def enum_leaf_def slice_leaf_def container_def)

lemma getter_simps [simp]:
  "Afts_Ipv4Entry_GetNextHopGroup (Some v4) = uval (v4_NextHopGroup v4)"
  "Afts_Ipv4Entry_GetNextHopGroupNetworkInstance (Some v4) = sval (v4_NextHopGroupNetworkInstance v4)"
  "Afts_Ipv6Entry_GetNextHopGroup (Some v6) = uval (v6_NextHopGroup v6)"
  "Afts_Ipv6Entry_GetNextHopGroupNetworkInstance (Some v6) = sval (v6_NextHopGroupNetworkInstance v6)"
  "Afts_NextHopGroup_NextHop_GetIndex (Some n) = uval (nhgnh_Index n)"
  "Afts_NextHopGroup_NextHop_GetWeight (Some n) = uval (nhgnh_Weight n)"
  "Afts_NextHop_GetIpAddress t = (case t of None \<Rightarrow> [] | Some h \<Rightarrow> sval (nh_IpAddress h))"
  by (simp_all add: Afts_Ipv4Entry_GetNextHopGroup_def Afts_Ipv4Entry_GetNextHopGroupNetworkInstance_def
      Afts_Ipv6Entry_GetNextHopGroup_def Afts_Ipv6Entry_GetNextHopGroupNetworkInstance_def
      Afts_NextHopGroup_NextHop_GetIndex_def Afts_NextHopGroup_NextHop_GetWeight_def
      Afts_NextHop_GetIpAddress_def uval_def sval_def split: option.split)

end
