(* ===== verification/Aft.thy ===== *)
theory Aft
  imports AftLeaves
begin

text \<open>
  The two translations between the in-memory AFT (\<open>AftStructs\<close>) and protobufs:
  \<open>candidateRIB\<close> and the \<open>Concrete...Proto\<close> functions of \<open>rib/rib.go\<close>.  The ygot, protomap
  and gNMI value libraries are not part of the repository: their functions are the fields of
  the record \<open>ygot\<close>, a parameter of the model.
\<close>

subsection \<open>The AFTs of a RIB\<close>

text \<open>An \<open>aft.RIB\<close>: its \<open>Afts\<close> pointer (its interfaces are not used by gribigo).\<close>

type_synonym aft_RIB = "Afts option"

definition GetAfts :: "aft_RIB \<Rightarrow> Afts" where
  "GetAfts r = (case r of None \<Rightarrow> empty_Afts | Some a \<Rightarrow> a)"

lemma GetAfts_simps [simp]: "GetAfts None = empty_Afts" "GetAfts (Some a) = a"
  by (simp_all add: GetAfts_def)

text \<open>The generated lookups on the AFTs of a RIB, nil included.\<close>

lemma Afts_lookups [simp]:
  "Afts_GetIpv4Entry p r = gm_get (Ipv4Entry (GetAfts r)) p" "Afts_GetIpv6Entry p r = gm_get (Ipv6Entry (GetAfts r)) p"
  "Afts_GetNextHopGroup i r = gm_get (aft_NextHopGroup (GetAfts r)) i" "Afts_GetNextHop i r = gm_get (aft_NextHop (GetAfts r)) i"
  by (cases r; simp add: Afts_GetIpv4Entry_def Afts_GetIpv6Entry_def Afts_GetNextHopGroup_def Afts_GetNextHop_def
      list_get_def empty_Afts_def)+

subsection \<open>Candidate RIBs\<close>

text \<open>
  The third-party calls of \<open>candidateRIB\<close>: \<open>protomap.PathsFromProto\<close>,
  \<open>value.FromScalar\<close>, \<open>ytypes.SetNode\<close> on the AFT schema and the generated \<open>Validate\<close>.
  Paths, gNMI values and Go scalars only pass through, so they are type variables.
\<close>

record ('p, 'v, 's) ygot =
  PathsFromProto :: "Afts_pb \<Rightarrow> string + ('p \<times> 'v) list"
  FromScalar :: "'v \<Rightarrow> string + 's"
  SetNode :: "aft_RIB \<Rightarrow> 'p \<Rightarrow> 's \<Rightarrow> string + aft_RIB"
  Validate :: "aft_RIB \<Rightarrow> string + unit"

fun set_paths :: "('p, 'v, 's) ygot \<Rightarrow> aft_RIB \<Rightarrow> ('p \<times> 'v) list \<Rightarrow> string + aft_RIB" where
  "set_paths L nr [] = Inr nr"
| "set_paths L nr ((p, v) # ps) =
     (case FromScalar L v of
        Inl e \<Rightarrow> Inl e
      | Inr sv \<Rightarrow>
          (case SetNode L nr p sv of
             Inl e \<Rightarrow> Inl e
           | Inr nr' \<Rightarrow> set_paths L nr' ps))"

definition candidateRIB :: "('p, 'v, 's) ygot \<Rightarrow> Afts_pb \<Rightarrow> string + aft_RIB" where
  "candidateRIB L a =
     (case PathsFromProto L a of
        Inl e \<Rightarrow> Inl e
      | Inr paths \<Rightarrow>
          (case set_paths L None paths of
             Inl e \<Rightarrow> Inl e
           | Inr nr \<Rightarrow>
               (case Validate L nr of
                  Inl e \<Rightarrow> Inl e
                | Inr _ \<Rightarrow> Inr nr)))"

text \<open>
  What the RIB uses of the layer above: the candidate builder (\<open>candidateRIB\<close> itself, or
  any function in its place), \<open>ygot.MergeStructInto\<close> and \<open>ygot.DeepCopy\<close> on RIBs, and
  \<open>protoFromGoStruct\<close> at each of the five entry types.
\<close>

record rib_env =
  candidate :: "Afts_pb \<Rightarrow> string + aft_RIB"
  MergeStructInto :: "Afts \<Rightarrow> aft_RIB \<Rightarrow> string + Afts"
  DeepCopy :: "Afts \<Rightarrow> string + Afts"
  proto_Ipv4 :: "Afts_Ipv4Entry \<Rightarrow> string + Afts_Ipv4Entry_pb"
  proto_Ipv6 :: "Afts_Ipv6Entry \<Rightarrow> string + Afts_Ipv6Entry_pb"
  proto_Mpls :: "Afts_LabelEntry \<Rightarrow> string + Afts_LabelEntry_pb"
  proto_NextHop :: "Afts_NextHop \<Rightarrow> string + Afts_NextHop_pb"
  proto_NextHopGroup :: "Afts_NextHopGroup \<Rightarrow> string + Afts_NextHopGroup_pb"

subsection \<open>Concrete protobufs\<close>

text \<open>
  \<open>NilDeref\<close> is the panic of dereferencing the nil \<open>Prefix\<close>, \<open>Index\<close> or \<open>Id\<close> pointer of
  an entry; the others are the error returns.
\<close>

datatype proto_err = CannotMarshal string | IncorrectLabelType | NilDeref

definition ConcreteIPv4Proto :: "rib_env \<Rightarrow> Afts_Ipv4Entry \<Rightarrow> proto_err + Afts_Ipv4EntryKey" where
  "ConcreteIPv4Proto E e =
     (case proto_Ipv4 E e of
        Inl m \<Rightarrow> Inl (CannotMarshal m)
      | Inr ip4proto \<Rightarrow>
          (case v4_Prefix e of
             None \<Rightarrow> Inl NilDeref
           | Some p \<Rightarrow> Inr \<lparr>v4k_Prefix = p, v4k_Ipv4Entry = Some ip4proto\<rparr>))"

definition ConcreteIPv6Proto :: "rib_env \<Rightarrow> Afts_Ipv6Entry \<Rightarrow> proto_err + Afts_Ipv6EntryKey" where
  "ConcreteIPv6Proto E e =
     (case proto_Ipv6 E e of
        Inl m \<Rightarrow> Inl (CannotMarshal m)
      | Inr ip6proto \<Rightarrow>
          (case v6_Prefix e of
             None \<Rightarrow> Inl NilDeref
           | Some p \<Rightarrow> Inr \<lparr>v6k_Prefix = p, v6k_Ipv6Entry = Some ip6proto\<rparr>))"

definition ConcreteMPLSProto :: "rib_env \<Rightarrow> Afts_LabelEntry \<Rightarrow> proto_err + Afts_LabelEntryKey" where
  "ConcreteMPLSProto E e =
     (case proto_Mpls E e of
        Inl m \<Rightarrow> Inl (CannotMarshal m)
      | Inr mplsProto \<Rightarrow>
          (case le_Label e of
             Some (UnionUint32 l) \<Rightarrow>
               Inr \<lparr>lek_Label = Some (LabelUint64 (ucast l)), lek_LabelEntry = Some mplsProto\<rparr>
           | _ \<Rightarrow> Inl IncorrectLabelType))"

definition ConcreteNextHopProto :: "rib_env \<Rightarrow> Afts_NextHop \<Rightarrow> proto_err + Afts_NextHopKey" where
  "ConcreteNextHopProto E e =
     (case proto_NextHop E e of
        Inl m \<Rightarrow> Inl (CannotMarshal m)
      | Inr nhproto \<Rightarrow>
          (case nh_Index e of
             None \<Rightarrow> Inl NilDeref
           | Some i \<Rightarrow> Inr \<lparr>nhk_Index = i, nhk_NextHop = Some nhproto\<rparr>))"

definition ConcreteNextHopGroupProto ::
    "rib_env \<Rightarrow> Afts_NextHopGroup \<Rightarrow> proto_err + Afts_NextHopGroupKey" where
  "ConcreteNextHopGroupProto E e =
     (case proto_NextHopGroup E e of
        Inl m \<Rightarrow> Inl (CannotMarshal m)
      | Inr nhgproto \<Rightarrow>
          (case nhg_Id e of
             None \<Rightarrow> Inl NilDeref
           | Some i \<Rightarrow> Inr \<lparr>nhgk_Id = i, nhgk_NextHopGroup = Some nhgproto\<rparr>))"

end
