(* ===== verification/RibHolder.thy ===== *)
theory RibHolder
  imports Aft
begin

text \<open>
  \<open>RIBHolder\<close> of \<open>rib/rib.go\<close>: the RIB of one network instance, with its five AFTs, the
  reference counters of next-hop-groups and next-hops, and the hook called after each
  change.  One definition per method.  A method returns its Go results (an error is
  \<open>Inl\<close>) and the updated holder; the locks that methods take and release around their
  own map accesses are not modelled.

  The consistency check is a closure over the whole RIB, so the methods that run it take
  it as the argument \<open>chk\<close>; \<open>rh_checkFn\<close> says whether the holder has one.  The hook is
  an external function: its calls are recorded, in order, in \<open>rh_hookTrace\<close> (without the
  time stamp).
\<close>

subsection \<open>State\<close>

datatype rib_key =
  KeyIPv4 string | KeyIPv6 string | KeyMPLS Label_Union | KeyNHG u64 | KeyNH u64

text \<open>Every error that the package \<open>rib\<close> returns, \<open>GoPanic\<close> for a nil dereference and
  \<open>GoDeadlock\<close> for locking a mutex that the same call already holds.\<close>

datatype rib_err =
    InvalidRIBNil | NilEntryProvided | InvalidEntry string
  | CannotReplace rib_key | CannotReplaceMPLS u64 | CannotMerge string | OtherEntriesInCandidate nat nat
  | UnsupportedLabelType | InvalidNHGID0 | InvalidNHIndex0 | CannotFind rib_key
  | NilCandidateAFT | MacUnsupported | PBRUnsupported | NoEntriesInCandidate | MultipleEntries
  | ZeroIndexNextHop string | InvalidNetworkInstance string | ZeroIndexNHG | EmptyNHG
  | ZeroIndexNHInNHG u64 string | UnknownNetworkInstance string | ZeroIndexNHGInEntry string
  | BadNextHopGroupID0 | BadNextHopID0 | InvalidOperationType OpType
  | RIBAlreadyExists string | UnsupportedAFTOperation | NilAFTOperation
  | UnresolvedDependencies u64 | CannotCopyRIB string string | CannotRunResolvedHook rib_err
  | UnknownGetResponseEntry | CannotMarshalEntry proto_err | FlushErr "rib_err list"
  | GoPanic | GoDeadlock

datatype changed_entry =
    Changed_Ipv4 "Afts_Ipv4Entry option"
  | Changed_Ipv6 "Afts_Ipv6Entry option"
  | Changed_Label "Afts_LabelEntry option"
  | Changed_NextHopGroup "Afts_NextHopGroup option"
  | Changed_NextHop "Afts_NextHop option"

record RIBHolder =
  rh_name :: string
  rh_r :: aft_RIB
  rh_checkFn :: bool
  rh_postChangeHook :: bool
  rh_refNextHop :: "u64 \<Rightarrow> u64"
  rh_refNextHopGroup :: "u64 \<Rightarrow> u64"
  rh_disableForwardRef :: bool
  rh_hookTrace :: "(OpType \<times> string \<times> changed_entry) list"

type_synonym check_fn = "OpType \<Rightarrow> aft_RIB \<Rightarrow> rib_err + bool"

text \<open>The options of \<open>NewRIBHolder\<close>.\<close>

datatype ribHolderOpt = RIBHolderCheckFn | RHDisableForwardReferences

definition hasCheckFn :: "ribHolderOpt list \<Rightarrow> bool" where
  "hasCheckFn opts = list_ex (\<lambda>o'. o' = RIBHolderCheckFn) opts"

definition hasRHDisableForwardRef :: "ribHolderOpt list \<Rightarrow> bool" where
  "hasRHDisableForwardRef opts = list_ex (\<lambda>o'. o' = RHDisableForwardReferences) opts"

definition NewRIBHolder :: "string \<Rightarrow> ribHolderOpt list \<Rightarrow> RIBHolder" where
  "NewRIBHolder name opts =
     \<lparr>rh_name = name, rh_r = Some empty_Afts, rh_checkFn = hasCheckFn opts,
      rh_postChangeHook = False, rh_refNextHop = (\<lambda>_. 0), rh_refNextHopGroup = (\<lambda>_. 0),
      rh_disableForwardRef = hasRHDisableForwardRef opts, rh_hookTrace = []\<rparr>"

definition IsValid :: "RIBHolder \<Rightarrow> bool" where
  "IsValid rh = (rh_name rh \<noteq> [] \<and> rh_r rh \<noteq> None)"

text \<open>The holder's AFTs, and the update of its \<open>r\<close> field.\<close>

definition afts :: "RIBHolder \<Rightarrow> Afts" where
  "afts rh = GetAfts (rh_r rh)"

definition set_afts :: "Afts \<Rightarrow> RIBHolder \<Rightarrow> RIBHolder" where
  "set_afts a rh = rh\<lparr>rh_r := Some a\<rparr>"

definition run_check :: "check_fn \<Rightarrow> RIBHolder \<Rightarrow> check_fn" where
  "run_check chk rh t nr = (if rh_checkFn rh then chk t nr else Inr True)"

definition call_hook :: "OpType \<Rightarrow> changed_entry list \<Rightarrow> RIBHolder \<Rightarrow> RIBHolder" where
  "call_hook t es rh =
     (if rh_postChangeHook rh
      then rh\<lparr>rh_hookTrace := rh_hookTrace rh @ map (\<lambda>e. (t, rh_name rh, e)) es\<rparr>
      else rh)"

subsection \<open>Reference counters\<close>

definition incNHGRefCount :: "u64 \<Rightarrow> RIBHolder \<Rightarrow> RIBHolder" where
  "incNHGRefCount i rh =
     rh\<lparr>rh_refNextHopGroup := (rh_refNextHopGroup rh)(i := rh_refNextHopGroup rh i + 1)\<rparr>"

definition decNHGRefCount :: "u64 \<Rightarrow> RIBHolder \<Rightarrow> RIBHolder" where
  "decNHGRefCount i rh =
     (if rh_refNextHopGroup rh i = 0 then rh
      else rh\<lparr>rh_refNextHopGroup := (rh_refNextHopGroup rh)(i := rh_refNextHopGroup rh i - 1)\<rparr>)"

definition nhgReferenced :: "RIBHolder \<Rightarrow> u64 \<Rightarrow> bool" where
  "nhgReferenced rh i = (rh_refNextHopGroup rh i > 0)"

definition incNHRefCount :: "u64 \<Rightarrow> RIBHolder \<Rightarrow> RIBHolder" where
  "incNHRefCount i rh =
     rh\<lparr>rh_refNextHop := (rh_refNextHop rh)(i := rh_refNextHop rh i + 1)\<rparr>"

definition decNHRefCount :: "u64 \<Rightarrow> RIBHolder \<Rightarrow> RIBHolder" where
  "decNHRefCount i rh =
     (if rh_refNextHop rh i = 0 then rh
      else rh\<lparr>rh_refNextHop := (rh_refNextHop rh)(i := rh_refNextHop rh i - 1)\<rparr>)"

definition nhReferenced :: "RIBHolder \<Rightarrow> u64 \<Rightarrow> bool" where
  "nhReferenced rh i = (rh_refNextHop rh i > 0)"


subsection \<open>The IPv4 AFT\<close>

definition ipv4Exists :: "RIBHolder \<Rightarrow> string \<Rightarrow> bool" where
  "ipv4Exists rh prefix = (gm_get (Ipv4Entry (afts rh)) prefix \<noteq> None)"

definition retrieveIPv4 :: "RIBHolder \<Rightarrow> string \<Rightarrow> Afts_Ipv4Entry option" where
  "retrieveIPv4 rh prefix = gm_get (Ipv4Entry (afts rh)) prefix"

text \<open>
  Deleting the key before the merge makes the merge a replace.  When the merge fails the
  deleted entry stays deleted, as in the code.
\<close>

definition doAddIPv4 ::
    "rib_env \<Rightarrow> string \<Rightarrow> aft_RIB \<Rightarrow> RIBHolder \<Rightarrow> (rib_err + bool) \<times> RIBHolder" where
  "doAddIPv4 E pfx newRIB rh =
     (case newRIB of
        None \<Rightarrow> (Inl GoPanic, rh)
      | Some n \<Rightarrow>
          if length (aft_NextHopGroup n) \<noteq> 0 \<or> length (aft_NextHop n) \<noteq> 0
          then (Inl (OtherEntriesInCandidate (length (aft_NextHopGroup n)) (length (aft_NextHop n))), rh)
          else
            (let implicit = ipv4Exists rh pfx;
                 a = (afts rh)\<lparr>Ipv4Entry := gm_del pfx (Ipv4Entry (afts rh))\<rparr>
             in case MergeStructInto E a newRIB of
                  Inl m \<Rightarrow> (Inl (CannotMerge m), set_afts a rh)
                | Inr a' \<Rightarrow> (Inr implicit, set_afts a' rh)))"

definition AddIPv4 ::
    "rib_env \<Rightarrow> check_fn \<Rightarrow> Afts_Ipv4EntryKey option \<Rightarrow> bool \<Rightarrow> RIBHolder
     \<Rightarrow> (rib_err + bool \<times> Afts_Ipv4Entry option) \<times> RIBHolder" where
  "AddIPv4 E chk eo explicitReplace rh =
     (if rh_r rh = None then (Inl InvalidRIBNil, rh)
      else case eo of
        None \<Rightarrow> (Inl NilEntryProvided, rh)
      | Some e \<Rightarrow>
         (case candidate E (empty_Afts_pb\<lparr>pb_Ipv4Entry := [e]\<rparr>) of
            Inl m \<Rightarrow> (Inl (InvalidEntry m), rh)
          | Inr nr \<Rightarrow>
             if explicitReplace \<and> \<not> ipv4Exists rh (v4k_Prefix e)
             then (Inl (CannotReplace (KeyIPv4 (v4k_Prefix e))), rh)
             else
              (let orig = (if explicitReplace \<or> ipv4Exists rh (v4k_Prefix e)
                           then retrieveIPv4 rh (v4k_Prefix e) else None)
               in case run_check chk rh Add nr of
                    Inl err \<Rightarrow> (Inl err, rh)
                  | Inr False \<Rightarrow> (Inr (False, None), rh)
                  | Inr True \<Rightarrow>
                     (case doAddIPv4 E (v4k_Prefix e) nr rh of
                        (Inl err, rh') \<Rightarrow> (Inl err, rh')
                      | (Inr _, rh') \<Rightarrow>
                         (Inr (True, orig),
                          call_hook Add (map (\<lambda>(k, ip4). Changed_Ipv4 (Some ip4)) (Ipv4Entry (GetAfts nr))) rh')))))"

definition doDeleteIPv4 :: "string \<Rightarrow> RIBHolder \<Rightarrow> RIBHolder" where
  "doDeleteIPv4 pfx rh = set_afts ((afts rh)\<lparr>Ipv4Entry := gm_del pfx (Ipv4Entry (afts rh))\<rparr>) rh"

text \<open>
  The check of a deletion sees a new RIB with the blank entry that the generated
  \<open>GetOrCreateIpv4Entry\<close> makes, in which only the key is set.
\<close>

definition DeleteIPv4 ::
    "check_fn \<Rightarrow> Afts_Ipv4EntryKey option \<Rightarrow> RIBHolder
     \<Rightarrow> (rib_err + bool \<times> Afts_Ipv4Entry option) \<times> RIBHolder" where
  "DeleteIPv4 chk eo rh =
     (case eo of
        None \<Rightarrow> (Inl NilEntryProvided, rh)
      | Some e \<Rightarrow>
         if rh_r rh = None then (Inl InvalidRIBNil, rh)
         else
          (let p = v4k_Prefix e;
               de = retrieveIPv4 rh p;
               rr = Some (snd (Afts_GetOrCreateIpv4Entry p empty_Afts))
           in case run_check chk rh Delete rr of
                Inl err \<Rightarrow> (Inl err, rh)
              | Inr False \<Rightarrow> (Inr (False, None), rh)
              | Inr True \<Rightarrow>
                  (Inr (True, de), call_hook Delete [Changed_Ipv4 de] (doDeleteIPv4 p rh))))"

definition locklessDeleteIPv4 :: "string \<Rightarrow> RIBHolder \<Rightarrow> rib_err option \<times> RIBHolder" where
  "locklessDeleteIPv4 prefix rh =
     (case retrieveIPv4 rh prefix of
        None \<Rightarrow> (Some (CannotFind (KeyIPv4 prefix)), rh)
      | Some de \<Rightarrow> (None, call_hook Delete [Changed_Ipv4 (Some de)] (doDeleteIPv4 prefix rh)))"

subsection \<open>The IPv6 AFT\<close>

definition ipv6Exists :: "RIBHolder \<Rightarrow> string \<Rightarrow> bool" where
  "ipv6Exists rh prefix = (gm_get (Ipv6Entry (afts rh)) prefix \<noteq> None)"

definition retrieveIPv6 :: "RIBHolder \<Rightarrow> string \<Rightarrow> Afts_Ipv6Entry option" where
  "retrieveIPv6 rh prefix = gm_get (Ipv6Entry (afts rh)) prefix"

definition doAddIPv6 ::
    "rib_env \<Rightarrow> string \<Rightarrow> aft_RIB \<Rightarrow> RIBHolder \<Rightarrow> (rib_err + bool) \<times> RIBHolder" where
  "doAddIPv6 E pfx newRIB rh =
     (case newRIB of
        None \<Rightarrow> (Inl GoPanic, rh)
      | Some n \<Rightarrow>
          if length (aft_NextHopGroup n) \<noteq> 0 \<or> length (aft_NextHop n) \<noteq> 0
          then (Inl (OtherEntriesInCandidate (length (aft_NextHopGroup n)) (length (aft_NextHop n))), rh)
          else
            (let implicit = ipv6Exists rh pfx;
                 a = (afts rh)\<lparr>Ipv6Entry := gm_del pfx (Ipv6Entry (afts rh))\<rparr>
             in case MergeStructInto E a newRIB of
                  Inl m \<Rightarrow> (Inl (CannotMerge m), set_afts a rh)
                | Inr a' \<Rightarrow> (Inr implicit, set_afts a' rh)))"

definition AddIPv6 ::
    "rib_env \<Rightarrow> check_fn \<Rightarrow> Afts_Ipv6EntryKey option \<Rightarrow> bool \<Rightarrow> RIBHolder
     \<Rightarrow> (rib_err + bool \<times> Afts_Ipv6Entry option) \<times> RIBHolder" where
  "AddIPv6 E chk eo explicitReplace rh =
     (if rh_r rh = None then (Inl InvalidRIBNil, rh)
      else case eo of
        None \<Rightarrow> (Inl NilEntryProvided, rh)
      | Some e \<Rightarrow>
         (case candidate E (empty_Afts_pb\<lparr>pb_Ipv6Entry := [e]\<rparr>) of
            Inl m \<Rightarrow> (Inl (InvalidEntry m), rh)
          | Inr nr \<Rightarrow>
             if explicitReplace \<and> \<not> ipv6Exists rh (v6k_Prefix e)
             then (Inl (CannotReplace (KeyIPv6 (v6k_Prefix e))), rh)
             else
              (let orig = (if ipv6Exists rh (v6k_Prefix e)
                           then retrieveIPv6 rh (v6k_Prefix e) else None)
               in case run_check chk rh Add nr of
                    Inl err \<Rightarrow> (Inl err, rh)
                  | Inr False \<Rightarrow> (Inr (False, None), rh)
                  | Inr True \<Rightarrow>
                     (case doAddIPv6 E (v6k_Prefix e) nr rh of
                        (Inl err, rh') \<Rightarrow> (Inl err, rh')
                      | (Inr _, rh') \<Rightarrow>
                         (Inr (True, orig),
                          call_hook Add (map (\<lambda>(k, ip6). Changed_Ipv6 (Some ip6)) (Ipv6Entry (GetAfts nr))) rh')))))"

definition doDeleteIPv6 :: "string \<Rightarrow> RIBHolder \<Rightarrow> RIBHolder" where
  "doDeleteIPv6 pfx rh = set_afts ((afts rh)\<lparr>Ipv6Entry := gm_del pfx (Ipv6Entry (afts rh))\<rparr>) rh"

definition DeleteIPv6 ::
    "check_fn \<Rightarrow> Afts_Ipv6EntryKey option \<Rightarrow> RIBHolder
     \<Rightarrow> (rib_err + bool \<times> Afts_Ipv6Entry option) \<times> RIBHolder" where
  "DeleteIPv6 chk eo rh =
     (case eo of
        None \<Rightarrow> (Inl NilEntryProvided, rh)
      | Some e \<Rightarrow>
         if rh_r rh = None then (Inl InvalidRIBNil, rh)
         else
          (let p = v6k_Prefix e;
               de = retrieveIPv6 rh p;
               rr = Some (snd (Afts_GetOrCreateIpv6Entry p empty_Afts))
           in case run_check chk rh Delete rr of
                Inl err \<Rightarrow> (Inl err, rh)
              | Inr False \<Rightarrow> (Inr (False, None), rh)
              | Inr True \<Rightarrow>
                  (Inr (True, de), call_hook Delete [Changed_Ipv6 de] (doDeleteIPv6 p rh))))"

definition locklessDeleteIPv6 :: "string \<Rightarrow> RIBHolder \<Rightarrow> rib_err option \<times> RIBHolder" where
  "locklessDeleteIPv6 prefix rh =
     (case retrieveIPv6 rh prefix of
        None \<Rightarrow> (Some (CannotFind (KeyIPv6 prefix)), rh)
      | Some de \<Rightarrow> (None, call_hook Delete [Changed_Ipv6 (Some de)] (doDeleteIPv6 prefix rh)))"


subsection \<open>The MPLS AFT\<close>

text \<open>
  The label of an operation is a \<open>uint64\<close>; it is truncated to a \<open>uint32\<close> for the table key.
\<close>

definition mplsExists :: "RIBHolder \<Rightarrow> u32 \<Rightarrow> bool" where
  "mplsExists rh lbl = (gm_get (LabelEntry (afts rh)) (UnionUint32 lbl) \<noteq> None)"

definition retrieveMPLS :: "RIBHolder \<Rightarrow> u32 \<Rightarrow> Afts_LabelEntry option" where
  "retrieveMPLS rh lbl = gm_get (LabelEntry (afts rh)) (UnionUint32 lbl)"

definition doAddMPLS ::
    "rib_env \<Rightarrow> u32 \<Rightarrow> aft_RIB \<Rightarrow> RIBHolder \<Rightarrow> (rib_err + bool) \<times> RIBHolder" where
  "doAddMPLS E lbl newRIB rh =
     (case newRIB of
        None \<Rightarrow> (Inl GoPanic, rh)
      | Some n \<Rightarrow>
          if length (aft_NextHopGroup n) \<noteq> 0 \<or> length (aft_NextHop n) \<noteq> 0
          then (Inl (OtherEntriesInCandidate (length (aft_NextHopGroup n)) (length (aft_NextHop n))), rh)
          else
            (let implicit = mplsExists rh lbl;
                 a = (afts rh)\<lparr>LabelEntry := gm_del (UnionUint32 lbl) (LabelEntry (afts rh))\<rparr>
             in case MergeStructInto E a newRIB of
                  Inl m \<Rightarrow> (Inl (CannotMerge m), set_afts a rh)
                | Inr a' \<Rightarrow> (Inr implicit, set_afts a' rh)))"

definition AddMPLS ::
    "rib_env \<Rightarrow> check_fn \<Rightarrow> Afts_LabelEntryKey option \<Rightarrow> bool \<Rightarrow> RIBHolder
     \<Rightarrow> (rib_err + bool \<times> Afts_LabelEntry option) \<times> RIBHolder" where
  "AddMPLS E chk eo explicitReplace rh =
     (if rh_r rh = None then (Inl InvalidRIBNil, rh)
      else case eo of
        None \<Rightarrow> (Inl NilEntryProvided, rh)
      | Some e \<Rightarrow>
         (case candidate E (empty_Afts_pb\<lparr>pb_LabelEntry := [e]\<rparr>) of
            Inl m \<Rightarrow> (Inl (InvalidEntry m), rh)
          | Inr nr \<Rightarrow>
             (let lbl = ucast (GetLabelUint64 e) :: u32
              in if explicitReplace \<and> \<not> mplsExists rh lbl
                 then (Inl (CannotReplaceMPLS (GetLabelUint64 e)), rh)
                 else
                  (let orig = (if mplsExists rh lbl then retrieveMPLS rh lbl else None)
                   in case run_check chk rh Add nr of
                        Inl err \<Rightarrow> (Inl err, rh)
                      | Inr False \<Rightarrow> (Inr (False, None), rh)
                      | Inr True \<Rightarrow>
                         (case doAddMPLS E lbl nr rh of
                            (Inl err, rh') \<Rightarrow> (Inl err, rh')
                          | (Inr _, rh') \<Rightarrow>
                             (Inr (True, orig),
                              call_hook Add (map (\<lambda>(k, m). Changed_Label (Some m)) (LabelEntry (GetAfts nr))) rh'))))))"

definition doDeleteMPLS :: "u32 \<Rightarrow> RIBHolder \<Rightarrow> RIBHolder" where
  "doDeleteMPLS lbl rh =
     set_afts ((afts rh)\<lparr>LabelEntry := gm_del (UnionUint32 lbl) (LabelEntry (afts rh))\<rparr>) rh"

definition DeleteMPLS ::
    "check_fn \<Rightarrow> Afts_LabelEntryKey option \<Rightarrow> RIBHolder
     \<Rightarrow> (rib_err + bool \<times> Afts_LabelEntry option) \<times> RIBHolder" where
  "DeleteMPLS chk eo rh =
     (case eo of
        None \<Rightarrow> (Inl NilEntryProvided, rh)
      | Some e \<Rightarrow>
         if rh_r rh = None then (Inl InvalidRIBNil, rh)
         else
          (case lek_Label e of
             Some (LabelUint64 l) \<Rightarrow>
              (let lbl = ucast l :: u32;
                   de = retrieveMPLS rh lbl;
                   rr = Some (snd (Afts_GetOrCreateLabelEntry (UnionUint32 lbl) empty_Afts))
               in case run_check chk rh Delete rr of
                    Inl err \<Rightarrow> (Inl err, rh)
                  | Inr False \<Rightarrow> (Inr (False, None), rh)
                  | Inr True \<Rightarrow>
                      (Inr (True, de), call_hook Delete [Changed_Label de] (doDeleteMPLS lbl rh)))
           | _ \<Rightarrow> (Inl UnsupportedLabelType, rh)))"

definition locklessDeleteMPLS :: "Label_Union \<Rightarrow> RIBHolder \<Rightarrow> rib_err option \<times> RIBHolder" where
  "locklessDeleteMPLS lbl rh =
     (case gm_get (LabelEntry (afts rh)) lbl of
        None \<Rightarrow> (Some (CannotFind (KeyMPLS lbl)), rh)
      | Some de \<Rightarrow>
          (None, call_hook Delete [Changed_Label (Some de)]
             (set_afts ((afts rh)\<lparr>LabelEntry := gm_del lbl (LabelEntry (afts rh))\<rparr>) rh)))"

subsection \<open>The next-hop-group AFT\<close>

definition nhgExists :: "RIBHolder \<Rightarrow> u64 \<Rightarrow> bool" where
  "nhgExists rh i = (gm_get (aft_NextHopGroup (afts rh)) i \<noteq> None)"

definition retrieveNHG :: "RIBHolder \<Rightarrow> u64 \<Rightarrow> Afts_NextHopGroup option" where
  "retrieveNHG rh i = gm_get (aft_NextHopGroup (afts rh)) i"

text \<open>\<open>GetNextHopGroup\<close> and \<open>GetNextHop\<close> return the entry and whether it was found.\<close>

definition GetNextHopGroup :: "RIBHolder \<Rightarrow> u64 \<Rightarrow> Afts_NextHopGroup option" where
  "GetNextHopGroup rh i = Afts_GetNextHopGroup i (rh_r rh)"

definition doAddNHG ::
    "rib_env \<Rightarrow> u64 \<Rightarrow> aft_RIB \<Rightarrow> RIBHolder \<Rightarrow> (rib_err + bool) \<times> RIBHolder" where
  "doAddNHG E i newRIB rh =
     (case newRIB of
        None \<Rightarrow> (Inl GoPanic, rh)
      | Some n \<Rightarrow>
          if length (Ipv4Entry n) \<noteq> 0 \<or> length (aft_NextHop n) \<noteq> 0
          then (Inl (OtherEntriesInCandidate (length (Ipv4Entry n)) (length (aft_NextHop n))), rh)
          else
            (let wasReplace = nhgExists rh i;
                 a = (afts rh)\<lparr>aft_NextHopGroup := gm_del i (aft_NextHopGroup (afts rh))\<rparr>
             in case MergeStructInto E a newRIB of
                  Inl m \<Rightarrow> (Inl (CannotMerge m), set_afts a rh)
                | Inr a' \<Rightarrow> (Inr wasReplace, set_afts a' rh)))"

definition AddNextHopGroup ::
    "rib_env \<Rightarrow> check_fn \<Rightarrow> Afts_NextHopGroupKey option \<Rightarrow> bool \<Rightarrow> RIBHolder
     \<Rightarrow> (rib_err + bool \<times> Afts_NextHopGroup option) \<times> RIBHolder" where
  "AddNextHopGroup E chk eo explicitReplace rh =
     (if rh_r rh = None then (Inl InvalidRIBNil, rh)
      else case eo of
        None \<Rightarrow> (Inl NilEntryProvided, rh)
      | Some e \<Rightarrow>
         (case candidate E (empty_Afts_pb\<lparr>pb_NextHopGroup := [e]\<rparr>) of
            Inl m \<Rightarrow> (Inl (InvalidEntry m), rh)
          | Inr nr \<Rightarrow>
             if explicitReplace \<and> \<not> nhgExists rh (nhgk_Id e)
             then (Inl (CannotReplace (KeyNHG (nhgk_Id e))), rh)
             else
              (let orig = (if nhgExists rh (nhgk_Id e)
                           then retrieveNHG rh (nhgk_Id e) else None)
               in case run_check chk rh Add nr of
                    Inl err \<Rightarrow> (Inl err, rh)
                  | Inr False \<Rightarrow> (Inr (False, None), rh)
                  | Inr True \<Rightarrow>
                     (case doAddNHG E (nhgk_Id e) nr rh of
                        (Inl err, rh') \<Rightarrow> (Inl err, rh')
                      | (Inr _, rh') \<Rightarrow>
                         (Inr (True, orig),
                          call_hook Add (map (\<lambda>(k, g). Changed_NextHopGroup (Some g)) (aft_NextHopGroup (GetAfts nr))) rh')))))"

definition doDeleteNHG :: "u64 \<Rightarrow> RIBHolder \<Rightarrow> RIBHolder" where
  "doDeleteNHG i rh =
     set_afts ((afts rh)\<lparr>aft_NextHopGroup := gm_del i (aft_NextHopGroup (afts rh))\<rparr>) rh"

definition DeleteNextHopGroup ::
    "check_fn \<Rightarrow> Afts_NextHopGroupKey option \<Rightarrow> RIBHolder
     \<Rightarrow> (rib_err + bool \<times> Afts_NextHopGroup option) \<times> RIBHolder" where
  "DeleteNextHopGroup chk eo rh =
     (case eo of
        None \<Rightarrow> (Inl NilEntryProvided, rh)
      | Some e \<Rightarrow>
         if rh_r rh = None then (Inl InvalidRIBNil, rh)
         else if nhgk_Id e = 0 then (Inl InvalidNHGID0, rh)
         else
          (let i = nhgk_Id e;
               de = retrieveNHG rh i;
               rr = Some (snd (Afts_GetOrCreateNextHopGroup i empty_Afts))
           in case run_check chk rh Delete rr of
                Inl err \<Rightarrow> (Inl err, rh)
              | Inr False \<Rightarrow> (Inr (False, None), rh)
              | Inr True \<Rightarrow>
                  (Inr (True, de), call_hook Delete [Changed_NextHopGroup de] (doDeleteNHG i rh))))"

definition locklessDeleteNHG :: "u64 \<Rightarrow> RIBHolder \<Rightarrow> rib_err option \<times> RIBHolder" where
  "locklessDeleteNHG i rh =
     (case retrieveNHG rh i of
        None \<Rightarrow> (Some (CannotFind (KeyNHG i)), rh)
      | Some de \<Rightarrow>
          (None, call_hook Delete [Changed_NextHopGroup (Some de)]
             (doDeleteNHG i (fold (\<lambda>(idx, _). decNHRefCount idx) (nhg_NextHop de) rh))))"

subsection \<open>The next-hop AFT\<close>

definition nhExists :: "RIBHolder \<Rightarrow> u64 \<Rightarrow> bool" where
  "nhExists rh i = (gm_get (aft_NextHop (afts rh)) i \<noteq> None)"

definition retrieveNH :: "RIBHolder \<Rightarrow> u64 \<Rightarrow> Afts_NextHop option" where
  "retrieveNH rh i = gm_get (aft_NextHop (afts rh)) i"

definition GetNextHop :: "RIBHolder \<Rightarrow> u64 \<Rightarrow> Afts_NextHop option" where
  "GetNextHop rh i = Afts_GetNextHop i (rh_r rh)"

lemma GetNextHop_afts:
  "GetNextHop rh i = gm_get (aft_NextHop (afts rh)) i" "GetNextHopGroup rh i = gm_get (aft_NextHopGroup (afts rh)) i"
  by (simp_all add: GetNextHop_def GetNextHopGroup_def afts_def)

definition doAddNH ::
    "rib_env \<Rightarrow> u64 \<Rightarrow> aft_RIB \<Rightarrow> RIBHolder \<Rightarrow> (rib_err + bool) \<times> RIBHolder" where
  "doAddNH E i newRIB rh =
     (case newRIB of
        None \<Rightarrow> (Inl GoPanic, rh)
      | Some n \<Rightarrow>
          if length (Ipv4Entry n) \<noteq> 0 \<or> length (aft_NextHopGroup n) \<noteq> 0
          then (Inl (OtherEntriesInCandidate (length (Ipv4Entry n)) (length (aft_NextHopGroup n))), rh)
          else
            (let implicit = nhExists rh i;
                 a = (afts rh)\<lparr>aft_NextHop := gm_del i (aft_NextHop (afts rh))\<rparr>
             in case MergeStructInto E a newRIB of
                  Inl m \<Rightarrow> (Inl (CannotMerge m), set_afts a rh)
                | Inr a' \<Rightarrow> (Inr implicit, set_afts a' rh)))"

definition AddNextHop ::
    "rib_env \<Rightarrow> check_fn \<Rightarrow> Afts_NextHopKey option \<Rightarrow> bool \<Rightarrow> RIBHolder
     \<Rightarrow> (rib_err + bool \<times> Afts_NextHop option) \<times> RIBHolder" where
  "AddNextHop E chk eo explicitReplace rh =
     (if rh_r rh = None then (Inl InvalidRIBNil, rh)
      else case eo of
        None \<Rightarrow> (Inl NilEntryProvided, rh)
      | Some e \<Rightarrow>
         (case candidate E (empty_Afts_pb\<lparr>pb_NextHop := [e]\<rparr>) of
            Inl m \<Rightarrow> (Inl (InvalidEntry m), rh)
          | Inr nr \<Rightarrow>
             if explicitReplace \<and> \<not> nhExists rh (nhk_Index e)
             then (Inl (CannotReplace (KeyNH (nhk_Index e))), rh)
             else
              (let replaced = (if nhExists rh (nhk_Index e)
                               then retrieveNH rh (nhk_Index e) else None)
               in case run_check chk rh Add nr of
                    Inl err \<Rightarrow> (Inl err, rh)
                  | Inr False \<Rightarrow> (Inr (False, None), rh)
                  | Inr True \<Rightarrow>
                     (case doAddNH E (nhk_Index e) nr rh of
                        (Inl err, rh') \<Rightarrow> (Inl err, rh')
                      | (Inr _, rh') \<Rightarrow>
                         (Inr (True, replaced),
                          call_hook Add (map (\<lambda>(k, nh). Changed_NextHop (Some nh)) (aft_NextHop (GetAfts nr))) rh')))))"

definition doDeleteNH :: "u64 \<Rightarrow> RIBHolder \<Rightarrow> RIBHolder" where
  "doDeleteNH i rh = set_afts ((afts rh)\<lparr>aft_NextHop := gm_del i (aft_NextHop (afts rh))\<rparr>) rh"

definition DeleteNextHop ::
    "check_fn \<Rightarrow> Afts_NextHopKey option \<Rightarrow> RIBHolder
     \<Rightarrow> (rib_err + bool \<times> Afts_NextHop option) \<times> RIBHolder" where
  "DeleteNextHop chk eo rh =
     (case eo of
        None \<Rightarrow> (Inl NilEntryProvided, rh)
      | Some e \<Rightarrow>
         if rh_r rh = None then (Inl InvalidRIBNil, rh)
         else if nhk_Index e = 0 then (Inl InvalidNHIndex0, rh)
         else
          (let i = nhk_Index e;
               de = retrieveNH rh i;
               rr = Some (snd (Afts_GetOrCreateNextHop i empty_Afts))
           in case run_check chk rh Delete rr of
                Inl err \<Rightarrow> (Inl err, rh)
              | Inr False \<Rightarrow> (Inr (False, None), rh)
              | Inr True \<Rightarrow>
                  (Inr (True, de), call_hook Delete [Changed_NextHop de] (doDeleteNH i rh))))"

definition locklessDeleteNH :: "u64 \<Rightarrow> RIBHolder \<Rightarrow> rib_err option \<times> RIBHolder" where
  "locklessDeleteNH i rh =
     (case retrieveNH rh i of
        None \<Rightarrow> (Some (CannotFind (KeyNH i)), rh)
      | Some de \<Rightarrow> (None, call_hook Delete [Changed_NextHop (Some de)] (doDeleteNH i rh)))"

end
