(* ===== verification/Rib.thy ===== *)
theory Rib
  imports RibHolder
begin

text \<open>
  \<open>RIB\<close> of \<open>rib/rib.go\<close>: the RIBs of all network instances, the consistency checks
  (\<open>canResolve\<close>, \<open>canDelete\<close>), the queue of operations that wait for their references, and
  the operations \<open>AddEntry\<close>, \<open>DeleteEntry\<close>, \<open>Flush\<close> and \<open>GetRIB\<close>.

  A \<open>*RIBHolder\<close> pointer obtained from the RIB is represented by its network instance
  name: holders are created once per name and never replaced.  Calls of the
  resolved-entry hook are recorded in \<open>resolvedTrace\<close> with the copy of the RIBs they get.
\<close>

subsection \<open>State\<close>

record pendingEntry =
  pe_ni :: string
  pe_op :: AFTOperation

text \<open>The \<open>key any\<close> argument of the resolved-entry hook.\<close>

datatype hook_key = HK_string string | HK_uint64 u64 | HK_label "Label_Union option"

record RIB =
  niRIB :: "(string, RIBHolder) gomap"
  defaultName :: string
  ribCheck :: bool
  disableForwardReferences :: bool
  pendingEntries :: "(u64, pendingEntry) gomap"
  resolvedEntryHook :: bool
  resolvedTrace :: "((string, Afts) gomap \<times> OpType \<times> string \<times> AFT \<times> hook_key) list"

record OpResult =
  or_ID :: u64
  or_Op :: AFTOperation
  or_Error :: "rib_err option"

datatype RIBOpt = DisableRIBCheckFn | DisableForwardReferences

definition hasDisableCheckFn :: "RIBOpt list \<Rightarrow> bool" where
  "hasDisableCheckFn opt = list_ex (\<lambda>o'. o' = DisableRIBCheckFn) opt"

definition hasDisableForwardRef :: "RIBOpt list \<Rightarrow> bool" where
  "hasDisableForwardRef opt = list_ex (\<lambda>o'. o' = DisableForwardReferences) opt"

definition New :: "string \<Rightarrow> RIBOpt list \<Rightarrow> RIB" where
  "New dn opt =
     (let checkRIB = \<not> hasDisableCheckFn opt;
          fwd = hasDisableForwardRef opt;
          rhOpt = (if checkRIB then [RIBHolderCheckFn] else []) @
                  (if fwd then [RHDisableForwardReferences] else [])
      in \<lparr>niRIB = [(dn, NewRIBHolder dn rhOpt)], defaultName = dn, ribCheck = checkRIB,
          disableForwardReferences = fwd, pendingEntries = [], resolvedEntryHook = False,
          resolvedTrace = []\<rparr>)"

definition SetPostChangeHook :: "bool \<Rightarrow> RIB \<Rightarrow> RIB" where
  "SetPostChangeHook fn r =
     r\<lparr>niRIB := map (\<lambda>(n, rh). (n, rh\<lparr>rh_postChangeHook := fn\<rparr>)) (niRIB r)\<rparr>"

definition SetResolvedEntryHook :: "bool \<Rightarrow> RIB \<Rightarrow> RIB" where
  "SetResolvedEntryHook fn r = r\<lparr>resolvedEntryHook := fn\<rparr>"

definition NetworkInstanceRIB :: "RIB \<Rightarrow> string \<Rightarrow> RIBHolder option" where
  "NetworkInstanceRIB r s = gm_get (niRIB r) s"

text \<open>The update of the holder a pointer names.\<close>

definition on_ni :: "string \<Rightarrow> (RIBHolder \<Rightarrow> RIBHolder) \<Rightarrow> RIB \<Rightarrow> RIB" where
  "on_ni ni f r =
     (case gm_get (niRIB r) ni of
        None \<Rightarrow> r
      | Some rh \<Rightarrow> r\<lparr>niRIB := gm_put ni (f rh) (niRIB r)\<rparr>)"

definition AddNetworkInstance :: "string \<Rightarrow> RIB \<Rightarrow> rib_err option \<times> RIB" where
  "AddNetworkInstance name r =
     (if gm_get (niRIB r) name \<noteq> None then (Some (RIBAlreadyExists name), r)
      else
        (let rhOpt = (if ribCheck r then [RIBHolderCheckFn] else []) @
                     (if disableForwardReferences r then [RHDisableForwardReferences] else [])
         in (None, r\<lparr>niRIB := gm_put name (NewRIBHolder name rhOpt) (niRIB r)\<rparr>)))"

text \<open>\<open>sort.Strings\<close>: lexicographic order of the bytes.\<close>

fun string_le :: "string \<Rightarrow> string \<Rightarrow> bool" where
  "string_le [] t = True"
| "string_le (c # s) [] = False"
| "string_le (c # s) (d # t) =
     ((of_char c :: nat) < of_char d \<or> c = d \<and> string_le s t)"

fun insert_string :: "string \<Rightarrow> string list \<Rightarrow> string list" where
  "insert_string s [] = [s]"
| "insert_string s (t # ts) = (if string_le s t then s # t # ts else t # insert_string s ts)"

definition KnownNetworkInstances :: "RIB \<Rightarrow> string list" where
  "KnownNetworkInstances r = foldr insert_string (map fst (niRIB r)) []"

fun copy_all :: "rib_env \<Rightarrow> (string, RIBHolder) gomap \<Rightarrow> rib_err + (string, Afts) gomap" where
  "copy_all E [] = Inr []"
| "copy_all E ((name, niR) # rest) =
     (case DeepCopy E (afts niR) of
        Inl m \<Rightarrow> Inl (CannotCopyRIB name m)
      | Inr dup \<Rightarrow>
          (case copy_all E rest of Inl e \<Rightarrow> Inl e | Inr m \<Rightarrow> Inr ((name, dup) # m)))"

definition copyRIBs :: "rib_env \<Rightarrow> RIB \<Rightarrow> rib_err + (string, Afts) gomap" where
  "copyRIBs E r = copy_all E (niRIB r)"

definition RIBContents :: "rib_env \<Rightarrow> RIB \<Rightarrow> rib_err + (string, Afts) gomap" where
  "RIBContents E r = copyRIBs E r"

definition callResolvedEntryHook ::
    "rib_env \<Rightarrow> OpType \<Rightarrow> string \<Rightarrow> AFT \<Rightarrow> hook_key \<Rightarrow> RIB \<Rightarrow> rib_err option \<times> RIB" where
  "callResolvedEntryHook E t ni a key r =
     (if \<not> resolvedEntryHook r then (None, r)
      else case copyRIBs E r of
        Inl e \<Rightarrow> (Some e, r)
      | Inr ribs \<Rightarrow> (None, r\<lparr>resolvedTrace := resolvedTrace r @ [(ribs, t, ni, a, key)]\<rparr>))"

subsection \<open>The pending queue\<close>

definition getPending :: "RIB \<Rightarrow> pendingEntry list" where
  "getPending r = map snd (pendingEntries r)"

definition addPending :: "u64 \<Rightarrow> pendingEntry \<Rightarrow> RIB \<Rightarrow> RIB" where
  "addPending i e r = r\<lparr>pendingEntries := gm_put i e (pendingEntries r)\<rparr>"

definition rmPending :: "u64 \<Rightarrow> RIB \<Rightarrow> RIB" where
  "rmPending i r = r\<lparr>pendingEntries := gm_del i (pendingEntries r)\<rparr>"

subsection \<open>Consistency checks\<close>

text \<open>The number of entries in the tables that a candidate may use.\<close>

definition n_entries :: "Afts \<Rightarrow> nat" where
  "n_entries a = length (Ipv6Entry a) + length (LabelEntry a) + length (Ipv4Entry a) +
     length (aft_NextHopGroup a) + length (aft_NextHop a)"

definition checkCandidate :: "Afts \<Rightarrow> rib_err option" where
  "checkCandidate caft =
     (if length (MacEntry caft) \<noteq> 0 then Some MacUnsupported
      else if length (PolicyForwardingEntry caft) \<noteq> 0 then Some PBRUnsupported
      else if n_entries caft = 0 then Some NoEntriesInCandidate
      else if n_entries caft > 1 then Some MultipleEntries
      else None)"

fun nhs_resolvable ::
    "RIBHolder \<Rightarrow> string \<Rightarrow> u64 \<Rightarrow> (u64, Afts_NextHopGroup_NextHop) gomap \<Rightarrow> rib_err + bool" where
  "nhs_resolvable niR netInst gid [] = Inr True"
| "nhs_resolvable niR netInst gid ((k, n) # ns) =
     (if uval (nhgnh_Index n) = 0 then Inl (ZeroIndexNHInNHG gid netInst)
      else if GetNextHop niR (uval (nhgnh_Index n)) = None then Inr False
      else nhs_resolvable niR netInst gid ns)"

definition nhgResolvable :: "RIB \<Rightarrow> RIBHolder \<Rightarrow> string \<Rightarrow> u64 \<Rightarrow> rib_err + bool" where
  "nhgResolvable r resolveRIB otherNI nhg =
     (if otherNI \<noteq> [] then
        (case NetworkInstanceRIB r otherNI of
           None \<Rightarrow> Inl (UnknownNetworkInstance otherNI)
         | Some rr \<Rightarrow> Inr (GetNextHopGroup rr nhg \<noteq> None))
      else Inr (GetNextHopGroup resolveRIB nhg \<noteq> None))"

definition canResolve :: "RIB \<Rightarrow> string \<Rightarrow> aft_RIB \<Rightarrow> rib_err + bool" where
  "canResolve r netInst0 cand =
     (case cand of
        None \<Rightarrow> Inl NilCandidateAFT
      | Some caft \<Rightarrow>
     (case checkCandidate caft of
        Some e \<Rightarrow> Inl e
      | None \<Rightarrow>
     (case aft_NextHop caft of
        (k, n) # _ \<Rightarrow>
          if uval (nh_Index n) = 0 then Inl (ZeroIndexNextHop netInst0) else Inr True
      | [] \<Rightarrow>
     (let netInst = (if netInst0 = [] then defaultName r else netInst0)
      in case NetworkInstanceRIB r netInst of
        None \<Rightarrow> Inl (InvalidNetworkInstance netInst)
      | Some niR \<Rightarrow>
     (case aft_NextHopGroup caft of
        (k, g) # _ \<Rightarrow>
          if uval (nhg_Id g) = 0 then Inl ZeroIndexNHG
          else if length (nhg_NextHop g) = 0 then Inl EmptyNHG
          else nhs_resolvable niR netInst (uval (nhg_Id g)) (nhg_NextHop g)
      | [] \<Rightarrow>
     (case Ipv4Entry caft of
        (k, i) # _ \<Rightarrow>
          if uval (v4_NextHopGroup i) = 0 then Inl (ZeroIndexNHGInEntry netInst)
          else nhgResolvable r niR (sval (v4_NextHopGroupNetworkInstance i)) (uval (v4_NextHopGroup i))
      | [] \<Rightarrow>
     (case Ipv6Entry caft of
        (k, i) # _ \<Rightarrow>
          if uval (v6_NextHopGroup i) = 0 then Inl (ZeroIndexNHGInEntry netInst)
          else nhgResolvable r niR (sval (v6_NextHopGroupNetworkInstance i)) (uval (v6_NextHopGroup i))
      | [] \<Rightarrow>
     (case LabelEntry caft of
        (k, i) # _ \<Rightarrow>
          if uval (le_NextHopGroup i) = 0 then Inl (ZeroIndexNHGInEntry netInst)
          else nhgResolvable r niR (sval (le_NextHopGroupNetworkInstance i)) (uval (le_NextHopGroup i))
      | [] \<Rightarrow> Inl NoEntriesInCandidate))))))))"

definition canDelete :: "RIB \<Rightarrow> string \<Rightarrow> aft_RIB \<Rightarrow> rib_err + bool" where
  "canDelete r netInst0 cand =
     (case cand of
        None \<Rightarrow> Inl NilCandidateAFT
      | Some caft \<Rightarrow>
     (case checkCandidate caft of
        Some e \<Rightarrow> Inl e
      | None \<Rightarrow>
     (let netInst = (if netInst0 = [] then defaultName r else netInst0)
      in case NetworkInstanceRIB r netInst of
        None \<Rightarrow> Inl (InvalidNetworkInstance netInst)
      | Some niR \<Rightarrow>
         if length (Ipv4Entry caft) \<noteq> 0 \<or> length (LabelEntry caft) \<noteq> 0 \<or> length (Ipv6Entry caft) \<noteq> 0
         then Inr True
         else
     (case aft_NextHopGroup caft of
        (i, _) # _ \<Rightarrow>
          if i = 0 then Inl BadNextHopGroupID0
          else if \<not> nhgExists niR i then Inr True
          else Inr (\<not> nhgReferenced niR i)
      | [] \<Rightarrow>
     (case aft_NextHop caft of
        (i, _) # _ \<Rightarrow>
          if i = 0 then Inl BadNextHopID0
          else if \<not> nhExists niR i then Inr True
          else Inr (\<not> nhReferenced niR i)
      | [] \<Rightarrow> Inl NoEntriesInCandidate)))))"

definition checkFn :: "RIB \<Rightarrow> OpType \<Rightarrow> string \<Rightarrow> aft_RIB \<Rightarrow> rib_err + bool" where
  "checkFn r t ni cand =
     (case t of
        Add \<Rightarrow> canResolve r ni cand
      | Delete \<Rightarrow> canDelete r ni cand
      | _ \<Rightarrow> Inl (InvalidOperationType t))"

text \<open>The closure that \<open>NewRIBHolder\<close> builds: the check of the RIB at the holder's own name.\<close>

definition holder_check :: "RIB \<Rightarrow> RIBHolder \<Rightarrow> check_fn" where
  "holder_check r rh t cand = checkFn r t (rh_name rh) cand"

end
