(* ===== verification/RibOps.thy ===== *)
theory RibOps
  imports Rib
begin

text \<open>
  The operations of \<open>rib/rib.go\<close> on the whole RIB: \<open>AddEntry\<close> with its recursion over the
  pending operations, \<open>DeleteEntry\<close>, \<open>Flush\<close> and \<open>GetRIB\<close>.
\<close>

subsection \<open>References\<close>

text \<open>\<open>refdRIB\<close>: the name of the RIB an entry's network instance field refers to.\<close>

definition refdRIB :: "RIB \<Rightarrow> string \<Rightarrow> string \<Rightarrow> rib_err + string" where
  "refdRIB r ni ref =
     (if ref \<noteq> [] then
        (case NetworkInstanceRIB r ref of
           None \<Rightarrow> Inl (InvalidNetworkInstance ref)
         | Some _ \<Rightarrow> Inr ref)
      else Inr ni)"

text \<open>
  \<open>handleReferences\<close> is generic in the entry type; its interfaces read the network
  instance and the identifier of the next-hop-group, so entries are given as such pairs.
\<close>

type_synonym nhg_ref = "string \<times> u64"

definition handleReferences :: "string \<Rightarrow> nhg_ref option \<Rightarrow> nhg_ref \<Rightarrow> RIB \<Rightarrow> RIB" where
  "handleReferences ni original new r =
     (let (newNHGNI, newNHG) = new;
          inc = (\<lambda>r. case refdRIB r ni newNHGNI of
                       Inl _ \<Rightarrow> r
                     | Inr rr \<Rightarrow> on_ni rr (incNHGRefCount newNHG) r)
      in case original of
           None \<Rightarrow> inc r
         | Some (origNHGNI, origNHG) \<Rightarrow>
             if newNHGNI = origNHGNI \<and> newNHG = origNHG then r
             else inc (case refdRIB r ni origNHGNI of
                         Inl _ \<Rightarrow> r
                       | Inr rr \<Rightarrow> on_ni rr (decNHGRefCount origNHG) r))"

text \<open>A nil \<open>NextHopGroup\<close> message panics when its next-hops are read.\<close>

definition handleNHGReferences ::
    "string \<Rightarrow> Afts_NextHopGroup option \<Rightarrow> Afts_NextHopGroup_pb option \<Rightarrow> RIB \<Rightarrow> rib_err option \<times> RIB" where
  "handleNHGReferences ni original new r =
     (case new of
        None \<Rightarrow> (Some GoPanic, r)
      | Some g \<Rightarrow>
         (let incd = fold (\<lambda>nh. on_ni ni (incNHRefCount (nhgnhk_Index nh))) (nhgpb_NextHop g) r
          in (None,
              case original of
                None \<Rightarrow> incd
              | Some og \<Rightarrow>
                  fold (\<lambda>(k, nh). on_ni ni (decNHRefCount (uval (nhgnh_Index nh)))) (nhg_NextHop og) incd)))"

definition v4_ref :: "Afts_Ipv4Entry \<Rightarrow> nhg_ref" where
  "v4_ref e = (sval (v4_NextHopGroupNetworkInstance e), uval (v4_NextHopGroup e))"

definition v6_ref :: "Afts_Ipv6Entry \<Rightarrow> nhg_ref" where
  "v6_ref e = (sval (v6_NextHopGroupNetworkInstance e), uval (v6_NextHopGroup e))"

definition le_ref :: "Afts_LabelEntry \<Rightarrow> nhg_ref" where
  "le_ref e = (sval (le_NextHopGroupNetworkInstance e), uval (le_NextHopGroup e))"

text \<open>The same pair of a protobuf payload; the getters are nil-safe.\<close>

definition v4pb_ref :: "Afts_Ipv4Entry_pb option \<Rightarrow> nhg_ref" where
  "v4pb_ref p = (case p of None \<Rightarrow> ([], 0)
     | Some e \<Rightarrow> (sval (v4pb_NextHopGroupNetworkInstance e), uval (v4pb_NextHopGroup e)))"

definition v6pb_ref :: "Afts_Ipv6Entry_pb option \<Rightarrow> nhg_ref" where
  "v6pb_ref p = (case p of None \<Rightarrow> ([], 0)
     | Some e \<Rightarrow> (sval (v6pb_NextHopGroupNetworkInstance e), uval (v6pb_NextHopGroup e)))"

definition lepb_ref :: "Afts_LabelEntry_pb option \<Rightarrow> nhg_ref" where
  "lepb_ref p = (case p of None \<Rightarrow> ([], 0)
     | Some e \<Rightarrow> (sval (lepb_NextHopGroupNetworkInstance e), uval (lepb_NextHopGroup e)))"

subsection \<open>AddEntry\<close>

text \<open>
  The outcome of the type switch of \<open>addEntryInternal\<close>: a return from the function, an
  error of the entry, an entry that was installed (with the AFT and key the resolved-entry
  hook is called for, if any), or an entry that cannot be resolved yet.
\<close>

datatype install_result =
    Fatal rib_err
  | OpFailed rib_err
  | Installed "(AFT \<times> hook_key) option"
  | Unresolved

definition install_outcome ::
    "rib_err + bool \<times> 'e \<Rightarrow> (AFT \<times> hook_key) option \<Rightarrow> install_result" where
  "install_outcome res call =
     (case res of
        Inl GoPanic \<Rightarrow> Fatal GoPanic
      | Inl err \<Rightarrow> OpFailed err
      | Inr (True, _) \<Rightarrow> Installed call
      | Inr (False, _) \<Rightarrow> Unresolved)"

definition installEntry ::
    "rib_env \<Rightarrow> string \<Rightarrow> AFTOperation \<Rightarrow> RIBHolder \<Rightarrow> RIB \<Rightarrow> install_result \<times> RIB" where
  "installEntry E ni op niR r =
     (let explicitReplace = (op_Op op = Op_REPLACE);
          chk = holder_check r niR;
          store = (\<lambda>rh. r\<lparr>niRIB := gm_put ni rh (niRIB r)\<rparr>)
      in case op_Entry op of
           Some (AFTOp_Ipv4 t) \<Rightarrow>
             (case AddIPv4 E chk t explicitReplace niR of
                (Inr (True, orig), rh) \<Rightarrow>
                  (let p = (case t of None \<Rightarrow> [] | Some e \<Rightarrow> v4k_Prefix e)
                   in (Installed (if p \<noteq> [] then Some (IPv4, HK_string p) else None),
                       handleReferences ni (map_option v4_ref orig)
                         (v4pb_ref (Option.bind t v4k_Ipv4Entry)) (store rh)))
              | (res, rh) \<Rightarrow> (install_outcome res None, store rh))
         | Some (AFTOp_Ipv6 t) \<Rightarrow>
             (case AddIPv6 E chk t explicitReplace niR of
                (Inr (True, orig), rh) \<Rightarrow>
                  (let p = (case t of None \<Rightarrow> [] | Some e \<Rightarrow> v6k_Prefix e)
                   in (Installed (if p \<noteq> [] then Some (IPv6, HK_string p) else None),
                       handleReferences ni (map_option v6_ref orig)
                         (v6pb_ref (Option.bind t v6k_Ipv6Entry)) (store rh)))
              | (res, rh) \<Rightarrow> (install_outcome res None, store rh))
         | Some (AFTOp_Mpls t) \<Rightarrow>
             (case AddMPLS E chk t explicitReplace niR of
                (Inr (True, orig), rh) \<Rightarrow>
                  (let l = (case t of None \<Rightarrow> 0 | Some e \<Rightarrow> GetLabelUint64 e)
                   in (Installed (if l \<noteq> 0 then Some (MPLS, HK_uint64 l) else None),
                       handleReferences ni (map_option le_ref orig)
                         (lepb_ref (Option.bind t lek_LabelEntry)) (store rh)))
              | (res, rh) \<Rightarrow> (install_outcome res None, store rh))
         | Some (AFTOp_NextHopGroup t) \<Rightarrow>
             (case AddNextHopGroup E chk t explicitReplace niR of
                (Inr (True, orig), rh) \<Rightarrow>
                  (case handleNHGReferences ni orig (Option.bind t nhgk_NextHopGroup) (store rh) of
                     (Some e, r') \<Rightarrow> (Fatal e, r')
                   | (None, r') \<Rightarrow> (Installed None, r'))
              | (res, rh) \<Rightarrow> (install_outcome res None, store rh))
         | Some (AFTOp_NextHop t) \<Rightarrow>
             (case AddNextHop E chk t explicitReplace niR of
                (res, rh) \<Rightarrow> (install_outcome res None, store rh))
         | _ \<Rightarrow> (Fatal UnsupportedAFTOperation, r))"

text \<open>
  The state of one \<open>AddEntry\<close> call: the RIB, the two result slices and the stack of
  installed operation identifiers.
\<close>

record add_state =
  as_rib :: RIB
  as_oks :: "OpResult list"
  as_fails :: "OpResult list"
  as_stack :: "u64 list"

definition okResult :: "AFTOperation \<Rightarrow> OpResult" where
  "okResult op = \<lparr>or_ID = op_Id op, or_Op = op, or_Error = None\<rparr>"

definition failResult :: "AFTOperation \<Rightarrow> rib_err \<Rightarrow> OpResult" where
  "failResult op e = \<lparr>or_ID = op_Id op, or_Op = op, or_Error = Some e\<rparr>"

text \<open>One pass over a snapshot of the pending operations; it stops at the first fatal error.\<close>

fun pending_loop ::
    "(string \<Rightarrow> AFTOperation \<Rightarrow> add_state \<Rightarrow> (rib_err option \<times> add_state) option)
     \<Rightarrow> pendingEntry list \<Rightarrow> add_state \<Rightarrow> (rib_err option \<times> add_state) option" where
  "pending_loop f [] st = Some (None, st)"
| "pending_loop f (e # es) st =
     (case f (pe_ni e) (pe_op e) st of
        None \<Rightarrow> None
      | Some (Some err, st') \<Rightarrow> Some (Some err, st')
      | Some (None, st') \<Rightarrow> pending_loop f es st')"

text \<open>
  \<open>addEntryInternal\<close>.  The first argument bounds the depth of the recursion (\<open>None\<close> is a
  recursion that did not end within it); \<open>sched\<close> gives the order in which the pending map
  is iterated, which Go leaves open, for each state of the install stack.
\<close>

type_synonym schedule = "u64 list \<Rightarrow> pendingEntry list \<Rightarrow> pendingEntry list"

fun addEntryInternal ::
    "rib_env \<Rightarrow> schedule \<Rightarrow> nat \<Rightarrow> string \<Rightarrow> AFTOperation \<Rightarrow> add_state
     \<Rightarrow> (rib_err option \<times> add_state) option" where
  "addEntryInternal E sched 0 ni op st = None"
| "addEntryInternal E sched (Suc n) ni op st =
     (if op_Id op \<in> set (as_stack st) then Some (None, st)
      else case NetworkInstanceRIB (as_rib st) ni of
        None \<Rightarrow> Some (Some (InvalidNetworkInstance ni), st)
      | Some niR \<Rightarrow>
         if \<not> IsValid niR then Some (Some (InvalidNetworkInstance ni), st)
         else
          (case installEntry E ni op niR (as_rib st) of
             (Fatal e, r) \<Rightarrow> Some (Some e, st\<lparr>as_rib := r\<rparr>)
           | (OpFailed e, r) \<Rightarrow>
               Some (None, st\<lparr>as_rib := r, as_fails := as_fails st @ [failResult op e]\<rparr>)
           | (Installed call, r) \<Rightarrow>
               (let st1 = st\<lparr>as_rib := rmPending (op_Id op) r,
                             as_oks := as_oks st @ [okResult op],
                             as_stack := op_Id op # as_stack st\<rparr>
                in case (case call of
                           None \<Rightarrow> (None, as_rib st1)
                         | Some (a, key) \<Rightarrow> callResolvedEntryHook E Add ni a key (as_rib st1)) of
                     (Some e, r2) \<Rightarrow> Some (Some (CannotRunResolvedHook e), st1\<lparr>as_rib := r2\<rparr>)
                   | (None, r2) \<Rightarrow>
                       pending_loop (addEntryInternal E sched n)
                         (sched (as_stack st1) (getPending r2)) (st1\<lparr>as_rib := r2\<rparr>))
           | (Unresolved, r) \<Rightarrow>
               Some (None,
                 if \<not> disableForwardReferences r
                 then st\<lparr>as_rib := addPending (op_Id op) \<lparr>pe_ni = ni, pe_op = op\<rparr> r\<rparr>
                 else st\<lparr>as_rib := r,
                         as_fails := as_fails st @ [failResult op (UnresolvedDependencies (op_Id op))]\<rparr>)))"

text \<open>The result of \<open>AddEntry\<close>: the fatal error or the two slices, and the RIB afterwards.\<close>

definition AddEntry ::
    "rib_env \<Rightarrow> schedule \<Rightarrow> string \<Rightarrow> AFTOperation \<Rightarrow> RIB
     \<Rightarrow> ((rib_err + OpResult list \<times> OpResult list) \<times> RIB) option" where
  "AddEntry E sched ni op r =
     (if ni = [] then Some (Inl (InvalidNetworkInstance ni), r)
      else
       (case addEntryInternal E sched (length (pendingEntries r) + 2) ni op
               \<lparr>as_rib = r, as_oks = [], as_fails = [], as_stack = []\<rparr> of
          None \<Rightarrow> None
        | Some (Some e, st) \<Rightarrow> Some (Inl e, as_rib st)
        | Some (None, st) \<Rightarrow> Some (Inr (as_oks st, as_fails st), as_rib st)))"

subsection \<open>DeleteEntry\<close>

text \<open>The result has both slices and the error, as the code returns all three.\<close>

type_synonym delete_result = "OpResult list \<times> OpResult list \<times> rib_err option"

text \<open>
  The part of \<open>DeleteEntry\<close> after the removal of an IPv4, IPv6 or MPLS entry that was
  present: its reference is released and the resolved-entry hook called.
\<close>

definition finishDelete ::
    "rib_env \<Rightarrow> string \<Rightarrow> AFTOperation \<Rightarrow> nhg_ref \<Rightarrow> AFT \<Rightarrow> hook_key \<Rightarrow> RIB \<Rightarrow> delete_result \<times> RIB" where
  "finishDelete E ni op ref a key r =
     (case refdRIB r ni (fst ref) of
        Inl e \<Rightarrow> (([], [], Some e), r)
      | Inr rr \<Rightarrow>
          (case callResolvedEntryHook E Delete ni a key (on_ni rr (decNHGRefCount (snd ref)) r) of
             (Some e, r') \<Rightarrow> (([okResult op], [], Some (CannotRunResolvedHook e)), r')
           | (None, r') \<Rightarrow> (([okResult op], [], None), r')))"

text \<open>Its part for an error of the entry, and for an entry whose removal was refused.\<close>

definition deleteOutcome :: "AFTOperation \<Rightarrow> rib_err + bool \<times> 'e \<Rightarrow> delete_result" where
  "deleteOutcome op res =
     (case res of
        Inl e \<Rightarrow> ([], [failResult op e], None)
      | Inr (True, _) \<Rightarrow> ([okResult op], [], None)
      | Inr (False, _) \<Rightarrow> ([], [okResult op], None))"

definition DeleteEntry ::
    "rib_env \<Rightarrow> string \<Rightarrow> AFTOperation option \<Rightarrow> RIB \<Rightarrow> delete_result \<times> RIB" where
  "DeleteEntry E ni opo r =
     (case NetworkInstanceRIB r ni of
        None \<Rightarrow> (([], [], Some (InvalidNetworkInstance ni)), r)
      | Some niR \<Rightarrow>
        if \<not> IsValid niR then (([], [], Some (InvalidNetworkInstance ni)), r)
        else case opo of
          None \<Rightarrow> (([], [], Some NilAFTOperation), r)
        | Some op \<Rightarrow>
         (let chk = holder_check r niR;
              store = (\<lambda>rh. r\<lparr>niRIB := gm_put ni rh (niRIB r)\<rparr>)
          in case op_Entry op of
               None \<Rightarrow> (([], [], Some NilAFTOperation), r)
             | Some (AFTOp_Ipv4 t) \<Rightarrow>
                 (case DeleteIPv4 chk t niR of
                    (Inr (True, Some originalv4), rh) \<Rightarrow>
                      finishDelete E ni op (v4_ref originalv4) IPv4
                        (HK_string (sval (v4_Prefix originalv4))) (store rh)
                  | (res, rh) \<Rightarrow> (deleteOutcome op res, store rh))
             | Some (AFTOp_Ipv6 t) \<Rightarrow>
                 (case DeleteIPv6 chk t niR of
                    (Inr (True, Some originalv6), rh) \<Rightarrow>
                      finishDelete E ni op (v6_ref originalv6) IPv6
                        (HK_string (sval (v6_Prefix originalv6))) (store rh)
                  | (res, rh) \<Rightarrow> (deleteOutcome op res, store rh))
             | Some (AFTOp_NextHop t) \<Rightarrow>
                 (case DeleteNextHop chk t niR of
                    (res, rh) \<Rightarrow> (deleteOutcome op res, store rh))
             | Some (AFTOp_NextHopGroup t) \<Rightarrow>
                 (case DeleteNextHopGroup chk t niR of
                    (Inr (True, Some originalNHG), rh) \<Rightarrow>
                      (([okResult op], [], None),
                       fold (\<lambda>(i, _). on_ni ni (decNHRefCount i)) (nhg_NextHop originalNHG) (store rh))
                  | (res, rh) \<Rightarrow> (deleteOutcome op res, store rh))
             | Some (AFTOp_Mpls t) \<Rightarrow>
                 (case DeleteMPLS chk t niR of
                    (Inr (True, Some originalMPLS), rh) \<Rightarrow>
                      finishDelete E ni op (le_ref originalMPLS) MPLS
                        (HK_label (le_Label originalMPLS)) (store rh)
                  | (res, rh) \<Rightarrow> (deleteOutcome op res, store rh))
             | Some OtherEntry \<Rightarrow> (([], [], Some UnsupportedAFTOperation), r)))"


subsection \<open>GetRIB\<close>

text \<open>
  \<open>GetRIB\<close> writes one message per entry and polls \<open>stopCh\<close> before each.  \<open>stop n\<close> says
  whether the channel is ready when \<open>n\<close> messages have been written.  The result is the list
  of messages and how the function ended.
\<close>

datatype get_end = GetDone | GetStopped | GetErr rib_err

fun get_table ::
    "(nat \<Rightarrow> bool) \<Rightarrow> ('e \<Rightarrow> proto_err + AFTEntry) \<Rightarrow> ('k \<times> 'e) list \<Rightarrow> GetResponse list
     \<Rightarrow> get_end \<times> GetResponse list" where
  "get_table stop conv [] acc = (GetDone, acc)"
| "get_table stop conv ((k, e) # es) acc =
     (if stop (length acc) then (GetStopped, acc)
      else case conv e of
        Inl m \<Rightarrow> (GetErr (CannotMarshalEntry m), acc)
      | Inr ae \<Rightarrow> get_table stop conv es (acc @ [[ae]]))"

definition then_get ::
    "get_end \<times> GetResponse list \<Rightarrow> (GetResponse list \<Rightarrow> get_end \<times> GetResponse list)
     \<Rightarrow> get_end \<times> GetResponse list" where
  "then_get res k = (case res of (GetDone, acc) \<Rightarrow> k acc | _ \<Rightarrow> res)"

definition aft_entry ::
    "string \<Rightarrow> ('k \<Rightarrow> AFTEntry_Entry) \<Rightarrow> proto_err + 'k \<Rightarrow> proto_err + AFTEntry" where
  "aft_entry ni con p =
     (case p of Inl e \<Rightarrow> Inl e | Inr k \<Rightarrow> Inr \<lparr>ae_NetworkInstance = ni, ae_Entry = Some (con k)\<rparr>)"

definition all_filter :: "AFTType \<Rightarrow> bool" where
  "all_filter t = (t \<in> {AFT_IPV4, AFT_MPLS, AFT_NEXTHOP, AFT_NEXTHOP_GROUP, AFT_IPV6})"

definition GetRIB ::
    "rib_env \<Rightarrow> (AFTType \<Rightarrow> bool) \<Rightarrow> (nat \<Rightarrow> bool) \<Rightarrow> RIBHolder \<Rightarrow> get_end \<times> GetResponse list" where
  "GetRIB E filter0 stop rh =
     (let filter = (if filter0 AFT_ALL then all_filter else filter0);
          ni = rh_name rh; a = afts rh
      in then_get (if filter AFT_IPV4
                   then get_table stop (\<lambda>e. aft_entry ni AFTEntry_Ipv4 (ConcreteIPv4Proto E e)) (Ipv4Entry a) []
                   else (GetDone, []))
        (\<lambda>acc. then_get (if filter AFT_IPV6
                   then get_table stop (\<lambda>e. aft_entry ni AFTEntry_Ipv6 (ConcreteIPv6Proto E e)) (Ipv6Entry a) acc
                   else (GetDone, acc))
        (\<lambda>acc. then_get (if filter AFT_MPLS
                   then get_table stop (\<lambda>e. aft_entry ni AFTEntry_Mpls (ConcreteMPLSProto E e)) (LabelEntry a) acc
                   else (GetDone, acc))
        (\<lambda>acc. then_get (if filter AFT_NEXTHOP_GROUP
                   then get_table stop (\<lambda>e. aft_entry ni AFTEntry_NextHopGroup (ConcreteNextHopGroupProto E e)) (aft_NextHopGroup a) acc
                   else (GetDone, acc))
        (\<lambda>acc. if filter AFT_NEXTHOP
                   then get_table stop (\<lambda>e. aft_entry ni AFTEntry_NextHop (ConcreteNextHopProto E e)) (aft_NextHop a) acc
                   else (GetDone, acc))))))"

subsection \<open>Flush\<close>

text \<open>
  \<open>Flush\<close> locks each network instance until it returns, so naming one twice deadlocks, and
  an unknown name is a nil pointer whose lock panics.  The state of the loops is the RIB
  and the errors collected so far.
\<close>

type_synonym flush_state = "RIB \<times> rib_err list"

definition flush_lockless ::
    "string \<Rightarrow> (RIBHolder \<Rightarrow> rib_err option \<times> RIBHolder) \<Rightarrow> flush_state \<Rightarrow> flush_state" where
  "flush_lockless ni del s =
     (case s of (r, errs) \<Rightarrow>
       (case NetworkInstanceRIB r ni of
          None \<Rightarrow> (r, errs)
        | Some rh \<Rightarrow>
           (case del rh of
              (e, rh') \<Rightarrow> (r\<lparr>niRIB := gm_put ni rh' (niRIB r)\<rparr>,
                           errs @ (case e of None \<Rightarrow> [] | Some err \<Rightarrow> [err])))))"

text \<open>The body of the loops over IPv4, IPv6 and MPLS entries.\<close>

definition flush_top ::
    "string \<Rightarrow> nhg_ref \<Rightarrow> (RIBHolder \<Rightarrow> rib_err option \<times> RIBHolder) \<Rightarrow> flush_state \<Rightarrow> flush_state" where
  "flush_top ni ref del s =
     (case s of (r, errs) \<Rightarrow>
       flush_lockless ni del
         (case refdRIB r ni (fst ref) of
            Inl _ \<Rightarrow> r
          | Inr rr \<Rightarrow> on_ni rr (decNHGRefCount (snd ref)) r, errs))"

definition flush_ni :: "string \<Rightarrow> flush_state \<Rightarrow> flush_state" where
  "flush_ni ni s0 =
     (let cur = (\<lambda>s. case NetworkInstanceRIB (fst s) ni of None \<Rightarrow> empty_Afts | Some rh \<Rightarrow> afts rh);
          s1 = fold (\<lambda>(p, e). flush_top ni (v4_ref e) (locklessDeleteIPv4 p)) (Ipv4Entry (cur s0)) s0;
          s2 = fold (\<lambda>(p, e). flush_top ni (v6_ref e) (locklessDeleteIPv6 p)) (Ipv6Entry (cur s1)) s1;
          s3 = fold (\<lambda>(l, e). flush_top ni (le_ref e) (locklessDeleteMPLS l)) (LabelEntry (cur s2)) s2;
          backupNHGs = List.map_filter (\<lambda>(k, g). nhg_BackupNextHopGroup g) (aft_NextHopGroup (cur s3));
          s4 = fold (\<lambda>i. flush_lockless ni (locklessDeleteNHG i)) backupNHGs s3;
          s5 = fold (\<lambda>(i, g). flush_lockless ni (locklessDeleteNHG i)) (aft_NextHopGroup (cur s4)) s4;
          s6 = fold (\<lambda>(i, nh). flush_lockless ni (locklessDeleteNH i)) (aft_NextHop (cur s5)) s5
      in s6)"

fun flush_all :: "string list \<Rightarrow> string list \<Rightarrow> flush_state \<Rightarrow> rib_err option \<times> flush_state" where
  "flush_all [] locked s = (None, s)"
| "flush_all (ni # nis) locked s =
     (if NetworkInstanceRIB (fst s) ni = None then (Some GoPanic, s)
      else if ni \<in> set locked then (Some GoDeadlock, s)
      else flush_all nis (ni # locked) (flush_ni ni s))"

definition Flush :: "string list \<Rightarrow> RIB \<Rightarrow> rib_err option \<times> RIB" where
  "Flush networkInstances r =
     (case flush_all networkInstances [] (r, []) of
        (Some e, (r', _)) \<Rightarrow> (Some e, r')
      | (None, (r', errs)) \<Rightarrow> (if length errs \<noteq> 0 then Some (FlushErr errs) else None, r'))"

end
