(* ===== verification/RefCount.thy ===== *)
theory RefCount
  imports RibOps
begin

text \<open>
  The reference counters of a RIB against what they are meant to count.  \<open>nhg_refs\<close> and
  \<open>nh_refs\<close> are the multisets of references that the stored entries make; the locale
  \<open>ref_counter\<close> states what the increment and decrement operations promise to the code that
  keeps a counter equal to such a multiset, and is interpreted for the two counters of a
  holder and for the same counters addressed from the RIB.
\<close>

subsection \<open>Counters as an interface\<close>

definition tracks :: "('s \<Rightarrow> 'k \<Rightarrow> u64) \<Rightarrow> 's \<Rightarrow> 'k multiset \<Rightarrow> bool" where
  "tracks get s M \<longleftrightarrow> (\<forall>k. get s k = of_nat (count M k))"

lemma tracksD: "tracks get s M \<Longrightarrow> get s k = of_nat (count M k)"
  by (simp add: tracks_def)

lemma tracks_cong: "tracks get s M \<Longrightarrow> (\<And>k. get s' k = get s k) \<Longrightarrow> tracks get s' M"
  by (simp add: tracks_def)

lemma tracks_zero_iff:
  "tracks get s M \<Longrightarrow> count M k < 2 ^ 64 \<Longrightarrow> get s k = 0 \<longleftrightarrow> k \<notin># M"
  by (simp add: tracksD of_nat_u64_eq_0 not_in_iff)

locale ref_counter =
  fixes get :: "'s \<Rightarrow> 'k \<Rightarrow> u64"
    and inc dec :: "'k \<Rightarrow> 's \<Rightarrow> 's"
    and valid :: "'s \<Rightarrow> 'k \<Rightarrow> bool"
  assumes get_inc: "valid s k \<Longrightarrow> get (inc k s) j = (if j = k then get s j + 1 else get s j)"
    and get_dec: "valid s k \<Longrightarrow>
      get (dec k s) j = (if j = k \<and> get s j \<noteq> 0 then get s j - 1 else get s j)"
    and valid_inc: "valid (inc k s) j = valid s j"
    and valid_dec: "valid (dec k s) j = valid s j"
begin

lemma tracks_inc: "valid s k \<Longrightarrow> tracks get s M \<Longrightarrow> tracks get (inc k s) (add_mset k M)"
  by (simp add: tracks_def get_inc add.commute)

lemma tracks_dec:
  assumes "valid s k" and t: "tracks get s (add_mset k M)" and b: "Suc (count M k) < 2 ^ 64"
  shows "tracks get (dec k s) M"
proof -
  have "get s k = of_nat (Suc (count M k))" using t by (simp add: tracks_def)
  then have "get s k \<noteq> 0" using b by (metis nat.distinct(1) of_nat_u64_eq_0)
  with assms show ?thesis by (auto simp: tracks_def get_dec)
qed

lemma valid_fold_inc: "valid (fold inc ks s) j = valid s j"
  by (induction ks arbitrary: s) (simp_all add: valid_inc)

lemma valid_fold_dec: "valid (fold dec ks s) j = valid s j"
  by (induction ks arbitrary: s) (simp_all add: valid_dec)

lemma tracks_fold_inc:
  "\<forall>k\<in>set ks. valid s k \<Longrightarrow> tracks get s M \<Longrightarrow> tracks get (fold inc ks s) (mset ks + M)"
proof (induction ks arbitrary: s M)
  case (Cons k ks)
  from Cons.prems have "tracks get (inc k s) (add_mset k M)" by (simp add: tracks_inc)
  moreover from Cons.prems have "\<forall>j\<in>set ks. valid (inc k s) j" by (simp add: valid_inc)
  ultimately have "tracks get (fold inc ks (inc k s)) (mset ks + add_mset k M)"
    by (rule Cons.IH [rotated])
  then show ?case by simp
qed simp

lemma tracks_fold_dec:
  "\<forall>k\<in>set ks. valid s k \<Longrightarrow> tracks get s (mset ks + M) \<Longrightarrow>
    (\<And>k. count (mset ks + M) k < 2 ^ 64) \<Longrightarrow> tracks get (fold dec ks s) M"
proof (induction ks arbitrary: s)
  case (Cons k ks)
  have "Suc (count (mset ks + M) k) < 2 ^ 64" using Cons.prems(3) [of k] by simp
  then have t: "tracks get (dec k s) (mset ks + M)"
    using Cons.prems by (intro tracks_dec) simp_all
  have b: "count (mset ks + M) j < 2 ^ 64" for j
    using Cons.prems(3) [of j] by (simp split: if_splits)
  from Cons.prems have "\<forall>j\<in>set ks. valid (dec k s) j" by (simp add: valid_dec)
  then show ?case using Cons.IH [OF _ t b] by simp
qed simp

end

subsection \<open>The counters of a holder\<close>

interpretation holder_nhg:
  ref_counter rh_refNextHopGroup incNHGRefCount decNHGRefCount "\<lambda>_ _. True"
  by unfold_locales (auto simp: incNHGRefCount_def decNHGRefCount_def)

interpretation holder_nh:
  ref_counter rh_refNextHop incNHRefCount decNHRefCount "\<lambda>_ _. True"
  by unfold_locales (auto simp: incNHRefCount_def decNHRefCount_def)

subsection \<open>The counters of the RIB\<close>

definition nhg_count :: "RIB \<Rightarrow> string \<times> u64 \<Rightarrow> u64" where
  "nhg_count r x = (case gm_get (niRIB r) (fst x) of
     None \<Rightarrow> 0 | Some rh \<Rightarrow> rh_refNextHopGroup rh (snd x))"

definition nh_count :: "RIB \<Rightarrow> string \<times> u64 \<Rightarrow> u64" where
  "nh_count r x = (case gm_get (niRIB r) (fst x) of
     None \<Rightarrow> 0 | Some rh \<Rightarrow> rh_refNextHop rh (snd x))"

definition inc_nhg :: "string \<times> u64 \<Rightarrow> RIB \<Rightarrow> RIB" where
  "inc_nhg x = on_ni (fst x) (incNHGRefCount (snd x))"

definition dec_nhg :: "string \<times> u64 \<Rightarrow> RIB \<Rightarrow> RIB" where
  "dec_nhg x = on_ni (fst x) (decNHGRefCount (snd x))"

definition inc_nh :: "string \<times> u64 \<Rightarrow> RIB \<Rightarrow> RIB" where
  "inc_nh x = on_ni (fst x) (incNHRefCount (snd x))"

definition dec_nh :: "string \<times> u64 \<Rightarrow> RIB \<Rightarrow> RIB" where
  "dec_nh x = on_ni (fst x) (decNHRefCount (snd x))"

definition known_ni :: "RIB \<Rightarrow> string \<Rightarrow> bool" where
  "known_ni r ni = (gm_get (niRIB r) ni \<noteq> None)"

lemma on_ni_get [gomap]:
  "gm_get (niRIB (on_ni ni f r)) ni' =
     (if ni' = ni then map_option f (gm_get (niRIB r) ni) else gm_get (niRIB r) ni')"
  by (auto simp: on_ni_def gomap split: option.splits)

lemma known_on_ni [simp]: "known_ni (on_ni ni f r) ni' = known_ni r ni'"
  by (auto simp: known_ni_def gomap)

lemmas rib_counter_defs =
  nhg_count_def nh_count_def inc_nhg_def dec_nhg_def inc_nh_def dec_nh_def known_ni_def

interpretation rib_nhg:
  ref_counter nhg_count inc_nhg dec_nhg "\<lambda>r x. known_ni r (fst x)"
  by unfold_locales
    (auto simp: rib_counter_defs gomap incNHGRefCount_def decNHGRefCount_def prod_eq_iff
          split: option.splits)

interpretation rib_nh:
  ref_counter nh_count inc_nh dec_nh "\<lambda>r x. known_ni r (fst x)"
  by unfold_locales
    (auto simp: rib_counter_defs gomap incNHRefCount_def decNHRefCount_def prod_eq_iff
          split: option.splits)

text \<open>One counter's operations leave the other counter alone.\<close>

lemma nh_count_nhg_ops [simp]:
  "nh_count (inc_nhg x r) y = nh_count r y" "nh_count (dec_nhg x r) y = nh_count r y"
  by (auto simp: rib_counter_defs gomap incNHGRefCount_def decNHGRefCount_def split: option.splits)

lemma nhg_count_nh_ops [simp]:
  "nhg_count (inc_nh x r) y = nhg_count r y" "nhg_count (dec_nh x r) y = nhg_count r y"
  by (auto simp: rib_counter_defs gomap incNHRefCount_def decNHRefCount_def split: option.splits)

subsection \<open>The references of the stored entries\<close>

definition resolve_ref :: "string \<Rightarrow> nhg_ref \<Rightarrow> string \<times> u64" where
  "resolve_ref ni ref = (if fst ref = [] then ni else fst ref, snd ref)"

definition table_refs :: "('e \<Rightarrow> 'r) \<Rightarrow> ('k, 'e) gomap \<Rightarrow> 'r multiset" where
  "table_refs f m = mset (map (\<lambda>p. f (snd p)) m)"

definition raw_refs :: "Afts \<Rightarrow> nhg_ref multiset" where
  "raw_refs a = table_refs v4_ref (Ipv4Entry a) + table_refs v6_ref (Ipv6Entry a) +
     table_refs le_ref (LabelEntry a)"

definition group_nhs :: "Afts_NextHopGroup \<Rightarrow> u64 multiset" where
  "group_nhs g = mset (map fst (nhg_NextHop g))"

definition raw_nh_refs :: "Afts \<Rightarrow> u64 multiset" where
  "raw_nh_refs a = sum_list (map (\<lambda>p. group_nhs (snd p)) (aft_NextHopGroup a))"

definition nhg_refs :: "RIB \<Rightarrow> (string \<times> u64) multiset" where
  "nhg_refs r = sum_list (map (\<lambda>p. image_mset (resolve_ref (fst p)) (raw_refs (afts (snd p)))) (niRIB r))"

definition nh_refs :: "RIB \<Rightarrow> (string \<times> u64) multiset" where
  "nh_refs r = sum_list (map (\<lambda>p. image_mset (Pair (fst p)) (raw_nh_refs (afts (snd p)))) (niRIB r))"

definition opt_mset :: "'a option \<Rightarrow> 'a multiset" where
  "opt_mset x = (case x of None \<Rightarrow> {#} | Some a \<Rightarrow> {#a#})"

lemma opt_mset_simps [simp]: "opt_mset None = {#}" "opt_mset (Some a) = {#a#}"
  by (simp_all add: opt_mset_def)

lemma table_refs_alt: "table_refs f m = sum_list (map (\<lambda>p. {#f (snd p)#}) m)"
  by (induction m) (simp_all add: table_refs_def)

lemma table_refs_put:
  assumes "gm_wf m"
  shows "table_refs f (gm_put k v m) + opt_mset (map_option f (gm_get m k)) =
    table_refs f m + {#f v#}"
proof (cases "gm_get m k")
  case None
  then show ?thesis
    using sum_list_put_absent [of m k "\<lambda>p. {#f (snd p)#}" v] by (simp add: table_refs_alt)
next
  case (Some w)
  with assms show ?thesis
    using sum_list_put_present [of m k w "\<lambda>p. {#f (snd p)#}" v] by (simp add: table_refs_alt)
qed

lemma table_refs_del:
  assumes "gm_wf m"
  shows "table_refs f (gm_del k m) + opt_mset (map_option f (gm_get m k)) = table_refs f m"
proof (cases "gm_get m k")
  case None
  then show ?thesis by (simp add: gm_del_absent)
next
  case (Some w)
  with assms show ?thesis
    using sum_list_del_present [of m k w "\<lambda>p. {#f (snd p)#}"] by (simp add: table_refs_alt)
qed

lemma table_refs_replace:
  assumes "gm_wf m"
  shows "table_refs f (gm_put k v (gm_del k m)) + opt_mset (map_option f (gm_get m k)) =
    table_refs f m + {#f v#}"
  using table_refs_put [of "gm_del k m" f k v] table_refs_del [of m f k] assms
  by (simp add: gomap add.commute add.left_commute)

text \<open>Storing a holder changes the sums by that holder's share.\<close>

lemma nhg_refs_store:
  assumes "gm_wf (niRIB r)" and "gm_get (niRIB r) ni = Some rh"
  shows "nhg_refs (r\<lparr>niRIB := gm_put ni rh' (niRIB r)\<rparr>) + image_mset (resolve_ref ni) (raw_refs (afts rh)) =
    nhg_refs r + image_mset (resolve_ref ni) (raw_refs (afts rh'))"
  using sum_list_put_present [OF assms, of "\<lambda>p. image_mset (resolve_ref (fst p)) (raw_refs (afts (snd p)))" rh']
  by (simp add: nhg_refs_def)

lemma nh_refs_store:
  assumes "gm_wf (niRIB r)" and "gm_get (niRIB r) ni = Some rh"
  shows "nh_refs (r\<lparr>niRIB := gm_put ni rh' (niRIB r)\<rparr>) + image_mset (Pair ni) (raw_nh_refs (afts rh)) =
    nh_refs r + image_mset (Pair ni) (raw_nh_refs (afts rh'))"
  using sum_list_put_present [OF assms, of "\<lambda>p. image_mset (Pair (fst p)) (raw_nh_refs (afts (snd p)))" rh']
  by (simp add: nh_refs_def)

lemma refs_on_ni:
  assumes "gm_wf (niRIB r)" and "\<And>rh. afts (f rh) = afts rh"
  shows "nhg_refs (on_ni ni f r) = nhg_refs r" "nh_refs (on_ni ni f r) = nh_refs r"
proof -
  show "nhg_refs (on_ni ni f r) = nhg_refs r"
  proof (cases "gm_get (niRIB r) ni")
    case (Some rh)
    then show ?thesis using nhg_refs_store [OF assms(1) Some, of "f rh"] assms(2)
      by (simp add: on_ni_def)
  qed (simp add: on_ni_def)
  show "nh_refs (on_ni ni f r) = nh_refs r"
  proof (cases "gm_get (niRIB r) ni")
    case (Some rh)
    then show ?thesis using nh_refs_store [OF assms(1) Some, of "f rh"] assms(2)
      by (simp add: on_ni_def)
  qed (simp add: on_ni_def)
qed

lemma afts_counter_ops [simp]:
  "afts (incNHGRefCount i rh) = afts rh" "afts (decNHGRefCount i rh) = afts rh"
  "afts (incNHRefCount i rh) = afts rh" "afts (decNHRefCount i rh) = afts rh"
  "afts (call_hook t es rh) = afts rh" "afts (set_afts a rh) = a"
  by (simp_all add: afts_def incNHGRefCount_def decNHGRefCount_def incNHRefCount_def
      decNHRefCount_def call_hook_def set_afts_def)

end
