(* ===== verification/RibLaws.thy ===== *)
theory RibLaws
  imports RefCount
begin

text \<open>
  What the RIB relies on of the libraries under it (\<open>env_laws\<close>), and what each \<open>Add\<close> and
  \<open>Delete\<close> method of a holder then does: it either stores exactly the candidate's entry
  under the key of the message, or leaves the holder as it was.
\<close>

subsection \<open>The libraries\<close>

text \<open>
  A candidate built from one entry holds that entry alone, under the key of the message,
  with the next-hop-group reference (or the set of next-hops) of the message.
\<close>

definition v4_of :: "Afts_Ipv4EntryKey \<Rightarrow> Afts_Ipv4Entry \<Rightarrow> bool" where
  "v4_of e v = (v4_ref v = v4pb_ref (v4k_Ipv4Entry e) \<and> v4_Prefix v = Some (v4k_Prefix e))"

definition v6_of :: "Afts_Ipv6EntryKey \<Rightarrow> Afts_Ipv6Entry \<Rightarrow> bool" where
  "v6_of e v = (v6_ref v = v6pb_ref (v6k_Ipv6Entry e) \<and> v6_Prefix v = Some (v6k_Prefix e))"

definition label_of :: "Afts_LabelEntryKey \<Rightarrow> Label_Union" where
  "label_of e = UnionUint32 (ucast (GetLabelUint64 e))"

definition le_of :: "Afts_LabelEntryKey \<Rightarrow> Afts_LabelEntry \<Rightarrow> bool" where
  "le_of e v = (le_ref v = lepb_ref (lek_LabelEntry e) \<and> le_Label v = Some (label_of e))"

definition pb_nhs :: "Afts_NextHopGroupKey \<Rightarrow> u64 list" where
  "pb_nhs e = (case nhgk_NextHopGroup e of None \<Rightarrow> []
     | Some g \<Rightarrow> map nhgnhk_Index (nhgpb_NextHop g))"

definition group_wf :: "Afts_NextHopGroup \<Rightarrow> bool" where
  "group_wf g = (gm_wf (nhg_NextHop g) \<and> (\<forall>p\<in>set (nhg_NextHop g). nhgnh_Index (snd p) = Some (fst p)))"

definition nhg_of :: "Afts_NextHopGroupKey \<Rightarrow> Afts_NextHopGroup \<Rightarrow> bool" where
  "nhg_of e v = (nhg_Id v = Some (nhgk_Id e) \<and> group_wf v \<and>
     set (map fst (nhg_NextHop v)) = set (pb_nhs e))"

definition nh_of :: "Afts_NextHopKey \<Rightarrow> Afts_NextHop \<Rightarrow> bool" where
  "nh_of e v = (nh_Index v = Some (nhk_Index e) \<and> gm_wf (nh_EncapHeader v))"

definition numeric_label :: "Afts_LabelEntryKey \<Rightarrow> bool" where
  "numeric_label e = (case lek_Label e of Some (LabelUint64 _) \<Rightarrow> True | _ \<Rightarrow> False)"

definition candidate_laws :: "rib_env \<Rightarrow> bool" where
  "candidate_laws E \<longleftrightarrow>
     (\<forall>e c. candidate E (empty_Afts_pb\<lparr>pb_Ipv4Entry := [e]\<rparr>) = Inr c \<longrightarrow>
        (\<exists>v. c = Some (empty_Afts\<lparr>Ipv4Entry := [(v4k_Prefix e, v)]\<rparr>) \<and> v4_of e v)) \<and>
     (\<forall>e c. candidate E (empty_Afts_pb\<lparr>pb_Ipv6Entry := [e]\<rparr>) = Inr c \<longrightarrow>
        (\<exists>v. c = Some (empty_Afts\<lparr>Ipv6Entry := [(v6k_Prefix e, v)]\<rparr>) \<and> v6_of e v)) \<and>
     (\<forall>e c. numeric_label e \<longrightarrow> candidate E (empty_Afts_pb\<lparr>pb_LabelEntry := [e]\<rparr>) = Inr c \<longrightarrow>
        (\<exists>v. c = Some (empty_Afts\<lparr>LabelEntry := [(label_of e, v)]\<rparr>) \<and> le_of e v)) \<and>
     (\<forall>e c. candidate E (empty_Afts_pb\<lparr>pb_NextHopGroup := [e]\<rparr>) = Inr c \<longrightarrow>
        (\<exists>v. c = Some (empty_Afts\<lparr>aft_NextHopGroup := [(nhgk_Id e, v)]\<rparr>) \<and> nhg_of e v)) \<and>
     (\<forall>e c. candidate E (empty_Afts_pb\<lparr>pb_NextHop := [e]\<rparr>) = Inr c \<longrightarrow>
        (\<exists>v. c = Some (empty_Afts\<lparr>aft_NextHop := [(nhk_Index e, v)]\<rparr>) \<and> nh_of e v))"

text \<open>Merging a struct whose only list key is absent from the destination adds that entry.\<close>

definition merge_laws :: "rib_env \<Rightarrow> bool" where
  "merge_laws E \<longleftrightarrow>
     (\<forall>a k v. gm_get (Ipv4Entry a) k = None \<longrightarrow>
        MergeStructInto E a (Some (empty_Afts\<lparr>Ipv4Entry := [(k, v)]\<rparr>)) =
          Inr (a\<lparr>Ipv4Entry := gm_put k v (Ipv4Entry a)\<rparr>)) \<and>
     (\<forall>a k v. gm_get (Ipv6Entry a) k = None \<longrightarrow>
        MergeStructInto E a (Some (empty_Afts\<lparr>Ipv6Entry := [(k, v)]\<rparr>)) =
          Inr (a\<lparr>Ipv6Entry := gm_put k v (Ipv6Entry a)\<rparr>)) \<and>
     (\<forall>a k v. gm_get (LabelEntry a) k = None \<longrightarrow>
        MergeStructInto E a (Some (empty_Afts\<lparr>LabelEntry := [(k, v)]\<rparr>)) =
          Inr (a\<lparr>LabelEntry := gm_put k v (LabelEntry a)\<rparr>)) \<and>
     (\<forall>a k v. gm_get (aft_NextHopGroup a) k = None \<longrightarrow>
        MergeStructInto E a (Some (empty_Afts\<lparr>aft_NextHopGroup := [(k, v)]\<rparr>)) =
          Inr (a\<lparr>aft_NextHopGroup := gm_put k v (aft_NextHopGroup a)\<rparr>)) \<and>
     (\<forall>a k v. gm_get (aft_NextHop a) k = None \<longrightarrow>
        MergeStructInto E a (Some (empty_Afts\<lparr>aft_NextHop := [(k, v)]\<rparr>)) =
          Inr (a\<lparr>aft_NextHop := gm_put k v (aft_NextHop a)\<rparr>))"

definition env_laws :: "rib_env \<Rightarrow> bool" where
  "env_laws E \<longleftrightarrow> candidate_laws E \<and> merge_laws E \<and> (\<forall>a. DeepCopy E a = Inr a)"

text \<open>
  Operations the server hands to the RIB: numeric labels, and no next-hop listed twice in
  one group (the counters count list elements, the table keeps keys).
\<close>

definition op_wf :: "AFTOperation \<Rightarrow> bool" where
  "op_wf op = (case op_Entry op of
     Some (AFTOp_Mpls (Some e)) \<Rightarrow> numeric_label e
   | Some (AFTOp_NextHopGroup (Some e)) \<Rightarrow> distinct (pb_nhs e)
   | _ \<Rightarrow> True)"

lemma candidate_lawsD:
  assumes "env_laws E"
  shows "candidate E (empty_Afts_pb\<lparr>pb_Ipv4Entry := [e4]\<rparr>) = Inr c \<Longrightarrow>
      \<exists>v. c = Some (empty_Afts\<lparr>Ipv4Entry := [(v4k_Prefix e4, v)]\<rparr>) \<and> v4_of e4 v"
    and "candidate E (empty_Afts_pb\<lparr>pb_Ipv6Entry := [e6]\<rparr>) = Inr c \<Longrightarrow>
      \<exists>v. c = Some (empty_Afts\<lparr>Ipv6Entry := [(v6k_Prefix e6, v)]\<rparr>) \<and> v6_of e6 v"
    and "numeric_label el \<Longrightarrow> candidate E (empty_Afts_pb\<lparr>pb_LabelEntry := [el]\<rparr>) = Inr c \<Longrightarrow>
      \<exists>v. c = Some (empty_Afts\<lparr>LabelEntry := [(label_of el, v)]\<rparr>) \<and> le_of el v"
    and "candidate E (empty_Afts_pb\<lparr>pb_NextHopGroup := [eg]\<rparr>) = Inr c \<Longrightarrow>
      \<exists>v. c = Some (empty_Afts\<lparr>aft_NextHopGroup := [(nhgk_Id eg, v)]\<rparr>) \<and> nhg_of eg v"
    and "candidate E (empty_Afts_pb\<lparr>pb_NextHop := [eh]\<rparr>) = Inr c \<Longrightarrow>
      \<exists>v. c = Some (empty_Afts\<lparr>aft_NextHop := [(nhk_Index eh, v)]\<rparr>) \<and> nh_of eh v"
  using assms unfolding env_laws_def candidate_laws_def by blast+

lemma merge_lawsD:
  assumes "env_laws E"
  shows "gm_get (Ipv4Entry a) p = None \<Longrightarrow>
      MergeStructInto E a (Some (empty_Afts\<lparr>Ipv4Entry := [(p, e4)]\<rparr>)) = Inr (a\<lparr>Ipv4Entry := gm_put p e4 (Ipv4Entry a)\<rparr>)"
    and "gm_get (Ipv6Entry a) p = None \<Longrightarrow>
      MergeStructInto E a (Some (empty_Afts\<lparr>Ipv6Entry := [(p, e6)]\<rparr>)) = Inr (a\<lparr>Ipv6Entry := gm_put p e6 (Ipv6Entry a)\<rparr>)"
    and "gm_get (LabelEntry a) l = None \<Longrightarrow>
      MergeStructInto E a (Some (empty_Afts\<lparr>LabelEntry := [(l, el)]\<rparr>)) = Inr (a\<lparr>LabelEntry := gm_put l el (LabelEntry a)\<rparr>)"
    and "gm_get (aft_NextHopGroup a) i = None \<Longrightarrow>
      MergeStructInto E a (Some (empty_Afts\<lparr>aft_NextHopGroup := [(i, eg)]\<rparr>)) = Inr (a\<lparr>aft_NextHopGroup := gm_put i eg (aft_NextHopGroup a)\<rparr>)"
    and "gm_get (aft_NextHop a) i = None \<Longrightarrow>
      MergeStructInto E a (Some (empty_Afts\<lparr>aft_NextHop := [(i, eh)]\<rparr>)) = Inr (a\<lparr>aft_NextHop := gm_put i eh (aft_NextHop a)\<rparr>)"
  using assms unfolding env_laws_def merge_laws_def by blast+

lemma deepcopy_law: "env_laws E \<Longrightarrow> DeepCopy E a = Inr a"
  by (simp add: env_laws_def)

lemma empty_Afts_simps [simp]:
  "Ipv4Entry empty_Afts = []" "Ipv6Entry empty_Afts = []" "LabelEntry empty_Afts = []"
  "MacEntry empty_Afts = []" "aft_NextHop empty_Afts = []" "aft_NextHopGroup empty_Afts = []"
  "PolicyForwardingEntry empty_Afts = []"
  by (simp_all add: empty_Afts_def)

subsection \<open>Storing one entry\<close>

text \<open>The holder after an entry is stored, per AFT.\<close>

definition put_v4 :: "string \<Rightarrow> Afts_Ipv4Entry \<Rightarrow> Afts \<Rightarrow> Afts" where
  "put_v4 k v a = a\<lparr>Ipv4Entry := gm_put k v (gm_del k (Ipv4Entry a))\<rparr>"

definition put_v6 :: "string \<Rightarrow> Afts_Ipv6Entry \<Rightarrow> Afts \<Rightarrow> Afts" where
  "put_v6 k v a = a\<lparr>Ipv6Entry := gm_put k v (gm_del k (Ipv6Entry a))\<rparr>"

definition put_le :: "Label_Union \<Rightarrow> Afts_LabelEntry \<Rightarrow> Afts \<Rightarrow> Afts" where
  "put_le k v a = a\<lparr>LabelEntry := gm_put k v (gm_del k (LabelEntry a))\<rparr>"

definition put_nhg :: "u64 \<Rightarrow> Afts_NextHopGroup \<Rightarrow> Afts \<Rightarrow> Afts" where
  "put_nhg k v a = a\<lparr>aft_NextHopGroup := gm_put k v (gm_del k (aft_NextHopGroup a))\<rparr>"

definition put_nh :: "u64 \<Rightarrow> Afts_NextHop \<Rightarrow> Afts \<Rightarrow> Afts" where
  "put_nh k v a = a\<lparr>aft_NextHop := gm_put k v (gm_del k (aft_NextHop a))\<rparr>"

lemmas put_defs = put_v4_def put_v6_def put_le_def put_nhg_def put_nh_def

text \<open>The holder after an entry is removed.\<close>

definition del_v4 :: "string \<Rightarrow> Afts \<Rightarrow> Afts" where
  "del_v4 k a = a\<lparr>Ipv4Entry := gm_del k (Ipv4Entry a)\<rparr>"

definition del_v6 :: "string \<Rightarrow> Afts \<Rightarrow> Afts" where
  "del_v6 k a = a\<lparr>Ipv6Entry := gm_del k (Ipv6Entry a)\<rparr>"

definition del_le :: "Label_Union \<Rightarrow> Afts \<Rightarrow> Afts" where
  "del_le k a = a\<lparr>LabelEntry := gm_del k (LabelEntry a)\<rparr>"

definition del_nhg :: "u64 \<Rightarrow> Afts \<Rightarrow> Afts" where
  "del_nhg k a = a\<lparr>aft_NextHopGroup := gm_del k (aft_NextHopGroup a)\<rparr>"

definition del_nh :: "u64 \<Rightarrow> Afts \<Rightarrow> Afts" where
  "del_nh k a = a\<lparr>aft_NextHop := gm_del k (aft_NextHop a)\<rparr>"

lemmas del_defs = del_v4_def del_v6_def del_le_def del_nhg_def del_nh_def

text \<open>The candidates the checks see: the entry to add, and the bare key to delete.\<close>

definition single_v4 :: "string \<Rightarrow> Afts_Ipv4Entry \<Rightarrow> Afts" where
  "single_v4 k v = empty_Afts\<lparr>Ipv4Entry := [(k, v)]\<rparr>"

definition single_v6 :: "string \<Rightarrow> Afts_Ipv6Entry \<Rightarrow> Afts" where
  "single_v6 k v = empty_Afts\<lparr>Ipv6Entry := [(k, v)]\<rparr>"

definition single_le :: "Label_Union \<Rightarrow> Afts_LabelEntry \<Rightarrow> Afts" where
  "single_le k v = empty_Afts\<lparr>LabelEntry := [(k, v)]\<rparr>"

definition single_nhg :: "u64 \<Rightarrow> Afts_NextHopGroup \<Rightarrow> Afts" where
  "single_nhg k v = empty_Afts\<lparr>aft_NextHopGroup := [(k, v)]\<rparr>"

definition single_nh :: "u64 \<Rightarrow> Afts_NextHop \<Rightarrow> Afts" where
  "single_nh k v = empty_Afts\<lparr>aft_NextHop := [(k, v)]\<rparr>"

lemmas single_defs = single_v4_def single_v6_def single_le_def single_nhg_def single_nh_def

subsection \<open>The contract of an AFT\<close>

text \<open>
  What \<open>Add\<close> and \<open>Delete\<close> of one AFT promise: which messages are refused, that the check
  decides the rest, and which single change a successful call makes.  \<open>tbl\<close> is the table,
  \<open>key\<close> the key of a message, \<open>usable\<close> the messages the contract covers, \<open>deletable\<close>
  those whose key \<open>Delete\<close> accepts, and \<open>blank\<close> the bare entry of a delete candidate.
\<close>

locale aft_table =
  fixes tbl :: "Afts \<Rightarrow> ('k, 'e) gomap"
    and single :: "'k \<Rightarrow> 'e \<Rightarrow> Afts"
    and store :: "'k \<Rightarrow> 'e \<Rightarrow> Afts \<Rightarrow> Afts"
    and remove :: "'k \<Rightarrow> Afts \<Rightarrow> Afts"
    and key :: "'pb \<Rightarrow> 'k"
    and usable deletable :: "'pb \<Rightarrow> bool"
    and cand :: "rib_env \<Rightarrow> 'pb \<Rightarrow> string + aft_RIB"
    and of_pb :: "'pb \<Rightarrow> 'e \<Rightarrow> bool"
    and blank :: "'k \<Rightarrow> 'e"
    and changed :: "'e option \<Rightarrow> changed_entry"
    and add :: "rib_env \<Rightarrow> check_fn \<Rightarrow> 'pb option \<Rightarrow> bool \<Rightarrow> RIBHolder
      \<Rightarrow> (rib_err + bool \<times> 'e option) \<times> RIBHolder"
    and delete :: "check_fn \<Rightarrow> 'pb option \<Rightarrow> RIBHolder
      \<Rightarrow> (rib_err + bool \<times> 'e option) \<times> RIBHolder"
  assumes cand_law: "env_laws E \<Longrightarrow> usable e \<Longrightarrow> cand E e = Inr c \<Longrightarrow>
      \<exists>v. c = Some (single (key e) v) \<and> of_pb e v"
    and add_nil: "rh_r rh \<noteq> None \<Longrightarrow> add E chk None x rh = (Inl NilEntryProvided, rh)"
    and add_invalid: "rh_r rh \<noteq> None \<Longrightarrow> cand E e = Inl m \<Longrightarrow>
      add E chk (Some e) x rh = (Inl (InvalidEntry m), rh)"
    and add_missing: "rh_r rh \<noteq> None \<Longrightarrow> cand E e = Inr c \<Longrightarrow> x \<Longrightarrow> usable e \<Longrightarrow>
      gm_get (tbl (afts rh)) (key e) = None \<Longrightarrow>
      \<exists>err. err \<noteq> GoPanic \<and> add E chk (Some e) x rh = (Inl err, rh)"
    and add_checked: "env_laws E \<Longrightarrow> rh_r rh \<noteq> None \<Longrightarrow> usable e \<Longrightarrow>
      cand E e = Inr (Some (single (key e) v)) \<Longrightarrow> x \<longrightarrow> gm_get (tbl (afts rh)) (key e) \<noteq> None \<Longrightarrow>
      add E chk (Some e) x rh =
        (case run_check chk rh Add (Some (single (key e) v)) of
           Inl err \<Rightarrow> (Inl err, rh)
         | Inr False \<Rightarrow> (Inr (False, None), rh)
         | Inr True \<Rightarrow> (Inr (True, gm_get (tbl (afts rh)) (key e)),
             call_hook Add [changed (Some v)] (set_afts (store (key e) v (afts rh)) rh)))"
    and delete_nil: "delete chk None rh = (Inl NilEntryProvided, rh)"
    and delete_refused: "rh_r rh \<noteq> None \<Longrightarrow> \<not> deletable e \<Longrightarrow>
      \<exists>err. delete chk (Some e) rh = (Inl err, rh)"
    and delete_checked: "rh_r rh \<noteq> None \<Longrightarrow> deletable e \<Longrightarrow>
      delete chk (Some e) rh =
        (case run_check chk rh Delete (Some (single (key e) (blank (key e)))) of
           Inl err \<Rightarrow> (Inl err, rh)
         | Inr False \<Rightarrow> (Inr (False, None), rh)
         | Inr True \<Rightarrow> (Inr (True, gm_get (tbl (afts rh)) (key e)),
             call_hook Delete [changed (gm_get (tbl (afts rh)) (key e))]
               (set_afts (remove (key e) (afts rh)) rh)))"
begin

text \<open>When an addition goes through.\<close>

definition ready :: "rib_env \<Rightarrow> check_fn \<Rightarrow> bool \<Rightarrow> RIBHolder \<Rightarrow> 'pb \<Rightarrow> 'e \<Rightarrow> bool" where
  "ready E chk x rh e v \<longleftrightarrow>
     cand E e = Inr (Some (single (key e) v)) \<and> of_pb e v \<and>
     (x \<longrightarrow> gm_get (tbl (afts rh)) (key e) \<noteq> None) \<and>
     run_check chk rh Add (Some (single (key e) v)) = Inr True"

lemma add_ready:
  assumes "env_laws E" and "rh_r rh \<noteq> None" and "usable e" and "ready E chk x rh e v"
  shows "add E chk (Some e) x rh = (Inr (True, gm_get (tbl (afts rh)) (key e)),
    call_hook Add [changed (Some v)] (set_afts (store (key e) v (afts rh)) rh))"
  using assms add_checked [of E rh e v x chk] by (simp add: ready_def)

lemma add_not_ready:
  assumes "env_laws E" and "rh_r rh \<noteq> None" and "\<And>e. eo = Some e \<Longrightarrow> usable e"
    and "\<And>e v. eo = Some e \<Longrightarrow> \<not> ready E chk x rh e v" and "\<And>c. run_check chk rh Add c \<noteq> Inl GoPanic"
  shows "snd (add E chk eo x rh) = rh \<and> (\<forall>o'. fst (add E chk eo x rh) \<noteq> Inr (True, o')) \<and>
    fst (add E chk eo x rh) \<noteq> Inl GoPanic"
proof (cases eo)
  case None
  with assms(2) show ?thesis by (simp add: add_nil)
next
  case (Some e)
  show ?thesis
  proof (cases "cand E e")
    case (Inl m)
    with Some assms(2) show ?thesis by (simp add: add_invalid)
  next
    case (Inr c)
    with Some assms obtain v where v: "c = Some (single (key e) v)" "of_pb e v"
      using cand_law by blast
    show ?thesis
    proof (cases "x \<and> gm_get (tbl (afts rh)) (key e) = None")
      case True
      with Inr Some assms(2) assms(3) [OF Some] obtain err where
        "err \<noteq> GoPanic" "add E chk (Some e) x rh = (Inl err, rh)" using add_missing by blast
      with Some show ?thesis by simp
    next
      case False
      with Inr Some v assms show ?thesis
        using add_checked [of E rh e v x chk] assms(4) [OF Some, of v] assms(5)
        by (auto simp: ready_def split: sum.splits bool.splits)
    qed
  qed
qed

lemma delete_cases:
  assumes "rh_r rh \<noteq> None"
  obtains (removed) e where "eo = Some e" "deletable e"
      "run_check chk rh Delete (Some (single (key e) (blank (key e)))) = Inr True"
      "delete chk eo rh = (Inr (True, gm_get (tbl (afts rh)) (key e)),
         call_hook Delete [changed (gm_get (tbl (afts rh)) (key e))]
           (set_afts (remove (key e) (afts rh)) rh))"
    | (refused) "snd (delete chk eo rh) = rh" "\<And>o'. fst (delete chk eo rh) \<noteq> Inr (True, o')"
proof (cases eo)
  case None
  then show thesis using refused by (simp add: delete_nil)
next
  case (Some e)
  show thesis
  proof (cases "deletable e")
    case False
    with Some assms obtain err where "delete chk eo rh = (Inl err, rh)"
      using delete_refused by blast
    then show thesis using refused by simp
  next
    case True
    with Some assms show thesis
      using delete_checked [of rh e chk] removed [of e] refused
      by (cases "run_check chk rh Delete (Some (single (key e) (blank (key e))))")
        (auto split: bool.splits)
  qed
qed

end

subsection \<open>The five AFTs\<close>

lemmas add_defs =
  AddIPv4_def doAddIPv4_def ipv4Exists_def retrieveIPv4_def
  AddIPv6_def doAddIPv6_def ipv6Exists_def retrieveIPv6_def
  AddMPLS_def doAddMPLS_def mplsExists_def retrieveMPLS_def
  AddNextHopGroup_def doAddNHG_def nhgExists_def retrieveNHG_def
  AddNextHop_def doAddNH_def nhExists_def retrieveNH_def

lemmas delete_defs =
  DeleteIPv4_def doDeleteIPv4_def retrieveIPv4_def DeleteIPv6_def doDeleteIPv6_def retrieveIPv6_def
  DeleteMPLS_def doDeleteMPLS_def retrieveMPLS_def
  DeleteNextHopGroup_def doDeleteNHG_def retrieveNHG_def
  DeleteNextHop_def doDeleteNH_def retrieveNH_def

lemmas blank_defs =
  NewIpv4Entry_def NewIpv6Entry_def NewLabelEntry_def NewNextHopGroup_def NewNextHop_def

lemma numeric_labelE: "numeric_label e \<Longrightarrow>
    \<exists>l. lek_Label e = Some (LabelUint64 l) \<and> label_of e = UnionUint32 (ucast l)"
  by (auto simp: numeric_label_def label_of_def GetLabelUint64_def
      split: option.splits LabelEntryKey_Label.splits)

interpretation ipv4: aft_table Ipv4Entry single_v4 put_v4 del_v4 v4k_Prefix "\<lambda>_. True" "\<lambda>_. True"
  "\<lambda>E e. candidate E (empty_Afts_pb\<lparr>pb_Ipv4Entry := [e]\<rparr>)" v4_of NewIpv4Entry Changed_Ipv4
  AddIPv4 DeleteIPv4
  by unfold_locales
    (auto simp: add_defs delete_defs single_defs put_defs del_defs gomap merge_lawsD Let_def
      dest: candidate_lawsD split: sum.splits bool.splits)

interpretation ipv6: aft_table Ipv6Entry single_v6 put_v6 del_v6 v6k_Prefix "\<lambda>_. True" "\<lambda>_. True"
  "\<lambda>E e. candidate E (empty_Afts_pb\<lparr>pb_Ipv6Entry := [e]\<rparr>)" v6_of NewIpv6Entry Changed_Ipv6
  AddIPv6 DeleteIPv6
  by unfold_locales
    (auto simp: add_defs delete_defs single_defs put_defs del_defs gomap merge_lawsD Let_def
      dest: candidate_lawsD split: sum.splits bool.splits)

interpretation nhg: aft_table aft_NextHopGroup single_nhg put_nhg del_nhg nhgk_Id "\<lambda>_. True"
  "\<lambda>e. nhgk_Id e \<noteq> 0"
  "\<lambda>E e. candidate E (empty_Afts_pb\<lparr>pb_NextHopGroup := [e]\<rparr>)" nhg_of NewNextHopGroup
  Changed_NextHopGroup AddNextHopGroup DeleteNextHopGroup
  by unfold_locales
    (auto simp: add_defs delete_defs single_defs put_defs del_defs gomap merge_lawsD Let_def
      dest: candidate_lawsD split: sum.splits bool.splits)

interpretation nh: aft_table aft_NextHop single_nh put_nh del_nh nhk_Index "\<lambda>_. True"
  "\<lambda>e. nhk_Index e \<noteq> 0"
  "\<lambda>E e. candidate E (empty_Afts_pb\<lparr>pb_NextHop := [e]\<rparr>)" nh_of NewNextHop
  Changed_NextHop AddNextHop DeleteNextHop
  by unfold_locales
    (auto simp: add_defs delete_defs single_defs put_defs del_defs gomap merge_lawsD Let_def
      dest: candidate_lawsD split: sum.splits bool.splits)

lemma mpls_candidate:
  assumes "env_laws E" and "numeric_label e"
    and "candidate E (empty_Afts_pb\<lparr>pb_LabelEntry := [e]\<rparr>) = Inr c"
  shows "\<exists>v. c = Some (single_le (label_of e) v) \<and> le_of e v"
  using candidate_lawsD(3) [OF assms] by (simp add: single_le_def)

interpretation mpls: aft_table LabelEntry single_le put_le del_le label_of numeric_label numeric_label
  "\<lambda>E e. candidate E (empty_Afts_pb\<lparr>pb_LabelEntry := [e]\<rparr>)" le_of NewLabelEntry
  Changed_Label AddMPLS DeleteMPLS
  by (unfold_locales, rule mpls_candidate)
    (auto simp: add_defs delete_defs single_defs put_defs del_defs gomap merge_lawsD Let_def
      label_of_def numeric_label_def GetLabelUint64_def
      split: sum.splits bool.splits option.splits LabelEntryKey_Label.splits)

end
