(* ===== verification/RibInv.thy ===== *)
theory RibInv
  imports RibLaws
begin

text \<open>
  The invariant of the RIB: its tables are well formed, every reference counter equals the
  number of stored references to its next-hop-group or next-hop, and every reference leads
  to a stored entry.  Here it is shown for one installation and one deletion; the theory
  \<open>RibAdd\<close> lifts it through the recursion of \<open>AddEntry\<close>.
\<close>

subsection \<open>Well-formed tables\<close>

text \<open>
  The tables are maps, each entry names its own key, a group has next-hops, and groups and
  next-hops have non-zero keys.
\<close>

definition group_ok :: "u64 \<Rightarrow> Afts_NextHopGroup \<Rightarrow> bool" where
  "group_ok i g \<longleftrightarrow> i \<noteq> 0 \<and> nhg_Id g = Some i \<and> nhg_NextHop g \<noteq> [] \<and> group_wf g"

definition keyed :: "('k \<Rightarrow> 'e \<Rightarrow> bool) \<Rightarrow> ('k, 'e) gomap \<Rightarrow> bool" where
  "keyed ok m \<longleftrightarrow> gm_wf m \<and> (\<forall>p\<in>set m. ok (fst p) (snd p))"

definition v4_ok :: "string \<Rightarrow> Afts_Ipv4Entry \<Rightarrow> bool" where
  "v4_ok k e \<longleftrightarrow> v4_Prefix e = Some k"

definition v6_ok :: "string \<Rightarrow> Afts_Ipv6Entry \<Rightarrow> bool" where
  "v6_ok k e \<longleftrightarrow> v6_Prefix e = Some k"

definition le_ok :: "Label_Union \<Rightarrow> Afts_LabelEntry \<Rightarrow> bool" where
  "le_ok k e \<longleftrightarrow> le_Label e = Some k"

definition nh_ok :: "u64 \<Rightarrow> Afts_NextHop \<Rightarrow> bool" where
  "nh_ok k e \<longleftrightarrow> k \<noteq> 0 \<and> nh_Index e = Some k"

definition tables_wf :: "Afts \<Rightarrow> bool" where
  "tables_wf a \<longleftrightarrow> keyed v4_ok (Ipv4Entry a) \<and> keyed v6_ok (Ipv6Entry a) \<and> keyed le_ok (LabelEntry a) \<and>
     keyed group_ok (aft_NextHopGroup a) \<and> keyed nh_ok (aft_NextHop a)"

lemma keyed_simps [simp]:
  "keyed ok []" "keyed ok m \<Longrightarrow> keyed ok (gm_del k m)"
  "keyed ok m \<Longrightarrow> ok k e \<Longrightarrow> keyed ok (gm_put k e m)"
  by (auto simp: keyed_def gm_set_put gm_set_del)

lemma keyed_wf: "keyed ok m \<Longrightarrow> gm_wf m"
  by (simp add: keyed_def)

lemma keyed_get: "keyed ok m \<Longrightarrow> gm_get m k = Some e \<Longrightarrow> ok k e"
  by (auto simp: keyed_def dest: map_of_SomeD)

lemma tables_wf_gm:
  assumes "tables_wf a"
  shows "gm_wf (Ipv4Entry a)" "gm_wf (Ipv6Entry a)" "gm_wf (LabelEntry a)" "gm_wf (aft_NextHopGroup a)" "gm_wf (aft_NextHop a)"
  using assms unfolding tables_wf_def by (blast intro: keyed_wf)+

lemma tables_wf_group: "tables_wf a \<Longrightarrow> p \<in> set (aft_NextHopGroup a) \<Longrightarrow> group_wf (snd p)"
  by (simp add: tables_wf_def keyed_def group_ok_def)

lemma of_pb_ok:
  "v4_of e4 x4 \<Longrightarrow> v4_ok (v4k_Prefix e4) x4" "v6_of e6 x6 \<Longrightarrow> v6_ok (v6k_Prefix e6) x6"
  "le_of el xl \<Longrightarrow> le_ok (label_of el) xl" "nh_of en xn \<Longrightarrow> nhk_Index en \<noteq> 0 \<Longrightarrow> nh_ok (nhk_Index en) xn"
  "nhg_of eg xg \<Longrightarrow> nhgk_Id eg \<noteq> 0 \<Longrightarrow> nhg_NextHop xg \<noteq> [] \<Longrightarrow> group_ok (nhgk_Id eg) xg"
  by (simp_all add: v4_of_def v6_of_def le_of_def nh_of_def nhg_of_def v4_ok_def v6_ok_def le_ok_def nh_ok_def group_ok_def)

definition holder_wf :: "string \<Rightarrow> RIBHolder \<Rightarrow> bool" where
  "holder_wf n rh \<longleftrightarrow> rh_name rh = n \<and> rh_r rh \<noteq> None \<and> rh_checkFn rh \<and> tables_wf (afts rh)"

definition rib_wf :: "RIB \<Rightarrow> bool" where
  "rib_wf r \<longleftrightarrow> gm_wf (niRIB r) \<and> (\<forall>p\<in>set (niRIB r). holder_wf (fst p) (snd p))"

lemma rib_wf_holder: "rib_wf r \<Longrightarrow> gm_get (niRIB r) ni = Some rh \<Longrightarrow> holder_wf ni rh"
  by (auto simp: rib_wf_def dest: map_of_SomeD)

lemma rib_wf_store:
  "rib_wf r \<Longrightarrow> holder_wf ni rh \<Longrightarrow> rib_wf (r\<lparr>niRIB := gm_put ni rh (niRIB r)\<rparr>)"
  by (auto simp: rib_wf_def gm_set_put)

lemma holder_wf_upd:
  "holder_wf n (incNHGRefCount i rh) = holder_wf n rh"
  "holder_wf n (decNHGRefCount i rh) = holder_wf n rh"
  "holder_wf n (incNHRefCount i rh) = holder_wf n rh"
  "holder_wf n (decNHRefCount i rh) = holder_wf n rh"
  "holder_wf n (call_hook t es rh) = holder_wf n rh"
  "holder_wf n (set_afts a rh) = (rh_name rh = n \<and> rh_checkFn rh \<and> tables_wf a)"
  by (auto simp: holder_wf_def afts_def incNHGRefCount_def decNHGRefCount_def incNHRefCount_def
      decNHRefCount_def call_hook_def set_afts_def)

lemma rib_wf_on_ni:
  assumes "rib_wf r" and "\<And>rh. holder_wf ni rh \<Longrightarrow> holder_wf ni (f rh)"
  shows "rib_wf (on_ni ni f r)"
  using assms rib_wf_holder [OF assms(1)] rib_wf_store [OF assms(1)]
  by (auto simp: on_ni_def split: option.splits)

lemma rib_wf_counter_ops:
  assumes "rib_wf r"
  shows "rib_wf (inc_nhg x r)" "rib_wf (dec_nhg x r)" "rib_wf (inc_nh x r)" "rib_wf (dec_nh x r)"
  by (auto simp: inc_nhg_def dec_nhg_def inc_nh_def dec_nh_def holder_wf_upd
      intro!: rib_wf_on_ni [OF assms])

subsection \<open>Existing references\<close>

definition has_nhg :: "RIB \<Rightarrow> string \<times> u64 \<Rightarrow> bool" where
  "has_nhg r x = (case NetworkInstanceRIB r (fst x) of None \<Rightarrow> False | Some rh \<Rightarrow> nhgExists rh (snd x))"

definition has_nh :: "RIB \<Rightarrow> string \<times> u64 \<Rightarrow> bool" where
  "has_nh r x = (case NetworkInstanceRIB r (fst x) of None \<Rightarrow> False | Some rh \<Rightarrow> nhExists rh (snd x))"

definition no_dangling :: "RIB \<Rightarrow> bool" where
  "no_dangling r \<longleftrightarrow> (\<forall>x\<in>#nhg_refs r. has_nhg r x) \<and> (\<forall>x\<in>#nh_refs r. has_nh r x)"

definition ni_closed :: "RIB \<Rightarrow> bool" where
  "ni_closed r \<longleftrightarrow> (\<forall>x\<in>#nhg_refs r. known_ni r (fst x))"

definition counts_ok :: "RIB \<Rightarrow> bool" where
  "counts_ok r \<longleftrightarrow> tracks nhg_count r (nhg_refs r) \<and> tracks nh_count r (nh_refs r)"

definition rib_inv :: "RIB \<Rightarrow> bool" where
  "rib_inv r \<longleftrightarrow> rib_wf r \<and> ni_closed r \<and> counts_ok r"

subsection \<open>The number of entries\<close>

definition n_rib :: "RIB \<Rightarrow> nat" where
  "n_rib r = sum_list (map (\<lambda>p. n_entries (afts (snd p))) (niRIB r))"

lemma n_rib_store:
  assumes "gm_wf (niRIB r)" and "gm_get (niRIB r) ni = Some rh"
  shows "n_rib (r\<lparr>niRIB := gm_put ni rh' (niRIB r)\<rparr>) + n_entries (afts rh) =
    n_rib r + n_entries (afts rh')"
  using sum_list_put_present [OF assms, of "\<lambda>p. n_entries (afts (snd p))" rh']
  by (simp add: n_rib_def)

lemma n_rib_on_ni:
  assumes "gm_wf (niRIB r)" and "\<And>rh. afts (f rh) = afts rh"
  shows "n_rib (on_ni ni f r) = n_rib r"
proof (cases "gm_get (niRIB r) ni")
  case (Some rh)
  then show ?thesis using n_rib_store [OF assms(1) Some, of "f rh"] assms(2)
    by (simp add: on_ni_def)
qed (simp add: on_ni_def)

lemma count_sum_list_le:
  "(\<And>p. p \<in> set xs \<Longrightarrow> count (f p) x \<le> g p) \<Longrightarrow>
    count (sum_list (map f xs)) x \<le> sum_list (map g xs)"
  by (induction xs) (auto intro!: add_mono)

lemma count_image_resolve_le: "count (image_mset f M) x \<le> size M"
  using count_le_size [of "image_mset f M" x] by simp

lemma count_image_Pair_le: "count (image_mset (Pair n) M) x \<le> count M (snd x)"
  by (induction M) (auto intro: le_SucI)

lemma count_group_le: "group_wf g \<Longrightarrow> count (group_nhs g) i \<le> 1"
  by (simp add: group_wf_def group_nhs_def distinct_count_atmost_1)

lemma count_nhg_refs_le: "count (nhg_refs r) x \<le> n_rib r"
  unfolding nhg_refs_def n_rib_def
proof (rule count_sum_list_le)
  fix p assume "p \<in> set (niRIB r)"
  have "count (image_mset (resolve_ref (fst p)) (raw_refs (afts (snd p)))) x
      \<le> size (raw_refs (afts (snd p)))" by (rule count_image_resolve_le)
  also have "\<dots> \<le> n_entries (afts (snd p))"
    by (simp add: raw_refs_def table_refs_def n_entries_def)
  finally show "count (image_mset (resolve_ref (fst p)) (raw_refs (afts (snd p)))) x
      \<le> n_entries (afts (snd p))" .
qed

lemma count_raw_nh_refs_le:
  assumes "tables_wf a"
  shows "count (raw_nh_refs a) i \<le> n_entries a"
proof -
  have "count (raw_nh_refs a) i \<le> sum_list (map (\<lambda>p. 1) (aft_NextHopGroup a))"
    unfolding raw_nh_refs_def using assms
    by (intro count_sum_list_le count_group_le) (simp add: tables_wf_group)
  also have "\<dots> \<le> n_entries a" by (simp add: n_entries_def sum_list_triv)
  finally show ?thesis .
qed

lemma count_nh_refs_le:
  assumes "rib_wf r"
  shows "count (nh_refs r) x \<le> n_rib r"
  unfolding nh_refs_def n_rib_def
proof (rule count_sum_list_le)
  fix p assume "p \<in> set (niRIB r)"
  then have "tables_wf (afts (snd p))" using assms by (simp add: rib_wf_def holder_wf_def)
  then show "count (image_mset (Pair (fst p)) (raw_nh_refs (afts (snd p)))) x \<le> n_entries (afts (snd p))"
    by (rule le_trans [OF count_image_Pair_le count_raw_nh_refs_le])
qed

subsection \<open>Changing one table\<close>

text \<open>
  A change of a holder's tables is a \<open>top_change\<close> when it replaces the references
  \<open>orig\<close> by \<open>new\<close> and leaves groups and next-hops alone.
\<close>

definition top_change :: "Afts \<Rightarrow> Afts \<Rightarrow> nhg_ref multiset \<Rightarrow> nhg_ref multiset \<Rightarrow> bool" where
  "top_change a a' orig new \<longleftrightarrow> raw_refs a' + orig = raw_refs a + new \<and>
     aft_NextHopGroup a' = aft_NextHopGroup a \<and> aft_NextHop a' = aft_NextHop a \<and>
     tables_wf a' \<and> n_entries a' \<le> n_entries a + size new"

lemma length_put_del_le: "length (gm_put k v (gm_del k m)) \<le> Suc (length m)"
  by (rule le_trans [OF gm_length_put_le]) (simp add: AList.length_delete_le)

lemma top_change_put:
  assumes "tables_wf a"
  shows "v4_ok p e \<Longrightarrow> top_change a (put_v4 p e a) (opt_mset (map_option v4_ref (gm_get (Ipv4Entry a) p))) {#v4_ref e#}"
    and "v6_ok p6 e6 \<Longrightarrow> top_change a (put_v6 p6 e6 a) (opt_mset (map_option v6_ref (gm_get (Ipv6Entry a) p6))) {#v6_ref e6#}"
    and "le_ok l el \<Longrightarrow> top_change a (put_le l el a) (opt_mset (map_option le_ref (gm_get (LabelEntry a) l))) {#le_ref el#}"
  using assms tables_wf_gm [OF assms] length_put_del_le [of p e "Ipv4Entry a"] length_put_del_le [of p6 e6 "Ipv6Entry a"]
    length_put_del_le [of l el "LabelEntry a"]
    table_refs_replace [of "Ipv4Entry a" v4_ref p e] table_refs_replace [of "Ipv6Entry a" v6_ref p6 e6]
    table_refs_replace [of "LabelEntry a" le_ref l el]
  by (simp_all add: top_change_def put_defs raw_refs_def tables_wf_def n_entries_def add_ac)

lemma top_change_del:
  assumes "tables_wf a"
  shows "top_change a (del_v4 p a) (opt_mset (map_option v4_ref (gm_get (Ipv4Entry a) p))) {#}"
    and "top_change a (del_v6 p a) (opt_mset (map_option v6_ref (gm_get (Ipv6Entry a) p))) {#}"
    and "top_change a (del_le l a) (opt_mset (map_option le_ref (gm_get (LabelEntry a) l))) {#}"
  using assms tables_wf_gm [OF assms] table_refs_del [of "Ipv4Entry a" v4_ref p] table_refs_del [of "Ipv6Entry a" v6_ref p]
    table_refs_del [of "LabelEntry a" le_ref l]
    AList.length_delete_le [of p "Ipv4Entry a"] AList.length_delete_le [of p "Ipv6Entry a"]
    AList.length_delete_le [of l "LabelEntry a"]
  by (simp_all add: top_change_def del_defs raw_refs_def tables_wf_def n_entries_def add_ac)

text \<open>The next-hops of the stored groups, before and after a group is stored or removed.\<close>

lemma raw_nh_refs_put:
  assumes "tables_wf a"
  shows "raw_nh_refs (put_nhg i g a) + (case gm_get (aft_NextHopGroup a) i of None \<Rightarrow> {#} | Some og \<Rightarrow> group_nhs og) =
    raw_nh_refs a + group_nhs g"
proof -
  let ?m = "gm_del i (aft_NextHopGroup a)" and ?f = "\<lambda>p. group_nhs (snd p)"
  have "sum_list (map ?f (gm_put i g ?m)) = sum_list (map ?f ?m) + group_nhs g"
    using sum_list_put_absent [of ?m i ?f g] by (simp add: gomap)
  then show ?thesis
    using tables_wf_gm [OF assms] sum_list_del_present [of "aft_NextHopGroup a" i _ ?f]
    by (auto simp: raw_nh_refs_def put_nhg_def tables_wf_def gm_del_absent add_ac split: option.splits)
qed

lemma raw_nh_refs_del:
  assumes "tables_wf a"
  shows "raw_nh_refs (del_nhg i a) + (case gm_get (aft_NextHopGroup a) i of None \<Rightarrow> {#} | Some og \<Rightarrow> group_nhs og) =
    raw_nh_refs a"
  using tables_wf_gm [OF assms] sum_list_del_present [of "aft_NextHopGroup a" i _ "\<lambda>p. group_nhs (snd p)"]
  by (auto simp: raw_nh_refs_def del_nhg_def tables_wf_def gm_del_absent split: option.splits)

lemma raw_refs_other [simp]:
  "raw_refs (put_nhg i g a) = raw_refs a" "raw_refs (del_nhg i a) = raw_refs a"
  "raw_refs (put_nh i n a) = raw_refs a" "raw_refs (del_nh i a) = raw_refs a"
  "raw_nh_refs (put_nh i n a) = raw_nh_refs a" "raw_nh_refs (del_nh i a) = raw_nh_refs a"
  by (simp_all add: raw_refs_def raw_nh_refs_def put_defs del_defs)

lemma tables_wf_other:
  assumes "tables_wf a"
  shows "group_ok i g \<Longrightarrow> tables_wf (put_nhg i g a)" "tables_wf (del_nhg i a)"
    "nh_ok i n \<Longrightarrow> tables_wf (put_nh i n a)" "tables_wf (del_nh i a)"
  using assms by (simp_all add: tables_wf_def put_defs del_defs)

lemma n_entries_other:
  "n_entries (put_nhg i g a) \<le> Suc (n_entries a)" "n_entries (del_nhg i a) \<le> n_entries a"
  "n_entries (put_nh i n a) \<le> Suc (n_entries a)" "n_entries (del_nh i a) \<le> n_entries a"
  using length_put_del_le [of i g "aft_NextHopGroup a"] length_put_del_le [of i n "aft_NextHop a"]
    AList.length_delete_le [of i "aft_NextHopGroup a"] AList.length_delete_le [of i "aft_NextHop a"]
  by (simp_all add: n_entries_def put_defs del_defs)

end
