(* ===== verification/RibStep.thy ===== *)
theory RibStep
  imports RibInv
begin

text \<open>
  One installation (\<open>installEntry\<close>, the type switch of \<open>addEntryInternal\<close>) and one
  \<open>DeleteEntry\<close>: which change they make to the RIB, and that each keeps the invariant of
  \<open>RibInv\<close> and leaves no dangling reference.
\<close>

subsection \<open>Committing a holder\<close>

text \<open>The RIB after a holder's tables become \<open>a\<close> and its hook was called.\<close>

definition commit ::
    "string \<Rightarrow> OpType \<Rightarrow> changed_entry list \<Rightarrow> Afts \<Rightarrow> RIBHolder \<Rightarrow> RIB \<Rightarrow> RIB" where
  "commit ni t es a rh r = r\<lparr>niRIB := gm_put ni (call_hook t es (set_afts a rh)) (niRIB r)\<rparr>"

lemma commit_known [simp]: "gm_get (niRIB r) ni = Some rh \<Longrightarrow>
    known_ni (commit ni t es a rh r) ni' = known_ni r ni'"
  by (auto simp: commit_def known_ni_def gomap)

lemma commit_counts [simp]:
  assumes "gm_get (niRIB r) ni = Some rh"
  shows "nhg_count (commit ni t es a rh r) x = nhg_count r x"
    "nh_count (commit ni t es a rh r) x = nh_count r x"
  using assms by (auto simp: nhg_count_def nh_count_def commit_def gomap call_hook_def set_afts_def)

lemma commit_wf:
  "rib_wf r \<Longrightarrow> gm_get (niRIB r) ni = Some rh \<Longrightarrow> tables_wf a \<Longrightarrow> rib_wf (commit ni t es a rh r)"
  unfolding commit_def
  by (rule rib_wf_store, assumption, drule (1) rib_wf_holder)
    (simp add: holder_wf_upd, simp add: holder_wf_def)

lemma commit_has:
  assumes "gm_get (niRIB r) ni = Some rh"
  shows "has_nhg (commit ni t es a rh r) x =
      (if fst x = ni then gm_get (aft_NextHopGroup a) (snd x) \<noteq> None else has_nhg r x)"
    "has_nh (commit ni t es a rh r) x =
      (if fst x = ni then gm_get (aft_NextHop a) (snd x) \<noteq> None else has_nh r x)"
  using assms
  by (auto simp: has_nhg_def has_nh_def NetworkInstanceRIB_def commit_def gomap nhgExists_def nhExists_def)

lemma has_at:
  assumes "gm_get (niRIB r) ni = Some rh"
  shows "has_nhg r (ni, i) = (gm_get (aft_NextHopGroup (afts rh)) i \<noteq> None)"
    "has_nh r (ni, i) = (gm_get (aft_NextHop (afts rh)) i \<noteq> None)"
  using assms by (simp_all add: has_nhg_def has_nh_def NetworkInstanceRIB_def nhgExists_def nhExists_def)

lemma has_nhg_known: "has_nhg r x \<Longrightarrow> known_ni r (fst x)"
  by (auto simp: has_nhg_def known_ni_def NetworkInstanceRIB_def split: option.splits)

lemma has_counter_ops [simp]:
  "has_nhg (inc_nhg x r) y = has_nhg r y" "has_nhg (dec_nhg x r) y = has_nhg r y"
  "has_nhg (inc_nh x r) y = has_nhg r y" "has_nhg (dec_nh x r) y = has_nhg r y"
  "has_nh (inc_nhg x r) y = has_nh r y" "has_nh (dec_nhg x r) y = has_nh r y"
  "has_nh (inc_nh x r) y = has_nh r y" "has_nh (dec_nh x r) y = has_nh r y"
  by (auto simp: has_nhg_def has_nh_def NetworkInstanceRIB_def nhgExists_def nhExists_def
      inc_nhg_def dec_nhg_def inc_nh_def dec_nh_def gomap split: option.splits)

lemma known_counter_ops [simp]:
  "known_ni (inc_nhg x r) n = known_ni r n" "known_ni (dec_nhg x r) n = known_ni r n"
  "known_ni (inc_nh x r) n = known_ni r n" "known_ni (dec_nh x r) n = known_ni r n"
  by (simp_all add: inc_nhg_def dec_nhg_def inc_nh_def dec_nh_def)

lemma refs_counter_ops:
  assumes "rib_wf r"
  shows "nhg_refs (inc_nhg x r) = nhg_refs r" "nhg_refs (dec_nhg x r) = nhg_refs r"
    "nhg_refs (inc_nh x r) = nhg_refs r" "nhg_refs (dec_nh x r) = nhg_refs r"
    "nh_refs (inc_nhg x r) = nh_refs r" "nh_refs (dec_nhg x r) = nh_refs r"
    "nh_refs (inc_nh x r) = nh_refs r" "nh_refs (dec_nh x r) = nh_refs r"
    "n_rib (inc_nhg x r) = n_rib r" "n_rib (dec_nhg x r) = n_rib r"
    "n_rib (inc_nh x r) = n_rib r" "n_rib (dec_nh x r) = n_rib r"
  using assms
  by (simp_all add: inc_nhg_def dec_nhg_def inc_nh_def dec_nh_def refs_on_ni n_rib_on_ni rib_wf_def)

subsection \<open>References of entries\<close>

definition ref_known :: "RIB \<Rightarrow> nhg_ref \<Rightarrow> bool" where
  "ref_known r ref = (fst ref = [] \<or> known_ni r (fst ref))"

lemma refdRIB_known: "ref_known r ref \<Longrightarrow> refdRIB r ni (fst ref) = Inr (fst (resolve_ref ni ref))"
  by (auto simp: refdRIB_def ref_known_def known_ni_def NetworkInstanceRIB_def resolve_ref_def)

lemma handleReferences_None:
  "ref_known r new \<Longrightarrow> handleReferences ni None new r = inc_nhg (resolve_ref ni new) r"
  using refdRIB_known [of r new ni]
  by (cases new) (simp add: handleReferences_def inc_nhg_def resolve_ref_def)

lemma handleReferences_Some:
  "ref_known r new \<Longrightarrow> ref_known r orig \<Longrightarrow> handleReferences ni (Some orig) new r =
    (if new = orig then r else inc_nhg (resolve_ref ni new) (dec_nhg (resolve_ref ni orig) r))"
  using refdRIB_known [of r orig ni] refdRIB_known [of "dec_nhg (resolve_ref ni orig) r" new ni]
  by (cases new; cases orig)
    (auto simp: handleReferences_def inc_nhg_def dec_nhg_def resolve_ref_def ref_known_def)

lemma mset_shift:
  fixes a :: "'a multiset"
  assumes "a' + o' = a + n" and "x + a = r + a'"
  shows "x + o' = r + n"
proof (rule multiset_eqI)
  fix k
  have "count a' k + count o' k = count a k + count n k" "count x k + count a k = count r k + count a' k"
    using arg_cong [OF assms(1), of "\<lambda>m. count m k"] arg_cong [OF assms(2), of "\<lambda>m. count m k"] by simp_all
  then show "count (x + o') k = count (r + n) k" by simp
qed

lemma nhg_refs_commit:
  assumes "rib_wf r" "gm_get (niRIB r) ni = Some rh" "top_change (afts rh) a orig new"
  shows "nhg_refs (commit ni t es a rh r) + image_mset (resolve_ref ni) orig =
      nhg_refs r + image_mset (resolve_ref ni) new"
    and "nh_refs (commit ni t es a rh r) = nh_refs r"
    and "n_rib (commit ni t es a rh r) \<le> n_rib r + size new"
proof -
  have wf: "gm_wf (niRIB r)" using assms(1) by (simp add: rib_wf_def)
  note st = nhg_refs_store [OF wf assms(2)] nh_refs_store [OF wf assms(2)] n_rib_store [OF wf assms(2)]
  let ?R = "image_mset (resolve_ref ni)" and ?h = "call_hook t es (set_afts a rh)"
  have c: "raw_refs a + orig = raw_refs (afts rh) + new" and n: "n_entries a \<le> n_entries (afts rh) + size new"
    and g: "aft_NextHopGroup a = aft_NextHopGroup (afts rh)"
    using assms(3) by (simp_all add: top_change_def)
  have "?R (raw_refs a) + ?R orig = ?R (raw_refs (afts rh)) + ?R new"
    using arg_cong [OF c, of ?R] by simp
  moreover have "nhg_refs (commit ni t es a rh r) + ?R (raw_refs (afts rh)) = nhg_refs r + ?R (raw_refs a)"
    using st(1) [of ?h] by (simp add: commit_def)
  ultimately show "nhg_refs (commit ni t es a rh r) + ?R orig = nhg_refs r + ?R new"
    using mset_shift by blast
  have "raw_nh_refs a = raw_nh_refs (afts rh)" using g by (simp add: raw_nh_refs_def)
  then show "nh_refs (commit ni t es a rh r) = nh_refs r"
    using st(2) [of ?h] by (simp add: commit_def)
  show "n_rib (commit ni t es a rh r) \<le> n_rib r + size new"
    using st(3) [of ?h] n by (simp add: commit_def)
qed

subsection \<open>Updates of the groups and next-hops\<close>

lemma fold_counter_ops:
  assumes "rib_wf r"
  shows "rib_wf (fold inc_nh xs r) \<and> nhg_refs (fold inc_nh xs r) = nhg_refs r \<and>
      nh_refs (fold inc_nh xs r) = nh_refs r \<and> n_rib (fold inc_nh xs r) = n_rib r \<and>
      (\<forall>y. nhg_count (fold inc_nh xs r) y = nhg_count r y \<and> has_nhg (fold inc_nh xs r) y = has_nhg r y \<and>
        has_nh (fold inc_nh xs r) y = has_nh r y \<and> known_ni (fold inc_nh xs r) (fst y) = known_ni r (fst y))"
    and "rib_wf (fold dec_nh xs r) \<and> nhg_refs (fold dec_nh xs r) = nhg_refs r \<and>
      nh_refs (fold dec_nh xs r) = nh_refs r \<and> n_rib (fold dec_nh xs r) = n_rib r \<and>
      (\<forall>y. nhg_count (fold dec_nh xs r) y = nhg_count r y \<and> has_nhg (fold dec_nh xs r) y = has_nhg r y \<and>
        has_nh (fold dec_nh xs r) y = has_nh r y \<and> known_ni (fold dec_nh xs r) (fst y) = known_ni r (fst y))"
  using assms
  by (induction xs arbitrary: r) (simp_all add: rib_wf_counter_ops refs_counter_ops)

lemma nh_refs_commit:
  assumes "rib_wf r" "gm_get (niRIB r) ni = Some rh"
    and "raw_refs a = raw_refs (afts rh)" "raw_nh_refs a + olds = raw_nh_refs (afts rh) + news"
    and "n_entries a \<le> Suc (n_entries (afts rh))"
  shows "nhg_refs (commit ni t es a rh r) = nhg_refs r"
    and "nh_refs (commit ni t es a rh r) + image_mset (Pair ni) olds = nh_refs r + image_mset (Pair ni) news"
    and "n_rib (commit ni t es a rh r) \<le> Suc (n_rib r)"
proof -
  have wf: "gm_wf (niRIB r)" using assms(1) by (simp add: rib_wf_def)
  note st = nhg_refs_store [OF wf assms(2)] nh_refs_store [OF wf assms(2)] n_rib_store [OF wf assms(2)]
  let ?P = "image_mset (Pair ni)" and ?h = "call_hook t es (set_afts a rh)"
  show "nhg_refs (commit ni t es a rh r) = nhg_refs r"
    using st(1) [of ?h] assms(3) by (simp add: commit_def)
  have "?P (raw_nh_refs a) + ?P olds = ?P (raw_nh_refs (afts rh)) + ?P news"
    using arg_cong [OF assms(4), of ?P] by simp
  moreover have "nh_refs (commit ni t es a rh r) + ?P (raw_nh_refs (afts rh)) = nh_refs r + ?P (raw_nh_refs a)"
    using st(2) [of ?h] by (simp add: commit_def)
  ultimately show "nh_refs (commit ni t es a rh r) + ?P olds = nh_refs r + ?P news"
    using mset_shift by blast
  show "n_rib (commit ni t es a rh r) \<le> Suc (n_rib r)"
    using st(3) [of ?h] assms(5) by (simp add: commit_def)
qed

lemma nh_update:
  assumes inv: "rib_inv r" and get: "gm_get (niRIB r) ni = Some rh"
    and refs: "raw_refs a = raw_refs (afts rh)"
    and nhs: "raw_nh_refs a + mset olds = raw_nh_refs (afts rh) + mset news"
    and wfa: "tables_wf a" and n: "n_entries a \<le> Suc (n_entries (afts rh))"
    and dist: "distinct news" and small: "Suc (n_rib r) < 2 ^ 64"
    and r': "r' = fold dec_nh (map (Pair ni) olds) (fold inc_nh (map (Pair ni) news) (commit ni t es a rh r))"
  shows "rib_inv r'" and "n_rib r' \<le> Suc (n_rib r)" and "nhg_refs r' = nhg_refs r"
    and "nh_refs r' + image_mset (Pair ni) (mset olds) = nh_refs r + image_mset (Pair ni) (mset news)"
    and "has_nhg r' x = has_nhg (commit ni t es a rh r) x" "has_nh r' x = has_nh (commit ni t es a rh r) x"
proof -
  let ?c = "commit ni t es a rh r"
  have wf: "rib_wf r" and t1: "tracks nhg_count r (nhg_refs r)" and t2: "tracks nh_count r (nh_refs r)"
    using inv by (simp_all add: rib_inv_def counts_ok_def)
  have wc: "rib_wf ?c" using wf get wfa by (rule commit_wf)
  note nc = nh_refs_commit [OF wf get refs nhs n, of t es]
  note fi = fold_counter_ops(1) [OF wc, of "map (Pair ni) news"]
  note fd = fold_counter_ops(2) [OF conjunct1 [OF fi], of "map (Pair ni) olds"]
  show x1: "nhg_refs r' = nhg_refs r" and x2: "n_rib r' \<le> Suc (n_rib r)"
    and x3: "nh_refs r' + image_mset (Pair ni) (mset olds) = nh_refs r + image_mset (Pair ni) (mset news)"
    using fi fd nc by (simp_all add: r')
  show "has_nhg r' x = has_nhg ?c x" "has_nh r' x = has_nh ?c x"
    using fi fd by (cases x, simp add: r')+
  have kn: "known_ni ?c ni" using get by (simp add: commit_known [OF get]) (simp add: known_ni_def)
  have "tracks nh_count (fold inc_nh (map (Pair ni) news) ?c) (mset (map (Pair ni) news) + nh_refs r)"
    by (rule rib_nh.tracks_fold_inc) (use kn t2 get in \<open>auto simp: tracks_def\<close>)
  then have ti: "tracks nh_count (fold inc_nh (map (Pair ni) news) ?c) (mset (map (Pair ni) olds) + nh_refs ?c)"
    using nc(2) by (simp add: add.commute)
  have cnt: "count (mset (map (Pair ni) olds) + nh_refs ?c) k < 2 ^ 64" for k
  proof -
    have "distinct (map (Pair ni) news)" using dist by (simp add: distinct_map inj_on_def)
    then have "count (mset (map (Pair ni) news)) k \<le> 1"
      unfolding distinct_count_atmost_1 by (metis le_refl zero_le_one)
    moreover have "count (nh_refs r) k \<le> n_rib r" using wf by (rule count_nh_refs_le)
    ultimately show ?thesis
      using small arg_cong [OF nc(2), of "\<lambda>m. count m k"] by simp
  qed
  have "tracks nh_count r' (nh_refs ?c)"
    unfolding r' by (rule rib_nh.tracks_fold_dec [OF _ ti cnt]) (use kn fi get in auto)
  moreover have "nh_refs r' = nh_refs ?c" using fi fd by (simp add: r')
  moreover have "tracks nhg_count r' (nhg_refs r')"
    by (rule tracks_cong [OF t1 [folded x1]]) (use fi fd get in \<open>simp add: r' del: split_paired_All\<close>)
  moreover have "ni_closed r'"
    using inv x1 fi fd get by (auto simp: rib_inv_def ni_closed_def r')
  moreover have "rib_wf r'" using fd by (simp add: r')
  ultimately show "rib_inv r'" by (simp add: rib_inv_def counts_ok_def)
qed

subsection \<open>Updates of the tables that refer to groups\<close>

lemma in_sum_list_mset: "x \<in># sum_list ms \<longleftrightarrow> (\<exists>m\<in>set ms. x \<in># m)"
  by (induction ms) auto

lemma raw_refs_in_nhg_refs:
  assumes "gm_get (niRIB r) ni = Some rh" and "ref \<in># raw_refs (afts rh)"
  shows "resolve_ref ni ref \<in># nhg_refs r"
proof -
  from assms(1) have "(ni, rh) \<in> set (niRIB r)" by (rule map_of_SomeD)
  with assms(2) show ?thesis
    by (force simp: nhg_refs_def in_sum_list_mset)
qed

lemma top_update:
  assumes inv: "rib_inv r" and get: "gm_get (niRIB r) ni = Some rh"
    and ch: "top_change (afts rh) a (opt_mset orig) {#new#}"
    and has: "has_nhg r (resolve_ref ni new)" and small: "Suc (n_rib r) < 2 ^ 64"
    and r': "r' = handleReferences ni orig new (commit ni t es a rh r)"
  shows "rib_inv r'" and "n_rib r' \<le> Suc (n_rib r)"
    and "nhg_refs r' + image_mset (resolve_ref ni) (opt_mset orig) = add_mset (resolve_ref ni new) (nhg_refs r)"
    and "nh_refs r' = nh_refs r" and "has_nhg r' x = has_nhg r x" and "has_nh r' x = has_nh r x"
proof -
  let ?c = "commit ni t es a rh r" and ?R = "resolve_ref ni"
  have wf: "rib_wf r" and cl: "ni_closed r" and t1: "tracks nhg_count r (nhg_refs r)"
    and t2: "tracks nh_count r (nh_refs r)"
    using inv by (simp_all add: rib_inv_def counts_ok_def)
  have wc: "rib_wf ?c" using wf get ch by (simp add: commit_wf top_change_def)
  note nc = nhg_refs_commit [OF wf get ch, of t es]
  have kn: "known_ni ?c (fst (?R new))" using has_nhg_known [OF has] by (simp add: commit_known [OF get])
  then have rn: "ref_known ?c new" by (simp add: ref_known_def resolve_ref_def split: if_splits)
  have hc: "has_nhg ?c y = has_nhg r y \<and> has_nh ?c y = has_nh r y" for y
    using ch by (cases y) (auto simp: commit_has [OF get] top_change_def has_at [OF get])
  have tc: "tracks nhg_count ?c (nhg_refs r)" using t1 by (rule tracks_cong) (simp add: get)
  have main: "tracks nhg_count r' (nhg_refs ?c) \<and> rib_wf r' \<and> nhg_refs r' = nhg_refs ?c \<and>
      nh_refs r' = nh_refs ?c \<and> n_rib r' = n_rib ?c \<and> (\<forall>y. nh_count r' y = nh_count ?c y) \<and>
      (\<forall>y. has_nhg r' y = has_nhg ?c y \<and> has_nh r' y = has_nh ?c y) \<and> (\<forall>n. known_ni r' n = known_ni ?c n)"
  proof (cases orig)
    case None
    have "nhg_refs ?c = add_mset (?R new) (nhg_refs r)" using nc(1) None by simp
    with tc kn have "tracks nhg_count (inc_nhg (?R new) ?c) (nhg_refs ?c)"
      by (simp add: rib_nhg.tracks_inc)
    with None wc rn show ?thesis
      by (simp add: r' handleReferences_None rib_wf_counter_ops refs_counter_ops)
  next
    case (Some o')
    show ?thesis
    proof (cases "new = o'")
      case True
      with nc(1) Some have "nhg_refs ?c = nhg_refs r" by simp
      with Some True tc wc show ?thesis by (simp add: r' handleReferences_def split: prod.splits)
    next
      case False
      have "o' \<in># raw_refs a + {#o'#}" by simp
      then have "o' \<in># raw_refs (afts rh) + {#new#}"
        using ch Some unfolding top_change_def by (metis opt_mset_simps(2))
      then have "o' \<in># raw_refs (afts rh)" using False by simp
      then have mem: "?R o' \<in># nhg_refs r" by (rule raw_refs_in_nhg_refs [OF get])
      then have ko: "known_ni ?c (fst (?R o'))" using cl by (simp add: ni_closed_def commit_known [OF get])
      then have ro: "ref_known ?c o'" by (simp add: ref_known_def resolve_ref_def split: if_splits)
      obtain M where M: "nhg_refs r = add_mset (?R o') M" using mem by (metis mset_add)
      have "Suc (count M (?R o')) < 2 ^ 64"
        using count_nhg_refs_le [of r "?R o'"] small M by simp
      with tc ko M have "tracks nhg_count (dec_nhg (?R o') ?c) M"
        by (simp add: rib_nhg.tracks_dec)
      moreover have "nhg_refs ?c = add_mset (?R new) M" using nc(1) Some M by simp
      ultimately have "tracks nhg_count (inc_nhg (?R new) (dec_nhg (?R o') ?c)) (nhg_refs ?c)"
        using kn by (simp add: rib_nhg.tracks_inc)
      with Some False wc rn ro show ?thesis
        by (simp add: r' handleReferences_Some rib_wf_counter_ops refs_counter_ops)
    qed
  qed
  show x1: "nhg_refs r' + image_mset ?R (opt_mset orig) = add_mset (?R new) (nhg_refs r)"
    and x2: "nh_refs r' = nh_refs r" and "n_rib r' \<le> Suc (n_rib r)"
    using main nc by simp_all
  show "has_nhg r' x = has_nhg r x" "has_nh r' x = has_nh r x" using main hc [of x] by (cases x, simp)+
  have "tracks nh_count r' (nh_refs r')"
    unfolding x2 by (rule tracks_cong [OF t2]) (use main get in \<open>simp del: split_paired_All\<close>)
  moreover have "ni_closed r'"
  proof -
    have "y = ?R new \<or> y \<in># nhg_refs r" if "y \<in># nhg_refs r'" for y
      using arg_cong [OF x1, of set_mset] that by auto
    moreover have "known_ni r' n = known_ni r n" for n using main get by simp
    ultimately show ?thesis using cl has_nhg_known [OF has] unfolding ni_closed_def by metis
  qed
  ultimately show "rib_inv r'" using main by (simp add: rib_inv_def counts_ok_def)
qed

subsection \<open>What the checks decide\<close>

lemmas candidate_shape = checkCandidate_def n_entries_def single_defs

lemma run_check_Add:
  assumes "holder_wf ni rh"
  shows "run_check (holder_check r rh) rh Add c = canResolve r ni c"
    and "run_check (holder_check r rh) rh Delete c = canDelete r ni c"
  using assms by (simp_all add: run_check_def holder_check_def checkFn_def holder_wf_def)

lemma canResolve_no_panic: "canResolve r ni c \<noteq> Inl GoPanic"
proof -
  have "nhs_resolvable rh n i ns \<noteq> Inl GoPanic" for rh n i ns
    by (induction ns) (auto split: if_splits)
  moreover have "nhgResolvable r rh n i \<noteq> Inl GoPanic" for rh n i
    by (simp add: nhgResolvable_def split: option.splits)
  ultimately show ?thesis
    by (simp add: canResolve_def checkCandidate_def Let_def split: option.splits list.splits)
qed

lemma canResolve_top:
  assumes "gm_get (niRIB r) ni = Some rh" and "ni \<noteq> []"
  shows "canResolve r ni (Some (single_v4 k e)) =
      (if snd (v4_ref e) = 0 then Inl (ZeroIndexNHGInEntry ni)
       else nhgResolvable r rh (fst (v4_ref e)) (snd (v4_ref e)))"
    and "canResolve r ni (Some (single_v6 k e6)) =
      (if snd (v6_ref e6) = 0 then Inl (ZeroIndexNHGInEntry ni)
       else nhgResolvable r rh (fst (v6_ref e6)) (snd (v6_ref e6)))"
    and "canResolve r ni (Some (single_le l el)) =
      (if snd (le_ref el) = 0 then Inl (ZeroIndexNHGInEntry ni)
       else nhgResolvable r rh (fst (le_ref el)) (snd (le_ref el)))"
  using assms
  by (simp_all add: canResolve_def candidate_shape NetworkInstanceRIB_def v4_ref_def v6_ref_def le_ref_def)

lemma canResolve_nhg:
  assumes "gm_get (niRIB r) ni = Some rh" and "ni \<noteq> []"
  shows "canResolve r ni (Some (single_nhg k g)) =
      (if uval (nhg_Id g) = 0 then Inl ZeroIndexNHG
       else if length (nhg_NextHop g) = 0 then Inl EmptyNHG
       else nhs_resolvable rh ni (uval (nhg_Id g)) (nhg_NextHop g))"
    and "canResolve r ni (Some (single_nh i n)) =
      (if uval (nh_Index n) = 0 then Inl (ZeroIndexNextHop ni) else Inr True)"
  using assms by (simp_all add: canResolve_def candidate_shape NetworkInstanceRIB_def)

lemma nhgResolvable_iff:
  assumes "gm_get (niRIB r) ni = Some rh"
  shows "nhgResolvable r rh (fst ref) (snd ref) = Inr True \<longleftrightarrow> has_nhg r (resolve_ref ni ref)"
  using assms
  by (auto simp: nhgResolvable_def has_nhg_def resolve_ref_def NetworkInstanceRIB_def
      GetNextHop_afts nhgExists_def split: option.splits)

lemma nhs_resolvable_iff:
  assumes "gm_get (niRIB r) ni = Some rh" and "\<forall>p\<in>set ns. nhgnh_Index (snd p) = Some (fst p)"
  shows "nhs_resolvable rh ni i ns = Inr True \<longleftrightarrow> (\<forall>p\<in>set ns. fst p \<noteq> 0 \<and> has_nh r (ni, fst p))"
  using assms(2)
  by (induction ns)
    (auto simp: has_at [OF assms(1)] GetNextHop_afts split: if_splits)

lemma canDelete_top:
  assumes "gm_get (niRIB r) ni = Some rh" and "ni \<noteq> []"
  shows "canDelete r ni (Some (single_v4 k e)) = Inr True"
    and "canDelete r ni (Some (single_v6 k e6)) = Inr True"
    and "canDelete r ni (Some (single_le l el)) = Inr True"
  using assms by (simp_all add: canDelete_def candidate_shape NetworkInstanceRIB_def)

lemma canDelete_nhg:
  assumes "gm_get (niRIB r) ni = Some rh" and "ni \<noteq> []"
  shows "canDelete r ni (Some (single_nhg i g)) =
      (if i = 0 then Inl BadNextHopGroupID0
       else Inr (\<not> has_nhg r (ni, i) \<or> nhg_count r (ni, i) = 0))"
    and "canDelete r ni (Some (single_nh i n)) =
      (if i = 0 then Inl BadNextHopID0
       else Inr (\<not> has_nh r (ni, i) \<or> nh_count r (ni, i) = 0))"
  using assms
  by (simp_all add: canDelete_def candidate_shape NetworkInstanceRIB_def has_nhg_def has_nh_def
      nhg_count_def nh_count_def nhgReferenced_def nhReferenced_def word_gt_0)

end
