(* ===== verification/RibInstall.thy ===== *)
theory RibInstall
  imports RibStep
begin

text \<open>
  The type switch of \<open>addEntryInternal\<close> as a whole: an operation is either installed, with
  one of three kinds of change, or leaves the RIB as it was (\<open>installEntry_cases\<close>); each
  change keeps the invariant.
\<close>

subsection \<open>One AFT at a time\<close>

lemma install_outcome_refused:
  "\<forall>o'. res \<noteq> Inr (True, o') \<Longrightarrow> install_outcome res c' \<noteq> Installed c"
  "res \<noteq> Inl GoPanic \<Longrightarrow> install_outcome res c' \<noteq> Fatal e"
  by (auto simp: install_outcome_def split: sum.splits rib_err.splits bool.splits prod.splits)

text \<open>The setting of one installation or deletion.\<close>

definition at_ni :: "rib_env \<Rightarrow> RIB \<Rightarrow> string \<Rightarrow> RIBHolder \<Rightarrow> bool" where
  "at_ni E r ni rh \<longleftrightarrow> env_laws E \<and> rib_wf r \<and> gm_get (niRIB r) ni = Some rh \<and> ni \<noteq> []"

lemma at_niD:
  assumes "at_ni E r ni rh"
  shows "env_laws E" "rib_wf r" "gm_get (niRIB r) ni = Some rh" "ni \<noteq> []"
    "rh_r rh \<noteq> None" "holder_wf ni rh" "tables_wf (afts rh)"
  using assms rib_wf_holder [of r ni rh] by (simp_all add: at_ni_def holder_wf_def)

text \<open>An entry that is not ready is not installed, changes nothing, and ends the call normally.\<close>

definition refused :: "install_result \<times> RIB \<Rightarrow> RIB \<Rightarrow> bool" where
  "refused res r \<longleftrightarrow> snd res = r \<and> (\<forall>c. fst res \<noteq> Installed c) \<and> (\<forall>e. fst res \<noteq> Fatal e)"

lemma refused_case:
  assumes "gm_get (niRIB r) ni = Some rh" and "snd res = rh \<and> (\<forall>o'. fst res \<noteq> Inr (True, o')) \<and> fst res \<noteq> Inl GoPanic"
  shows "refused (case res of (Inr (True, orig), h) \<Rightarrow> f orig h
    | (res', h) \<Rightarrow> (install_outcome res' None, r\<lparr>niRIB := gm_put ni h (niRIB r)\<rparr>)) r"
  using assms
  by (cases res) (auto simp: refused_def install_outcome_refused split: sum.splits bool.splits)

text \<open>The queue and the traces do not matter to the invariant.\<close>

lemma nis_cong:
  assumes "niRIB r' = niRIB r"
  shows "rib_inv r' = rib_inv r" "no_dangling r' = no_dangling r" "n_rib r' = n_rib r"
    "has_nhg r' x = has_nhg r x" "has_nh r' x = has_nh r x" "rib_wf r' = rib_wf r"
    "nhg_refs r' = nhg_refs r" "nh_refs r' = nh_refs r"
  using assms
  by (simp_all add: rib_inv_def rib_wf_def ni_closed_def counts_ok_def tracks_def known_ni_def
      nhg_count_def nh_count_def nhg_refs_def nh_refs_def no_dangling_def has_nhg_def has_nh_def
      NetworkInstanceRIB_def n_rib_def)

lemma copyRIBs_ok: "env_laws E \<Longrightarrow> \<exists>c. copyRIBs E r = Inr c"
proof -
  assume "env_laws E"
  then have "\<exists>c. copy_all E m = Inr c" for m
    by (induction m) (auto simp: deepcopy_law)
  then show ?thesis by (simp add: copyRIBs_def)
qed

lemma callResolvedEntryHook_ok:
  assumes "env_laws E"
  shows "fst (callResolvedEntryHook E t ni a key r) = None"
    and "niRIB (snd (callResolvedEntryHook E t ni a key r)) = niRIB r"
    and "pendingEntries (snd (callResolvedEntryHook E t ni a key r)) = pendingEntries r"
    and "defaultName (snd (callResolvedEntryHook E t ni a key r)) = defaultName r"
    and "disableForwardReferences (snd (callResolvedEntryHook E t ni a key r)) = disableForwardReferences r"
    and "ribCheck (snd (callResolvedEntryHook E t ni a key r)) = ribCheck r"
  using copyRIBs_ok [OF assms, of r] by (auto simp: callResolvedEntryHook_def)

text \<open>A deletion releases the reference of the entry it removes.\<close>

lemma finishDelete_known:
  assumes "env_laws E" and "ref_known r ref'"
  shows "fst (finishDelete E ni op ref' t k r) = ([okResult op], [], None)"
    and "niRIB (snd (finishDelete E ni op ref' t k r)) = niRIB (dec_nhg (resolve_ref ni ref') r)"
proof -
  let ?d = "dec_nhg (resolve_ref ni ref') r"
  obtain e r2 where c: "callResolvedEntryHook E Delete ni t k ?d = (e, r2)" by (rule prod.exhaust)
  have d: "on_ni (fst (resolve_ref ni ref')) (decNHGRefCount (snd ref')) r = ?d"
    by (simp add: dec_nhg_def resolve_ref_def)
  show "fst (finishDelete E ni op ref' t k r) = ([okResult op], [], None)"
    "niRIB (snd (finishDelete E ni op ref' t k r)) = niRIB ?d"
    using callResolvedEntryHook_ok(1,2) [OF assms(1), of Delete ni t k ?d]
    by (simp_all add: finishDelete_def refdRIB_known [OF assms(2)] d c)
qed

subsection \<open>Entries that refer to a next-hop-group\<close>

text \<open>
  The contract of the three AFTs whose entries name a next-hop-group: on top of
  \<open>aft_table\<close>, their tables change references only (\<open>top_change\<close>), the checks ask for the
  referred group, and \<open>installEntry\<close> and \<open>DeleteEntry\<close> treat the three alike.
\<close>

locale referring_table =
  aft_table tbl single store remove key usable deletable cand of_pb blank changed add delete
  for tbl :: "Afts \<Rightarrow> ('k, 'e) gomap" and single and store and remove and key :: "'pb \<Rightarrow> 'k"
    and usable and deletable and cand and of_pb and blank and changed and add and delete +
  fixes ref :: "'e \<Rightarrow> nhg_ref"
    and pbref :: "'pb option \<Rightarrow> nhg_ref"
    and wrap :: "'pb option \<Rightarrow> AFTOperation_Entry"
    and call :: "'pb option \<Rightarrow> (AFT \<times> hook_key) option"
    and aft :: AFT
    and hook :: "'e \<Rightarrow> hook_key"
  assumes store_change: "tables_wf a \<Longrightarrow> of_pb p e \<Longrightarrow>
      top_change a (store (key p) e a) (opt_mset (map_option ref (gm_get (tbl a) (key p)))) {#ref e#}"
    and remove_change: "tables_wf a \<Longrightarrow>
      top_change a (remove k a) (opt_mset (map_option ref (gm_get (tbl a) k))) {#}"
    and resolve_single: "gm_get (niRIB r) ni = Some rh \<Longrightarrow> ni \<noteq> [] \<Longrightarrow>
      canResolve r ni (Some (single k e)) = (if snd (ref e) = 0 then Inl (ZeroIndexNHGInEntry ni)
        else nhgResolvable r rh (fst (ref e)) (snd (ref e)))"
    and pbref_ref: "of_pb p e \<Longrightarrow> pbref (Some p) = ref e"
    and wf_usable: "op_wf op \<Longrightarrow> op_Entry op = Some (wrap (Some p)) \<Longrightarrow> usable p"
    and installs: "op_Entry op = Some (wrap po) \<Longrightarrow> installEntry E ni op rh r =
      (case add E (holder_check r rh) po (op_Op op = Op_REPLACE) rh of
         (Inr (True, orig), h) \<Rightarrow> (Installed (call po),
           handleReferences ni (map_option ref orig) (pbref po) (r\<lparr>niRIB := gm_put ni h (niRIB r)\<rparr>))
       | (res, h) \<Rightarrow> (install_outcome res None, r\<lparr>niRIB := gm_put ni h (niRIB r)\<rparr>))"
    and deletes: "gm_get (niRIB r) ni = Some rh \<Longrightarrow> IsValid rh \<Longrightarrow> op_Entry op = Some (wrap po) \<Longrightarrow>
      DeleteEntry E ni (Some op) r =
      (case delete (holder_check r rh) po rh of
         (Inr (True, Some o'), h) \<Rightarrow>
           finishDelete E ni op (ref o') aft (hook o') (r\<lparr>niRIB := gm_put ni h (niRIB r)\<rparr>)
       | (res, h) \<Rightarrow> (deleteOutcome op res, r\<lparr>niRIB := gm_put ni h (niRIB r)\<rparr>))"
begin

abbreviation ready_at :: "rib_env \<Rightarrow> RIB \<Rightarrow> RIBHolder \<Rightarrow> AFTOperation \<Rightarrow> 'pb \<Rightarrow> 'e \<Rightarrow> bool" where
  "ready_at E r rh op \<equiv> ready E (holder_check r rh) (op_Op op = Op_REPLACE) rh"

lemma ready_has_nhg:
  assumes "at_ni E r ni rh" and "ready_at E r rh op e v"
  shows "has_nhg r (resolve_ref ni (ref v))"
  using assms(2) at_niD [OF assms(1)] nhgResolvable_iff [of r ni rh "ref v"]
  by (auto simp: ready_def run_check_Add resolve_single split: if_splits)

lemma install_ready:
  assumes at: "at_ni E r ni rh" and op: "op_wf op" "op_Entry op = Some (wrap (Some e))"
    and rd: "ready_at E r rh op e v"
  shows "installEntry E ni op rh r = (Installed (call (Some e)),
    handleReferences ni (map_option ref (gm_get (tbl (afts rh)) (key e))) (ref v)
      (commit ni Add [changed (Some v)] (store (key e) v (afts rh)) rh r))"
proof -
  have "of_pb e v" using rd by (simp add: ready_def)
  then show ?thesis
    using add_ready [OF at_niD(1) [OF at] at_niD(5) [OF at] wf_usable [OF op] rd]
    by (simp add: installs [OF op(2)] pbref_ref commit_def)
qed

lemma install_not_ready:
  assumes at: "at_ni E r ni rh" and op: "op_wf op" "op_Entry op = Some (wrap po)"
    and nr: "\<And>e v. po = Some e \<Longrightarrow> \<not> ready_at E r rh op e v"
  shows "refused (installEntry E ni op rh r) r"
proof -
  let ?res = "add E (holder_check r rh) po (op_Op op = Op_REPLACE) rh"
  have "snd ?res = rh \<and> (\<forall>o'. fst ?res \<noteq> Inr (True, o')) \<and> fst ?res \<noteq> Inl GoPanic"
    by (rule add_not_ready [OF at_niD(1) [OF at] at_niD(5) [OF at]])
      (use op wf_usable nr canResolve_no_panic at_niD(6) [OF at] in \<open>auto simp: run_check_Add\<close>)
  then show ?thesis
    unfolding installs [OF op(2)] by (rule refused_case [OF at_niD(3) [OF at]])
qed

text \<open>An entry whose group is missing in a known network instance waits.\<close>

lemma install_waits:
  assumes at: "at_ni E r ni rh" and op: "op_wf op" "op_Entry op = Some (wrap (Some e))"
    and c: "cand E e = Inr (Some (single (key e) v))" and v: "of_pb e v"
    and x: "op_Op op = Op_REPLACE \<longrightarrow> gm_get (tbl (afts rh)) (key e) \<noteq> None"
    and nz: "snd (ref v) \<noteq> 0" and kn: "ref_known r (ref v)" and no: "\<not> has_nhg r (resolve_ref ni (ref v))"
  shows "installEntry E ni op rh r = (Unresolved, r)"
proof -
  note D = at_niD [OF at]
  have "\<exists>b. nhgResolvable r rh (fst (ref v)) (snd (ref v)) = Inr b"
    using kn by (auto simp: nhgResolvable_def ref_known_def known_ni_def NetworkInstanceRIB_def split: option.splits)
  then have "nhgResolvable r rh (fst (ref v)) (snd (ref v)) = Inr False"
    using nhgResolvable_iff [OF D(3), of "ref v"] no by auto
  then have "run_check (holder_check r rh) rh Add (Some (single (key e) v)) = Inr False"
    using nz D by (simp add: run_check_Add resolve_single)
  then show ?thesis
    using add_checked [OF D(1) D(5) wf_usable [OF op] c x, of "holder_check r rh"] D(3)
    by (simp add: installs [OF op(2)] install_outcome_def)
qed

lemma install_inv:
  assumes at: "at_ni E r ni rh" and op: "op_wf op" "op_Entry op = Some (wrap po)"
    and inv: "rib_inv r" and small: "Suc (n_rib r) < 2 ^ 64"
  shows "rib_inv (snd (installEntry E ni op rh r)) \<and> (no_dangling r \<longrightarrow> no_dangling (snd (installEntry E ni op rh r))) \<and>
    n_rib (snd (installEntry E ni op rh r)) \<le> Suc (n_rib r)"
proof (cases "\<exists>e v. po = Some e \<and> ready_at E r rh op e v")
  case True
  then obtain e v where e: "po = Some e" and rd: "ready_at E r rh op e v" by blast
  let ?orig = "map_option ref (gm_get (tbl (afts rh)) (key e))"
  let ?r' = "handleReferences ni ?orig (ref v) (commit ni Add [changed (Some v)] (store (key e) v (afts rh)) rh r)"
  have has: "has_nhg r (resolve_ref ni (ref v))" by (rule ready_has_nhg [OF at rd])
  have "of_pb e v" using rd by (simp add: ready_def)
  note u = top_update [OF inv at_niD(3) [OF at] store_change [OF at_niD(7) [OF at] this] has small refl]
  have "no_dangling ?r'" if "no_dangling r"
  proof -
    have "y = resolve_ref ni (ref v) \<or> y \<in># nhg_refs r" if "y \<in># nhg_refs ?r'" for y
      using arg_cong [OF u(3), of set_mset] that by auto
    with \<open>no_dangling r\<close> has u(4-6) show ?thesis unfolding no_dangling_def by metis
  qed
  with u(1,2) install_ready [OF at op(1) op(2) [unfolded e] rd] show ?thesis by simp
next
  case False
  then have "refused (installEntry E ni op rh r) r" by (intro install_not_ready [OF at op]) auto
  with inv show ?thesis by (simp add: refused_def)
qed

lemma delete_removed:
  assumes at: "at_ni E r ni rh" and inv: "rib_inv r" and small: "n_rib r < 2 ^ 64"
    and some: "gm_get (tbl (afts rh)) k = Some o'"
    and c: "c = commit ni Delete es (remove k (afts rh)) rh r"
  shows "rib_inv (dec_nhg (resolve_ref ni (ref o')) c)" and "ref_known c (ref o')"
    and "nhg_refs (dec_nhg (resolve_ref ni (ref o')) c) + {#resolve_ref ni (ref o')#} = nhg_refs r"
    and "nh_refs (dec_nhg (resolve_ref ni (ref o')) c) = nh_refs r"
    and "n_rib (dec_nhg (resolve_ref ni (ref o')) c) \<le> n_rib r"
    and "has_nhg c x = has_nhg r x" "has_nh c x = has_nh r x"
proof -
  note D = at_niD [OF at]
  have ch: "top_change (afts rh) (remove k (afts rh)) {#ref o'#} {#}"
    using remove_change [OF D(7), of k] some by simp
  note nc = nhg_refs_commit [OF D(2,3) ch, of Delete es, folded c]
  have wc: "rib_wf c" unfolding c using D ch by (simp add: commit_wf top_change_def)
  have mem: "resolve_ref ni (ref o') \<in># nhg_refs r"
    using arg_cong [OF nc(1), of "\<lambda>m. resolve_ref ni (ref o') \<in># m"] by simp
  then have ko: "known_ni c (fst (resolve_ref ni (ref o')))"
    using inv by (simp add: rib_inv_def ni_closed_def c commit_known [OF D(3)])
  then show "ref_known c (ref o')" by (simp add: ref_known_def resolve_ref_def split: if_splits)
  show h: "has_nhg c x = has_nhg r x" "has_nh c x = has_nh r x" for x
    using ch by (cases x, auto simp: c commit_has [OF D(3)] top_change_def has_at [OF D(3)])+
  have "tracks nhg_count c (add_mset (resolve_ref ni (ref o')) (nhg_refs c))"
    using inv nc(1) by (auto simp: rib_inv_def counts_ok_def c commit_counts [OF D(3)] tracks_def)
  then have "tracks nhg_count (dec_nhg (resolve_ref ni (ref o')) c) (nhg_refs c)"
  proof (rule rib_nhg.tracks_dec [rotated])
    show "Suc (count (nhg_refs c) (resolve_ref ni (ref o'))) < 2 ^ 64"
      using arg_cong [OF nc(1), of "\<lambda>m. count m (resolve_ref ni (ref o'))"]
        count_nhg_refs_le [of r "resolve_ref ni (ref o')"] small by simp
  qed (rule ko)
  moreover have "ni_closed c"
    using inv arg_cong [OF nc(1), of set_mset]
    by (auto simp: rib_inv_def ni_closed_def c commit_known [OF D(3)])
  moreover have "tracks nh_count c (nh_refs c)"
    using inv nc(2) by (simp add: rib_inv_def counts_ok_def c commit_counts [OF D(3)] tracks_def)
  ultimately show "rib_inv (dec_nhg (resolve_ref ni (ref o')) c)"
    using wc by (simp add: rib_inv_def counts_ok_def rib_wf_counter_ops refs_counter_ops
        ni_closed_def tracks_def)
  show "nhg_refs (dec_nhg (resolve_ref ni (ref o')) c) + {#resolve_ref ni (ref o')#} = nhg_refs r"
    "nh_refs (dec_nhg (resolve_ref ni (ref o')) c) = nh_refs r"
    "n_rib (dec_nhg (resolve_ref ni (ref o')) c) \<le> n_rib r"
    using nc wc by (simp_all add: refs_counter_ops)
qed

lemma delete_absent:
  assumes at: "at_ni E r ni rh" and inv: "rib_inv r" and none: "gm_get (tbl (afts rh)) k = None"
    and c: "c = commit ni Delete es (remove k (afts rh)) rh r"
  shows "rib_inv c" and "nhg_refs c = nhg_refs r" and "nh_refs c = nh_refs r" and "n_rib c \<le> n_rib r"
    and "has_nhg c x = has_nhg r x" "has_nh c x = has_nh r x"
proof -
  note D = at_niD [OF at]
  have ch: "top_change (afts rh) (remove k (afts rh)) {#} {#}"
    using remove_change [OF D(7), of k] none by simp
  note nc = nhg_refs_commit [OF D(2,3) ch, of Delete es, folded c]
  show h: "has_nhg c x = has_nhg r x" "has_nh c x = has_nh r x" for x
    using ch by (cases x, auto simp: c commit_has [OF D(3)] top_change_def has_at [OF D(3)])+
  show refs: "nhg_refs c = nhg_refs r" "nh_refs c = nh_refs r" "n_rib c \<le> n_rib r"
    using nc by simp_all
  have "rib_wf c" unfolding c using D ch by (simp add: commit_wf top_change_def)
  with inv refs show "rib_inv c"
    by (auto simp: rib_inv_def counts_ok_def ni_closed_def tracks_def c commit_known [OF D(3)]
        commit_counts [OF D(3)])
qed

lemma delete_inv:
  assumes at: "at_ni E r ni rh" and op: "op_Entry op = Some (wrap po)"
    and inv: "rib_inv r" and small: "n_rib r < 2 ^ 64"
  shows "rib_inv (snd (DeleteEntry E ni (Some op) r)) \<and>
    (no_dangling r \<longrightarrow> no_dangling (snd (DeleteEntry E ni (Some op) r))) \<and>
    n_rib (snd (DeleteEntry E ni (Some op) r)) \<le> n_rib r"
proof -
  note D = at_niD [OF at]
  have valid: "IsValid rh" using D by (simp add: IsValid_def holder_wf_def)
  note law = deletes [OF D(3) valid op]
  show ?thesis
  proof (cases rule: delete_cases [OF D(5), where eo = po and chk = "holder_check r rh", case_names removed refused])
    case (removed e)
    define c where "c = commit ni Delete [changed (gm_get (tbl (afts rh)) (key e))]
      (remove (key e) (afts rh)) rh r"
    show ?thesis
    proof (cases "gm_get (tbl (afts rh)) (key e)")
      case None
      note u = delete_absent [OF at inv None c_def]
      have "DeleteEntry E ni (Some op) r = (deleteOutcome op (Inr (True, gm_get (tbl (afts rh)) (key e))), c)"
        using removed(4) None by (simp add: law c_def commit_def)
      with u show ?thesis by (simp add: no_dangling_def)
    next
      case (Some o')
      note u = delete_removed [OF at inv small Some c_def]
      have eq: "DeleteEntry E ni (Some op) r = finishDelete E ni op (ref o') aft (hook o') c"
        using removed(4) Some by (simp add: law c_def commit_def)
      have nis: "niRIB (snd (DeleteEntry E ni (Some op) r)) = niRIB (dec_nhg (resolve_ref ni (ref o')) c)"
        unfolding eq by (rule finishDelete_known(2) [OF D(1) u(2)])
      have "no_dangling (dec_nhg (resolve_ref ni (ref o')) c)" if nd: "no_dangling r"
      proof -
        have "y \<in># nhg_refs r" if "y \<in># nhg_refs (dec_nhg (resolve_ref ni (ref o')) c)" for y
          using arg_cong [OF u(3), of set_mset] that by auto
        with nd u(4,6,7) show ?thesis unfolding no_dangling_def has_counter_ops by metis
      qed
      with u(1,5) show ?thesis by (simp add: nis_cong [OF nis])
    qed
  next
    case refused
    have "snd (DeleteEntry E ni (Some op) r) = r"
      using refused D(3) unfolding law
      by (cases "delete (holder_check r rh) po rh") (auto split: sum.splits bool.splits option.splits)
    with inv show ?thesis by simp
  qed
qed

end

subsection \<open>IPv4, IPv6 and MPLS\<close>

interpretation ref_ipv4: referring_table Ipv4Entry single_v4 put_v4 del_v4 v4k_Prefix "\<lambda>_. True" "\<lambda>_. True"
  "\<lambda>E e. candidate E (empty_Afts_pb\<lparr>pb_Ipv4Entry := [e]\<rparr>)" v4_of NewIpv4Entry Changed_Ipv4
  AddIPv4 DeleteIPv4 v4_ref "\<lambda>t. v4pb_ref (Option.bind t v4k_Ipv4Entry)" AFTOp_Ipv4
  "\<lambda>t. let p = (case t of None \<Rightarrow> [] | Some e \<Rightarrow> v4k_Prefix e) in if p \<noteq> [] then Some (IPv4, HK_string p) else None"
  IPv4 "\<lambda>e. HK_string (sval (v4_Prefix e))"
  by (unfold_locales, erule top_change_put(1) [OF _ of_pb_ok(1)], assumption)
    (simp_all add: top_change_del canResolve_top v4_of_def installEntry_def
      DeleteEntry_def NetworkInstanceRIB_def Let_def split: prod.splits sum.splits bool.splits)

interpretation ref_ipv6: referring_table Ipv6Entry single_v6 put_v6 del_v6 v6k_Prefix "\<lambda>_. True" "\<lambda>_. True"
  "\<lambda>E e. candidate E (empty_Afts_pb\<lparr>pb_Ipv6Entry := [e]\<rparr>)" v6_of NewIpv6Entry Changed_Ipv6
  AddIPv6 DeleteIPv6 v6_ref "\<lambda>t. v6pb_ref (Option.bind t v6k_Ipv6Entry)" AFTOp_Ipv6
  "\<lambda>t. let p = (case t of None \<Rightarrow> [] | Some e \<Rightarrow> v6k_Prefix e) in if p \<noteq> [] then Some (IPv6, HK_string p) else None"
  IPv6 "\<lambda>e. HK_string (sval (v6_Prefix e))"
  by (unfold_locales, erule top_change_put(2) [OF _ of_pb_ok(2)], assumption)
    (simp_all add: top_change_del canResolve_top v6_of_def installEntry_def
      DeleteEntry_def NetworkInstanceRIB_def Let_def split: prod.splits sum.splits bool.splits)

interpretation ref_mpls: referring_table LabelEntry single_le put_le del_le label_of numeric_label numeric_label
  "\<lambda>E e. candidate E (empty_Afts_pb\<lparr>pb_LabelEntry := [e]\<rparr>)" le_of NewLabelEntry Changed_Label
  AddMPLS DeleteMPLS le_ref "\<lambda>t. lepb_ref (Option.bind t lek_LabelEntry)" AFTOp_Mpls
  "\<lambda>t. let l = (case t of None \<Rightarrow> 0 | Some e \<Rightarrow> GetLabelUint64 e) in if l \<noteq> 0 then Some (MPLS, HK_uint64 l) else None"
  MPLS "\<lambda>e. HK_label (le_Label e)"
  by (unfold_locales, erule top_change_put(3) [OF _ of_pb_ok(3)], assumption)
    (simp_all add: top_change_del canResolve_top le_of_def op_wf_def installEntry_def
      DeleteEntry_def NetworkInstanceRIB_def Let_def split: prod.splits sum.splits bool.splits)

end
