(* ===== verification/RibNextHop.thy ===== *)
theory RibNextHop
  imports RibInstall
begin

text \<open>
  Installation and deletion of next-hop-groups and next-hops, and with them the invariant
  over every kind of operation (\<open>installEntry_inv\<close>, \<open>DeleteEntry_inv\<close>).
\<close>

subsection \<open>Next-hop-groups\<close>

definition old_nhs :: "Afts \<Rightarrow> u64 \<Rightarrow> u64 list" where
  "old_nhs a i = (case gm_get (aft_NextHopGroup a) i of None \<Rightarrow> [] | Some g \<Rightarrow> map fst (nhg_NextHop g))"

lemma fold_dec_group:
  assumes "group_wf g"
  shows "fold (\<lambda>(k, nh). on_ni ni (decNHRefCount (uval (nhgnh_Index nh)))) (nhg_NextHop g) r =
      fold dec_nh (map (Pair ni) (map fst (nhg_NextHop g))) r"
proof -
  have "\<forall>p\<in>set ps. nhgnh_Index (snd p) = Some (fst p) \<Longrightarrow>
      fold (\<lambda>(k, nh). on_ni ni (decNHRefCount (uval (nhgnh_Index nh)))) ps r =
      fold dec_nh (map (Pair ni) (map fst ps)) r" for ps
    by (induction ps arbitrary: r) (auto simp: dec_nh_def)
  then show ?thesis using assms unfolding group_wf_def by blast
qed

lemma fold_dec_keys: "fold (\<lambda>(i, _). on_ni ni (decNHRefCount i)) ps r =
    fold dec_nh (map (Pair ni) (map fst ps)) r"
  by (induction ps arbitrary: r) (auto simp: dec_nh_def)

lemma fold_inc_pb: "fold (\<lambda>nh. on_ni ni (incNHRefCount (nhgnhk_Index nh))) ns r =
    fold inc_nh (map (Pair ni) (map nhgnhk_Index ns)) r"
  by (induction ns arbitrary: r) (simp_all add: inc_nh_def)

lemma handleNHGReferences_eq:
  assumes "\<And>og. orig = Some og \<Longrightarrow> group_wf og"
  shows "handleNHGReferences ni orig (Some g) r = (None,
    fold dec_nh (map (Pair ni) (case orig of None \<Rightarrow> [] | Some og \<Rightarrow> map fst (nhg_NextHop og)))
      (fold inc_nh (map (Pair ni) (map nhgnhk_Index (nhgpb_NextHop g))) r))"
  using assms by (cases orig) (simp_all add: handleNHGReferences_def fold_inc_pb fold_dec_group)

lemma group_lookup_wf: "tables_wf a \<Longrightarrow> gm_get (aft_NextHopGroup a) i = Some g \<Longrightarrow> group_wf g"
  by (drule tables_wf_group, erule map_of_SomeD) simp

abbreviation nhg_ready :: "rib_env \<Rightarrow> RIB \<Rightarrow> RIBHolder \<Rightarrow> AFTOperation \<Rightarrow> Afts_NextHopGroupKey \<Rightarrow> Afts_NextHopGroup \<Rightarrow> bool" where
  "nhg_ready E r rh op \<equiv> nhg.ready E (holder_check r rh) (op_Op op = Op_REPLACE) rh"

abbreviation nh_ready :: "rib_env \<Rightarrow> RIB \<Rightarrow> RIBHolder \<Rightarrow> AFTOperation \<Rightarrow> Afts_NextHopKey \<Rightarrow> Afts_NextHop \<Rightarrow> bool" where
  "nh_ready E r rh op \<equiv> nh.ready E (holder_check r rh) (op_Op op = Op_REPLACE) rh"

lemma nhg_ready_facts:
  assumes at: "at_ni E r ni rh" and rd: "nhg_ready E r rh op e v"
  shows "nhg_of e v" and "pb_nhs e \<noteq> []" and "group_ok (nhgk_Id e) v" and "i \<in> set (pb_nhs e) \<Longrightarrow> has_nh r (ni, i)"
proof -
  show of: "nhg_of e v" using rd by (simp add: nhg.ready_def)
  have chk: "length (nhg_NextHop v) \<noteq> 0"
    "nhs_resolvable rh ni (uval (nhg_Id v)) (nhg_NextHop v) = Inr True"
    using rd at_niD [OF at] by (auto simp: nhg.ready_def run_check_Add canResolve_nhg split: if_splits)
  show "pb_nhs e \<noteq> []" using chk(1) of by (auto simp: nhg_of_def)
  have "nhgk_Id e \<noteq> 0" using rd at_niD [OF at] of
    by (auto simp: nhg.ready_def run_check_Add canResolve_nhg nhg_of_def split: if_splits)
  then show "group_ok (nhgk_Id e) v" using of_pb_ok(5) [OF of] chk(1) by simp
  have "\<forall>p\<in>set (nhg_NextHop v). has_nh r (ni, fst p)"
    using nhs_resolvable_iff [OF at_niD(3) [OF at]] chk(2) of by (simp add: nhg_of_def group_wf_def)
  moreover assume "i \<in> set (pb_nhs e)"
  ultimately show "has_nh r (ni, i)" using of unfolding nhg_of_def list.set_map by (metis imageE)
qed

lemma install_nhg_ready:
  assumes at: "at_ni E r ni rh" and op: "op_Entry op = Some (AFTOp_NextHopGroup (Some e))"
    and rd: "nhg_ready E r rh op e v"
  shows "installEntry E ni op rh r = (Installed None,
    fold dec_nh (map (Pair ni) (old_nhs (afts rh) (nhgk_Id e)))
      (fold inc_nh (map (Pair ni) (pb_nhs e))
        (commit ni Add [Changed_NextHopGroup (Some v)] (put_nhg (nhgk_Id e) v (afts rh)) rh r)))"
proof -
  note D = at_niD [OF at]
  have "pb_nhs e \<noteq> []" using nhg_ready_facts(2) [OF at rd] .
  then obtain g where g: "nhgk_NextHopGroup e = Some g" "pb_nhs e = map nhgnhk_Index (nhgpb_NextHop g)"
    by (auto simp: pb_nhs_def split: option.splits)
  show ?thesis
    using nhg.add_ready [OF D(1) D(5) TrueI rd] op g
      handleNHGReferences_eq [where orig = "gm_get (aft_NextHopGroup (afts rh)) (nhgk_Id e)",
        OF group_lookup_wf [OF D(7)]]
    by (simp add: installEntry_def commit_def old_nhs_def)
qed

lemma handle_outcome_refused:
  assumes "gm_get (niRIB r) ni = Some rh" and "snd res = rh \<and> (\<forall>o'. fst res \<noteq> Inr (True, o')) \<and> fst res \<noteq> Inl GoPanic"
  shows "refused (case res of (res', h) \<Rightarrow> (install_outcome res' None, r\<lparr>niRIB := gm_put ni h (niRIB r)\<rparr>)) r"
  using assms by (cases res) (auto simp: refused_def install_outcome_refused)

lemma install_nhg_not_ready:
  assumes at: "at_ni E r ni rh" and op: "op_Entry op = Some (AFTOp_NextHopGroup eo)"
    and nr: "\<And>e v. eo = Some e \<Longrightarrow> \<not> nhg_ready E r rh op e v"
  shows "refused (installEntry E ni op rh r) r"
proof -
  let ?res = "AddNextHopGroup E (holder_check r rh) eo (op_Op op = Op_REPLACE) rh"
  have "snd ?res = rh \<and> (\<forall>o'. fst ?res \<noteq> Inr (True, o')) \<and> fst ?res \<noteq> Inl GoPanic"
    by (rule nhg.add_not_ready [OF at_niD(1) [OF at] at_niD(5) [OF at]]) (use nr canResolve_no_panic at_niD(6) [OF at] in \<open>auto simp: run_check_Add\<close>)
  from refused_case [OF at_niD(3) [OF at] this] show ?thesis
    using op by (simp add: installEntry_def Let_def)
qed

subsection \<open>Next-hops\<close>

lemma nh_ready_ok:
  assumes at: "at_ni E r ni rh" and rd: "nh_ready E r rh op e v"
  shows "nh_ok (nhk_Index e) v"
  using rd at_niD [OF at] of_pb_ok(4)
  by (auto simp: nh.ready_def run_check_Add canResolve_nhg nh_of_def split: if_splits)

lemma install_nh_ready:
  assumes at: "at_ni E r ni rh" and op: "op_Entry op = Some (AFTOp_NextHop (Some e))"
    and rd: "nh_ready E r rh op e v"
  shows "installEntry E ni op rh r = (Installed None,
    commit ni Add [Changed_NextHop (Some v)] (put_nh (nhk_Index e) v (afts rh)) rh r)"
  using nh.add_ready [OF at_niD(1) [OF at] at_niD(5) [OF at] TrueI rd] op
  by (simp add: installEntry_def commit_def install_outcome_def)

lemma install_nh_not_ready:
  assumes at: "at_ni E r ni rh" and op: "op_Entry op = Some (AFTOp_NextHop eo)"
    and nr: "\<And>e v. eo = Some e \<Longrightarrow> \<not> nh_ready E r rh op e v"
  shows "refused (installEntry E ni op rh r) r"
proof -
  let ?res = "AddNextHop E (holder_check r rh) eo (op_Op op = Op_REPLACE) rh"
  have "snd ?res = rh \<and> (\<forall>o'. fst ?res \<noteq> Inr (True, o')) \<and> fst ?res \<noteq> Inl GoPanic"
    by (rule nh.add_not_ready [OF at_niD(1) [OF at] at_niD(5) [OF at]]) (use nr canResolve_no_panic at_niD(6) [OF at] in \<open>auto simp: run_check_Add\<close>)
  from handle_outcome_refused [OF at_niD(3) [OF at] this] show ?thesis
    using op by (simp add: installEntry_def)
qed

subsection \<open>Preservation\<close>

lemma old_nhs_mset:
  "mset (old_nhs a i) = (case gm_get (aft_NextHopGroup a) i of None \<Rightarrow> {#} | Some og \<Rightarrow> group_nhs og)"
  by (simp add: old_nhs_def group_nhs_def split: option.splits)

lemma install_nhg_inv:
  assumes at: "at_ni E r ni rh" and op: "op_wf op" "op_Entry op = Some (AFTOp_NextHopGroup eo)"
    and inv: "rib_inv r" and small: "Suc (n_rib r) < 2 ^ 64"
  shows "rib_inv (snd (installEntry E ni op rh r)) \<and> (no_dangling r \<longrightarrow> no_dangling (snd (installEntry E ni op rh r))) \<and>
    n_rib (snd (installEntry E ni op rh r)) \<le> Suc (n_rib r)"
proof (cases "\<exists>e v. eo = Some e \<and> nhg_ready E r rh op e v")
  case True
  then obtain e v where e: "eo = Some e" and rd: "nhg_ready E r rh op e v" by blast
  note D = at_niD [OF at] and F = nhg_ready_facts [OF at rd]
  let ?a = "put_nhg (nhgk_Id e) v (afts rh)" and ?olds = "old_nhs (afts rh) (nhgk_Id e)"
  have gw: "group_wf v" and dist: "distinct (pb_nhs e)" and set: "set (map fst (nhg_NextHop v)) = set (pb_nhs e)"
    using F(1) op e by (simp_all add: nhg_of_def op_wf_def)
  have "group_nhs v = mset (pb_nhs e)"
    using gw dist set set_eq_iff_mset_eq_distinct [of "map fst (nhg_NextHop v)" "pb_nhs e"]
    by (simp add: group_nhs_def group_wf_def)
  then have nhs: "raw_nh_refs ?a + mset ?olds = raw_nh_refs (afts rh) + mset (pb_nhs e)"
    using raw_nh_refs_put [OF D(7), of "nhgk_Id e" v] by (simp add: old_nhs_mset)
  define r' where "r' = snd (installEntry E ni op rh r)"
  have r': "r' = fold dec_nh (map (Pair ni) ?olds) (fold inc_nh (map (Pair ni) (pb_nhs e))
      (commit ni Add [Changed_NextHopGroup (Some v)] ?a rh r))"
    using install_nhg_ready [OF at op(2) [unfolded e] rd] by (simp add: r'_def)
  note u = nh_update [OF inv D(3) raw_refs_other(1) nhs tables_wf_other(1) [OF D(7) F(3)]
      n_entries_other(1) dist small r']
  have "no_dangling r'" if nd: "no_dangling r"
  proof -
    have "has_nhg r' x" if "has_nhg r x" for x
      using that u(5) [of x] by (cases x) (auto simp: commit_has [OF D(3)] put_nhg_def gomap has_at [OF D(3)])
    moreover have "has_nh r' x = has_nh r x" for x
      using u(6) [of x] by (cases x) (auto simp: commit_has [OF D(3)] put_nhg_def has_at [OF D(3)])
    moreover have "y \<in># nh_refs r \<or> (\<exists>i\<in>set (pb_nhs e). y = (ni, i))" if "y \<in># nh_refs r'" for y
      using arg_cong [OF u(4), of set_mset] that by auto
    ultimately show ?thesis using nd F(4) unfolding no_dangling_def u(3) by metis
  qed
  with u(1,2) show ?thesis by (simp add: r'_def)
next
  case False
  then have "refused (installEntry E ni op rh r) r" by (intro install_nhg_not_ready [OF at op(2)]) auto
  with inv show ?thesis by (simp add: refused_def)
qed

lemma install_nh_inv:
  assumes at: "at_ni E r ni rh" and op: "op_Entry op = Some (AFTOp_NextHop eo)"
    and inv: "rib_inv r" and small: "Suc (n_rib r) < 2 ^ 64"
  shows "rib_inv (snd (installEntry E ni op rh r)) \<and> (no_dangling r \<longrightarrow> no_dangling (snd (installEntry E ni op rh r))) \<and>
    n_rib (snd (installEntry E ni op rh r)) \<le> Suc (n_rib r)"
proof (cases "\<exists>e v. eo = Some e \<and> nh_ready E r rh op e v")
  case True
  then obtain e v where e: "eo = Some e" and rd: "nh_ready E r rh op e v" by blast
  note D = at_niD [OF at] and ok = nh_ready_ok [OF at rd]
  let ?a = "put_nh (nhk_Index e) v (afts rh)"
  define r' where "r' = snd (installEntry E ni op rh r)"
  have r': "r' = fold dec_nh (map (Pair ni) []) (fold inc_nh (map (Pair ni) [])
      (commit ni Add [Changed_NextHop (Some v)] ?a rh r))"
    using install_nh_ready [OF at op [unfolded e] rd] by (simp add: r'_def)
  note u = nh_update [OF inv D(3) raw_refs_other(3) _ tables_wf_other(3) [OF D(7) ok]
      n_entries_other(3) distinct.simps(1) [THEN iffD2] small r', simplified]
  have "no_dangling r'" if nd: "no_dangling r"
  proof -
    have "has_nhg r' x = has_nhg r x" for x
      using u(5) [of x] by (cases x) (auto simp: commit_has [OF D(3)] put_nh_def has_at [OF D(3)])
    moreover have "has_nh r' x" if "has_nh r x" for x
      using that u(6) [of x] by (cases x) (auto simp: commit_has [OF D(3)] put_nh_def gomap has_at [OF D(3)])
    ultimately show ?thesis using nd u(3,4) unfolding no_dangling_def by metis
  qed
  with u(1,2) show ?thesis by (simp add: r'_def)
next
  case False
  then have "refused (installEntry E ni op rh r) r" by (intro install_nh_not_ready [OF at op]) auto
  with inv show ?thesis by (simp add: refused_def)
qed

text \<open>A supported operation is installed or refused; it never ends the call.\<close>

definition supported :: "AFTOperation \<Rightarrow> bool" where
  "supported op = (op_Entry op \<noteq> None \<and> op_Entry op \<noteq> Some OtherEntry)"

lemma installed_or_refused:
  assumes at: "at_ni E r ni rh" and op: "op_wf op" and sup: "supported op"
  shows "(\<exists>c. fst (installEntry E ni op rh r) = Installed c) \<or> refused (installEntry E ni op rh r) r"
proof -
  obtain t where t: "op_Entry op = Some t" "t \<noteq> OtherEntry"
    using sup by (cases "op_Entry op") (auto simp: supported_def)
  have I: "\<exists>c. fst (installEntry E ni op rh r) = Installed c"
    if "installEntry E ni op rh r = (Installed c, s)" for c s using that by simp
  show ?thesis
  proof (cases t)
    case (AFTOp_Ipv4 eo)
    then show ?thesis using t ref_ipv4.install_ready [OF at op] ref_ipv4.install_not_ready [OF at op]
      by (metis I)
  next
    case (AFTOp_Ipv6 eo)
    then show ?thesis using t ref_ipv6.install_ready [OF at op] ref_ipv6.install_not_ready [OF at op]
      by (metis I)
  next
    case (AFTOp_Mpls eo)
    then show ?thesis using t ref_mpls.install_ready [OF at op] ref_mpls.install_not_ready [OF at op]
      by (metis I)
  next
    case (AFTOp_NextHopGroup eo)
    then show ?thesis using t install_nhg_ready [OF at] install_nhg_not_ready [OF at] by (metis I)
  next
    case (AFTOp_NextHop eo)
    then show ?thesis using t install_nh_ready [OF at] install_nh_not_ready [OF at] by (metis I)
  qed (use t in simp)
qed

theorem installEntry_inv:
  assumes at: "at_ni E r ni rh" and op: "op_wf op"
    and inv: "rib_inv r" and small: "Suc (n_rib r) < 2 ^ 64"
  shows "rib_inv (snd (installEntry E ni op rh r)) \<and> (no_dangling r \<longrightarrow> no_dangling (snd (installEntry E ni op rh r))) \<and>
    n_rib (snd (installEntry E ni op rh r)) \<le> Suc (n_rib r)"
proof (cases "op_Entry op")
  case None
  with inv show ?thesis by (simp add: installEntry_def)
next
  case (Some t)
  note I = ref_ipv4.install_inv [OF at op _ inv small] ref_ipv6.install_inv [OF at op _ inv small]
    ref_mpls.install_inv [OF at op _ inv small] install_nhg_inv [OF at op _ inv small]
    install_nh_inv [OF at _ inv small]
  show ?thesis
  proof (cases t)
    case OtherEntry
    with Some inv show ?thesis by (simp add: installEntry_def)
  qed (use Some I in auto)
qed

subsection \<open>Deletion\<close>

text \<open>An unreferenced group or next-hop can go: nothing stored refers to it.\<close>

lemma unreferenced:
  assumes "rib_inv r" and "n_rib r < 2 ^ 64"
  shows "nhg_count r x = 0 \<Longrightarrow> x \<notin># nhg_refs r" and "nh_count r x = 0 \<Longrightarrow> x \<notin># nh_refs r"
  using assms tracks_zero_iff [of nhg_count r "nhg_refs r" x] tracks_zero_iff [of nh_count r "nh_refs r" x]
    count_nhg_refs_le [of r x] count_nh_refs_le [of r x]
  by (auto simp: rib_inv_def counts_ok_def)

lemma at_ni_valid: "at_ni E r ni rh \<Longrightarrow> IsValid rh"
  using at_niD [of E r ni rh] by (simp add: IsValid_def holder_wf_def)

lemma delete_nhg_inv:
  assumes at: "at_ni E r ni rh" and op: "op_Entry op = Some (AFTOp_NextHopGroup eo)"
    and inv: "rib_inv r" and small: "Suc (n_rib r) < 2 ^ 64"
  shows "rib_inv (snd (DeleteEntry E ni (Some op) r)) \<and>
    (no_dangling r \<longrightarrow> no_dangling (snd (DeleteEntry E ni (Some op) r))) \<and>
    n_rib (snd (DeleteEntry E ni (Some op) r)) \<le> Suc (n_rib r)"
proof -
  note D = at_niD [OF at] and valid = at_ni_valid [OF at]
  define r' where "r' = snd (DeleteEntry E ni (Some op) r)"
  have r'_eq: "r' = (case DeleteNextHopGroup (holder_check r rh) eo rh of
      (Inr (True, Some og), h) \<Rightarrow> fold dec_nh (map (Pair ni) (map fst (nhg_NextHop og))) (r\<lparr>niRIB := gm_put ni h (niRIB r)\<rparr>)
    | (res, h) \<Rightarrow> r\<lparr>niRIB := gm_put ni h (niRIB r)\<rparr>)"
    using op D(3) valid unfolding r'_def DeleteEntry_def
    by (auto simp: NetworkInstanceRIB_def fold_dec_keys Let_def split: prod.splits sum.splits bool.splits option.splits)
  show ?thesis unfolding r'_def [symmetric]
  proof (cases rule: nhg.delete_cases [OF D(5), where eo = eo and chk = "holder_check r rh", case_names removed refused])
    case (removed e)
    let ?i = "nhgk_Id e" and ?a = "del_nhg (nhgk_Id e) (afts rh)"
    let ?c = "commit ni Delete [Changed_NextHopGroup (gm_get (aft_NextHopGroup (afts rh)) ?i)] ?a rh r"
    have r': "r' = fold dec_nh (map (Pair ni) (old_nhs (afts rh) ?i)) (fold inc_nh (map (Pair ni) []) ?c)"
      using removed(4) by (simp add: r'_eq commit_def old_nhs_def split: option.splits)
    have nhs: "raw_nh_refs ?a + mset (old_nhs (afts rh) ?i) = raw_nh_refs (afts rh) + mset []"
      using raw_nh_refs_del [OF D(7), of ?i] by (simp add: old_nhs_mset)
    have chk: "\<not> has_nhg r (ni, ?i) \<or> nhg_count r (ni, ?i) = 0"
      using removed(2,3) D by (simp add: run_check_Add canDelete_nhg)
    note u = nh_update [OF inv D(3) raw_refs_other(2) nhs tables_wf_other(2) [OF D(7)]
        le_SucI [OF n_entries_other(2)] distinct.simps(1) [THEN iffD2] small r', simplified]
    have "no_dangling r'" if nd: "no_dangling r"
    proof -
      have "has_nhg r' x" if x: "x \<in># nhg_refs r" for x
      proof -
        have h: "has_nhg r x" using nd x by (simp add: no_dangling_def)
        then have "x \<noteq> (ni, ?i)" using chk x unreferenced(1) [OF inv] small by auto
        with h u(5) [of x] show ?thesis
          by (cases x) (auto simp: commit_has [OF D(3)] del_nhg_def gomap has_at [OF D(3)])
      qed
      moreover have "has_nh r' x = has_nh r x" for x
        using u(6) [of x] by (cases x) (auto simp: commit_has [OF D(3)] del_nhg_def has_at [OF D(3)])
      moreover have "y \<in># nh_refs r" if "y \<in># nh_refs r'" for y
        using arg_cong [OF u(4), of set_mset] that by auto
      ultimately show ?thesis using nd unfolding no_dangling_def u(3) by metis
    qed
    with u(1,2) show "rib_inv r' \<and> (no_dangling r \<longrightarrow> no_dangling r') \<and> n_rib r' \<le> Suc (n_rib r)" by simp
  next
    case refused
    have "r' = r"
      using refused D(3) unfolding r'_eq
      by (cases "DeleteNextHopGroup (holder_check r rh) eo rh") (auto split: sum.splits bool.splits option.splits)
    with inv show "rib_inv r' \<and> (no_dangling r \<longrightarrow> no_dangling r') \<and> n_rib r' \<le> Suc (n_rib r)" by simp
  qed
qed

lemma delete_nh_inv:
  assumes at: "at_ni E r ni rh" and op: "op_Entry op = Some (AFTOp_NextHop eo)"
    and inv: "rib_inv r" and small: "Suc (n_rib r) < 2 ^ 64"
  shows "rib_inv (snd (DeleteEntry E ni (Some op) r)) \<and>
    (no_dangling r \<longrightarrow> no_dangling (snd (DeleteEntry E ni (Some op) r))) \<and>
    n_rib (snd (DeleteEntry E ni (Some op) r)) \<le> Suc (n_rib r)"
proof -
  note D = at_niD [OF at] and valid = at_ni_valid [OF at]
  define r' where "r' = snd (DeleteEntry E ni (Some op) r)"
  have r'_eq: "r' = r\<lparr>niRIB := gm_put ni (snd (DeleteNextHop (holder_check r rh) eo rh)) (niRIB r)\<rparr>"
    using op D(3) valid unfolding r'_def DeleteEntry_def
    by (simp add: NetworkInstanceRIB_def Let_def split: prod.splits)
  show ?thesis unfolding r'_def [symmetric]
  proof (cases rule: nh.delete_cases [OF D(5), where eo = eo and chk = "holder_check r rh", case_names removed refused])
    case (removed e)
    let ?i = "nhk_Index e" and ?a = "del_nh (nhk_Index e) (afts rh)"
    let ?c = "commit ni Delete [Changed_NextHop (gm_get (aft_NextHop (afts rh)) ?i)] ?a rh r"
    have r': "r' = fold dec_nh (map (Pair ni) []) (fold inc_nh (map (Pair ni) []) ?c)"
      using removed(4) by (simp add: r'_eq commit_def)
    have chk: "\<not> has_nh r (ni, ?i) \<or> nh_count r (ni, ?i) = 0"
      using removed(2,3) D by (simp add: run_check_Add canDelete_nhg)
    note u = nh_update [OF inv D(3) raw_refs_other(4) _ tables_wf_other(4) [OF D(7)]
        le_SucI [OF n_entries_other(4)] distinct.simps(1) [THEN iffD2] small r', simplified]
    have "no_dangling r'" if nd: "no_dangling r"
    proof -
      have "has_nh r' x" if x: "x \<in># nh_refs r" for x
      proof -
        have h: "has_nh r x" using nd x by (simp add: no_dangling_def)
        then have "x \<noteq> (ni, ?i)" using chk x unreferenced(2) [OF inv] small by auto
        with h u(6) [of x] show ?thesis
          by (cases x) (auto simp: commit_has [OF D(3)] del_nh_def gomap has_at [OF D(3)])
      qed
      moreover have "has_nhg r' x = has_nhg r x" for x
        using u(5) [of x] by (cases x) (auto simp: commit_has [OF D(3)] del_nh_def has_at [OF D(3)])
      ultimately show ?thesis using nd u(3,4) unfolding no_dangling_def by metis
    qed
    with u(1,2) show "rib_inv r' \<and> (no_dangling r \<longrightarrow> no_dangling r') \<and> n_rib r' \<le> Suc (n_rib r)" by simp
  next
    case refused
    with inv D(3) show "rib_inv r' \<and> (no_dangling r \<longrightarrow> no_dangling r') \<and> n_rib r' \<le> Suc (n_rib r)"
      by (simp add: r'_eq)
  qed
qed

text \<open>\<open>DeleteEntry\<close> keeps the invariant, whatever its arguments.\<close>

theorem DeleteEntry_preserves:
  assumes env: "env_laws E" and inv: "rib_inv r" and small: "Suc (n_rib r) < 2 ^ 64"
  shows "rib_inv (snd (DeleteEntry E ni opo r)) \<and>
    (no_dangling r \<longrightarrow> no_dangling (snd (DeleteEntry E ni opo r)))"
proof (cases "\<exists>rh op t. gm_get (niRIB r) ni = Some rh \<and> IsValid rh \<and> opo = Some op \<and>
    op_Entry op = Some t \<and> t \<noteq> OtherEntry")
  case True
  then obtain rh op t where get: "gm_get (niRIB r) ni = Some rh" and v: "IsValid rh"
    and op: "opo = Some op" "op_Entry op = Some t" "t \<noteq> OtherEntry" by blast
  have wf: "rib_wf r" using inv by (simp add: rib_inv_def)
  have at: "at_ni E r ni rh"
    using env wf get v rib_wf_holder [OF wf get] by (auto simp: at_ni_def IsValid_def holder_wf_def)
  have small': "n_rib r < 2 ^ 64" using small by simp
  note I = ref_ipv4.delete_inv [OF at _ inv small'] ref_ipv6.delete_inv [OF at _ inv small']
    ref_mpls.delete_inv [OF at _ inv small'] delete_nhg_inv [OF at _ inv small] delete_nh_inv [OF at _ inv small]
  show ?thesis using op I by (cases t) auto
next
  case False
  have "snd (DeleteEntry E ni opo r) = r"
  proof (cases opo)
    case None
    then show ?thesis by (simp add: DeleteEntry_def split: option.splits)
  next
    case (Some op)
    with False show ?thesis
      by (auto simp: DeleteEntry_def NetworkInstanceRIB_def Let_def
          split: option.splits AFTOperation_Entry.splits)
  qed
  with inv show ?thesis by simp
qed

end
