(* ===== verification/RibAdd.thy ===== *)
theory RibAdd
  imports RibNextHop
begin

text \<open>
  \<open>AddEntry\<close> as a whole: the recursion over the pending operations ends within the fuel
  \<open>AddEntry\<close> gives it, keeps the invariant, settles the operation, loses no pending
  operation, and leaves none in the queue that could be installed.
\<close>

subsection \<open>What an installation leaves alone\<close>

lemma on_ni_frame [simp]:
  "pendingEntries (on_ni n f r) = pendingEntries r" "defaultName (on_ni n f r) = defaultName r"
  "disableForwardReferences (on_ni n f r) = disableForwardReferences r"
  "ribCheck (on_ni n f r) = ribCheck r"
  by (simp_all add: on_ni_def split: option.splits)

lemma fold_on_ni_frame [simp]:
  "pendingEntries (fold (\<lambda>x. on_ni n (f x)) xs r) = pendingEntries r"
  "defaultName (fold (\<lambda>x. on_ni n (f x)) xs r) = defaultName r"
  "disableForwardReferences (fold (\<lambda>x. on_ni n (f x)) xs r) = disableForwardReferences r"
  "ribCheck (fold (\<lambda>x. on_ni n (f x)) xs r) = ribCheck r"
  "known_ni (fold (\<lambda>x. on_ni n (f x)) xs r) m = known_ni r m"
  by (induction xs arbitrary: r) simp_all

lemma handleReferences_frame [simp]:
  "pendingEntries (handleReferences ni orig new r) = pendingEntries r"
  "defaultName (handleReferences ni orig new r) = defaultName r"
  "disableForwardReferences (handleReferences ni orig new r) = disableForwardReferences r"
  "ribCheck (handleReferences ni orig new r) = ribCheck r"
  "known_ni (handleReferences ni orig new r) m = known_ni r m"
  by (auto simp: handleReferences_def Let_def split: prod.splits option.splits sum.splits)

lemma handleNHGReferences_frame [simp]:
  "pendingEntries (snd (handleNHGReferences ni orig new r)) = pendingEntries r"
  "defaultName (snd (handleNHGReferences ni orig new r)) = defaultName r"
  "disableForwardReferences (snd (handleNHGReferences ni orig new r)) = disableForwardReferences r"
  "ribCheck (snd (handleNHGReferences ni orig new r)) = ribCheck r"
  "known_ni (snd (handleNHGReferences ni orig new r)) m = known_ni r m"
  by (auto simp: handleNHGReferences_def case_prod_unfold Let_def split: option.splits)

lemma handleNHG_case:
  "(case handleNHGReferences ni orig new s of (Some e, r') \<Rightarrow> (Fatal e, r') | (None, r') \<Rightarrow> (Installed None, r'))
    = (if new = None then Fatal GoPanic else Installed None, snd (handleNHGReferences ni orig new s))"
  by (simp add: handleNHGReferences_def Let_def split: option.splits)

lemma installEntry_frame:
  assumes "gm_get (niRIB r) ni = Some rh0"
  shows "pendingEntries (snd (installEntry E ni op rh r)) = pendingEntries r \<and>
    defaultName (snd (installEntry E ni op rh r)) = defaultName r \<and>
    disableForwardReferences (snd (installEntry E ni op rh r)) = disableForwardReferences r \<and>
    ribCheck (snd (installEntry E ni op rh r)) = ribCheck r \<and>
    known_ni (snd (installEntry E ni op rh r)) m = known_ni r m"
proof -
  have store: "known_ni (r\<lparr>niRIB := gm_put ni h (niRIB r)\<rparr>) m = known_ni r m" for h
    using assms by (auto simp: known_ni_def gomap)
  show ?thesis
    unfolding installEntry_def Let_def handleNHG_case
    by (simp add: store split: option.split AFTOperation_Entry.split prod.split sum.split bool.split)
qed

lemma checks_cong:
  assumes "niRIB r' = niRIB r" and "defaultName r' = defaultName r"
  shows "canResolve r' = canResolve r" and "canDelete r' = canDelete r"
    and "holder_check r' = holder_check r"
proof -
  show c: "canResolve r' = canResolve r" "canDelete r' = canDelete r"
    by (intro ext, simp only: canResolve_def canDelete_def nhgResolvable_def NetworkInstanceRIB_def assms)+
  show "holder_check r' = holder_check r"
    by (intro ext) (simp only: holder_check_def checkFn_def c)
qed

lemma fst_installEntry_cong:
  assumes "niRIB r' = niRIB r" and "defaultName r' = defaultName r"
  shows "fst (installEntry E ni op rh r') = fst (installEntry E ni op rh r)"
  unfolding installEntry_def Let_def handleNHG_case checks_cong(3) [OF assms]
  by (simp split: option.split AFTOperation_Entry.split prod.split sum.split bool.split)

subsection \<open>The invariant of the recursion\<close>

definition acceptable :: "RIB \<Rightarrow> string \<Rightarrow> AFTOperation \<Rightarrow> bool" where
  "acceptable r ni op \<longleftrightarrow> op_wf op \<and> supported op \<and> ni \<noteq> [] \<and> known_ni r ni"

definition pend_ids :: "RIB \<Rightarrow> u64 set" where
  "pend_ids r = fst ` set (pendingEntries r)"

definition pend_wf :: "RIB \<Rightarrow> bool" where
  "pend_wf r \<longleftrightarrow> gm_wf (pendingEntries r) \<and> (\<forall>p\<in>set (pendingEntries r).
     op_Id (pe_op (snd p)) = fst p \<and> acceptable r (pe_ni (snd p)) (pe_op (snd p)))"

text \<open>Whether an operation would be installed in the present state.\<close>

definition installable :: "rib_env \<Rightarrow> RIB \<Rightarrow> pendingEntry \<Rightarrow> bool" where
  "installable E r pe = (case NetworkInstanceRIB r (pe_ni pe) of None \<Rightarrow> False
     | Some rh \<Rightarrow> (case fst (installEntry E (pe_ni pe) (pe_op pe) rh r) of Installed _ \<Rightarrow> True | _ \<Rightarrow> False))"

text \<open>No operation waits although it could be installed, \<open>S\<close> apart.\<close>

definition calm_except :: "rib_env \<Rightarrow> pendingEntry set \<Rightarrow> RIB \<Rightarrow> bool" where
  "calm_except E S r \<longleftrightarrow> (\<forall>pe\<in>set (getPending r). pe \<in> S \<or> \<not> installable E r pe)"

definition quiescent :: "rib_env \<Rightarrow> RIB \<Rightarrow> bool" where
  "quiescent E r = (\<forall>pe\<in>set (getPending r). \<not> installable E r pe)"

definition add_inv :: "u64 set \<Rightarrow> nat \<Rightarrow> add_state \<Rightarrow> bool" where
  "add_inv U N st \<longleftrightarrow> rib_inv (as_rib st) \<and> pend_wf (as_rib st) \<and>
     distinct (as_stack st) \<and> set (as_stack st) \<subseteq> U \<and> pend_ids (as_rib st) \<subseteq> U \<and>
     set (as_stack st) \<inter> pend_ids (as_rib st) = {} \<and>
     n_rib (as_rib st) \<le> N + length (as_stack st) \<and> map or_ID (as_oks st) = rev (as_stack st)"

text \<open>What one call, or one pass over the queue, may do to the state.\<close>

definition extends :: "add_state \<Rightarrow> add_state \<Rightarrow> bool" where
  "extends st st' \<longleftrightarrow> (\<exists>xs. as_stack st' = xs @ as_stack st) \<and> (\<exists>ys. as_fails st' = as_fails st @ ys) \<and>
     (no_dangling (as_rib st) \<longrightarrow> no_dangling (as_rib st')) \<and>
     (\<forall>n. known_ni (as_rib st') n = known_ni (as_rib st) n) \<and> ribCheck (as_rib st') = ribCheck (as_rib st) \<and>
     pend_ids (as_rib st) \<subseteq> set (as_stack st') \<union> pend_ids (as_rib st')"

lemma extends_refl [simp]: "extends st st"
  by (simp add: extends_def)

lemma extends_trans: "extends a b \<Longrightarrow> extends b c \<Longrightarrow> extends a c"
  unfolding extends_def by (elim conjE exE) (intro conjI; (force | simp))

definition settled :: "AFTOperation \<Rightarrow> add_state \<Rightarrow> bool" where
  "settled op st \<longleftrightarrow> op_Id op \<in> set (as_stack st) \<or> op_Id op \<in> pend_ids (as_rib st) \<or>
     op_Id op \<in> or_ID ` set (as_fails st)"

text \<open>The promise of a call, at a state that leaves it enough fuel.\<close>

definition call_ok ::
    "rib_env \<Rightarrow> u64 set \<Rightarrow> nat \<Rightarrow> nat \<Rightarrow>
     (string \<Rightarrow> AFTOperation \<Rightarrow> add_state \<Rightarrow> (rib_err option \<times> add_state) option) \<Rightarrow> bool" where
  "call_ok E U N n f \<longleftrightarrow> (\<forall>ni op st. add_inv U N st \<longrightarrow> acceptable (as_rib st) ni op \<longrightarrow> op_Id op \<in> U \<longrightarrow>
     card U < n + length (as_stack st) \<longrightarrow>
     (\<exists>st'. f ni op st = Some (None, st') \<and> add_inv U N st' \<and> extends st st' \<and> settled op st' \<and>
       (installable E (as_rib st) \<lparr>pe_ni = ni, pe_op = op\<rparr> \<longrightarrow> op_Id op \<in> set (as_stack st')) \<and>
       (\<forall>S. calm_except E S (as_rib st) \<longrightarrow> calm_except E (S - {\<lparr>pe_ni = ni, pe_op = op\<rparr>}) (as_rib st'))))"

lemma call_okD:
  assumes "call_ok E U N n f" and "add_inv U N st" and "acceptable (as_rib st) ni op" and "op_Id op \<in> U"
    and "card U < n + length (as_stack st)"
  obtains st' where "f ni op st = Some (None, st')" "add_inv U N st'" "extends st st'" "settled op st'"
    "installable E (as_rib st) \<lparr>pe_ni = ni, pe_op = op\<rparr> \<longrightarrow> op_Id op \<in> set (as_stack st')"
    "\<And>S. calm_except E S (as_rib st) \<Longrightarrow> calm_except E (S - {\<lparr>pe_ni = ni, pe_op = op\<rparr>}) (as_rib st')"
  using assms unfolding call_ok_def by meson

lemma acceptable_extends: "extends st st' \<Longrightarrow> acceptable (as_rib st') ni op = acceptable (as_rib st) ni op"
  by (simp add: extends_def acceptable_def)

lemma pending_eta: "\<lparr>pe_ni = pe_ni e, pe_op = pe_op e\<rparr> = e"
  by simp

lemma pending_loop_ok:
  assumes f: "call_ok E U N n f"
  shows "add_inv U N st \<Longrightarrow> \<forall>pe\<in>set es. acceptable (as_rib st) (pe_ni pe) (pe_op pe) \<and> op_Id (pe_op pe) \<in> U \<Longrightarrow>
    card U < n + length (as_stack st) \<Longrightarrow>
    \<exists>st'. pending_loop f es st = Some (None, st') \<and> add_inv U N st' \<and> extends st st' \<and>
      (\<forall>S. calm_except E S (as_rib st) \<longrightarrow> calm_except E (S - set es) (as_rib st'))"
proof (induction es arbitrary: st)
  case Nil
  then show ?case by simp
next
  case (Cons e es)
  obtain st1 where st1: "f (pe_ni e) (pe_op e) st = Some (None, st1)" "add_inv U N st1" "extends st st1"
    and calm: "\<And>S. calm_except E S (as_rib st) \<Longrightarrow> calm_except E (S - {e}) (as_rib st1)"
    by (rule call_okD [OF f Cons.prems(1), of "pe_ni e" "pe_op e"], unfold pending_eta)
      (use Cons.prems in auto)
  have "card U < n + length (as_stack st1)" using st1(3) Cons.prems(3) by (auto simp: extends_def)
  moreover have "\<forall>pe\<in>set es. acceptable (as_rib st1) (pe_ni pe) (pe_op pe) \<and> op_Id (pe_op pe) \<in> U"
    using Cons.prems(2) acceptable_extends [OF st1(3)] by simp
  ultimately obtain st' where st': "pending_loop f es st1 = Some (None, st')" "add_inv U N st'" "extends st1 st'"
    and calm': "\<And>S. calm_except E S (as_rib st1) \<Longrightarrow> calm_except E (S - set es) (as_rib st')"
    using Cons.IH [OF st1(2)] by blast
  have "S - {e} - set es = S - set (e # es)" for S by auto
  with calm calm' have "\<forall>S. calm_except E S (as_rib st) \<longrightarrow> calm_except E (S - set (e # es)) (as_rib st')"
    by metis
  with st1 st' extends_trans [OF st1(3) st'(3)] show ?case by simp
qed

subsection \<open>The recursion\<close>

lemma acceptable_at_ni:
  assumes "env_laws E" and "rib_inv r" and "acceptable r ni op"
  obtains rh where "gm_get (niRIB r) ni = Some rh" "at_ni E r ni rh" "IsValid rh"
proof -
  obtain rh where get: "gm_get (niRIB r) ni = Some rh"
    using assms(3) by (auto simp: acceptable_def known_ni_def)
  then have "at_ni E r ni rh" using assms by (simp add: at_ni_def rib_inv_def acceptable_def)
  then show thesis using that [OF get] at_ni_valid by blast
qed

lemma getPending_ids:
  assumes "pend_wf r" and "pe \<in> set (getPending r)"
  shows "op_Id (pe_op pe) \<in> pend_ids r" and "acceptable r (pe_ni pe) (pe_op pe)"
proof -
  obtain p where p: "p \<in> set (pendingEntries r)" "pe = snd p"
    using assms(2) by (auto simp: getPending_def)
  with assms(1) have "op_Id (pe_op pe) = fst p" "acceptable r (pe_ni pe) (pe_op pe)"
    by (auto simp: pend_wf_def)
  with p(1) show "op_Id (pe_op pe) \<in> pend_ids r" "acceptable r (pe_ni pe) (pe_op pe)"
    by (simp_all add: pend_ids_def)
qed

lemma pend_ids_gm:
  assumes "pendingEntries r' = gm_del i (pendingEntries r)"
  shows "pend_ids r' = pend_ids r - {i}"
  using assms by (auto simp: pend_ids_def gm_set_del)

lemma pend_ids_put:
  assumes "gm_wf (pendingEntries r)" "pendingEntries r' = gm_put i e (pendingEntries r)"
  shows "pend_ids r' = insert i (pend_ids r)"
  using assms by (auto simp: pend_ids_def gm_set_put image_iff)

text \<open>The state after an installation, and after its hook was called.\<close>

lemma install_state:
  assumes env: "env_laws E" and inv: "add_inv U N st" and acc: "acceptable (as_rib st) ni op"
    and id: "op_Id op \<in> U" "op_Id op \<notin> set (as_stack st)" and fin: "finite U" "N + card U < 2 ^ 64"
    and get: "gm_get (niRIB (as_rib st)) ni = Some rh" and at: "at_ni E (as_rib st) ni rh"
    and inst: "installEntry E ni op rh (as_rib st) = (Installed c, r)"
    and r2: "niRIB r2 = niRIB r" "pendingEntries r2 = gm_del (op_Id op) (pendingEntries r)" "ribCheck r2 = ribCheck r"
    and st1: "st1 = st\<lparr>as_rib := r2, as_oks := as_oks st @ [okResult op], as_stack := op_Id op # as_stack st\<rparr>"
  shows "add_inv U N st1" and "extends st st1"
proof -
  let ?r = "as_rib st"
  note fr = installEntry_frame [OF get, of E op rh, unfolded inst snd_conv]
  have len: "Suc (length (as_stack st)) \<le> card U"
  proof -
    have "card (set (op_Id op # as_stack st)) \<le> card U"
      using id inv fin(1) by (intro card_mono) (auto simp: add_inv_def)
    then show ?thesis using id(2) inv by (simp add: add_inv_def distinct_card)
  qed
  then have small: "Suc (n_rib ?r) < 2 ^ 64" using inv fin(2) by (simp add: add_inv_def)
  have I: "rib_inv r \<and> (no_dangling ?r \<longrightarrow> no_dangling r) \<and> n_rib r \<le> Suc (n_rib ?r)"
    using installEntry_inv [OF at _ _ small, of op] acc inv inst by (simp add: acceptable_def add_inv_def)
  have known: "known_ni r2 n = known_ni ?r n" for n using fr r2(1) by (simp add: known_ni_def)
  have ids: "pend_ids r2 = pend_ids ?r - {op_Id op}"
    using fr r2(2) by (intro pend_ids_gm) simp
  have "pend_wf r2"
    using inv fr r2(2) by (auto simp: add_inv_def pend_wf_def gm_set_del acceptable_def known)
  with I inv id ids show "add_inv U N st1"
    by (auto simp: add_inv_def st1 nis_cong [OF r2(1)] okResult_def)
  show "extends st st1"
    using I ids fr r2(3) by (auto simp: extends_def st1 known nis_cong [OF r2(1)])
qed

text \<open>The state after an operation that was refused: its queue may gain the operation.\<close>

lemma refused_state:
  assumes inv: "add_inv U N st" and acc: "acceptable (as_rib st) ni op"
    and id: "op_Id op \<in> U" "op_Id op \<notin> set (as_stack st)"
    and r2: "niRIB r2 = niRIB (as_rib st)" "defaultName r2 = defaultName (as_rib st)" "ribCheck r2 = ribCheck (as_rib st)"
    and pend: "pendingEntries r2 = pendingEntries (as_rib st) \<or>
      pendingEntries r2 = gm_put (op_Id op) \<lparr>pe_ni = ni, pe_op = op\<rparr> (pendingEntries (as_rib st))"
    and no: "\<not> installable E (as_rib st) \<lparr>pe_ni = ni, pe_op = op\<rparr>"
    and st1: "as_rib st1 = r2" "as_stack st1 = as_stack st" "as_oks st1 = as_oks st"
      "\<exists>ys. as_fails st1 = as_fails st @ ys"
  shows "add_inv U N st1" and "extends st st1"
    and "calm_except E S (as_rib st) \<Longrightarrow> calm_except E (S - {\<lparr>pe_ni = ni, pe_op = op\<rparr>}) (as_rib st1)"
proof -
  let ?r = "as_rib st" and ?pe = "\<lparr>pe_ni = ni, pe_op = op\<rparr>"
  have pw: "pend_wf ?r" using inv by (simp add: add_inv_def)
  have known: "known_ni r2 n = known_ni ?r n" for n using r2(1) by (simp add: known_ni_def)
  have set: "set (pendingEntries r2) \<subseteq> insert (op_Id op, ?pe) (set (pendingEntries ?r))"
    using pend pw by (auto simp: pend_wf_def gm_set_put)
  have ids: "pend_ids ?r \<subseteq> pend_ids r2" "pend_ids r2 \<subseteq> insert (op_Id op) (pend_ids ?r)"
  proof -
    have "pend_ids r2 = pend_ids ?r \<or> pend_ids r2 = insert (op_Id op) (pend_ids ?r)"
      using pend pw pend_ids_put [of ?r r2] by (metis pend_ids_def pend_wf_def)
    then show "pend_ids ?r \<subseteq> pend_ids r2" "pend_ids r2 \<subseteq> insert (op_Id op) (pend_ids ?r)" by auto
  qed
  have "gm_wf (pendingEntries r2)" using pend pw by (auto simp: pend_wf_def)
  moreover have "\<forall>p\<in>set (pendingEntries r2). op_Id (pe_op (snd p)) = fst p \<and> acceptable r2 (pe_ni (snd p)) (pe_op (snd p))"
    using set pw acc by (fastforce simp: pend_wf_def acceptable_def known)
  ultimately have "pend_wf r2" by (simp add: pend_wf_def)
  with inv id ids show "add_inv U N st1"
    by (auto simp: add_inv_def st1 nis_cong [OF r2(1)])
  show "extends st st1"
    using ids(1) st1 r2(3) by (auto simp: extends_def known nis_cong [OF r2(1)])
  have same: "installable E r2 pe = installable E ?r pe" for pe
    by (simp only: installable_def NetworkInstanceRIB_def r2(1) fst_installEntry_cong [OF r2(1,2)])
  show "calm_except E (S - {?pe}) (as_rib st1)" if "calm_except E S ?r"
    using that set no by (fastforce simp: calm_except_def getPending_def same st1(1))
qed

definition fair :: "schedule \<Rightarrow> bool" where
  "fair sched \<longleftrightarrow> (\<forall>s es. set (sched s es) = set es)"

lemma refused_not_installable:
  assumes "gm_get (niRIB r) ni = Some rh" and "refused (installEntry E ni op rh r) r"
  shows "\<not> installable E r \<lparr>pe_ni = ni, pe_op = op\<rparr>"
  using assms by (auto simp: installable_def NetworkInstanceRIB_def refused_def split: install_result.splits)

text \<open>The two ways in which a call goes on from an operation that is not on the stack.\<close>

lemma addEntryInternal_installed:
  assumes env: "env_laws E" and get: "gm_get (niRIB (as_rib st)) ni = Some rh" and v: "IsValid rh"
    and new: "op_Id op \<notin> set (as_stack st)" and inst: "installEntry E ni op rh (as_rib st) = (Installed k, r)"
  obtains r2 where "niRIB r2 = niRIB r" "pendingEntries r2 = gm_del (op_Id op) (pendingEntries r)" "ribCheck r2 = ribCheck r"
    "disableForwardReferences r2 = disableForwardReferences r"
    "addEntryInternal E sched (Suc n) ni op st = pending_loop (addEntryInternal E sched n)
      (sched (op_Id op # as_stack st) (getPending r2))
      (st\<lparr>as_rib := r2, as_oks := as_oks st @ [okResult op], as_stack := op_Id op # as_stack st\<rparr>)"
proof -
  define r1 where "r1 = rmPending (op_Id op) r"
  define cb where "cb = (case k of None \<Rightarrow> (None, r1)
    | Some (a, key) \<Rightarrow> callResolvedEntryHook E Add ni a key r1)"
  have cb: "fst cb = None" "niRIB (snd cb) = niRIB r" "pendingEntries (snd cb) = gm_del (op_Id op) (pendingEntries r)"
    "ribCheck (snd cb) = ribCheck r" "disableForwardReferences (snd cb) = disableForwardReferences r"
    using callResolvedEntryHook_ok [OF env] by (auto simp: cb_def r1_def rmPending_def split: option.splits)
  then obtain r2 where r2: "cb = (None, r2)" by (cases cb) simp
  have "addEntryInternal E sched (Suc n) ni op st = pending_loop (addEntryInternal E sched n)
      (sched (op_Id op # as_stack st) (getPending r2))
      (st\<lparr>as_rib := r2, as_oks := as_oks st @ [okResult op], as_stack := op_Id op # as_stack st\<rparr>)"
    using new get v inst r2 unfolding cb_def r1_def
    by (cases k; cases st) (auto simp: NetworkInstanceRIB_def Let_def)
  with cb(2-5) r2 show thesis by (intro that) simp_all
qed

definition refuse :: "string \<Rightarrow> AFTOperation \<Rightarrow> install_result \<Rightarrow> RIB \<Rightarrow> add_state \<Rightarrow> add_state" where
  "refuse ni op c r st = (case c of OpFailed e \<Rightarrow>
       st\<lparr>as_rib := r, as_fails := as_fails st @ [failResult op e]\<rparr>
    | _ \<Rightarrow> if \<not> disableForwardReferences r then st\<lparr>as_rib := addPending (op_Id op) \<lparr>pe_ni = ni, pe_op = op\<rparr> r\<rparr>
       else st\<lparr>as_rib := r, as_fails := as_fails st @ [failResult op (UnresolvedDependencies (op_Id op))]\<rparr>)"

lemma addEntryInternal_refused:
  assumes get: "gm_get (niRIB (as_rib st)) ni = Some rh" and v: "IsValid rh"
    and new: "op_Id op \<notin> set (as_stack st)" and inst: "installEntry E ni op rh (as_rib st) = (c, r)"
    and ref: "refused (c, r) (as_rib st)"
  shows "r = as_rib st" and "(\<exists>e. c = OpFailed e) \<or> c = Unresolved"
    and "addEntryInternal E sched (Suc n) ni op st = Some (None, refuse ni op c r st)"
proof -
  show "r = as_rib st" and c: "(\<exists>e. c = OpFailed e) \<or> c = Unresolved"
    using ref by (cases c; simp add: refused_def)+
  show "addEntryInternal E sched (Suc n) ni op st = Some (None, refuse ni op c r st)"
    using new get v inst c by (auto simp: NetworkInstanceRIB_def refuse_def)
qed

lemma addEntryInternal_ok:
  assumes env: "env_laws E" and fair: "fair sched" and fin: "finite U" "N + card U < 2 ^ 64"
  shows "call_ok E U N n (addEntryInternal E sched n)"
proof (induction n)
  case 0
  have "length (as_stack st) \<le> card U" if "add_inv U N st" for st
    using that card_mono [OF fin(1), of "set (as_stack st)"] by (simp add: add_inv_def distinct_card)
  then show ?case unfolding call_ok_def by (metis add_0 leD)
next
  case (Suc n)
  show ?case unfolding call_ok_def
  proof (intro allI impI)
    fix ni op st
    assume inv: "add_inv U N st" and acc: "acceptable (as_rib st) ni op" and id: "op_Id op \<in> U"
      and fuel: "card U < Suc n + length (as_stack st)"
    let ?r = "as_rib st" and ?pe = "\<lparr>pe_ni = ni, pe_op = op\<rparr>"
    let ?goal = "\<exists>st'. addEntryInternal E sched (Suc n) ni op st = Some (None, st') \<and> add_inv U N st' \<and>
      extends st st' \<and> settled op st' \<and>
      (installable E ?r ?pe \<longrightarrow> op_Id op \<in> set (as_stack st')) \<and>
      (\<forall>S. calm_except E S ?r \<longrightarrow> calm_except E (S - {?pe}) (as_rib st'))"
    have rinv: "rib_inv ?r" using inv by (simp add: add_inv_def)
    show ?goal
    proof (cases "op_Id op \<in> set (as_stack st)")
      case True
      then have "op_Id op \<notin> pend_ids ?r" using inv by (auto simp: add_inv_def)
      then have "?pe \<notin> set (getPending ?r)"
        using inv getPending_ids(1) [of ?r ?pe] by (auto simp: add_inv_def)
      then have "calm_except E S ?r \<longrightarrow> calm_except E (S - {?pe}) ?r" for S
        by (auto simp: calm_except_def)
      with True inv show ?thesis by (simp add: settled_def)
    next
      case False
      obtain rh where get: "gm_get (niRIB ?r) ni = Some rh" and at: "at_ni E ?r ni rh" and v: "IsValid rh"
        by (rule acceptable_at_ni [OF env rinv acc])
      obtain c r where ir: "installEntry E ni op rh ?r = (c, r)" by (rule prod.exhaust)
      consider (installed) k where "c = Installed k" | (refused) "refused (c, r) ?r"
        using installed_or_refused [OF at, of op] acc ir by (auto simp: acceptable_def)
      then show ?thesis
      proof cases
        case installed
        obtain r2 where r2: "niRIB r2 = niRIB r" "pendingEntries r2 = gm_del (op_Id op) (pendingEntries r)" "ribCheck r2 = ribCheck r"
          "disableForwardReferences r2 = disableForwardReferences r"
          "addEntryInternal E sched (Suc n) ni op st = pending_loop (addEntryInternal E sched n)
            (sched (op_Id op # as_stack st) (getPending r2))
            (st\<lparr>as_rib := r2, as_oks := as_oks st @ [okResult op], as_stack := op_Id op # as_stack st\<rparr>)"
          by (rule addEntryInternal_installed [OF env get v False ir [unfolded installed]])
        define st1 where "st1 = st\<lparr>as_rib := r2, as_oks := as_oks st @ [okResult op],
          as_stack := op_Id op # as_stack st\<rparr>"
        note s1 = install_state [OF env inv acc id False fin get at ir [unfolded installed] r2(1-3) st1_def]
        let ?es = "sched (as_stack st1) (getPending r2)"
        have es: "set ?es = set (getPending (as_rib st1))"
          using fair by (simp add: fair_def st1_def)
        have "\<forall>pe\<in>set ?es. acceptable (as_rib st1) (pe_ni pe) (pe_op pe) \<and> op_Id (pe_op pe) \<in> U"
          using s1(1) getPending_ids [of "as_rib st1"] unfolding es add_inv_def by blast
        moreover have "card U < n + length (as_stack st1)" using fuel by (simp add: st1_def)
        ultimately obtain st' where st': "pending_loop (addEntryInternal E sched n) ?es st1 = Some (None, st')"
            "add_inv U N st'" "extends st1 st'"
          and calm: "\<And>S. calm_except E S (as_rib st1) \<Longrightarrow> calm_except E (S - set ?es) (as_rib st')"
          using pending_loop_ok [OF Suc.IH s1(1)] by blast
        have "calm_except E (set ?es) (as_rib st1)" by (simp add: calm_except_def es)
        from calm [OF this] have "calm_except E S (as_rib st')" for S
          by (auto simp: calm_except_def)
        moreover have "op_Id op \<in> set (as_stack st')" using st'(3) by (auto simp: extends_def st1_def)
        moreover from this have "settled op st'" by (simp add: settled_def)
        moreover have "addEntryInternal E sched (Suc n) ni op st = Some (None, st')"
          using st'(1) r2(5) by (simp add: st1_def)
        ultimately show ?thesis using st'(2) extends_trans [OF s1(2) st'(3)] by blast
      next
        case refused
        define st1 where "st1 = refuse ni op c r st"
        note R = addEntryInternal_refused [OF get v False ir refused]
        have r: "r = ?r" and c: "(\<exists>e. c = OpFailed e) \<or> c = Unresolved"
          and eq: "addEntryInternal E sched (Suc n) ni op st = Some (None, st1)"
          using R(1,2) R(3) [of sched n] by (simp_all add: st1_def)
        have no: "\<not> installable E ?r ?pe"
          using refused ir by (intro refused_not_installable [OF get]) simp
        have f: "niRIB (as_rib st1) = niRIB ?r" "defaultName (as_rib st1) = defaultName ?r"
          "ribCheck (as_rib st1) = ribCheck ?r"
          "pendingEntries (as_rib st1) = pendingEntries ?r \<or>
            pendingEntries (as_rib st1) = gm_put (op_Id op) ?pe (pendingEntries ?r)"
          "as_stack st1 = as_stack st" "as_oks st1 = as_oks st" "\<exists>ys. as_fails st1 = as_fails st @ ys"
          using c by (auto simp: st1_def refuse_def r addPending_def)
        note s1 = refused_state [OF inv acc id False f(1-4) no refl f(5-7)]
        have "settled op st1"
          using c inv pend_ids_put [of ?r "as_rib st1" "op_Id op" ?pe]
          by (auto simp: settled_def st1_def refuse_def r failResult_def addPending_def add_inv_def pend_wf_def)
        with eq s1 no show ?thesis by blast
      qed
    qed
  qed
qed

end
