(* ===== verification/RibReach.thy ===== *)
theory RibReach
  imports RibAdd
begin

text \<open>
  The RIB over whole runs: \<open>AddEntry\<close> from a state that satisfies the invariant, deletions
  that never make an operation installable, and the states reachable by any sequence of
  operations.
\<close>

subsection \<open>AddEntry\<close>

definition room :: "RIB \<Rightarrow> bool" where
  "room r \<longleftrightarrow> n_rib r + length (pendingEntries r) + 1 < 2 ^ 64"

lemma AddEntry_start:
  assumes inv: "rib_inv r" "pend_wf r" and room: "room r" and acc: "acceptable r ni op"
    and U: "U = insert (op_Id op) (pend_ids r)" and st: "st = \<lparr>as_rib = r, as_oks = [], as_fails = [], as_stack = []\<rparr>"
  shows "finite U" "n_rib r + card U < 2 ^ 64" "add_inv U (n_rib r) st" "acceptable (as_rib st) ni op" "op_Id op \<in> U"
    "card U < length (pendingEntries r) + 2 + length (as_stack st)"
    "AddEntry E sched ni op r = (case addEntryInternal E sched (length (pendingEntries r) + 2) ni op st of
      None \<Rightarrow> None | Some (Some err, st') \<Rightarrow> Some (Inl err, as_rib st')
      | Some (None, st') \<Rightarrow> Some (Inr (as_oks st', as_fails st'), as_rib st'))"
proof -
  have cu: "card U \<le> Suc (length (pendingEntries r))"
    using card_length [of "op_Id op # map fst (pendingEntries r)"] by (simp add: U pend_ids_def)
  show "finite U" by (simp add: U pend_ids_def)
  show "n_rib r + card U < 2 ^ 64" using room cu by (simp add: room_def)
  show "add_inv U (n_rib r) st"
    using inv by (auto simp: add_inv_def st U)
  show "acceptable (as_rib st) ni op" "op_Id op \<in> U"
    using acc by (simp_all add: st U)
  show "card U < length (pendingEntries r) + 2 + length (as_stack st)" using cu by (simp add: st)
  show "AddEntry E sched ni op r = (case addEntryInternal E sched (length (pendingEntries r) + 2) ni op st of
      None \<Rightarrow> None | Some (Some err, st') \<Rightarrow> Some (Inl err, as_rib st')
      | Some (None, st') \<Rightarrow> Some (Inr (as_oks st', as_fails st'), as_rib st'))"
    using acc by (simp add: AddEntry_def st acceptable_def split: option.split prod.split)
qed

lemma AddEntry_result:
  assumes env: "env_laws E" and fair: "fair sched" and inv: "rib_inv r" "pend_wf r" and room: "room r"
    and acc: "acceptable r ni op"
  obtains oks fails r' where "AddEntry E sched ni op r = Some (Inr (oks, fails), r')"
    "rib_inv r'" "pend_wf r'" "no_dangling r \<longrightarrow> no_dangling r'" "quiescent E r \<longrightarrow> quiescent E r'"
    "distinct (map or_ID oks)" "set (map or_ID oks) \<inter> pend_ids r' = {}"
    "set (map or_ID oks) \<subseteq> insert (op_Id op) (pend_ids r)"
    "pend_ids r \<subseteq> set (map or_ID oks) \<union> pend_ids r'"
    "op_Id op \<in> set (map or_ID oks) \<or> op_Id op \<in> pend_ids r' \<or> op_Id op \<in> set (map or_ID fails)"
    "\<forall>n. known_ni r' n = known_ni r n" "ribCheck r' = ribCheck r"
    "installable E r \<lparr>pe_ni = ni, pe_op = op\<rparr> \<longrightarrow> op_Id op \<in> set (map or_ID oks)"
    "pend_ids r' \<subseteq> insert (op_Id op) (pend_ids r)"
proof -
  define U where "U = insert (op_Id op) (pend_ids r)"
  define st where "st = \<lparr>as_rib = r, as_oks = [], as_fails = [], as_stack = []\<rparr>"
  note s = AddEntry_start [OF inv room acc U_def st_def]
  obtain st' where st': "addEntryInternal E sched (length (pendingEntries r) + 2) ni op st = Some (None, st')"
      "add_inv U (n_rib r) st'" "extends st st'" "settled op st'"
      "installable E r \<lparr>pe_ni = ni, pe_op = op\<rparr> \<longrightarrow> op_Id op \<in> set (as_stack st')"
    and calm: "\<And>S. calm_except E S (as_rib st) \<Longrightarrow> calm_except E (S - {\<lparr>pe_ni = ni, pe_op = op\<rparr>}) (as_rib st')"
    using call_okD [OF addEntryInternal_ok [OF env fair s(1,2)] s(3-6)] by (auto simp: st_def)
  have ids: "set (map or_ID (as_oks st')) = set (as_stack st')" "distinct (map or_ID (as_oks st'))"
    using st'(2) by (simp_all add: add_inv_def)
  have "AddEntry E sched ni op r = Some (Inr (as_oks st', as_fails st'), as_rib st')"
    using st'(1) s(7) by simp
  then show thesis
  proof (rule that)
    show "quiescent E r \<longrightarrow> quiescent E (as_rib st')"
      using calm [of "{}"] by (simp add: quiescent_def calm_except_def st_def)
  qed (use st' ids in \<open>auto simp: add_inv_def extends_def settled_def st_def U_def\<close>)
qed

lemma AddEntry_refused:
  assumes wf: "rib_wf r" and no: "ni = [] \<or> \<not> known_ni r ni \<or> \<not> supported op"
  shows "AddEntry E sched ni op r =
    Some (Inl (if ni = [] \<or> \<not> known_ni r ni then InvalidNetworkInstance ni else UnsupportedAFTOperation), r)"
proof (cases "ni = [] \<or> \<not> known_ni r ni")
  case True
  then show ?thesis
    by (auto simp: AddEntry_def known_ni_def NetworkInstanceRIB_def numeral_2_eq_2)
next
  case False
  then obtain rh where get: "gm_get (niRIB r) ni = Some rh" by (auto simp: known_ni_def)
  have "IsValid rh"
    using rib_wf_holder [OF wf get] False by (simp add: IsValid_def holder_wf_def)
  moreover have "installEntry E ni op rh r = (Fatal UnsupportedAFTOperation, r)"
    using no False by (auto simp: supported_def installEntry_def)
  ultimately show ?thesis
    using False get by (simp add: AddEntry_def NetworkInstanceRIB_def numeral_2_eq_2)
qed

subsection \<open>Operations that only remove entries\<close>

definition sub_tables :: "Afts \<Rightarrow> Afts \<Rightarrow> bool" where
  "sub_tables a b \<longleftrightarrow> dom (gm_get (Ipv4Entry a)) \<subseteq> dom (gm_get (Ipv4Entry b)) \<and>
     dom (gm_get (Ipv6Entry a)) \<subseteq> dom (gm_get (Ipv6Entry b)) \<and>
     dom (gm_get (LabelEntry a)) \<subseteq> dom (gm_get (LabelEntry b)) \<and>
     dom (gm_get (aft_NextHopGroup a)) \<subseteq> dom (gm_get (aft_NextHopGroup b)) \<and>
     dom (gm_get (aft_NextHop a)) \<subseteq> dom (gm_get (aft_NextHop b))"

lemma sub_tables_refl [simp]: "sub_tables a a"
  by (simp add: sub_tables_def)

lemma sub_tables_trans: "sub_tables a b \<Longrightarrow> sub_tables b c \<Longrightarrow> sub_tables a c"
  unfolding sub_tables_def by (elim conjE) (intro conjI; erule (1) subset_trans)

lemma sub_tables_del [simp]:
  "sub_tables (a\<lparr>Ipv4Entry := gm_del p (Ipv4Entry a)\<rparr>) a"
  "sub_tables (a\<lparr>Ipv6Entry := gm_del p (Ipv6Entry a)\<rparr>) a"
  "sub_tables (a\<lparr>LabelEntry := gm_del l (LabelEntry a)\<rparr>) a"
  "sub_tables (a\<lparr>aft_NextHopGroup := gm_del i (aft_NextHopGroup a)\<rparr>) a"
  "sub_tables (a\<lparr>aft_NextHop := gm_del i (aft_NextHop a)\<rparr>) a"
  by (auto simp: sub_tables_def gomap split: if_splits)

definition shrinks :: "RIB \<Rightarrow> RIB \<Rightarrow> bool" where
  "shrinks r' r \<longleftrightarrow> pendingEntries r' = pendingEntries r \<and> ribCheck r' = ribCheck r \<and> (\<forall>ni. known_ni r' ni = known_ni r ni) \<and>
     (\<forall>ni h' h. gm_get (niRIB r') ni = Some h' \<longrightarrow> gm_get (niRIB r) ni = Some h \<longrightarrow>
        sub_tables (afts h') (afts h))"

lemma shrinks_refl [simp]: "shrinks r r"
  by (simp add: shrinks_def)

lemma shrinks_trans:
  assumes "shrinks a b" "shrinks b c"
  shows "shrinks a c"
proof -
  have "sub_tables (afts h') (afts h)" if "gm_get (niRIB a) ni = Some h'" "gm_get (niRIB c) ni = Some h" for ni h' h
  proof -
    have "known_ni a ni" using that(1) by (simp add: known_ni_def)
    then have "known_ni b ni" using assms(1) by (simp add: shrinks_def)
    then obtain m where m: "gm_get (niRIB b) ni = Some m" by (auto simp: known_ni_def)
    have "sub_tables (afts h') (afts m)" "sub_tables (afts m) (afts h)"
      using assms m that unfolding shrinks_def by blast+
    then show ?thesis by (rule sub_tables_trans)
  qed
  with assms show ?thesis by (simp add: shrinks_def)
qed

lemma shrinks_store:
  assumes "gm_get (niRIB r) ni = Some rh" and "sub_tables (afts h) (afts rh)"
  shows "shrinks (r\<lparr>niRIB := gm_put ni h (niRIB r)\<rparr>) r"
  using assms by (auto simp: shrinks_def gomap known_ni_def)

lemma shrinks_on_ni: "(\<And>h. afts (f h) = afts h) \<Longrightarrow> shrinks (on_ni ni f r) r"
  by (auto simp: on_ni_def split: option.splits intro: shrinks_store)

lemma shrinks_fold: "(\<And>x s. shrinks (f x s) s) \<Longrightarrow> shrinks (fold f xs r) r"
  by (induction xs arbitrary: r) (auto intro: shrinks_trans)

lemma shrinks_hook: "shrinks (snd (callResolvedEntryHook E t ni a k r)) r"
  by (auto simp: callResolvedEntryHook_def shrinks_def known_ni_def split: sum.splits)

lemma delete_sub_tables:
  "sub_tables (afts (snd (DeleteIPv4 chk e4 rh))) (afts rh)"
  "sub_tables (afts (snd (DeleteIPv6 chk e6 rh))) (afts rh)"
  "sub_tables (afts (snd (DeleteMPLS chk el rh))) (afts rh)"
  "sub_tables (afts (snd (DeleteNextHopGroup chk eg rh))) (afts rh)"
  "sub_tables (afts (snd (DeleteNextHop chk en rh))) (afts rh)"
  by (auto simp: delete_defs Let_def split: option.splits sum.splits bool.splits LabelEntryKey_Label.splits)

lemma finishDelete_shrinks:
  assumes "shrinks r s"
  shows "shrinks (snd (finishDelete E ni op ref a key r)) s"
proof (cases "refdRIB r ni (fst ref)")
  case (Inl e)
  with assms show ?thesis by (simp add: finishDelete_def)
next
  case (Inr rr)
  let ?d = "on_ni rr (decNHGRefCount (snd ref)) r"
  have "snd (finishDelete E ni op ref a key r) = snd (callResolvedEntryHook E Delete ni a key ?d)"
    by (simp add: finishDelete_def Inr split: prod.splits option.splits)
  moreover have "shrinks ?d s" by (rule shrinks_trans [OF shrinks_on_ni assms]) simp
  ultimately show ?thesis using shrinks_trans [OF shrinks_hook] by simp
qed

lemma delete_case_shrinks:
  assumes "gm_get (niRIB r) ni = Some rh" and "sub_tables (afts (snd res)) (afts rh)"
    and "\<And>s o'. shrinks s r \<Longrightarrow> shrinks (snd (f o' s)) r"
  shows "shrinks (snd (case res of (Inr (True, Some o'), h) \<Rightarrow> f o' (r\<lparr>niRIB := gm_put ni h (niRIB r)\<rparr>)
    | (res', h) \<Rightarrow> (g res', r\<lparr>niRIB := gm_put ni h (niRIB r)\<rparr>))) r"
  using shrinks_store [OF assms(1,2)] assms(3)
  by (cases res) (auto split: sum.splits bool.splits option.splits)

lemma DeleteEntry_shrinks: "shrinks (snd (DeleteEntry E ni opo r)) r"
proof (cases "\<exists>rh op t. gm_get (niRIB r) ni = Some rh \<and> IsValid rh \<and> opo = Some op \<and> op_Entry op = Some t")
  case True
  then obtain rh op t where h: "gm_get (niRIB r) ni = Some rh" "IsValid rh" "opo = Some op" "op_Entry op = Some t"
    by blast
  note C = delete_case_shrinks [OF h(1) delete_sub_tables(1)] delete_case_shrinks [OF h(1) delete_sub_tables(2)]
    delete_case_shrinks [OF h(1) delete_sub_tables(3)] delete_case_shrinks [OF h(1) delete_sub_tables(4)]
  have grp: "shrinks (snd (x, fold (\<lambda>(i, _). on_ni ni (decNHRefCount i)) l s)) r" if "shrinks s r"
    for x :: delete_result and l :: "(u64 \<times> Afts_NextHopGroup_NextHop) list" and s
    unfolding snd_conv case_prod_unfold
    by (rule shrinks_trans [OF shrinks_fold that], rule shrinks_on_ni) simp
  show ?thesis
  proof (cases t)
    case (AFTOp_NextHop eo)
    then show ?thesis
      using h shrinks_store [OF h(1) delete_sub_tables(5), of "holder_check r rh" eo]
      by (auto simp: DeleteEntry_def NetworkInstanceRIB_def Let_def split: prod.splits)
  next
    case (AFTOp_NextHopGroup eo)
    with h show ?thesis
      unfolding DeleteEntry_def by (simp add: NetworkInstanceRIB_def Let_def) (rule C(4), rule grp)
  qed (use h C(1-3) [OF finishDelete_shrinks] in \<open>simp_all add: DeleteEntry_def NetworkInstanceRIB_def Let_def\<close>)
next
  case False
  have "snd (DeleteEntry E ni opo r) = r"
    using False by (cases opo) (auto simp: DeleteEntry_def NetworkInstanceRIB_def Let_def split: option.splits)
  then show ?thesis by simp
qed

subsection \<open>Removing entries makes nothing installable\<close>

lemma shrinks_has:
  assumes "shrinks r' r"
  shows "has_nhg r' x \<Longrightarrow> has_nhg r x" and "has_nh r' x \<Longrightarrow> has_nh r x"
proof -
  have *: "\<exists>h. gm_get (niRIB r) n = Some h \<and> sub_tables (afts h') (afts h)" if "gm_get (niRIB r') n = Some h'" for n h'
  proof -
    have "known_ni r n" using that assms by (auto simp: shrinks_def known_ni_def)
    then show ?thesis using that assms by (auto simp: shrinks_def known_ni_def)
  qed
  show "has_nhg r x" if a: "has_nhg r' x"
  proof -
    obtain h' where h': "gm_get (niRIB r') (fst x) = Some h'" "gm_get (aft_NextHopGroup (afts h')) (snd x) \<noteq> None"
      using a by (auto simp: has_nhg_def NetworkInstanceRIB_def nhgExists_def split: option.splits)
    from * [OF h'(1)] h'(2) show ?thesis
      by (auto simp: has_nhg_def NetworkInstanceRIB_def nhgExists_def sub_tables_def)
  qed
  show "has_nh r x" if a: "has_nh r' x"
  proof -
    obtain h' where h': "gm_get (niRIB r') (fst x) = Some h'" "gm_get (aft_NextHop (afts h')) (snd x) \<noteq> None"
      using a by (auto simp: has_nh_def NetworkInstanceRIB_def nhExists_def split: option.splits)
    from * [OF h'(1)] h'(2) show ?thesis
      by (auto simp: has_nh_def NetworkInstanceRIB_def nhExists_def sub_tables_def)
  qed
qed

text \<open>When each kind of operation is ready, in terms of what exists.\<close>

lemma ref_ready_iff:
  assumes "at_ni E r ni rh"
  shows "ref_ipv4.ready_at E r rh op e4 v4 \<longleftrightarrow>
      candidate E (empty_Afts_pb\<lparr>pb_Ipv4Entry := [e4]\<rparr>) = Inr (Some (single_v4 (v4k_Prefix e4) v4)) \<and> v4_of e4 v4 \<and>
      (op_Op op = Op_REPLACE \<longrightarrow> gm_get (Ipv4Entry (afts rh)) (v4k_Prefix e4) \<noteq> None) \<and>
      snd (v4_ref v4) \<noteq> 0 \<and> has_nhg r (resolve_ref ni (v4_ref v4))"
    and "ref_ipv6.ready_at E r rh op e6 v6 \<longleftrightarrow>
      candidate E (empty_Afts_pb\<lparr>pb_Ipv6Entry := [e6]\<rparr>) = Inr (Some (single_v6 (v6k_Prefix e6) v6)) \<and> v6_of e6 v6 \<and>
      (op_Op op = Op_REPLACE \<longrightarrow> gm_get (Ipv6Entry (afts rh)) (v6k_Prefix e6) \<noteq> None) \<and>
      snd (v6_ref v6) \<noteq> 0 \<and> has_nhg r (resolve_ref ni (v6_ref v6))"
    and "ref_mpls.ready_at E r rh op el l \<longleftrightarrow>
      candidate E (empty_Afts_pb\<lparr>pb_LabelEntry := [el]\<rparr>) = Inr (Some (single_le (label_of el) l)) \<and> le_of el l \<and>
      (op_Op op = Op_REPLACE \<longrightarrow> gm_get (LabelEntry (afts rh)) (label_of el) \<noteq> None) \<and>
      snd (le_ref l) \<noteq> 0 \<and> has_nhg r (resolve_ref ni (le_ref l))"
    and "nhg_ready E r rh op eg g \<longleftrightarrow>
      candidate E (empty_Afts_pb\<lparr>pb_NextHopGroup := [eg]\<rparr>) = Inr (Some (single_nhg (nhgk_Id eg) g)) \<and> nhg_of eg g \<and>
      (op_Op op = Op_REPLACE \<longrightarrow> gm_get (aft_NextHopGroup (afts rh)) (nhgk_Id eg) \<noteq> None) \<and>
      nhgk_Id eg \<noteq> 0 \<and> nhg_NextHop g \<noteq> [] \<and> (\<forall>p\<in>set (nhg_NextHop g). fst p \<noteq> 0 \<and> has_nh r (ni, fst p))"
    and "nh_ready E r rh op en n \<longleftrightarrow>
      candidate E (empty_Afts_pb\<lparr>pb_NextHop := [en]\<rparr>) = Inr (Some (single_nh (nhk_Index en) n)) \<and> nh_of en n \<and>
      (op_Op op = Op_REPLACE \<longrightarrow> gm_get (aft_NextHop (afts rh)) (nhk_Index en) \<noteq> None) \<and> nhk_Index en \<noteq> 0"
proof -
  show "nhg_ready E r rh op eg g \<longleftrightarrow>
      candidate E (empty_Afts_pb\<lparr>pb_NextHopGroup := [eg]\<rparr>) = Inr (Some (single_nhg (nhgk_Id eg) g)) \<and> nhg_of eg g \<and>
      (op_Op op = Op_REPLACE \<longrightarrow> gm_get (aft_NextHopGroup (afts rh)) (nhgk_Id eg) \<noteq> None) \<and>
      nhgk_Id eg \<noteq> 0 \<and> nhg_NextHop g \<noteq> [] \<and> (\<forall>p\<in>set (nhg_NextHop g). fst p \<noteq> 0 \<and> has_nh r (ni, fst p))"
  proof (cases "nhg_of eg g")
    case True
    then have "nhg_Id g = Some (nhgk_Id eg)" "\<forall>p\<in>set (nhg_NextHop g). nhgnh_Index (snd p) = Some (fst p)"
      by (simp_all add: nhg_of_def group_wf_def)
    with True show ?thesis
      using at_niD [OF assms] nhs_resolvable_iff [OF at_niD(3) [OF assms], of "nhg_NextHop g" "nhgk_Id eg"]
      by (simp add: nhg.ready_def run_check_Add canResolve_nhg)
  qed (simp add: nhg.ready_def)
qed (use at_niD [OF assms] nhgResolvable_iff [of r ni rh] in \<open>auto simp: ipv4.ready_def ipv6.ready_def mpls.ready_def nhg.ready_def nh.ready_def run_check_Add
      canResolve_top canResolve_nhg nh_of_def\<close>)

lemma installable_iff:
  assumes at: "at_ni E r ni rh" and op: "op_wf op"
  shows "installable E r \<lparr>pe_ni = ni, pe_op = op\<rparr> \<longleftrightarrow>
    (\<exists>e v. op_Entry op = Some (AFTOp_Ipv4 (Some e)) \<and> ref_ipv4.ready_at E r rh op e v) \<or>
    (\<exists>e v. op_Entry op = Some (AFTOp_Ipv6 (Some e)) \<and> ref_ipv6.ready_at E r rh op e v) \<or>
    (\<exists>e v. op_Entry op = Some (AFTOp_Mpls (Some e)) \<and> ref_mpls.ready_at E r rh op e v) \<or>
    (\<exists>e v. op_Entry op = Some (AFTOp_NextHopGroup (Some e)) \<and> nhg_ready E r rh op e v) \<or>
    (\<exists>e v. op_Entry op = Some (AFTOp_NextHop (Some e)) \<and> nh_ready E r rh op e v)" (is "?L = ?R")
proof -
  have inst: ?L if "fst (installEntry E ni op rh r) = Installed c" for c
    using that at_niD(3) [OF at] by (simp add: installable_def NetworkInstanceRIB_def)
  have ref: "\<not> ?L" if "refused (installEntry E ni op rh r) r"
    using refused_not_installable [OF at_niD(3) [OF at] that] .
  show ?thesis
  proof (cases "op_Entry op")
    case None
    then show ?thesis using at_niD(3) [OF at]
      by (simp add: installable_def NetworkInstanceRIB_def installEntry_def)
  next
    case (Some t)
    show ?thesis
    proof (cases t)
      case OtherEntry
      with Some show ?thesis using at_niD(3) [OF at]
        by (simp add: installable_def NetworkInstanceRIB_def installEntry_def)
    next
      case (AFTOp_Ipv4 eo)
      have "(\<exists>e v. eo = Some e \<and> ref_ipv4.ready_at E r rh op e v) \<longleftrightarrow> ?L"
        using ref_ipv4.install_ready [OF at op] ref_ipv4.install_not_ready [OF at op] Some AFTOp_Ipv4 inst ref
        by (metis fst_conv)
      with Some AFTOp_Ipv4 show ?thesis by auto
    next
      case (AFTOp_Ipv6 eo)
      have "(\<exists>e v. eo = Some e \<and> ref_ipv6.ready_at E r rh op e v) \<longleftrightarrow> ?L"
        using ref_ipv6.install_ready [OF at op] ref_ipv6.install_not_ready [OF at op] Some AFTOp_Ipv6 inst ref
        by (metis fst_conv)
      with Some AFTOp_Ipv6 show ?thesis by auto
    next
      case (AFTOp_Mpls eo)
      have "(\<exists>e v. eo = Some e \<and> ref_mpls.ready_at E r rh op e v) \<longleftrightarrow> ?L"
        using ref_mpls.install_ready [OF at op] ref_mpls.install_not_ready [OF at op] Some AFTOp_Mpls inst ref
        by (metis fst_conv)
      with Some AFTOp_Mpls show ?thesis by auto
    next
      case (AFTOp_NextHopGroup eo)
      have "(\<exists>e v. eo = Some e \<and> nhg_ready E r rh op e v) \<longleftrightarrow> ?L"
        using install_nhg_ready [OF at] install_nhg_not_ready [OF at] Some AFTOp_NextHopGroup inst ref
        by (metis fst_conv)
      with Some AFTOp_NextHopGroup show ?thesis by auto
    next
      case (AFTOp_NextHop eo)
      have "(\<exists>e v. eo = Some e \<and> nh_ready E r rh op e v) \<longleftrightarrow> ?L"
        using install_nh_ready [OF at] install_nh_not_ready [OF at] Some AFTOp_NextHop inst ref
        by (metis fst_conv)
      with Some AFTOp_NextHop show ?thesis by auto
    qed
  qed
qed

lemma quiescent_mono:
  assumes env: "env_laws E" and wf: "rib_wf r" "rib_wf r'" and pw: "pend_wf r"
    and pend: "pendingEntries r' = pendingEntries r"
    and has: "\<And>x. has_nhg r' x \<Longrightarrow> has_nhg r x" "\<And>x. has_nh r' x \<Longrightarrow> has_nh r x"
    and keep: "\<And>ni rh. gm_get (niRIB r) ni = Some rh \<Longrightarrow>
      \<exists>rh'. gm_get (niRIB r') ni = Some rh' \<and> sub_tables (afts rh') (afts rh)"
    and q: "quiescent E r"
  shows "quiescent E r'"
  unfolding quiescent_def
proof (intro ballI notI)
  fix pe assume "pe \<in> set (getPending r')" and inst: "installable E r' pe"
  then have mem: "pe \<in> set (getPending r)" using pend by (simp add: getPending_def)
  have acc: "acceptable r (pe_ni pe) (pe_op pe)" using getPending_ids(2) [OF pw mem] .
  obtain rh where get: "gm_get (niRIB r) (pe_ni pe) = Some rh"
    using acc by (auto simp: acceptable_def known_ni_def)
  obtain rh' where get': "gm_get (niRIB r') (pe_ni pe) = Some rh'" and sub: "sub_tables (afts rh') (afts rh)"
    using keep [OF get] by blast
  have at: "at_ni E r (pe_ni pe) rh" "at_ni E r' (pe_ni pe) rh'"
    using env wf get get' acc by (simp_all add: at_ni_def acceptable_def)
  have op: "op_wf (pe_op pe)" using acc by (simp add: acceptable_def)
  have keeps: "\<And>k. gm_get (Ipv4Entry (afts rh')) k \<noteq> None \<Longrightarrow> gm_get (Ipv4Entry (afts rh)) k \<noteq> None"
    "\<And>k. gm_get (Ipv6Entry (afts rh')) k \<noteq> None \<Longrightarrow> gm_get (Ipv6Entry (afts rh)) k \<noteq> None"
    "\<And>k. gm_get (LabelEntry (afts rh')) k \<noteq> None \<Longrightarrow> gm_get (LabelEntry (afts rh)) k \<noteq> None"
    "\<And>k. gm_get (aft_NextHopGroup (afts rh')) k \<noteq> None \<Longrightarrow> gm_get (aft_NextHopGroup (afts rh)) k \<noteq> None"
    "\<And>k. gm_get (aft_NextHop (afts rh')) k \<noteq> None \<Longrightarrow> gm_get (aft_NextHop (afts rh)) k \<noteq> None"
    using sub unfolding sub_tables_def dom_def by blast+
  have R: "\<And>e v. ref_ipv4.ready_at E r' rh' (pe_op pe) e v \<Longrightarrow> ref_ipv4.ready_at E r rh (pe_op pe) e v"
    "\<And>e v. ref_ipv6.ready_at E r' rh' (pe_op pe) e v \<Longrightarrow> ref_ipv6.ready_at E r rh (pe_op pe) e v"
    "\<And>e v. ref_mpls.ready_at E r' rh' (pe_op pe) e v \<Longrightarrow> ref_mpls.ready_at E r rh (pe_op pe) e v"
    "\<And>e v. nhg_ready E r' rh' (pe_op pe) e v \<Longrightarrow> nhg_ready E r rh (pe_op pe) e v"
    "\<And>e v. nh_ready E r' rh' (pe_op pe) e v \<Longrightarrow> nh_ready E r rh (pe_op pe) e v"
    unfolding ref_ready_iff [OF at(1)] ref_ready_iff [OF at(2)] using keeps has by blast+
  have "installable E r pe"
    using inst R unfolding installable_iff [OF at(1) op, unfolded pending_eta]
      installable_iff [OF at(2) op, unfolded pending_eta] by blast
  with q mem show False by (simp add: quiescent_def)
qed

lemma shrinks_keep:
  assumes "shrinks r' r" and "gm_get (niRIB r) ni = Some rh"
  shows "\<exists>rh'. gm_get (niRIB r') ni = Some rh' \<and> sub_tables (afts rh') (afts rh)"
proof -
  have "known_ni r' ni" using assms by (simp add: shrinks_def) (simp add: known_ni_def)
  then obtain rh' where "gm_get (niRIB r') ni = Some rh'" by (auto simp: known_ni_def)
  with assms show ?thesis unfolding shrinks_def by blast
qed

lemma shrinks_quiescent:
  assumes "env_laws E" "rib_wf r" "rib_wf r'" "pend_wf r" and sh: "shrinks r' r" and "quiescent E r"
  shows "quiescent E r'"
proof (rule quiescent_mono [OF assms(1-4) _ _ _ _ assms(6)])
  show "pendingEntries r' = pendingEntries r" using sh by (simp add: shrinks_def)
qed (use shrinks_has [OF sh] shrinks_keep [OF sh] in auto)

lemma shrinks_pend_wf: "shrinks r' r \<Longrightarrow> pend_wf r \<Longrightarrow> pend_wf r'"
  by (simp add: shrinks_def pend_wf_def acceptable_def)

end
