(* ===== verification/RibFlush.thy ===== *)
theory RibFlush
  imports RibReach
begin

text \<open>
  \<open>Flush\<close>: each of its loops keeps the invariant, and together they empty the tables of
  every network instance they are given.
\<close>

subsection \<open>One step of a loop\<close>

text \<open>What a loop over the entries of network instance \<open>ni\<close> has done: the holder's tables
  are \<open>a\<close> now, those of the others are as before.\<close>

definition flushed_to :: "string \<Rightarrow> Afts \<Rightarrow> RIB \<Rightarrow> RIB \<Rightarrow> bool" where
  "flushed_to ni a r r' \<longleftrightarrow> rib_inv r' \<and> n_rib r' \<le> n_rib r \<and> pendingEntries r' = pendingEntries r \<and> ribCheck r' = ribCheck r \<and>
     (\<forall>n. map_option afts (gm_get (niRIB r') n) =
        (if n = ni then Some a else map_option afts (gm_get (niRIB r) n)))"

lemma flushed_to_get:
  assumes "flushed_to ni a r r'"
  obtains rh' where "gm_get (niRIB r') ni = Some rh'" "afts rh' = a"
proof -
  have "map_option afts (gm_get (niRIB r') ni) = Some a" using assms by (simp add: flushed_to_def)
  then show thesis using that by auto
qed

lemma flushed_to_trans:
  "flushed_to ni a r s \<Longrightarrow> flushed_to ni b s t \<Longrightarrow> flushed_to ni b r t"
  by (auto simp: flushed_to_def)

lemma flushed_to_refl:
  "rib_inv r \<Longrightarrow> gm_get (niRIB r) ni = Some rh \<Longrightarrow> flushed_to ni (afts rh) r r"
  by (simp add: flushed_to_def)

lemma afts_commit:
  assumes "gm_get (niRIB r) ni = Some rh"
  shows "map_option afts (gm_get (niRIB (commit ni t es a rh r)) n) =
    (if n = ni then Some a else map_option afts (gm_get (niRIB r) n))"
  by (simp add: commit_def gomap)

lemma afts_dec_ops:
  "map_option afts (gm_get (niRIB (dec_nhg x r)) n) = map_option afts (gm_get (niRIB r) n)"
  "map_option afts (gm_get (niRIB (dec_nh x r)) n) = map_option afts (gm_get (niRIB r) n)"
  by (auto simp: dec_nhg_def dec_nh_def gomap option.map_comp o_def)

lemma afts_fold_dec:
  "map_option afts (gm_get (niRIB (fold dec_nh xs r)) n) = map_option afts (gm_get (niRIB r) n)"
  by (induction xs arbitrary: r) (simp_all add: afts_dec_ops)

locale flush_table =
  referring_table tbl single store remove key usable deletable cand of_pb blank changed add delete
    ref pbref wrap call aft hook
  for tbl :: "Afts \<Rightarrow> ('k, 'e) gomap" and single and store and remove and key :: "'pb \<Rightarrow> 'k"
    and usable and deletable and cand and of_pb and blank and changed and add and delete
    and ref and pbref and wrap and call and aft and hook +
  fixes lockless :: "'k \<Rightarrow> RIBHolder \<Rightarrow> rib_err option \<times> RIBHolder"
  assumes lockless_present: "gm_get (tbl (afts rh)) k = Some e \<Longrightarrow>
      lockless k rh = (None, call_hook Delete [changed (Some e)] (set_afts (remove k (afts rh)) rh))"
    and tbl_remove: "tbl (remove k a) = gm_del k (tbl a)"
begin

lemma flush_top_step:
  assumes inv: "rib_inv r" and get: "gm_get (niRIB r) ni = Some rh"
    and some: "gm_get (tbl (afts rh)) k = Some e" and small: "n_rib r < 2 ^ 64"
  shows "\<exists>r'. flush_top ni (ref e) (lockless k) (r, errs) = (r', errs) \<and>
    flushed_to ni (remove k (afts rh)) r r'"
proof -
  let ?x = "resolve_ref ni (ref e)"
  define r1 where "r1 = dec_nhg ?x r"
  have wf: "rib_wf r" and cl: "ni_closed r" and t1: "tracks nhg_count r (nhg_refs r)"
    and t2: "tracks nh_count r (nh_refs r)"
    using inv by (simp_all add: rib_inv_def counts_ok_def)
  have twf: "tables_wf (afts rh)" using rib_wf_holder [OF wf get] by (simp add: holder_wf_def)
  have ch: "top_change (afts rh) (remove k (afts rh)) {#ref e#} {#}"
    using remove_change [OF twf, of k] some by simp
  then have "raw_refs (afts rh) = add_mset (ref e) (raw_refs (remove k (afts rh)))"
    by (simp add: top_change_def)
  then have "ref e \<in># raw_refs (afts rh)" by simp
  then have mem: "?x \<in># nhg_refs r" by (rule raw_refs_in_nhg_refs [OF get])
  have kn: "known_ni r (fst ?x)" using cl mem by (simp add: ni_closed_def)
  then have rk: "ref_known r (ref e)" by (simp add: ref_known_def resolve_ref_def split: if_splits)
  have wf1: "rib_wf r1" using wf by (simp add: r1_def rib_wf_counter_ops)
  obtain rh1 where get1: "gm_get (niRIB r1) ni = Some rh1" and a1: "afts rh1 = afts rh"
    using get afts_dec_ops(1) [of ?x r ni] by (auto simp: r1_def)
  define r' where "r' = commit ni Delete [changed (Some e)] (remove k (afts rh)) rh1 r1"
  note nc = nhg_refs_commit [OF wf1 get1 ch [folded a1], of Delete "[changed (Some e)]", unfolded a1, folded r'_def]
  note rc = refs_counter_ops [OF wf, where x = ?x, folded r1_def]
  have eq: "flush_top ni (ref e) (lockless k) (r, errs) = (r', errs)"
  proof -
    have "on_ni (fst ?x) (decNHGRefCount (snd (ref e))) r = r1"
      by (simp add: r1_def dec_nhg_def resolve_ref_def)
    then show ?thesis
      using refdRIB_known [OF rk, of ni] get1 lockless_present [of rh1 k e] some a1
      by (simp add: flush_top_def flush_lockless_def NetworkInstanceRIB_def r'_def commit_def)
  qed
  obtain M where M: "nhg_refs r = add_mset ?x M" using mem by (metis mset_add)
  have "Suc (count M ?x) < 2 ^ 64" using count_nhg_refs_le [of r ?x] small M by simp
  with t1 kn M have "tracks nhg_count r1 M" by (simp add: r1_def rib_nhg.tracks_dec)
  moreover have "nhg_refs r' = M" using nc(1) rc M by simp
  ultimately have "tracks nhg_count r' (nhg_refs r')"
    by (simp add: tracks_def r'_def commit_counts [OF get1])
  moreover have "tracks nh_count r' (nh_refs r')"
    using t2 nc(2) rc by (simp add: tracks_def r'_def commit_counts [OF get1]) (simp add: r1_def)
  moreover have "ni_closed r'"
  proof -
    have "known_ni r' n = known_ni r n" for n
      by (simp add: r'_def commit_known [OF get1]) (simp add: r1_def)
    then show ?thesis using cl \<open>nhg_refs r' = M\<close> M by (simp add: ni_closed_def)
  qed
  moreover have "rib_wf r'" unfolding r'_def using wf1 get1 ch by (simp add: commit_wf top_change_def)
  ultimately have "rib_inv r'" by (simp add: rib_inv_def counts_ok_def)
  then have "flushed_to ni (remove k (afts rh)) r r'"
    using nc(3) rc afts_commit [OF get1] afts_dec_ops(1) [of ?x r]
    by (simp add: flushed_to_def r'_def r1_def commit_def dec_nhg_def)
  with eq show ?thesis by blast
qed

lemma flush_top_loop:
  assumes "rib_inv r" and "gm_get (niRIB r) ni = Some rh" and "n_rib r < 2 ^ 64"
    and "distinct (map fst es)" and "\<forall>p\<in>set es. gm_get (tbl (afts rh)) (fst p) = Some (snd p)"
  shows "\<exists>r'. fold (\<lambda>(k, e). flush_top ni (ref e) (lockless k)) es (r, errs) = (r', errs) \<and>
    flushed_to ni (fold (\<lambda>p. remove (fst p)) es (afts rh)) r r'"
  using assms
proof (induction es arbitrary: r rh)
  case Nil
  then show ?case using flushed_to_refl by simp
next
  case (Cons p es)
  obtain k e where p: "p = (k, e)" by (rule prod.exhaust)
  with Cons.prems have some: "gm_get (tbl (afts rh)) k = Some e" by simp
  obtain r1 where r1: "flush_top ni (ref e) (lockless k) (r, errs) = (r1, errs)"
    "flushed_to ni (remove k (afts rh)) r r1"
    using flush_top_step [OF Cons.prems(1,2) some Cons.prems(3)] by blast
  obtain rh1 where rh1: "gm_get (niRIB r1) ni = Some rh1" "afts rh1 = remove k (afts rh)"
    by (rule flushed_to_get [OF r1(2)])
  have "\<forall>q\<in>set es. gm_get (tbl (afts rh1)) (fst q) = Some (snd q)"
    using Cons.prems(4,5) p by (auto simp: rh1(2) tbl_remove gomap)
  then obtain r' where "fold (\<lambda>(k, e). flush_top ni (ref e) (lockless k)) es (r1, errs) = (r', errs)"
      "flushed_to ni (fold (\<lambda>p. remove (fst p)) es (afts rh1)) r1 r'"
    using Cons.IH [OF _ rh1(1)] r1(2) Cons.prems(3,4) by (fastforce simp: flushed_to_def)
  with r1 show ?case using flushed_to_trans [OF r1(2)] by (auto simp: p rh1(2))
qed

end

interpretation flush_ipv4: flush_table Ipv4Entry single_v4 put_v4 del_v4 v4k_Prefix "\<lambda>_. True" "\<lambda>_. True"
  "\<lambda>E e. candidate E (empty_Afts_pb\<lparr>pb_Ipv4Entry := [e]\<rparr>)" v4_of NewIpv4Entry Changed_Ipv4
  AddIPv4 DeleteIPv4 v4_ref "\<lambda>t. v4pb_ref (Option.bind t v4k_Ipv4Entry)" AFTOp_Ipv4
  "\<lambda>t. let p = (case t of None \<Rightarrow> [] | Some e \<Rightarrow> v4k_Prefix e) in if p \<noteq> [] then Some (IPv4, HK_string p) else None"
  IPv4 "\<lambda>e. HK_string (sval (v4_Prefix e))" locklessDeleteIPv4
  by unfold_locales (simp_all add: locklessDeleteIPv4_def retrieveIPv4_def doDeleteIPv4_def del_v4_def)

interpretation flush_ipv6: flush_table Ipv6Entry single_v6 put_v6 del_v6 v6k_Prefix "\<lambda>_. True" "\<lambda>_. True"
  "\<lambda>E e. candidate E (empty_Afts_pb\<lparr>pb_Ipv6Entry := [e]\<rparr>)" v6_of NewIpv6Entry Changed_Ipv6
  AddIPv6 DeleteIPv6 v6_ref "\<lambda>t. v6pb_ref (Option.bind t v6k_Ipv6Entry)" AFTOp_Ipv6
  "\<lambda>t. let p = (case t of None \<Rightarrow> [] | Some e \<Rightarrow> v6k_Prefix e) in if p \<noteq> [] then Some (IPv6, HK_string p) else None"
  IPv6 "\<lambda>e. HK_string (sval (v6_Prefix e))" locklessDeleteIPv6
  by unfold_locales (simp_all add: locklessDeleteIPv6_def retrieveIPv6_def doDeleteIPv6_def del_v6_def)

interpretation flush_mpls: flush_table LabelEntry single_le put_le del_le label_of numeric_label numeric_label
  "\<lambda>E e. candidate E (empty_Afts_pb\<lparr>pb_LabelEntry := [e]\<rparr>)" le_of NewLabelEntry Changed_Label
  AddMPLS DeleteMPLS le_ref "\<lambda>t. lepb_ref (Option.bind t lek_LabelEntry)" AFTOp_Mpls
  "\<lambda>t. let l = (case t of None \<Rightarrow> 0 | Some e \<Rightarrow> GetLabelUint64 e) in if l \<noteq> 0 then Some (MPLS, HK_uint64 l) else None"
  MPLS "\<lambda>e. HK_label (le_Label e)" locklessDeleteMPLS
  by unfold_locales (simp_all add: locklessDeleteMPLS_def del_le_def)

subsection \<open>Groups and next-hops\<close>

lemma fold_dec_holder:
  assumes "gm_get (niRIB r) ni = Some rh"
  shows "gm_get (niRIB (fold dec_nh (map (Pair ni) ks) r)) ni = Some (fold decNHRefCount ks rh)"
    and "gm_put ni x (niRIB (fold dec_nh (map (Pair ni) ks) r)) = gm_put ni x (niRIB r)"
  using assms
  by (induction ks arbitrary: r rh) (simp_all add: dec_nh_def on_ni_def gomap)

lemma flushed_to_cong:
  assumes "flushed_to ni a r s" and "niRIB s' = niRIB s" and "pendingEntries s' = pendingEntries s" "ribCheck s' = ribCheck s"
  shows "flushed_to ni a r s'"
  using assms(1) nis_cong(1,3) [OF assms(2)] assms(2-4) by (simp add: flushed_to_def)

lemma flush_group_step:
  assumes inv: "rib_inv r" and get: "gm_get (niRIB r) ni = Some rh" and small: "n_rib r < 2 ^ 64"
    and some: "gm_get (aft_NextHopGroup (afts rh)) i = Some g"
  shows "\<exists>r'. flush_lockless ni (locklessDeleteNHG i) (r, errs) = (r', errs) \<and>
    flushed_to ni (del_nhg i (afts rh)) r r'"
proof -
  let ?ks = "map fst (nhg_NextHop g)" and ?a = "del_nhg i (afts rh)"
    and ?es = "[Changed_NextHopGroup (Some g)]"
  define r1 where "r1 = fold dec_nh (map (Pair ni) ?ks) r"
  define rh1 where "rh1 = fold decNHRefCount ?ks rh"
  have wf: "rib_wf r" and cl: "ni_closed r" and t1: "tracks nhg_count r (nhg_refs r)"
    and t2: "tracks nh_count r (nh_refs r)"
    using inv by (simp_all add: rib_inv_def counts_ok_def)
  have twf: "tables_wf (afts rh)" using rib_wf_holder [OF wf get] by (simp add: holder_wf_def)
  note fd = fold_counter_ops(2) [OF wf, of "map (Pair ni) ?ks", folded r1_def]
  have get1: "gm_get (niRIB r1) ni = Some rh1"
    using fold_dec_holder(1) [OF get, of ?ks] by (simp add: r1_def rh1_def)
  have a1: "afts rh1 = afts rh" using get get1 afts_fold_dec [of "map (Pair ni) ?ks" r ni, folded r1_def] by simp
  define c where "c = commit ni Delete ?es ?a rh1 r1"
  have refs: "raw_refs ?a = raw_refs (afts rh1)" and nhs: "raw_nh_refs ?a + mset ?ks = raw_nh_refs (afts rh1) + {#}"
    and n: "n_entries ?a \<le> n_entries (afts rh1)"
    using raw_nh_refs_del [OF twf, of i] some n_entries_other(2) by (simp_all add: a1 group_nhs_def)
  have wf1: "rib_wf r1" using fd by simp
  note nc = nh_refs_commit [OF wf1 get1 refs nhs le_SucI [OF n], of Delete ?es, folded c_def]
  have "n_rib c + n_entries (afts rh1) = n_rib r1 + n_entries ?a"
    using n_rib_store [OF _ get1, of "call_hook Delete ?es (set_afts ?a rh1)"] wf1
    by (simp add: c_def commit_def rib_wf_def)
  then have nle: "n_rib c \<le> n_rib r" using n fd by simp
  have "tracks nh_count r1 (nh_refs c)"
    unfolding r1_def
  proof (rule rib_nh.tracks_fold_dec)
    have eq: "mset (map (Pair ni) ?ks) + nh_refs c = nh_refs r" using nc(2) fd by (simp add: add.commute multiset.map_comp)
    show "tracks nh_count r (mset (map (Pair ni) ?ks) + nh_refs c)" unfolding eq by (rule t2)
    show "count (mset (map (Pair ni) ?ks) + nh_refs c) k < 2 ^ 64" for k
      unfolding eq using count_nh_refs_le [OF wf, of k] small by simp
  qed (use get in \<open>auto simp: known_ni_def\<close>)
  then have "tracks nh_count c (nh_refs c)" by (simp add: tracks_def c_def commit_counts [OF get1])
  moreover have "tracks nhg_count c (nhg_refs r)"
    by (rule tracks_cong [OF t1])
      (use fd in \<open>simp add: c_def commit_counts [OF get1] del: split_paired_All\<close>)
  then have "tracks nhg_count c (nhg_refs c)" using nc(1) fd by simp
  moreover have "ni_closed c"
    using cl fd nc(1) by (auto simp: ni_closed_def c_def commit_known [OF get1])
  moreover have "rib_wf c"
    unfolding c_def by (rule commit_wf [OF wf1 get1]) (simp add: tables_wf_other twf)
  ultimately have "rib_inv c" by (simp add: rib_inv_def counts_ok_def)
  moreover have "pendingEntries c = pendingEntries r"
  proof -
    have "pendingEntries (fold dec_nh xs r) = pendingEntries r" for xs
      by (induction xs arbitrary: r) (simp_all add: dec_nh_def)
    then show ?thesis by (simp add: c_def commit_def r1_def)
  qed
  moreover have "ribCheck c = ribCheck r"
  proof -
    have "ribCheck (fold dec_nh xs r) = ribCheck r" for xs
      by (induction xs arbitrary: r) (simp_all add: dec_nh_def)
    then show ?thesis by (simp add: c_def commit_def r1_def)
  qed
  ultimately have fl: "flushed_to ni ?a r c"
    using nle afts_commit [OF get1] afts_fold_dec [of _ r] by (simp add: flushed_to_def c_def r1_def)
  define r' where "r' = commit ni Delete ?es ?a rh1 r"
  have "fold (\<lambda>(idx, _). decNHRefCount idx) (nhg_NextHop g) rh = rh1"
    by (simp add: rh1_def fold_map o_def case_prod_unfold)
  then have "flush_lockless ni (locklessDeleteNHG i) (r, errs) = (r', errs)"
    using get some a1 by (simp add: flush_lockless_def NetworkInstanceRIB_def locklessDeleteNHG_def retrieveNHG_def
        doDeleteNHG_def r'_def commit_def del_nhg_def)
  moreover have "niRIB r' = niRIB c"
    using fold_dec_holder(2) [OF get, of _ ?ks] by (simp add: r'_def c_def commit_def r1_def)
  moreover have "pendingEntries r' = pendingEntries c" "ribCheck r' = ribCheck c"
    using fl by (simp_all add: flushed_to_def r'_def commit_def)
  ultimately show ?thesis using flushed_to_cong [OF fl] by blast
qed

lemma flush_group_missing:
  assumes "gm_get (niRIB r) ni = Some rh" and "gm_get (aft_NextHopGroup (afts rh)) i = None"
  shows "flush_lockless ni (locklessDeleteNHG i) (r, errs) = (r, errs @ [CannotFind (KeyNHG i)])"
  using assms
  by (simp add: flush_lockless_def NetworkInstanceRIB_def locklessDeleteNHG_def retrieveNHG_def)

lemma flush_nh_step:
  assumes inv: "rib_inv r" and get: "gm_get (niRIB r) ni = Some rh"
    and some: "gm_get (aft_NextHop (afts rh)) i = Some n"
  shows "\<exists>r'. flush_lockless ni (locklessDeleteNH i) (r, errs) = (r', errs) \<and>
    flushed_to ni (del_nh i (afts rh)) r r'"
proof -
  let ?a = "del_nh i (afts rh)" and ?es = "[Changed_NextHop (Some n)]"
  define r' where "r' = commit ni Delete ?es ?a rh r"
  have wf: "rib_wf r" using inv by (simp add: rib_inv_def)
  have twf: "tables_wf (afts rh)" using rib_wf_holder [OF wf get] by (simp add: holder_wf_def)
  note nc = nh_refs_commit [OF wf get raw_refs_other(4) [of i] _ le_SucI [OF n_entries_other(4)],
      where olds = "{#}" and news = "{#}" and t = Delete and es = ?es, simplified, folded r'_def]
  have "n_rib r' \<le> n_rib r"
    using n_rib_store [OF _ get, of "call_hook Delete ?es (set_afts ?a rh)"] wf n_entries_other(4) [of i "afts rh"]
    by (simp add: r'_def commit_def rib_wf_def)
  moreover have "rib_wf r'" unfolding r'_def by (rule commit_wf [OF wf get]) (simp add: tables_wf_other twf)
  then have "rib_inv r'"
    using inv nc by (simp add: rib_inv_def counts_ok_def ni_closed_def tracks_def r'_def
        commit_counts [OF get] commit_known [OF get])
  ultimately have "flushed_to ni ?a r r'"
    using afts_commit [OF get] by (simp add: flushed_to_def r'_def) (simp add: commit_def)
  moreover have "flush_lockless ni (locklessDeleteNH i) (r, errs) = (r', errs)"
    using get some by (simp add: flush_lockless_def NetworkInstanceRIB_def locklessDeleteNH_def retrieveNH_def
        doDeleteNH_def r'_def commit_def del_nh_def)
  ultimately show ?thesis by blast
qed

subsection \<open>The loops over groups and next-hops\<close>

lemma flush_group_loop:
  assumes "rib_inv r" and "gm_get (niRIB r) ni = Some rh" and "n_rib r < 2 ^ 64"
  shows "\<exists>r' errs'. fold (\<lambda>i. flush_lockless ni (locklessDeleteNHG i)) is (r, errs) = (r', errs @ errs') \<and>
    flushed_to ni (fold del_nhg is (afts rh)) r r' \<and>
    (distinct is \<and> (\<forall>i\<in>set is. gm_get (aft_NextHopGroup (afts rh)) i \<noteq> None) \<longrightarrow> errs' = [])"
  using assms
proof (induction "is" arbitrary: r rh errs)
  case Nil
  then show ?case using flushed_to_refl by simp
next
  case (Cons i "is")
  show ?case
  proof (cases "gm_get (aft_NextHopGroup (afts rh)) i")
    case None
    then have "del_nhg i (afts rh) = afts rh" by (simp add: del_nhg_def gm_del_absent)
    moreover obtain r' errs' where "fold (\<lambda>i. flush_lockless ni (locklessDeleteNHG i)) is (r, errs @ [CannotFind (KeyNHG i)]) =
        (r', (errs @ [CannotFind (KeyNHG i)]) @ errs')" "flushed_to ni (fold del_nhg is (afts rh)) r r'"
      using Cons.IH [OF Cons.prems, of "errs @ [CannotFind (KeyNHG i)]"] by blast
    ultimately show ?thesis using flush_group_missing [OF Cons.prems(2) None, of errs] None by fastforce
  next
    case (Some g)
    obtain r1 where r1: "flush_lockless ni (locklessDeleteNHG i) (r, errs) = (r1, errs)"
      "flushed_to ni (del_nhg i (afts rh)) r r1"
      using flush_group_step [OF Cons.prems Some] by blast
    obtain rh1 where rh1: "gm_get (niRIB r1) ni = Some rh1" "afts rh1 = del_nhg i (afts rh)"
      by (rule flushed_to_get [OF r1(2)])
    have "rib_inv r1" "n_rib r1 < 2 ^ 64" using r1(2) Cons.prems(3) by (simp_all add: flushed_to_def)
    from Cons.IH [OF this(1) rh1(1) this(2), of errs] obtain r' errs' where
      r': "fold (\<lambda>i. flush_lockless ni (locklessDeleteNHG i)) is (r1, errs) = (r', errs @ errs')"
        "flushed_to ni (fold del_nhg is (afts rh1)) r1 r'"
        "distinct is \<and> (\<forall>j\<in>set is. gm_get (aft_NextHopGroup (afts rh1)) j \<noteq> None) \<longrightarrow> errs' = []" by blast
    have "distinct (i # is) \<and> (\<forall>j\<in>set (i # is). gm_get (aft_NextHopGroup (afts rh)) j \<noteq> None) \<longrightarrow> errs' = []"
      using r'(3) by (auto simp: rh1(2) del_nhg_def gomap)
    with r1 r' flushed_to_trans [OF r1(2)] show ?thesis by (auto simp: rh1(2))
  qed
qed

lemma flush_nh_loop:
  assumes "rib_inv r" and "gm_get (niRIB r) ni = Some rh"
    and "distinct (map fst es)" and "\<forall>p\<in>set es. gm_get (aft_NextHop (afts rh)) (fst p) = Some (snd p)"
  shows "\<exists>r'. fold (\<lambda>(i, n). flush_lockless ni (locklessDeleteNH i)) es (r, errs) = (r', errs) \<and>
    flushed_to ni (fold (\<lambda>p. del_nh (fst p)) es (afts rh)) r r'"
  using assms
proof (induction es arbitrary: r rh)
  case Nil
  then show ?case using flushed_to_refl by simp
next
  case (Cons p es)
  obtain k e where p: "p = (k, e)" by (rule prod.exhaust)
  with Cons.prems have some: "gm_get (aft_NextHop (afts rh)) k = Some e" by simp
  obtain r1 where r1: "flush_lockless ni (locklessDeleteNH k) (r, errs) = (r1, errs)"
    "flushed_to ni (del_nh k (afts rh)) r r1"
    using flush_nh_step [OF Cons.prems(1,2) some] by blast
  obtain rh1 where rh1: "gm_get (niRIB r1) ni = Some rh1" "afts rh1 = del_nh k (afts rh)"
    by (rule flushed_to_get [OF r1(2)])
  have "\<forall>q\<in>set es. gm_get (aft_NextHop (afts rh1)) (fst q) = Some (snd q)"
    using Cons.prems(3,4) p by (auto simp: rh1(2) del_nh_def gomap)
  then obtain r' where "fold (\<lambda>(i, n). flush_lockless ni (locklessDeleteNH i)) es (r1, errs) = (r', errs)"
      "flushed_to ni (fold (\<lambda>p. del_nh (fst p)) es (afts rh1)) r1 r'"
    using Cons.IH [OF _ rh1(1)] r1(2) Cons.prems(3) by (fastforce simp: flushed_to_def)
  with r1 show ?case using flushed_to_trans [OF r1(2)] by (auto simp: p rh1(2))
qed

subsection \<open>Emptying a network instance\<close>

lemma fold_del_tables:
  "fold (\<lambda>p. del_v4 (fst p)) e4 a = a\<lparr>Ipv4Entry := fold gm_del (map fst e4) (Ipv4Entry a)\<rparr>"
  "fold (\<lambda>p. del_v6 (fst p)) e6 a = a\<lparr>Ipv6Entry := fold gm_del (map fst e6) (Ipv6Entry a)\<rparr>"
  "fold (\<lambda>p. del_le (fst p)) el a = a\<lparr>LabelEntry := fold gm_del (map fst el) (LabelEntry a)\<rparr>"
  "fold del_nhg is a = a\<lparr>aft_NextHopGroup := fold gm_del is (aft_NextHopGroup a)\<rparr>"
  "fold (\<lambda>p. del_nh (fst p)) en a = a\<lparr>aft_NextHop := fold gm_del (map fst en) (aft_NextHop a)\<rparr>"
  by (induction e4 arbitrary: a, simp_all add: del_defs)
    (induction e6 arbitrary: a, simp_all add: del_defs,
     induction el arbitrary: a, simp_all add: del_defs,
     induction "is" arbitrary: a, simp_all add: del_defs,
     induction en arbitrary: a, simp_all add: del_defs)

lemma set_fold_gm_del: "set (fold gm_del ks m) = {p \<in> set m. fst p \<notin> set ks}"
  by (induction ks arbitrary: m) (auto simp: gm_set_del)

lemma fold_gm_del_all: "fold gm_del (map fst m) m = []"
  using set_fold_gm_del [of "map fst m" m] by (auto simp flip: set_empty)

definition cleared :: "Afts \<Rightarrow> Afts" where
  "cleared a = a\<lparr>Ipv4Entry := [], Ipv6Entry := [], LabelEntry := [], aft_NextHopGroup := [], aft_NextHop := []\<rparr>"

lemma n_entries_cleared [simp]: "n_entries (cleared a) = 0"
  by (simp add: cleared_def n_entries_def)

text \<open>The backup groups that the first of the two group loops deletes.\<close>

definition backups :: "Afts \<Rightarrow> u64 list" where
  "backups a = List.map_filter (\<lambda>(k, g). nhg_BackupNextHopGroup g) (aft_NextHopGroup a)"

definition backups_ok :: "Afts \<Rightarrow> bool" where
  "backups_ok a \<longleftrightarrow> distinct (backups a) \<and> (\<forall>i\<in>set (backups a). gm_get (aft_NextHopGroup a) i \<noteq> None)"

lemma flush_ni_ok:
  assumes inv: "rib_inv r" and get: "gm_get (niRIB r) ni = Some rh" and small: "n_rib r < 2 ^ 64"
  shows "\<exists>r' errs'. flush_ni ni (r, errs) = (r', errs @ errs') \<and>
    flushed_to ni (cleared (afts rh)) r r' \<and> (backups_ok (afts rh) \<longrightarrow> errs' = [])"
proof -
  let ?cur = "\<lambda>s::flush_state. case NetworkInstanceRIB (fst s) ni of None \<Rightarrow> empty_Afts | Some rh \<Rightarrow> afts rh"
  have cur: "?cur (r', es) = a" if "flushed_to ni a r r'" for r' es a
    by (rule flushed_to_get [OF that]) (simp add: NetworkInstanceRIB_def)
  have twf: "tables_wf (afts rh)" using inv rib_wf_holder [OF _ get] by (simp add: rib_inv_def holder_wf_def)
  have entry: "\<forall>p\<in>set m. gm_get m (fst p) = Some (snd p)" if "gm_wf m" for m :: "('x, 'y) gomap"
    using that by (auto intro: map_of_is_SomeI)
  have step: "rib_inv r'" "n_rib r' < 2 ^ 64" if "flushed_to ni a r r'" for a r'
    using that small by (simp_all add: flushed_to_def)
  let ?a = "afts rh"
  define a1 where "a1 = ?a\<lparr>Ipv4Entry := []\<rparr>"
  define a2 where "a2 = a1\<lparr>Ipv6Entry := []\<rparr>"
  define a3 where "a3 = a2\<lparr>LabelEntry := []\<rparr>"
  define a4 where "a4 = fold del_nhg (backups ?a) a3"
  define a5 where "a5 = a4\<lparr>aft_NextHopGroup := []\<rparr>"
  have f0: "flushed_to ni ?a r r" by (rule flushed_to_refl [OF inv get])
  obtain r1 where r1: "fold (\<lambda>(p, e). flush_top ni (v4_ref e) (locklessDeleteIPv4 p)) (Ipv4Entry ?a) (r, errs) = (r1, errs)"
    "flushed_to ni a1 r r1"
    using flush_ipv4.flush_top_loop [OF inv get small, of "Ipv4Entry ?a" errs] twf entry
    by (auto simp: tables_wf_gm fold_del_tables fold_gm_del_all a1_def)
  obtain h1 where h1: "gm_get (niRIB r1) ni = Some h1" "afts h1 = a1" by (rule flushed_to_get [OF r1(2)])
  obtain r2 where r2: "fold (\<lambda>(p, e). flush_top ni (v6_ref e) (locklessDeleteIPv6 p)) (Ipv6Entry a1) (r1, errs) = (r2, errs)"
    "flushed_to ni a2 r r2"
    using flush_ipv6.flush_top_loop [OF step(1) [OF r1(2)] h1(1) step(2) [OF r1(2)], of "Ipv6Entry a1" errs]
      twf entry [of "Ipv6Entry ?a"] flushed_to_trans [OF r1(2)]
    by (auto simp: tables_wf_gm h1(2) fold_del_tables fold_gm_del_all a1_def a2_def)
  obtain h2 where h2: "gm_get (niRIB r2) ni = Some h2" "afts h2 = a2" by (rule flushed_to_get [OF r2(2)])
  obtain r3 where r3: "fold (\<lambda>(l, e). flush_top ni (le_ref e) (locklessDeleteMPLS l)) (LabelEntry a2) (r2, errs) = (r3, errs)"
    "flushed_to ni a3 r r3"
    using flush_mpls.flush_top_loop [OF step(1) [OF r2(2)] h2(1) step(2) [OF r2(2)], of "LabelEntry a2" errs]
      twf entry [of "LabelEntry ?a"] flushed_to_trans [OF r2(2)]
    by (auto simp: tables_wf_gm h2(2) fold_del_tables fold_gm_del_all a1_def a2_def a3_def)
  obtain h3 where h3: "gm_get (niRIB r3) ni = Some h3" "afts h3 = a3" by (rule flushed_to_get [OF r3(2)])
  have g3: "aft_NextHopGroup a3 = aft_NextHopGroup ?a" "aft_NextHop a3 = aft_NextHop ?a"
    by (simp_all add: a1_def a2_def a3_def)
  obtain r4 errs' where r4: "fold (\<lambda>i. flush_lockless ni (locklessDeleteNHG i)) (backups ?a) (r3, errs) = (r4, errs @ errs')"
    "flushed_to ni a4 r r4" "backups_ok ?a \<longrightarrow> errs' = []"
    using flush_group_loop [OF step(1) [OF r3(2)] h3(1) step(2) [OF r3(2)], of "backups ?a" errs,
        unfolded h3(2) g3, folded a4_def backups_ok_def] flushed_to_trans [OF r3(2)] by blast
  obtain h4 where h4: "gm_get (niRIB r4) ni = Some h4" "afts h4 = a4" by (rule flushed_to_get [OF r4(2)])
  have wf4: "gm_wf (aft_NextHopGroup a4)" "aft_NextHop a4 = aft_NextHop ?a"
  proof -
    have "gm_wf (fold gm_del is m)" if "gm_wf m" for "is" and m :: "(u64, Afts_NextHopGroup) gomap"
      using that by (induction "is" arbitrary: m) simp_all
    then show "gm_wf (aft_NextHopGroup a4)" using twf by (simp add: a4_def fold_del_tables g3 tables_wf_gm)
    show "aft_NextHop a4 = aft_NextHop ?a" by (simp add: a4_def fold_del_tables g3)
  qed
  obtain r5 where r5: "fold (\<lambda>(i, g). flush_lockless ni (locklessDeleteNHG i)) (aft_NextHopGroup a4) (r4, errs @ errs') = (r5, errs @ errs')"
    "flushed_to ni a5 r r5"
  proof -
    have "fold (\<lambda>(i, g). flush_lockless ni (locklessDeleteNHG i)) (aft_NextHopGroup a4) s =
        fold (\<lambda>i. flush_lockless ni (locklessDeleteNHG i)) (map fst (aft_NextHopGroup a4)) s" for s
      by (simp add: fold_map o_def case_prod_unfold)
    then show thesis
      using flush_group_loop [OF step(1) [OF r4(2)] h4(1) step(2) [OF r4(2)],
          of "map fst (aft_NextHopGroup a4)" "errs @ errs'"] wf4(1) that flushed_to_trans [OF r4(2)]
      by (auto simp: h4(2) fold_del_tables fold_gm_del_all a5_def map_of_eq_None_iff)
  qed
  obtain h5 where h5: "gm_get (niRIB r5) ni = Some h5" "afts h5 = a5" by (rule flushed_to_get [OF r5(2)])
  have fin: "a5\<lparr>aft_NextHop := []\<rparr> = cleared ?a"
    by (simp add: a5_def a4_def a3_def a2_def a1_def cleared_def fold_del_tables)
  have nh5: "aft_NextHop a5 = aft_NextHop ?a" by (simp add: a5_def wf4(2))
  obtain r6 where r6: "fold (\<lambda>(i, n). flush_lockless ni (locklessDeleteNH i)) (aft_NextHop a5) (r5, errs @ errs') = (r6, errs @ errs')"
    "flushed_to ni (cleared ?a) r r6"
    using flush_nh_loop [OF step(1) [OF r5(2)] h5(1), of "aft_NextHop a5" "errs @ errs'"]
      twf entry [of "aft_NextHop ?a"] flushed_to_trans [OF r5(2)] fin
    by (auto simp: h5(2) nh5 tables_wf_gm fold_del_tables fold_gm_del_all)
  have "flush_ni ni (r, errs) = (r6, errs @ errs')"
    unfolding flush_ni_def Let_def
    by (simp only: cur [OF f0] r1 cur [OF r1(2)] r2 cur [OF r2(2)] r3 cur [OF r3(2)] g3
        backups_def [symmetric] r4 cur [OF r4(2)] r5 cur [OF r5(2)] r6)
  with r6 r4(3) show ?thesis by blast
qed

text \<open>The result of \<open>Flush\<close> for known network instances that are named once.\<close>

definition all_cleared :: "string set \<Rightarrow> RIB \<Rightarrow> RIB \<Rightarrow> bool" where
  "all_cleared S r r' \<longleftrightarrow> rib_inv r' \<and> n_rib r' \<le> n_rib r \<and> pendingEntries r' = pendingEntries r \<and> ribCheck r' = ribCheck r \<and>
     (\<forall>n. map_option afts (gm_get (niRIB r') n) =
        map_option (\<lambda>h. if n \<in> S then cleared (afts h) else afts h) (gm_get (niRIB r) n))"

lemma all_cleared_step:
  assumes "gm_get (niRIB r) ni = Some rh" and f: "flushed_to ni (cleared (afts rh)) r s" and c: "all_cleared S s t"
    and "ni \<notin> S"
  shows "all_cleared (insert ni S) r t"
proof -
  have "map_option afts (gm_get (niRIB t) n) =
      map_option (\<lambda>h. if n \<in> insert ni S then cleared (afts h) else afts h) (gm_get (niRIB r) n)" for n
  proof (cases "n = ni")
    case True
    obtain h where h: "gm_get (niRIB s) ni = Some h" "afts h = cleared (afts rh)" by (rule flushed_to_get [OF f])
    with c assms(1,4) True show ?thesis by (simp add: all_cleared_def)
  next
    case False
    then have m: "map_option afts (gm_get (niRIB s) n) = map_option afts (gm_get (niRIB r) n)"
      using f by (simp add: flushed_to_def)
    have "map_option afts (gm_get (niRIB t) n) = map_option (\<lambda>a. if n \<in> S then cleared a else a) (map_option afts (gm_get (niRIB s) n))"
      using c by (simp add: all_cleared_def option.map_comp o_def)
    with m False show ?thesis by (simp add: option.map_comp o_def)
  qed
  with f c show ?thesis by (simp add: all_cleared_def flushed_to_def)
qed

definition ni_backups_ok :: "RIB \<Rightarrow> string \<Rightarrow> bool" where
  "ni_backups_ok r ni = (case gm_get (niRIB r) ni of None \<Rightarrow> True | Some rh \<Rightarrow> backups_ok (afts rh))"

lemma flush_all_ok:
  assumes "rib_inv r" and "n_rib r < 2 ^ 64" and "distinct nis" and "\<forall>ni\<in>set nis. known_ni r ni"
    and "set nis \<inter> set locked = {}"
  shows "\<exists>r' errs'. flush_all nis locked (r, errs) = (None, (r', errs @ errs')) \<and> all_cleared (set nis) r r' \<and>
    ((\<forall>ni\<in>set nis. ni_backups_ok r ni) \<longrightarrow> errs' = [])"
  using assms
proof (induction nis arbitrary: r errs locked)
  case Nil
  then show ?case by (auto simp: all_cleared_def)
next
  case (Cons ni nis)
  obtain rh where get: "gm_get (niRIB r) ni = Some rh" using Cons.prems(4) by (auto simp: known_ni_def)
  obtain s es where s: "flush_ni ni (r, errs) = (s, errs @ es)" and f: "flushed_to ni (cleared (afts rh)) r s"
    and e: "backups_ok (afts rh) \<longrightarrow> es = []"
    using flush_ni_ok [OF Cons.prems(1) get Cons.prems(2)] by blast
  have other: "map_option afts (gm_get (niRIB s) n) = map_option afts (gm_get (niRIB r) n)" if "n \<noteq> ni" for n
    using f that by (simp add: flushed_to_def)
  have kn: "\<forall>n\<in>set nis. known_ni s n"
  proof
    fix n assume n: "n \<in> set nis"
    with Cons.prems(3,4) have "n \<noteq> ni" "known_ni r n" by auto
    with other [of n] show "known_ni s n" by (auto simp: known_ni_def)
  qed
  have bo: "ni_backups_ok s n = ni_backups_ok r n" if "n \<in> set nis" for n
  proof -
    have "n \<noteq> ni" using that Cons.prems(3) by auto
    with other [of n] show ?thesis
      by (cases "gm_get (niRIB s) n"; cases "gm_get (niRIB r) n") (simp_all add: ni_backups_ok_def)
  qed
  have "rib_inv s" "n_rib s < 2 ^ 64" using f Cons.prems(2) by (simp_all add: flushed_to_def)
  with Cons.IH [OF this _ kn, of "ni # locked" "errs @ es"] Cons.prems(3,5) obtain r' errs' where
    r': "flush_all nis (ni # locked) (s, errs @ es) = (None, (r', (errs @ es) @ errs'))" "all_cleared (set nis) s r'"
      "(\<forall>n\<in>set nis. ni_backups_ok s n) \<longrightarrow> errs' = []" by auto
  have "flush_all (ni # nis) locked (r, errs) = (None, (r', errs @ es @ errs'))"
    using get s r'(1) Cons.prems(5) by (simp add: NetworkInstanceRIB_def)
  moreover have "all_cleared (set (ni # nis)) r r'"
    using all_cleared_step [OF get f r'(2)] Cons.prems(3) by simp
  moreover have "(\<forall>n\<in>set (ni # nis). ni_backups_ok r n) \<longrightarrow> es @ errs' = []"
    using e r'(3) bo get by (auto simp: ni_backups_ok_def)
  ultimately show ?case by blast
qed

lemma Flush_result:
  assumes "rib_inv r" and "n_rib r < 2 ^ 64" and "distinct nis" and "\<forall>ni\<in>set nis. known_ni r ni"
  shows "all_cleared (set nis) r (snd (Flush nis r)) \<and>
    ((\<forall>ni\<in>set nis. ni_backups_ok r ni) \<longrightarrow> fst (Flush nis r) = None)"
  using flush_all_ok [OF assms, of "[]" "[]"] by (auto simp: Flush_def)

lemma sub_tables_cleared: "sub_tables (cleared a) a"
  by (simp add: sub_tables_def cleared_def)

lemma all_cleared_holder:
  assumes "all_cleared S r r'" and "gm_get (niRIB r') n = Some h"
  shows "if n \<in> S then n_entries (afts h) = 0 else \<exists>h0. gm_get (niRIB r) n = Some h0 \<and> afts h = afts h0"
proof -
  have "map_option afts (gm_get (niRIB r') n) =
      map_option (\<lambda>h. if n \<in> S then cleared (afts h) else afts h) (gm_get (niRIB r) n)"
    using assms(1) by (simp add: all_cleared_def)
  with assms(2) show ?thesis by (cases "gm_get (niRIB r) n") (auto split: if_splits)
qed

lemma all_cleared_shrinks:
  assumes "all_cleared S r r'"
  shows "shrinks r' r"
proof -
  have m: "map_option afts (gm_get (niRIB r') n) =
      map_option (\<lambda>h. if n \<in> S then cleared (afts h) else afts h) (gm_get (niRIB r) n)" for n
    using assms by (simp add: all_cleared_def)
  have "known_ni r' n = known_ni r n" for n
    using m [of n] by (cases "gm_get (niRIB r') n"; cases "gm_get (niRIB r) n") (simp_all add: known_ni_def)
  moreover have "sub_tables (afts h') (afts h)"
    if "gm_get (niRIB r') n = Some h'" "gm_get (niRIB r) n = Some h" for n h' h
    using m [of n] that sub_tables_cleared by (simp split: if_splits)
  ultimately show ?thesis using assms by (simp add: shrinks_def all_cleared_def)
qed

end
