(* ===== verification/RibRun.thy ===== *)
theory RibRun
  imports RibFlush
begin

text \<open>
  Runs of the RIB: the states reachable from \<open>New\<close> by any sequence of its operations, and
  the invariant they all satisfy.
\<close>

subsection \<open>New network instances\<close>

lemma New_holder_afts [simp]: "afts (NewRIBHolder n opts) = empty_Afts"
  by (simp add: afts_def NewRIBHolder_def)

lemma empty_refs [simp]:
  "raw_refs empty_Afts = {#}" "raw_nh_refs empty_Afts = {#}" "n_entries empty_Afts = 0"
  "tables_wf empty_Afts"
  by (simp_all add: raw_refs_def raw_nh_refs_def table_refs_def n_entries_def tables_wf_def)

lemma New_holder_wf: "hasCheckFn opts \<Longrightarrow> holder_wf n (NewRIBHolder n opts)"
  by (simp add: holder_wf_def) (simp add: NewRIBHolder_def)

text \<open>All network instances get the check unless the RIB was created without it.\<close>

definition start :: "bool \<Rightarrow> bool \<Rightarrow> string \<Rightarrow> RIBOpt list \<Rightarrow> RIB" where
  "start postHook resolvedHook dn opt = SetResolvedEntryHook resolvedHook (SetPostChangeHook postHook (New dn opt))"

lemma start_inv:
  assumes "\<not> hasDisableCheckFn opt"
  shows "rib_inv (start ph rh dn opt)" "ribCheck (start ph rh dn opt)" "no_dangling (start ph rh dn opt)"
    "pend_wf (start ph rh dn opt)" "quiescent E (start ph rh dn opt)"
proof -
  let ?opts = "[RIBHolderCheckFn] @ (if hasDisableForwardRef opt then [RHDisableForwardReferences] else [])"
  let ?h = "(NewRIBHolder dn ?opts)\<lparr>rh_postChangeHook := ph\<rparr>"
  have nis: "niRIB (start ph rh dn opt) = [(dn, ?h)]"
    using assms by (simp add: start_def New_def Let_def SetPostChangeHook_def SetResolvedEntryHook_def)
  have h: "afts ?h = empty_Afts" by (simp add: afts_def NewRIBHolder_def)
  then have "holder_wf dn ?h"
    by (simp add: holder_wf_def) (simp add: NewRIBHolder_def hasCheckFn_def)
  then have "rib_wf (start ph rh dn opt)" by (simp add: rib_wf_def nis)
  moreover have refs: "nhg_refs (start ph rh dn opt) = {#}" "nh_refs (start ph rh dn opt) = {#}"
    using h by (simp_all add: nhg_refs_def nh_refs_def nis)
  moreover have "nhg_count (start ph rh dn opt) x = 0" "nh_count (start ph rh dn opt) x = 0" for x
    by (simp_all add: nhg_count_def nh_count_def nis) (simp_all add: NewRIBHolder_def)
  ultimately show "rib_inv (start ph rh dn opt)"
    by (simp add: rib_inv_def ni_closed_def counts_ok_def tracks_def)
  show "no_dangling (start ph rh dn opt)" by (simp add: no_dangling_def refs)
  show "ribCheck (start ph rh dn opt)" "pend_wf (start ph rh dn opt)" "quiescent E (start ph rh dn opt)"
    using assms by (simp_all add: start_def New_def Let_def SetPostChangeHook_def SetResolvedEntryHook_def
        pend_wf_def quiescent_def getPending_def)
qed

lemma refs_known: "rib_wf r \<Longrightarrow> x \<in># nh_refs r \<Longrightarrow> known_ni r (fst x)"
  by (auto simp: nh_refs_def in_sum_list_mset known_ni_def rib_wf_def)

lemma AddNetworkInstance_ok:
  assumes inv: "rib_inv r" and chk: "ribCheck r" and add: "AddNetworkInstance name r = (None, r')"
  shows "rib_inv r'" and "nhg_refs r' = nhg_refs r" and "nh_refs r' = nh_refs r" and "n_rib r' = n_rib r"
    and "pendingEntries r' = pendingEntries r" and "ribCheck r'"
    and "has_nhg r' x = has_nhg r x" and "has_nh r' x = has_nh r x"
    and "known_ni r' n = (n = name \<or> known_ni r n)"
    and "gm_get (niRIB r) n = Some rh \<Longrightarrow> gm_get (niRIB r') n = Some rh"
proof -
  obtain opts where new: "gm_get (niRIB r) name = None"
    and r': "r' = r\<lparr>niRIB := gm_put name (NewRIBHolder name opts) (niRIB r)\<rparr>" and c: "hasCheckFn opts"
    using add chk by (auto simp: AddNetworkInstance_def Let_def hasCheckFn_def split: if_splits)
  have wf: "rib_wf r" and cl: "ni_closed r" using inv by (simp_all add: rib_inv_def)
  let ?h = "NewRIBHolder name opts"
  show refs: "nhg_refs r' = nhg_refs r" "nh_refs r' = nh_refs r" "n_rib r' = n_rib r"
    using sum_list_put_absent [OF new, of "\<lambda>p. image_mset (resolve_ref (fst p)) (raw_refs (afts (snd p)))" ?h]
      sum_list_put_absent [OF new, of "\<lambda>p. image_mset (Pair (fst p)) (raw_nh_refs (afts (snd p)))" ?h]
      sum_list_put_absent [OF new, of "\<lambda>p. n_entries (afts (snd p))" ?h]
    by (simp_all add: r' nhg_refs_def nh_refs_def n_rib_def)
  show "pendingEntries r' = pendingEntries r" "ribCheck r'" using chk by (simp_all add: r')
  show kn: "known_ni r' n = (n = name \<or> known_ni r n)" for n by (auto simp: r' known_ni_def gomap)
  show "has_nhg r' x = has_nhg r x" "has_nh r' x = has_nh r x"
    using new by (auto simp: r' has_nhg_def has_nh_def NetworkInstanceRIB_def gomap nhgExists_def nhExists_def)
  show "gm_get (niRIB r') n = Some rh" if "gm_get (niRIB r) n = Some rh"
    using that new by (auto simp: r' gomap)
  have "rib_wf r'" unfolding r' using wf New_holder_wf [OF c] by (rule rib_wf_store)
  moreover have "ni_closed r'" using cl by (simp add: ni_closed_def refs kn)
  moreover have "nhg_count r' x = nhg_count r x" "nh_count r' x = nh_count r x" for x
    using new by (auto simp: r' nhg_count_def nh_count_def gomap) (simp_all add: NewRIBHolder_def)
  then have "counts_ok r'"
    using inv by (simp add: rib_inv_def counts_ok_def tracks_def refs)
  ultimately show "rib_inv r'" by (simp add: rib_inv_def)
qed

lemma AddNetworkInstance_quiescent:
  assumes env: "env_laws E" and inv: "rib_inv r" "ribCheck r" and pw: "pend_wf r" and q: "quiescent E r"
    and add: "AddNetworkInstance name r = (None, r')"
  shows "quiescent E r'" and "pend_wf r'"
proof -
  note A = AddNetworkInstance_ok [OF inv add]
  show "quiescent E r'"
  proof (rule quiescent_mono [OF env _ _ pw A(5) _ _ _ q])
    show "rib_wf r" "rib_wf r'" using inv A(1) by (simp_all add: rib_inv_def)
  qed (use A in auto)
  show "pend_wf r'" using pw A(5,9) by (auto simp: pend_wf_def acceptable_def)
qed

subsection \<open>Reachable states\<close>

text \<open>
  The states of a RIB with the checks on.  Additions name a known network instance and a
  supported, well-formed operation; the flag records whether a \<open>Flush\<close> has happened, since
  that removes groups that entries of other network instances may refer to.  \<open>room\<close> keeps
  the number of entries below the range of the 64-bit counters.
\<close>

inductive rib_reach :: "rib_env \<Rightarrow> bool \<Rightarrow> RIB \<Rightarrow> bool" for E where
  init: "\<not> hasDisableCheckFn opt \<Longrightarrow> rib_reach E False (start ph rh dn opt)"
| add: "rib_reach E fl r \<Longrightarrow> fair sched \<Longrightarrow> room r \<Longrightarrow> acceptable r ni op \<Longrightarrow>
    AddEntry E sched ni op r = Some (res, r') \<Longrightarrow> rib_reach E fl r'"
| del: "rib_reach E fl r \<Longrightarrow> room r \<Longrightarrow> DeleteEntry E ni opo r = (res', r') \<Longrightarrow> rib_reach E fl r'"
| ni: "rib_reach E fl r \<Longrightarrow> AddNetworkInstance name r = (None, r') \<Longrightarrow> rib_reach E fl r'"
| flush: "rib_reach E fl r \<Longrightarrow> room r \<Longrightarrow> distinct nis \<Longrightarrow> \<forall>n\<in>set nis. known_ni r n \<Longrightarrow>
    Flush nis r = (err, r') \<Longrightarrow> rib_reach E True r'"

inductive_cases rib_reach_flushed: "rib_reach E False r"

definition run_inv :: "rib_env \<Rightarrow> bool \<Rightarrow> RIB \<Rightarrow> bool" where
  "run_inv E fl r \<longleftrightarrow> rib_inv r \<and> ribCheck r \<and> pend_wf r \<and> quiescent E r \<and> (\<not> fl \<longrightarrow> no_dangling r)"

lemma run_inv_shrinks:
  assumes env: "env_laws E" and inv: "run_inv E fl r" and sh: "shrinks r' r" and ri: "rib_inv r'"
    and nd: "\<not> fl' \<Longrightarrow> no_dangling r'"
  shows "run_inv E fl' r'"
  using inv sh ri nd shrinks_quiescent [OF env, of r r'] shrinks_pend_wf [OF sh]
  by (auto simp: run_inv_def rib_inv_def shrinks_def)

theorem rib_reach_inv:
  assumes env: "env_laws E" and reach: "rib_reach E fl r"
  shows "run_inv E fl r"
  using reach
proof (induction rule: rib_reach.induct)
  case (init opt ph rh dn)
  then show ?case using start_inv [OF init] by (simp add: run_inv_def)
next
  case (add fl r sched ni op res r')
  then have inv: "rib_inv r" "pend_wf r" by (simp_all add: run_inv_def)
  show ?case
    by (rule AddEntry_result [OF env add.hyps(2) inv add.hyps(3,4)])
      (use add.hyps(5) add.IH in \<open>auto simp: run_inv_def\<close>)
next
  case (del fl r ni opo res' r')
  have r': "r' = snd (DeleteEntry E ni opo r)" using del.hyps(3) by simp
  have "Suc (n_rib r) < 2 ^ 64" using del.hyps(2) by (simp add: room_def)
  then have "rib_inv r' \<and> (no_dangling r \<longrightarrow> no_dangling r')"
    unfolding r' using DeleteEntry_preserves [OF env] del.IH by (simp add: run_inv_def)
  then show ?case
    using run_inv_shrinks [OF env del.IH, of r'] DeleteEntry_shrinks [of E ni opo r] del.IH
    by (auto simp: r' run_inv_def)
next
  case (ni fl r name r')
  then have inv: "rib_inv r" "ribCheck r" "pend_wf r" "quiescent E r" by (simp_all add: run_inv_def)
  note A = AddNetworkInstance_ok [OF inv(1,2) ni.hyps(2)]
  have "no_dangling r' = no_dangling r" by (simp add: no_dangling_def A(2,3,7,8))
  with ni.IH A(1,6) AddNetworkInstance_quiescent [OF env inv ni.hyps(2)] show ?case
    by (simp add: run_inv_def)
next
  case (flush fl r nis err r')
  have r': "r' = snd (Flush nis r)" using flush.hyps(5) by simp
  have "rib_inv r" using flush.IH by (simp add: run_inv_def)
  moreover have "n_rib r < 2 ^ 64" using flush.hyps(2) by (simp add: room_def)
  ultimately have ac: "all_cleared (set nis) r r'"
    using Flush_result [of r nis] flush.hyps(3,4) by (simp add: r')
  show ?case
    by (rule run_inv_shrinks [OF env flush.IH all_cleared_shrinks [OF ac]])
      (use ac in \<open>simp_all add: all_cleared_def\<close>)
qed

end
