(* ===== verification/RibService.thy ===== *)
theory RibService
  imports RibRun
begin

text \<open>
  The contract between the server and the RIB: a class of RIB states that every call the
  server makes stays in, with no panic, no deadlock and no call that fails to return.  The
  locale \<open>rib_service\<close> states it; the reachable states of \<open>RibRun\<close> are its instance.
\<close>

locale rib_service =
  fixes ok :: "rib_env \<Rightarrow> RIB \<Rightarrow> bool"
  assumes start_law: "\<not> hasDisableCheckFn opt \<Longrightarrow> ok E (start ph rh dn opt)"
    and add_law: "env_laws E \<Longrightarrow> ok E r \<Longrightarrow> fair sched \<Longrightarrow> room r \<Longrightarrow> op_wf op \<Longrightarrow>
      \<exists>res r'. AddEntry E sched ni op r = Some (res, r') \<and> ok E r' \<and> res \<noteq> Inl GoPanic"
    and delete_law: "env_laws E \<Longrightarrow> ok E r \<Longrightarrow> room r \<Longrightarrow> DeleteEntry E ni opo r = ((oks, fails, err), r') \<Longrightarrow>
      ok E r' \<and> err \<noteq> Some GoPanic"
    and ni_law: "env_laws E \<Longrightarrow> ok E r \<Longrightarrow> AddNetworkInstance name r = (err, r') \<Longrightarrow> ok E r'"
    and flush_law: "env_laws E \<Longrightarrow> ok E r \<Longrightarrow> room r \<Longrightarrow> distinct nis \<Longrightarrow> \<forall>n\<in>set nis. known_ni r n \<Longrightarrow>
      Flush nis r = (err, r') \<Longrightarrow> ok E r' \<and> err \<noteq> Some GoPanic \<and> err \<noteq> Some GoDeadlock"
    and names_law: "env_laws E \<Longrightarrow> ok E r \<Longrightarrow> gm_wf (niRIB r)"

subsection \<open>The reachable states\<close>

lemma finishDelete_err:
  "finishDelete E ni op ref a k r = ((oks, fails, err), r') \<Longrightarrow> err \<noteq> Some GoPanic"
  by (auto simp: finishDelete_def refdRIB_def split: sum.splits prod.splits option.splits if_splits)

lemma deleteOutcome_err: "snd (snd (deleteOutcome op res)) = None"
  by (simp add: deleteOutcome_def split: sum.split prod.split bool.split)

lemma DeleteEntry_err:
  "DeleteEntry E ni opo r = ((oks, fails, err), r') \<Longrightarrow> err \<noteq> Some GoPanic"
proof -
  assume a: "DeleteEntry E ni opo r = ((oks, fails, err), r')"
  have "snd (snd (deleteOutcome op res)) \<noteq> Some GoPanic" for op and res :: "rib_err + bool \<times> 'e"
    by (simp add: deleteOutcome_err)
  then have o: "(deleteOutcome op res, x) = ((oks, fails, err), r') \<Longrightarrow> err \<noteq> Some GoPanic"
    for op x and res :: "rib_err + bool \<times> 'e" by (metis fst_conv snd_conv)
  from a show ?thesis
    by (auto simp: DeleteEntry_def Let_def deleteOutcome_def dest: finishDelete_err
        split: option.splits if_splits AFTOperation_Entry.splits sum.splits prod.splits bool.splits)
qed

lemma Flush_err:
  assumes "rib_inv r" and "n_rib r < 2 ^ 64" and "distinct nis" and "\<forall>n\<in>set nis. known_ni r n"
    and "Flush nis r = (err, r')"
  shows "err \<noteq> Some GoPanic \<and> err \<noteq> Some GoDeadlock"
  using flush_all_ok [OF assms(1-4), of "[]" "[]"] assms(5) by (auto simp: Flush_def split: if_splits)

definition reachable :: "rib_env \<Rightarrow> RIB \<Rightarrow> bool" where
  "reachable E r \<longleftrightarrow> (\<exists>fl. rib_reach E fl r)"

lemma reachable_inv:
  assumes "env_laws E" and "reachable E r"
  shows "rib_inv r" "pend_wf r" "rib_wf r"
  using rib_reach_inv [OF assms(1)] assms(2) by (auto simp: reachable_def run_inv_def rib_inv_def)

lemma reachable_add:
  assumes env: "env_laws E" and ok: "reachable E r" and fs: "fair sched" and rm: "room r" and owf: "op_wf op"
  shows "\<exists>res r'. AddEntry E sched ni op r = Some (res, r') \<and> reachable E r' \<and> res \<noteq> Inl GoPanic"
proof (cases "acceptable r ni op")
  case True
  obtain oks fails r' where r': "AddEntry E sched ni op r = Some (Inr (oks, fails), r')"
    by (rule AddEntry_result [OF env fs reachable_inv(1,2) [OF env ok] rm True])
  then have "reachable E r'"
    using ok rib_reach.add [OF _ fs rm True] unfolding reachable_def by blast
  with r' show ?thesis by blast
next
  case False
  with owf have "ni = [] \<or> \<not> known_ni r ni \<or> \<not> supported op" by (auto simp: acceptable_def)
  from AddEntry_refused [OF reachable_inv(3) [OF env ok] this] ok show ?thesis by auto
qed

lemma reachable_delete:
  assumes "env_laws E" and "reachable E r" and "room r" and "DeleteEntry E ni opo r = ((oks, fails, err), r')"
  shows "reachable E r' \<and> err \<noteq> Some GoPanic"
  using assms rib_reach.del DeleteEntry_err unfolding reachable_def by blast

lemma AddNetworkInstance_err: "AddNetworkInstance name r = (Some e, r') \<Longrightarrow> r' = r"
  by (auto simp: AddNetworkInstance_def Let_def split: if_splits)

lemma reachable_ni: "reachable E r \<Longrightarrow> AddNetworkInstance name r = (err, r') \<Longrightarrow> reachable E r'"
  using AddNetworkInstance_err rib_reach.ni unfolding reachable_def by (cases err) blast+

lemma reachable_flush:
  assumes "env_laws E" and "reachable E r" and "room r" and "distinct nis" and "\<forall>n\<in>set nis. known_ni r n"
    and "Flush nis r = (err, r')"
  shows "reachable E r' \<and> err \<noteq> Some GoPanic \<and> err \<noteq> Some GoDeadlock"
proof
  show "reachable E r'" using assms(2-6) rib_reach.flush unfolding reachable_def by blast
  have "n_rib r < 2 ^ 64" using assms(3) by (simp add: room_def)
  then show "err \<noteq> Some GoPanic \<and> err \<noteq> Some GoDeadlock"
    by (rule Flush_err [OF reachable_inv(1) [OF assms(1,2)] _ assms(4-6)])
qed

interpretation rib: rib_service reachable
proof (unfold_locales)
  show "reachable E (start ph rh dn opt)" if "\<not> hasDisableCheckFn opt" for opt E ph rh dn
    unfolding reachable_def by (rule exI, rule rib_reach.init [OF that])
  show "gm_wf (niRIB r)" if "env_laws E" "reachable E r" for E r
    using reachable_inv(3) [OF that] by (simp add: rib_wf_def)
qed (blast intro: reachable_add reachable_delete reachable_ni reachable_flush
  dest: reachable_delete reachable_ni reachable_flush)+

end
