(* ===== verification/Server.thy ===== *)
theory Server
  imports RibOps
begin

text \<open>
  The gRIBI server of \<open>server/server.go\<close>: its options and constructor, the parameters and
  the election state it keeps for each connected client, the checks of its RPCs and the
  operations they perform on the RIB.

  A method that takes the \<open>*Server\<close> returns it updated.  The map \<open>cs\<close> holds no nil pointer
  (only \<open>newClient\<close> writes it), so a missing key stands for \<open>s.cs[id] == nil\<close>.  Each error
  return is a constructor of \<open>srv_err\<close>; its gRPC code and error detail are functions of it.
\<close>

subsection \<open>Errors and responses\<close>

datatype rpc_code = Internal | InvalidArgument | FailedPrecondition | Unimplemented | Code_Unknown

datatype modify_reason =
    Reason_UNKNOWN | MODIFY_NOT_ALLOWED | UNSUPPORTED_PARAMS | PARAMS_DIFFER_FROM_OTHER_CLIENTS
  | ELECTION_ID_IN_ALL_PRIMARY_modify

datatype flush_status =
    UNSPECIFIED_NETWORK_INSTANCE | INVALID_NETWORK_INSTANCE | UNSPECIFIED_ELECTION_BEHAVIOR
  | ELECTION_ID_IN_ALL_PRIMARY | INVALID_ELECTION_ID | NOT_PRIMARY

text \<open>\<open>SrvPanic\<close> and \<open>SrvDeadlock\<close> are no errors of the code: the process panics or hangs there.\<close>

datatype srv_err =
    DuplicateClient string | NoClientState string | CannotModifyParams
  | NilParams | ParamsAfterMessage | AllPrimaryPreserve | AllPrimaryUnsupported | DeleteUnsupported
  | ConsistencyCheck | ParamsDiffer string | SetParamsFailed
  | UnknownClient string | NoElectionsExpected string | ZeroElectionID string | CannotStoreElection string
  | OpUnknownClient string | ClientParamsUnsupported
  | NilOperation | NoElectionID | InvalidElectionState | NoClientElectionID | ElectionIDTooHigh Uint128 Uint128
  | InvalidRIBState | InvalidNIState string | FatalRIB AFTOperation_Operation rib_err
  | MultipleFields | UnimplementedMessage
  | NilGetRequest | EmptyGetNetworkInstance | UnimplementedAFT AFTType | GetInvalidNI string | GetRIBErr rib_err
  | CannotGet srv_err
  | NilFlush | FlushNoNI | FlushUnspecifiedElection | FlushIDInAllPrimary | FlushZeroID | FlushNotPrimary Uint128
  | FlushInvalidNI string | FlushFailed "rib_err list"
  | CannotCreateNI string rib_err
  | SrvPanic | SrvDeadlock

definition err_code :: "srv_err \<Rightarrow> rpc_code" where
  "err_code e = (case e of
     CannotModifyParams \<Rightarrow> FailedPrecondition | ParamsAfterMessage \<Rightarrow> FailedPrecondition
   | AllPrimaryPreserve \<Rightarrow> FailedPrecondition | AllPrimaryUnsupported \<Rightarrow> Unimplemented
   | DeleteUnsupported \<Rightarrow> Unimplemented | ParamsDiffer _ \<Rightarrow> FailedPrecondition
   | NoElectionsExpected _ \<Rightarrow> FailedPrecondition | ZeroElectionID _ \<Rightarrow> InvalidArgument
   | ClientParamsUnsupported \<Rightarrow> Unimplemented | NoElectionID \<Rightarrow> FailedPrecondition
   | NoClientElectionID \<Rightarrow> FailedPrecondition | ElectionIDTooHigh _ _ \<Rightarrow> FailedPrecondition
   | FatalRIB _ _ \<Rightarrow> Unimplemented | MultipleFields \<Rightarrow> InvalidArgument
   | UnimplementedMessage \<Rightarrow> Unimplemented | NilGetRequest \<Rightarrow> InvalidArgument
   | EmptyGetNetworkInstance \<Rightarrow> InvalidArgument | UnimplementedAFT _ \<Rightarrow> Unimplemented
   | GetInvalidNI _ \<Rightarrow> InvalidArgument | UnknownClient _ \<Rightarrow> Code_Unknown
   | GetRIBErr _ \<Rightarrow> Code_Unknown | CannotCreateNI _ _ \<Rightarrow> Code_Unknown
   | FlushNoNI \<Rightarrow> InvalidArgument | FlushUnspecifiedElection \<Rightarrow> FailedPrecondition
   | FlushIDInAllPrimary \<Rightarrow> FailedPrecondition | FlushZeroID \<Rightarrow> InvalidArgument
   | FlushNotPrimary _ \<Rightarrow> FailedPrecondition | FlushInvalidNI _ \<Rightarrow> InvalidArgument
   | _ \<Rightarrow> Internal)"

definition modify_detail :: "srv_err \<Rightarrow> modify_reason option" where
  "modify_detail e = (case e of
     CannotModifyParams \<Rightarrow> Some MODIFY_NOT_ALLOWED | ParamsAfterMessage \<Rightarrow> Some MODIFY_NOT_ALLOWED
   | AllPrimaryPreserve \<Rightarrow> Some UNSUPPORTED_PARAMS | AllPrimaryUnsupported \<Rightarrow> Some UNSUPPORTED_PARAMS
   | DeleteUnsupported \<Rightarrow> Some UNSUPPORTED_PARAMS | ParamsDiffer _ \<Rightarrow> Some PARAMS_DIFFER_FROM_OTHER_CLIENTS
   | NoElectionsExpected _ \<Rightarrow> Some ELECTION_ID_IN_ALL_PRIMARY_modify
   | ClientParamsUnsupported \<Rightarrow> Some UNSUPPORTED_PARAMS
   | NoElectionID \<Rightarrow> Some Reason_UNKNOWN | NoClientElectionID \<Rightarrow> Some Reason_UNKNOWN
   | FatalRIB _ _ \<Rightarrow> Some Reason_UNKNOWN | _ \<Rightarrow> None)"

definition flush_detail :: "srv_err \<Rightarrow> flush_status option" where
  "flush_detail e = (case e of
     FlushNoNI \<Rightarrow> Some UNSPECIFIED_NETWORK_INSTANCE | FlushInvalidNI _ \<Rightarrow> Some INVALID_NETWORK_INSTANCE
   | FlushUnspecifiedElection \<Rightarrow> Some UNSPECIFIED_ELECTION_BEHAVIOR
   | FlushIDInAllPrimary \<Rightarrow> Some ELECTION_ID_IN_ALL_PRIMARY | FlushZeroID \<Rightarrow> Some INVALID_ELECTION_ID
   | FlushNotPrimary _ \<Rightarrow> Some NOT_PRIMARY | _ \<Rightarrow> None)"

text \<open>The message of an \<open>AFTErrorDetails\<close>; a failure of the RIB carries its error, if any.\<close>

datatype result_msg =
  InvalidNIName | UnknownNI string | UnsupportedOpType AFTOperation_Operation | RIBFailure "rib_err option"

record AFTResult =
  res_Id :: u64
  res_Status :: AFTResult_Status
  res_ErrorDetails :: "result_msg option"

record ModifyResponse =
  resp_Result :: "AFTResult list"
  resp_ElectionId :: "Uint128 option"
  resp_SessionParamsResult :: "SessionParametersResult option"

definition result_response :: "AFTResult list \<Rightarrow> ModifyResponse" where
  "result_response rs = \<lparr>resp_Result = rs, resp_ElectionId = None, resp_SessionParamsResult = None\<rparr>"

subsection \<open>State\<close>

record clientParams =
  Persist :: bool
  ExpectElecID :: bool
  FIBAck :: bool

definition default_params :: clientParams where
  "default_params = \<lparr>Persist = False, ExpectElecID = False, FIBAck = False\<rparr>"

definition clientParams_DeepCopy :: "clientParams \<Rightarrow> clientParams" where
  "clientParams_DeepCopy cp = \<lparr>Persist = Persist cp, ExpectElecID = ExpectElecID cp, FIBAck = FIBAck cp\<rparr>"

definition clientParams_Equal :: "clientParams \<Rightarrow> clientParams \<Rightarrow> bool" where
  "clientParams_Equal cp n \<longleftrightarrow> Persist cp = Persist n \<and> FIBAck cp = FIBAck n \<and> ExpectElecID cp = ExpectElecID n"

record clientState =
  cs_params :: "clientParams option"
  cs_setParams :: bool
  cs_lastElecID :: "Uint128 option"

text \<open>Only the parameters are copied.\<close>

definition clientState_DeepCopy :: "clientState \<Rightarrow> clientState" where
  "clientState_DeepCopy cs = (case cs_params cs of
     None \<Rightarrow> \<lparr>cs_params = None, cs_setParams = False, cs_lastElecID = None\<rparr>
   | Some p \<Rightarrow> \<lparr>cs_params = Some (clientParams_DeepCopy p), cs_setParams = False, cs_lastElecID = None\<rparr>)"

record Server =
  srv_cs :: "(string, clientState) gomap"
  curElecID :: "Uint128 option"
  curMaster :: string
  masterRIB :: RIB

subsection \<open>Options and construction\<close>

text \<open>A hook option carries whether its function is non-nil.\<close>

datatype ServerOpt =
    WithPostChangeRIBHook bool
  | WithRIBResolvedEntryHook bool
  | SrvDisableRIBCheckFn
  | WithVRFs "string list"
  | WithNoRIBForwardReferences

fun hasPostChangeRIBHook :: "ServerOpt list \<Rightarrow> bool option" where
  "hasPostChangeRIBHook [] = None"
| "hasPostChangeRIBHook (WithPostChangeRIBHook f # os) = Some f"
| "hasPostChangeRIBHook (_ # os) = hasPostChangeRIBHook os"

fun hasResolvedEntryHook :: "ServerOpt list \<Rightarrow> bool option" where
  "hasResolvedEntryHook [] = None"
| "hasResolvedEntryHook (WithRIBResolvedEntryHook f # os) = Some f"
| "hasResolvedEntryHook (_ # os) = hasResolvedEntryHook os"

definition srv_hasDisableCheckFn :: "ServerOpt list \<Rightarrow> bool" where
  "srv_hasDisableCheckFn opt = list_ex (\<lambda>o'. o' = SrvDisableRIBCheckFn) opt"

fun hasWithVRFs :: "ServerOpt list \<Rightarrow> string list" where
  "hasWithVRFs [] = []"
| "hasWithVRFs (WithVRFs names # os) = names"
| "hasWithVRFs (_ # os) = hasWithVRFs os"

definition hasWithNoRIBForwardReferences :: "ServerOpt list \<Rightarrow> bool" where
  "hasWithNoRIBForwardReferences opt = list_ex (\<lambda>o'. o' = WithNoRIBForwardReferences) opt"

definition DefaultNetworkInstanceName :: string where
  "DefaultNetworkInstanceName = ''DEFAULT''"

fun add_vrfs :: "string list \<Rightarrow> RIB \<Rightarrow> srv_err + RIB" where
  "add_vrfs [] r = Inr r"
| "add_vrfs (n # ns) r =
     (case AddNetworkInstance n r of
        (Some e, _) \<Rightarrow> Inl (CannotCreateNI n e)
      | (None, r') \<Rightarrow> add_vrfs ns r')"

definition NewServer :: "ServerOpt list \<Rightarrow> srv_err + Server" where
  "NewServer opt =
     (let ribOpt = (if srv_hasDisableCheckFn opt then [DisableRIBCheckFn] else []) @
                   (if hasWithNoRIBForwardReferences opt then [DisableForwardReferences] else []);
          r0 = New DefaultNetworkInstanceName ribOpt;
          r1 = (case hasPostChangeRIBHook opt of None \<Rightarrow> r0 | Some f \<Rightarrow> SetPostChangeHook f r0);
          r2 = (case hasResolvedEntryHook opt of None \<Rightarrow> r1 | Some f \<Rightarrow> SetResolvedEntryHook f r1)
      in case add_vrfs (hasWithVRFs opt) r2 of
           Inl e \<Rightarrow> Inl e
         | Inr r \<Rightarrow> Inr \<lparr>srv_cs = [], curElecID = None, curMaster = [], masterRIB = r\<rparr>)"

definition ServerAddNetworkInstance :: "string \<Rightarrow> Server \<Rightarrow> rib_err option \<times> Server" where
  "ServerAddNetworkInstance ni s =
     (case AddNetworkInstance ni (masterRIB s) of (e, r) \<Rightarrow> (e, s\<lparr>masterRIB := r\<rparr>))"

text \<open>The fake server wraps a server and overwrites parts of its state.\<close>

definition InjectRIB :: "RIB \<Rightarrow> Server \<Rightarrow> Server" where
  "InjectRIB r s = s\<lparr>masterRIB := r\<rparr>"

definition InjectElectionID :: "Uint128 option \<Rightarrow> Server \<Rightarrow> Server" where
  "InjectElectionID i s = s\<lparr>curElecID := i\<rparr>"

subsection \<open>Clients and their parameters\<close>

definition newClient :: "string \<Rightarrow> Server \<Rightarrow> srv_err option \<times> Server" where
  "newClient i s =
     (if gm_get (srv_cs s) i \<noteq> None then (Some (DuplicateClient i), s)
      else (None, s\<lparr>srv_cs := gm_put i
              \<lparr>cs_params = Some default_params, cs_setParams = False, cs_lastElecID = None\<rparr> (srv_cs s)\<rparr>))"

definition deleteClient :: "string \<Rightarrow> Server \<Rightarrow> Server" where
  "deleteClient i s = s\<lparr>srv_cs := gm_del i (srv_cs s)\<rparr>"

definition updateParams :: "string \<Rightarrow> SessionParameters \<Rightarrow> Server \<Rightarrow> srv_err option \<times> Server" where
  "updateParams i params s =
     (let cparam = \<lparr>Persist = (sp_Persistence params = PRESERVE),
                    ExpectElecID = (sp_Redundancy params = SINGLE_PRIMARY),
                    FIBAck = (sp_AckType params = RIB_AND_FIB_ACK)\<rparr>
      in case gm_get (srv_cs s) i of
           None \<Rightarrow> (Some (NoClientState i), s)
         | Some p \<Rightarrow>
             if cs_params p = None then (Some (NoClientState i), s)
             else if cs_setParams p then (Some CannotModifyParams, s)
             else (None, s\<lparr>srv_cs := gm_put i (p\<lparr>cs_setParams := True, cs_params := Some cparam\<rparr>) (srv_cs s)\<rparr>))"

text \<open>The loop over the map stops at the first client that has no parameters or other ones.\<close>

fun consistent_with :: "string \<Rightarrow> clientParams \<Rightarrow> (string, clientState) gomap \<Rightarrow> srv_err + bool" where
  "consistent_with i p [] = Inr True"
| "consistent_with i p ((cid, state) # rest) =
     (if i = cid then consistent_with i p rest
      else case cs_params state of
        None \<Rightarrow> Inl ConsistencyCheck
      | Some q \<Rightarrow> if \<not> clientParams_Equal q p then Inr False else consistent_with i p rest)"

definition checkClientsConsistent :: "string \<Rightarrow> clientParams option \<Rightarrow> Server \<Rightarrow> srv_err + bool" where
  "checkClientsConsistent i po s =
     (case po of None \<Rightarrow> Inl ConsistencyCheck | Some p \<Rightarrow> consistent_with i p (srv_cs s))"

definition setClientParams :: "string \<Rightarrow> clientParams \<Rightarrow> Server \<Rightarrow> srv_err option \<times> Server" where
  "setClientParams i p s =
     (case gm_get (srv_cs s) i of
        None \<Rightarrow> (Some SetParamsFailed, s)
      | Some cs \<Rightarrow> (None, s\<lparr>srv_cs := gm_put i (cs\<lparr>cs_params := Some p\<rparr>) (srv_cs s)\<rparr>))"

definition checkParams ::
    "string \<Rightarrow> SessionParameters option \<Rightarrow> bool \<Rightarrow> Server \<Rightarrow> (srv_err + ModifyResponse) \<times> Server" where
  "checkParams i po gotMsg s =
     (case po of
        None \<Rightarrow> (Inl NilParams, s)
      | Some p \<Rightarrow>
         if gotMsg then (Inl ParamsAfterMessage, s)
         else if sp_Redundancy p = ALL_PRIMARY \<and> sp_Persistence p = PRESERVE then (Inl AllPrimaryPreserve, s)
         else if sp_Redundancy p = ALL_PRIMARY then (Inl AllPrimaryUnsupported, s)
         else if sp_Persistence p = Persist_DELETE then (Inl DeleteUnsupported, s)
         else
          (let cp = \<lparr>Persist = (sp_Persistence p = PRESERVE), ExpectElecID = (sp_Redundancy p = SINGLE_PRIMARY),
                     FIBAck = (sp_AckType p = RIB_AND_FIB_ACK)\<rparr>
           in case checkClientsConsistent i (Some cp) s of
                Inl e \<Rightarrow> (Inl e, s)
              | Inr consistent \<Rightarrow>
                 if \<not> consistent then (Inl (ParamsDiffer i), s)
                 else case setClientParams i cp s of
                   (Some e, s') \<Rightarrow> (Inl e, s')
                 | (None, s') \<Rightarrow>
                     (Inr \<lparr>resp_Result = [], resp_ElectionId = None,
                           resp_SessionParamsResult = Some SessionParams_OK\<rparr>, s')))"

subsection \<open>Elections\<close>

text \<open>The third result, an error, is always nil.\<close>

definition isNewMaster :: "Uint128 \<Rightarrow> Uint128 option \<Rightarrow> bool \<times> bool" where
  "isNewMaster cand existo =
     (case existo of
        None \<Rightarrow> (True, False)
      | Some exist \<Rightarrow>
          if High cand > High exist then (True, False)
          else if Low cand > Low exist then (True, False)
          else if High cand = High exist \<and> Low cand = Low exist then (True, True)
          else (False, False))"

definition getClientState :: "string \<Rightarrow> Server \<Rightarrow> clientState option" where
  "getClientState i s = gm_get (srv_cs s) i"

definition storeClientElectionID :: "string \<Rightarrow> Uint128 \<Rightarrow> Server \<Rightarrow> bool \<times> Server" where
  "storeClientElectionID i elecID s =
     (case gm_get (srv_cs s) i of
        None \<Rightarrow> (False, s)
      | Some cs \<Rightarrow> (True, s\<lparr>srv_cs := gm_put i (cs\<lparr>cs_lastElecID := Some elecID\<rparr>) (srv_cs s)\<rparr>))"

definition getClientStateCopy :: "string \<Rightarrow> Server \<Rightarrow> srv_err + clientState" where
  "getClientStateCopy i s =
     (case gm_get (srv_cs s) i of
        None \<Rightarrow> Inl (UnknownClient i)
      | Some cs \<Rightarrow> Inr (clientState_DeepCopy cs))"

definition runElection :: "string \<Rightarrow> Uint128 \<Rightarrow> Server \<Rightarrow> (srv_err + ModifyResponse) \<times> Server" where
  "runElection i elecID s =
     (case getClientStateCopy i s of
        Inl e \<Rightarrow> (Inl e, s)
      | Inr cs \<Rightarrow>
     (case cs_params cs of
        None \<Rightarrow> (Inl SrvPanic, s)
      | Some p \<Rightarrow>
         if \<not> ExpectElecID p then (Inl (NoElectionsExpected i), s)
         else if u128 elecID = 0 then (Inl (ZeroElectionID i), s)
         else
          (case storeClientElectionID i elecID s of
             (False, s1) \<Rightarrow> (Inl (CannotStoreElection i), s1)
           | (True, s1) \<Rightarrow>
              (let nm = fst (isNewMaster elecID (curElecID s1));
                   s2 = (if nm then s1\<lparr>curElecID := Some elecID, curMaster := i\<rparr> else s1)
               in (Inr \<lparr>resp_Result = [], resp_ElectionId = curElecID s2, resp_SessionParamsResult = None\<rparr>, s2)))))"

record electionDetails =
  ed_master :: string
  ed_ID :: "Uint128 option"
  ed_client :: string
  ed_clientLatest :: "Uint128 option"

definition getElection :: "Server \<Rightarrow> electionDetails" where
  "getElection s = \<lparr>ed_master = curMaster s, ed_ID = curElecID s, ed_client = [], ed_clientLatest = None\<rparr>"

definition failed_response :: "u64 \<Rightarrow> result_msg option \<Rightarrow> ModifyResponse" where
  "failed_response i m = result_response [\<lparr>res_Id = i, res_Status = Res_FAILED, res_ErrorDetails = m\<rparr>]"

definition checkElectionForModify ::
    "u64 \<Rightarrow> Uint128 option \<Rightarrow> electionDetails option
     \<Rightarrow> ModifyResponse option \<times> bool \<times> srv_err option" where
  "checkElectionForModify opID opElecID electionO =
     (case opElecID of
        None \<Rightarrow> (None, False, Some NoElectionID)
      | Some opE \<Rightarrow>
     (case electionO of
        None \<Rightarrow> (None, False, Some InvalidElectionState)
      | Some election \<Rightarrow>
         if ed_master election = [] then (None, False, Some InvalidElectionState)
         else
     (case ed_ID election of
        None \<Rightarrow> (None, False, Some InvalidElectionState)
      | Some eID \<Rightarrow>
     (case ed_clientLatest election of
        None \<Rightarrow> (None, False, Some NoClientElectionID)
      | Some latest \<Rightarrow>
         if ed_client election \<noteq> ed_master election then (Some (failed_response opID None), False, None)
         else if u128 opE \<noteq> u128 latest then (Some (failed_response opID None), False, None)
         else if u128 opE > u128 eID then (None, False, Some (ElectionIDTooHigh opE eID))
         else if u128 opE < u128 eID then (Some (failed_response opID None), False, None)
         else (None, True, None)))))"

subsection \<open>Modify\<close>

definition ok_results :: "bool \<Rightarrow> OpResult list \<Rightarrow> AFTResult list" where
  "ok_results fibACK oks =
     concat (map (\<lambda>o'. \<lparr>res_Id = or_ID o', res_Status = RIB_PROGRAMMED, res_ErrorDetails = None\<rparr> #
       (if fibACK then [\<lparr>res_Id = or_ID o', res_Status = FIB_PROGRAMMED, res_ErrorDetails = None\<rparr>] else [])) oks)"

definition fail_results :: "OpResult list \<Rightarrow> AFTResult list" where
  "fail_results fails =
     map (\<lambda>f. \<lparr>res_Id = or_ID f, res_Status = Res_FAILED, res_ErrorDetails = Some (RIBFailure (or_Error f))\<rparr>) fails"

text \<open>
  The end of \<open>modifyEntry\<close>, once the RIB has answered; a \<open>GoPanic\<close> of the RIB takes the
  server down.
\<close>

definition modify_result ::
    "AFTOperation \<Rightarrow> bool \<Rightarrow> OpResult list \<Rightarrow> OpResult list \<Rightarrow> rib_err option \<Rightarrow> srv_err + ModifyResponse" where
  "modify_result op fibACK oks faileds ribFatalErr =
     (case ribFatalErr of
        Some e \<Rightarrow> Inl (if e = GoPanic then SrvPanic else FatalRIB (op_Op op) e)
      | None \<Rightarrow> Inr (result_response (ok_results fibACK oks @ fail_results faileds)))"

text \<open>
  \<open>modifyEntry\<close>.  \<open>None\<close> is a call whose RIB operation does not end within its fuel.  A nil
  response with no error would be sent as the empty message.
\<close>

definition modifyEntry ::
    "rib_env \<Rightarrow> schedule \<Rightarrow> RIB option \<Rightarrow> string \<Rightarrow> AFTOperation option \<Rightarrow> bool \<Rightarrow> electionDetails option
     \<Rightarrow> ((srv_err + ModifyResponse) \<times> RIB option) option" where
  "modifyEntry E sched ro ni opo fibACK election =
     (case opo of
        None \<Rightarrow> Some (Inl NilOperation, ro)
      | Some op \<Rightarrow>
     (case checkElectionForModify (op_Id op) (op_ElectionId op) election of
        (res, ok, err) \<Rightarrow>
     (case err of
        Some e \<Rightarrow> Some (Inl e, ro)
      | None \<Rightarrow>
         if \<not> ok then Some (Inr (case res of Some m \<Rightarrow> m | None \<Rightarrow> result_response []), ro)
         else
     (case ro of
        None \<Rightarrow> Some (Inl InvalidRIBState, ro)
      | Some r \<Rightarrow>
     (case NetworkInstanceRIB r ni of
        None \<Rightarrow> Some (Inl (InvalidNIState ni), ro)
      | Some niR \<Rightarrow>
         if \<not> IsValid niR then Some (Inl (InvalidNIState ni), ro)
         else if op_Op op = Op_ADD \<or> op_Op op = Op_REPLACE then
           (case AddEntry E sched ni op r of
              None \<Rightarrow> None
            | Some (Inl e, r') \<Rightarrow> Some (modify_result op fibACK [] [] (Some e), Some r')
            | Some (Inr (oks, faileds), r') \<Rightarrow> Some (modify_result op fibACK oks faileds None, Some r'))
         else if op_Op op = Op_DELETE then
           (case DeleteEntry E ni (Some op) r of
              ((oks, faileds, fatal), r') \<Rightarrow> Some (modify_result op fibACK oks faileds fatal, Some r'))
         else Some (Inr (failed_response (op_Id op) (Some (UnsupportedOpType (op_Op op)))), ro))))))"

text \<open>What a handler writes to its channels: a response, or the error that ends the RPC.\<close>

datatype event = Response ModifyResponse | RPCError srv_err

text \<open>The checks of \<open>doModify\<close>, and the election as it is read before the loop.\<close>

definition begin_modify :: "string \<Rightarrow> Server \<Rightarrow> srv_err + (bool \<times> electionDetails)" where
  "begin_modify cid s =
     (case getClientState cid s of
        None \<Rightarrow> Inl (OpUnknownClient cid)
      | Some cs \<Rightarrow>
     (case cs_params cs of
        None \<Rightarrow> Inl ClientParamsUnsupported
      | Some p \<Rightarrow>
         if \<not> ExpectElecID p \<or> \<not> Persist p then Inl ClientParamsUnsupported
         else Inr (FIBAck p, (getElection s)\<lparr>ed_clientLatest := cs_lastElecID cs, ed_client := cid\<rparr>)))"

text \<open>
  One round of its loop.  An empty network instance name is reported, and then looked up
  like any other.
\<close>

definition modify_op ::
    "rib_env \<Rightarrow> schedule \<Rightarrow> bool \<Rightarrow> electionDetails \<Rightarrow> AFTOperation \<Rightarrow> Server \<Rightarrow> (event list \<times> Server) option" where
  "modify_op E sched fibACK elec o' s =
     (let ni = op_NetworkInstance o';
          empty = (if ni = [] then [Response (failed_response (op_Id o') (Some InvalidNIName))] else [])
      in case NetworkInstanceRIB (masterRIB s) ni of
           None \<Rightarrow> Some (empty @ [Response (failed_response (op_Id o') (Some (UnknownNI ni)))], s)
         | Some _ \<Rightarrow>
             (case modifyEntry E sched (Some (masterRIB s)) ni (Some o') fibACK (Some elec) of
                None \<Rightarrow> None
              | Some (res, ro) \<Rightarrow>
                  Some (empty @ [case res of Inl e \<Rightarrow> RPCError e | Inr rsp \<Rightarrow> Response rsp],
                        (case ro of None \<Rightarrow> s | Some r \<Rightarrow> s\<lparr>masterRIB := r\<rparr>))))"

fun modify_ops ::
    "rib_env \<Rightarrow> schedule \<Rightarrow> bool \<Rightarrow> electionDetails \<Rightarrow> AFTOperation list \<Rightarrow> Server \<Rightarrow> (event list \<times> Server) option" where
  "modify_ops E sched fibACK elec [] s = Some ([], s)"
| "modify_ops E sched fibACK elec (o' # os) s =
     (case modify_op E sched fibACK elec o' s of
        None \<Rightarrow> None
      | Some (evs, s') \<Rightarrow>
          (case modify_ops E sched fibACK elec os s' of
             None \<Rightarrow> None
           | Some (evs', s'') \<Rightarrow> Some (evs @ evs', s'')))"

definition doModify ::
    "rib_env \<Rightarrow> schedule \<Rightarrow> string \<Rightarrow> AFTOperation list \<Rightarrow> Server \<Rightarrow> (event list \<times> Server) option" where
  "doModify E sched cid ops s =
     (case begin_modify cid s of
        Inl e \<Rightarrow> Some ([RPCError e], s)
      | Inr (fibACK, elec) \<Rightarrow> modify_ops E sched fibACK elec ops s)"

text \<open>
  The switch of the goroutine that reads a Modify stream, up to the call of \<open>doModify\<close>: the
  message is answered, needs no answer, ends the RPC with an error, or carries operations.
\<close>

datatype recv_result = Reply ModifyResponse | NoReply | Abort srv_err | Operations "AFTOperation list"

definition recv_msg ::
    "string \<Rightarrow> bool \<Rightarrow> ModifyRequest option \<Rightarrow> Server \<Rightarrow> recv_result \<times> Server" where
  "recv_msg cid gotmsg ino s =
     (case ino of
        None \<Rightarrow> (NoReply, s)
      | Some m \<Rightarrow>
         if (mreq_Params m \<noteq> None \<and> mreq_ElectionId m \<noteq> None) \<or>
            (mreq_Params m \<noteq> None \<and> mreq_Operation m \<noteq> []) \<or>
            (mreq_ElectionId m \<noteq> None \<and> mreq_Operation m \<noteq> [])
         then (Abort MultipleFields, s)
         else
     (case mreq_Params m of
        Some p \<Rightarrow>
          (case checkParams cid (Some p) gotmsg s of
             (Inl e, s1) \<Rightarrow> (Abort e, s1)
           | (Inr res, s1) \<Rightarrow>
               (case updateParams cid p s1 of
                  (Some e, s2) \<Rightarrow> (Abort e, s2)
                | (None, s2) \<Rightarrow> (Reply res, s2)))
      | None \<Rightarrow>
     (case mreq_ElectionId m of
        Some eid \<Rightarrow>
          (case runElection cid eid s of
             (Inl e, s1) \<Rightarrow> (Abort e, s1)
           | (Inr res, s1) \<Rightarrow> (Reply res, s1))
      | None \<Rightarrow>
         if mreq_Operation m \<noteq> [] then (Operations (mreq_Operation m), s)
         else (Abort UnimplementedMessage, s))))"

text \<open>
  A whole Modify stream of one client, with nothing happening in between: the reading
  goroutine of \<open>Modify\<close> and its writer.  The stream ends with the first error, or when the
  client closes it (the end of the list).
\<close>

fun first_error :: "event list \<Rightarrow> ModifyResponse list \<times> srv_err option" where
  "first_error [] = ([], None)"
| "first_error (Response m # es) = (case first_error es of (ms, e) \<Rightarrow> (m # ms, e))"
| "first_error (RPCError e # es) = ([], Some e)"

fun modify_stream ::
    "rib_env \<Rightarrow> schedule \<Rightarrow> string \<Rightarrow> bool \<Rightarrow> ModifyRequest option list \<Rightarrow> Server
     \<Rightarrow> (ModifyResponse list \<times> srv_err option \<times> Server) option" where
  "modify_stream E sched cid gotmsg [] s = Some ([], None, s)"
| "modify_stream E sched cid gotmsg (m # ms) s =
     (case recv_msg cid gotmsg m s of
        (Abort e, s1) \<Rightarrow> Some ([], Some e, s1)
      | (Reply res, s1) \<Rightarrow>
          (case modify_stream E sched cid True ms s1 of
             None \<Rightarrow> None
           | Some (out, e, s2) \<Rightarrow> Some (res # out, e, s2))
      | (NoReply, s1) \<Rightarrow> modify_stream E sched cid True ms s1
      | (Operations ops, s1) \<Rightarrow>
          (case doModify E sched cid ops s1 of
             None \<Rightarrow> None
           | Some (evs, s2) \<Rightarrow>
               (case first_error evs of
                  (out, Some e) \<Rightarrow> Some (out, Some e, s2)
                | (out, None) \<Rightarrow>
                    (case modify_stream E sched cid True ms s2 of
                       None \<Rightarrow> None
                     | Some (out', e, s3) \<Rightarrow> Some (out @ out', e, s3)))))"

definition Modify ::
    "rib_env \<Rightarrow> schedule \<Rightarrow> string \<Rightarrow> ModifyRequest option list \<Rightarrow> Server
     \<Rightarrow> (ModifyResponse list \<times> srv_err option \<times> Server) option" where
  "Modify E sched cid ms s =
     (case newClient cid s of
        (Some e, s1) \<Rightarrow> Some ([], Some e, s1)
      | (None, s1) \<Rightarrow>
          (case modify_stream E sched cid False ms s1 of
             None \<Rightarrow> None
           | Some (out, e, s2) \<Rightarrow> Some (out, e, deleteClient cid s2)))"

subsection \<open>Get\<close>

text \<open>
  \<open>doGet\<close> writes messages and errors to its channels.  \<open>stop n\<close> says whether \<open>stopCh\<close> is
  ready when \<open>n\<close> messages have been written; \<open>GetRIB\<close> then returns no error, so the loop goes
  on with the next network instance.
\<close>

datatype get_event = GetMsg GetResponse | GetError srv_err

fun get_nis ::
    "rib_env \<Rightarrow> (AFTType \<Rightarrow> bool) \<Rightarrow> (nat \<Rightarrow> bool) \<Rightarrow> string list \<Rightarrow> Server \<Rightarrow> get_event list" where
  "get_nis E flt stop [] s = []"
| "get_nis E flt stop (ni # nis) s =
     (case NetworkInstanceRIB (masterRIB s) ni of
        None \<Rightarrow> [GetError (GetInvalidNI ni)]
      | Some netInst \<Rightarrow>
          (case GetRIB E flt stop netInst of
             (GetErr e, msgs) \<Rightarrow> map GetMsg msgs @ [GetError (GetRIBErr e)]
           | (_, msgs) \<Rightarrow> map GetMsg msgs @ get_nis E flt (\<lambda>n. stop (length msgs + n)) nis s))"

definition get_supported :: "AFTType \<Rightarrow> bool" where
  "get_supported v = (v \<in> {AFT_ALL, AFT_IPV4, AFT_NEXTHOP, AFT_NEXTHOP_GROUP, AFT_MPLS, AFT_IPV6})"

definition doGet :: "rib_env \<Rightarrow> (nat \<Rightarrow> bool) \<Rightarrow> GetRequest option \<Rightarrow> Server \<Rightarrow> get_event list" where
  "doGet E stop reqo s =
     (case reqo of
        None \<Rightarrow> [GetError NilGetRequest]
      | Some req \<Rightarrow>
     (let unsupported = (if get_supported (get_Aft req) then [] else [GetError (UnimplementedAFT (get_Aft req))]);
          flt = (\<lambda>t. get_supported (get_Aft req) \<and> t = get_Aft req)
      in case get_NetworkInstance req of
           Some (NI_Name n) \<Rightarrow>
             if n = [] then [GetError EmptyGetNetworkInstance]
             else unsupported @ get_nis E flt stop [n] s
         | Some NI_All \<Rightarrow> unsupported @ get_nis E flt stop (KnownNetworkInstances (masterRIB s)) s
         | None \<Rightarrow> unsupported))"

text \<open>\<open>Get\<close> forwards the messages up to the first error; nothing stops it before.\<close>

fun get_loop :: "get_event list \<Rightarrow> GetResponse list \<times> srv_err option" where
  "get_loop [] = ([], None)"
| "get_loop (GetError e # es) = ([], Some (CannotGet e))"
| "get_loop (GetMsg r # es) = (case get_loop es of (rs, e) \<Rightarrow> (r # rs, e))"

definition Get :: "rib_env \<Rightarrow> GetRequest option \<Rightarrow> Server \<Rightarrow> GetResponse list \<times> srv_err option" where
  "Get E req s = get_loop (doGet E (\<lambda>_. False) req s)"

subsection \<open>Flush\<close>

definition checkFlushRequest :: "FlushRequest option \<Rightarrow> Server \<Rightarrow> srv_err option" where
  "checkFlushRequest reqo s =
     (case reqo of
        None \<Rightarrow> Some NilFlush
      | Some req \<Rightarrow>
         if flush_NetworkInstance req = None then Some FlushNoNI
         else
     (case flush_Election req of
        Some Flush_Override \<Rightarrow> None
      | None \<Rightarrow> if curElecID s = None then None else Some FlushUnspecifiedElection
      | Some (Flush_Id i) \<Rightarrow>
         (case curElecID s of
            None \<Rightarrow> Some FlushIDInAllPrimary
          | Some existing \<Rightarrow>
             if u128 i = 0 then Some FlushZeroID
             else if u128 i < u128 existing then Some (FlushNotPrimary i)
             else None)))"

text \<open>The error of a failed \<open>Flush\<close>; a panic and a deadlock of the RIB are the server's own.\<close>

definition flush_error :: "rib_err \<Rightarrow> srv_err" where
  "flush_error e =
     (if e = GoPanic then SrvPanic else if e = GoDeadlock then SrvDeadlock
      else case e of FlushErr errs \<Rightarrow> FlushFailed errs | _ \<Rightarrow> FlushFailed [e])"

definition ServerFlush :: "FlushRequest option \<Rightarrow> Server \<Rightarrow> srv_err option \<times> Server" where
  "ServerFlush reqo s =
     (case checkFlushRequest reqo s of
        Some e \<Rightarrow> (Some e, s)
      | None \<Rightarrow>
     (let run = (\<lambda>nis. case Flush nis (masterRIB s) of
            (e, r) \<Rightarrow> (map_option flush_error e, s\<lparr>masterRIB := r\<rparr>))
      in case Option.bind reqo flush_NetworkInstance of
           Some NI_All \<Rightarrow> run (KnownNetworkInstances (masterRIB s))
         | Some (NI_Name n) \<Rightarrow>
             (case NetworkInstanceRIB (masterRIB s) n of
                None \<Rightarrow> (Some (FlushInvalidNI n), s)
              | Some _ \<Rightarrow> run [n])
         | None \<Rightarrow> run []))"

end
