(* ===== verification/ServerRun.thy ===== *)
theory ServerRun
  imports RibService Server
begin

text \<open>
  Runs of the server: any number of Modify streams, whose operations interleave one by one,
  with Flush calls and new network instances in between.  Each connected stream has a
  reader, the goroutine of \<open>Modify\<close> that receives messages; while it works through the
  operations of a message it keeps the election details it read before the first of them.
  A reader whose operation ended the RPC may go on with its remaining operations, as the
  goroutine does until a channel blocks it.
\<close>

subsection \<open>Steps\<close>

record reader =
  rd_gotmsg :: bool
  rd_work :: "(bool \<times> electionDetails \<times> AFTOperation list) option"

record world =
  w_srv :: Server
  w_readers :: "(string, reader) gomap"
  w_used :: "string list"

definition has_error :: "event list \<Rightarrow> bool" where
  "has_error evs = list_ex (\<lambda>e. case e of RPCError _ \<Rightarrow> True | _ \<Rightarrow> False) evs"

text \<open>The reader after a message that carried operations: \<open>doModify\<close> has made its checks.\<close>

definition reader_after :: "string \<Rightarrow> recv_result \<Rightarrow> Server \<Rightarrow> reader" where
  "reader_after cid res s = \<lparr>rd_gotmsg = True,
     rd_work = (case res of
       Operations ops \<Rightarrow> (case begin_modify cid s of Inl _ \<Rightarrow> None | Inr (fib, elec) \<Rightarrow> Some (fib, elec, ops))
     | _ \<Rightarrow> None)\<rparr>"

definition ends_rpc :: "string \<Rightarrow> recv_result \<Rightarrow> Server \<Rightarrow> bool" where
  "ends_rpc cid res s = (case res of
     Abort _ \<Rightarrow> True
   | Operations ops \<Rightarrow> (case begin_modify cid s of Inl _ \<Rightarrow> True | Inr _ \<Rightarrow> False)
   | _ \<Rightarrow> False)"

text \<open>
  Client identifiers are fresh UUIDs, never empty and never reused.  The operations are
  well-formed and the RIB has room, as for the runs of the RIB alone.
\<close>

inductive srv_step :: "rib_env \<Rightarrow> world \<Rightarrow> world \<Rightarrow> bool" for E where
  connect: "cid \<noteq> [] \<Longrightarrow> cid \<notin> set (w_used w) \<Longrightarrow> newClient cid (w_srv w) = (None, s') \<Longrightarrow>
    srv_step E w \<lparr>w_srv = s', w_readers = gm_put cid \<lparr>rd_gotmsg = False, rd_work = None\<rparr> (w_readers w),
                  w_used = cid # w_used w\<rparr>"
| message: "gm_get (w_readers w) cid = Some \<lparr>rd_gotmsg = g, rd_work = None\<rparr> \<Longrightarrow>
    recv_msg cid g m (w_srv w) = (res, s') \<Longrightarrow> \<not> ends_rpc cid res s' \<Longrightarrow>
    srv_step E w (w\<lparr>w_srv := s', w_readers := gm_put cid (reader_after cid res s') (w_readers w)\<rparr>)"
| abort: "gm_get (w_readers w) cid = Some \<lparr>rd_gotmsg = g, rd_work = None\<rparr> \<Longrightarrow>
    recv_msg cid g m (w_srv w) = (res, s') \<Longrightarrow> ends_rpc cid res s' \<Longrightarrow>
    srv_step E w (w\<lparr>w_srv := deleteClient cid s', w_readers := gm_del cid (w_readers w)\<rparr>)"
| operation: "gm_get (w_readers w) cid = Some rd \<Longrightarrow> rd_work rd = Some (fib, elec, op # ops) \<Longrightarrow>
    fair sched \<Longrightarrow> op_wf op \<Longrightarrow> room (masterRIB (w_srv w)) \<Longrightarrow>
    modify_op E sched fib elec op (w_srv w) = Some (evs, s') \<Longrightarrow>
    srv_step E w (w\<lparr>w_srv := (if has_error evs then deleteClient cid s' else s'),
                   w_readers := gm_put cid (rd\<lparr>rd_work := Some (fib, elec, ops)\<rparr>) (w_readers w)\<rparr>)"
| finish: "gm_get (w_readers w) cid = Some rd \<Longrightarrow> rd_work rd = Some (fib, elec, []) \<Longrightarrow>
    srv_step E w (w\<lparr>w_readers := gm_put cid (rd\<lparr>rd_work := None\<rparr>) (w_readers w)\<rparr>)"
| close: "gm_get (w_readers w) cid = Some rd \<Longrightarrow>
    srv_step E w (w\<lparr>w_srv := deleteClient cid (w_srv w), w_readers := gm_del cid (w_readers w)\<rparr>)"
| flush: "room (masterRIB (w_srv w)) \<Longrightarrow> ServerFlush req (w_srv w) = (err, s') \<Longrightarrow> srv_step E w (w\<lparr>w_srv := s'\<rparr>)"
| add_ni: "ServerAddNetworkInstance ni (w_srv w) = (err, s') \<Longrightarrow> srv_step E w (w\<lparr>w_srv := s'\<rparr>)"

inductive_cases srv_step_cases: "srv_step E w w'"

inductive srv_reach :: "rib_env \<Rightarrow> world \<Rightarrow> bool" for E where
  init: "NewServer opt = Inr s \<Longrightarrow> \<not> srv_hasDisableCheckFn opt \<Longrightarrow>
    srv_reach E \<lparr>w_srv = s, w_readers = [], w_used = []\<rparr>"
| step: "srv_reach E w \<Longrightarrow> srv_step E w w' \<Longrightarrow> srv_reach E w'"

subsection \<open>The RIB of a running server\<close>

lemma recv_msg_rib [simp]: "recv_msg cid g m s = (res, s') \<Longrightarrow> masterRIB s' = masterRIB s"
  by (auto simp: recv_msg_def checkParams_def updateParams_def setClientParams_def runElection_def
      storeClientElectionID_def Let_def split: option.splits if_splits sum.splits prod.splits)

lemma client_rib [simp]:
  "newClient i s = (e, s') \<Longrightarrow> masterRIB s' = masterRIB s" "masterRIB (deleteClient i s) = masterRIB s"
  by (auto simp: newClient_def deleteClient_def split: if_splits)

lemma KnownNetworkInstances_mset: "mset (KnownNetworkInstances r) = mset (map fst (niRIB r))"
proof -
  have i: "mset (insert_string x ys) = add_mset x (mset ys)" for x ys by (induction ys) auto
  have "mset (foldr insert_string xs []) = mset xs" for xs by (induction xs) (simp_all add: i)
  then show ?thesis by (simp add: KnownNetworkInstances_def)
qed

lemma KnownNetworkInstances_known:
  assumes "gm_wf (niRIB r)"
  shows "distinct (KnownNetworkInstances r)" and "n \<in> set (KnownNetworkInstances r) \<longleftrightarrow> known_ni r n"
proof -
  show "distinct (KnownNetworkInstances r)"
    using assms KnownNetworkInstances_mset by (metis mset_eq_imp_distinct_iff)
  have "set (KnownNetworkInstances r) = set (map fst (niRIB r))"
    using KnownNetworkInstances_mset by (metis set_mset_mset)
  then show "n \<in> set (KnownNetworkInstances r) \<longleftrightarrow> known_ni r n"
    by (simp add: known_ni_def map_of_eq_None_iff)
qed

text \<open>What a Flush call asks the RIB to do.\<close>

definition flush_targets :: "FlushRequest option \<Rightarrow> RIB \<Rightarrow> string list" where
  "flush_targets reqo r = (case Option.bind reqo flush_NetworkInstance of
     Some NI_All \<Rightarrow> KnownNetworkInstances r | Some (NI_Name n) \<Rightarrow> [n] | None \<Rightarrow> [])"

definition flush_refused :: "FlushRequest option \<Rightarrow> Server \<Rightarrow> srv_err option" where
  "flush_refused reqo s = (case checkFlushRequest reqo s of
     Some e \<Rightarrow> Some e
   | None \<Rightarrow> (case Option.bind reqo flush_NetworkInstance of
        Some (NI_Name n) \<Rightarrow> if NetworkInstanceRIB (masterRIB s) n = None then Some (FlushInvalidNI n) else None
      | _ \<Rightarrow> None))"

lemma ServerFlush_eq:
  "ServerFlush reqo s = (case flush_refused reqo s of
     Some e \<Rightarrow> (Some e, s)
   | None \<Rightarrow> (map_option flush_error (fst (Flush (flush_targets reqo (masterRIB s)) (masterRIB s))),
       s\<lparr>masterRIB := snd (Flush (flush_targets reqo (masterRIB s)) (masterRIB s))\<rparr>))"
  unfolding ServerFlush_def flush_refused_def flush_targets_def Let_def case_prod_beta
  by (simp split: option.split NetworkInstanceSel.split)

lemma flush_error_panic: "flush_error e = SrvPanic \<longleftrightarrow> e = GoPanic" "flush_error e = SrvDeadlock \<longleftrightarrow> e = GoDeadlock"
  by (cases e; simp add: flush_error_def)+

lemma flush_targets_ok:
  assumes "gm_wf (niRIB (masterRIB s))" and "flush_refused reqo s = None"
  shows "distinct (flush_targets reqo (masterRIB s))" "\<forall>n\<in>set (flush_targets reqo (masterRIB s)). known_ni (masterRIB s) n"
  using assms KnownNetworkInstances_known [OF assms(1)]
  by (auto simp: flush_targets_def flush_refused_def known_ni_def NetworkInstanceRIB_def
      split: option.splits NetworkInstanceSel.splits if_splits)

context rib_service
begin

lemma modifyEntry_ok:
  assumes "env_laws E" and "ok E r" and "fair sched" and "room r" and "op_wf op"
  shows "\<exists>res r'. modifyEntry E sched (Some r) ni (Some op) fib election = Some (res, Some r') \<and> ok E r' \<and>
    res \<noteq> Inl SrvPanic"
proof -
  obtain res r1 where add: "AddEntry E sched ni op r = Some (res, r1)" "ok E r1" "res \<noteq> Inl GoPanic"
    using add_law [OF assms] by blast
  obtain oks fails err r2 where del: "DeleteEntry E ni (Some op) r = ((oks, fails, err), r2)"
    by (metis prod.exhaust)
  note d = delete_law [OF assms(1,2,4) del]
  have "snd (snd (checkElectionForModify (op_Id op) (op_ElectionId op) election)) \<noteq> Some SrvPanic"
    by (simp add: checkElectionForModify_def split: option.split)
  with add del d assms(2) show ?thesis
    by (auto simp: modifyEntry_def modify_result_def split: option.split prod.split sum.split)
qed

lemma modify_op_ok:
  assumes "env_laws E" and "ok E (masterRIB s)" and "fair sched" and "room (masterRIB s)" and "op_wf op"
  shows "\<exists>evs s'. modify_op E sched fib elec op s = Some (evs, s') \<and> ok E (masterRIB s') \<and>
    srv_cs s' = srv_cs s \<and> curElecID s' = curElecID s \<and> curMaster s' = curMaster s \<and> RPCError SrvPanic \<notin> set evs"
proof (cases "NetworkInstanceRIB (masterRIB s) (op_NetworkInstance op)")
  case None
  with assms(2) show ?thesis by (simp add: modify_op_def Let_def)
next
  case (Some rh)
  with modifyEntry_ok [OF assms, of "op_NetworkInstance op" fib "Some elec"] show ?thesis
    by (auto simp: modify_op_def Let_def split: sum.split)
qed

lemma flush_ok:
  assumes "env_laws E" and "ok E (masterRIB s)" and "room (masterRIB s)" and "ServerFlush reqo s = (err, s')"
  shows "ok E (masterRIB s') \<and> srv_cs s' = srv_cs s \<and> curElecID s' = curElecID s \<and> curMaster s' = curMaster s \<and>
    err \<noteq> Some SrvPanic \<and> err \<noteq> Some SrvDeadlock"
proof (cases "flush_refused reqo s")
  case (Some e)
  then have "e \<noteq> SrvPanic \<and> e \<noteq> SrvDeadlock"
    by (auto simp: flush_refused_def checkFlushRequest_def split: option.splits if_splits
        FlushElection.splits NetworkInstanceSel.splits)
  with Some assms(2,4) show ?thesis by (auto simp: ServerFlush_eq)
next
  case None
  let ?f = "Flush (flush_targets reqo (masterRIB s)) (masterRIB s)"
  have "ok E (snd ?f) \<and> fst ?f \<noteq> Some GoPanic \<and> fst ?f \<noteq> Some GoDeadlock"
    using flush_law [OF assms(1-3) flush_targets_ok [OF names_law [OF assms(1,2)] None]] by (metis prod.collapse)
  with None assms(4) show ?thesis
    by (auto simp: ServerFlush_eq flush_error_panic)
qed

lemma step_ok:
  assumes env: "env_laws E" and ok: "ok E (masterRIB (w_srv w))" and st: "srv_step E w w'"
  shows "ok E (masterRIB (w_srv w'))"
  using st
proof cases
  case (operation cid rd fib elec op ops sched evs s')
  with modify_op_ok [OF env ok operation(4,6,5), of fib elec] show ?thesis by auto
next
  case (flush req err s')
  with flush_ok [OF env ok flush(2,3)] show ?thesis by simp
next
  case (add_ni ni err s')
  with ni_law [OF env ok] show ?thesis by (auto simp: ServerAddNetworkInstance_def split: prod.splits)
qed (use ok in auto)

lemma NewServer_ok:
  assumes "env_laws E" and "NewServer opt = Inr s" and "\<not> srv_hasDisableCheckFn opt"
  shows "ok E (masterRIB s)" and "srv_cs s = []" and "curElecID s = None" and "curMaster s = []"
proof -
  have vrfs: "add_vrfs ns r = Inr r' \<Longrightarrow> ok E r \<Longrightarrow> ok E r'" for ns r r'
    by (induction ns r rule: add_vrfs.induct) (auto split: prod.splits option.splits dest: ni_law [OF assms(1)])
  let ?o = "if hasWithNoRIBForwardReferences opt then [DisableForwardReferences] else []"
  have h: "r\<lparr>resolvedEntryHook := False\<rparr> = r" if "\<not> resolvedEntryHook r" for r :: RIB using that by simp
  have "ok E (start ph rh DefaultNetworkInstanceName ?o)" for ph rh
    by (rule start_law) (simp add: hasDisableCheckFn_def)
  moreover have "New n o' = SetPostChangeHook False (New n o')" for n o'
    by (simp add: New_def SetPostChangeHook_def Let_def NewRIBHolder_def)
  moreover have "SetPostChangeHook f (New n o') = SetResolvedEntryHook False (SetPostChangeHook f (New n o'))" for f n o'
    by (simp add: New_def SetResolvedEntryHook_def SetPostChangeHook_def Let_def)
  ultimately have "ok E (case hasResolvedEntryHook opt of None \<Rightarrow> (case hasPostChangeRIBHook opt of None \<Rightarrow>
       New DefaultNetworkInstanceName ?o | Some f \<Rightarrow> SetPostChangeHook f (New DefaultNetworkInstanceName ?o))
     | Some f \<Rightarrow> SetResolvedEntryHook f (case hasPostChangeRIBHook opt of None \<Rightarrow>
       New DefaultNetworkInstanceName ?o | Some f \<Rightarrow> SetPostChangeHook f (New DefaultNetworkInstanceName ?o)))"
    by (auto simp: start_def split: option.splits) metis+
  with assms(2,3) vrfs show "ok E (masterRIB s)"
    by (auto simp: NewServer_def Let_def split: sum.splits)
qed (use assms(2) in \<open>auto simp: NewServer_def Let_def split: sum.splits\<close>)

lemma reach_ok:
  assumes "env_laws E" and "srv_reach E w"
  shows "ok E (masterRIB (w_srv w))"
  using assms(2)
proof induction
  case (init opt s)
  then show ?case using NewServer_ok(1) [OF assms(1)] by simp
next
  case (step w w')
  then show ?case using step_ok [OF assms(1)] by blast
qed

end

end
