(* ===== verification/ServerInv.thy ===== *)
theory ServerInv
  imports ServerRun
begin

text \<open>
  The invariant of the server's own state: the parameters and election identifiers of the
  connected clients, the elected master, and the election details that readers hold.
\<close>

subsection \<open>Elections\<close>

text \<open>A candidate is refused only when its identifier is below the current one, not always then.\<close>

lemma isNewMaster_iff:
  "fst (isNewMaster cand (Some e)) \<longleftrightarrow> u128 e \<le> u128 cand \<or> Low e < Low cand"
proof -
  have "u128 e \<le> u128 cand \<longleftrightarrow> \<not> (High cand < High e \<or> High cand = High e \<and> Low cand < Low e)"
    using u128_less_iff [of cand e] by linarith
  then show ?thesis by (auto simp: isNewMaster_def)
qed

lemma isNewMaster_same: "snd (isNewMaster cand (Some e)) \<longleftrightarrow> u128 cand = u128 e"
  unfolding u128_eq_iff isNewMaster_def by auto

subsection \<open>The invariant\<close>

definition client_ok :: "clientState \<Rightarrow> bool" where
  "client_ok cs \<longleftrightarrow>
     (case cs_params cs of None \<Rightarrow> False
      | Some p \<Rightarrow> if cs_setParams cs then Persist p \<and> ExpectElecID p else p = default_params) \<and>
     (\<forall>e. cs_lastElecID cs = Some e \<longrightarrow> cs_setParams cs \<and> u128 e \<noteq> 0)"

definition params_agree :: "Server \<Rightarrow> bool" where
  "params_agree s \<longleftrightarrow> (\<forall>i j c d. gm_get (srv_cs s) i = Some c \<longrightarrow> gm_get (srv_cs s) j = Some d \<longrightarrow>
     cs_setParams c \<longrightarrow> cs_setParams d \<longrightarrow> cs_params c = cs_params d)"

definition election_ok :: "Server \<Rightarrow> bool" where
  "election_ok s \<longleftrightarrow> (curMaster s = [] \<longleftrightarrow> curElecID s = None) \<and>
     (\<forall>e. curElecID s = Some e \<longrightarrow> u128 e \<noteq> 0 \<and>
       (\<forall>c. gm_get (srv_cs s) (curMaster s) = Some c \<longrightarrow>
         (\<exists>l. cs_lastElecID c = Some l \<and> u128 l \<le> u128 e)))"

definition server_inv :: "Server \<Rightarrow> bool" where
  "server_inv s \<longleftrightarrow> gm_wf (srv_cs s) \<and> (\<forall>i c. gm_get (srv_cs s) i = Some c \<longrightarrow> client_ok c) \<and>
     params_agree s \<and> election_ok s"

text \<open>The election details a reader of client \<open>cid\<close> works with.\<close>

definition details_ok :: "string \<Rightarrow> electionDetails \<Rightarrow> bool" where
  "details_ok cid d \<longleftrightarrow> ed_client d = cid \<and> (ed_master d = [] \<longleftrightarrow> ed_ID d = None) \<and>
     (\<forall>l e. ed_clientLatest d = Some l \<longrightarrow> ed_ID d = Some e \<longrightarrow> ed_master d = cid \<longrightarrow> u128 l \<le> u128 e)"

definition reader_ok :: "string \<Rightarrow> reader \<Rightarrow> bool" where
  "reader_ok cid rd = (case rd_work rd of None \<Rightarrow> True | Some (fib, elec, ops) \<Rightarrow> details_ok cid elec)"

definition world_inv :: "world \<Rightarrow> bool" where
  "world_inv w \<longleftrightarrow> server_inv (w_srv w) \<and>
     (\<forall>i rd. gm_get (w_readers w) i = Some rd \<longrightarrow> reader_ok i rd \<and> i \<in> set (w_used w)) \<and>
     (\<forall>i. gm_get (srv_cs (w_srv w)) i \<noteq> None \<longrightarrow> i \<in> set (w_used w)) \<and>
     (curMaster (w_srv w) = [] \<or> curMaster (w_srv w) \<in> set (w_used w)) \<and> [] \<notin> set (w_used w)"

subsection \<open>Messages\<close>

text \<open>A message of one client leaves the others alone.\<close>

definition only_client :: "string \<Rightarrow> Server \<Rightarrow> Server \<Rightarrow> bool" where
  "only_client cid s s' \<longleftrightarrow> (gm_wf (srv_cs s) \<longrightarrow> gm_wf (srv_cs s')) \<and>
     (\<forall>i. i \<noteq> cid \<longrightarrow> gm_get (srv_cs s') i = gm_get (srv_cs s) i) \<and>
     (gm_get (srv_cs s) cid = None \<longrightarrow> gm_get (srv_cs s') cid = None)"

lemma only_client_refl [simp]: "only_client cid s s"
  by (simp add: only_client_def)

lemma only_client_clients: "only_client cid s s' \<Longrightarrow> gm_get (srv_cs s') i \<noteq> None \<Longrightarrow> gm_get (srv_cs s) i \<noteq> None"
  unfolding only_client_def by (cases "i = cid") metis+

lemma checkParams_only: "checkParams cid p g s = (res, s') \<Longrightarrow> only_client cid s s'"
  by (auto simp: only_client_def checkParams_def setClientParams_def Let_def gomap
      split: option.splits if_splits sum.splits prod.splits)

lemma updateParams_only: "updateParams cid p s = (res, s') \<Longrightarrow> only_client cid s s'"
  by (auto simp: only_client_def updateParams_def Let_def gomap split: option.splits if_splits)

lemma runElection_only: "runElection cid e s = (res, s') \<Longrightarrow> only_client cid s s'"
  by (auto simp: only_client_def runElection_def storeClientElectionID_def getClientStateCopy_def Let_def gomap
      split: option.splits if_splits sum.splits prod.splits)

lemma only_client_trans: "only_client cid s t \<Longrightarrow> only_client cid t u \<Longrightarrow> only_client cid s u"
  by (simp add: only_client_def)

lemma recv_msg_only: "recv_msg cid g m s = (res, s') \<Longrightarrow> only_client cid s s'"
  by (auto simp: recv_msg_def split: option.splits if_splits sum.splits prod.splits
      dest: checkParams_only updateParams_only runElection_only only_client_trans)

lemma params_election [simp]:
  "checkParams cid p g s = (res, s') \<Longrightarrow> curElecID s' = curElecID s \<and> curMaster s' = curMaster s"
  "updateParams cid q s = (e, s') \<Longrightarrow> curElecID s' = curElecID s \<and> curMaster s' = curMaster s"
  by (auto simp: checkParams_def updateParams_def setClientParams_def Let_def
      split: option.splits if_splits sum.splits prod.splits)

lemma runElection_error:
  "runElection cid e s = (Inl x, s') \<Longrightarrow> s' = s"
  by (auto simp: runElection_def storeClientElectionID_def Let_def split: option.splits if_splits sum.splits prod.splits)

lemma recv_msg_abort:
  "recv_msg cid g m s = (Abort e, s') \<Longrightarrow> curElecID s' = curElecID s \<and> curMaster s' = curMaster s"
  by (auto simp: recv_msg_def split: option.splits if_splits sum.splits prod.splits dest: runElection_error params_election)

lemma recv_msg_operations: "recv_msg cid g m s = (Operations ops, s') \<Longrightarrow> s' = s"
  by (auto simp: recv_msg_def split: option.splits if_splits sum.splits prod.splits)

lemma server_inv_delete:
  assumes "server_inv s" and "only_client cid s s'" and "curElecID s' = curElecID s \<and> curMaster s' = curMaster s"
  shows "server_inv (deleteClient cid s')"
proof -
  have g: "gm_get (srv_cs (deleteClient cid s')) i = (if i = cid then None else gm_get (srv_cs s) i)" for i
    using assms(2) by (auto simp: deleteClient_def gomap only_client_def)
  have e: "curElecID (deleteClient cid s') = curElecID s" "curMaster (deleteClient cid s') = curMaster s"
    using assms(3) by (simp_all add: deleteClient_def)
  have c: "gm_get (srv_cs s) i = Some c" if "gm_get (srv_cs (deleteClient cid s')) i = Some c" for i c
    using that by (simp add: g split: if_splits)
  have "gm_wf (srv_cs (deleteClient cid s'))"
    using assms(1,2) by (simp add: deleteClient_def only_client_def server_inv_def)
  moreover have "params_agree (deleteClient cid s')"
    using assms(1) c unfolding server_inv_def params_agree_def by blast
  moreover have "election_ok (deleteClient cid s')"
    using assms(1) c unfolding server_inv_def election_ok_def e by blast
  moreover have "client_ok d" if "gm_get (srv_cs (deleteClient cid s')) i = Some d" for i d
    using assms(1) c [OF that] by (simp add: server_inv_def)
  ultimately show ?thesis by (simp add: server_inv_def)
qed

subsection \<open>Session parameters\<close>

lemma consistent_with_iff:
  "consistent_with i p m = Inr b \<Longrightarrow> b \<Longrightarrow> (j, c) \<in> set m \<Longrightarrow> j \<noteq> i \<Longrightarrow>
    \<exists>q. cs_params c = Some q \<and> clientParams_Equal q p"
  by (induction i p m rule: consistent_with.induct) (auto split: if_splits option.splits)

lemma clientParams_Equal_eq: "clientParams_Equal p q \<longleftrightarrow> p = q"
  by (cases p; cases q) (auto simp: clientParams_Equal_def)

definition set_params :: "AckType \<Rightarrow> clientParams" where
  "set_params a = \<lparr>Persist = True, ExpectElecID = True, FIBAck = (a = RIB_AND_FIB_ACK)\<rparr>"

text \<open>An accepted session-parameters message.\<close>

lemma params_accepted:
  assumes "checkParams cid (Some p) g s = (Inr res, s1)" and "updateParams cid p s1 = (None, s2)"
  obtains c where "gm_get (srv_cs s) cid = Some c" "\<not> cs_setParams c" "\<not> g"
    "sp_Redundancy p = SINGLE_PRIMARY" "sp_Persistence p = PRESERVE"
    "\<And>j d. gm_get (srv_cs s) j = Some d \<Longrightarrow> j \<noteq> cid \<Longrightarrow> cs_params d = Some (set_params (sp_AckType p))"
    "s2 = s\<lparr>srv_cs := gm_put cid (c\<lparr>cs_setParams := True, cs_params := Some (set_params (sp_AckType p))\<rparr>) (srv_cs s)\<rparr>"
proof -
  have sp: "sp_Redundancy p = SINGLE_PRIMARY" "sp_Persistence p = PRESERVE"
    using assms(1) by (cases "sp_Redundancy p"; cases "sp_Persistence p"; simp add: checkParams_def split: if_splits)+
  obtain c where c: "gm_get (srv_cs s) cid = Some c" and s1: "s1 = s\<lparr>srv_cs := gm_put cid (c\<lparr>cs_params := Some (set_params (sp_AckType p))\<rparr>) (srv_cs s)\<rparr>"
    and con: "consistent_with cid (set_params (sp_AckType p)) (srv_cs s) = Inr True" and g: "\<not> g"
    using assms(1) sp by (auto simp: checkParams_def checkClientsConsistent_def setClientParams_def set_params_def Let_def
        split: sum.splits if_splits option.splits prod.splits)
  have "\<not> cs_setParams c" and "s2 = s\<lparr>srv_cs := gm_put cid (c\<lparr>cs_setParams := True, cs_params := Some (set_params (sp_AckType p))\<rparr>) (srv_cs s)\<rparr>"
    using assms(2) sp by (auto simp: s1 updateParams_def Let_def gomap set_params_def split: if_splits)
  moreover have "cs_params d = Some (set_params (sp_AckType p))" if "gm_get (srv_cs s) j = Some d" "j \<noteq> cid" for j d
    using consistent_with_iff [OF con _ map_of_SomeD [OF that(1)] that(2)] by (auto simp: clientParams_Equal_eq)
  ultimately show thesis using c g sp by (intro that)
qed

lemma params_inv:
  assumes inv: "server_inv s" and ok: "checkParams cid (Some p) g s = (Inr res, s1)" "updateParams cid p s1 = (None, s2)"
  shows "server_inv s2"
proof (rule params_accepted [OF ok])
  fix c assume c: "gm_get (srv_cs s) cid = Some c" "\<not> cs_setParams c"
    and oth: "\<And>j d. gm_get (srv_cs s) j = Some d \<Longrightarrow> j \<noteq> cid \<Longrightarrow> cs_params d = Some (set_params (sp_AckType p))"
    and s2: "s2 = s\<lparr>srv_cs := gm_put cid (c\<lparr>cs_setParams := True, cs_params := Some (set_params (sp_AckType p))\<rparr>) (srv_cs s)\<rparr>"
  have g: "gm_get (srv_cs s2) i = (if i = cid then Some (c\<lparr>cs_setParams := True, cs_params := Some (set_params (sp_AckType p))\<rparr>)
      else gm_get (srv_cs s) i)" for i by (auto simp: s2 gomap)
  have cok: "client_ok c" using inv c(1) by (simp add: server_inv_def)
  then have "cs_lastElecID c = None" using c(2) by (cases "cs_lastElecID c") (auto simp: client_ok_def)
  moreover have "gm_wf (srv_cs s2)" using inv by (simp add: s2 server_inv_def)
  moreover have "params_agree s2"
    using oth inv unfolding params_agree_def g server_inv_def by (auto split: if_splits)
  moreover have "election_ok s2"
    using inv c(1) \<open>cs_lastElecID c = None\<close> unfolding election_ok_def g server_inv_def
    by (auto simp: s2 split: if_splits)
  ultimately show "server_inv s2"
    using inv unfolding server_inv_def g by (auto simp: client_ok_def set_params_def split: if_splits)
qed

subsection \<open>Election messages\<close>

lemma election_accepted:
  assumes "runElection cid e s = (Inr res, s')"
  obtains c p where "gm_get (srv_cs s) cid = Some c" "cs_params c = Some p" "ExpectElecID p" "u128 e \<noteq> 0"
    "s' = (let s1 = s\<lparr>srv_cs := gm_put cid (c\<lparr>cs_lastElecID := Some e\<rparr>) (srv_cs s)\<rparr>
           in if fst (isNewMaster e (curElecID s)) then s1\<lparr>curElecID := Some e, curMaster := cid\<rparr> else s1)"
    "res = \<lparr>resp_Result = [], resp_ElectionId = curElecID s', resp_SessionParamsResult = None\<rparr>"
proof -
  obtain c where c: "gm_get (srv_cs s) cid = Some c"
    using assms by (cases "gm_get (srv_cs s) cid") (simp_all add: runElection_def getClientStateCopy_def)
  obtain p where p: "cs_params c = Some p"
    using assms c by (cases "cs_params c") (simp_all add: runElection_def getClientStateCopy_def clientState_DeepCopy_def)
  have "ExpectElecID p" "u128 e \<noteq> 0"
    using assms c p by (simp_all add: runElection_def getClientStateCopy_def clientState_DeepCopy_def
        clientParams_DeepCopy_def split: if_splits)
  with assms c p show thesis
    by (intro that [OF c p])
      (auto simp: runElection_def getClientStateCopy_def clientState_DeepCopy_def clientParams_DeepCopy_def
        storeClientElectionID_def Let_def split: if_splits)
qed

lemma election_inv:
  assumes inv: "server_inv s" and ne: "cid \<noteq> []" and run: "runElection cid e s = (Inr res, s')"
  shows "server_inv s'"
proof (rule election_accepted [OF run])
  fix c p assume c: "gm_get (srv_cs s) cid = Some c" "cs_params c = Some p" "ExpectElecID p" "u128 e \<noteq> 0"
    and s': "s' = (let s1 = s\<lparr>srv_cs := gm_put cid (c\<lparr>cs_lastElecID := Some e\<rparr>) (srv_cs s)\<rparr>
           in if fst (isNewMaster e (curElecID s)) then s1\<lparr>curElecID := Some e, curMaster := cid\<rparr> else s1)"
  have cs': "srv_cs s' = gm_put cid (c\<lparr>cs_lastElecID := Some e\<rparr>) (srv_cs s)" by (simp add: s' Let_def)
  have g: "gm_get (srv_cs s') i = (if i = cid then Some (c\<lparr>cs_lastElecID := Some e\<rparr>) else gm_get (srv_cs s) i)" for i
    by (simp add: cs' gomap)
  have "client_ok c" using inv c(1) by (simp add: server_inv_def)
  then have "client_ok (c\<lparr>cs_lastElecID := Some e\<rparr>)"
    using c by (auto simp: client_ok_def default_params_def split: if_splits)
  moreover have "gm_wf (srv_cs s')" using inv by (simp add: cs' server_inv_def)
  moreover have "params_agree s'"
    unfolding params_agree_def
  proof (intro allI impI)
    fix i j a b assume a: "gm_get (srv_cs s') i = Some a" "gm_get (srv_cs s') j = Some b" "cs_setParams a" "cs_setParams b"
    have old: "\<exists>x'. gm_get (srv_cs s) k = Some x' \<and> cs_params x' = cs_params x \<and> cs_setParams x' = cs_setParams x"
      if "gm_get (srv_cs s') k = Some x" for k x
      using that c(1) by (cases "k = cid") (auto simp: g)
    obtain a' b' where "gm_get (srv_cs s) i = Some a'" "gm_get (srv_cs s) j = Some b'" "cs_params a' = cs_params a"
      "cs_params b' = cs_params b" "cs_setParams a'" "cs_setParams b'"
      using old [OF a(1)] old [OF a(2)] a(3,4) by auto
    moreover have "params_agree s" using inv by (simp add: server_inv_def)
    ultimately show "cs_params a = cs_params b" unfolding params_agree_def by metis
  qed
  moreover have "election_ok s'"
  proof (cases "fst (isNewMaster e (curElecID s))")
    case True
    then have "curElecID s' = Some e" "curMaster s' = cid" by (simp_all add: s' Let_def)
    with g c ne show ?thesis by (auto simp: election_ok_def)
  next
    case False
    then obtain x where x: "curElecID s = Some x"
      by (cases "curElecID s") (simp_all add: isNewMaster_def)
    have "u128 e \<le> u128 x" using False isNewMaster_iff [of e x] by (simp add: x)
    moreover have "curElecID s' = curElecID s" "curMaster s' = curMaster s" using False by (simp_all add: s' Let_def)
    ultimately show ?thesis using inv x g by (auto simp: election_ok_def server_inv_def split: if_splits)
  qed
  ultimately show "server_inv s'" using inv unfolding server_inv_def g by (auto split: if_splits)
qed

lemma recv_msg_ok_cases:
  assumes "recv_msg cid g m s = (res, s')" and "\<forall>e. res \<noteq> Abort e"
  obtains "s' = s"
  | p r s1 where "checkParams cid (Some p) g s = (Inr r, s1)" "updateParams cid p s1 = (None, s')"
  | e r where "runElection cid e s = (Inr r, s')"
  using assms by (auto simp: recv_msg_def split: option.splits if_splits sum.splits prod.splits)

lemma recv_msg_inv:
  assumes inv: "server_inv s" and ne: "cid \<noteq> []" and msg: "recv_msg cid g m s = (res, s')" "\<forall>e. res \<noteq> Abort e"
  shows "server_inv s'"
  by (rule recv_msg_ok_cases [OF msg]) (use inv params_inv [OF inv] election_inv [OF inv ne] in auto)

lemma recv_msg_master:
  "recv_msg cid g m s = (res, s') \<Longrightarrow> curMaster s' = curMaster s \<or> curMaster s' = cid"
  by (auto simp: recv_msg_def runElection_def storeClientElectionID_def Let_def split: option.splits if_splits sum.splits prod.splits
      dest!: params_election)

lemma begin_modify_details:
  assumes "server_inv s" and "begin_modify cid s = Inr (fib, elec)"
  shows "details_ok cid elec"
proof -
  obtain c where c: "gm_get (srv_cs s) cid = Some c"
    and el: "elec = (getElection s)\<lparr>ed_clientLatest := cs_lastElecID c, ed_client := cid\<rparr>"
    using assms(2) by (auto simp: begin_modify_def getClientState_def split: option.splits if_splits)
  show ?thesis
    using assms(1) c by (auto simp: details_ok_def el getElection_def server_inv_def election_ok_def)
qed

subsection \<open>Steps\<close>

lemma newClient_ok:
  assumes inv: "server_inv s" and new: "newClient cid s = (None, s')" and fresh: "curMaster s \<noteq> cid"
  shows "server_inv s'" "curMaster s' = curMaster s" "gm_get (srv_cs s') i \<noteq> None \<longleftrightarrow> i = cid \<or> gm_get (srv_cs s) i \<noteq> None"
proof -
  let ?c = "\<lparr>cs_params = Some default_params, cs_setParams = False, cs_lastElecID = None\<rparr>"
  have s': "s' = s\<lparr>srv_cs := gm_put cid ?c (srv_cs s)\<rparr>"
    using new by (simp add: newClient_def split: if_splits)
  have g: "gm_get (srv_cs s') i = (if i = cid then Some ?c else gm_get (srv_cs s) i)" for i
    by (simp add: s' gomap)
  have old: "gm_get (srv_cs s) i = Some x" if "gm_get (srv_cs s') i = Some x" "cs_setParams x" for i x
    using that by (auto simp: g split: if_splits)
  have "params_agree s'"
    using inv old unfolding server_inv_def params_agree_def by blast
  moreover have "election_ok s'"
    using inv fresh by (simp add: election_ok_def server_inv_def g) (simp add: s')
  moreover have "client_ok x" if "gm_get (srv_cs s') i = Some x" for i x
  proof (cases "i = cid")
    case True
    with that show ?thesis by (auto simp: g client_ok_def)
  next
    case False
    with that inv show ?thesis by (simp add: g server_inv_def)
  qed
  moreover have "gm_wf (srv_cs s')" using inv by (simp add: s' server_inv_def)
  ultimately show "server_inv s'" by (simp add: server_inv_def)
  show "curMaster s' = curMaster s" "gm_get (srv_cs s') i \<noteq> None \<longleftrightarrow> i = cid \<or> gm_get (srv_cs s) i \<noteq> None"
    by (simp_all add: g) (simp add: s')
qed

lemma server_inv_cong:
  "srv_cs s' = srv_cs s \<Longrightarrow> curElecID s' = curElecID s \<Longrightarrow> curMaster s' = curMaster s \<Longrightarrow> server_inv s' = server_inv s"
  by (simp add: server_inv_def params_agree_def election_ok_def)

lemma deleteClient_frame [simp]:
  "curMaster (deleteClient cid s) = curMaster s" "curElecID (deleteClient cid s) = curElecID s"
  "gm_get (srv_cs (deleteClient cid s)) i = (if i = cid then None else gm_get (srv_cs s) i)"
  by (auto simp: deleteClient_def gomap)

lemma world_inv_update:
  assumes w: "world_inv w" and s: "server_inv s'"
    and m: "curMaster s' = curMaster (w_srv w) \<or> curMaster s' \<in> set (w_used w)"
    and c: "\<And>i. gm_get (srv_cs s') i \<noteq> None \<Longrightarrow> gm_get (srv_cs (w_srv w)) i \<noteq> None"
    and r: "\<And>i rd. gm_get rds i = Some rd \<Longrightarrow> gm_get (w_readers w) i \<noteq> None \<and> (reader_ok i rd \<or> gm_get (w_readers w) i = Some rd)"
  shows "world_inv (w\<lparr>w_srv := s', w_readers := rds\<rparr>)"
proof -
  have "reader_ok i rd \<and> i \<in> set (w_used w)" if "gm_get rds i = Some rd" for i rd
    using w r [OF that] by (auto simp: world_inv_def)
  then show ?thesis using w s m c by (auto simp: world_inv_def)
qed

lemma server_inv_delete_same: "server_inv s \<Longrightarrow> server_inv (deleteClient cid s)"
  by (rule server_inv_delete [of s cid s]) simp_all

lemma step_world_inv:
  assumes env: "env_laws E" and inv: "world_inv w" and rib: "reachable E (masterRIB (w_srv w))" and st: "srv_step E w w'"
  shows "world_inv w'"
proof -
  have si: "server_inv (w_srv w)" using inv by (simp add: world_inv_def)
  have rd: "reader_ok i rd \<and> i \<in> set (w_used w) \<and> i \<noteq> []" if "gm_get (w_readers w) i = Some rd" for i rd
    using inv that by (auto simp: world_inv_def)
  from st show ?thesis
  proof cases
    case (connect cid s')
    have f: "curMaster (w_srv w) \<noteq> cid" using connect(2,3) inv by (auto simp: world_inv_def)
    note n = newClient_ok [OF si connect(4) f]
    show ?thesis using inv n connect(2) by (auto simp: connect(1) world_inv_def gomap reader_ok_def)
  next
    case (message cid g m res s')
    have na: "\<forall>e. res \<noteq> Abort e" using message(4) by (auto simp: ends_rpc_def)
    have cid: "cid \<noteq> []" "cid \<in> set (w_used w)" using rd [OF message(2)] by simp_all
    have s': "server_inv s'" by (rule recv_msg_inv [OF si cid(1) message(3) na])
    have ok: "reader_ok cid (reader_after cid res s')"
      using begin_modify_details [OF s'] by (simp add: reader_ok_def reader_after_def split: recv_result.split sum.split)
    have "curMaster s' = curMaster (w_srv w) \<or> curMaster s' \<in> set (w_used w)"
      using recv_msg_master [OF message(3)] cid by auto
    then show ?thesis unfolding message(1)
      by (rule world_inv_update [OF inv s' _ only_client_clients [OF recv_msg_only [OF message(3)]]])
        (use message(2) ok in \<open>auto simp: gomap split: if_splits\<close>)
  next
    case (abort cid g m res s')
    have e: "curElecID s' = curElecID (w_srv w) \<and> curMaster s' = curMaster (w_srv w)"
      using abort(3,4) recv_msg_abort [of cid g m "w_srv w"] recv_msg_operations [of cid g m "w_srv w"]
      by (cases res) (simp_all add: ends_rpc_def)
    note o' = recv_msg_only [OF abort(3)]
    have c: "gm_get (srv_cs (w_srv w)) i \<noteq> None" if "gm_get (srv_cs (deleteClient cid s')) i \<noteq> None" for i
      using only_client_clients [OF o', of i] that by (simp split: if_splits)
    show ?thesis unfolding abort(1)
      by (rule world_inv_update [OF inv server_inv_delete [OF si o' e] _ c])
        (use e in \<open>auto simp: gomap split: if_splits\<close>)
  next
    case (operation cid rd' fib elec op ops sched evs s')
    have f: "srv_cs s' = srv_cs (w_srv w)" "curElecID s' = curElecID (w_srv w)" "curMaster s' = curMaster (w_srv w)"
      using rib.modify_op_ok [OF env rib operation(4,6,5), of fib elec] operation(7) by auto
    have s': "server_inv s'" using si by (simp add: server_inv_cong [OF f])
    have "reader_ok cid (rd'\<lparr>rd_work := Some (fib, elec, ops)\<rparr>)"
      using rd [OF operation(2)] operation(3) by (simp add: reader_ok_def)
    then show ?thesis unfolding operation(1)
      by (intro world_inv_update [OF inv])
        (use f s' operation(2) server_inv_delete_same in \<open>auto simp: gomap split: if_splits\<close>)
  next
    case (finish cid rd' fib elec)
    have "world_inv (w\<lparr>w_srv := w_srv w, w_readers := gm_put cid (rd'\<lparr>rd_work := None\<rparr>) (w_readers w)\<rparr>)"
      by (rule world_inv_update [OF inv si])
        (use finish(2) in \<open>auto simp: gomap reader_ok_def split: if_splits\<close>)
    then show ?thesis by (simp add: finish(1))
  next
    case (close cid rd')
    show ?thesis unfolding close(1)
      by (rule world_inv_update [OF inv server_inv_delete_same [OF si]]) (auto simp: gomap split: if_splits)
  next
    case (flush req err s')
    note f = rib.flush_ok [OF env rib flush(2,3)]
    have "server_inv s'" using si f server_inv_cong [of s' "w_srv w"] by simp
    then have "world_inv (w\<lparr>w_srv := s', w_readers := w_readers w\<rparr>)"
      by (rule world_inv_update [OF inv]) (use f in auto)
    then show ?thesis by (simp add: flush(1))
  next
    case (add_ni ni err s')
    have f: "srv_cs s' = srv_cs (w_srv w)" "curElecID s' = curElecID (w_srv w)" "curMaster s' = curMaster (w_srv w)"
      using add_ni(2) by (auto simp: ServerAddNetworkInstance_def split: prod.splits)
    then have "server_inv s'" using si by (simp add: server_inv_cong [OF f])
    then have "world_inv (w\<lparr>w_srv := s', w_readers := w_readers w\<rparr>)"
      by (rule world_inv_update [OF inv]) (use f in auto)
    then show ?thesis by (simp add: add_ni(1))
  qed
qed

theorem srv_reach_inv:
  assumes env: "env_laws E" and r: "srv_reach E w"
  shows "reachable E (masterRIB (w_srv w)) \<and> world_inv w"
  using r
proof (induction rule: srv_reach.induct)
  case (init opt s)
  note n = rib.NewServer_ok [OF env init]
  then show ?case
    by (simp add: world_inv_def server_inv_def params_agree_def election_ok_def)
next
  case (step w w')
  then show ?case
    using rib.step_ok [OF env _ step.hyps(2)] step_world_inv [OF env _ _ step.hyps(2)] by blast
qed

end
