(* ===== verification/Sample.thy ===== *)
theory Sample
  imports RibLaws
begin

text \<open>
  A concrete instance of the libraries below the RIB, used to run the model on concrete
  inputs.  Its path language has one path, the whole message, so that \<open>SetNode\<close> converts a
  message to its struct at once; messages with a non-numeric label are refused.
\<close>

definition conv_v4 :: "Afts_Ipv4EntryKey \<Rightarrow> string \<times> Afts_Ipv4Entry" where
  "conv_v4 e = (v4k_Prefix e,
     \<lparr>v4_DecapsulateHeader = 0, v4_EntryMetadata = Option.bind (v4k_Ipv4Entry e) v4pb_EntryMetadata,
      v4_NextHopGroup = Option.bind (v4k_Ipv4Entry e) v4pb_NextHopGroup,
      v4_NextHopGroupNetworkInstance = Option.bind (v4k_Ipv4Entry e) v4pb_NextHopGroupNetworkInstance,
      v4_Prefix = Some (v4k_Prefix e)\<rparr>)"

definition conv_v6 :: "Afts_Ipv6EntryKey \<Rightarrow> string \<times> Afts_Ipv6Entry" where
  "conv_v6 e = (v6k_Prefix e,
     \<lparr>v6_DecapsulateHeader = 0, v6_EntryMetadata = Option.bind (v6k_Ipv6Entry e) v6pb_EntryMetadata,
      v6_NextHopGroup = Option.bind (v6k_Ipv6Entry e) v6pb_NextHopGroup,
      v6_NextHopGroupNetworkInstance = Option.bind (v6k_Ipv6Entry e) v6pb_NextHopGroupNetworkInstance,
      v6_Prefix = Some (v6k_Prefix e)\<rparr>)"

definition conv_le :: "Afts_LabelEntryKey \<Rightarrow> Label_Union \<times> Afts_LabelEntry" where
  "conv_le e = (label_of e,
     \<lparr>le_EntryMetadata = None, le_Label = Some (label_of e),
      le_NextHopGroup = Option.bind (lek_LabelEntry e) lepb_NextHopGroup,
      le_NextHopGroupNetworkInstance = Option.bind (lek_LabelEntry e) lepb_NextHopGroupNetworkInstance,
      le_PoppedMplsLabelStack = []\<rparr>)"

definition conv_nhs :: "Afts_NextHopGroup_NextHopKey list \<Rightarrow> (u64, Afts_NextHopGroup_NextHop) gomap" where
  "conv_nhs ks = fold (\<lambda>k. gm_put (nhgnhk_Index k)
     \<lparr>nhgnh_Index = Some (nhgnhk_Index k), nhgnh_Weight = Option.bind (nhgnhk_NextHop k) nhgnhpb_Weight\<rparr>) ks []"

definition conv_nhg :: "Afts_NextHopGroupKey \<Rightarrow> u64 \<times> Afts_NextHopGroup" where
  "conv_nhg e = (nhgk_Id e,
     \<lparr>nhg_BackupNextHopGroup = Option.bind (nhgk_NextHopGroup e) nhgpb_BackupNextHopGroup,
      nhg_Color = None, nhg_Id = Some (nhgk_Id e),
      nhg_NextHop = (case nhgk_NextHopGroup e of None \<Rightarrow> [] | Some g \<Rightarrow> conv_nhs (nhgpb_NextHop g))\<rparr>)"

definition conv_nh :: "Afts_NextHopKey \<Rightarrow> u64 \<times> Afts_NextHop" where
  "conv_nh e = (nhk_Index e,
     (NewNextHop (nhk_Index e))\<lparr>nh_IpAddress := Option.bind (nhk_NextHop e) nhpb_IpAddress\<rparr>)"

definition sample_conv :: "Afts_pb \<Rightarrow> Afts" where
  "sample_conv a = \<lparr>Ipv4Entry = map conv_v4 (pb_Ipv4Entry a), Ipv6Entry = map conv_v6 (pb_Ipv6Entry a),
     LabelEntry = map conv_le (pb_LabelEntry a), MacEntry = [],
     aft_NextHop = map conv_nh (pb_NextHop a), aft_NextHopGroup = map conv_nhg (pb_NextHopGroup a),
     PolicyForwardingEntry = []\<rparr>"

definition sample_ygot :: "(unit, Afts_pb, Afts_pb) ygot" where
  "sample_ygot = \<lparr>PathsFromProto = (\<lambda>a. if list_all numeric_label (pb_LabelEntry a) then Inr [((), a)] else Inl ''label''),
     FromScalar = (\<lambda>v. Inr v), SetNode = (\<lambda>r p v. Inr (Some (sample_conv v))), Validate = (\<lambda>r. Inr ())\<rparr>"

definition merge_table :: "('k, 'v) gomap \<Rightarrow> ('k, 'v) gomap \<Rightarrow> ('k, 'v) gomap" where
  "merge_table a b = fold (\<lambda>(k, v). gm_put k v) b a"

definition sample_merge :: "Afts \<Rightarrow> aft_RIB \<Rightarrow> string + Afts" where
  "sample_merge a nr = (case nr of None \<Rightarrow> Inr a
     | Some b \<Rightarrow> Inr (a\<lparr>Ipv4Entry := merge_table (Ipv4Entry a) (Ipv4Entry b),
         Ipv6Entry := merge_table (Ipv6Entry a) (Ipv6Entry b),
         LabelEntry := merge_table (LabelEntry a) (LabelEntry b),
         aft_NextHop := merge_table (aft_NextHop a) (aft_NextHop b),
         aft_NextHopGroup := merge_table (aft_NextHopGroup a) (aft_NextHopGroup b)\<rparr>))"

definition sample_env :: rib_env where
  "sample_env = \<lparr>candidate = candidateRIB sample_ygot, MergeStructInto = sample_merge, DeepCopy = (\<lambda>a. Inr a),
     proto_Ipv4 = (\<lambda>e. Inr \<lparr>v4pb_NextHopGroup = v4_NextHopGroup e,
        v4pb_NextHopGroupNetworkInstance = v4_NextHopGroupNetworkInstance e, v4pb_EntryMetadata = v4_EntryMetadata e\<rparr>),
     proto_Ipv6 = (\<lambda>e. Inr \<lparr>v6pb_NextHopGroup = v6_NextHopGroup e,
        v6pb_NextHopGroupNetworkInstance = v6_NextHopGroupNetworkInstance e, v6pb_EntryMetadata = v6_EntryMetadata e\<rparr>),
     proto_Mpls = (\<lambda>e. Inr \<lparr>lepb_NextHopGroup = le_NextHopGroup e,
        lepb_NextHopGroupNetworkInstance = le_NextHopGroupNetworkInstance e, lepb_PoppedMplsLabelStack = []\<rparr>),
     proto_NextHop = (\<lambda>e. Inr \<lparr>nhpb_IpAddress = nh_IpAddress e, nhpb_InterfaceRef = None, nhpb_MacAddress = None,
        nhpb_IpInIp = None, nhpb_NetworkInstance = None, nhpb_PopTopLabel = None, nhpb_PushedMplsLabelStack = [],
        nhpb_EncapHeader = [], nhpb_DecapsulateHeader = ENCAP_UNSET, nhpb_EncapsulateHeader = ENCAP_UNSET\<rparr>),
     proto_NextHopGroup = (\<lambda>e. Inr \<lparr>nhgpb_NextHop = map (\<lambda>(k, n). \<lparr>nhgnhk_Index = k,
        nhgnhk_NextHop = Some \<lparr>nhgnhpb_Weight = nhgnh_Weight n\<rparr>\<rparr>) (nhg_NextHop e),
        nhgpb_BackupNextHopGroup = nhg_BackupNextHopGroup e\<rparr>)\<rparr>"

lemma sample_candidate: "candidate sample_env a =
    (if list_all numeric_label (pb_LabelEntry a) then Inr (Some (sample_conv a)) else Inl ''label'')"
  by (simp add: sample_env_def candidateRIB_def sample_ygot_def)

lemma conv_nhs_snoc: "conv_nhs (ks @ [k]) = gm_put (nhgnhk_Index k)
    \<lparr>nhgnh_Index = Some (nhgnhk_Index k), nhgnh_Weight = Option.bind (nhgnhk_NextHop k) nhgnhpb_Weight\<rparr> (conv_nhs ks)"
  by (simp add: conv_nhs_def)

lemma conv_nhs_wf: "gm_wf (conv_nhs ks)" "fst ` set (conv_nhs ks) = nhgnhk_Index ` set ks"
    "p \<in> set (conv_nhs ks) \<Longrightarrow> nhgnh_Index (snd p) = Some (fst p)"
proof -
  show wf: "gm_wf (conv_nhs ks)" for ks
    by (induction ks rule: rev_induct) (simp add: conv_nhs_def, simp add: conv_nhs_snoc)
  show "fst ` set (conv_nhs ks) = nhgnhk_Index ` set ks"
    by (induction ks rule: rev_induct) (simp add: conv_nhs_def, simp add: conv_nhs_snoc AList.dom_update)
  show "p \<in> set (conv_nhs ks) \<Longrightarrow> nhgnh_Index (snd p) = Some (fst p)"
    by (induction ks rule: rev_induct) (simp add: conv_nhs_def, auto simp: conv_nhs_snoc gm_set_put [OF wf])
qed

lemma sample_laws: "env_laws sample_env"
proof -
  have 4: "v4_of e (snd (conv_v4 e)) \<and> fst (conv_v4 e) = v4k_Prefix e" for e
    by (simp add: v4_of_def conv_v4_def v4_ref_def v4pb_ref_def split: option.splits)
  have 6: "v6_of e (snd (conv_v6 e)) \<and> fst (conv_v6 e) = v6k_Prefix e" for e
    by (simp add: v6_of_def conv_v6_def v6_ref_def v6pb_ref_def split: option.splits)
  have l: "le_of e (snd (conv_le e)) \<and> fst (conv_le e) = label_of e" for e
    by (simp add: le_of_def conv_le_def le_ref_def lepb_ref_def split: option.splits)
  have g: "nhg_of e (snd (conv_nhg e)) \<and> fst (conv_nhg e) = nhgk_Id e" for e
    by (auto simp: nhg_of_def conv_nhg_def group_wf_def pb_nhs_def conv_nhs_wf dest: conv_nhs_wf(3) split: option.splits)
  have h: "nh_of e (snd (conv_nh e)) \<and> fst (conv_nh e) = nhk_Index e" for e
    by (simp add: nh_of_def conv_nh_def NewNextHop_def)
  have "candidate_laws sample_env"
    unfolding candidate_laws_def sample_candidate using 4 6 l g h
    by (auto simp: sample_conv_def empty_Afts_pb_def empty_Afts_def prod_eq_iff)
  moreover have "merge_laws sample_env"
    unfolding merge_laws_def by (simp add: sample_env_def sample_merge_def merge_table_def empty_Afts_def)
  moreover have "DeepCopy sample_env a = Inr a" for a by (simp add: sample_env_def)
  ultimately show ?thesis by (simp add: env_laws_def)
qed

subsection \<open>Sample operations\<close>

definition nh_op :: "u64 \<Rightarrow> AFTOperation_Operation \<Rightarrow> u64 \<Rightarrow> AFTOperation" where
  "nh_op i t idx = \<lparr>op_Id = i, op_NetworkInstance = ''DEFAULT'', op_Op = t,
     op_Entry = Some (AFTOp_NextHop (Some \<lparr>nhk_Index = idx, nhk_NextHop = None\<rparr>)), op_ElectionId = None\<rparr>"

definition nhg_op :: "u64 \<Rightarrow> AFTOperation_Operation \<Rightarrow> u64 \<Rightarrow> u64 list \<Rightarrow> u64 option \<Rightarrow> AFTOperation" where
  "nhg_op i t g nhs b = \<lparr>op_Id = i, op_NetworkInstance = ''DEFAULT'', op_Op = t,
     op_Entry = Some (AFTOp_NextHopGroup (Some \<lparr>nhgk_Id = g, nhgk_NextHopGroup = Some
       \<lparr>nhgpb_NextHop = map (\<lambda>n. \<lparr>nhgnhk_Index = n, nhgnhk_NextHop = None\<rparr>) nhs, nhgpb_BackupNextHopGroup = b\<rparr>\<rparr>)),
     op_ElectionId = None\<rparr>"

definition v4_op :: "u64 \<Rightarrow> AFTOperation_Operation \<Rightarrow> string \<Rightarrow> u64 \<Rightarrow> AFTOperation" where
  "v4_op i t p g = \<lparr>op_Id = i, op_NetworkInstance = ''DEFAULT'', op_Op = t,
     op_Entry = Some (AFTOp_Ipv4 (Some \<lparr>v4k_Prefix = p, v4k_Ipv4Entry = Some
       \<lparr>v4pb_NextHopGroup = Some g, v4pb_NextHopGroupNetworkInstance = None, v4pb_EntryMetadata = None\<rparr>\<rparr>)),
     op_ElectionId = None\<rparr>"

lemmas sample_ops = nh_op_def nhg_op_def v4_op_def

definition in_order :: schedule where
  "in_order s es = es"

end
