(* ===== verification/RibProps.thy ===== *)
theory RibProps
  imports RibRun Sample
begin

text \<open>
  The properties of the RIB, each over every state that \<open>rib_reach\<close> allows, with the sample
  runs their witnesses use.
\<close>

subsection \<open>Sample runs\<close>

text \<open>A route, then its group, then the next-hop that resolves all three.\<close>

definition sample_add :: "AFTOperation \<Rightarrow> RIB \<Rightarrow> RIB" where
  "sample_add op r = (case AddEntry sample_env in_order ''DEFAULT'' op r of Some (_, r') \<Rightarrow> r' | None \<Rightarrow> r)"

definition sample0 :: RIB where
  "sample0 = start False False ''DEFAULT'' []"

definition route_op :: AFTOperation where
  "route_op = v4_op 1 Op_ADD ''1.0.0.0/8'' 1"

definition group_op :: AFTOperation where
  "group_op = nhg_op 2 Op_ADD 1 [1] None"

definition hop_op :: AFTOperation where
  "hop_op = nh_op 3 Op_ADD 1"

definition sample1 :: RIB where "sample1 = sample_add route_op sample0"
definition sample2 :: RIB where "sample2 = sample_add group_op sample1"
definition sample3 :: RIB where "sample3 = sample_add hop_op sample2"

lemma sample_fair: "fair in_order"
  by (simp add: fair_def in_order_def)

lemma small_room: "n_rib r + length (pendingEntries r) \<le> 9 \<Longrightarrow> room r"
  by (simp add: room_def)

lemma sample_room: "room sample0" "room sample1" "room sample2" "room sample3"
  by (rule small_room, code_simp)+

lemma sample_acceptable:
  "acceptable sample0 ''DEFAULT'' route_op" "acceptable sample1 ''DEFAULT'' group_op"
  "acceptable sample2 ''DEFAULT'' hop_op"
  by code_simp+

lemma reach_facts:
  assumes "env_laws E" and "rib_reach E fl r"
  shows "rib_inv r" "pend_wf r" "quiescent E r" "counts_ok r" "rib_wf r"
  using rib_reach_inv [OF assms] by (simp_all add: run_inv_def rib_inv_def)

lemma sample_step:
  assumes "rib_reach sample_env fl r" and "room r" and "acceptable r ''DEFAULT'' op"
  shows "rib_reach sample_env fl (sample_add op r)"
  by (rule AddEntry_result [OF sample_laws sample_fair reach_facts(1,2) [OF sample_laws assms(1)] assms(2,3)])
    (use rib_reach.add [OF assms(1) sample_fair assms(2,3)] in \<open>auto simp: sample_add_def\<close>)

lemma sample_reach:
  "rib_reach sample_env False sample0" "rib_reach sample_env False sample1"
  "rib_reach sample_env False sample2" "rib_reach sample_env False sample3"
proof -
  show r0: "rib_reach sample_env False sample0"
    unfolding sample0_def by (rule rib_reach.init) (simp add: hasDisableCheckFn_def)
  show r1: "rib_reach sample_env False sample1"
    unfolding sample1_def by (rule sample_step [OF r0 sample_room(1) sample_acceptable(1)])
  show r2: "rib_reach sample_env False sample2"
    unfolding sample2_def by (rule sample_step [OF r1 sample_room(2) sample_acceptable(2)])
  show "rib_reach sample_env False sample3"
    unfolding sample3_def by (rule sample_step [OF r2 sample_room(3) sample_acceptable(3)])
qed

subsection \<open>Reference counting\<close>



text \<open>
  C2: Until a \<open>Flush\<close>, no stored entry refers to a missing one: every next-hop-group that an
  IPv4, IPv6 or MPLS entry names is stored, and so is every next-hop of every stored group.
\<close>
theorem references_resolve:
  assumes "env_laws E" and "rib_reach E False r"
  shows "(\<forall>x\<in>#nhg_refs r. has_nhg r x) \<and> (\<forall>x\<in>#nh_refs r. has_nh r x)"
  using rib_reach_inv [OF assms] by (simp add: run_inv_def no_dangling_def)

theorem references_resolve_witness:
  "(''DEFAULT'', 1) \<in># nhg_refs sample3 \<and> has_nhg sample3 (''DEFAULT'', 1)"
proof
  show "(''DEFAULT'', 1) \<in># nhg_refs sample3" by code_simp
  then show "has_nhg sample3 (''DEFAULT'', 1)"
    using references_resolve [OF sample_laws sample_reach(4)] by blast
qed

subsection \<open>AddEntry\<close>

text \<open>
  C3: \<open>AddEntry\<close> terminates: for a supported operation of a known network instance the
  recursion through the pending operations ends within the fuel of its definition, whatever
  order the pending map is iterated in, and returns the two result slices, no error.
\<close>
theorem AddEntry_terminates:
  assumes "env_laws E" and "rib_reach E fl r" and "fair sched" and "room r" and "acceptable r ni op"
  shows "\<exists>oks fails r'. AddEntry E sched ni op r = Some (Inr (oks, fails), r')"
  by (rule AddEntry_result [OF assms(1,3) reach_facts(1,2) [OF assms(1,2)] assms(4,5)]) blast

theorem AddEntry_terminates_witness:
  "\<exists>oks fails r'. AddEntry sample_env in_order ''DEFAULT'' hop_op sample2 = Some (Inr (oks, fails), r')"
  by (rule AddEntry_terminates [OF sample_laws sample_reach(3) sample_fair sample_room(3) sample_acceptable(3)])

text \<open>
  C4: No operation waits in the queue although it could be installed: in every reachable
  state, each pending operation would be refused or found unresolved again.
\<close>
theorem pending_not_installable:
  assumes "env_laws E" and "rib_reach E fl r" and "pe \<in> set (getPending r)"
  shows "\<not> installable E r pe"
  using reach_facts(3) [OF assms(1,2)] assms(3) by (simp add: quiescent_def)

theorem pending_not_installable_witness:
  "\<not> installable sample_env sample2 \<lparr>pe_ni = ''DEFAULT'', pe_op = route_op\<rparr> \<and> pendingEntries sample3 = []"
proof
  have "\<lparr>pe_ni = ''DEFAULT'', pe_op = route_op\<rparr> \<in> set (getPending sample2)" by code_simp
  then show "\<not> installable sample_env sample2 \<lparr>pe_ni = ''DEFAULT'', pe_op = route_op\<rparr>"
    by (rule pending_not_installable [OF sample_laws sample_reach(3)])
  show "pendingEntries sample3 = []" by code_simp
qed



text \<open>
  C22: \<open>AddEntry\<close> rejects an operation for the empty or an unknown network instance, and one
  whose entry is missing or of a kind the RIB does not implement, with the error of the code
  and the RIB unchanged.
\<close>
theorem AddEntry_rejects:
  assumes "env_laws E" and "rib_reach E fl r" and "ni = [] \<or> \<not> known_ni r ni \<or> \<not> supported op"
  shows "AddEntry E sched ni op r =
    Some (Inl (if ni = [] \<or> \<not> known_ni r ni then InvalidNetworkInstance ni else UnsupportedAFTOperation), r)"
  by (rule AddEntry_refused [OF reach_facts(5) [OF assms(1,2)] assms(3)])

theorem AddEntry_rejects_witness:
  "AddEntry sample_env in_order ''VRF-1'' route_op sample3 = Some (Inl (InvalidNetworkInstance ''VRF-1''), sample3)"
proof -
  have "\<not> known_ni sample3 ''VRF-1''" by code_simp
  with AddEntry_rejects [OF sample_laws sample_reach(4), of "''VRF-1''" route_op in_order]
  show ?thesis by simp
qed

lemma AddEntry_unresolved:
  assumes "gm_get (niRIB r) ni = Some rh" and "IsValid rh" and "ni \<noteq> []"
    and "installEntry E ni op rh r = (Unresolved, r)"
  shows "AddEntry E sched ni op r = Some
    (if disableForwardReferences r then (Inr ([], [failResult op (UnresolvedDependencies (op_Id op))]), r)
     else (Inr ([], []), addPending (op_Id op) \<lparr>pe_ni = ni, pe_op = op\<rparr> r))"
  using assms by (simp add: AddEntry_def NetworkInstanceRIB_def numeral_2_eq_2)

text \<open>
  C23: An IPv4 addition that names a non-zero next-hop-group of a known network instance is
  acknowledged by \<open>AddEntry\<close> when that group is stored; otherwise it is queued and nothing
  else changes, or it is failed when forward references are disabled.
\<close>
theorem AddEntry_ipv4_resolution:
  assumes "env_laws E" and "rib_reach E fl r" and "fair sched" and "room r" and "acceptable r ni op"
    and op: "op_Entry op = Some (AFTOp_Ipv4 (Some e))" "op_Op op = Op_ADD"
    and cand: "candidate E (empty_Afts_pb\<lparr>pb_Ipv4Entry := [e]\<rparr>) = Inr c"
    and nz: "snd (v4pb_ref (v4k_Ipv4Entry e)) \<noteq> 0" and kn: "ref_known r (v4pb_ref (v4k_Ipv4Entry e))"
  shows "if has_nhg r (resolve_ref ni (v4pb_ref (v4k_Ipv4Entry e)))
    then \<exists>oks fails r'. AddEntry E sched ni op r = Some (Inr (oks, fails), r') \<and> op_Id op \<in> set (map or_ID oks)
    else AddEntry E sched ni op r = Some
      (if disableForwardReferences r then (Inr ([], [failResult op (UnresolvedDependencies (op_Id op))]), r)
       else (Inr ([], []), addPending (op_Id op) \<lparr>pe_ni = ni, pe_op = op\<rparr> r))"
proof -
  obtain rh where get: "gm_get (niRIB r) ni = Some rh" and at: "at_ni E r ni rh" and v: "IsValid rh"
    by (rule acceptable_at_ni [OF assms(1) reach_facts(1) [OF assms(1,2)] assms(5)])
  obtain w where c: "c = Some (single_v4 (v4k_Prefix e) w)" and w: "v4_of e w"
    using ipv4.cand_law [OF assms(1) TrueI cand] by blast
  have ref: "v4_ref w = v4pb_ref (v4k_Ipv4Entry e)" using w by (simp add: v4_of_def)
  have owf: "op_wf op" using assms(5) by (simp add: acceptable_def)
  show ?thesis
  proof (cases "has_nhg r (resolve_ref ni (v4_ref w))")
    case True
    then have "ref_ipv4.ready_at E r rh op e w"
      using ref_ready_iff(1) [OF at, of op e w] cand c w op nz ref by simp
    then have "installable E r \<lparr>pe_ni = ni, pe_op = op\<rparr>"
      using installable_iff [OF at owf] op(1) by blast
    then show ?thesis using True ref
      by (rule_tac AddEntry_result [OF assms(1,3) reach_facts(1,2) [OF assms(1,2)] assms(4,5)]) auto
  next
    case False
    have "installEntry E ni op rh r = (Unresolved, r)"
      by (rule ref_ipv4.install_waits [OF at owf op(1) _ w]) (use cand c op nz kn ref False in auto)
    then show ?thesis
      using AddEntry_unresolved [OF get v at_niD(4) [OF at]] False ref by simp
  qed
qed

theorem AddEntry_ipv4_resolution_witness:
  "AddEntry sample_env in_order ''DEFAULT'' route_op sample0 =
    Some (Inr ([], []), addPending 1 \<lparr>pe_ni = ''DEFAULT'', pe_op = route_op\<rparr> sample0)"
proof -
  let ?e = "\<lparr>v4k_Prefix = ''1.0.0.0/8'', v4k_Ipv4Entry = Some
    \<lparr>v4pb_NextHopGroup = Some 1, v4pb_NextHopGroupNetworkInstance = None, v4pb_EntryMetadata = None\<rparr>\<rparr>"
  have op: "op_Entry route_op = Some (AFTOp_Ipv4 (Some ?e))" "op_Op route_op = Op_ADD" "op_Id route_op = 1"
    by (simp_all add: route_op_def v4_op_def)
  have cand: "candidate sample_env (empty_Afts_pb\<lparr>pb_Ipv4Entry := [?e]\<rparr>) =
      Inr (Some (sample_conv (empty_Afts_pb\<lparr>pb_Ipv4Entry := [?e]\<rparr>)))"
    by (simp add: sample_candidate empty_Afts_pb_def)
  have k: "snd (v4pb_ref (v4k_Ipv4Entry ?e)) \<noteq> 0" "ref_known sample0 (v4pb_ref (v4k_Ipv4Entry ?e))"
    by (simp_all add: v4pb_ref_def ref_known_def)
  have no: "\<not> has_nhg sample0 (resolve_ref ''DEFAULT'' (v4pb_ref (v4k_Ipv4Entry ?e)))"
    and f: "\<not> disableForwardReferences sample0" by code_simp+
  from AddEntry_ipv4_resolution [OF sample_laws sample_reach(1) sample_fair sample_room(1)
      sample_acceptable(1) op(1,2) cand k] no f op(3)
  show ?thesis by simp
qed

text \<open>
  C24: A next-hop-group operation with a non-zero identifier is installed exactly when it
  names at least one next-hop, all its next-hops have a non-zero index and are stored in the
  same network instance, and, for a replace, the group already exists.
\<close>
theorem nhg_installable:
  assumes "env_laws E" and "rib_reach E fl r" and "acceptable r ni op"
    and op: "op_Entry op = Some (AFTOp_NextHopGroup (Some e))"
    and cand: "candidate E (empty_Afts_pb\<lparr>pb_NextHopGroup := [e]\<rparr>) = Inr c" and nz: "nhgk_Id e \<noteq> 0"
  shows "installable E r \<lparr>pe_ni = ni, pe_op = op\<rparr> \<longleftrightarrow> pb_nhs e \<noteq> [] \<and>
    (\<forall>i\<in>set (pb_nhs e). i \<noteq> 0 \<and> has_nh r (ni, i)) \<and> (op_Op op = Op_REPLACE \<longrightarrow> has_nhg r (ni, nhgk_Id e))"
proof -
  obtain rh where get: "gm_get (niRIB r) ni = Some rh" and at: "at_ni E r ni rh"
    by (rule acceptable_at_ni [OF assms(1) reach_facts(1) [OF assms(1,2)] assms(3)])
  obtain w where c: "c = Some (single_nhg (nhgk_Id e) w)" and w: "nhg_of e w"
    using nhg.cand_law [OF assms(1) TrueI cand] by blast
  have owf: "op_wf op" using assms(3) by (simp add: acceptable_def)
  have ks: "fst ` set (nhg_NextHop w) = set (pb_nhs e)" using w by (simp add: nhg_of_def)
  have uniq: "g = w" if "candidate E (empty_Afts_pb\<lparr>pb_NextHopGroup := [e]\<rparr>) = Inr (Some (single_nhg (nhgk_Id e) g))" for g
  proof -
    have "single_nhg (nhgk_Id e) g = single_nhg (nhgk_Id e) w" using that cand c by simp
    then have "aft_NextHopGroup (single_nhg (nhgk_Id e) g) = aft_NextHopGroup (single_nhg (nhgk_Id e) w)" by (rule arg_cong)
    then show ?thesis by (simp add: single_nhg_def)
  qed
  have "installable E r \<lparr>pe_ni = ni, pe_op = op\<rparr> \<longleftrightarrow> nhg_ready E r rh op e w"
    using installable_iff [OF at owf] op uniq by (auto simp: nhg.ready_def)
  also have "\<dots> \<longleftrightarrow> pb_nhs e \<noteq> [] \<and> (\<forall>i\<in>set (pb_nhs e). i \<noteq> 0 \<and> has_nh r (ni, i)) \<and>
      (op_Op op = Op_REPLACE \<longrightarrow> has_nhg r (ni, nhgk_Id e))"
  proof -
    have "(\<forall>p\<in>set (nhg_NextHop w). fst p \<noteq> 0 \<and> has_nh r (ni, fst p)) \<longleftrightarrow>
        (\<forall>i\<in>set (pb_nhs e). i \<noteq> 0 \<and> has_nh r (ni, i))" unfolding ks [symmetric] by simp
    moreover have "nhg_NextHop w \<noteq> [] \<longleftrightarrow> pb_nhs e \<noteq> []" by (metis ks set_empty image_is_empty)
    ultimately show ?thesis
      unfolding ref_ready_iff(4) [OF at] using cand c w nz by (simp add: has_at(1) [OF get]) blast
  qed
  finally show ?thesis .
qed

theorem nhg_installable_witness:
  "\<not> installable sample_env sample1 \<lparr>pe_ni = ''DEFAULT'', pe_op = group_op\<rparr>"
proof -
  let ?e = "\<lparr>nhgk_Id = 1, nhgk_NextHopGroup = Some
    \<lparr>nhgpb_NextHop = [\<lparr>nhgnhk_Index = 1, nhgnhk_NextHop = None\<rparr>], nhgpb_BackupNextHopGroup = None\<rparr>\<rparr>"
  have op: "op_Entry group_op = Some (AFTOp_NextHopGroup (Some ?e))"
    by (simp add: group_op_def nhg_op_def)
  have cand: "candidate sample_env (empty_Afts_pb\<lparr>pb_NextHopGroup := [?e]\<rparr>) =
      Inr (Some (sample_conv (empty_Afts_pb\<lparr>pb_NextHopGroup := [?e]\<rparr>)))"
    by (simp add: sample_candidate empty_Afts_pb_def)
  have no: "\<not> has_nh sample1 (''DEFAULT'', 1)" by code_simp
  have "(1::u64) \<in> set (pb_nhs ?e)" by (simp add: pb_nhs_def)
  with nhg_installable [OF sample_laws sample_reach(2) sample_acceptable(2) op cand] no show ?thesis by auto
qed

subsection \<open>DeleteEntry\<close>

lemma delete_group_unfold:
  assumes "gm_get (niRIB r) ni = Some rh" and "IsValid rh" and "op_Entry op = Some (AFTOp_NextHopGroup eo)"
  shows "DeleteEntry E ni (Some op) r =
    (case DeleteNextHopGroup (holder_check r rh) eo rh of
       (Inr (True, Some og), h) \<Rightarrow> (([okResult op], [], None),
          fold (\<lambda>(i, _). on_ni ni (decNHRefCount i)) (nhg_NextHop og) (r\<lparr>niRIB := gm_put ni h (niRIB r)\<rparr>))
     | (res, h) \<Rightarrow> (deleteOutcome op res, r\<lparr>niRIB := gm_put ni h (niRIB r)\<rparr>))"
  using assms by (simp add: DeleteEntry_def NetworkInstanceRIB_def Let_def)

text \<open>
  C25: A next-hop-group that a stored entry refers to, and a next-hop that a stored group
  contains, cannot be deleted: \<open>DeleteEntry\<close> reports the operation as failed and changes
  nothing.
\<close>
theorem referenced_not_deleted:
  assumes "env_laws E" and "rib_reach E False r" and "n_rib r < 2 ^ 64" and "ni \<noteq> []"
    and "op_Entry op = Some (AFTOp_NextHopGroup (Some eg)) \<and> nhgk_Id eg \<noteq> 0 \<and> (ni, nhgk_Id eg) \<in># nhg_refs r \<or>
      op_Entry op = Some (AFTOp_NextHop (Some en)) \<and> nhk_Index en \<noteq> 0 \<and> (ni, nhk_Index en) \<in># nh_refs r"
  shows "DeleteEntry E ni (Some op) r = (([], [okResult op], None), r)"
proof -
  note R = reach_facts [OF assms(1,2)]
  have nd: "no_dangling r" using rib_reach_inv [OF assms(1,2)] by (simp add: run_inv_def)
  have "known_ni r ni"
    using assms(5) R(1) refs_known [OF R(5)] by (auto simp: rib_inv_def ni_closed_def)
  then obtain rh where get: "gm_get (niRIB r) ni = Some rh" by (auto simp: known_ni_def)
  then have at: "at_ni E r ni rh" using assms(1,4) R(5) by (simp add: at_ni_def)
  note D = at_niD [OF at] and v = at_ni_valid [OF at]
  have nz: "nhg_count r x \<noteq> 0" if "x \<in># nhg_refs r" for x
    using unreferenced(1) [OF R(1) assms(3)] that by blast
  have nz': "nh_count r x \<noteq> 0" if "x \<in># nh_refs r" for x
    using unreferenced(2) [OF R(1) assms(3)] that by blast
  from assms(5) show ?thesis
  proof
    assume a: "op_Entry op = Some (AFTOp_NextHopGroup (Some eg)) \<and> nhgk_Id eg \<noteq> 0 \<and> (ni, nhgk_Id eg) \<in># nhg_refs r"
    then have "run_check (holder_check r rh) rh Delete (Some (single_nhg (nhgk_Id eg) (NewNextHopGroup (nhgk_Id eg)))) = Inr False"
      using D nd nz by (simp add: run_check_Add canDelete_nhg no_dangling_def)
    then show ?thesis
      using nhg.delete_checked [OF D(5), of eg "holder_check r rh"] a get v
      by (simp add: delete_group_unfold deleteOutcome_def)
  next
    assume a: "op_Entry op = Some (AFTOp_NextHop (Some en)) \<and> nhk_Index en \<noteq> 0 \<and> (ni, nhk_Index en) \<in># nh_refs r"
    then have "run_check (holder_check r rh) rh Delete (Some (single_nh (nhk_Index en) (NewNextHop (nhk_Index en)))) = Inr False"
      using D nd nz' by (simp add: run_check_Add canDelete_nhg no_dangling_def)
    then show ?thesis
      using nh.delete_checked [OF D(5), of en "holder_check r rh"] a get v
      by (simp add: DeleteEntry_def NetworkInstanceRIB_def deleteOutcome_def)
  qed
qed

theorem referenced_not_deleted_witness:
  "DeleteEntry sample_env ''DEFAULT'' (Some (nhg_op 4 Op_DELETE 1 [] None)) sample3 =
    (([], [okResult (nhg_op 4 Op_DELETE 1 [] None)], None), sample3)"
proof -
  let ?e = "\<lparr>nhgk_Id = 1, nhgk_NextHopGroup = Some \<lparr>nhgpb_NextHop = [], nhgpb_BackupNextHopGroup = None\<rparr>\<rparr>"
  have op: "op_Entry (nhg_op 4 Op_DELETE 1 [] None) = Some (AFTOp_NextHopGroup (Some ?e))" by (simp add: nhg_op_def)
  have "n_rib sample3 \<le> 9" by code_simp
  then have n: "n_rib sample3 < 2 ^ 64" by simp
  have "(''DEFAULT'', 1) \<in># nhg_refs sample3" by code_simp
  then show ?thesis
    by (intro referenced_not_deleted [OF sample_laws sample_reach(4) n, where eg = ?e]) (simp_all add: op)
qed


text \<open>A run in which the group is deleted before any route refers to it.\<close>

definition group_only :: RIB where
  "group_only = sample_add (nhg_op 2 Op_ADD 1 [1] None) (sample_add hop_op sample0)"

lemma group_only_reach: "rib_reach sample_env False group_only"
proof -
  let ?r = "sample_add hop_op sample0"
  have a: "acceptable sample0 ''DEFAULT'' hop_op" "acceptable ?r ''DEFAULT'' (nhg_op 2 Op_ADD 1 [1] None)" by code_simp+
  have rm: "room ?r" by (rule small_room) code_simp
  show ?thesis
    unfolding group_only_def by (rule sample_step [OF sample_step [OF sample_reach(1) sample_room(1) a(1)] rm a(2)])
qed


end
