(* ===== verification/ServerSample.thy ===== *)
theory ServerSample
  imports ServerInv RibProps
begin

text \<open>
  Concrete runs of the server: two clients that connect, negotiate, are elected and send
  operations, as executable functions on worlds with the conditions under which they are
  steps.
\<close>

definition do_connect :: "string \<Rightarrow> world \<Rightarrow> world" where
  "do_connect cid w = (case newClient cid (w_srv w) of (_, s') \<Rightarrow>
     \<lparr>w_srv = s', w_readers = gm_put cid \<lparr>rd_gotmsg = False, rd_work = None\<rparr> (w_readers w), w_used = cid # w_used w\<rparr>)"

definition do_message :: "string \<Rightarrow> ModifyRequest \<Rightarrow> world \<Rightarrow> world" where
  "do_message cid m w = (case gm_get (w_readers w) cid of None \<Rightarrow> w | Some rd \<Rightarrow>
     (case recv_msg cid (rd_gotmsg rd) (Some m) (w_srv w) of (res, s') \<Rightarrow>
       w\<lparr>w_srv := s', w_readers := gm_put cid (reader_after cid res s') (w_readers w)\<rparr>))"

definition do_operation :: "string \<Rightarrow> world \<Rightarrow> world" where
  "do_operation cid w = (case gm_get (w_readers w) cid of
     Some rd \<Rightarrow>
       (case rd_work rd of
          Some (fib, elec, op # ops) \<Rightarrow>
            (case modify_op sample_env in_order fib elec op (w_srv w) of
               Some (evs, s') \<Rightarrow> w\<lparr>w_srv := (if has_error evs then deleteClient cid s' else s'),
                 w_readers := gm_put cid (rd\<lparr>rd_work := Some (fib, elec, ops)\<rparr>) (w_readers w)\<rparr>
             | None \<Rightarrow> w)
        | _ \<Rightarrow> w)
   | None \<Rightarrow> w)"

lemma do_connect_reach:
  assumes "srv_reach E w" and "cid \<noteq> []" and "cid \<notin> set (w_used w)" and "fst (newClient cid (w_srv w)) = None"
  shows "srv_reach E (do_connect cid w)"
proof -
  obtain s' where s': "newClient cid (w_srv w) = (None, s')" using assms(4) by (metis prod.collapse)
  show ?thesis
    using srv_reach.step [OF assms(1) srv_step.connect [OF assms(2,3) s']] by (simp add: do_connect_def s')
qed

text \<open>A reader that is idle and a message that does not end its RPC.\<close>

definition message_ok :: "string \<Rightarrow> ModifyRequest \<Rightarrow> world \<Rightarrow> bool" where
  "message_ok cid m w = (case gm_get (w_readers w) cid of None \<Rightarrow> False | Some rd \<Rightarrow>
     (case rd_work rd of Some _ \<Rightarrow> False
      | None \<Rightarrow> (case recv_msg cid (rd_gotmsg rd) (Some m) (w_srv w) of (res, s') \<Rightarrow> \<not> ends_rpc cid res s')))"

lemma do_message_reach:
  assumes "srv_reach E w" and "message_ok cid m w"
  shows "srv_reach E (do_message cid m w)"
proof -
  obtain rd where rd: "gm_get (w_readers w) cid = Some rd" "rd_work rd = None"
    using assms(2) by (auto simp: message_ok_def split: option.splits)
  obtain res s' where m: "recv_msg cid (rd_gotmsg rd) (Some m) (w_srv w) = (res, s')" by (rule prod.exhaust)
  have "gm_get (w_readers w) cid = Some \<lparr>rd_gotmsg = rd_gotmsg rd, rd_work = None\<rparr>" using rd by (cases rd) simp
  moreover have "\<not> ends_rpc cid res s'" using assms(2) rd m by (simp add: message_ok_def)
  ultimately show ?thesis
    using srv_reach.step [OF assms(1) srv_step.message [OF _ m]] rd(1) m by (simp add: do_message_def)
qed

text \<open>A reader with an operation left to do.\<close>

definition operation_ok :: "string \<Rightarrow> world \<Rightarrow> bool" where
  "operation_ok cid w = (case gm_get (w_readers w) cid of None \<Rightarrow> False | Some rd \<Rightarrow>
     (case rd_work rd of None \<Rightarrow> False | Some (fib, elec, ops) \<Rightarrow>
        (case ops of [] \<Rightarrow> False | op # _ \<Rightarrow> op_wf op \<and>
           (case modify_op sample_env in_order fib elec op (w_srv w) of None \<Rightarrow> False | Some _ \<Rightarrow> True))))"

lemma operation_step:
  assumes "operation_ok cid w" and "room (masterRIB (w_srv w))"
  shows "srv_step sample_env w (do_operation cid w)"
proof -
  obtain rd where g: "gm_get (w_readers w) cid = Some rd"
    using assms(1) by (cases "gm_get (w_readers w) cid") (simp_all add: operation_ok_def)
  obtain fib elec ops' where w: "rd_work rd = Some (fib, elec, ops')"
    using assms(1) g by (cases "rd_work rd") (auto simp: operation_ok_def)
  obtain op ops where ops': "ops' = op # ops" using assms(1) g w by (cases ops') (simp_all add: operation_ok_def)
  note rd = g w [unfolded ops']
  have "op_wf op" using assms(1) rd by (simp add: operation_ok_def)
  moreover obtain evs s' where m: "modify_op sample_env in_order fib elec op (w_srv w) = Some (evs, s')"
    using assms(1) rd by (cases "modify_op sample_env in_order fib elec op (w_srv w)") (auto simp: operation_ok_def)
  ultimately have rd: "gm_get (w_readers w) cid = Some rd" "rd_work rd = Some (fib, elec, op # ops)" "op_wf op"
    using rd by simp_all
  show ?thesis
    using srv_step.operation [OF rd(1,2) sample_fair rd(3) assms(2) m] rd m by (simp add: do_operation_def)
qed

lemma do_operation_reach:
  "srv_reach sample_env w \<Longrightarrow> operation_ok cid w \<Longrightarrow> room (masterRIB (w_srv w)) \<Longrightarrow> srv_reach sample_env (do_operation cid w)"
  by (rule srv_reach.step [OF _ operation_step])

subsection \<open>Two clients\<close>

definition params_msg :: ModifyRequest where
  "params_msg = \<lparr>mreq_Operation = [], mreq_ElectionId = None,
     mreq_Params = Some \<lparr>sp_Redundancy = SINGLE_PRIMARY, sp_Persistence = PRESERVE, sp_AckType = RIB_AND_FIB_ACK\<rparr>\<rparr>"

definition election_msg :: "u64 \<Rightarrow> u64 \<Rightarrow> ModifyRequest" where
  "election_msg h l = \<lparr>mreq_Operation = [], mreq_ElectionId = Some \<lparr>High = h, Low = l\<rparr>, mreq_Params = None\<rparr>"

definition ops_msg :: "u64 \<Rightarrow> AFTOperation list \<Rightarrow> ModifyRequest" where
  "ops_msg l ops = \<lparr>mreq_Operation = map (op_ElectionId_update (\<lambda>_. Some \<lparr>High = 0, Low = l\<rparr>)) ops,
     mreq_ElectionId = None, mreq_Params = None\<rparr>"

definition world0 :: world where
  "world0 = (case NewServer [] of Inr s \<Rightarrow> \<lparr>w_srv = s, w_readers = [], w_used = []\<rparr> | Inl _ \<Rightarrow>
     \<lparr>w_srv = \<lparr>srv_cs = [], curElecID = None, curMaster = [], masterRIB = sample0\<rparr>, w_readers = [], w_used = []\<rparr>)"

text \<open>Client A is elected and sends a next-hop and a group.\<close>

definition world1 :: world where
  "world1 = do_message ''A'' (election_msg 0 1) (do_message ''A'' params_msg (do_connect ''A'' world0))"

definition world2 :: world where
  "world2 = do_message ''A'' (ops_msg 1 [hop_op, nhg_op 4 Op_ADD 1 [1] None]) world1"

text \<open>After A's first operation, client B connects and wins the election.\<close>

definition world3 :: world where
  "world3 = do_operation ''A'' world2"

definition world4 :: world where
  "world4 = do_message ''B'' (election_msg 0 2) (do_message ''B'' params_msg (do_connect ''B'' world3))"

lemma world_reach:
  "srv_reach sample_env world0" "srv_reach sample_env world1" "srv_reach sample_env world2"
  "srv_reach sample_env world3" "srv_reach sample_env world4"
proof -
  have no: "\<not> srv_hasDisableCheckFn []" by (simp add: srv_hasDisableCheckFn_def)
  obtain s where s: "NewServer [] = Inr s" by (simp add: NewServer_def Let_def)
  show w0: "srv_reach sample_env world0"
    unfolding world0_def s sum.case by (rule srv_reach.init [OF s no])
  have r: "room (masterRIB (w_srv world2))" by (rule small_room) code_simp
  show w1: "srv_reach sample_env world1"
    unfolding world1_def by (rule do_message_reach [OF do_message_reach [OF do_connect_reach [OF w0]]]) code_simp+
  show w2: "srv_reach sample_env world2"
    unfolding world2_def by (rule do_message_reach [OF w1]) code_simp
  show w3: "srv_reach sample_env world3"
    unfolding world3_def by (rule do_operation_reach [OF w2 _ r]) code_simp
  show "srv_reach sample_env world4"
    unfolding world4_def by (rule do_message_reach [OF do_message_reach [OF do_connect_reach [OF w3]]]) code_simp+
qed

end
