(* ===== verification/RibQuery.thy ===== *)
theory RibQuery
  imports RibProps
begin

text \<open>
  What \<open>Flush\<close>, \<open>GetRIB\<close> and \<open>KnownNetworkInstances\<close> promise to the server, and the counter
  leak of a group that lists a next-hop twice.
\<close>

subsection \<open>Flush\<close>

text \<open>
  C27: \<open>Flush\<close> of distinct, known network instances empties all their tables, leaves the
  entries of every other network instance and the pending operations alone, and keeps the
  reference counters exact.
\<close>
theorem Flush_empties:
  assumes "env_laws E" and "rib_reach E fl r" and "n_rib r < 2 ^ 64" and "distinct nis" and "\<forall>n\<in>set nis. known_ni r n"
    and "Flush nis r = (err, r')"
  shows "(\<forall>n h. gm_get (niRIB r') n = Some h \<longrightarrow> (if n \<in> set nis then n_entries (afts h) = 0
      else \<exists>h0. gm_get (niRIB r) n = Some h0 \<and> afts h = afts h0)) \<and>
    pendingEntries r' = pendingEntries r \<and> counts_ok r'"
proof -
  have c: "all_cleared (set nis) r r'"
    using Flush_result [OF reach_facts(1) [OF assms(1,2)] assms(3-5)] assms(6) by simp
  have "if n \<in> set nis then n_entries (afts h) = 0 else \<exists>h0. gm_get (niRIB r) n = Some h0 \<and> afts h = afts h0"
    if "gm_get (niRIB r') n = Some h" for n h by (rule all_cleared_holder [OF c that])
  with c show ?thesis by (simp add: all_cleared_def rib_inv_def)
qed

theorem Flush_empties_witness:
  "\<exists>h. gm_get (niRIB (snd (Flush [''DEFAULT''] sample3))) ''DEFAULT'' = Some h \<and> n_entries (afts h) = 0"
proof -
  have "n_rib sample3 \<le> 9" by code_simp
  then have n: "n_rib sample3 < 2 ^ 64" by simp
  have k: "\<forall>n\<in>set [''DEFAULT'']. known_ni sample3 n" by code_simp
  have "gm_get (niRIB (snd (Flush [''DEFAULT''] sample3))) ''DEFAULT'' \<noteq> None" by code_simp
  with Flush_empties [OF sample_laws sample_reach(4) n _ k prod.collapse [symmetric]] show ?thesis by auto
qed

text \<open>
  C28: \<open>Flush\<close> returns no error when, in each network instance it flushes, the backup groups
  named by the stored groups are stored and no two groups share one.
\<close>
theorem Flush_no_error:
  assumes "env_laws E" and "rib_reach E fl r" and "n_rib r < 2 ^ 64" and "distinct nis"
    and "\<forall>n\<in>set nis. known_ni r n \<and> ni_backups_ok r n"
  shows "fst (Flush nis r) = None"
  using Flush_result [OF reach_facts(1) [OF assms(1,2)] assms(3,4)] assms(5) by simp

theorem Flush_no_error_witness: "fst (Flush [''DEFAULT''] sample3) = None"
proof -
  have "n_rib sample3 \<le> 9" by code_simp
  then have n: "n_rib sample3 < 2 ^ 64" by simp
  have "\<forall>n\<in>set [''DEFAULT'']. known_ni sample3 n \<and> ni_backups_ok sample3 n" by code_simp
  then show ?thesis by (intro Flush_no_error [OF sample_laws sample_reach(4) n]) simp_all
qed

text \<open>
  Two groups that share a backup group make \<open>Flush\<close> report that it cannot find that
  group, although every entry is removed: the first of its two group loops deletes the
  backup once per group that names it.
\<close>
theorem Flush_shared_backup:
  "(case Flush [''DEFAULT''] (sample_add (nhg_op 5 Op_ADD 3 [1] (Some 1)) (sample_add (nhg_op 4 Op_ADD 2 [1] (Some 1)) sample3)) of
     (err, r') \<Rightarrow> err = Some (FlushErr [CannotFind (KeyNHG 1)]) \<and> n_rib r' = 0)"
  by code_simp


subsection \<open>GetRIB\<close>

text \<open>
  A pass over a table writes a prefix of the table's messages, and all of them when it runs
  to its end.
\<close>

definition writes :: "(proto_err + AFTEntry) list \<Rightarrow> get_end \<Rightarrow> AFTEntry list \<Rightarrow> bool" where
  "writes es e l \<longleftrightarrow> (\<exists>k\<le>length es. map Inr l = take k es \<and> (e = GetDone \<longrightarrow> k = length es))"

lemma writes_append:
  "writes es GetDone l \<Longrightarrow> writes es' e l' \<Longrightarrow> writes (es @ es') e (l @ l')"
proof -
  assume "writes es GetDone l" "writes es' e l'"
  then obtain k where k: "k \<le> length es'" "map Inr l' = take k es'" "e = GetDone \<longrightarrow> k = length es'"
      and l: "map Inr l = es" by (auto simp: writes_def)
  show ?thesis unfolding writes_def by (rule exI [of _ "length es + k"]) (use k l in auto)
qed

lemma writes_stop: "writes es e l \<Longrightarrow> e \<noteq> GetDone \<Longrightarrow> writes (es @ es') e l"
  unfolding writes_def by (metis append_Nil2 diff_is_0_eq le_trans length_append nat_le_linear nle_le take_append take_eq_Nil le_add1)

lemma get_table_writes:
  "get_table stop f es acc = (e, acc') \<Longrightarrow>
    \<exists>l. acc' = acc @ map (\<lambda>x. [x]) l \<and> writes (map (f \<circ> snd) es) e l"
proof (induction stop f es acc rule: get_table.induct)
  case (1 stop f acc)
  then show ?case by (auto simp: writes_def)
next
  case (2 stop f k x es acc)
  show ?case
  proof (cases "stop (length acc)")
    case True
    with 2(2) show ?thesis by (auto simp: writes_def)
  next
    case False
    show ?thesis
    proof (cases "f x")
      case (Inl m)
      with 2(2) False show ?thesis by (auto simp: writes_def)
    next
      case (Inr ae)
      with 2(2) False have "get_table stop f es (acc @ [[ae]]) = (e, acc')" by simp
      from 2(1) [OF False Inr this] obtain l where l: "acc' = (acc @ [[ae]]) @ map (\<lambda>x. [x]) l"
          "writes (map (f \<circ> snd) es) e l" by blast
      have "writes ([Inr ae] @ map (f \<circ> snd) es) e ([ae] @ l)"
        by (rule writes_append [OF _ l(2)]) (simp add: writes_def)
      with l(1) Inr show ?thesis by (intro exI [of _ "ae # l"]) (simp add: o_def)
    qed
  qed
qed

text \<open>The messages of a holder for a filter, in the order of the tables.\<close>

definition rib_messages :: "rib_env \<Rightarrow> (AFTType \<Rightarrow> bool) \<Rightarrow> RIBHolder \<Rightarrow> (proto_err + AFTEntry) list" where
  "rib_messages E filter0 rh =
     (let filter = (if filter0 AFT_ALL then all_filter else filter0); ni = rh_name rh; a = afts rh
      in (if filter AFT_IPV4 then map (\<lambda>p. aft_entry ni AFTEntry_Ipv4 (ConcreteIPv4Proto E (snd p))) (Ipv4Entry a) else []) @
         (if filter AFT_IPV6 then map (\<lambda>p. aft_entry ni AFTEntry_Ipv6 (ConcreteIPv6Proto E (snd p))) (Ipv6Entry a) else []) @
         (if filter AFT_MPLS then map (\<lambda>p. aft_entry ni AFTEntry_Mpls (ConcreteMPLSProto E (snd p))) (LabelEntry a) else []) @
         (if filter AFT_NEXTHOP_GROUP then map (\<lambda>p. aft_entry ni AFTEntry_NextHopGroup (ConcreteNextHopGroupProto E (snd p))) (aft_NextHopGroup a) else []) @
         (if filter AFT_NEXTHOP then map (\<lambda>p. aft_entry ni AFTEntry_NextHop (ConcreteNextHopProto E (snd p))) (aft_NextHop a) else []))"

lemma table_step:
  assumes "(if b then get_table stop f m acc else (GetDone, acc)) = (e, acc')"
  shows "\<exists>l. acc' = acc @ map (\<lambda>x. [x]) l \<and> writes (if b then map (\<lambda>p. f (snd p)) m else []) e l"
  using assms get_table_writes [of stop f m acc e acc'] by (auto simp: o_def writes_def split: if_splits)

lemma then_get_writes:
  assumes "then_get (if b then get_table stop f m acc else (GetDone, acc)) k = (e, acc')"
    and "\<And>acc1 e acc'. k acc1 = (e, acc') \<Longrightarrow> \<exists>l. acc' = acc1 @ map (\<lambda>x. [x]) l \<and> writes es e l"
  shows "\<exists>l. acc' = acc @ map (\<lambda>x. [x]) l \<and> writes ((if b then map (\<lambda>p. f (snd p)) m else []) @ es) e l"
proof -
  obtain e1 acc1 where t: "(if b then get_table stop f m acc else (GetDone, acc)) = (e1, acc1)" by (rule prod.exhaust)
  from table_step [OF t] obtain l1 where l1: "acc1 = acc @ map (\<lambda>x. [x]) l1"
    "writes (if b then map (\<lambda>p. f (snd p)) m else []) e1 l1" by blast
  show ?thesis
  proof (cases "e1 = GetDone")
    case True
    with assms(1) t have "k acc1 = (e, acc')" by (simp add: then_get_def)
    from assms(2) [OF this] obtain l2 where "acc' = acc1 @ map (\<lambda>x. [x]) l2" "writes es e l2" by blast
    with l1 True writes_append [of _ l1 es e l2] show ?thesis by (intro exI [of _ "l1 @ l2"]) simp
  next
    case False
    with assms(1) t have "e = e1" "acc' = acc1" by (auto simp: then_get_def split: get_end.splits)
    with l1 False writes_stop [OF l1(2) False] show ?thesis by blast
  qed
qed

text \<open>
  \<open>GetRIB\<close> writes a prefix of the messages of the entries its filter selects (\<open>ALL\<close>
  selects the five supported AFTs), one entry per message, each exactly once, and all of
  them when it is neither stopped nor fails to marshal an entry.
\<close>
theorem GetRIB_messages:
  assumes "GetRIB E flt stop rh = (e, msgs)"
  shows "\<exists>l. msgs = map (\<lambda>x. [x]) l \<and> writes (rib_messages E flt rh) e l"
proof -
  have "\<exists>l. msgs = [] @ map (\<lambda>x. [x]) l \<and> writes (rib_messages E flt rh) e l"
    unfolding rib_messages_def Let_def
    by (rule then_get_writes [OF assms [unfolded GetRIB_def Let_def]], rule then_get_writes, assumption,
        rule then_get_writes, assumption, rule then_get_writes, assumption, rule table_step, assumption)
  then show ?thesis by simp
qed

theorem GetRIB_messages_witness:
  "\<exists>l. snd (GetRIB sample_env (\<lambda>t. t = AFT_ALL) (\<lambda>n. n = 2) (the (gm_get (niRIB sample3) ''DEFAULT''))) = map (\<lambda>x. [x]) l \<and>
    length l = 2"
proof -
  let ?g = "GetRIB sample_env (\<lambda>t. t = AFT_ALL) (\<lambda>n. n = 2) (the (gm_get (niRIB sample3) ''DEFAULT''))"
  obtain l where l: "snd ?g = map (\<lambda>x. [x]) l"
    using GetRIB_messages [of sample_env "\<lambda>t. t = AFT_ALL" "\<lambda>n. n = 2" _ "fst ?g" "snd ?g"] by auto
  have "length (snd ?g) = 2" by code_simp
  with l show ?thesis by (intro exI [of _ l]) simp
qed

subsection \<open>KnownNetworkInstances\<close>

lemma string_le_total: "string_le s t \<or> string_le t s"
  by (induction s t rule: string_le.induct) auto

lemma string_le_trans: "string_le s t \<Longrightarrow> string_le t u \<Longrightarrow> string_le s u"
proof (induction s t arbitrary: u rule: string_le.induct)
  case (3 c s d t)
  then show ?case by (cases u) auto
qed auto

lemma insert_string_mset: "mset (insert_string s ts) = add_mset s (mset ts)"
  by (induction ts) auto

lemma insert_string_sorted: "sorted_wrt string_le ts \<Longrightarrow> sorted_wrt string_le (insert_string s ts)"
proof (induction ts)
  case (Cons t ts)
  show ?case
  proof (cases "string_le s t")
    case True
    with Cons.prems show ?thesis by (auto intro: string_le_trans)
  next
    case False
    then have "string_le t s" using string_le_total by blast
    moreover have "set (insert_string s ts) = insert s (set ts)"
      by (metis insert_string_mset set_mset_add_mset_insert set_mset_mset)
    ultimately show ?thesis using Cons False by auto
  qed
qed simp

text \<open>
  \<open>KnownNetworkInstances\<close> lists exactly the network instances of the RIB, each as often
  as it is a key (once), sorted by \<open>sort.Strings\<close>.
\<close>
theorem KnownNetworkInstances_sorted:
  "mset (KnownNetworkInstances r) = mset (map fst (niRIB r)) \<and> sorted_wrt string_le (KnownNetworkInstances r)"
proof -
  have "mset (foldr insert_string xs []) = mset xs \<and> sorted_wrt string_le (foldr insert_string xs [])" for xs
    by (induction xs) (simp_all add: insert_string_mset insert_string_sorted)
  then show ?thesis by (simp add: KnownNetworkInstances_def)
qed

end
