(* ===== verification/ServerQuery.thy ===== *)
theory ServerQuery
  imports ServerSample RibQuery
begin

text \<open>
  The Get and Flush RPCs and the construction of the server, over the properties of the RIB's
  own \<open>GetRIB\<close> and \<open>Flush\<close>.
\<close>

subsection \<open>Get\<close>

definition all_ok :: "('e + 'a) list \<Rightarrow> bool" where
  "all_ok xs = list_all (\<lambda>x. case x of Inr _ \<Rightarrow> True | Inl _ \<Rightarrow> False) xs"

lemma all_ok_append [simp]: "all_ok (xs @ ys) \<longleftrightarrow> all_ok xs \<and> all_ok ys"
  by (simp add: all_ok_def)

lemma all_ok_Cons [simp]: "all_ok (x # xs) \<longleftrightarrow> (\<exists>ae. x = Inr ae) \<and> all_ok xs" "all_ok []"
  by (auto simp: all_ok_def split: sum.split)

lemma get_table_done:
  "all_ok (map (\<lambda>p. f (snd p)) es) \<Longrightarrow>
    \<exists>l. get_table (\<lambda>_. False) f es acc = (GetDone, acc @ map (\<lambda>x. [x]) l) \<and> map Inr l = map (\<lambda>p. f (snd p)) es"
proof (induction es arbitrary: acc)
  case (Cons p es)
  obtain k x ae where p: "p = (k, x)" "f x = Inr ae" using Cons.prems by (cases p) auto
  from Cons.IH [of "acc @ [[ae]]"] Cons.prems obtain l where
    "get_table (\<lambda>_. False) f es (acc @ [[ae]]) = (GetDone, (acc @ [[ae]]) @ map (\<lambda>x. [x]) l)"
    "map Inr l = map (\<lambda>p. f (snd p)) es" by auto
  with p show ?case by (intro exI [of _ "ae # l"]) simp
qed simp

lemma then_get_done:
  assumes "all_ok (if b then map (\<lambda>p. f (snd p)) m else [])"
    and "\<And>acc. \<exists>l. k acc = (GetDone, acc @ map (\<lambda>x. [x]) l) \<and> map Inr l = es"
  shows "\<exists>l. then_get (if b then get_table (\<lambda>_. False) f m acc else (GetDone, acc)) k = (GetDone, acc @ map (\<lambda>x. [x]) l) \<and>
    map Inr l = (if b then map (\<lambda>p. f (snd p)) m else []) @ es"
proof -
  have "\<exists>l. (if b then get_table (\<lambda>_. False) f m acc else (GetDone, acc)) = (GetDone, acc @ map (\<lambda>x. [x]) l) \<and>
      map Inr l = (if b then map (\<lambda>p. f (snd p)) m else [])"
    using assms(1) get_table_done [of f m acc] by (cases b) auto
  then obtain l1 where l1: "(if b then get_table (\<lambda>_. False) f m acc else (GetDone, acc)) = (GetDone, acc @ map (\<lambda>x. [x]) l1)"
      "map Inr l1 = (if b then map (\<lambda>p. f (snd p)) m else [])" by blast
  obtain l2 where l2: "k (acc @ map (\<lambda>x. [x]) l1) = (GetDone, (acc @ map (\<lambda>x. [x]) l1) @ map (\<lambda>x. [x]) l2)" "map Inr l2 = es"
    using assms(2) by blast
  show ?thesis
    by (rule exI [of _ "l1 @ l2"]) (simp add: then_get_def l1(1) l2(1), simp add: l1(2) l2(2))
qed

lemma last_get_done:
  assumes "all_ok (if b then map (\<lambda>p. f (snd p)) m else [])"
  shows "\<exists>l. (if b then get_table (\<lambda>_. False) f m acc else (GetDone, acc)) = (GetDone, acc @ map (\<lambda>x. [x]) l) \<and>
    map Inr l = (if b then map (\<lambda>p. f (snd p)) m else [])"
  using assms get_table_done [of f m acc] by (cases b) auto

lemma GetRIB_done:
  assumes "all_ok (rib_messages E flt rh)"
  shows "\<exists>l. GetRIB E flt (\<lambda>_. False) rh = (GetDone, map (\<lambda>x. [x]) l) \<and> map Inr l = rib_messages E flt rh"
proof -
  note a = assms [unfolded rib_messages_def Let_def all_ok_append]
  note p1 = conjunct1 [OF a] and a2 = conjunct2 [OF a]
  note p2 = conjunct1 [OF a2] and a3 = conjunct2 [OF a2]
  note p3 = conjunct1 [OF a3] and a4 = conjunct2 [OF a3]
  have "\<exists>l. GetRIB E flt (\<lambda>_. False) rh = (GetDone, [] @ map (\<lambda>x. [x]) l) \<and> map Inr l = rib_messages E flt rh"
    unfolding GetRIB_def rib_messages_def Let_def
    by (rule then_get_done [OF p1 then_get_done [OF p2 then_get_done [OF p3
          then_get_done [OF conjunct1 [OF a4] last_get_done [OF conjunct2 [OF a4]]]]]])
  then show ?thesis by simp
qed

text \<open>The network instances a Get request names.\<close>

definition get_targets :: "GetRequest \<Rightarrow> RIB \<Rightarrow> string list" where
  "get_targets req r = (case get_NetworkInstance req of
     Some NI_All \<Rightarrow> KnownNetworkInstances r | Some (NI_Name n) \<Rightarrow> [n] | None \<Rightarrow> [])"

text \<open>The messages of one network instance for an AFT.\<close>

definition ni_messages :: "rib_env \<Rightarrow> AFTType \<Rightarrow> Server \<Rightarrow> string \<Rightarrow> (proto_err + AFTEntry) list" where
  "ni_messages E t s ni = (case NetworkInstanceRIB (masterRIB s) ni of
     None \<Rightarrow> [] | Some rh \<Rightarrow> rib_messages E (\<lambda>t'. t' = t) rh)"

lemma get_nis_done:
  "\<forall>n\<in>set nis. known_ni (masterRIB s) n \<and> all_ok (ni_messages E t s n) \<Longrightarrow>
    \<exists>l. get_nis E (\<lambda>t'. t' = t) (\<lambda>_. False) nis s = map (\<lambda>x. GetMsg [x]) l \<and>
      map Inr l = concat (map (ni_messages E t s) nis)"
proof (induction nis)
  case (Cons n nis)
  obtain rh where rh: "NetworkInstanceRIB (masterRIB s) n = Some rh"
    using Cons.prems by (auto simp: known_ni_def NetworkInstanceRIB_def)
  have m: "ni_messages E t s n = rib_messages E (\<lambda>t'. t' = t) rh" by (simp add: ni_messages_def rh)
  with Cons.prems have "all_ok (rib_messages E (\<lambda>t'. t' = t) rh)" by simp
  from GetRIB_done [OF this] obtain l1 where l1: "GetRIB E (\<lambda>t'. t' = t) (\<lambda>_. False) rh = (GetDone, map (\<lambda>x. [x]) l1)"
      "map Inr l1 = ni_messages E t s n" unfolding m by blast
  obtain l2 where l2: "get_nis E (\<lambda>t'. t' = t) (\<lambda>_. False) nis s = map (\<lambda>x. GetMsg [x]) l2"
      "map Inr l2 = concat (map (ni_messages E t s) nis)" using Cons.IH Cons.prems by auto
  show ?case by (rule exI [of _ "l1 @ l2"]) (simp add: rh l1 l2)
qed simp

lemma get_loop_msgs: "get_loop (map (\<lambda>x. GetMsg [x]) l) = (map (\<lambda>x. [x]) l, None)"
  by (induction l) auto

text \<open>
  C31: A Get request for a supported AFT and known network instances, whose entries all
  marshal, is answered without an error by one message per entry of the requested tables of
  the requested network instances, none twice and none left out.
\<close>
theorem Get_complete:
  assumes "get_supported (get_Aft req)" and "get_NetworkInstance req \<noteq> Some (NI_Name [])"
    and "\<forall>n\<in>set (get_targets req (masterRIB s)). known_ni (masterRIB s) n \<and> all_ok (ni_messages E (get_Aft req) s n)"
  shows "\<exists>l. Get E (Some req) s = (map (\<lambda>x. [x]) l, None) \<and>
    map Inr l = concat (map (ni_messages E (get_Aft req) s) (get_targets req (masterRIB s)))"
proof -
  obtain l where l: "get_nis E (\<lambda>t'. t' = get_Aft req) (\<lambda>_. False) (get_targets req (masterRIB s)) s = map (\<lambda>x. GetMsg [x]) l"
    and m: "map Inr l = concat (map (ni_messages E (get_Aft req) s) (get_targets req (masterRIB s)))"
    using get_nis_done [OF assms(3)] by blast
  have "doGet E (\<lambda>_. False) (Some req) s = map (\<lambda>x. GetMsg [x]) l"
    using assms(1,2) l by (auto simp: doGet_def get_targets_def Let_def split: option.splits NetworkInstanceSel.splits)
  then show ?thesis using m by (intro exI [of _ l]) (simp add: Get_def get_loop_msgs)
qed

theorem Get_complete_witness:
  "\<exists>l. Get sample_env (Some \<lparr>get_NetworkInstance = Some NI_All, get_Aft = AFT_ALL\<rparr>) ((w_srv world0)\<lparr>masterRIB := sample3\<rparr>) =
    (map (\<lambda>x. [x]) l, None) \<and> length l = 3"
proof -
  let ?req = "\<lparr>get_NetworkInstance = Some NI_All, get_Aft = AFT_ALL\<rparr>" and ?s = "(w_srv world0)\<lparr>masterRIB := sample3\<rparr>"
  have s: "get_supported (get_Aft ?req)" "get_NetworkInstance ?req \<noteq> Some (NI_Name [])" by (simp_all add: get_supported_def)
  have t: "\<forall>n\<in>set (get_targets ?req (masterRIB ?s)). known_ni (masterRIB ?s) n \<and> all_ok (ni_messages sample_env (get_Aft ?req) ?s n)"
    by code_simp
  obtain l where l: "Get sample_env (Some ?req) ?s = (map (\<lambda>x. [x]) l, None)"
      "map Inr l = concat (map (ni_messages sample_env (get_Aft ?req) ?s) (get_targets ?req (masterRIB ?s)))"
    using Get_complete [OF s t] by blast
  have "length (concat (map (ni_messages sample_env (get_Aft ?req) ?s) (get_targets ?req (masterRIB ?s)))) = 3" by code_simp
  with l show ?thesis by (metis length_map)
qed

subsection \<open>Flush\<close>

text \<open>
  A Flush request passes its checks exactly when it names a network instance and either
  overrides the election, or carries no identifier on a server that has none, or carries a
  non-zero identifier at or above the server's.
\<close>
theorem flush_request_accepted:
  "checkFlushRequest reqo s = None \<longleftrightarrow> (\<exists>req. reqo = Some req \<and> flush_NetworkInstance req \<noteq> None \<and>
    (flush_Election req = Some Flush_Override \<or> flush_Election req = None \<and> curElecID s = None \<or>
     (\<exists>i e. flush_Election req = Some (Flush_Id i) \<and> curElecID s = Some e \<and> u128 i \<noteq> 0 \<and> u128 e \<le> u128 i)))"
  by (auto simp: checkFlushRequest_def split: option.split FlushElection.split)

text \<open>
  C32: The Flush RPC of a reachable server does not panic or deadlock.  A refused request
  changes nothing; any other empties the network instances it names and leaves the entries
  of the others, the clients and the election alone.
\<close>
theorem ServerFlush_empties:
  assumes "env_laws E" and "srv_reach E w" and "room (masterRIB (w_srv w))" and "ServerFlush reqo (w_srv w) = (err, s')"
  shows "err \<noteq> Some SrvPanic \<and> err \<noteq> Some SrvDeadlock \<and>
    (if flush_refused reqo (w_srv w) \<noteq> None then err = flush_refused reqo (w_srv w) \<and> s' = w_srv w
     else srv_cs s' = srv_cs (w_srv w) \<and> curElecID s' = curElecID (w_srv w) \<and> curMaster s' = curMaster (w_srv w) \<and>
       (\<forall>n h. gm_get (niRIB (masterRIB s')) n = Some h \<longrightarrow>
         (if n \<in> set (flush_targets reqo (masterRIB (w_srv w))) then n_entries (afts h) = 0
          else \<exists>h0. gm_get (niRIB (masterRIB (w_srv w))) n = Some h0 \<and> afts h = afts h0)))"
proof -
  let ?r = "masterRIB (w_srv w)"
  have ok: "reachable E ?r" by (rule rib.reach_ok [OF assms(1,2)])
  note f = rib.flush_ok [OF assms(1) ok assms(3,4)]
  show ?thesis
  proof (cases "flush_refused reqo (w_srv w)")
    case (Some e)
    with assms(4) f show ?thesis by (auto simp: ServerFlush_eq)
  next
    case None
    have wf: "gm_wf (niRIB ?r)" using reachable_inv(3) [OF assms(1) ok] by (simp add: rib_wf_def)
    note t = flush_targets_ok [OF wf None]
    have n: "n_rib ?r < 2 ^ 64" using assms(3) by (simp add: room_def)
    let ?t = "flush_targets reqo ?r"
    have s': "masterRIB s' = snd (Flush ?t ?r)" using assms(4) None by (auto simp: ServerFlush_eq)
    have "all_cleared (set ?t) ?r (masterRIB s')"
      unfolding s' using Flush_result [OF reachable_inv(1) [OF assms(1) ok] n t] by blast
    then have "if m \<in> set ?t then n_entries (afts h) = 0 else \<exists>h0. gm_get (niRIB ?r) m = Some h0 \<and> afts h = afts h0"
      if "gm_get (niRIB (masterRIB s')) m = Some h" for m h
      using all_cleared_holder that by blast
    with None f show ?thesis by simp
  qed
qed

theorem ServerFlush_empties_witness:
  "\<exists>err s'. ServerFlush (Some \<lparr>flush_NetworkInstance = Some NI_All, flush_Election = Some Flush_Override\<rparr>) (w_srv world4) = (err, s') \<and>
    err \<noteq> Some SrvPanic \<and> srv_cs s' = srv_cs (w_srv world4)"
proof -
  let ?req = "Some \<lparr>flush_NetworkInstance = Some NI_All, flush_Election = Some Flush_Override\<rparr>"
  obtain err s' where f: "ServerFlush ?req (w_srv world4) = (err, s')" by (rule prod.exhaust)
  have "room (masterRIB (w_srv world4))" by (rule small_room) code_simp
  moreover have "flush_refused ?req (w_srv world4) = None" by (simp add: flush_refused_def checkFlushRequest_def)
  ultimately show ?thesis
    using ServerFlush_empties [OF sample_laws world_reach(5) _ f] f by auto
qed

subsection \<open>Construction\<close>

lemma add_vrfs_ok:
  "gm_wf (niRIB r) \<Longrightarrow> (\<exists>r'. add_vrfs ns r = Inr r') \<longleftrightarrow> distinct ns \<and> set ns \<inter> fst ` set (niRIB r) = {}"
proof (induction ns arbitrary: r)
  case (Cons n ns)
  show ?case
  proof (cases "gm_get (niRIB r) n")
    case None
    then obtain o' where a: "AddNetworkInstance n r = (None, r\<lparr>niRIB := gm_put n (NewRIBHolder n o') (niRIB r)\<rparr>)"
      by (simp add: AddNetworkInstance_def Let_def)
    have "n \<notin> fst ` set (niRIB r)" using None by (simp add: map_of_eq_None_iff)
    with Cons a show ?thesis by (simp add: AList.dom_update) blast
  next
    case (Some h)
    then have "n \<in> fst ` set (niRIB r)" by (force dest: map_of_SomeD)
    with Some show ?thesis by (simp add: AddNetworkInstance_def)
  qed
qed simp

lemma add_vrfs_names:
  "add_vrfs ns r = Inr r' \<Longrightarrow> fst ` set (niRIB r') = set ns \<union> fst ` set (niRIB r)"
proof (induction ns arbitrary: r)
  case (Cons n ns)
  then show ?case
    by (auto simp: AddNetworkInstance_def Let_def AList.dom_update split: if_splits)
qed simp

text \<open>
  A server is created exactly when its VRFs are distinct and none is the default network
  instance; its RIB then has these network instances and no other.
\<close>
theorem NewServer_network_instances:
  "case NewServer opt of
     Inl _ \<Rightarrow> \<not> distinct (DefaultNetworkInstanceName # hasWithVRFs opt)
   | Inr s \<Rightarrow> distinct (DefaultNetworkInstanceName # hasWithVRFs opt) \<and>
       fst ` set (niRIB (masterRIB s)) = insert DefaultNetworkInstanceName (set (hasWithVRFs opt))"
proof -
  define r where "r = (let ribOpt = (if srv_hasDisableCheckFn opt then [DisableRIBCheckFn] else []) @
                   (if hasWithNoRIBForwardReferences opt then [DisableForwardReferences] else []);
          r0 = New DefaultNetworkInstanceName ribOpt;
          r1 = (case hasPostChangeRIBHook opt of None \<Rightarrow> r0 | Some f \<Rightarrow> SetPostChangeHook f r0)
      in case hasResolvedEntryHook opt of None \<Rightarrow> r1 | Some f \<Rightarrow> SetResolvedEntryHook f r1)"
  have n: "map fst (niRIB r) = [DefaultNetworkInstanceName]"
    by (simp add: r_def Let_def New_def SetPostChangeHook_def SetResolvedEntryHook_def split: option.split)
  then have s: "fst ` set (niRIB r) = {DefaultNetworkInstanceName}" by (metis list.set_map set_simps)
  have new: "NewServer opt = (case add_vrfs (hasWithVRFs opt) r of Inl e \<Rightarrow> Inl e
      | Inr r \<Rightarrow> Inr \<lparr>srv_cs = [], curElecID = None, curMaster = [], masterRIB = r\<rparr>)"
    by (simp add: NewServer_def r_def Let_def)
  have iff: "(\<exists>r'. add_vrfs (hasWithVRFs opt) r = Inr r') \<longleftrightarrow> distinct (DefaultNetworkInstanceName # hasWithVRFs opt)"
    using add_vrfs_ok [of r "hasWithVRFs opt"] n s by auto
  show ?thesis
  proof (cases "add_vrfs (hasWithVRFs opt) r")
    case (Inl e)
    with iff new show ?thesis by simp
  next
    case (Inr r')
    with iff new s add_vrfs_names [OF Inr] show ?thesis by auto
  qed
qed

text \<open>
  The post-change hook of \<open>WithPostChangeRIBHook\<close> is set before the VRFs of \<open>WithVRFs\<close>
  are created, so the default network instance has it and the VRFs do not.
\<close>
theorem vrfs_have_no_hook:
  "(case NewServer [WithPostChangeRIBHook True, WithVRFs [''VRF'']] of
     Inl _ \<Rightarrow> False
   | Inr s \<Rightarrow> map (\<lambda>(n, h). (n, rh_postChangeHook h)) (niRIB (masterRIB s)) = [(''DEFAULT'', True), (''VRF'', False)])"
  by code_simp

end
