(* ===== verification/Device.thy ===== *)
theory Device
  imports ServerQuery
begin

text \<open>
  The device of \<open>device/device.go\<close>: a gRIBI server with the network instances of a start-up
  configuration.  The unmarshalling of the configuration (code generated from OpenConfig),
  the network and the credentials are arguments.
\<close>

datatype 'c DevOpt =
    gRIBIAddr string int
  | gNMIAddr string int
  | deviceConfig "string option"
  | tlsCreds "'c option"
  | disableFwdRefs

text \<open>\<open>DeviceConfig(nil)\<close> carries no bytes, \<open>TLSCredsFromFile\<close> no credentials when it fails.\<close>

datatype NetworkInstanceType = DEFAULT_INSTANCE | L3VRF | NI_type_other

record Device =
  gribiAddr :: string
  gribiSrv :: Server

definition optDisableFwdRefs :: "'c DevOpt list \<Rightarrow> bool" where
  "optDisableFwdRefs opts = list_ex (\<lambda>o'. case o' of disableFwdRefs \<Rightarrow> True | _ \<Rightarrow> False) opts"

fun optGRIBIAddr :: "'c DevOpt list \<Rightarrow> string \<times> int" where
  "optGRIBIAddr [] = (''localhost'', 0)"
| "optGRIBIAddr (gRIBIAddr host port # os) = (host, port)"
| "optGRIBIAddr (_ # os) = optGRIBIAddr os"

fun optDeviceCfg :: "'c DevOpt list \<Rightarrow> string option" where
  "optDeviceCfg [] = None"
| "optDeviceCfg (deviceConfig json # os) = json"
| "optDeviceCfg (_ # os) = optDeviceCfg os"

fun optTLSCreds :: "'c DevOpt list \<Rightarrow> 'c option" where
  "optTLSCreds [] = None"
| "optTLSCreds (tlsCreds c # os) = c"
| "optTLSCreds (_ # os) = optTLSCreds os"

datatype dev_err = Cannot_unmarshal | No_TLS_credentials | Cannot_listen | Cannot_create_server srv_err

text \<open>
  What a start does to the network: it opens a listener, and serves on it with the credentials.
  The order in which the code ranges over the network instances is the order of the map.
\<close>

datatype 'c net_event = Listened string | Serving string 'c

definition startgRIBI ::
    "(string \<Rightarrow> int \<Rightarrow> string option) \<Rightarrow> string \<Rightarrow> int \<Rightarrow> 'c \<Rightarrow> ServerOpt list \<Rightarrow> 'c net_event list \<times> (dev_err + Device)" where
  "startgRIBI Listen host port creds opt =
     (case Listen host port of
        None \<Rightarrow> ([], Inl Cannot_listen)
      | Some l \<Rightarrow>
     (case NewServer opt of
        Inl e \<Rightarrow> ([Listened l], Inl (Cannot_create_server e))
      | Inr ts \<Rightarrow> ([Listened l, Serving l creds], Inr \<lparr>gribiAddr = l, gribiSrv = ts\<rparr>)))"

definition device_config ::
    "(string \<Rightarrow> (string, NetworkInstanceType) gomap option) \<Rightarrow> 'c DevOpt list \<Rightarrow> (string, NetworkInstanceType) gomap option" where
  "device_config Unmarshal opts =
     (case optDeviceCfg opts of
        None \<Rightarrow> Some [(DefaultNetworkInstanceName, DEFAULT_INSTANCE)]
      | Some jcfg \<Rightarrow> Unmarshal jcfg)"

definition device_server_opts :: "(string, NetworkInstanceType) gomap \<Rightarrow> 'c DevOpt list \<Rightarrow> ServerOpt list" where
  "device_server_opts dev opts =
     (let networkInstances = map fst (filter (\<lambda>(name, ni). ni = L3VRF) dev)
      in [WithVRFs networkInstances] @ (if optDisableFwdRefs opts then [WithNoRIBForwardReferences] else []))"

definition NewDevice ::
    "(string \<Rightarrow> (string, NetworkInstanceType) gomap option) \<Rightarrow> (string \<Rightarrow> int \<Rightarrow> string option) \<Rightarrow>
     'c DevOpt list \<Rightarrow> 'c net_event list \<times> (dev_err + Device)" where
  "NewDevice Unmarshal Listen opts =
     (case device_config Unmarshal opts of
        None \<Rightarrow> ([], Inl Cannot_unmarshal)
      | Some dev \<Rightarrow>
     (case optTLSCreds opts of
        None \<Rightarrow> ([], Inl No_TLS_credentials)
      | Some creds \<Rightarrow>
     (case optGRIBIAddr opts of
        (host, port) \<Rightarrow> startgRIBI Listen host port creds (device_server_opts dev opts))))"

definition DeviceGRIBIAddr :: "Device \<Rightarrow> string" where
  "DeviceGRIBIAddr d = gribiAddr d"

subsection \<open>What a device starts\<close>

lemma NewServer_forward_references:
  "NewServer opt = Inr s \<Longrightarrow> disableForwardReferences (masterRIB s) = hasWithNoRIBForwardReferences opt"
proof -
  have v: "add_vrfs ns r = Inr r' \<Longrightarrow> disableForwardReferences r' = disableForwardReferences r" for ns r r'
    by (induction ns arbitrary: r) (auto simp: AddNetworkInstance_def Let_def split: if_splits)
  show "NewServer opt = Inr s \<Longrightarrow> disableForwardReferences (masterRIB s) = hasWithNoRIBForwardReferences opt"
    by (auto simp: NewServer_def Let_def New_def SetPostChangeHook_def SetResolvedEntryHook_def
        hasDisableForwardRef_def hasDisableCheckFn_def dest!: v
        split: sum.splits option.splits if_splits)
qed

lemma device_server_opts_vrfs:
  "hasWithVRFs (device_server_opts dev opts) = map fst (filter (\<lambda>(name, ni). ni = L3VRF) dev)"
  "hasWithNoRIBForwardReferences (device_server_opts dev opts) = optDisableFwdRefs opts"
  by (simp_all add: device_server_opts_def hasWithNoRIBForwardReferences_def)

text \<open>
  C40: Given a configuration that unmarshals, credentials and an address to listen on, a device
  starts exactly when the default network instance is not configured as a VRF.  It serves on that address a
  server whose network instances are the default one and the configured VRFs, which refuses
  forward references as the options say.
\<close>
theorem device_starts:
  assumes "device_config Unmarshal opts = Some dev" and "gm_wf dev"
    and "optTLSCreds opts = Some creds"
    and "case_prod Listen (optGRIBIAddr opts) = Some l"
  shows "case NewDevice Unmarshal Listen opts of
      (ev, Inl e) \<Rightarrow> (DefaultNetworkInstanceName, L3VRF) \<in> set dev \<and> ev = [Listened l]
    | (ev, Inr d) \<Rightarrow> (DefaultNetworkInstanceName, L3VRF) \<notin> set dev \<and>
        ev = [Listened l, Serving l creds] \<and> DeviceGRIBIAddr d = l \<and>
        fst ` set (niRIB (masterRIB (gribiSrv d))) = insert DefaultNetworkInstanceName {n. (n, L3VRF) \<in> set dev} \<and>
        disableForwardReferences (masterRIB (gribiSrv d)) = optDisableFwdRefs opts"
proof -
  let ?o = "device_server_opts dev opts"
  have new: "NewDevice Unmarshal Listen opts = (case NewServer ?o of
        Inl e \<Rightarrow> ([Listened l], Inl (Cannot_create_server e))
      | Inr ts \<Rightarrow> ([Listened l, Serving l creds], Inr \<lparr>gribiAddr = l, gribiSrv = ts\<rparr>))"
    using assms by (simp add: NewDevice_def startgRIBI_def split: prod.splits)
  have s: "set (hasWithVRFs ?o) = {n. (n, L3VRF) \<in> set dev}"
    by (force simp: device_server_opts_vrfs)
  have "distinct (hasWithVRFs ?o)"
    using assms(2) by (auto simp: device_server_opts_vrfs distinct_map inj_on_def)
  with s have d: "distinct (DefaultNetworkInstanceName # hasWithVRFs ?o) \<longleftrightarrow> (DefaultNetworkInstanceName, L3VRF) \<notin> set dev"
    by simp
  show ?thesis
  proof (cases "NewServer ?o")
    case (Inl e)
    with NewServer_network_instances [of ?o] d have "(DefaultNetworkInstanceName, L3VRF) \<in> set dev" by auto
    with Inl new show ?thesis by simp
  next
    case (Inr ts)
    with NewServer_network_instances [of ?o] d new s NewServer_forward_references [OF Inr] show ?thesis
      by (simp add: DeviceGRIBIAddr_def device_server_opts_vrfs)
  qed
qed

definition two_vrfs :: "string \<Rightarrow> (string, NetworkInstanceType) gomap option" where
  "two_vrfs json = (if json = ''{}'' then Some [] else
     Some [(''DEFAULT'', DEFAULT_INSTANCE), (''BLUE'', L3VRF), (''RED'', L3VRF), (''L2'', NI_type_other)])"

definition listen_local :: "string \<Rightarrow> int \<Rightarrow> string option" where
  "listen_local host port = (if port = 0 then Some ''127.0.0.1:34567'' else None)"

theorem device_starts_witness:
  "case NewDevice two_vrfs listen_local [deviceConfig (Some ''config''), gNMIAddr ''localhost'' 9339, tlsCreds (Some (7::nat)), disableFwdRefs] of
     (ev, Inl e) \<Rightarrow> False
   | (ev, Inr d) \<Rightarrow> fst ` set (niRIB (masterRIB (gribiSrv d))) = {''DEFAULT'', ''BLUE'', ''RED''} \<and>
       disableForwardReferences (masterRIB (gribiSrv d))"
proof -
  let ?opts = "[deviceConfig (Some ''config''), gNMIAddr ''localhost'' 9339, tlsCreds (Some (7::nat)), disableFwdRefs]"
  let ?dev = "[(''DEFAULT'', DEFAULT_INSTANCE), (''BLUE'', L3VRF), (''RED'', L3VRF), (''L2'', NI_type_other)]"
  have "device_config two_vrfs ?opts = Some ?dev" "gm_wf ?dev" "optTLSCreds ?opts = Some 7"
    "case_prod listen_local (optGRIBIAddr ?opts) = Some ''127.0.0.1:34567''"
    by code_simp+
  note this = device_starts [OF this]
  moreover have "(DefaultNetworkInstanceName, L3VRF) \<notin> set ?dev" "{n. (n, L3VRF) \<in> set ?dev} = {''BLUE'', ''RED''}"
    by (auto simp: DefaultNetworkInstanceName_def)
  moreover have "optDisableFwdRefs ?opts" by (simp add: optDisableFwdRefs_def)
  ultimately show ?thesis by (simp add: DefaultNetworkInstanceName_def split: prod.splits sum.splits)
qed

text \<open>The first option of a kind counts, even one that carries nothing.\<close>

lemma first_option_counts:
  "optTLSCreds (tlsCreds None # tlsCreds (Some c) # opts) = None"
  "optGRIBIAddr (gNMIAddr h p # gRIBIAddr h' p' # opts) = (h', p')"
  by simp_all

text \<open>A default instance configured as a VRF leaves the listener open.\<close>

lemma failed_start_keeps_listener:
  "NewDevice (\<lambda>_. Some [(''DEFAULT'', L3VRF)]) listen_local [deviceConfig (Some ''''), tlsCreds (Some (7::nat))] =
     ([Listened ''127.0.0.1:34567''], Inl (Cannot_create_server (CannotCreateNI ''DEFAULT'' (RIBAlreadyExists ''DEFAULT''))))"
  by code_simp

end
