(* ===== verification/StubRouter.thy ===== *)
theory StubRouter
  imports Device
begin

text \<open>
  The stub router of \<open>cmd/stubrtr/main.go\<close>: a server with the network instances of a flag, on a
  TLS listener, with the credentials of \<open>testcommon/testcommon.go\<close>.  The flags, the network and
  gRPC's loader of credentials are arguments; the profiling server and the wait for the end of
  the context are left out.
\<close>

record stub_flags =
  flag_cert :: string
  flag_key :: string
  flag_addr :: string
  flag_vrfs :: string

definition default_flags :: stub_flags where
  "default_flags = \<lparr>flag_cert = '''', flag_key = '''', flag_addr = '':9340'', flag_vrfs = ''NON-DEFAULT-VRF''\<rparr>"

datatype 'c TLSCred = TLSCred (TLSCred_C: 'c)

definition TLSCredsFromFile :: "(string \<Rightarrow> string \<Rightarrow> 'c option) \<Rightarrow> string \<Rightarrow> string \<Rightarrow> 'c TLSCred option" where
  "TLSCredsFromFile NewServerTLSFromFile certFile keyFile =
     (case NewServerTLSFromFile certFile keyFile of None \<Rightarrow> None | Some t \<Rightarrow> Some (TLSCred t))"

text \<open>\<open>strings.Split\<close> of the Go standard library at a comma; it never returns an empty slice.\<close>

fun split_comma :: "string \<Rightarrow> string list" where
  "split_comma [] = [[]]"
| "split_comma (c # cs) =
     (if c = CHR '','' then [] # split_comma cs
      else (case split_comma cs of [] \<Rightarrow> [[c]] | w # ws \<Rightarrow> (c # w) # ws))"

datatype stub_exit = Must_specify_TLS | Cannot_initialise_TLS | Cannot_create_listener | Cannot_create_gRIBI srv_err

definition stub_startgRIBI ::
    "(string \<Rightarrow> string option) \<Rightarrow> string \<Rightarrow> 'c TLSCred \<Rightarrow> ServerOpt list \<Rightarrow> 'c net_event list \<times> (stub_exit + Server)" where
  "stub_startgRIBI Listen addr creds opt =
     (case Listen addr of
        None \<Rightarrow> ([], Inl Cannot_create_listener)
      | Some l \<Rightarrow>
     (case NewServer opt of
        Inl e \<Rightarrow> ([Listened l], Inl (Cannot_create_gRIBI e))
      | Inr ts \<Rightarrow> ([Listened l, Serving l (TLSCred_C creds)], Inr ts)))"

definition stub_opts :: "stub_flags \<Rightarrow> ServerOpt list" where
  "stub_opts f = (let vrfList = split_comma (flag_vrfs f)
     in if length vrfList \<noteq> 0 then [WithVRFs vrfList] else [])"

definition stub_main ::
    "(string \<Rightarrow> string \<Rightarrow> 'c option) \<Rightarrow> (string \<Rightarrow> string option) \<Rightarrow> stub_flags \<Rightarrow> 'c net_event list \<times> (stub_exit + Server)" where
  "stub_main NewServerTLSFromFile Listen f =
     (if flag_cert f = '''' \<or> flag_key f = '''' then ([], Inl Must_specify_TLS)
      else case TLSCredsFromFile NewServerTLSFromFile (flag_cert f) (flag_key f) of
        None \<Rightarrow> ([], Inl Cannot_initialise_TLS)
      | Some creds \<Rightarrow> stub_startgRIBI Listen (flag_addr f) creds (stub_opts f))"

subsection \<open>What it serves\<close>

lemma split_comma_nonempty [simp]: "split_comma s \<noteq> []"
  by (induction s) (auto split: list.splits)

text \<open>Splitting is the inverse of joining names that have no comma.\<close>

lemma split_comma_name: "CHR '','' \<notin> set w \<Longrightarrow> split_comma w = [w]"
  by (induction w) auto

lemma split_comma_step: "CHR '','' \<notin> set w \<Longrightarrow> split_comma (w @ CHR '','' # s) = w # split_comma s"
  by (induction w) auto

text \<open>The router starts exactly when the names of the flag are different and none is the default one.\<close>

lemma stub_router_starts:
  assumes "flag_cert f \<noteq> ''''" and "flag_key f \<noteq> ''''"
    and "TLS (flag_cert f) (flag_key f) = Some creds" and "Listen (flag_addr f) = Some l"
  shows "case stub_main TLS Listen f of
      (ev, Inl e) \<Rightarrow> \<not> distinct (DefaultNetworkInstanceName # split_comma (flag_vrfs f)) \<and> ev = [Listened l]
    | (ev, Inr s) \<Rightarrow> distinct (DefaultNetworkInstanceName # split_comma (flag_vrfs f)) \<and> ev = [Listened l, Serving l creds] \<and>
        fst ` set (niRIB (masterRIB s)) = insert DefaultNetworkInstanceName (set (split_comma (flag_vrfs f)))"
proof -
  have o: "stub_opts f = [WithVRFs (split_comma (flag_vrfs f))]" by (simp add: stub_opts_def)
  have v: "hasWithVRFs (stub_opts f) = split_comma (flag_vrfs f)" by (simp add: o)
  have m: "stub_main TLS Listen f = (case NewServer (stub_opts f) of
        Inl e \<Rightarrow> ([Listened l], Inl (Cannot_create_gRIBI e)) | Inr ts \<Rightarrow> ([Listened l, Serving l creds], Inr ts))"
    using assms by (simp add: stub_main_def stub_startgRIBI_def TLSCredsFromFile_def cong: sum.case_cong)
  show ?thesis
    using NewServer_network_instances [of "stub_opts f"] unfolding m v
    by (cases "NewServer (stub_opts f)") auto
qed

text \<open>An empty flag asks for one network instance with an empty name, not for none.\<close>

lemma empty_flag_names_an_instance:
  assumes "TLS ''c'' ''k'' = Some creds" and "Listen '':9340'' = Some l"
  shows "case stub_main TLS Listen (default_flags\<lparr>flag_cert := ''c'', flag_key := ''k'', flag_vrfs := ''''\<rparr>) of
      (ev, Inl e) \<Rightarrow> False
    | (ev, Inr s) \<Rightarrow> fst ` set (niRIB (masterRIB s)) = {''DEFAULT'', ''''}"
  using stub_router_starts [of "default_flags\<lparr>flag_cert := ''c'', flag_key := ''k'', flag_vrfs := ''''\<rparr>" TLS creds Listen l] assms
  by (auto simp: default_flags_def DefaultNetworkInstanceName_def split: prod.splits sum.splits)

end
