(* ===== verification/AftInterfaces.thy ===== *)
theory AftInterfaces
  imports AftLeaves
begin

text \<open>
  The rest of \<open>aft/oc.go\<close>: the interfaces of the schema, a RIB with its AFTs and interfaces, and
  their generated methods, in the shapes of \<open>AftAccess\<close> and \<open>AftLeaves\<close>.
\<close>

type_synonym E_Interface_AdminStatus = int
type_synonym E_Interface_OperStatus = int
type_synonym E_IETFInterfaces_InterfaceType = int

subsection \<open>Interfaces\<close>

record Interface_Counters =
  cnt_CarrierTransitions :: "u64 option"
  cnt_InBroadcastPkts :: "u64 option"
  cnt_InDiscards :: "u64 option"
  cnt_InErrors :: "u64 option"
  cnt_InFcsErrors :: "u64 option"
  cnt_InMulticastPkts :: "u64 option"
  cnt_InOctets :: "u64 option"
  cnt_InPkts :: "u64 option"
  cnt_InUnicastPkts :: "u64 option"
  cnt_InUnknownProtos :: "u64 option"
  cnt_LastClear :: "u64 option"
  cnt_OutBroadcastPkts :: "u64 option"
  cnt_OutDiscards :: "u64 option"
  cnt_OutErrors :: "u64 option"
  cnt_OutMulticastPkts :: "u64 option"
  cnt_OutOctets :: "u64 option"
  cnt_OutPkts :: "u64 option"
  cnt_OutUnicastPkts :: "u64 option"

definition zero_Interface_Counters :: Interface_Counters where
  "zero_Interface_Counters = \<lparr>cnt_CarrierTransitions = None, cnt_InBroadcastPkts = None,
     cnt_InDiscards = None, cnt_InErrors = None, cnt_InFcsErrors = None,
     cnt_InMulticastPkts = None, cnt_InOctets = None, cnt_InPkts = None,
     cnt_InUnicastPkts = None, cnt_InUnknownProtos = None, cnt_LastClear = None,
     cnt_OutBroadcastPkts = None, cnt_OutDiscards = None, cnt_OutErrors = None,
     cnt_OutMulticastPkts = None, cnt_OutOctets = None, cnt_OutPkts = None,
     cnt_OutUnicastPkts = None\<rparr>"

record Interface_HoldTime =
  hold_Down :: "u32 option"
  hold_Up :: "u32 option"

definition zero_Interface_HoldTime :: Interface_HoldTime where
  "zero_Interface_HoldTime = \<lparr>hold_Down = None, hold_Up = None\<rparr>"

record Interface_Subinterface_Counters =
  subcnt_CarrierTransitions :: "u64 option"
  subcnt_InBroadcastPkts :: "u64 option"
  subcnt_InDiscards :: "u64 option"
  subcnt_InErrors :: "u64 option"
  subcnt_InFcsErrors :: "u64 option"
  subcnt_InMulticastPkts :: "u64 option"
  subcnt_InOctets :: "u64 option"
  subcnt_InPkts :: "u64 option"
  subcnt_InUnicastPkts :: "u64 option"
  subcnt_InUnknownProtos :: "u64 option"
  subcnt_LastClear :: "u64 option"
  subcnt_OutBroadcastPkts :: "u64 option"
  subcnt_OutDiscards :: "u64 option"
  subcnt_OutErrors :: "u64 option"
  subcnt_OutMulticastPkts :: "u64 option"
  subcnt_OutOctets :: "u64 option"
  subcnt_OutPkts :: "u64 option"
  subcnt_OutUnicastPkts :: "u64 option"

definition zero_Interface_Subinterface_Counters :: Interface_Subinterface_Counters where
  "zero_Interface_Subinterface_Counters = \<lparr>subcnt_CarrierTransitions = None,
     subcnt_InBroadcastPkts = None, subcnt_InDiscards = None, subcnt_InErrors = None,
     subcnt_InFcsErrors = None, subcnt_InMulticastPkts = None, subcnt_InOctets = None,
     subcnt_InPkts = None, subcnt_InUnicastPkts = None, subcnt_InUnknownProtos = None,
     subcnt_LastClear = None, subcnt_OutBroadcastPkts = None, subcnt_OutDiscards = None,
     subcnt_OutErrors = None, subcnt_OutMulticastPkts = None, subcnt_OutOctets = None,
     subcnt_OutPkts = None, subcnt_OutUnicastPkts = None\<rparr>"

record Interface_Subinterface =
  sub_AdminStatus :: E_Interface_AdminStatus
  sub_Counters :: "Interface_Subinterface_Counters option"
  sub_Cpu :: "bool option"
  sub_Description :: "string option"
  sub_Enabled :: "bool option"
  sub_Ifindex :: "u32 option"
  sub_Index :: "u32 option"
  sub_LastChange :: "u64 option"
  sub_Logical :: "bool option"
  sub_Management :: "bool option"
  sub_Name :: "string option"
  sub_OperStatus :: E_Interface_OperStatus

definition NewSubinterface :: "u32 \<Rightarrow> Interface_Subinterface" where
  "NewSubinterface k = \<lparr>sub_AdminStatus = 0, sub_Counters = None, sub_Cpu = None,
     sub_Description = None, sub_Enabled = None, sub_Ifindex = None, sub_Index = Some k,
     sub_LastChange = None, sub_Logical = None, sub_Management = None, sub_Name = None,
     sub_OperStatus = 0\<rparr>"

record Interface =
  intf_AdminStatus :: E_Interface_AdminStatus
  intf_Counters :: "Interface_Counters option"
  intf_Cpu :: "bool option"
  intf_Description :: "string option"
  intf_Enabled :: "bool option"
  intf_HoldTime :: "Interface_HoldTime option"
  intf_Ifindex :: "u32 option"
  intf_LastChange :: "u64 option"
  intf_Logical :: "bool option"
  intf_LoopbackMode :: "bool option"
  intf_Management :: "bool option"
  intf_Mtu :: "u16 option"
  intf_Name :: "string option"
  intf_OperStatus :: E_Interface_OperStatus
  intf_Subinterface :: "(u32, Interface_Subinterface) gomap"
  intf_Type :: E_IETFInterfaces_InterfaceType

definition NewInterface :: "string \<Rightarrow> Interface" where
  "NewInterface k = \<lparr>intf_AdminStatus = 0, intf_Counters = None, intf_Cpu = None,
     intf_Description = None, intf_Enabled = None, intf_HoldTime = None, intf_Ifindex = None,
     intf_LastChange = None, intf_Logical = None, intf_LoopbackMode = None,
     intf_Management = None, intf_Mtu = None, intf_Name = Some k, intf_OperStatus = 0,
     intf_Subinterface = [], intf_Type = 0\<rparr>"

subsection \<open>A RIB\<close>

record OC_RIB =
  oc_Afts :: "Afts option"
  oc_Interface :: "(string, Interface) gomap"

subsection \<open>Interfaces: lists and containers\<close>

definition Interface_NewSubinterface :: "u32 \<Rightarrow> Interface \<Rightarrow> (list_err + Interface_Subinterface) \<times> Interface" where
  "Interface_NewSubinterface k t = (case list_new ''Subinterface'' NewSubinterface k (intf_Subinterface t) of (r, m) \<Rightarrow> (r, t\<lparr>intf_Subinterface := m\<rparr>))"

definition Interface_GetOrCreateSubinterfaceMap :: "Interface \<Rightarrow> (u32, Interface_Subinterface) gomap \<times> Interface" where
  "Interface_GetOrCreateSubinterfaceMap t = (intf_Subinterface t, t)"

definition Interface_GetOrCreateSubinterface :: "u32 \<Rightarrow> Interface \<Rightarrow> Interface_Subinterface option \<times> Interface" where
  "Interface_GetOrCreateSubinterface = list_get_or_create intf_Subinterface Interface_NewSubinterface"

definition Interface_GetSubinterface :: "u32 \<Rightarrow> Interface option \<Rightarrow> Interface_Subinterface option" where
  "Interface_GetSubinterface = list_get intf_Subinterface"

definition Interface_DeleteSubinterface :: "u32 \<Rightarrow> Interface \<Rightarrow> Interface" where
  "Interface_DeleteSubinterface k t = t\<lparr>intf_Subinterface := gm_del k (intf_Subinterface t)\<rparr>"

definition Interface_GetOrCreateCounters :: "Interface \<Rightarrow> Interface_Counters \<times> Interface" where
  "Interface_GetOrCreateCounters t = (case intf_Counters t of Some v \<Rightarrow> (v, t) | None \<Rightarrow> (zero_Interface_Counters, t\<lparr>intf_Counters := Some zero_Interface_Counters\<rparr>))"

definition Interface_GetCounters :: "Interface option \<Rightarrow> Interface_Counters option" where
  "Interface_GetCounters = container intf_Counters"

definition Interface_GetOrCreateHoldTime :: "Interface \<Rightarrow> Interface_HoldTime \<times> Interface" where
  "Interface_GetOrCreateHoldTime t = (case intf_HoldTime t of Some v \<Rightarrow> (v, t) | None \<Rightarrow> (zero_Interface_HoldTime, t\<lparr>intf_HoldTime := Some zero_Interface_HoldTime\<rparr>))"

definition Interface_GetHoldTime :: "Interface option \<Rightarrow> Interface_HoldTime option" where
  "Interface_GetHoldTime = container intf_HoldTime"

subsection \<open>Subinterfaces: lists and containers\<close>

definition Interface_Subinterface_GetOrCreateCounters :: "Interface_Subinterface \<Rightarrow> Interface_Subinterface_Counters \<times> Interface_Subinterface" where
  "Interface_Subinterface_GetOrCreateCounters t = (case sub_Counters t of Some v \<Rightarrow> (v, t) | None \<Rightarrow> (zero_Interface_Subinterface_Counters, t\<lparr>sub_Counters := Some zero_Interface_Subinterface_Counters\<rparr>))"

definition Interface_Subinterface_GetCounters :: "Interface_Subinterface option \<Rightarrow> Interface_Subinterface_Counters option" where
  "Interface_Subinterface_GetCounters = container sub_Counters"

subsection \<open>A RIB: lists and containers\<close>

definition OC_RIB_NewInterface :: "string \<Rightarrow> OC_RIB \<Rightarrow> (list_err + Interface) \<times> OC_RIB" where
  "OC_RIB_NewInterface k t = (case list_new ''Interface'' NewInterface k (oc_Interface t) of (r, m) \<Rightarrow> (r, t\<lparr>oc_Interface := m\<rparr>))"

definition OC_RIB_GetOrCreateInterfaceMap :: "OC_RIB \<Rightarrow> (string, Interface) gomap \<times> OC_RIB" where
  "OC_RIB_GetOrCreateInterfaceMap t = (oc_Interface t, t)"

definition OC_RIB_GetOrCreateInterface :: "string \<Rightarrow> OC_RIB \<Rightarrow> Interface option \<times> OC_RIB" where
  "OC_RIB_GetOrCreateInterface = list_get_or_create oc_Interface OC_RIB_NewInterface"

definition OC_RIB_GetInterface :: "string \<Rightarrow> OC_RIB option \<Rightarrow> Interface option" where
  "OC_RIB_GetInterface = list_get oc_Interface"

definition OC_RIB_DeleteInterface :: "string \<Rightarrow> OC_RIB \<Rightarrow> OC_RIB" where
  "OC_RIB_DeleteInterface k t = t\<lparr>oc_Interface := gm_del k (oc_Interface t)\<rparr>"

definition OC_RIB_GetOrCreateAfts :: "OC_RIB \<Rightarrow> Afts \<times> OC_RIB" where
  "OC_RIB_GetOrCreateAfts t = (case oc_Afts t of Some v \<Rightarrow> (v, t) | None \<Rightarrow> (empty_Afts, t\<lparr>oc_Afts := Some empty_Afts\<rparr>))"

definition OC_RIB_GetAfts :: "OC_RIB option \<Rightarrow> Afts option" where
  "OC_RIB_GetAfts = container oc_Afts"

definition Interface_ListKeyMap :: "Interface \<Rightarrow> list_err + string \<times> string" where
  "Interface_ListKeyMap e = (case intf_Name e of None \<Rightarrow> Inl (NilKey ''Name'') | Some k \<Rightarrow> Inr (''name'', k))"

definition Interface_Subinterface_ListKeyMap :: "Interface_Subinterface \<Rightarrow> list_err + string \<times> u32" where
  "Interface_Subinterface_ListKeyMap e = (case sub_Index e of None \<Rightarrow> Inl (NilKey ''Index'') | Some k \<Rightarrow> Inr (''index'', k))"

subsection \<open>Leaves of Interface\<close>

definition Interface_GetAdminStatus :: "Interface option \<Rightarrow> E_Interface_AdminStatus" where
  "Interface_GetAdminStatus = enum_leaf intf_AdminStatus"

definition Interface_GetCpu :: "Interface option \<Rightarrow> bool" where
  "Interface_GetCpu = leaf False intf_Cpu"

definition Interface_GetDescription :: "Interface option \<Rightarrow> string" where
  "Interface_GetDescription = leaf '''' intf_Description"

definition Interface_GetEnabled :: "Interface option \<Rightarrow> bool" where
  "Interface_GetEnabled = leaf True intf_Enabled"

definition Interface_GetIfindex :: "Interface option \<Rightarrow> u32" where
  "Interface_GetIfindex = leaf 0 intf_Ifindex"

definition Interface_GetLastChange :: "Interface option \<Rightarrow> u64" where
  "Interface_GetLastChange = leaf 0 intf_LastChange"

definition Interface_GetLogical :: "Interface option \<Rightarrow> bool" where
  "Interface_GetLogical = leaf False intf_Logical"

definition Interface_GetLoopbackMode :: "Interface option \<Rightarrow> bool" where
  "Interface_GetLoopbackMode = leaf False intf_LoopbackMode"

definition Interface_GetManagement :: "Interface option \<Rightarrow> bool" where
  "Interface_GetManagement = leaf False intf_Management"

definition Interface_GetMtu :: "Interface option \<Rightarrow> u16" where
  "Interface_GetMtu = leaf 0 intf_Mtu"

definition Interface_GetName :: "Interface option \<Rightarrow> string" where
  "Interface_GetName = leaf '''' intf_Name"

definition Interface_GetOperStatus :: "Interface option \<Rightarrow> E_Interface_OperStatus" where
  "Interface_GetOperStatus = enum_leaf intf_OperStatus"

definition Interface_GetType :: "Interface option \<Rightarrow> E_IETFInterfaces_InterfaceType" where
  "Interface_GetType = enum_leaf intf_Type"

subsection \<open>Leaves of Interface_Counters\<close>

definition Interface_Counters_GetCarrierTransitions :: "Interface_Counters option \<Rightarrow> u64" where
  "Interface_Counters_GetCarrierTransitions = leaf 0 cnt_CarrierTransitions"

definition Interface_Counters_GetInBroadcastPkts :: "Interface_Counters option \<Rightarrow> u64" where
  "Interface_Counters_GetInBroadcastPkts = leaf 0 cnt_InBroadcastPkts"

definition Interface_Counters_GetInDiscards :: "Interface_Counters option \<Rightarrow> u64" where
  "Interface_Counters_GetInDiscards = leaf 0 cnt_InDiscards"

definition Interface_Counters_GetInErrors :: "Interface_Counters option \<Rightarrow> u64" where
  "Interface_Counters_GetInErrors = leaf 0 cnt_InErrors"

definition Interface_Counters_GetInFcsErrors :: "Interface_Counters option \<Rightarrow> u64" where
  "Interface_Counters_GetInFcsErrors = leaf 0 cnt_InFcsErrors"

definition Interface_Counters_GetInMulticastPkts :: "Interface_Counters option \<Rightarrow> u64" where
  "Interface_Counters_GetInMulticastPkts = leaf 0 cnt_InMulticastPkts"

definition Interface_Counters_GetInOctets :: "Interface_Counters option \<Rightarrow> u64" where
  "Interface_Counters_GetInOctets = leaf 0 cnt_InOctets"

definition Interface_Counters_GetInPkts :: "Interface_Counters option \<Rightarrow> u64" where
  "Interface_Counters_GetInPkts = leaf 0 cnt_InPkts"

definition Interface_Counters_GetInUnicastPkts :: "Interface_Counters option \<Rightarrow> u64" where
  "Interface_Counters_GetInUnicastPkts = leaf 0 cnt_InUnicastPkts"

definition Interface_Counters_GetInUnknownProtos :: "Interface_Counters option \<Rightarrow> u64" where
  "Interface_Counters_GetInUnknownProtos = leaf 0 cnt_InUnknownProtos"

definition Interface_Counters_GetLastClear :: "Interface_Counters option \<Rightarrow> u64" where
  "Interface_Counters_GetLastClear = leaf 0 cnt_LastClear"

definition Interface_Counters_GetOutBroadcastPkts :: "Interface_Counters option \<Rightarrow> u64" where
  "Interface_Counters_GetOutBroadcastPkts = leaf 0 cnt_OutBroadcastPkts"

definition Interface_Counters_GetOutDiscards :: "Interface_Counters option \<Rightarrow> u64" where
  "Interface_Counters_GetOutDiscards = leaf 0 cnt_OutDiscards"

definition Interface_Counters_GetOutErrors :: "Interface_Counters option \<Rightarrow> u64" where
  "Interface_Counters_GetOutErrors = leaf 0 cnt_OutErrors"

definition Interface_Counters_GetOutMulticastPkts :: "Interface_Counters option \<Rightarrow> u64" where
  "Interface_Counters_GetOutMulticastPkts = leaf 0 cnt_OutMulticastPkts"

definition Interface_Counters_GetOutOctets :: "Interface_Counters option \<Rightarrow> u64" where
  "Interface_Counters_GetOutOctets = leaf 0 cnt_OutOctets"

definition Interface_Counters_GetOutPkts :: "Interface_Counters option \<Rightarrow> u64" where
  "Interface_Counters_GetOutPkts = leaf 0 cnt_OutPkts"

definition Interface_Counters_GetOutUnicastPkts :: "Interface_Counters option \<Rightarrow> u64" where
  "Interface_Counters_GetOutUnicastPkts = leaf 0 cnt_OutUnicastPkts"

subsection \<open>Leaves of Interface_HoldTime\<close>

definition Interface_HoldTime_GetDown :: "Interface_HoldTime option \<Rightarrow> u32" where
  "Interface_HoldTime_GetDown = leaf 0 hold_Down"

definition Interface_HoldTime_GetUp :: "Interface_HoldTime option \<Rightarrow> u32" where
  "Interface_HoldTime_GetUp = leaf 0 hold_Up"

subsection \<open>Leaves of Interface_Subinterface\<close>

definition Interface_Subinterface_GetAdminStatus :: "Interface_Subinterface option \<Rightarrow> E_Interface_AdminStatus" where
  "Interface_Subinterface_GetAdminStatus = enum_leaf sub_AdminStatus"

definition Interface_Subinterface_GetCpu :: "Interface_Subinterface option \<Rightarrow> bool" where
  "Interface_Subinterface_GetCpu = leaf False sub_Cpu"

definition Interface_Subinterface_GetDescription :: "Interface_Subinterface option \<Rightarrow> string" where
  "Interface_Subinterface_GetDescription = leaf '''' sub_Description"

definition Interface_Subinterface_GetEnabled :: "Interface_Subinterface option \<Rightarrow> bool" where
  "Interface_Subinterface_GetEnabled = leaf True sub_Enabled"

definition Interface_Subinterface_GetIfindex :: "Interface_Subinterface option \<Rightarrow> u32" where
  "Interface_Subinterface_GetIfindex = leaf 0 sub_Ifindex"

definition Interface_Subinterface_GetIndex :: "Interface_Subinterface option \<Rightarrow> u32" where
  "Interface_Subinterface_GetIndex = leaf 0 sub_Index"

definition Interface_Subinterface_GetLastChange :: "Interface_Subinterface option \<Rightarrow> u64" where
  "Interface_Subinterface_GetLastChange = leaf 0 sub_LastChange"

definition Interface_Subinterface_GetLogical :: "Interface_Subinterface option \<Rightarrow> bool" where
  "Interface_Subinterface_GetLogical = leaf False sub_Logical"

definition Interface_Subinterface_GetManagement :: "Interface_Subinterface option \<Rightarrow> bool" where
  "Interface_Subinterface_GetManagement = leaf False sub_Management"

definition Interface_Subinterface_GetName :: "Interface_Subinterface option \<Rightarrow> string" where
  "Interface_Subinterface_GetName = leaf '''' sub_Name"

definition Interface_Subinterface_GetOperStatus :: "Interface_Subinterface option \<Rightarrow> E_Interface_OperStatus" where
  "Interface_Subinterface_GetOperStatus = enum_leaf sub_OperStatus"

subsection \<open>Leaves of Interface_Subinterface_Counters\<close>

definition Interface_Subinterface_Counters_GetCarrierTransitions :: "Interface_Subinterface_Counters option \<Rightarrow> u64" where
  "Interface_Subinterface_Counters_GetCarrierTransitions = leaf 0 subcnt_CarrierTransitions"

definition Interface_Subinterface_Counters_GetInBroadcastPkts :: "Interface_Subinterface_Counters option \<Rightarrow> u64" where
  "Interface_Subinterface_Counters_GetInBroadcastPkts = leaf 0 subcnt_InBroadcastPkts"

definition Interface_Subinterface_Counters_GetInDiscards :: "Interface_Subinterface_Counters option \<Rightarrow> u64" where
  "Interface_Subinterface_Counters_GetInDiscards = leaf 0 subcnt_InDiscards"

definition Interface_Subinterface_Counters_GetInErrors :: "Interface_Subinterface_Counters option \<Rightarrow> u64" where
  "Interface_Subinterface_Counters_GetInErrors = leaf 0 subcnt_InErrors"

definition Interface_Subinterface_Counters_GetInFcsErrors :: "Interface_Subinterface_Counters option \<Rightarrow> u64" where
  "Interface_Subinterface_Counters_GetInFcsErrors = leaf 0 subcnt_InFcsErrors"

definition Interface_Subinterface_Counters_GetInMulticastPkts :: "Interface_Subinterface_Counters option \<Rightarrow> u64" where
  "Interface_Subinterface_Counters_GetInMulticastPkts = leaf 0 subcnt_InMulticastPkts"

definition Interface_Subinterface_Counters_GetInOctets :: "Interface_Subinterface_Counters option \<Rightarrow> u64" where
  "Interface_Subinterface_Counters_GetInOctets = leaf 0 subcnt_InOctets"

definition Interface_Subinterface_Counters_GetInPkts :: "Interface_Subinterface_Counters option \<Rightarrow> u64" where
  "Interface_Subinterface_Counters_GetInPkts = leaf 0 subcnt_InPkts"

definition Interface_Subinterface_Counters_GetInUnicastPkts :: "Interface_Subinterface_Counters option \<Rightarrow> u64" where
  "Interface_Subinterface_Counters_GetInUnicastPkts = leaf 0 subcnt_InUnicastPkts"

definition Interface_Subinterface_Counters_GetInUnknownProtos :: "Interface_Subinterface_Counters option \<Rightarrow> u64" where
  "Interface_Subinterface_Counters_GetInUnknownProtos = leaf 0 subcnt_InUnknownProtos"

definition Interface_Subinterface_Counters_GetLastClear :: "Interface_Subinterface_Counters option \<Rightarrow> u64" where
  "Interface_Subinterface_Counters_GetLastClear = leaf 0 subcnt_LastClear"

definition Interface_Subinterface_Counters_GetOutBroadcastPkts :: "Interface_Subinterface_Counters option \<Rightarrow> u64" where
  "Interface_Subinterface_Counters_GetOutBroadcastPkts = leaf 0 subcnt_OutBroadcastPkts"

definition Interface_Subinterface_Counters_GetOutDiscards :: "Interface_Subinterface_Counters option \<Rightarrow> u64" where
  "Interface_Subinterface_Counters_GetOutDiscards = leaf 0 subcnt_OutDiscards"

definition Interface_Subinterface_Counters_GetOutErrors :: "Interface_Subinterface_Counters option \<Rightarrow> u64" where
  "Interface_Subinterface_Counters_GetOutErrors = leaf 0 subcnt_OutErrors"

definition Interface_Subinterface_Counters_GetOutMulticastPkts :: "Interface_Subinterface_Counters option \<Rightarrow> u64" where
  "Interface_Subinterface_Counters_GetOutMulticastPkts = leaf 0 subcnt_OutMulticastPkts"

definition Interface_Subinterface_Counters_GetOutOctets :: "Interface_Subinterface_Counters option \<Rightarrow> u64" where
  "Interface_Subinterface_Counters_GetOutOctets = leaf 0 subcnt_OutOctets"

definition Interface_Subinterface_Counters_GetOutPkts :: "Interface_Subinterface_Counters option \<Rightarrow> u64" where
  "Interface_Subinterface_Counters_GetOutPkts = leaf 0 subcnt_OutPkts"

definition Interface_Subinterface_Counters_GetOutUnicastPkts :: "Interface_Subinterface_Counters option \<Rightarrow> u64" where
  "Interface_Subinterface_Counters_GetOutUnicastPkts = leaf 0 subcnt_OutUnicastPkts"

end
