(* ===== verification/AftCalls.thy ===== *)
theory AftCalls
  imports AftInterfaces
begin

text \<open>
  What the generated list methods promise.  The locale \<open>aft_list\<close> states it for one list of a
  struct: a partial map from keys to entries, apart from everything else in the struct.  It is
  interpreted for the seven lists of the AFTs and for the lists nested in their entries, in
  interfaces and in a RIB.  A client of the AFTs is a sequence of calls, and the AFTs answer
  it like seven independent maps.
\<close>

subsection \<open>Calls on a list\<close>

text \<open>
  \<open>Call_Store\<close> is an assignment through the pointer that \<open>Get\<close> returns; through nil it panics.
\<close>

datatype ('k, 'e) list_call = Call_New 'k | Call_GetOrCreate 'k | Call_Get 'k | Call_Delete 'k | Call_Store 'k 'e

datatype 'e list_result = Got 'e | Got_nil | Refused list_err | Done | Panic

record ('k, 'e, 's) list_methods =
  lm_New :: "'k \<Rightarrow> 's \<Rightarrow> (list_err + 'e) \<times> 's"
  lm_GetOrCreate :: "'k \<Rightarrow> 's \<Rightarrow> 'e option \<times> 's"
  lm_Get :: "'k \<Rightarrow> 's option \<Rightarrow> 'e option"
  lm_Delete :: "'k \<Rightarrow> 's \<Rightarrow> 's"
  lm_Store :: "'k \<Rightarrow> 'e \<Rightarrow> 's \<Rightarrow> 's"

fun list_step :: "('k, 'e, 's) list_methods \<Rightarrow> ('k, 'e) list_call \<Rightarrow> 's \<Rightarrow> 'e list_result \<times> 's" where
  "list_step M (Call_New k) t = (case lm_New M k t of (Inl e, t') \<Rightarrow> (Refused e, t') | (Inr v, t') \<Rightarrow> (Got v, t'))"
| "list_step M (Call_GetOrCreate k) t = (case lm_GetOrCreate M k t of (None, t') \<Rightarrow> (Panic, t') | (Some v, t') \<Rightarrow> (Got v, t'))"
| "list_step M (Call_Get k) t = (case lm_Get M k (Some t) of None \<Rightarrow> Got_nil | Some v \<Rightarrow> Got v, t)"
| "list_step M (Call_Delete k) t = (Done, lm_Delete M k t)"
| "list_step M (Call_Store k v) t = (case lm_Get M k (Some t) of None \<Rightarrow> (Panic, t) | Some _ \<Rightarrow> (Done, lm_Store M k v t))"

text \<open>The same calls on a partial map: only a store through nil panics.\<close>

fun map_step :: "string \<Rightarrow> ('k \<Rightarrow> 'e) \<Rightarrow> ('k, 'e) list_call \<Rightarrow> ('k \<rightharpoonup> 'e) \<Rightarrow> 'e list_result \<times> ('k \<rightharpoonup> 'e)" where
  "map_step name fresh (Call_New k) m =
     (case m k of Some _ \<Rightarrow> (Refused (DuplicateKey name), m) | None \<Rightarrow> (Got (fresh k), m(k \<mapsto> fresh k)))"
| "map_step name fresh (Call_GetOrCreate k) m =
     (case m k of Some v \<Rightarrow> (Got v, m) | None \<Rightarrow> (Got (fresh k), m(k \<mapsto> fresh k)))"
| "map_step name fresh (Call_Get k) m = (case m k of Some v \<Rightarrow> Got v | None \<Rightarrow> Got_nil, m)"
| "map_step name fresh (Call_Delete k) m = (Done, m(k := None))"
| "map_step name fresh (Call_Store k v) m = (case m k of None \<Rightarrow> (Panic, m) | Some _ \<Rightarrow> (Done, m(k \<mapsto> v)))"

subsection \<open>The contract of a list\<close>

locale aft_list =
  fixes lookup :: "'s \<Rightarrow> 'k \<Rightarrow> 'e option" and rest :: "'s \<Rightarrow> 'r" and name :: string and fresh :: "'k \<Rightarrow> 'e"
    and M :: "('k, 'e, 's) list_methods"
  assumes new_used: "lookup t k = Some v \<Longrightarrow> lm_New M k t = (Inl (DuplicateKey name), t)"
    and new_free: "lookup t k = None \<Longrightarrow> \<exists>t'. lm_New M k t = (Inr (fresh k), t') \<and>
          lookup t' = (lookup t)(k \<mapsto> fresh k) \<and> rest t' = rest t"
    and get_or_create_used: "lookup t k = Some v \<Longrightarrow> lm_GetOrCreate M k t = (Some v, t)"
    and get_or_create_free: "lookup t k = None \<Longrightarrow> lm_New M k t = (Inr v, t') \<Longrightarrow> lm_GetOrCreate M k t = (Some v, t')"
    and get: "lm_Get M k p = (case p of None \<Rightarrow> None | Some s \<Rightarrow> lookup s k)"
    and delete: "lookup (lm_Delete M k t) = (lookup t)(k := None)" "rest (lm_Delete M k t) = rest t"
    and store: "lookup (lm_Store M k v t) = (lookup t)(k \<mapsto> v)" "rest (lm_Store M k v t) = rest t"
begin

lemma step_refines:
  assumes "list_step M c t = (r, t')"
  shows "map_step name fresh c (lookup t) = (r, lookup t') \<and> rest t' = rest t"
proof (cases c)
  case (Call_New k)
  then show ?thesis
    using assms new_used [of t k] new_free [of t k] by (cases "lookup t k") auto
next
  case (Call_GetOrCreate k)
  then show ?thesis
    using assms get_or_create_used [of t k] new_free [of t k] get_or_create_free [of t k]
    by (cases "lookup t k") auto
qed (use assms in \<open>auto simp: get delete store split: option.splits\<close>)

lemma created_is_found:
  "lm_GetOrCreate M k t = (r, t') \<Longrightarrow> \<exists>v. r = Some v \<and> lm_Get M k (Some t') = Some v"
  using get_or_create_used [of t k] new_free [of t k] get_or_create_free [of t k]
  by (cases "lookup t k") (auto simp: get dest: sym)

end

subsection \<open>The lists of the AFTs\<close>

definition ipv4_methods :: "(string, Afts_Ipv4Entry, Afts) list_methods" where
  "ipv4_methods = \<lparr>lm_New = Afts_NewIpv4Entry, lm_GetOrCreate = Afts_GetOrCreateIpv4Entry,
     lm_Get = Afts_GetIpv4Entry, lm_Delete = Afts_DeleteIpv4Entry,
     lm_Store = (\<lambda>k v t. t\<lparr>Ipv4Entry := gm_put k v (Ipv4Entry t)\<rparr>)\<rparr>"

definition ipv6_methods :: "(string, Afts_Ipv6Entry, Afts) list_methods" where
  "ipv6_methods = \<lparr>lm_New = Afts_NewIpv6Entry, lm_GetOrCreate = Afts_GetOrCreateIpv6Entry,
     lm_Get = Afts_GetIpv6Entry, lm_Delete = Afts_DeleteIpv6Entry,
     lm_Store = (\<lambda>k v t. t\<lparr>Ipv6Entry := gm_put k v (Ipv6Entry t)\<rparr>)\<rparr>"

definition label_methods :: "(Label_Union, Afts_LabelEntry, Afts) list_methods" where
  "label_methods = \<lparr>lm_New = Afts_NewLabelEntry, lm_GetOrCreate = Afts_GetOrCreateLabelEntry,
     lm_Get = Afts_GetLabelEntry, lm_Delete = Afts_DeleteLabelEntry,
     lm_Store = (\<lambda>k v t. t\<lparr>LabelEntry := gm_put k v (LabelEntry t)\<rparr>)\<rparr>"

definition mac_methods :: "(string, Afts_MacEntry, Afts) list_methods" where
  "mac_methods = \<lparr>lm_New = Afts_NewMacEntry, lm_GetOrCreate = Afts_GetOrCreateMacEntry,
     lm_Get = Afts_GetMacEntry, lm_Delete = Afts_DeleteMacEntry,
     lm_Store = (\<lambda>k v t. t\<lparr>MacEntry := gm_put k v (MacEntry t)\<rparr>)\<rparr>"

definition hop_methods :: "(u64, Afts_NextHop, Afts) list_methods" where
  "hop_methods = \<lparr>lm_New = Afts_NewNextHop, lm_GetOrCreate = Afts_GetOrCreateNextHop,
     lm_Get = Afts_GetNextHop, lm_Delete = Afts_DeleteNextHop,
     lm_Store = (\<lambda>k v t. t\<lparr>aft_NextHop := gm_put k v (aft_NextHop t)\<rparr>)\<rparr>"

definition group_methods :: "(u64, Afts_NextHopGroup, Afts) list_methods" where
  "group_methods = \<lparr>lm_New = Afts_NewNextHopGroup, lm_GetOrCreate = Afts_GetOrCreateNextHopGroup,
     lm_Get = Afts_GetNextHopGroup, lm_Delete = Afts_DeleteNextHopGroup,
     lm_Store = (\<lambda>k v t. t\<lparr>aft_NextHopGroup := gm_put k v (aft_NextHopGroup t)\<rparr>)\<rparr>"

definition policy_methods :: "(u64, Afts_PolicyForwardingEntry, Afts) list_methods" where
  "policy_methods = \<lparr>lm_New = Afts_NewPolicyForwardingEntry, lm_GetOrCreate = Afts_GetOrCreatePolicyForwardingEntry,
     lm_Get = Afts_GetPolicyForwardingEntry, lm_Delete = Afts_DeletePolicyForwardingEntry,
     lm_Store = (\<lambda>k v t. t\<lparr>PolicyForwardingEntry := gm_put k v (PolicyForwardingEntry t)\<rparr>)\<rparr>"

interpretation ipv4_list: aft_list "\<lambda>t. gm_get (Ipv4Entry t)" "\<lambda>t. t\<lparr>Ipv4Entry := []\<rparr>" "''Ipv4Entry''" NewIpv4Entry ipv4_methods
  by unfold_locales
    (auto simp: ipv4_methods_def Afts_NewIpv4Entry_def Afts_GetOrCreateIpv4Entry_def Afts_GetIpv4Entry_def
      Afts_DeleteIpv4Entry_def list_defs gomap fun_eq_iff split: option.splits prod.splits sum.splits)

interpretation ipv6_list: aft_list "\<lambda>t. gm_get (Ipv6Entry t)" "\<lambda>t. t\<lparr>Ipv6Entry := []\<rparr>" "''Ipv6Entry''" NewIpv6Entry ipv6_methods
  by unfold_locales
    (auto simp: ipv6_methods_def Afts_NewIpv6Entry_def Afts_GetOrCreateIpv6Entry_def Afts_GetIpv6Entry_def
      Afts_DeleteIpv6Entry_def list_defs gomap fun_eq_iff split: option.splits prod.splits sum.splits)

interpretation label_list: aft_list "\<lambda>t. gm_get (LabelEntry t)" "\<lambda>t. t\<lparr>LabelEntry := []\<rparr>" "''LabelEntry''" NewLabelEntry label_methods
  by unfold_locales
    (auto simp: label_methods_def Afts_NewLabelEntry_def Afts_GetOrCreateLabelEntry_def Afts_GetLabelEntry_def
      Afts_DeleteLabelEntry_def list_defs gomap fun_eq_iff split: option.splits prod.splits sum.splits)

interpretation mac_list: aft_list "\<lambda>t. gm_get (MacEntry t)" "\<lambda>t. t\<lparr>MacEntry := []\<rparr>" "''MacEntry''" NewMacEntry mac_methods
  by unfold_locales
    (auto simp: mac_methods_def Afts_NewMacEntry_def Afts_GetOrCreateMacEntry_def Afts_GetMacEntry_def
      Afts_DeleteMacEntry_def list_defs gomap fun_eq_iff split: option.splits prod.splits sum.splits)

interpretation hop_list: aft_list "\<lambda>t. gm_get (aft_NextHop t)" "\<lambda>t. t\<lparr>aft_NextHop := []\<rparr>" "''NextHop''" NewNextHop hop_methods
  by unfold_locales
    (auto simp: hop_methods_def Afts_NewNextHop_def Afts_GetOrCreateNextHop_def Afts_GetNextHop_def
      Afts_DeleteNextHop_def list_defs gomap fun_eq_iff split: option.splits prod.splits sum.splits)

interpretation group_list: aft_list "\<lambda>t. gm_get (aft_NextHopGroup t)" "\<lambda>t. t\<lparr>aft_NextHopGroup := []\<rparr>" "''NextHopGroup''" NewNextHopGroup group_methods
  by unfold_locales
    (auto simp: group_methods_def Afts_NewNextHopGroup_def Afts_GetOrCreateNextHopGroup_def Afts_GetNextHopGroup_def
      Afts_DeleteNextHopGroup_def list_defs gomap fun_eq_iff split: option.splits prod.splits sum.splits)

interpretation policy_list: aft_list "\<lambda>t. gm_get (PolicyForwardingEntry t)" "\<lambda>t. t\<lparr>PolicyForwardingEntry := []\<rparr>" "''PolicyForwardingEntry''" NewPolicyForwardingEntry policy_methods
  by unfold_locales
    (auto simp: policy_methods_def Afts_NewPolicyForwardingEntry_def Afts_GetOrCreatePolicyForwardingEntry_def Afts_GetPolicyForwardingEntry_def
      Afts_DeletePolicyForwardingEntry_def list_defs gomap fun_eq_iff split: option.splits prod.splits sum.splits)

subsection \<open>Nested lists\<close>

definition member_methods :: "(u64, Afts_NextHopGroup_NextHop, Afts_NextHopGroup) list_methods" where
  "member_methods = \<lparr>lm_New = Afts_NextHopGroup_NewNextHop, lm_GetOrCreate = Afts_NextHopGroup_GetOrCreateNextHop,
     lm_Get = Afts_NextHopGroup_GetNextHop, lm_Delete = Afts_NextHopGroup_DeleteNextHop,
     lm_Store = (\<lambda>k v t. t\<lparr>nhg_NextHop := gm_put k v (nhg_NextHop t)\<rparr>)\<rparr>"

definition encap_methods :: "(u8, Afts_NextHop_EncapHeader, Afts_NextHop) list_methods" where
  "encap_methods = \<lparr>lm_New = Afts_NextHop_NewEncapHeader, lm_GetOrCreate = Afts_NextHop_GetOrCreateEncapHeader,
     lm_Get = Afts_NextHop_GetEncapHeader, lm_Delete = Afts_NextHop_DeleteEncapHeader,
     lm_Store = (\<lambda>k v t. t\<lparr>nh_EncapHeader := gm_put k v (nh_EncapHeader t)\<rparr>)\<rparr>"

definition subinterface_methods :: "(u32, Interface_Subinterface, Interface) list_methods" where
  "subinterface_methods = \<lparr>lm_New = Interface_NewSubinterface, lm_GetOrCreate = Interface_GetOrCreateSubinterface,
     lm_Get = Interface_GetSubinterface, lm_Delete = Interface_DeleteSubinterface,
     lm_Store = (\<lambda>k v t. t\<lparr>intf_Subinterface := gm_put k v (intf_Subinterface t)\<rparr>)\<rparr>"

definition interface_methods :: "(string, Interface, OC_RIB) list_methods" where
  "interface_methods = \<lparr>lm_New = OC_RIB_NewInterface, lm_GetOrCreate = OC_RIB_GetOrCreateInterface,
     lm_Get = OC_RIB_GetInterface, lm_Delete = OC_RIB_DeleteInterface,
     lm_Store = (\<lambda>k v t. t\<lparr>oc_Interface := gm_put k v (oc_Interface t)\<rparr>)\<rparr>"

interpretation member_list: aft_list "\<lambda>t. gm_get (nhg_NextHop t)" "\<lambda>t. t\<lparr>nhg_NextHop := []\<rparr>" "''NextHop''" NewNHG_NextHop member_methods
  by unfold_locales
    (auto simp: member_methods_def Afts_NextHopGroup_NewNextHop_def Afts_NextHopGroup_GetOrCreateNextHop_def Afts_NextHopGroup_GetNextHop_def
      Afts_NextHopGroup_DeleteNextHop_def list_defs gomap fun_eq_iff split: option.splits prod.splits sum.splits)

interpretation encap_list: aft_list "\<lambda>t. gm_get (nh_EncapHeader t)" "\<lambda>t. t\<lparr>nh_EncapHeader := []\<rparr>" "''EncapHeader''" NewEncapHeader encap_methods
  by unfold_locales
    (auto simp: encap_methods_def Afts_NextHop_NewEncapHeader_def Afts_NextHop_GetOrCreateEncapHeader_def Afts_NextHop_GetEncapHeader_def
      Afts_NextHop_DeleteEncapHeader_def list_defs gomap fun_eq_iff split: option.splits prod.splits sum.splits)

interpretation subinterface_list: aft_list "\<lambda>t. gm_get (intf_Subinterface t)" "\<lambda>t. t\<lparr>intf_Subinterface := []\<rparr>" "''Subinterface''" NewSubinterface subinterface_methods
  by unfold_locales
    (auto simp: subinterface_methods_def Interface_NewSubinterface_def Interface_GetOrCreateSubinterface_def Interface_GetSubinterface_def
      Interface_DeleteSubinterface_def list_defs gomap fun_eq_iff split: option.splits prod.splits sum.splits)

interpretation interface_list: aft_list "\<lambda>t. gm_get (oc_Interface t)" "\<lambda>t. t\<lparr>oc_Interface := []\<rparr>" "''Interface''" NewInterface interface_methods
  by unfold_locales
    (auto simp: interface_methods_def OC_RIB_NewInterface_def OC_RIB_GetOrCreateInterface_def OC_RIB_GetInterface_def
      OC_RIB_DeleteInterface_def list_defs gomap fun_eq_iff split: option.splits prod.splits sum.splits)

text \<open>What \<open>GetOrCreate\<close> returns is in the list, so chained calls do not panic.\<close>

lemmas created_is_found = ipv4_list.created_is_found ipv6_list.created_is_found label_list.created_is_found
  mac_list.created_is_found hop_list.created_is_found group_list.created_is_found policy_list.created_is_found
  member_list.created_is_found encap_list.created_is_found subinterface_list.created_is_found
  interface_list.created_is_found

text \<open>The key map of a new entry is the key it was created under.\<close>

lemma new_entry_key:
  "Afts_Ipv4Entry_ListKeyMap (NewIpv4Entry p) = Inr (''prefix'', p)" "Afts_Ipv6Entry_ListKeyMap (NewIpv6Entry p) = Inr (''prefix'', p)"
  "Afts_LabelEntry_ListKeyMap (NewLabelEntry l) = Inr (''label'', Some l)" "Afts_MacEntry_ListKeyMap (NewMacEntry p) = Inr (''mac-address'', p)"
  "Afts_NextHop_ListKeyMap (NewNextHop i) = Inr (''index'', i)" "Afts_NextHopGroup_ListKeyMap (NewNextHopGroup i) = Inr (''id'', i)"
  "Afts_PolicyForwardingEntry_ListKeyMap (NewPolicyForwardingEntry i) = Inr (''index'', i)"
  "Afts_NextHopGroup_NextHop_ListKeyMap (NewNHG_NextHop i) = Inr (''index'', i)"
  "Afts_NextHop_EncapHeader_ListKeyMap (NewEncapHeader j) = Inr (''index'', j)"
  "Interface_ListKeyMap (NewInterface p) = Inr (''name'', p)" "Interface_Subinterface_ListKeyMap (NewSubinterface u) = Inr (''index'', u)"
  by (simp_all add: Afts_Ipv4Entry_ListKeyMap_def NewIpv4Entry_def Afts_Ipv6Entry_ListKeyMap_def NewIpv6Entry_def
      Afts_LabelEntry_ListKeyMap_def NewLabelEntry_def Afts_MacEntry_ListKeyMap_def NewMacEntry_def
      Afts_NextHop_ListKeyMap_def NewNextHop_def Afts_NextHopGroup_ListKeyMap_def NewNextHopGroup_def
      Afts_PolicyForwardingEntry_ListKeyMap_def NewPolicyForwardingEntry_def
      Afts_NextHopGroup_NextHop_ListKeyMap_def NewNHG_NextHop_def Afts_NextHop_EncapHeader_ListKeyMap_def NewEncapHeader_def
      Interface_ListKeyMap_def NewInterface_def Interface_Subinterface_ListKeyMap_def NewSubinterface_def)

subsection \<open>The AFTs as seven maps\<close>

datatype afts_call =
    On_Ipv4 "(string, Afts_Ipv4Entry) list_call"
  | On_Ipv6 "(string, Afts_Ipv6Entry) list_call"
  | On_Label "(Label_Union, Afts_LabelEntry) list_call"
  | On_Mac "(string, Afts_MacEntry) list_call"
  | On_Hop "(u64, Afts_NextHop) list_call"
  | On_Group "(u64, Afts_NextHopGroup) list_call"
  | On_Policy "(u64, Afts_PolicyForwardingEntry) list_call"

datatype afts_result =
    Of_Ipv4 "Afts_Ipv4Entry list_result"
  | Of_Ipv6 "Afts_Ipv6Entry list_result"
  | Of_Label "Afts_LabelEntry list_result"
  | Of_Mac "Afts_MacEntry list_result"
  | Of_Hop "Afts_NextHop list_result"
  | Of_Group "Afts_NextHopGroup list_result"
  | Of_Policy "Afts_PolicyForwardingEntry list_result"

fun afts_step :: "afts_call \<Rightarrow> Afts \<Rightarrow> afts_result \<times> Afts" where
  "afts_step (On_Ipv4 c) t = map_prod Of_Ipv4 id (list_step ipv4_methods c t)"
| "afts_step (On_Ipv6 c) t = map_prod Of_Ipv6 id (list_step ipv6_methods c t)"
| "afts_step (On_Label c) t = map_prod Of_Label id (list_step label_methods c t)"
| "afts_step (On_Mac c) t = map_prod Of_Mac id (list_step mac_methods c t)"
| "afts_step (On_Hop c) t = map_prod Of_Hop id (list_step hop_methods c t)"
| "afts_step (On_Group c) t = map_prod Of_Group id (list_step group_methods c t)"
| "afts_step (On_Policy c) t = map_prod Of_Policy id (list_step policy_methods c t)"

record afts_maps =
  am_Ipv4 :: "string \<rightharpoonup> Afts_Ipv4Entry"
  am_Ipv6 :: "string \<rightharpoonup> Afts_Ipv6Entry"
  am_Label :: "Label_Union \<rightharpoonup> Afts_LabelEntry"
  am_Mac :: "string \<rightharpoonup> Afts_MacEntry"
  am_Hop :: "u64 \<rightharpoonup> Afts_NextHop"
  am_Group :: "u64 \<rightharpoonup> Afts_NextHopGroup"
  am_Policy :: "u64 \<rightharpoonup> Afts_PolicyForwardingEntry"

definition no_entries :: afts_maps where
  "no_entries = \<lparr>am_Ipv4 = Map.empty, am_Ipv6 = Map.empty, am_Label = Map.empty, am_Mac = Map.empty,
     am_Hop = Map.empty, am_Group = Map.empty, am_Policy = Map.empty\<rparr>"

definition maps_of :: "Afts \<Rightarrow> afts_maps" where
  "maps_of t = \<lparr>am_Ipv4 = gm_get (Ipv4Entry t), am_Ipv6 = gm_get (Ipv6Entry t), am_Label = gm_get (LabelEntry t),
     am_Mac = gm_get (MacEntry t), am_Hop = gm_get (aft_NextHop t),
     am_Group = gm_get (aft_NextHopGroup t), am_Policy = gm_get (PolicyForwardingEntry t)\<rparr>"

fun maps_step :: "afts_call \<Rightarrow> afts_maps \<Rightarrow> afts_result \<times> afts_maps" where
  "maps_step (On_Ipv4 c) m =
     (case map_step ''Ipv4Entry'' NewIpv4Entry c (am_Ipv4 m) of (r, x) \<Rightarrow> (Of_Ipv4 r, m\<lparr>am_Ipv4 := x\<rparr>))"
| "maps_step (On_Ipv6 c) m =
     (case map_step ''Ipv6Entry'' NewIpv6Entry c (am_Ipv6 m) of (r, x) \<Rightarrow> (Of_Ipv6 r, m\<lparr>am_Ipv6 := x\<rparr>))"
| "maps_step (On_Label c) m =
     (case map_step ''LabelEntry'' NewLabelEntry c (am_Label m) of (r, x) \<Rightarrow> (Of_Label r, m\<lparr>am_Label := x\<rparr>))"
| "maps_step (On_Mac c) m =
     (case map_step ''MacEntry'' NewMacEntry c (am_Mac m) of (r, x) \<Rightarrow> (Of_Mac r, m\<lparr>am_Mac := x\<rparr>))"
| "maps_step (On_Hop c) m =
     (case map_step ''NextHop'' NewNextHop c (am_Hop m) of (r, x) \<Rightarrow> (Of_Hop r, m\<lparr>am_Hop := x\<rparr>))"
| "maps_step (On_Group c) m =
     (case map_step ''NextHopGroup'' NewNextHopGroup c (am_Group m) of (r, x) \<Rightarrow> (Of_Group r, m\<lparr>am_Group := x\<rparr>))"
| "maps_step (On_Policy c) m =
     (case map_step ''PolicyForwardingEntry'' NewPolicyForwardingEntry c (am_Policy m) of (r, x) \<Rightarrow> (Of_Policy r, m\<lparr>am_Policy := x\<rparr>))"

fun calls :: "(afts_call \<Rightarrow> 's \<Rightarrow> afts_result \<times> 's) \<Rightarrow> afts_call list \<Rightarrow> 's \<Rightarrow> afts_result list \<times> 's" where
  "calls step [] t = ([], t)"
| "calls step (c # cs) t = (case step c t of (r, t') \<Rightarrow> (case calls step cs t' of (rs, t'') \<Rightarrow> (r # rs, t'')))"

lemmas afts_refine = ipv4_list.step_refines ipv6_list.step_refines label_list.step_refines mac_list.step_refines
  hop_list.step_refines group_list.step_refines policy_list.step_refines

lemma afts_step_refines:
  "afts_step c t = (r, t') \<Longrightarrow> maps_step c (maps_of t) = (r, maps_of t')"
  by (cases c; cases t; cases t') (auto simp: maps_of_def map_prod_def split: prod.splits dest!: afts_refine)

text \<open>
  C33: The generated methods of the AFTs implement seven independent maps.  On AFTs that start
  empty, every sequence of \<open>New\<close>, \<open>GetOrCreate\<close>, \<open>Get\<close>, \<open>Delete\<close> and assignments through
  the pointers got gives the results it gives on the maps: \<open>New\<close> refuses exactly the keys in use,
  \<open>GetOrCreate\<close> never panics, no call on one list is seen by another.
\<close>
theorem generated_lists_refine_maps:
  "calls maps_step cs no_entries = (fst (calls afts_step cs empty_Afts), maps_of (snd (calls afts_step cs empty_Afts)))"
proof -
  have run: "calls maps_step cs (maps_of t) = (fst (calls afts_step cs t), maps_of (snd (calls afts_step cs t)))" for t
  proof (induction cs arbitrary: t)
    case (Cons c cs)
    obtain r t' where s: "afts_step c t = (r, t')" by fastforce
    with afts_step_refines [OF s] Cons.IH [of t'] show ?case by (simp add: case_prod_unfold)
  qed simp
  have "maps_of empty_Afts = no_entries" by (simp add: maps_of_def no_entries_def empty_Afts_def fun_eq_iff)
  with run [of empty_Afts] show ?thesis by simp
qed

end
