(* ===== verification/AftEnums.thy ===== *)
theory AftEnums
  imports AftInterfaces
begin

text \<open>
  The enumerations of \<open>aft/oc.go\<close>: the constants of each derived \<open>int64\<close> type, and the table
  \<open>LEnum\<close> of the schema names that the ygot library reads.
\<close>

definition AftTypes_EncapsulationHeaderType_consts :: "(string \<times> E_AftTypes_EncapsulationHeaderType) list" where
  "AftTypes_EncapsulationHeaderType_consts =
     [(''UNSET'', 0), (''GRE'', 1), (''IPV4'', 2), (''IPV6'', 3), (''MPLS'', 4),
      (''VXLAN'', 5), (''UDP'', 6), (''UDPV4'', 7), (''UDPV6'', 8)]"

definition IETFInterfaces_InterfaceType_consts :: "(string \<times> E_IETFInterfaces_InterfaceType) list" where
  "IETFInterfaces_InterfaceType_consts =
     [(''UNSET'', 0)]"

definition Interface_AdminStatus_consts :: "(string \<times> E_Interface_AdminStatus) list" where
  "Interface_AdminStatus_consts =
     [(''UNSET'', 0), (''UP'', 1), (''DOWN'', 2), (''TESTING'', 3)]"

definition Interface_OperStatus_consts :: "(string \<times> E_Interface_OperStatus) list" where
  "Interface_OperStatus_consts =
     [(''UNSET'', 0), (''UP'', 2), (''DOWN'', 3), (''TESTING'', 4), (''UNKNOWN'', 5),
      (''DORMANT'', 6), (''NOT_PRESENT'', 7), (''LOWER_LAYER_DOWN'', 8)]"

definition MplsTypes_MplsLabel_Enum_consts :: "(string \<times> E_MplsTypes_MplsLabel_Enum) list" where
  "MplsTypes_MplsLabel_Enum_consts =
     [(''UNSET'', 0), (''IPV4_EXPLICIT_NULL'', 1), (''ROUTER_ALERT'', 2),
      (''IPV6_EXPLICIT_NULL'', 3), (''IMPLICIT_NULL'', 4), (''ENTROPY_LABEL_INDICATOR'', 8),
      (''NO_LABEL'', 9)]"

definition PacketMatchTypes_IP_PROTOCOL_consts :: "(string \<times> E_PacketMatchTypes_IP_PROTOCOL) list" where
  "PacketMatchTypes_IP_PROTOCOL_consts =
     [(''UNSET'', 0), (''IP_AUTH'', 1), (''IP_GRE'', 2), (''IP_ICMP'', 3), (''IP_IGMP'', 4),
      (''IP_IN_IP'', 5), (''IP_L2TP'', 6), (''IP_PIM'', 7), (''IP_RSVP'', 8),
      (''IP_TCP'', 9), (''IP_UDP'', 10)]"

definition LEnum :: "(string \<times> (int \<times> string) list) list" where
  "LEnum =
     [(''E_AftTypes_EncapsulationHeaderType'',
       [(1, ''GRE''), (2, ''IPV4''), (3, ''IPV6''), (4, ''MPLS''), (5, ''VXLAN''),
        (6, ''UDP''), (7, ''UDPV4''), (8, ''UDPV6'')]),
      (''E_IETFInterfaces_InterfaceType'',
       []),
      (''E_Interface_AdminStatus'',
       [(1, ''UP''), (2, ''DOWN''), (3, ''TESTING'')]),
      (''E_Interface_OperStatus'',
       [(2, ''UP''), (3, ''DOWN''), (4, ''TESTING''), (5, ''UNKNOWN''), (6, ''DORMANT''),
        (7, ''NOT_PRESENT''), (8, ''LOWER_LAYER_DOWN'')]),
      (''E_MplsTypes_MplsLabel_Enum'',
       [(1, ''IPV4_EXPLICIT_NULL''), (2, ''ROUTER_ALERT''), (3, ''IPV6_EXPLICIT_NULL''),
        (4, ''IMPLICIT_NULL''), (8, ''ENTROPY_LABEL_INDICATOR''), (9, ''NO_LABEL'')]),
      (''E_PacketMatchTypes_IP_PROTOCOL'',
       [(1, ''IP_AUTH''), (2, ''IP_GRE''), (3, ''IP_ICMP''), (4, ''IP_IGMP''),
        (5, ''IP_IN_IP''), (6, ''IP_L2TP''), (7, ''IP_PIM''), (8, ''IP_RSVP''),
        (9, ''IP_TCP''), (10, ''IP_UDP'')])]"

text \<open>Every constant but \<open>UNSET\<close>, which is zero, has a schema name, its own.\<close>

definition named :: "(string \<times> int) list \<Rightarrow> (int \<times> string) list" where
  "named cs = map (\<lambda>(n, v). (v, n)) (filter (\<lambda>(n, v). v \<noteq> 0) cs)"

lemma enum_names:
  "LEnum =
     [(''E_AftTypes_EncapsulationHeaderType'', named AftTypes_EncapsulationHeaderType_consts),
      (''E_IETFInterfaces_InterfaceType'', named IETFInterfaces_InterfaceType_consts),
      (''E_Interface_AdminStatus'', named Interface_AdminStatus_consts),
      (''E_Interface_OperStatus'', named Interface_OperStatus_consts),
      (''E_MplsTypes_MplsLabel_Enum'', named MplsTypes_MplsLabel_Enum_consts),
      (''E_PacketMatchTypes_IP_PROTOCOL'', named PacketMatchTypes_IP_PROTOCOL_consts)]"
  by (simp add: LEnum_def named_def AftTypes_EncapsulationHeaderType_consts_def
      IETFInterfaces_InterfaceType_consts_def
      Interface_AdminStatus_consts_def
      Interface_OperStatus_consts_def
      MplsTypes_MplsLabel_Enum_consts_def
      PacketMatchTypes_IP_PROTOCOL_consts_def)

end
