(* ===== verification/Reconcile.thy ===== *)
theory Reconcile
  imports RibOps
begin

text \<open>
  The reconciler of \<open>rib/reconciler/reconcile.go\<close>: the operations that make a target RIB
  equal to an intended one, with their identifiers taken from a 64-bit counter.

  \<open>diff\<close> repeats one loop for each of the five tables, once for additions and once for
  deletions; the loops are \<open>diff_adds\<close> and \<open>diff_dels\<close>, given the builder of the operation
  and the field of the result it is appended to.  \<open>reflect.DeepEqual\<close> compares Go maps by
  their contents, so groups are compared up to the order of their next-hops.
\<close>

subsection \<open>Sets of operations\<close>

record Ops =
  ops_NH :: "AFTOperation list"
  ops_NHG :: "AFTOperation list"
  ops_TopLevel :: "AFTOperation list"

definition empty_Ops :: Ops where
  "empty_Ops = \<lparr>ops_NH = [], ops_NHG = [], ops_TopLevel = []\<rparr>"

definition Ops_Merge :: "Ops \<Rightarrow> Ops option \<Rightarrow> Ops" where
  "Ops_Merge o' ino = (case ino of None \<Rightarrow> o'
     | Some i \<Rightarrow> \<lparr>ops_NH = ops_NH o' @ ops_NH i, ops_NHG = ops_NHG o' @ ops_NHG i,
                  ops_TopLevel = ops_TopLevel o' @ ops_TopLevel i\<rparr>)"

definition Ops_IsEmpty :: "Ops option \<Rightarrow> bool" where
  "Ops_IsEmpty oo = (case oo of None \<Rightarrow> True
     | Some o' \<Rightarrow> length (ops_NH o') = 0 \<and> length (ops_NHG o') = 0 \<and> length (ops_TopLevel o') = 0)"

text \<open>Protobufs are values here, so cloning one is the identity.\<close>

definition Ops_DeepCopy :: "Ops option \<Rightarrow> Ops option" where
  "Ops_DeepCopy oo = (case oo of None \<Rightarrow> None
     | Some o' \<Rightarrow> Some \<lparr>ops_NH = map id (ops_NH o'), ops_NHG = map id (ops_NHG o'),
                       ops_TopLevel = map id (ops_TopLevel o')\<rparr>)"

record ReconcileOps =
  rec_Add :: Ops
  rec_Replace :: Ops
  rec_Delete :: Ops

definition ReconcileOps_Merge :: "ReconcileOps \<Rightarrow> ReconcileOps option \<Rightarrow> ReconcileOps" where
  "ReconcileOps_Merge r ino = (case ino of None \<Rightarrow> r
     | Some i \<Rightarrow> \<lparr>rec_Add = Ops_Merge (rec_Add r) (Some (rec_Add i)),
                  rec_Replace = Ops_Merge (rec_Replace r) (Some (rec_Replace i)),
                  rec_Delete = Ops_Merge (rec_Delete r) (Some (rec_Delete i))\<rparr>)"

definition ReconcileOps_IsEmpty :: "ReconcileOps option \<Rightarrow> bool" where
  "ReconcileOps_IsEmpty ro = (case ro of None \<Rightarrow> True
     | Some r \<Rightarrow> Ops_IsEmpty (Some (rec_Add r)) \<and> Ops_IsEmpty (Some (rec_Delete r)) \<and>
                Ops_IsEmpty (Some (rec_Replace r)))"

definition ReconcileOps_DeepCopy :: "ReconcileOps option \<Rightarrow> ReconcileOps option" where
  "ReconcileOps_DeepCopy ro = (case ro of None \<Rightarrow> None
     | Some r \<Rightarrow> Some \<lparr>rec_Add = the (Ops_DeepCopy (Some (rec_Add r))),
                      rec_Replace = the (Ops_DeepCopy (Some (rec_Replace r))),
                      rec_Delete = the (Ops_DeepCopy (Some (rec_Delete r)))\<rparr>)"

definition NewReconcileOps :: ReconcileOps where
  "NewReconcileOps = \<lparr>rec_Add = empty_Ops, rec_Replace = empty_Ops, rec_Delete = empty_Ops\<rparr>"

subsection \<open>Operations\<close>

datatype rec_err =
    NilInputRIBs | CannotCopySource rib_err | CannotCopyDestination rib_err | CannotCreateOperation proto_err
  | CannotGetIntended string | CannotGetTarget string | CannotDiff rec_err

type_synonym 'e op_builder = "AFTOperation_Operation \<Rightarrow> string \<Rightarrow> u64 \<Rightarrow> 'e \<Rightarrow> rec_err + AFTOperation"

definition build_op ::
    "('p option \<Rightarrow> AFTOperation_Entry) \<Rightarrow> proto_err + 'p \<Rightarrow> AFTOperation_Operation \<Rightarrow> string \<Rightarrow> u64 \<Rightarrow> rec_err + AFTOperation" where
  "build_op con p method ni i =
     (case p of
        Inl e \<Rightarrow> Inl (CannotCreateOperation e)
      | Inr e \<Rightarrow> Inr \<lparr>op_Id = i, op_NetworkInstance = ni, op_Op = method, op_Entry = Some (con (Some e)), op_ElectionId = None\<rparr>)"

definition v4Operation :: "rib_env \<Rightarrow> Afts_Ipv4Entry op_builder" where
  "v4Operation E method ni i e = build_op AFTOp_Ipv4 (ConcreteIPv4Proto E e) method ni i"

definition v6Operation :: "rib_env \<Rightarrow> Afts_Ipv6Entry op_builder" where
  "v6Operation E method ni i e = build_op AFTOp_Ipv6 (ConcreteIPv6Proto E e) method ni i"

definition nhgOperation :: "rib_env \<Rightarrow> Afts_NextHopGroup op_builder" where
  "nhgOperation E method ni i e = build_op AFTOp_NextHopGroup (ConcreteNextHopGroupProto E e) method ni i"

definition nhOperation :: "rib_env \<Rightarrow> Afts_NextHop op_builder" where
  "nhOperation E method ni i e = build_op AFTOp_NextHop (ConcreteNextHopProto E e) method ni i"

definition mplsOperation :: "rib_env \<Rightarrow> Afts_LabelEntry op_builder" where
  "mplsOperation E method ni i e = build_op AFTOp_Mpls (ConcreteMPLSProto E e) method ni i"

subsection \<open>The difference of two RIBs\<close>

definition gm_equal :: "('k, 'v) gomap \<Rightarrow> ('k, 'v) gomap \<Rightarrow> bool" where
  "gm_equal a b \<longleftrightarrow> list_all (\<lambda>(k, v). gm_get b k = Some v) a \<and> list_all (\<lambda>(k, v). gm_get a k = Some v) b"

definition nhg_DeepEqual :: "Afts_NextHopGroup \<Rightarrow> Afts_NextHopGroup \<Rightarrow> bool" where
  "nhg_DeepEqual a b \<longleftrightarrow> nhg_BackupNextHopGroup a = nhg_BackupNextHopGroup b \<and> nhg_Color a = nhg_Color b \<and>
     nhg_Id a = nhg_Id b \<and> gm_equal (nhg_NextHop a) (nhg_NextHop b)"

definition nh_DeepEqual :: "Afts_NextHop \<Rightarrow> Afts_NextHop \<Rightarrow> bool" where
  "nh_DeepEqual a b \<longleftrightarrow> gm_equal (nh_EncapHeader a) (nh_EncapHeader b) \<and>
     a\<lparr>nh_EncapHeader := []\<rparr> = b\<lparr>nh_EncapHeader := []\<rparr>"

type_synonym diff_state = "u64 \<times> ReconcileOps"

text \<open>The loop over a table of the source; \<open>expl\<close> says whether replaces are explicit.\<close>

fun diff_adds ::
    "'e op_builder \<Rightarrow> (bool \<Rightarrow> AFTOperation \<Rightarrow> ReconcileOps \<Rightarrow> ReconcileOps) \<Rightarrow> ('e \<Rightarrow> 'e \<Rightarrow> bool) \<Rightarrow> bool
     \<Rightarrow> string \<Rightarrow> ('k, 'e) gomap \<Rightarrow> ('k, 'e) gomap \<Rightarrow> diff_state \<Rightarrow> rec_err + diff_state" where
  "diff_adds mk put eq expl ni dst [] st = Inr st"
| "diff_adds mk put eq expl ni dst ((k, srcE) # es) (i, ops) =
     (let (ok, differs) = (case gm_get dst k of None \<Rightarrow> (False, True) | Some dstE \<Rightarrow> (True, \<not> eq srcE dstE))
      in if differs then
           (let opType = (if ok \<and> expl then Op_REPLACE else Op_ADD)
            in case mk opType ni (i + 1) srcE of
                 Inl e \<Rightarrow> Inl e
               | Inr op \<Rightarrow> diff_adds mk put eq expl ni dst es (i + 1, put ok op ops))
         else diff_adds mk put eq expl ni dst es (i, ops))"

text \<open>The loop over a table of the destination.\<close>

fun diff_dels ::
    "'e op_builder \<Rightarrow> (AFTOperation \<Rightarrow> ReconcileOps \<Rightarrow> ReconcileOps) \<Rightarrow> string \<Rightarrow> ('k, 'e) gomap
     \<Rightarrow> ('k, 'e) gomap \<Rightarrow> diff_state \<Rightarrow> rec_err + diff_state" where
  "diff_dels mk put ni src [] st = Inr st"
| "diff_dels mk put ni src ((k, dstE) # es) (i, ops) =
     (case gm_get src k of
        Some _ \<Rightarrow> diff_dels mk put ni src es (i, ops)
      | None \<Rightarrow>
          (case mk Op_DELETE ni (i + 1) dstE of
             Inl e \<Rightarrow> Inl e
           | Inr op \<Rightarrow> diff_dels mk put ni src es (i + 1, put op ops)))"

definition add_top :: "bool \<Rightarrow> AFTOperation \<Rightarrow> ReconcileOps \<Rightarrow> ReconcileOps" where
  "add_top ok op r =
     (if ok then r\<lparr>rec_Replace := (rec_Replace r)\<lparr>ops_TopLevel := ops_TopLevel (rec_Replace r) @ [op]\<rparr>\<rparr>
      else r\<lparr>rec_Add := (rec_Add r)\<lparr>ops_TopLevel := ops_TopLevel (rec_Add r) @ [op]\<rparr>\<rparr>)"

definition add_nhg :: "bool \<Rightarrow> AFTOperation \<Rightarrow> ReconcileOps \<Rightarrow> ReconcileOps" where
  "add_nhg ok op r =
     (if ok then r\<lparr>rec_Replace := (rec_Replace r)\<lparr>ops_NHG := ops_NHG (rec_Replace r) @ [op]\<rparr>\<rparr>
      else r\<lparr>rec_Add := (rec_Add r)\<lparr>ops_NHG := ops_NHG (rec_Add r) @ [op]\<rparr>\<rparr>)"

definition add_nh :: "bool \<Rightarrow> AFTOperation \<Rightarrow> ReconcileOps \<Rightarrow> ReconcileOps" where
  "add_nh ok op r =
     (if ok then r\<lparr>rec_Replace := (rec_Replace r)\<lparr>ops_NH := ops_NH (rec_Replace r) @ [op]\<rparr>\<rparr>
      else r\<lparr>rec_Add := (rec_Add r)\<lparr>ops_NH := ops_NH (rec_Add r) @ [op]\<rparr>\<rparr>)"

definition delete_top :: "AFTOperation \<Rightarrow> ReconcileOps \<Rightarrow> ReconcileOps" where
  "delete_top op r = r\<lparr>rec_Delete := (rec_Delete r)\<lparr>ops_TopLevel := ops_TopLevel (rec_Delete r) @ [op]\<rparr>\<rparr>"

definition delete_nhg :: "AFTOperation \<Rightarrow> ReconcileOps \<Rightarrow> ReconcileOps" where
  "delete_nhg op r = r\<lparr>rec_Delete := (rec_Delete r)\<lparr>ops_NHG := ops_NHG (rec_Delete r) @ [op]\<rparr>\<rparr>"

definition delete_nh :: "AFTOperation \<Rightarrow> ReconcileOps \<Rightarrow> ReconcileOps" where
  "delete_nh op r = r\<lparr>rec_Delete := (rec_Delete r)\<lparr>ops_NH := ops_NH (rec_Delete r) @ [op]\<rparr>\<rparr>"

definition then_diff :: "rec_err + diff_state \<Rightarrow> (diff_state \<Rightarrow> rec_err + diff_state) \<Rightarrow> rec_err + diff_state" where
  "then_diff r f = (case r of Inl e \<Rightarrow> Inl e | Inr st \<Rightarrow> f st)"

text \<open>The body of the loop over network instances.\<close>

definition diff_ni :: "rib_env \<Rightarrow> (AFTType \<Rightarrow> bool) \<Rightarrow> string \<Rightarrow> Afts \<Rightarrow> Afts \<Rightarrow> diff_state \<Rightarrow> rec_err + diff_state" where
  "diff_ni E expl ni s d st =
     then_diff (diff_adds (v4Operation E) add_top (=) (expl AFT_IPV4) ni (Ipv4Entry d) (Ipv4Entry s) st) (\<lambda>st.
     then_diff (diff_adds (v6Operation E) add_top (=) (expl AFT_IPV6) ni (Ipv6Entry d) (Ipv6Entry s) st) (\<lambda>st.
     then_diff (diff_adds (mplsOperation E) add_top (=) (expl AFT_MPLS) ni (LabelEntry d) (LabelEntry s) st) (\<lambda>st.
     then_diff (diff_adds (nhgOperation E) add_nhg nhg_DeepEqual (expl AFT_NEXTHOP_GROUP) ni (aft_NextHopGroup d) (aft_NextHopGroup s) st) (\<lambda>st.
     then_diff (diff_adds (nhOperation E) add_nh nh_DeepEqual (expl AFT_NEXTHOP) ni (aft_NextHop d) (aft_NextHop s) st) (\<lambda>st.
     then_diff (diff_dels (v4Operation E) delete_top ni (Ipv4Entry s) (Ipv4Entry d) st) (\<lambda>st.
     then_diff (diff_dels (v6Operation E) delete_top ni (Ipv6Entry s) (Ipv6Entry d) st) (\<lambda>st.
     then_diff (diff_dels (mplsOperation E) delete_top ni (LabelEntry s) (LabelEntry d) st) (\<lambda>st.
     then_diff (diff_dels (nhgOperation E) delete_nhg ni (aft_NextHopGroup s) (aft_NextHopGroup d) st) (\<lambda>st.
     diff_dels (nhOperation E) delete_nh ni (aft_NextHop s) (aft_NextHop d) st)))))))))"

fun diff_nis :: "rib_env \<Rightarrow> (AFTType \<Rightarrow> bool) \<Rightarrow> (string, Afts) gomap \<Rightarrow> (string, Afts) gomap \<Rightarrow> diff_state \<Rightarrow> rec_err + diff_state" where
  "diff_nis E expl dst [] st = Inr st"
| "diff_nis E expl dst ((ni, s) # nis) st =
     then_diff (diff_ni E expl ni s (case gm_get dst ni of None \<Rightarrow> empty_Afts | Some d \<Rightarrow> d) st)
       (diff_nis E expl dst nis)"

text \<open>
  The presence of the key \<open>AFTType_ALL\<close>, whatever its value, stands for all supported types.
  The result is the operations and the counter afterwards.
\<close>

definition explicit_types :: "(AFTType, bool) gomap \<Rightarrow> AFTType \<Rightarrow> bool" where
  "explicit_types m t =
     (if gm_get m AFT_ALL \<noteq> None then t \<in> {AFT_IPV4, AFT_IPV6, AFT_MPLS, AFT_NEXTHOP, AFT_NEXTHOP_GROUP}
      else case gm_get m t of Some b \<Rightarrow> b | None \<Rightarrow> False)"

definition diff ::
    "rib_env \<Rightarrow> RIB option \<Rightarrow> RIB option \<Rightarrow> (AFTType, bool) gomap \<Rightarrow> u64 \<Rightarrow> rec_err + (ReconcileOps \<times> u64)" where
  "diff E srco dsto explicitReplace i =
     (case (srco, dsto) of
        (Some src, Some dst) \<Rightarrow>
          (case RIBContents E src of
             Inl e \<Rightarrow> Inl (CannotCopySource e)
           | Inr srcContents \<Rightarrow>
               (case RIBContents E dst of
                  Inl e \<Rightarrow> Inl (CannotCopyDestination e)
                | Inr dstContents \<Rightarrow>
                    (case diff_nis E (explicit_types explicitReplace) dstContents srcContents (i, NewReconcileOps) of
                       Inl e \<Rightarrow> Inl e
                     | Inr (i', ops) \<Rightarrow> Inr (ops, i'))))
      | _ \<Rightarrow> Inl NilInputRIBs)"

subsection \<open>Reconciliation\<close>

text \<open>A \<open>RIBTarget\<close> is known by what its \<open>Get\<close> returns.\<close>

record RIBTarget =
  target_Get :: "string + RIB option"

definition NewLocalRIB :: "RIB option \<Rightarrow> RIBTarget" where
  "NewLocalRIB r = \<lparr>target_Get = Inr r\<rparr>"

record R =
  intended :: RIBTarget
  target :: RIBTarget

definition NewR :: "RIBTarget \<Rightarrow> RIBTarget \<Rightarrow> R" where
  "NewR i t = \<lparr>intended = i, target = t\<rparr>"

definition Reconcile :: "rib_env \<Rightarrow> R \<Rightarrow> u64 \<Rightarrow> rec_err + (ReconcileOps \<times> u64)" where
  "Reconcile E r i =
     (case target_Get (intended r) of
        Inl m \<Rightarrow> Inl (CannotGetIntended m)
      | Inr iRIB \<Rightarrow>
          (case target_Get (target r) of
             Inl m \<Rightarrow> Inl (CannotGetTarget m)
           | Inr tRIB \<Rightarrow>
               (case diff E iRIB tRIB [] i of
                  Inl e \<Rightarrow> Inl (CannotDiff e)
                | Inr diffs \<Rightarrow> Inr diffs)))"

end
