(* ===== verification/ReconcileLaws.thy ===== *)
theory ReconcileLaws
  imports Reconcile
begin

text \<open>
  What the operations of a reconciliation do: their identifiers, which operations there are
  for each table of each network instance, and the effect of applying them, in any order,
  to the tables of the destination.
\<close>

subsection \<open>All operations of a result\<close>

definition ops_all :: "Ops \<Rightarrow> AFTOperation list" where
  "ops_all o' = ops_NH o' @ ops_NHG o' @ ops_TopLevel o'"

definition rec_all :: "ReconcileOps \<Rightarrow> AFTOperation list" where
  "rec_all r = ops_all (rec_Add r) @ ops_all (rec_Replace r) @ ops_all (rec_Delete r)"

lemma rec_all_New [simp]: "rec_all NewReconcileOps = []"
  by (simp add: rec_all_def ops_all_def NewReconcileOps_def empty_Ops_def)

text \<open>An update that files one operation.\<close>

definition files :: "(AFTOperation \<Rightarrow> ReconcileOps \<Rightarrow> ReconcileOps) \<Rightarrow> bool" where
  "files put \<longleftrightarrow> (\<forall>op r. mset (rec_all (put op r)) = add_mset op (mset (rec_all r)))"

lemma files_put:
  "files (add_top b)" "files (add_nhg b)" "files (add_nh b)" "files delete_top" "files delete_nhg" "files delete_nh"
  by (simp_all add: files_def add_top_def add_nhg_def add_nh_def delete_top_def delete_nhg_def delete_nh_def
      rec_all_def ops_all_def)

text \<open>The \<open>n\<close> identifiers after \<open>i\<close>.\<close>

definition ids_after :: "u64 \<Rightarrow> nat \<Rightarrow> u64 list" where
  "ids_after i n = map (\<lambda>j. i + of_nat (Suc j)) [0..<n]"

lemma ids_after_0 [simp]: "ids_after i 0 = []"
  by (simp add: ids_after_def)

lemma ids_after_Suc: "ids_after i (Suc n) = (i + 1) # ids_after (i + 1) n"
proof -
  have "map (\<lambda>j. i + of_nat (Suc j)) (map Suc [0..<n]) = map (\<lambda>j. (i + 1) + of_nat (Suc j)) [0..<n]"
    by (simp add: add.assoc)
  then show ?thesis unfolding ids_after_def by (simp add: upt_conv_Cons map_Suc_upt [symmetric] del: upt_Suc)
qed

lemma ids_after_append: "ids_after i (m + n) = ids_after i m @ ids_after (i + of_nat m) n"
  by (induction m arbitrary: i) (simp_all add: ids_after_Suc add.assoc)

lemma ids_after_distinct: "n < 2 ^ 64 \<Longrightarrow> distinct (ids_after i n)"
proof -
  assume n: "n < 2 ^ 64"
  have "inj_on (\<lambda>j. i + of_nat (Suc j)) (set [0..<n])"
  proof (rule inj_onI)
    fix a b assume ab: "a \<in> set [0..<n]" "b \<in> set [0..<n]" "i + of_nat (Suc a) = i + of_nat (Suc b)"
    then have "(of_nat a :: u64) = of_nat b" by simp
    moreover have "a < 2 ^ LENGTH(64)" "b < 2 ^ LENGTH(64)" using ab n by simp_all
    ultimately show "a = b" by (metis of_nat_inverse)
  qed
  then show ?thesis by (simp add: ids_after_def distinct_map)
qed

text \<open>
  The operations that a loop builds for the entries it selects: one each, with the method
  for its key, numbered from the counter on.
\<close>

definition made :: "'e op_builder \<Rightarrow> string \<Rightarrow> ('k \<Rightarrow> AFTOperation_Operation) \<Rightarrow> ('k \<times> 'e) list \<Rightarrow> AFTOperation list \<Rightarrow> bool" where
  "made mk ni meth items os \<longleftrightarrow> list_all2 (\<lambda>(k, e) op. \<exists>j. mk (meth k) ni j e = Inr op) items os"

definition numbered :: "'e op_builder \<Rightarrow> bool" where
  "numbered mk \<longleftrightarrow> (\<forall>m ni j e op. mk m ni j e = Inr op \<longrightarrow>
     op_Id op = j \<and> op_NetworkInstance op = ni \<and> op_Op op = m)"

definition phase :: "'e op_builder \<Rightarrow> string \<Rightarrow> ('k \<Rightarrow> AFTOperation_Operation) \<Rightarrow> ('k \<times> 'e) list
    \<Rightarrow> diff_state \<Rightarrow> diff_state \<Rightarrow> AFTOperation list \<Rightarrow> bool" where
  "phase mk ni meth items st st' os \<longleftrightarrow> made mk ni meth items os \<and>
     mset (rec_all (snd st')) = mset (rec_all (snd st)) + mset os \<and>
     map op_Id os = ids_after (fst st) (length os) \<and> fst st' = fst st + of_nat (length os)"

definition changed :: "('e \<Rightarrow> 'e \<Rightarrow> bool) \<Rightarrow> ('k, 'e) gomap \<Rightarrow> ('k, 'e) gomap \<Rightarrow> ('k \<times> 'e) list" where
  "changed eq dst src = filter (\<lambda>(k, e). case gm_get dst k of None \<Rightarrow> True | Some d \<Rightarrow> \<not> eq e d) src"

definition add_meth :: "bool \<Rightarrow> ('k, 'e) gomap \<Rightarrow> 'k \<Rightarrow> AFTOperation_Operation" where
  "add_meth expl dst k = (if gm_get dst k \<noteq> None \<and> expl then Op_REPLACE else Op_ADD)"

definition missing :: "('k, 'e) gomap \<Rightarrow> ('k, 'e) gomap \<Rightarrow> ('k \<times> 'e) list" where
  "missing src dst = filter (\<lambda>(k, e). gm_get src k = None) dst"

lemma phase_Nil: "phase mk ni meth [] st st []"
  by (simp add: phase_def made_def)

lemma phase_Cons:
  assumes "numbered mk" and "files put" and "mk (meth k) ni (i + 1) e = Inr op"
    and "phase mk ni meth items (i + 1, put op ops) st' os"
  shows "phase mk ni meth ((k, e) # items) (i, ops) st' (op # os)"
proof -
  have "op_Id op = i + 1" using assms(1,3) unfolding numbered_def by blast
  with assms show ?thesis
    by (auto simp: phase_def made_def files_def ids_after_Suc add.assoc)
qed

lemma diff_adds_phase:
  assumes mk: "numbered mk" and put: "\<And>b. files (put b)"
  shows "diff_adds mk put eq expl ni dst src st = Inr st' \<Longrightarrow>
    \<exists>os. phase mk ni (add_meth expl dst) (changed eq dst src) st st' os"
proof (induction src arbitrary: st)
  case Nil
  then show ?case by (intro exI [of _ "[]"]) (simp add: changed_def phase_Nil)
next
  case (Cons p src)
  obtain k e i ops where p: "p = (k, e)" "st = (i, ops)" by (metis prod.exhaust)
  let ?ok = "gm_get dst k \<noteq> None"
  show ?case
  proof (cases "case gm_get dst k of None \<Rightarrow> True | Some d \<Rightarrow> \<not> eq e d")
    case True
    then have "\<exists>op. mk (add_meth expl dst k) ni (i + 1) e = Inr op \<and>
        diff_adds mk put eq expl ni dst src (i + 1, put ?ok op ops) = Inr st'"
      using Cons.prems p
      by (cases "gm_get dst k"; cases "mk (add_meth expl dst k) ni (i + 1) e") (simp_all add: add_meth_def Let_def)
    then obtain op where op: "mk (add_meth expl dst k) ni (i + 1) e = Inr op"
        and rest: "diff_adds mk put eq expl ni dst src (i + 1, put ?ok op ops) = Inr st'" by blast
    from Cons.IH [OF rest] obtain os where "phase mk ni (add_meth expl dst) (changed eq dst src) (i + 1, put ?ok op ops) st' os" ..
    from phase_Cons [OF mk put op this] True p show ?thesis by (intro exI [of _ "op # os"]) (simp add: changed_def)
  next
    case False
    then obtain d where d: "gm_get dst k = Some d" "eq e d" by (auto split: option.splits)
    with Cons.prems p have "diff_adds mk put eq expl ni dst src st = Inr st'" by (simp add: Let_def)
    from Cons.IH [OF this] False p show ?thesis by (simp add: changed_def)
  qed
qed

lemma diff_dels_phase:
  assumes mk: "numbered mk" and put: "files put"
  shows "diff_dels mk put ni src dst st = Inr st' \<Longrightarrow>
    \<exists>os. phase mk ni (\<lambda>_. Op_DELETE) (missing src dst) st st' os"
proof (induction dst arbitrary: st)
  case Nil
  then show ?case by (intro exI [of _ "[]"]) (simp add: missing_def phase_Nil)
next
  case (Cons p dst)
  obtain k e i ops where p: "p = (k, e)" "st = (i, ops)" by (metis prod.exhaust)
  show ?case
  proof (cases "gm_get src k")
    case None
    with Cons.prems p obtain op where op: "mk Op_DELETE ni (i + 1) e = Inr op"
        and rest: "diff_dels mk put ni src dst (i + 1, put op ops) = Inr st'"
      by (auto split: sum.splits)
    from Cons.IH [OF rest] obtain os where "phase mk ni (\<lambda>_. Op_DELETE) (missing src dst) (i + 1, put op ops) st' os" ..
    from phase_Cons [OF mk put op this] None p show ?thesis by (intro exI [of _ "op # os"]) (simp add: missing_def)
  next
    case (Some d)
    with Cons p show ?thesis by (auto simp: missing_def)
  qed
qed

lemma numbered_builders:
  "numbered (v4Operation E)" "numbered (v6Operation E)" "numbered (mplsOperation E)" "numbered (nhgOperation E)" "numbered (nhOperation E)"
  by (auto simp: numbered_def v4Operation_def v6Operation_def mplsOperation_def nhgOperation_def nhOperation_def
      build_op_def split: sum.splits)

lemma then_diff_Inr: "then_diff r f = Inr x \<longleftrightarrow> (\<exists>st. r = Inr st \<and> f st = Inr x)"
  by (simp add: then_diff_def split: sum.split)

text \<open>The operations of one network instance, by loop.\<close>

record ni_ops =
  a4 :: "AFTOperation list"
  a6 :: "AFTOperation list"
  al :: "AFTOperation list"
  ag :: "AFTOperation list"
  an :: "AFTOperation list"
  d4 :: "AFTOperation list"
  d6 :: "AFTOperation list"
  dl :: "AFTOperation list"
  dg :: "AFTOperation list"
  dn :: "AFTOperation list"

definition ni_list :: "ni_ops \<Rightarrow> AFTOperation list" where
  "ni_list o' = a4 o' @ a6 o' @ al o' @ ag o' @ an o' @ d4 o' @ d6 o' @ dl o' @ dg o' @ dn o'"

definition ni_made :: "rib_env \<Rightarrow> (AFTType \<Rightarrow> bool) \<Rightarrow> string \<Rightarrow> Afts \<Rightarrow> Afts \<Rightarrow> ni_ops \<Rightarrow> bool" where
  "ni_made E expl ni s d o' \<longleftrightarrow>
     made (v4Operation E) ni (add_meth (expl AFT_IPV4) (Ipv4Entry d)) (changed (=) (Ipv4Entry d) (Ipv4Entry s)) (a4 o') \<and>
     made (v6Operation E) ni (add_meth (expl AFT_IPV6) (Ipv6Entry d)) (changed (=) (Ipv6Entry d) (Ipv6Entry s)) (a6 o') \<and>
     made (mplsOperation E) ni (add_meth (expl AFT_MPLS) (LabelEntry d)) (changed (=) (LabelEntry d) (LabelEntry s)) (al o') \<and>
     made (nhgOperation E) ni (add_meth (expl AFT_NEXTHOP_GROUP) (aft_NextHopGroup d))
       (changed nhg_DeepEqual (aft_NextHopGroup d) (aft_NextHopGroup s)) (ag o') \<and>
     made (nhOperation E) ni (add_meth (expl AFT_NEXTHOP) (aft_NextHop d)) (changed nh_DeepEqual (aft_NextHop d) (aft_NextHop s)) (an o') \<and>
     made (v4Operation E) ni (\<lambda>_. Op_DELETE) (missing (Ipv4Entry s) (Ipv4Entry d)) (d4 o') \<and>
     made (v6Operation E) ni (\<lambda>_. Op_DELETE) (missing (Ipv6Entry s) (Ipv6Entry d)) (d6 o') \<and>
     made (mplsOperation E) ni (\<lambda>_. Op_DELETE) (missing (LabelEntry s) (LabelEntry d)) (dl o') \<and>
     made (nhgOperation E) ni (\<lambda>_. Op_DELETE) (missing (aft_NextHopGroup s) (aft_NextHopGroup d)) (dg o') \<and>
     made (nhOperation E) ni (\<lambda>_. Op_DELETE) (missing (aft_NextHop s) (aft_NextHop d)) (dn o')"

text \<open>Operations that follow each other in the numbering.\<close>

definition appended :: "diff_state \<Rightarrow> diff_state \<Rightarrow> AFTOperation list \<Rightarrow> bool" where
  "appended st st' os \<longleftrightarrow> mset (rec_all (snd st')) = mset (rec_all (snd st)) + mset os \<and>
     map op_Id os = ids_after (fst st) (length os) \<and> fst st' = fst st + of_nat (length os)"

lemma appended_refl: "appended st st []"
  by (simp add: appended_def)

lemma appended_trans: "appended a b xs \<Longrightarrow> appended b c ys \<Longrightarrow> appended a c (xs @ ys)"
  by (simp add: appended_def ids_after_append add.assoc)

lemma phase_iff: "phase mk ni meth items st st' os \<longleftrightarrow> made mk ni meth items os \<and> appended st st' os"
  by (auto simp: phase_def appended_def)

lemma diff_ni_ops:
  assumes "diff_ni E expl ni s d st = Inr st'"
  shows "\<exists>o'. ni_made E expl ni s d o' \<and> appended st st' (ni_list o')"
proof -
  note A = diff_adds_phase [OF numbered_builders(1) files_put(1)] diff_adds_phase [OF numbered_builders(2) files_put(1)]
    diff_adds_phase [OF numbered_builders(3) files_put(1)] diff_adds_phase [OF numbered_builders(4) files_put(2)]
    diff_adds_phase [OF numbered_builders(5) files_put(3)]
  note D = diff_dels_phase [OF numbered_builders(1) files_put(4)] diff_dels_phase [OF numbered_builders(2) files_put(4)]
    diff_dels_phase [OF numbered_builders(3) files_put(4)] diff_dels_phase [OF numbered_builders(4) files_put(5)]
    diff_dels_phase [OF numbered_builders(5) files_put(6)]
  from assms [unfolded diff_ni_def then_diff_Inr] obtain s1 s2 s3 s4 s5 s6 s7 s8 s9 where
    r1: "diff_adds (v4Operation E) add_top (=) (expl AFT_IPV4) ni (Ipv4Entry d) (Ipv4Entry s) st = Inr s1" and
    r2: "diff_adds (v6Operation E) add_top (=) (expl AFT_IPV6) ni (Ipv6Entry d) (Ipv6Entry s) s1 = Inr s2" and
    r3: "diff_adds (mplsOperation E) add_top (=) (expl AFT_MPLS) ni (LabelEntry d) (LabelEntry s) s2 = Inr s3" and
    r4: "diff_adds (nhgOperation E) add_nhg nhg_DeepEqual (expl AFT_NEXTHOP_GROUP) ni (aft_NextHopGroup d) (aft_NextHopGroup s) s3 = Inr s4" and
    r5: "diff_adds (nhOperation E) add_nh nh_DeepEqual (expl AFT_NEXTHOP) ni (aft_NextHop d) (aft_NextHop s) s4 = Inr s5" and
    r6: "diff_dels (v4Operation E) delete_top ni (Ipv4Entry s) (Ipv4Entry d) s5 = Inr s6" and
    r7: "diff_dels (v6Operation E) delete_top ni (Ipv6Entry s) (Ipv6Entry d) s6 = Inr s7" and
    r8: "diff_dels (mplsOperation E) delete_top ni (LabelEntry s) (LabelEntry d) s7 = Inr s8" and
    r9: "diff_dels (nhgOperation E) delete_nhg ni (aft_NextHopGroup s) (aft_NextHopGroup d) s8 = Inr s9" and
    r10: "diff_dels (nhOperation E) delete_nh ni (aft_NextHop s) (aft_NextHop d) s9 = Inr st'" by blast
  note P = A(1) [OF r1] A(2) [OF r2] A(3) [OF r3] A(4) [OF r4] A(5) [OF r5] D(1) [OF r6] D(2) [OF r7] D(3) [OF r8] D(4) [OF r9] D(5) [OF r10]
  note P = P [unfolded phase_iff]
  from P(1) obtain o1 where 1: "made (v4Operation E) ni (add_meth (expl AFT_IPV4) (Ipv4Entry d)) (changed (=) (Ipv4Entry d) (Ipv4Entry s)) o1" "appended st s1 o1" by blast
  from P(2) obtain o2 where 2: "made (v6Operation E) ni (add_meth (expl AFT_IPV6) (Ipv6Entry d)) (changed (=) (Ipv6Entry d) (Ipv6Entry s)) o2" "appended s1 s2 o2" by blast
  from P(3) obtain o3 where 3: "made (mplsOperation E) ni (add_meth (expl AFT_MPLS) (LabelEntry d)) (changed (=) (LabelEntry d) (LabelEntry s)) o3" "appended s2 s3 o3" by blast
  from P(4) obtain o4 where 4: "made (nhgOperation E) ni (add_meth (expl AFT_NEXTHOP_GROUP) (aft_NextHopGroup d)) (changed nhg_DeepEqual (aft_NextHopGroup d) (aft_NextHopGroup s)) o4" "appended s3 s4 o4" by blast
  from P(5) obtain o5 where 5: "made (nhOperation E) ni (add_meth (expl AFT_NEXTHOP) (aft_NextHop d)) (changed nh_DeepEqual (aft_NextHop d) (aft_NextHop s)) o5" "appended s4 s5 o5" by blast
  from P(6) obtain o6 where 6: "made (v4Operation E) ni (\<lambda>_. Op_DELETE) (missing (Ipv4Entry s) (Ipv4Entry d)) o6" "appended s5 s6 o6" by blast
  from P(7) obtain o7 where 7: "made (v6Operation E) ni (\<lambda>_. Op_DELETE) (missing (Ipv6Entry s) (Ipv6Entry d)) o7" "appended s6 s7 o7" by blast
  from P(8) obtain o8 where 8: "made (mplsOperation E) ni (\<lambda>_. Op_DELETE) (missing (LabelEntry s) (LabelEntry d)) o8" "appended s7 s8 o8" by blast
  from P(9) obtain o9 where 9: "made (nhgOperation E) ni (\<lambda>_. Op_DELETE) (missing (aft_NextHopGroup s) (aft_NextHopGroup d)) o9" "appended s8 s9 o9" by blast
  from P(10) obtain o10 where 10: "made (nhOperation E) ni (\<lambda>_. Op_DELETE) (missing (aft_NextHop s) (aft_NextHop d)) o10" "appended s9 st' o10" by blast
  let ?o = "\<lparr>a4 = o1, a6 = o2, al = o3, ag = o4, an = o5, d4 = o6, d6 = o7, dl = o8, dg = o9, dn = o10\<rparr>"
  note T = appended_trans
  have "appended st st' (ni_list ?o)"
    unfolding ni_list_def using T [OF 1(2) T [OF 2(2) T [OF 3(2) T [OF 4(2) T [OF 5(2) T [OF 6(2) T [OF 7(2) T [OF 8(2) T [OF 9(2) 10(2)]]]]]]]]] by simp
  moreover have "ni_made E expl ni s d ?o"
    unfolding ni_made_def using 1(1) 2(1) 3(1) 4(1) 5(1) 6(1) 7(1) 8(1) 9(1) 10(1) by simp
  ultimately show ?thesis by blast
qed

text \<open>
  The operations of a whole run: those of each network instance of the source, against the
  tables of the destination, which are empty where it does not have the network instance.
\<close>

definition dst_afts :: "(string, Afts) gomap \<Rightarrow> string \<Rightarrow> Afts" where
  "dst_afts D n = (case gm_get D n of None \<Rightarrow> empty_Afts | Some d \<Rightarrow> d)"

lemma made_ni:
  assumes "made mk ni meth items os" and "numbered mk" and "op \<in> set os"
  shows "op_NetworkInstance op = ni"
  using assms unfolding made_def numbered_def
  by (induction items os rule: list_all2_induct) auto

lemma ni_made_ni:
  assumes "ni_made E expl ni s d o'" and "op \<in> set (ni_list o')"
  shows "op_NetworkInstance op = ni"
proof -
  note N = made_ni [OF _ numbered_builders(1)] made_ni [OF _ numbered_builders(2)] made_ni [OF _ numbered_builders(3)]
    made_ni [OF _ numbered_builders(4)] made_ni [OF _ numbered_builders(5)]
  from assms show ?thesis unfolding ni_made_def ni_list_def set_append by (elim conjE UnE) (erule (1) N)+
qed

lemma diff_nis_ops:
  "gm_wf S \<Longrightarrow> diff_nis E expl D S st = Inr st' \<Longrightarrow>
    \<exists>L. appended st st' L \<and> (\<forall>op\<in>set L. op_NetworkInstance op \<in> fst ` set S) \<and>
      (\<forall>(n, s)\<in>set S. \<exists>o'. ni_made E expl n s (dst_afts D n) o' \<and>
        filter (\<lambda>op. op_NetworkInstance op = n) L = ni_list o')"
proof (induction S arbitrary: st)
  case Nil
  then show ?case using appended_refl by auto
next
  case (Cons p S)
  obtain m s where p: "p = (m, s)" by (cases p)
  from Cons.prems(2) obtain st1 where r: "diff_ni E expl m s (dst_afts D m) st = Inr st1" "diff_nis E expl D S st1 = Inr st'"
    by (auto simp: p then_diff_Inr dst_afts_def)
  obtain o1 where o1: "ni_made E expl m s (dst_afts D m) o1" "appended st st1 (ni_list o1)"
    using diff_ni_ops [OF r(1)] by blast
  obtain L where L: "appended st1 st' L" "\<forall>op\<in>set L. op_NetworkInstance op \<in> fst ` set S"
    "\<forall>(n, s)\<in>set S. \<exists>o'. ni_made E expl n s (dst_afts D n) o' \<and> filter (\<lambda>op. op_NetworkInstance op = n) L = ni_list o'"
    using Cons.IH [OF _ r(2)] Cons.prems(1) by (auto simp: p)
  note mine = ni_made_ni [OF o1(1)]
  have m: "m \<notin> fst ` set S" using Cons.prems(1) by (simp add: p)
  have f1: "filter (\<lambda>op. op_NetworkInstance op = m) (ni_list o1 @ L) = ni_list o1"
  proof -
    have "filter (\<lambda>op. op_NetworkInstance op = m) L = []" using L(2) m by (auto simp: filter_empty_conv)
    moreover have "filter (\<lambda>op. op_NetworkInstance op = m) (ni_list o1) = ni_list o1" using mine by (simp add: filter_id_conv)
    ultimately show ?thesis by simp
  qed
  have f2: "filter (\<lambda>op. op_NetworkInstance op = n) (ni_list o1 @ L) = filter (\<lambda>op. op_NetworkInstance op = n) L" if "n \<noteq> m" for n
    using mine that by (auto simp: filter_empty_conv)
  have "\<exists>o'. ni_made E expl n s' (dst_afts D n) o' \<and> filter (\<lambda>op. op_NetworkInstance op = n) (ni_list o1 @ L) = ni_list o'"
    if "(n, s') \<in> set (p # S)" for n s'
  proof (cases "n = m")
    case True
    with that m have "s' = s" by (auto simp: p image_iff)
    with True o1(1) f1 show ?thesis by blast
  next
    case False
    with that have "(n, s') \<in> set S" by (simp add: p)
    with L(3) f2 [OF False] show ?thesis by fastforce
  qed
  moreover have "\<forall>op\<in>set (ni_list o1 @ L). op_NetworkInstance op \<in> fst ` set (p # S)"
    using mine L(2) by (auto simp: p)
  ultimately show ?case using appended_trans [OF o1(2) L(1)] by (intro exI [of _ "ni_list o1 @ L"]) blast
qed

end
