(* ===== verification/ReconcileApply.thy ===== *)
theory ReconcileApply
  imports ReconcileLaws RibInv
begin

text \<open>
  The effect of programming operations on the tables of a network instance, and the
  contract between the reconciler and the tables: programming the operations of a
  difference, in any order, turns the tables of the destination into those of the source.
\<close>

subsection \<open>Programming one operation\<close>

text \<open>The entry that the RIB stores for a message: the one of the message's candidate.\<close>

definition v4_value :: "rib_env \<Rightarrow> Afts_Ipv4EntryKey \<Rightarrow> Afts_Ipv4Entry option" where
  "v4_value E e = (case candidate E (empty_Afts_pb\<lparr>pb_Ipv4Entry := [e]\<rparr>) of
     Inr (Some n) \<Rightarrow> gm_get (Ipv4Entry n) (v4k_Prefix e) | _ \<Rightarrow> None)"

definition v6_value :: "rib_env \<Rightarrow> Afts_Ipv6EntryKey \<Rightarrow> Afts_Ipv6Entry option" where
  "v6_value E e = (case candidate E (empty_Afts_pb\<lparr>pb_Ipv6Entry := [e]\<rparr>) of
     Inr (Some n) \<Rightarrow> gm_get (Ipv6Entry n) (v6k_Prefix e) | _ \<Rightarrow> None)"

definition le_value :: "rib_env \<Rightarrow> Afts_LabelEntryKey \<Rightarrow> Afts_LabelEntry option" where
  "le_value E e = (case candidate E (empty_Afts_pb\<lparr>pb_LabelEntry := [e]\<rparr>) of
     Inr (Some n) \<Rightarrow> gm_get (LabelEntry n) (label_of e) | _ \<Rightarrow> None)"

definition nhg_value :: "rib_env \<Rightarrow> Afts_NextHopGroupKey \<Rightarrow> Afts_NextHopGroup option" where
  "nhg_value E e = (case candidate E (empty_Afts_pb\<lparr>pb_NextHopGroup := [e]\<rparr>) of
     Inr (Some n) \<Rightarrow> gm_get (aft_NextHopGroup n) (nhgk_Id e) | _ \<Rightarrow> None)"

definition nh_value :: "rib_env \<Rightarrow> Afts_NextHopKey \<Rightarrow> Afts_NextHop option" where
  "nh_value E e = (case candidate E (empty_Afts_pb\<lparr>pb_NextHop := [e]\<rparr>) of
     Inr (Some n) \<Rightarrow> gm_get (aft_NextHop n) (nhk_Index e) | _ \<Rightarrow> None)"

lemmas value_defs = v4_value_def v6_value_def le_value_def nhg_value_def nh_value_def

definition put_value :: "('e \<Rightarrow> Afts \<Rightarrow> Afts) \<Rightarrow> 'e option \<Rightarrow> Afts \<Rightarrow> Afts" where
  "put_value put v a = (case v of None \<Rightarrow> a | Some e \<Rightarrow> put e a)"

text \<open>What an accepted operation does to the tables of its network instance.\<close>

definition program_op :: "rib_env \<Rightarrow> AFTOperation \<Rightarrow> Afts \<Rightarrow> Afts" where
  "program_op E op a =
     (case op_Entry op of
        Some (AFTOp_Ipv4 (Some e)) \<Rightarrow>
          if op_Op op = Op_DELETE then del_v4 (v4k_Prefix e) a else put_value (put_v4 (v4k_Prefix e)) (v4_value E e) a
      | Some (AFTOp_Ipv6 (Some e)) \<Rightarrow>
          if op_Op op = Op_DELETE then del_v6 (v6k_Prefix e) a else put_value (put_v6 (v6k_Prefix e)) (v6_value E e) a
      | Some (AFTOp_Mpls (Some e)) \<Rightarrow>
          if op_Op op = Op_DELETE then del_le (label_of e) a else put_value (put_le (label_of e)) (le_value E e) a
      | Some (AFTOp_NextHopGroup (Some e)) \<Rightarrow>
          if op_Op op = Op_DELETE then del_nhg (nhgk_Id e) a else put_value (put_nhg (nhgk_Id e)) (nhg_value E e) a
      | Some (AFTOp_NextHop (Some e)) \<Rightarrow>
          if op_Op op = Op_DELETE then del_nh (nhk_Index e) a else put_value (put_nh (nhk_Index e)) (nh_value E e) a
      | _ \<Rightarrow> a)"

text \<open>The key that an operation concerns in each table, and the entry it carries.\<close>

definition v4_key :: "AFTOperation \<Rightarrow> string option" where
  "v4_key op = (case op_Entry op of Some (AFTOp_Ipv4 (Some e)) \<Rightarrow> Some (v4k_Prefix e) | _ \<Rightarrow> None)"

definition v6_key :: "AFTOperation \<Rightarrow> string option" where
  "v6_key op = (case op_Entry op of Some (AFTOp_Ipv6 (Some e)) \<Rightarrow> Some (v6k_Prefix e) | _ \<Rightarrow> None)"

definition le_key :: "AFTOperation \<Rightarrow> Label_Union option" where
  "le_key op = (case op_Entry op of Some (AFTOp_Mpls (Some e)) \<Rightarrow> Some (label_of e) | _ \<Rightarrow> None)"

definition nhg_key :: "AFTOperation \<Rightarrow> u64 option" where
  "nhg_key op = (case op_Entry op of Some (AFTOp_NextHopGroup (Some e)) \<Rightarrow> Some (nhgk_Id e) | _ \<Rightarrow> None)"

definition nh_key :: "AFTOperation \<Rightarrow> u64 option" where
  "nh_key op = (case op_Entry op of Some (AFTOp_NextHop (Some e)) \<Rightarrow> Some (nhk_Index e) | _ \<Rightarrow> None)"

lemmas key_defs = v4_key_def v6_key_def le_key_def nhg_key_def nh_key_def

definition v4_val :: "rib_env \<Rightarrow> AFTOperation \<Rightarrow> Afts_Ipv4Entry option" where
  "v4_val E op = (case op_Entry op of Some (AFTOp_Ipv4 (Some e)) \<Rightarrow> v4_value E e | _ \<Rightarrow> None)"

definition v6_val :: "rib_env \<Rightarrow> AFTOperation \<Rightarrow> Afts_Ipv6Entry option" where
  "v6_val E op = (case op_Entry op of Some (AFTOp_Ipv6 (Some e)) \<Rightarrow> v6_value E e | _ \<Rightarrow> None)"

definition le_val :: "rib_env \<Rightarrow> AFTOperation \<Rightarrow> Afts_LabelEntry option" where
  "le_val E op = (case op_Entry op of Some (AFTOp_Mpls (Some e)) \<Rightarrow> le_value E e | _ \<Rightarrow> None)"

definition nhg_val :: "rib_env \<Rightarrow> AFTOperation \<Rightarrow> Afts_NextHopGroup option" where
  "nhg_val E op = (case op_Entry op of Some (AFTOp_NextHopGroup (Some e)) \<Rightarrow> nhg_value E e | _ \<Rightarrow> None)"

definition nh_val :: "rib_env \<Rightarrow> AFTOperation \<Rightarrow> Afts_NextHop option" where
  "nh_val E op = (case op_Entry op of Some (AFTOp_NextHop (Some e)) \<Rightarrow> nh_value E e | _ \<Rightarrow> None)"

lemmas val_defs = v4_val_def v6_val_def le_val_def nhg_val_def nh_val_def

text \<open>
  An entry of a table \<open>codes\<close> when every operation built from it concerns the entry's key and
  carries an entry equal to it, in a well-formed message: the protobuf libraries lose nothing
  of the entry.
\<close>

definition codes ::
    "'e op_builder \<Rightarrow> (AFTOperation \<Rightarrow> 'k option) \<Rightarrow> (AFTOperation \<Rightarrow> 'e option) \<Rightarrow> ('e \<Rightarrow> 'e \<Rightarrow> bool) \<Rightarrow> 'k \<Rightarrow> 'e \<Rightarrow> bool" where
  "codes mk key val eq k e \<longleftrightarrow> (\<forall>m ni j. \<exists>op v. mk m ni j e = Inr op \<and> op_wf op \<and> key op = Some k \<and> val op = Some v \<and> eq e v)"

lemma codesD:
  assumes "codes mk key val eq k e" and "mk m ni j e = Inr op"
  shows "op_wf op \<and> (\<exists>v. key op = Some k \<and> val op = Some v \<and> eq e v)"
  using assms(1) [unfolded codes_def, rule_format, of m ni j] assms(2) by auto

definition afts_code :: "rib_env \<Rightarrow> Afts \<Rightarrow> bool" where
  "afts_code E a \<longleftrightarrow>
     (\<forall>p\<in>set (Ipv4Entry a). codes (v4Operation E) v4_key (v4_val E) (=) (fst p) (snd p)) \<and>
     (\<forall>p\<in>set (Ipv6Entry a). codes (v6Operation E) v6_key (v6_val E) (=) (fst p) (snd p)) \<and>
     (\<forall>p\<in>set (LabelEntry a). codes (mplsOperation E) le_key (le_val E) (=) (fst p) (snd p)) \<and>
     (\<forall>p\<in>set (aft_NextHopGroup a). codes (nhgOperation E) nhg_key (nhg_val E) nhg_DeepEqual (fst p) (snd p)) \<and>
     (\<forall>p\<in>set (aft_NextHop a). codes (nhOperation E) nh_key (nh_val E) nh_DeepEqual (fst p) (snd p))"

subsection \<open>Equal tables\<close>

definition table_equal :: "('e \<Rightarrow> 'e \<Rightarrow> bool) \<Rightarrow> ('k, 'e) gomap \<Rightarrow> ('k, 'e) gomap \<Rightarrow> bool" where
  "table_equal eq s t \<longleftrightarrow> (\<forall>k. rel_option eq (gm_get s k) (gm_get t k))"

text \<open>\<open>reflect.DeepEqual\<close> on the five tables that gRIBI programs.\<close>

definition afts_equal :: "Afts \<Rightarrow> Afts \<Rightarrow> bool" where
  "afts_equal a b \<longleftrightarrow> table_equal (=) (Ipv4Entry a) (Ipv4Entry b) \<and> table_equal (=) (Ipv6Entry a) (Ipv6Entry b) \<and>
     table_equal (=) (LabelEntry a) (LabelEntry b) \<and>
     table_equal nhg_DeepEqual (aft_NextHopGroup a) (aft_NextHopGroup b) \<and>
     table_equal nh_DeepEqual (aft_NextHop a) (aft_NextHop b)"

lemma gm_get_filter:
  assumes "gm_wf m"
  shows "gm_get (filter (\<lambda>(k, e). P k e) m) k =
    (case gm_get m k of None \<Rightarrow> None | Some e \<Rightarrow> if P k e then Some e else None)"
  using assms
proof (induction m)
  case (Cons p m)
  show ?case
  proof (cases "fst p = k")
    case True
    with Cons.prems have "gm_get (filter (\<lambda>(k, e). P k e) m) k = None" by (auto simp: map_of_eq_None_iff)
    with True show ?thesis by (cases p) simp
  next
    case False
    with Cons show ?thesis by (cases p) simp
  qed
qed simp

subsection \<open>The contract of a table\<close>

text \<open>An operation on the value stored under its key.\<close>

definition upd :: "AFTOperation_Operation \<Rightarrow> 'e option \<Rightarrow> 'e option \<Rightarrow> 'e option" where
  "upd m v cur = (if m = Op_DELETE then None else case v of None \<Rightarrow> cur | Some e \<Rightarrow> Some e)"

locale table_diff =
  fixes tbl :: "Afts \<Rightarrow> ('k, 'e) gomap"
    and key :: "AFTOperation \<Rightarrow> 'k option"
    and val :: "rib_env \<Rightarrow> AFTOperation \<Rightarrow> 'e option"
    and mk :: "rib_env \<Rightarrow> 'e op_builder"
    and eq :: "'e \<Rightarrow> 'e \<Rightarrow> bool"
  assumes program: "gm_get (tbl (program_op E op a)) k =
      (if key op = Some k then upd (op_Op op) (val E op) (gm_get (tbl a) k) else gm_get (tbl a) k)"
    and numbers: "numbered (mk E)"
begin

lemma program_fold: "gm_get (tbl (fold (program_op E) os a)) k =
    fold (\<lambda>op. upd (op_Op op) (val E op)) (filter (\<lambda>op. key op = Some k) os) (gm_get (tbl a) k)"
  by (induction os arbitrary: a) (simp_all add: program)

text \<open>At most one of the operations built for distinct keys concerns a given key.\<close>

lemma made_at:
  assumes "made (mk E) ni meth items os" and "gm_wf items"
    and "\<forall>p\<in>set items. codes (mk E) key (val E) eq (fst p) (snd p)"
  shows "case gm_get items k of None \<Rightarrow> filter (\<lambda>op. key op = Some k) os = []
    | Some e \<Rightarrow> \<exists>op v. filter (\<lambda>op. key op = Some k) os = [op] \<and> op_Op op = meth k \<and> val E op = Some v \<and> eq e v"
  using assms unfolding made_def
proof (induction items os rule: list_all2_induct)
  case Nil
  then show ?case by simp
next
  case (Cons p items op os)
  obtain i e where p: "p = (i, e)" by (cases p)
  from Cons.hyps(1) obtain j where j: "mk E (meth i) ni j e = Inr op" by (auto simp: p)
  then have m: "op_Op op = meth i" using numbers [of E] unfolding numbered_def by blast
  from Cons.prems(2) have "codes (mk E) key (val E) eq i e" by (simp add: p)
  from codesD [OF this j] obtain v where v: "key op = Some i" "val E op = Some v" "eq e v" by blast
  have IH: "case gm_get items k of None \<Rightarrow> filter (\<lambda>op. key op = Some k) os = []
    | Some e \<Rightarrow> \<exists>op v. filter (\<lambda>op. key op = Some k) os = [op] \<and> op_Op op = meth k \<and> val E op = Some v \<and> eq e v"
    using Cons.IH Cons.prems by simp
  show ?case
  proof (cases "i = k")
    case True
    with Cons.prems(1) have "gm_get items k = None" by (simp add: p map_of_eq_None_iff)
    with IH True v m show ?thesis by (simp add: p)
  next
    case False
    with v have "filter (\<lambda>op. key op = Some k) (op # os) = filter (\<lambda>op. key op = Some k) os"
      "gm_get (p # items) k = gm_get items k" by (simp_all add: p)
    with IH show ?thesis by (simp only:)
  qed
qed

lemma changed_get: "gm_wf src \<Longrightarrow> gm_get (changed eq dst src) k =
    (case gm_get src k of None \<Rightarrow> None
     | Some e \<Rightarrow> (case gm_get dst k of None \<Rightarrow> Some e | Some d \<Rightarrow> if eq e d then None else Some e))"
  unfolding changed_def by (subst gm_get_filter) (auto split: option.splits)

lemma missing_get: "gm_wf dst \<Longrightarrow> gm_get (missing src dst) k = (if gm_get src k = None then gm_get dst k else None)"
  unfolding missing_def by (subst gm_get_filter) (auto split: option.splits)

lemma wf_parts: "gm_wf src \<Longrightarrow> gm_wf (changed eq dst src)" "gm_wf dst \<Longrightarrow> gm_wf (missing src dst)"
  by (simp_all add: changed_def missing_def distinct_map_filter)

lemma filter_mset_cases:
  "mset (filter P os) = mset (filter P xs @ filter P ys) \<Longrightarrow> filter P xs @ filter P ys = [op] \<Longrightarrow> filter P os = [op]"
  "mset (filter P os) = mset (filter P xs @ filter P ys) \<Longrightarrow> filter P xs @ filter P ys = [] \<Longrightarrow> filter P os = []"
  by (metis mset_single_iff_right mset.simps mset_single_iff) simp

text \<open>After the additions alone, the destination has every entry of the source.\<close>

lemma additions:
  assumes wf: "gm_wf src" and code: "\<forall>p\<in>set src. codes (mk E) key (val E) eq (fst p) (snd p)"
    and xs: "made (mk E) ni (add_meth expl (tbl a)) (changed eq (tbl a) src) xs"
    and os: "mset (filter (\<lambda>op. key op \<noteq> None) os) = mset xs" and k: "gm_get src k = Some e"
  shows "\<exists>v. gm_get (tbl (fold (program_op E) os a)) k = Some v \<and> eq e v"
proof -
  let ?at = "filter (\<lambda>op. key op = Some k)"
  have "mset (?at os) = mset (?at (filter (\<lambda>op. key op \<noteq> None) os))"
    by (simp add: filter_mset_eq_conv conj_commute cong: conj_cong)
  also have "\<dots> = mset (?at xs @ ?at [])" using os by (metis append_Nil2 filter.simps(1) mset_filter)
  finally have at: "mset (?at os) = mset (?at xs @ ?at [])" .
  have X: "case gm_get (changed eq (tbl a) src) k of None \<Rightarrow> ?at xs = []
    | Some e \<Rightarrow> \<exists>op v. ?at xs = [op] \<and> op_Op op = add_meth expl (tbl a) k \<and> val E op = Some v \<and> eq e v"
    by (rule made_at [OF xs]) (use wf wf_parts code in \<open>auto simp: changed_def distinct_map_filter\<close>)
  have nd: "add_meth expl (tbl a) k \<noteq> Op_DELETE" by (simp add: add_meth_def)
  note [simp] = filter_mset_cases [OF at]
  show ?thesis
    using X nd k by (cases "gm_get (tbl a) k") (auto simp: changed_get [OF wf] program_fold upd_def split: if_splits)
qed

text \<open>The operations for the difference of a source and a destination table, in any order.\<close>

lemma converges:
  assumes wf: "gm_wf src" "gm_wf (tbl a)"
    and code: "\<forall>p\<in>set src. codes (mk E) key (val E) eq (fst p) (snd p)"
      "\<forall>p\<in>set (tbl a). codes (mk E) key (val E) eq (fst p) (snd p)"
    and xs: "made (mk E) ni (add_meth expl (tbl a)) (changed eq (tbl a) src) xs"
    and ys: "made (mk E) ni (\<lambda>_. Op_DELETE) (missing src (tbl a)) ys"
    and os: "mset (filter (\<lambda>op. key op \<noteq> None) os) = mset (xs @ ys)"
  shows "table_equal eq src (tbl (fold (program_op E) os a))"
  unfolding table_equal_def
proof
  fix k
  let ?at = "filter (\<lambda>op. key op = Some k)"
  have "mset (?at os) = mset (?at (filter (\<lambda>op. key op \<noteq> None) os))"
    by (simp add: filter_mset_eq_conv conj_commute cong: conj_cong)
  also have "\<dots> = mset (?at xs @ ?at ys)" using os by (metis filter_append mset_filter)
  finally have at: "mset (?at os) = mset (?at xs @ ?at ys)" .
  have X: "case gm_get (changed eq (tbl a) src) k of None \<Rightarrow> ?at xs = []
    | Some e \<Rightarrow> \<exists>op v. ?at xs = [op] \<and> op_Op op = add_meth expl (tbl a) k \<and> val E op = Some v \<and> eq e v"
    by (rule made_at [OF xs]) (use wf wf_parts code in \<open>auto simp: changed_def distinct_map_filter\<close>)
  have Y: "case gm_get (missing src (tbl a)) k of None \<Rightarrow> ?at ys = []
    | Some e \<Rightarrow> \<exists>op v. ?at ys = [op] \<and> op_Op op = Op_DELETE \<and> val E op = Some v \<and> eq e v"
    by (rule made_at [OF ys]) (use wf wf_parts code in \<open>auto simp: missing_def distinct_map_filter\<close>)
  note parts = changed_get [OF wf(1)] missing_get [OF wf(2)]
  have nd: "add_meth expl (tbl a) k \<noteq> Op_DELETE" by (simp add: add_meth_def)
  note [simp] = filter_mset_cases [OF at]
  show "rel_option eq (gm_get src k) (gm_get (tbl (fold (program_op E) os a)) k)"
  proof (cases "gm_get src k")
    case None
    with X Y show ?thesis
      by (cases "gm_get (tbl a) k") (auto simp: parts program_fold upd_def)
  next
    case (Some e)
    with X Y nd show ?thesis
      by (cases "gm_get (tbl a) k") (auto simp: parts program_fold upd_def split: if_splits)
  qed
qed

end

subsection \<open>The five tables\<close>

lemmas program_defs = program_op_def put_value_def key_defs val_defs upd_def put_defs del_defs

interpretation diff_v4: table_diff Ipv4Entry v4_key v4_val v4Operation "(=)"
  by unfold_locales (auto simp: program_defs gomap numbered_builders
      split: option.splits AFTOperation_Entry.splits)

interpretation diff_v6: table_diff Ipv6Entry v6_key v6_val v6Operation "(=)"
  by unfold_locales (auto simp: program_defs gomap numbered_builders
      split: option.splits AFTOperation_Entry.splits)

interpretation diff_le: table_diff LabelEntry le_key le_val mplsOperation "(=)"
  by unfold_locales (auto simp: program_defs gomap numbered_builders
      split: option.splits AFTOperation_Entry.splits)

interpretation diff_nhg: table_diff aft_NextHopGroup nhg_key nhg_val nhgOperation nhg_DeepEqual
  by unfold_locales (auto simp: program_defs gomap numbered_builders
      split: option.splits AFTOperation_Entry.splits)

interpretation diff_nh: table_diff aft_NextHop nh_key nh_val nhOperation nh_DeepEqual
  by unfold_locales (auto simp: program_defs gomap numbered_builders
      split: option.splits AFTOperation_Entry.splits)

text \<open>The builders of the five tables build operations for their own table only.\<close>

definition all_keys :: "AFTOperation \<Rightarrow> bool list" where
  "all_keys op = [v4_key op \<noteq> None, v6_key op \<noteq> None, le_key op \<noteq> None, nhg_key op \<noteq> None, nh_key op \<noteq> None]"

lemma builder_keys:
  "v4Operation E m ni j e4 = Inr op \<Longrightarrow> all_keys op = [True, False, False, False, False]"
  "v6Operation E m ni j e6 = Inr op \<Longrightarrow> all_keys op = [False, True, False, False, False]"
  "mplsOperation E m ni j el = Inr op \<Longrightarrow> all_keys op = [False, False, True, False, False]"
  "nhgOperation E m ni j eg = Inr op \<Longrightarrow> all_keys op = [False, False, False, True, False]"
  "nhOperation E m ni j en = Inr op \<Longrightarrow> all_keys op = [False, False, False, False, True]"
  by (auto simp: all_keys_def key_defs v4Operation_def v6Operation_def mplsOperation_def nhgOperation_def
      nhOperation_def build_op_def split: sum.splits)

lemma made_keys:
  assumes "made mk ni meth items os" and "\<And>m j e op. mk m ni j e = Inr op \<Longrightarrow> all_keys op = ks"
  shows "\<forall>op\<in>set os. all_keys op = ks"
  using assms unfolding made_def by (induction items os rule: list_all2_induct) auto

lemma ni_made_filter:
  assumes "ni_made E expl ni s d o'"
  shows "filter (\<lambda>op. v4_key op \<noteq> None) (ni_list o') = a4 o' @ d4 o'"
    and "filter (\<lambda>op. v6_key op \<noteq> None) (ni_list o') = a6 o' @ d6 o'"
    and "filter (\<lambda>op. le_key op \<noteq> None) (ni_list o') = al o' @ dl o'"
    and "filter (\<lambda>op. nhg_key op \<noteq> None) (ni_list o') = ag o' @ dg o'"
    and "filter (\<lambda>op. nh_key op \<noteq> None) (ni_list o') = an o' @ dn o'"
proof -
  note K = made_keys [OF _ builder_keys(1)] made_keys [OF _ builder_keys(2)] made_keys [OF _ builder_keys(3)]
    made_keys [OF _ builder_keys(4)] made_keys [OF _ builder_keys(5)]
  from assms have "made (v4Operation E) ni (add_meth (expl AFT_IPV4) (Ipv4Entry d)) (changed (=) (Ipv4Entry d) (Ipv4Entry s)) (a4 o')"
    and "made (v6Operation E) ni (add_meth (expl AFT_IPV6) (Ipv6Entry d)) (changed (=) (Ipv6Entry d) (Ipv6Entry s)) (a6 o')"
    and "made (mplsOperation E) ni (add_meth (expl AFT_MPLS) (LabelEntry d)) (changed (=) (LabelEntry d) (LabelEntry s)) (al o')"
    and "made (nhgOperation E) ni (add_meth (expl AFT_NEXTHOP_GROUP) (aft_NextHopGroup d))
       (changed nhg_DeepEqual (aft_NextHopGroup d) (aft_NextHopGroup s)) (ag o')"
    and "made (nhOperation E) ni (add_meth (expl AFT_NEXTHOP) (aft_NextHop d)) (changed nh_DeepEqual (aft_NextHop d) (aft_NextHop s)) (an o')"
    and "made (v4Operation E) ni (\<lambda>_. Op_DELETE) (missing (Ipv4Entry s) (Ipv4Entry d)) (d4 o')"
    and "made (v6Operation E) ni (\<lambda>_. Op_DELETE) (missing (Ipv6Entry s) (Ipv6Entry d)) (d6 o')"
    and "made (mplsOperation E) ni (\<lambda>_. Op_DELETE) (missing (LabelEntry s) (LabelEntry d)) (dl o')"
    and "made (nhgOperation E) ni (\<lambda>_. Op_DELETE) (missing (aft_NextHopGroup s) (aft_NextHopGroup d)) (dg o')"
    and "made (nhOperation E) ni (\<lambda>_. Op_DELETE) (missing (aft_NextHop s) (aft_NextHop d)) (dn o')"
    by (simp_all add: ni_made_def)
  note K' = K(1) [OF this(1)] K(2) [OF this(2)] K(3) [OF this(3)] K(4) [OF this(4)] K(5) [OF this(5)]
    K(1) [OF this(6)] K(2) [OF this(7)] K(3) [OF this(8)] K(4) [OF this(9)] K(5) [OF this(10)]
  show "filter (\<lambda>op. v4_key op \<noteq> None) (ni_list o') = a4 o' @ d4 o'"
    using K' by (simp add: ni_list_def all_keys_def)
  show "filter (\<lambda>op. v6_key op \<noteq> None) (ni_list o') = a6 o' @ d6 o'"
    using K' by (simp add: ni_list_def all_keys_def)
  show "filter (\<lambda>op. le_key op \<noteq> None) (ni_list o') = al o' @ dl o'"
    using K' by (simp add: ni_list_def all_keys_def)
  show "filter (\<lambda>op. nhg_key op \<noteq> None) (ni_list o') = ag o' @ dg o'"
    using K' by (simp add: ni_list_def all_keys_def)
  show "filter (\<lambda>op. nh_key op \<noteq> None) (ni_list o') = an o' @ dn o'"
    using K' by (simp add: ni_list_def all_keys_def)
qed

end
