(* ===== verification/ProgramStep.thy ===== *)
theory ProgramStep
  imports ReconcileApply RibService
begin

text \<open>
  Programming one operation on the RIB, seen through its tables: when an operation is
  accepted, as a condition on the tables alone, and that the tables then change by
  \<open>program_op\<close> and nothing else does.
\<close>

subsection \<open>The tables of a RIB\<close>

text \<open>The tables for a network instance, empty ones for an unknown name.\<close>

definition tables_of :: "RIB \<Rightarrow> string \<Rightarrow> Afts" where
  "tables_of r n = (case gm_get (niRIB r) n of None \<Rightarrow> empty_Afts | Some h \<Rightarrow> afts h)"

lemma tables_of_alt: "tables_of r n = (case map_option afts (gm_get (niRIB r) n) of None \<Rightarrow> empty_Afts | Some a \<Rightarrow> a)"
  by (simp add: tables_of_def split: option.split)

lemma tables_of_known: "gm_get (niRIB r) n = Some h \<Longrightarrow> tables_of r n = afts h"
  by (simp add: tables_of_def)

lemma tables_of_cong: "niRIB r' = niRIB r \<Longrightarrow> tables_of r' = tables_of r"
  by (rule ext) (simp add: tables_of_def)

lemma tables_of_wf: "rib_wf r \<Longrightarrow> tables_wf (tables_of r n)"
  using rib_wf_holder [of r n] by (auto simp: tables_of_def holder_wf_def split: option.split)

lemma tables_of_commit:
  "gm_get (niRIB r) ni = Some rh \<Longrightarrow> tables_of (commit ni t es a rh r) = (tables_of r)(ni := a)"
  by (rule ext) (simp add: tables_of_def commit_def gomap)

lemma tables_of_on_ni: "(\<And>h. afts (f h) = afts h) \<Longrightarrow> tables_of (on_ni ni f r) = tables_of r"
  by (rule ext) (auto simp: tables_of_def gomap split: option.split)

lemma tables_of_counters [simp]:
  "tables_of (inc_nhg x r) = tables_of r" "tables_of (dec_nhg x r) = tables_of r"
  "tables_of (inc_nh x r) = tables_of r" "tables_of (dec_nh x r) = tables_of r"
  by (simp_all add: inc_nhg_def dec_nhg_def inc_nh_def dec_nh_def tables_of_on_ni)

lemma tables_of_fold [simp]:
  "tables_of (fold inc_nh xs r) = tables_of r" "tables_of (fold dec_nh xs r) = tables_of r"
  by (induction xs arbitrary: r) simp_all

lemma tables_of_references [simp]: "tables_of (handleReferences ni orig new r) = tables_of r"
  by (auto simp: handleReferences_def tables_of_on_ni Let_def split: prod.split option.split sum.split)

lemma known_tables: "known_ni r n \<Longrightarrow> \<exists>h. gm_get (niRIB r) n = Some h \<and> tables_of r n = afts h"
  by (auto simp: known_ni_def tables_of_def)

text \<open>Groups, next-hops and references, as conditions on the tables.\<close>

definition group_in :: "(string \<Rightarrow> Afts) \<Rightarrow> string \<times> u64 \<Rightarrow> bool" where
  "group_in T x \<longleftrightarrow> gm_get (aft_NextHopGroup (T (fst x))) (snd x) \<noteq> None"

definition hop_in :: "(string \<Rightarrow> Afts) \<Rightarrow> string \<times> u64 \<Rightarrow> bool" where
  "hop_in T x \<longleftrightarrow> gm_get (aft_NextHop (T (fst x))) (snd x) \<noteq> None"

lemma has_in: "has_nhg r x = group_in (tables_of r) x" "has_nh r x = hop_in (tables_of r) x"
  by (simp_all add: has_nhg_def has_nh_def group_in_def hop_in_def tables_of_def NetworkInstanceRIB_def
      nhgExists_def nhExists_def split: option.split)

lemma gm_bex: "gm_wf m \<Longrightarrow> (\<exists>p\<in>set m. P (fst p) (snd p)) \<longleftrightarrow> (\<exists>n h. gm_get m n = Some h \<and> P n h)"
  by (force simp: gm_get_Some_iff)

lemma nhg_refs_tables:
  assumes "rib_wf r"
  shows "x \<in># nhg_refs r \<longleftrightarrow> (\<exists>n y. y \<in># raw_refs (tables_of r n) \<and> resolve_ref n y = x)"
proof -
  have "x \<in># nhg_refs r \<longleftrightarrow> (\<exists>p\<in>set (niRIB r). x \<in> resolve_ref (fst p) ` set_mset (raw_refs (afts (snd p))))"
    by (simp add: nhg_refs_def in_sum_list_mset)
  also have "\<dots> \<longleftrightarrow> (\<exists>n h. gm_get (niRIB r) n = Some h \<and> x \<in> resolve_ref n ` set_mset (raw_refs (afts h)))"
    by (rule gm_bex) (use assms in \<open>simp add: rib_wf_def\<close>)
  also have "\<dots> \<longleftrightarrow> (\<exists>n y. y \<in># raw_refs (tables_of r n) \<and> resolve_ref n y = x)"
    by (fastforce simp: tables_of_def raw_refs_def table_refs_def split: option.splits)
  finally show ?thesis .
qed

lemma nh_refs_tables:
  assumes "rib_wf r"
  shows "(n, i) \<in># nh_refs r \<longleftrightarrow> i \<in># raw_nh_refs (tables_of r n)"
proof -
  have "(n, i) \<in># nh_refs r \<longleftrightarrow> (\<exists>p\<in>set (niRIB r). (n, i) \<in> Pair (fst p) ` set_mset (raw_nh_refs (afts (snd p))))"
    by (simp add: nh_refs_def in_sum_list_mset)
  also have "\<dots> \<longleftrightarrow> (\<exists>m h. gm_get (niRIB r) m = Some h \<and> (n, i) \<in> Pair m ` set_mset (raw_nh_refs (afts h)))"
    by (rule gm_bex) (use assms in \<open>simp add: rib_wf_def\<close>)
  also have "\<dots> \<longleftrightarrow> i \<in># raw_nh_refs (tables_of r n)"
    by (auto simp: tables_of_def raw_nh_refs_def split: option.splits)
  finally show ?thesis .
qed

subsection \<open>Entries that refer to a next-hop-group\<close>

context referring_table begin

lemma tables_ready:
  assumes at: "at_ni E r ni rh" and c: "cand E e = Inr (Some (single (key e) v))" and v: "of_pb e v"
    and add: "op_Op op = Op_ADD" and nz: "snd (ref v) \<noteq> 0" and has: "has_nhg r (resolve_ref ni (ref v))"
  shows "ready_at E r rh op e v"
  using at_niD [OF at] nhgResolvable_iff [of r ni rh "ref v"] assms
  by (simp add: ready_def run_check_Add resolve_single)

lemma install_tables:
  assumes at: "at_ni E r ni rh" and op: "op_wf op" "op_Entry op = Some (wrap (Some e))" and rd: "ready_at E r rh op e v"
  shows "\<exists>c r'. installEntry E ni op rh r = (Installed c, r') \<and>
    tables_of r' = (tables_of r)(ni := store (key e) v (tables_of r ni))"
  using install_ready [OF assms] at_niD(3) [OF at] by (simp add: tables_of_commit tables_of_known)

lemma delete_tables:
  assumes at: "at_ni E r ni rh" and inv: "rib_inv r" and small: "n_rib r < 2 ^ 64"
    and op: "op_Entry op = Some (wrap (Some e))" and d: "deletable e"
    and chk: "\<And>k v. canDelete r ni (Some (single k v)) = Inr True"
  shows "\<exists>r'. DeleteEntry E ni (Some op) r = (([okResult op], [], None), r') \<and>
    tables_of r' = (tables_of r)(ni := remove (key e) (tables_of r ni))"
proof -
  note D = at_niD [OF at]
  have valid: "IsValid rh" using D by (simp add: IsValid_def holder_wf_def)
  define c where "c = commit ni Delete [changed (gm_get (tbl (afts rh)) (key e))] (remove (key e) (afts rh)) rh r"
  have del: "delete (holder_check r rh) (Some e) rh = (Inr (True, gm_get (tbl (afts rh)) (key e)),
      call_hook Delete [changed (gm_get (tbl (afts rh)) (key e))] (set_afts (remove (key e) (afts rh)) rh))"
    using delete_checked [OF D(5) d] by (simp add: run_check_Add [OF D(6)] chk)
  note law = deletes [OF D(3) valid op]
  have t: "tables_of c = (tables_of r)(ni := remove (key e) (tables_of r ni))"
    using D(3) by (simp add: c_def tables_of_commit tables_of_known)
  show ?thesis
  proof (cases "gm_get (tbl (afts rh)) (key e)")
    case None
    then have "DeleteEntry E ni (Some op) r = (deleteOutcome op (Inr (True, gm_get (tbl (afts rh)) (key e))), c)"
      by (simp add: law del c_def commit_def)
    with t show ?thesis by (simp add: deleteOutcome_def)
  next
    case (Some o')
    note u = delete_removed [OF at inv small Some c_def]
    have eq: "DeleteEntry E ni (Some op) r = finishDelete E ni op (ref o') aft (hook o') c"
      using Some by (simp add: law del c_def commit_def)
    show ?thesis
    proof (intro exI conjI)
      show "DeleteEntry E ni (Some op) r = (([okResult op], [], None), snd (finishDelete E ni op (ref o') aft (hook o') c))"
        using finishDelete_known(1) [OF D(1) u(2)] unfolding eq by (simp add: prod_eq_iff)
      have "tables_of (snd (finishDelete E ni op (ref o') aft (hook o') c)) = tables_of (dec_nhg (resolve_ref ni (ref o')) c)"
        by (rule tables_of_cong, rule finishDelete_known(2) [OF D(1) u(2)])
      then show "tables_of (snd (finishDelete E ni op (ref o') aft (hook o') c)) = (tables_of r)(ni := remove (key e) (tables_of r ni))"
        by (simp add: t)
    qed
  qed
qed

end

subsection \<open>Next-hop-groups and next-hops\<close>

lemma install_nhg_tables:
  assumes at: "at_ni E r ni rh" and op: "op_Entry op = Some (AFTOp_NextHopGroup (Some e))" "op_Op op = Op_ADD"
    and c: "candidate E (empty_Afts_pb\<lparr>pb_NextHopGroup := [e]\<rparr>) = Inr (Some (single_nhg (nhgk_Id e) v))" and v: "nhg_of e v"
    and nz: "nhgk_Id e \<noteq> 0" "nhg_NextHop v \<noteq> []" and has: "\<forall>p\<in>set (nhg_NextHop v). fst p \<noteq> 0 \<and> has_nh r (ni, fst p)"
  shows "\<exists>c r'. installEntry E ni op rh r = (Installed c, r') \<and>
    tables_of r' = (tables_of r)(ni := put_nhg (nhgk_Id e) v (tables_of r ni))"
proof -
  note D = at_niD [OF at]
  have g: "nhg_Id v = Some (nhgk_Id e)" "group_wf v" using v by (simp_all add: nhg_of_def)
  have "nhs_resolvable rh ni (uval (nhg_Id v)) (nhg_NextHop v) = Inr True"
    using nhs_resolvable_iff [OF D(3)] has g by (simp add: group_wf_def)
  then have "nhg_ready E r rh op e v"
    using D c v g nz op(2) by (simp add: nhg.ready_def run_check_Add canResolve_nhg)
  from install_nhg_ready [OF at op(1) this] show ?thesis
    using D(3) by (simp add: tables_of_commit tables_of_known)
qed

lemma install_nh_tables:
  assumes at: "at_ni E r ni rh" and op: "op_Entry op = Some (AFTOp_NextHop (Some e))" "op_Op op = Op_ADD"
    and c: "candidate E (empty_Afts_pb\<lparr>pb_NextHop := [e]\<rparr>) = Inr (Some (single_nh (nhk_Index e) v))" and v: "nh_of e v"
    and nz: "nhk_Index e \<noteq> 0"
  shows "\<exists>c r'. installEntry E ni op rh r = (Installed c, r') \<and>
    tables_of r' = (tables_of r)(ni := put_nh (nhk_Index e) v (tables_of r ni))"
proof -
  note D = at_niD [OF at]
  have "nh_ready E r rh op e v"
    using D c v nz op(2) by (simp add: nh.ready_def run_check_Add canResolve_nhg nh_of_def)
  from install_nh_ready [OF at op(1) this] show ?thesis
    using D(3) by (simp add: tables_of_commit tables_of_known)
qed

lemma delete_nhg_tables:
  assumes at: "at_ni E r ni rh" and inv: "rib_inv r" and small: "n_rib r < 2 ^ 64"
    and op: "op_Entry op = Some (AFTOp_NextHopGroup (Some e))" and nz: "nhgk_Id e \<noteq> 0"
    and no: "(ni, nhgk_Id e) \<notin># nhg_refs r"
  shows "\<exists>r'. DeleteEntry E ni (Some op) r = (([okResult op], [], None), r') \<and>
    tables_of r' = (tables_of r)(ni := del_nhg (nhgk_Id e) (tables_of r ni))"
proof -
  note D = at_niD [OF at]
  have valid: "IsValid rh" using D by (simp add: IsValid_def holder_wf_def)
  have "canDelete r ni (Some (single_nhg (nhgk_Id e) g)) = Inr True" for g
    using D nz not_in_iff [THEN iffD1, OF no] inv by (simp add: canDelete_nhg rib_inv_def counts_ok_def tracks_def)
  then have del: "DeleteNextHopGroup (holder_check r rh) (Some e) rh = (Inr (True, gm_get (aft_NextHopGroup (afts rh)) (nhgk_Id e)),
      call_hook Delete [Changed_NextHopGroup (gm_get (aft_NextHopGroup (afts rh)) (nhgk_Id e))] (set_afts (del_nhg (nhgk_Id e) (afts rh)) rh))"
    using nhg.delete_checked [OF D(5) nz] by (simp add: run_check_Add [OF D(6)])
  show ?thesis
  proof (cases "gm_get (aft_NextHopGroup (afts rh)) (nhgk_Id e)")
    case None
    then show ?thesis
      using op D(3) valid del tables_of_commit [OF D(3)]
      by (simp add: DeleteEntry_def NetworkInstanceRIB_def Let_def commit_def tables_of_known deleteOutcome_def)
  next
    case (Some g)
    then show ?thesis
      using op D(3) valid del tables_of_commit [OF D(3)]
      by (simp add: DeleteEntry_def NetworkInstanceRIB_def Let_def fold_dec_keys commit_def tables_of_known)
  qed
qed

lemma delete_nh_tables:
  assumes at: "at_ni E r ni rh" and inv: "rib_inv r" and small: "n_rib r < 2 ^ 64"
    and op: "op_Entry op = Some (AFTOp_NextHop (Some e))" and nz: "nhk_Index e \<noteq> 0"
    and no: "(ni, nhk_Index e) \<notin># nh_refs r"
  shows "\<exists>r'. DeleteEntry E ni (Some op) r = (([okResult op], [], None), r') \<and>
    tables_of r' = (tables_of r)(ni := del_nh (nhk_Index e) (tables_of r ni))"
proof -
  note D = at_niD [OF at]
  have valid: "IsValid rh" using D by (simp add: IsValid_def holder_wf_def)
  have "canDelete r ni (Some (single_nh (nhk_Index e) g)) = Inr True" for g
    using D nz not_in_iff [THEN iffD1, OF no] inv by (simp add: canDelete_nhg rib_inv_def counts_ok_def tracks_def)
  then have "DeleteNextHop (holder_check r rh) (Some e) rh = (Inr (True, gm_get (aft_NextHop (afts rh)) (nhk_Index e)),
      call_hook Delete [Changed_NextHop (gm_get (aft_NextHop (afts rh)) (nhk_Index e))] (set_afts (del_nh (nhk_Index e) (afts rh)) rh))"
    using nh.delete_checked [OF D(5) nz] by (simp add: run_check_Add [OF D(6)])
  then show ?thesis
    using op D(3) valid tables_of_commit [OF D(3)]
    by (simp add: DeleteEntry_def NetworkInstanceRIB_def Let_def commit_def tables_of_known deleteOutcome_def)
qed

end
