(* ===== verification/ProgramRun.thy ===== *)
theory ProgramRun
  imports ProgramStep
begin

text \<open>
  Programming a list of operations, one after the other, on a RIB that nothing waits in:
  if every operation is acceptable for the tables that the ones before it leave, all of
  them are acknowledged and the tables are those that \<open>program_op\<close> computes.
\<close>

subsection \<open>Acceptable operations\<close>

lemma value_candidate:
  assumes "env_laws E"
  shows "v4_value E e4 = Some x4 \<Longrightarrow>
      candidate E (empty_Afts_pb\<lparr>pb_Ipv4Entry := [e4]\<rparr>) = Inr (Some (single_v4 (v4k_Prefix e4) x4)) \<and> v4_of e4 x4"
    and "v6_value E e6 = Some x6 \<Longrightarrow>
      candidate E (empty_Afts_pb\<lparr>pb_Ipv6Entry := [e6]\<rparr>) = Inr (Some (single_v6 (v6k_Prefix e6) x6)) \<and> v6_of e6 x6"
    and "numeric_label el \<Longrightarrow> le_value E el = Some xl \<Longrightarrow>
      candidate E (empty_Afts_pb\<lparr>pb_LabelEntry := [el]\<rparr>) = Inr (Some (single_le (label_of el) xl)) \<and> le_of el xl"
    and "nhg_value E eg = Some xg \<Longrightarrow>
      candidate E (empty_Afts_pb\<lparr>pb_NextHopGroup := [eg]\<rparr>) = Inr (Some (single_nhg (nhgk_Id eg) xg)) \<and> nhg_of eg xg"
    and "nh_value E en = Some xn \<Longrightarrow>
      candidate E (empty_Afts_pb\<lparr>pb_NextHop := [en]\<rparr>) = Inr (Some (single_nh (nhk_Index en) xn)) \<and> nh_of en xn"
  using candidate_lawsD [OF assms]
  by (fastforce simp: value_defs single_defs split: sum.splits option.splits)+

definition refers_ok :: "(string \<Rightarrow> Afts) \<Rightarrow> string \<Rightarrow> nhg_ref \<Rightarrow> bool" where
  "refers_ok T ni ref \<longleftrightarrow> snd ref \<noteq> 0 \<and> group_in T (resolve_ref ni ref)"

definition add_ok :: "rib_env \<Rightarrow> (string \<Rightarrow> Afts) \<Rightarrow> string \<Rightarrow> AFTOperation_Entry \<Rightarrow> bool" where
  "add_ok E T ni t =
     (case t of
        AFTOp_Ipv4 (Some e) \<Rightarrow> (case v4_value E e of None \<Rightarrow> False | Some v \<Rightarrow> refers_ok T ni (v4_ref v))
      | AFTOp_Ipv6 (Some e) \<Rightarrow> (case v6_value E e of None \<Rightarrow> False | Some v \<Rightarrow> refers_ok T ni (v6_ref v))
      | AFTOp_Mpls (Some e) \<Rightarrow> (case le_value E e of None \<Rightarrow> False | Some v \<Rightarrow> refers_ok T ni (le_ref v))
      | AFTOp_NextHopGroup (Some e) \<Rightarrow>
          (case nhg_value E e of None \<Rightarrow> False
           | Some v \<Rightarrow> nhgk_Id e \<noteq> 0 \<and> nhg_NextHop v \<noteq> [] \<and>
               (\<forall>p\<in>set (nhg_NextHop v). fst p \<noteq> 0 \<and> hop_in T (ni, fst p)))
      | AFTOp_NextHop (Some e) \<Rightarrow> nh_value E e \<noteq> None \<and> nhk_Index e \<noteq> 0
      | _ \<Rightarrow> False)"

definition delete_ok :: "(string \<Rightarrow> Afts) \<Rightarrow> string \<Rightarrow> AFTOperation_Entry \<Rightarrow> bool" where
  "delete_ok T ni t =
     (case t of
        AFTOp_Ipv4 (Some e) \<Rightarrow> True
      | AFTOp_Ipv6 (Some e) \<Rightarrow> True
      | AFTOp_Mpls (Some e) \<Rightarrow> True
      | AFTOp_NextHopGroup (Some e) \<Rightarrow> nhgk_Id e \<noteq> 0 \<and> (\<forall>n. \<forall>y\<in>#raw_refs (T n). resolve_ref n y \<noteq> (ni, nhgk_Id e))
      | AFTOp_NextHop (Some e) \<Rightarrow> nhk_Index e \<noteq> 0 \<and> nhk_Index e \<notin># raw_nh_refs (T ni)
      | _ \<Rightarrow> False)"

definition op_ok :: "rib_env \<Rightarrow> (string \<Rightarrow> Afts) \<Rightarrow> AFTOperation \<Rightarrow> bool" where
  "op_ok E T op \<longleftrightarrow> op_wf op \<and> (\<exists>t. op_Entry op = Some t \<and>
     (op_Op op = Op_ADD \<and> add_ok E T (op_NetworkInstance op) t \<or>
      op_Op op = Op_DELETE \<and> delete_ok T (op_NetworkInstance op) t))"

lemma install_ok:
  assumes at: "at_ni E r ni rh" and op: "op_wf op" "op_Entry op = Some t" "op_Op op = Op_ADD" "op_NetworkInstance op = ni"
    and ok: "add_ok E (tables_of r) ni t"
  shows "\<exists>c r'. installEntry E ni op rh r = (Installed c, r') \<and>
    tables_of r' = (tables_of r)(ni := program_op E op (tables_of r ni))"
proof -
  note C = value_candidate [OF at_niD(1) [OF at]]
  have nd: "op_Op op \<noteq> Op_DELETE" using op(3) by simp
  show ?thesis
  proof (cases t)
    case (AFTOp_Ipv4 eo)
    with ok obtain e v where e: "eo = Some e" and v: "v4_value E e = Some v" and h: "refers_ok (tables_of r) ni (v4_ref v)"
      by (auto simp: add_ok_def split: option.splits)
    note c = C(1) [OF v]
    have "ref_ipv4.ready_at E r rh op e v"
      using ref_ipv4.tables_ready [OF at _ _ op(3)] c h by (simp add: refers_ok_def has_in)
    from ref_ipv4.install_tables [OF at op(1) op(2) [unfolded AFTOp_Ipv4 e] this] show ?thesis
      using op(2) nd AFTOp_Ipv4 e v by (simp add: program_op_def put_value_def)
  next
    case (AFTOp_Ipv6 eo)
    with ok obtain e v where e: "eo = Some e" and v: "v6_value E e = Some v" and h: "refers_ok (tables_of r) ni (v6_ref v)"
      by (auto simp: add_ok_def split: option.splits)
    note c = C(2) [OF v]
    have "ref_ipv6.ready_at E r rh op e v"
      using ref_ipv6.tables_ready [OF at _ _ op(3)] c h by (simp add: refers_ok_def has_in)
    from ref_ipv6.install_tables [OF at op(1) op(2) [unfolded AFTOp_Ipv6 e] this] show ?thesis
      using op(2) nd AFTOp_Ipv6 e v by (simp add: program_op_def put_value_def)
  next
    case (AFTOp_Mpls eo)
    with ok obtain e v where e: "eo = Some e" and v: "le_value E e = Some v" and h: "refers_ok (tables_of r) ni (le_ref v)"
      by (auto simp: add_ok_def split: option.splits)
    have "numeric_label e" using op AFTOp_Mpls e by (simp add: op_wf_def)
    note c = C(3) [OF this v]
    have "ref_mpls.ready_at E r rh op e v"
      using ref_mpls.tables_ready [OF at _ _ op(3)] c h by (simp add: refers_ok_def has_in)
    from ref_mpls.install_tables [OF at op(1) op(2) [unfolded AFTOp_Mpls e] this] show ?thesis
      using op(2) nd AFTOp_Mpls e v by (simp add: program_op_def put_value_def)
  next
    case (AFTOp_NextHopGroup eo)
    with ok obtain e v where e: "eo = Some e" and v: "nhg_value E e = Some v"
      and h: "nhgk_Id e \<noteq> 0" "nhg_NextHop v \<noteq> []" "\<forall>p\<in>set (nhg_NextHop v). fst p \<noteq> 0 \<and> hop_in (tables_of r) (ni, fst p)"
      by (auto simp: add_ok_def split: option.splits)
    note c = C(4) [OF v]
    from install_nhg_tables [OF at op(2) [unfolded AFTOp_NextHopGroup e] op(3)] c h show ?thesis
      using op(2) nd AFTOp_NextHopGroup e v by (simp add: program_op_def put_value_def has_in)
  next
    case (AFTOp_NextHop eo)
    with ok obtain e v where e: "eo = Some e" and v: "nh_value E e = Some v" and h: "nhk_Index e \<noteq> 0"
      by (auto simp: add_ok_def split: option.splits)
    note c = C(5) [OF v]
    from install_nh_tables [OF at op(2) [unfolded AFTOp_NextHop e] op(3)] c h show ?thesis
      using op(2) nd AFTOp_NextHop e v by (simp add: program_op_def put_value_def)
  qed (use ok in \<open>simp add: add_ok_def\<close>)
qed

lemma delete_ok_step:
  assumes at: "at_ni E r ni rh" and inv: "rib_inv r" and small: "n_rib r < 2 ^ 64"
    and op: "op_wf op" "op_Entry op = Some t" "op_Op op = Op_DELETE" "op_NetworkInstance op = ni"
    and ok: "delete_ok (tables_of r) ni t"
  shows "\<exists>r'. DeleteEntry E ni (Some op) r = (([okResult op], [], None), r') \<and>
    tables_of r' = (tables_of r)(ni := program_op E op (tables_of r ni))"
proof -
  note D = at_niD [OF at]
  show ?thesis
  proof (cases t)
    case (AFTOp_Ipv4 eo)
    with ok obtain e where e: "eo = Some e" by (auto simp: delete_ok_def split: option.splits)
    from ref_ipv4.delete_tables [OF at inv small op(2) [unfolded AFTOp_Ipv4 e]] show ?thesis
      using op AFTOp_Ipv4 e canDelete_top(1) [OF D(3,4)] by (simp add: program_op_def)
  next
    case (AFTOp_Ipv6 eo)
    with ok obtain e where e: "eo = Some e" by (auto simp: delete_ok_def split: option.splits)
    from ref_ipv6.delete_tables [OF at inv small op(2) [unfolded AFTOp_Ipv6 e]] show ?thesis
      using op AFTOp_Ipv6 e canDelete_top(2) [OF D(3,4)] by (simp add: program_op_def)
  next
    case (AFTOp_Mpls eo)
    with ok obtain e where e: "eo = Some e" by (auto simp: delete_ok_def split: option.splits)
    have "numeric_label e" using op AFTOp_Mpls e by (simp add: op_wf_def)
    with ref_mpls.delete_tables [OF at inv small op(2) [unfolded AFTOp_Mpls e]] show ?thesis
      using op AFTOp_Mpls e canDelete_top(3) [OF D(3,4)] by (simp add: program_op_def)
  next
    case (AFTOp_NextHopGroup eo)
    with ok obtain e where e: "eo = Some e" and h: "nhgk_Id e \<noteq> 0"
      "\<forall>n. \<forall>y\<in>#raw_refs (tables_of r n). resolve_ref n y \<noteq> (ni, nhgk_Id e)"
      by (auto simp: delete_ok_def split: option.splits)
    have "(ni, nhgk_Id e) \<notin># nhg_refs r" using h(2) by (auto simp: nhg_refs_tables [OF D(2)])
    from delete_nhg_tables [OF at inv small op(2) [unfolded AFTOp_NextHopGroup e] h(1) this] show ?thesis
      using op AFTOp_NextHopGroup e by (simp add: program_op_def)
  next
    case (AFTOp_NextHop eo)
    with ok obtain e where e: "eo = Some e" and h: "nhk_Index e \<noteq> 0" "nhk_Index e \<notin># raw_nh_refs (tables_of r ni)"
      by (auto simp: delete_ok_def split: option.splits)
    have "(ni, nhk_Index e) \<notin># nh_refs r" using h(2) by (simp add: nh_refs_tables [OF D(2)])
    from delete_nh_tables [OF at inv small op(2) [unfolded AFTOp_NextHop e] h(1) this] show ?thesis
      using op AFTOp_NextHop e by (simp add: program_op_def)
  qed (use ok in \<open>simp add: delete_ok_def\<close>)
qed

subsection \<open>One call\<close>

text \<open>The call that an operation makes: \<open>DeleteEntry\<close> for a delete, \<open>AddEntry\<close> otherwise.\<close>

definition program_one :: "rib_env \<Rightarrow> schedule \<Rightarrow> AFTOperation \<Rightarrow> RIB \<Rightarrow> ((OpResult list \<times> OpResult list) \<times> RIB) option" where
  "program_one E sched op r =
     (if op_Op op = Op_DELETE then
        (case DeleteEntry E (op_NetworkInstance op) (Some op) r of
           ((oks, fails, None), r') \<Rightarrow> Some ((oks, fails), r')
         | ((oks, fails, Some _), r') \<Rightarrow> None)
      else
        (case AddEntry E sched (op_NetworkInstance op) op r of
           Some (Inr res, r') \<Rightarrow> Some (res, r')
         | _ \<Rightarrow> None))"

lemma AddEntry_installs:
  assumes env: "env_laws E" and fair: "fair sched" and empty: "pendingEntries r = []"
    and at: "at_ni E r ni rh" and inst: "installEntry E ni op rh r = (Installed c, r1)"
  shows "\<exists>r'. AddEntry E sched ni op r = Some (Inr ([okResult op], []), r') \<and> niRIB r' = niRIB r1 \<and> pendingEntries r' = []"
proof -
  note D = at_niD [OF at] and valid = at_ni_valid [OF at]
  have p1: "pendingEntries (rmPending i r1) = []" for i
    using installEntry_frame [OF D(3), of E op rh] inst empty by (simp add: rmPending_def)
  have s: "sched ids [] = []" for ids using fair [unfolded fair_def, rule_format, of ids "[]"] by simp
  let ?s = "rmPending (op_Id op) r1"
  have n1: "niRIB ?s = niRIB r1" by (simp add: rmPending_def)
  show ?thesis
  proof (cases c)
    case None
    then show ?thesis
      using D(3,4) valid inst p1 s n1 empty
      by (simp add: AddEntry_def NetworkInstanceRIB_def numeral_2_eq_2 getPending_def)
  next
    case (Some call)
    obtain a k where call: "call = (a, k)" by (cases call)
    obtain e r2 where h: "callResolvedEntryHook E Add ni a k ?s = (e, r2)" by (rule prod.exhaust)
    have "e = None" "niRIB r2 = niRIB r1" "pendingEntries r2 = []"
      using callResolvedEntryHook_ok(1-3) [OF env, of Add ni a k ?s] h p1 n1 by simp_all
    then show ?thesis
      using D(3,4) valid inst s empty h Some call
      by (simp add: AddEntry_def NetworkInstanceRIB_def numeral_2_eq_2 getPending_def)
  qed
qed

lemma delete_entry_inv:
  assumes at: "at_ni E r ni rh" and inv: "rib_inv r" and small: "Suc (n_rib r) < 2 ^ 64"
    and op: "op_Entry op = Some t" "delete_ok T ni t"
  shows "rib_inv (snd (DeleteEntry E ni (Some op) r)) \<and> n_rib (snd (DeleteEntry E ni (Some op) r)) \<le> Suc (n_rib r)"
proof -
  have small': "n_rib r < 2 ^ 64" using small by simp
  note I = ref_ipv4.delete_inv [OF at _ inv small'] ref_ipv6.delete_inv [OF at _ inv small']
    ref_mpls.delete_inv [OF at _ inv small'] delete_nhg_inv [OF at _ inv small] delete_nh_inv [OF at _ inv small]
  show ?thesis using op I by (cases t) (auto simp: delete_ok_def intro: le_SucI)
qed

text \<open>The states between two calls.\<close>

definition calm :: "nat \<Rightarrow> RIB \<Rightarrow> bool" where
  "calm n r \<longleftrightarrow> rib_inv r \<and> pendingEntries r = [] \<and> n_rib r + n < 2 ^ 64"

lemma program_step:
  assumes env: "env_laws E" and fair: "fair sched" and calm: "calm (Suc n) r"
    and ni: "op_NetworkInstance op = ni" "ni \<noteq> []" "known_ni r ni" and ok: "op_ok E (tables_of r) op"
  shows "\<exists>r'. program_one E sched op r = Some (([okResult op], []), r') \<and> calm n r' \<and>
    (\<forall>m. known_ni r' m = known_ni r m) \<and> tables_of r' = (tables_of r)(ni := program_op E op (tables_of r ni))"
proof -
  obtain t where op: "op_wf op" "op_Entry op = Some t" and
    t: "op_Op op = Op_ADD \<and> add_ok E (tables_of r) ni t \<or> op_Op op = Op_DELETE \<and> delete_ok (tables_of r) ni t"
    using ok ni(1) by (auto simp: op_ok_def)
  obtain rh where rh: "gm_get (niRIB r) ni = Some rh" using ni(3) by (auto simp: known_ni_def)
  have inv: "rib_inv r" and small: "Suc (n_rib r) < 2 ^ 64" "n_rib r < 2 ^ 64" and p: "pendingEntries r = []"
    using calm by (simp_all add: calm_def)
  have at: "at_ni E r ni rh" using env inv rh ni(2) by (simp add: at_ni_def rib_inv_def)
  from t show ?thesis
  proof (elim disjE conjE)
    assume a: "op_Op op = Op_ADD" "add_ok E (tables_of r) ni t"
    obtain c r1 where i: "installEntry E ni op rh r = (Installed c, r1)"
      and T: "tables_of r1 = (tables_of r)(ni := program_op E op (tables_of r ni))"
      using install_ok [OF at op a(1) ni(1) a(2)] by blast
    obtain r' where r': "AddEntry E sched ni op r = Some (Inr ([okResult op], []), r')" "niRIB r' = niRIB r1" "pendingEntries r' = []"
      using AddEntry_installs [OF env fair p at i] by blast
    have "rib_inv r' \<and> n_rib r' \<le> Suc (n_rib r)"
      using installEntry_inv [OF at op(1) inv small(1)] nis_cong [OF r'(2)] i by simp
    then have "calm n r'" using calm r'(3) by (simp add: calm_def)
    moreover have "known_ni r' m = known_ni r m" for m
      using installEntry_frame [OF rh, of E op rh m] i r'(2) by (simp add: known_ni_def)
    moreover have "tables_of r' = (tables_of r)(ni := program_op E op (tables_of r ni))"
      using T tables_of_cong [OF r'(2)] by simp
    ultimately show ?thesis using r'(1) a(1) by (intro exI [of _ r']) (simp add: program_one_def ni(1))
  next
    assume d: "op_Op op = Op_DELETE" "delete_ok (tables_of r) ni t"
    obtain r' where r': "DeleteEntry E ni (Some op) r = (([okResult op], [], None), r')"
      and T: "tables_of r' = (tables_of r)(ni := program_op E op (tables_of r ni))"
      using delete_ok_step [OF at inv small(2) op d(1) ni(1) d(2)] by blast
    have "rib_inv r' \<and> n_rib r' \<le> Suc (n_rib r)"
      using delete_entry_inv [OF at inv small(1) op(2) d(2)] r' by simp
    moreover have s: "shrinks r' r" using DeleteEntry_shrinks [of E ni "Some op" r] r' by simp
    ultimately have "calm n r'" using calm by (simp add: calm_def shrinks_def)
    moreover have "known_ni r' m = known_ni r m" for m using s by (simp add: shrinks_def)
    ultimately show ?thesis using T r' d(1) by (intro exI [of _ r']) (simp add: program_one_def ni(1))
  qed
qed

subsection \<open>Lists of operations\<close>

fun program_ops :: "rib_env \<Rightarrow> schedule \<Rightarrow> AFTOperation list \<Rightarrow> RIB \<Rightarrow> ((OpResult list \<times> OpResult list) \<times> RIB) option" where
  "program_ops E sched [] r = Some (([], []), r)"
| "program_ops E sched (op # ops) r =
     (case program_one E sched op r of
        None \<Rightarrow> None
      | Some ((oks, fails), r') \<Rightarrow>
          (case program_ops E sched ops r' of
             None \<Rightarrow> None
           | Some ((oks', fails'), r'') \<Rightarrow> Some ((oks @ oks', fails @ fails'), r'')))"

text \<open>The same on tables alone.\<close>

definition step_tables :: "rib_env \<Rightarrow> AFTOperation \<Rightarrow> (string \<Rightarrow> Afts) \<Rightarrow> string \<Rightarrow> Afts" where
  "step_tables E op T = T(op_NetworkInstance op := program_op E op (T (op_NetworkInstance op)))"

definition run_tables :: "rib_env \<Rightarrow> AFTOperation list \<Rightarrow> (string \<Rightarrow> Afts) \<Rightarrow> string \<Rightarrow> Afts" where
  "run_tables E ops T = fold (step_tables E) ops T"

fun run_ok :: "rib_env \<Rightarrow> AFTOperation list \<Rightarrow> (string \<Rightarrow> Afts) \<Rightarrow> bool" where
  "run_ok E [] T = True"
| "run_ok E (op # ops) T = (op_ok E T op \<and> run_ok E ops (step_tables E op T))"

lemma run_tables_append: "run_tables E (xs @ ys) T = run_tables E ys (run_tables E xs T)"
  by (simp add: run_tables_def)

lemma run_ok_append: "run_ok E (xs @ ys) T \<longleftrightarrow> run_ok E xs T \<and> run_ok E ys (run_tables E xs T)"
  by (induction xs arbitrary: T) (simp_all add: run_tables_def)

lemma run_tables_at: "run_tables E ops T n = fold (program_op E) (filter (\<lambda>op. op_NetworkInstance op = n) ops) (T n)"
  by (induction ops arbitrary: T) (simp_all add: run_tables_def step_tables_def)

text \<open>A condition that every operation of a list preserves, and that makes each acceptable.\<close>

lemma run_ok_inv:
  assumes "P T" and "\<And>T op. op \<in> set ops \<Longrightarrow> P T \<Longrightarrow> op_ok E T op \<and> P (step_tables E op T)"
  shows "run_ok E ops T \<and> P (run_tables E ops T)"
  using assms
proof (induction ops arbitrary: T)
  case Nil
  then show ?case by (simp add: run_tables_def)
next
  case (Cons op ops)
  have "run_ok E ops (step_tables E op T) \<and> P (run_tables E ops (step_tables E op T))"
    by (rule Cons.IH) (use Cons.prems in \<open>auto\<close>)
  then show ?case using Cons.prems by (simp add: run_tables_def)
qed

lemma program_run:
  assumes env: "env_laws E" and fair: "fair sched"
  shows "calm (length ops) r \<Longrightarrow> \<forall>op\<in>set ops. op_NetworkInstance op \<noteq> [] \<and> known_ni r (op_NetworkInstance op) \<Longrightarrow>
    run_ok E ops (tables_of r) \<Longrightarrow>
    \<exists>r'. program_ops E sched ops r = Some ((map okResult ops, []), r') \<and> rib_inv r' \<and> pendingEntries r' = [] \<and>
      (\<forall>m. known_ni r' m = known_ni r m) \<and> tables_of r' = run_tables E ops (tables_of r)"
proof (induction ops arbitrary: r)
  case Nil
  then show ?case by (simp add: calm_def run_tables_def)
next
  case (Cons op ops)
  let ?n = "op_NetworkInstance op"
  obtain r1 where r1: "program_one E sched op r = Some (([okResult op], []), r1)" "calm (length ops) r1"
      "\<forall>m. known_ni r1 m = known_ni r m" "tables_of r1 = step_tables E op (tables_of r)"
    using program_step [OF env fair, of "length ops" r op ?n] Cons.prems by (auto simp: step_tables_def)
  obtain r' where "program_ops E sched ops r1 = Some ((map okResult ops, []), r')" "rib_inv r'" "pendingEntries r' = []"
      "\<forall>m. known_ni r' m = known_ni r1 m" "tables_of r' = run_tables E ops (tables_of r1)"
    using Cons.IH [OF r1(2)] Cons.prems r1(3,4) by auto
  with r1 show ?case by (simp add: run_tables_def)
qed

end
