(* ===== verification/RibOrder.thy ===== *)
theory RibOrder
  imports ProgramRun RibProps
begin

text \<open>
  Additions in any order.  A list of \<open>ADD\<close> operations for different entries, sent to an empty
  RIB, is resolved by the RIB as a set: the entries it ends with, and the operations it
  acknowledges, depend neither on the order of the list nor on the iteration order of the
  pending queue (\<open>additions_resolved\<close>).
\<close>

subsection \<open>Entries by slot\<close>

text \<open>The place of an entry in the tables of a network instance, and the entry.\<close>

datatype slot = Slot_v4 string | Slot_v6 string | Slot_le Label_Union | Slot_nhg u64 | Slot_nh u64

datatype stored = St_v4 Afts_Ipv4Entry | St_v6 Afts_Ipv6Entry | St_le Afts_LabelEntry
  | St_nhg Afts_NextHopGroup | St_nh Afts_NextHop

definition slot_of :: "AFTOperation \<Rightarrow> slot option" where
  "slot_of op = (case op_Entry op of
     Some (AFTOp_Ipv4 (Some e)) \<Rightarrow> Some (Slot_v4 (v4k_Prefix e))
   | Some (AFTOp_Ipv6 (Some e)) \<Rightarrow> Some (Slot_v6 (v6k_Prefix e))
   | Some (AFTOp_Mpls (Some e)) \<Rightarrow> Some (Slot_le (label_of e))
   | Some (AFTOp_NextHopGroup (Some e)) \<Rightarrow> Some (Slot_nhg (nhgk_Id e))
   | Some (AFTOp_NextHop (Some e)) \<Rightarrow> Some (Slot_nh (nhk_Index e))
   | _ \<Rightarrow> None)"

definition content :: "rib_env \<Rightarrow> AFTOperation \<Rightarrow> stored option" where
  "content E op = (case op_Entry op of
     Some (AFTOp_Ipv4 (Some e)) \<Rightarrow> map_option St_v4 (v4_value E e)
   | Some (AFTOp_Ipv6 (Some e)) \<Rightarrow> map_option St_v6 (v6_value E e)
   | Some (AFTOp_Mpls (Some e)) \<Rightarrow> map_option St_le (le_value E e)
   | Some (AFTOp_NextHopGroup (Some e)) \<Rightarrow> map_option St_nhg (nhg_value E e)
   | Some (AFTOp_NextHop (Some e)) \<Rightarrow> map_option St_nh (nh_value E e)
   | _ \<Rightarrow> None)"

fun at_slot :: "Afts \<Rightarrow> slot \<Rightarrow> stored option" where
  "at_slot a (Slot_v4 p) = map_option St_v4 (gm_get (Ipv4Entry a) p)"
| "at_slot a (Slot_v6 p) = map_option St_v6 (gm_get (Ipv6Entry a) p)"
| "at_slot a (Slot_le l) = map_option St_le (gm_get (LabelEntry a) l)"
| "at_slot a (Slot_nhg i) = map_option St_nhg (gm_get (aft_NextHopGroup a) i)"
| "at_slot a (Slot_nh i) = map_option St_nh (gm_get (aft_NextHop a) i)"

lemmas slot_defs = slot_of_def content_def

lemma at_slot_empty [simp]: "at_slot empty_Afts s = None"
  by (cases s) (simp_all add: empty_Afts_def)

lemma in_at_slot:
  "group_in T x \<longleftrightarrow> at_slot (T (fst x)) (Slot_nhg (snd x)) \<noteq> None"
  "hop_in T x \<longleftrightarrow> at_slot (T (fst x)) (Slot_nh (snd x)) \<noteq> None"
  by (simp_all add: group_in_def hop_in_def)

lemma program_at_slot:
  assumes "op_Op op = Op_ADD"
  shows "at_slot (program_op E op a) s = (if slot_of op = Some s \<and> content E op \<noteq> None then content E op else at_slot a s)"
  using assms
  by (cases s) (auto simp: program_op_def put_value_def slot_defs put_defs gomap split: option.splits AFTOperation_Entry.splits)

lemma step_at_slot:
  assumes "op_Op op = Op_ADD"
  shows "at_slot (step_tables E op T n) s =
    (if n = op_NetworkInstance op \<and> slot_of op = Some s \<and> content E op \<noteq> None then content E op else at_slot (T n) s)"
  using program_at_slot [OF assms, of E] by (auto simp: step_tables_def)

subsection \<open>When an addition is installed\<close>

text \<open>What an entry needs, given the groups \<open>G\<close> and the next-hops \<open>H\<close> that there are.\<close>

fun allowed :: "(string \<times> u64 \<Rightarrow> bool) \<Rightarrow> (string \<times> u64 \<Rightarrow> bool) \<Rightarrow> string \<Rightarrow> slot \<Rightarrow> stored \<Rightarrow> bool" where
  "allowed G H ni s (St_v4 v) \<longleftrightarrow> snd (v4_ref v) \<noteq> 0 \<and> G (resolve_ref ni (v4_ref v))"
| "allowed G H ni s (St_v6 v) \<longleftrightarrow> snd (v6_ref v) \<noteq> 0 \<and> G (resolve_ref ni (v6_ref v))"
| "allowed G H ni s (St_le v) \<longleftrightarrow> snd (le_ref v) \<noteq> 0 \<and> G (resolve_ref ni (le_ref v))"
| "allowed G H ni s (St_nhg v) \<longleftrightarrow> s \<noteq> Slot_nhg 0 \<and> nhg_NextHop v \<noteq> [] \<and> (\<forall>p\<in>set (nhg_NextHop v). fst p \<noteq> 0 \<and> H (ni, fst p))"
| "allowed G H ni s (St_nh v) \<longleftrightarrow> s \<noteq> Slot_nh 0"

lemma allowed_mono:
  assumes "allowed G H ni s v" and "\<And>x. G x \<Longrightarrow> G' x" and "\<And>x. H x \<Longrightarrow> H' x"
  shows "allowed G' H' ni s v"
  using assms by (cases v) auto

lemma op_ok_iff:
  assumes "op_Op op = Op_ADD"
  shows "op_ok E T op \<longleftrightarrow> op_wf op \<and> (\<exists>s v. slot_of op = Some s \<and> content E op = Some v \<and>
    allowed (group_in T) (hop_in T) (op_NetworkInstance op) s v)"
proof (cases "op_Entry op")
  case None
  then show ?thesis by (simp add: op_ok_def slot_defs)
next
  case (Some t)
  have "add_ok E T (op_NetworkInstance op) t \<longleftrightarrow> (\<exists>s v. slot_of op = Some s \<and> content E op = Some v \<and>
    allowed (group_in T) (hop_in T) (op_NetworkInstance op) s v)"
    using Some by (cases t) (auto simp: add_ok_def refers_ok_def slot_defs split: option.splits)
  with Some assms show ?thesis by (simp add: op_ok_def)
qed

definition grows :: "(string \<Rightarrow> Afts) \<Rightarrow> (string \<Rightarrow> Afts) \<Rightarrow> bool" where
  "grows T T' \<longleftrightarrow> (\<forall>x. group_in T x \<longrightarrow> group_in T' x) \<and> (\<forall>x. hop_in T x \<longrightarrow> hop_in T' x)"

lemma grows_step: "op_Op op = Op_ADD \<Longrightarrow> grows T (step_tables E op T)"
  by (simp add: grows_def in_at_slot step_at_slot del: at_slot.simps)

lemma op_ok_grows:
  assumes "op_ok E T op" and op: "op_Op op = Op_ADD" and "grows T T'"
  shows "op_ok E T' op"
  using assms(1,3) allowed_mono [of "group_in T" "hop_in T" _ _ _ "group_in T'" "hop_in T'"]
  unfolding op_ok_iff [OF op] grows_def by blast

text \<open>The type switch installs an addition exactly when it is acceptable for the tables.\<close>

lemma installable_op_ok:
  assumes at: "at_ni E r ni rh" and op: "op_wf op" "op_Op op = Op_ADD" "op_NetworkInstance op = ni"
  shows "installable E r \<lparr>pe_ni = ni, pe_op = op\<rparr> \<longleftrightarrow> op_ok E (tables_of r) op"
proof
  assume "op_ok E (tables_of r) op"
  then obtain t where t: "op_Entry op = Some t" "add_ok E (tables_of r) ni t" using op by (auto simp: op_ok_def)
  from install_ok [OF at op(1) t(1) op(2,3) t(2)] at_niD(3) [OF at]
  show "installable E r \<lparr>pe_ni = ni, pe_op = op\<rparr>" by (auto simp: installable_def NetworkInstanceRIB_def)
next
  assume "installable E r \<lparr>pe_ni = ni, pe_op = op\<rparr>"
  then show "op_ok E (tables_of r) op"
    unfolding installable_iff [OF at op(1)] ref_ready_iff [OF at]
    using op by (auto simp: op_ok_def add_ok_def refers_ok_def value_defs single_defs has_in)
qed

subsection \<open>Refused additions\<close>

text \<open>An addition that no tables with groups in known network instances accept.\<close>

definition never_ok :: "rib_env \<Rightarrow> RIB \<Rightarrow> AFTOperation \<Rightarrow> bool" where
  "never_ok E r op \<longleftrightarrow> (\<forall>T. (\<forall>x. group_in T x \<longrightarrow> known_ni r (fst x)) \<longrightarrow> \<not> op_ok E T op)"

lemma never_ok_known: "(\<And>n. known_ni r' n = known_ni r n) \<Longrightarrow> never_ok E r' op = never_ok E r op"
  by (simp add: never_ok_def)

lemma group_in_known: "group_in (tables_of r) x \<Longrightarrow> known_ni r (fst x)"
  by (auto simp: group_in_def tables_of_def known_ni_def empty_Afts_def split: option.splits)

lemma nhs_resolvable_waits:
  assumes "gm_get (niRIB r) ni = Some rh" and "\<forall>p\<in>set ns. nhgnh_Index (snd p) = Some (fst p)" and "\<forall>p\<in>set ns. fst p \<noteq> 0"
  shows "\<exists>b. nhs_resolvable rh ni i ns = Inr b"
  using assms(2,3) by (induction ns) auto

text \<open>An addition that may become acceptable waits.\<close>

lemma install_unresolved:
  assumes at: "at_ni E r ni rh" and op: "op_wf op" "op_Op op = Op_ADD" "op_NetworkInstance op = ni"
    and no: "\<not> op_ok E (tables_of r) op" and may: "\<not> never_ok E r op"
  shows "installEntry E ni op rh r = (Unresolved, r)"
proof -
  note D = at_niD [OF at] and C = value_candidate [OF at_niD(1) [OF at]]
  obtain T where T: "\<And>x. group_in T x \<Longrightarrow> known_ni r (fst x)" and ok: "op_ok E T op"
    using may unfolding never_ok_def by blast
  obtain t where t: "op_Entry op = Some t" "add_ok E T ni t" using ok op by (auto simp: op_ok_def)
  have n: "\<not> add_ok E (tables_of r) ni t" using no op t by (auto simp: op_ok_def)
  have kn: "ref_known r ref" if "group_in T (resolve_ref ni ref)" for ref
    using T [OF that] by (auto simp: ref_known_def resolve_ref_def split: if_splits)
  show ?thesis
  proof (cases t)
    case (AFTOp_Ipv4 eo)
    with t(2) obtain e v where e: "eo = Some e" "v4_value E e = Some v" "refers_ok T ni (v4_ref v)"
      by (auto simp: add_ok_def split: option.splits)
    with n AFTOp_Ipv4 have "\<not> has_nhg r (resolve_ref ni (v4_ref v))" by (auto simp: add_ok_def refers_ok_def has_in)
    then show ?thesis
      using ref_ipv4.install_waits [OF at op(1), of e v] C(1) [OF e(2)] t(1) AFTOp_Ipv4 e op(2) kn
      by (simp add: refers_ok_def)
  next
    case (AFTOp_Ipv6 eo)
    with t(2) obtain e v where e: "eo = Some e" "v6_value E e = Some v" "refers_ok T ni (v6_ref v)"
      by (auto simp: add_ok_def split: option.splits)
    with n AFTOp_Ipv6 have "\<not> has_nhg r (resolve_ref ni (v6_ref v))" by (auto simp: add_ok_def refers_ok_def has_in)
    then show ?thesis
      using ref_ipv6.install_waits [OF at op(1), of e v] C(2) [OF e(2)] t(1) AFTOp_Ipv6 e op(2) kn
      by (simp add: refers_ok_def)
  next
    case (AFTOp_Mpls eo)
    with t(2) obtain e v where e: "eo = Some e" "le_value E e = Some v" "refers_ok T ni (le_ref v)"
      by (auto simp: add_ok_def split: option.splits)
    have num: "numeric_label e" using op t(1) AFTOp_Mpls e by (simp add: op_wf_def)
    from n AFTOp_Mpls e have "\<not> has_nhg r (resolve_ref ni (le_ref v))" by (auto simp: add_ok_def refers_ok_def has_in)
    then show ?thesis
      using ref_mpls.install_waits [OF at op(1), of e v] C(3) [OF num e(2)] t(1) AFTOp_Mpls e op(2) kn
      by (simp add: refers_ok_def)
  next
    case (AFTOp_NextHopGroup eo)
    with t(2) obtain e v where e: "eo = Some e" "nhg_value E e = Some v" "nhgk_Id e \<noteq> 0" "nhg_NextHop v \<noteq> []"
        "\<forall>p\<in>set (nhg_NextHop v). fst p \<noteq> 0"
      by (auto simp: add_ok_def split: option.splits)
    note c = C(4) [OF e(2)]
    have g: "nhg_Id v = Some (nhgk_Id e)" "\<forall>p\<in>set (nhg_NextHop v). nhgnh_Index (snd p) = Some (fst p)"
      using c by (simp_all add: nhg_of_def group_wf_def)
    have "nhs_resolvable rh ni (nhgk_Id e) (nhg_NextHop v) \<noteq> Inr True"
      using nhs_resolvable_iff [OF D(3) g(2)] n AFTOp_NextHopGroup e by (auto simp: add_ok_def has_in)
    then have "nhs_resolvable rh ni (nhgk_Id e) (nhg_NextHop v) = Inr False"
      using nhs_resolvable_waits [OF D(3) g(2) e(5), of "nhgk_Id e"] by auto
    then have "run_check (holder_check r rh) rh Add (Some (single_nhg (nhgk_Id e) v)) = Inr False"
      using e g D by (simp add: run_check_Add canResolve_nhg)
    then show ?thesis
      using nhg.add_checked [OF D(1) D(5) TrueI conjunct1 [OF c], of "op_Op op = Op_REPLACE" "holder_check r rh"] D(3) op(2) t(1) AFTOp_NextHopGroup e(1)
      by (simp add: installEntry_def install_outcome_def)
  next
    case (AFTOp_NextHop eo)
    with t(2) n show ?thesis by (auto simp: add_ok_def split: option.splits)
  qed (use t(2) in \<open>simp add: add_ok_def\<close>)
qed

subsection \<open>The invariant of a run of additions\<close>

text \<open>Operations that add different entries, under different identifiers, to known network instances.\<close>

definition additions :: "RIB \<Rightarrow> AFTOperation set \<Rightarrow> bool" where
  "additions r A \<longleftrightarrow> (\<forall>op\<in>A. op_Op op = Op_ADD \<and> acceptable r (op_NetworkInstance op) op) \<and>
     inj_on op_Id A \<and> inj_on (\<lambda>op. (op_NetworkInstance op, slot_of op)) A"

definition sourced :: "rib_env \<Rightarrow> AFTOperation set \<Rightarrow> (string \<Rightarrow> Afts) \<Rightarrow> bool" where
  "sourced E A T \<longleftrightarrow> (\<forall>n s v. at_slot (T n) s = Some v \<longrightarrow>
     (\<exists>op\<in>A. op_NetworkInstance op = n \<and> slot_of op = Some s \<and> content E op = Some v \<and> op_ok E T op))"

definition in_tables :: "(string \<Rightarrow> Afts) \<Rightarrow> AFTOperation \<Rightarrow> bool" where
  "in_tables T op \<longleftrightarrow> (\<exists>s. slot_of op = Some s \<and> at_slot (T (op_NetworkInstance op)) s \<noteq> None)"

lemma step_in_tables:
  assumes A: "additions r A" and op: "op \<in> A" "op_ok E T op" and op': "op' \<in> A"
  shows "in_tables (step_tables E op T) op' \<longleftrightarrow> op' = op \<or> in_tables T op'"
proof -
  have add: "op_Op op = Op_ADD" using A op by (simp add: additions_def)
  obtain s v where s: "slot_of op = Some s" "content E op = Some v"
    using op(2) unfolding op_ok_iff [OF add] by blast
  have "op' = op" if "op_NetworkInstance op' = op_NetworkInstance op" "slot_of op' = slot_of op"
    using A op(1) op' that by (auto simp: additions_def inj_on_def)
  then show ?thesis using s by (auto simp: in_tables_def step_at_slot [OF add])
qed

lemma step_sourced:
  assumes A: "additions r A" and op: "op \<in> A" "op_ok E T op" and src: "sourced E A T"
  shows "sourced E A (step_tables E op T)"
proof -
  have add: "op_Op o' = Op_ADD" if "o' \<in> A" for o' using A that by (simp add: additions_def)
  have ok: "op_ok E (step_tables E op T) o'" if "o' \<in> A" "op_ok E T o'" for o'
    using op_ok_grows [OF that(2) add [OF that(1)] grows_step [OF add [OF op(1)]]] .
  show ?thesis
    unfolding sourced_def step_at_slot [OF add [OF op(1)]] using ok src op
    by (fastforce simp: sourced_def split: if_splits)
qed

text \<open>
  The state of a call: the entries come from operations that are acceptable, the acknowledged
  operations (\<open>acked\<close> before the call, the stack during it) are the stored ones, and those that
  wait are operations of the list.
\<close>

definition order_inv :: "rib_env \<Rightarrow> AFTOperation set \<Rightarrow> u64 set \<Rightarrow> add_state \<Rightarrow> bool" where
  "order_inv E A acked st \<longleftrightarrow> additions (as_rib st) A \<and> sourced E A (tables_of (as_rib st)) \<and>
     (\<forall>op\<in>A. op_Id op \<in> acked \<union> set (as_stack st) \<longleftrightarrow> in_tables (tables_of (as_rib st)) op) \<and>
     \<not> disableForwardReferences (as_rib st) \<and> (\<forall>pe\<in>set (getPending (as_rib st)). \<exists>op\<in>A. pe = \<lparr>pe_ni = op_NetworkInstance op, pe_op = op\<rparr>)"

definition keeps_order ::
    "rib_env \<Rightarrow> AFTOperation set \<Rightarrow> u64 set \<Rightarrow> u64 set \<Rightarrow> nat \<Rightarrow> nat \<Rightarrow>
     (string \<Rightarrow> AFTOperation \<Rightarrow> add_state \<Rightarrow> (rib_err option \<times> add_state) option) \<Rightarrow> bool" where
  "keeps_order E A acked U N n f \<longleftrightarrow> (\<forall>op st e st'. op \<in> A \<longrightarrow> op_Id op \<in> U \<longrightarrow> add_inv U N st \<longrightarrow> order_inv E A acked st \<longrightarrow>
     card U < n + length (as_stack st) \<longrightarrow> f (op_NetworkInstance op) op st = Some (e, st') \<longrightarrow> order_inv E A acked st')"

lemma additions_known: "(\<And>n. known_ni r' n = known_ni r n) \<Longrightarrow> additions r' A = additions r A"
  by (simp add: additions_def acceptable_def)

lemma loop_keeps_order:
  assumes f: "call_ok E U N n f" and k: "keeps_order E A acked U N n f"
  shows "add_inv U N st \<Longrightarrow> order_inv E A acked st \<Longrightarrow>
    \<forall>pe\<in>set es. \<exists>op\<in>A. op_Id op \<in> U \<and> pe = \<lparr>pe_ni = op_NetworkInstance op, pe_op = op\<rparr> \<Longrightarrow>
    card U < n + length (as_stack st) \<Longrightarrow> pending_loop f es st = Some (e, st') \<Longrightarrow> order_inv E A acked st'"
proof (induction es arbitrary: st)
  case Nil
  then show ?case by simp
next
  case (Cons pe es)
  obtain op where op: "op \<in> A" "op_Id op \<in> U" "pe = \<lparr>pe_ni = op_NetworkInstance op, pe_op = op\<rparr>"
    using Cons.prems(3) by auto
  have "acceptable (as_rib st) (op_NetworkInstance op) op"
    using Cons.prems(2) op(1) by (simp add: order_inv_def additions_def)
  then obtain st1 where st1: "f (op_NetworkInstance op) op st = Some (None, st1)" "add_inv U N st1" "extends st st1"
    by (rule call_okD [OF f Cons.prems(1) _ op(2) Cons.prems(4)])
  have o1: "order_inv E A acked st1"
    using k Cons.prems(1,2,4) op(1,2) st1(1) unfolding keeps_order_def by blast
  have "card U < n + length (as_stack st1)" using st1(3) Cons.prems(4) by (auto simp: extends_def)
  then show ?case
    using Cons.IH [OF st1(2) o1] Cons.prems(3,5) op(3) st1(1) by simp
qed

lemma order_install:
  assumes inv: "order_inv E A acked st" and op: "op \<in> A" "op_Id op \<notin> acked" and at: "at_ni E (as_rib st) (op_NetworkInstance op) rh"
    and inst: "installEntry E (op_NetworkInstance op) op rh (as_rib st) = (Installed k, r)"
    and r2: "niRIB r2 = niRIB r" "pendingEntries r2 = gm_del (op_Id op) (pendingEntries r)"
      "disableForwardReferences r2 = disableForwardReferences r"
    and st1: "st1 = st\<lparr>as_rib := r2, as_oks := as_oks st @ [okResult op], as_stack := op_Id op # as_stack st\<rparr>"
  shows "order_inv E A acked st1"
proof -
  let ?r = "as_rib st" and ?T = "tables_of (as_rib st)"
  have A: "additions ?r A" and src: "sourced E A ?T" using inv by (simp_all add: order_inv_def)
  have a: "op_wf op" "op_Op op = Op_ADD" using A op by (simp_all add: additions_def acceptable_def)
  have "installable E ?r \<lparr>pe_ni = op_NetworkInstance op, pe_op = op\<rparr>"
    using inst at_niD(3) [OF at] by (simp add: installable_def NetworkInstanceRIB_def)
  then have ok: "op_ok E ?T op" using installable_op_ok [OF at a refl] by simp
  then obtain t where t: "op_Entry op = Some t" "add_ok E ?T (op_NetworkInstance op) t" using a by (auto simp: op_ok_def)
  have T: "tables_of r2 = step_tables E op ?T"
    using install_ok [OF at a(1) t(1) a(2) refl t(2)] inst tables_of_cong [OF r2(1)] by (simp add: step_tables_def)
  note fr = installEntry_frame [OF at_niD(3) [OF at], of E op rh, unfolded inst snd_conv]
  have "additions r2 A"
    using A fr r2(1) additions_known [of r2 ?r A] by (simp add: known_ni_def)
  moreover have "sourced E A (tables_of r2)" unfolding T by (rule step_sourced [OF A op(1) ok src])
  moreover have "op_Id o' \<in> acked \<union> insert (op_Id op) (set (as_stack st)) \<longleftrightarrow> in_tables (tables_of r2) o'" if "o' \<in> A" for o'
    using step_in_tables [OF A op(1) ok that] inv that op A
    by (auto simp: T order_inv_def additions_def inj_on_def)
  moreover have "set (getPending r2) \<subseteq> set (getPending ?r)"
    using fr r2(2) by (auto simp: getPending_def gm_set_del)
  ultimately show ?thesis using inv fr r2(3) by (auto simp: st1 order_inv_def)
qed

lemma addEntryInternal_keeps_order:
  assumes env: "env_laws E" and fair: "fair sched" and fin: "finite U" "N + card U < 2 ^ 64" and new: "U \<inter> acked = {}"
  shows "keeps_order E A acked U N n (addEntryInternal E sched n)"
proof (induction n)
  case 0
  show ?case by (simp add: keeps_order_def)
next
  case (Suc n)
  show ?case unfolding keeps_order_def
  proof (intro allI impI)
    fix op st e st'
    assume op: "op \<in> A" "op_Id op \<in> U" and inv: "add_inv U N st" and ord: "order_inv E A acked st"
      and fuel: "card U < Suc n + length (as_stack st)"
      and call: "addEntryInternal E sched (Suc n) (op_NetworkInstance op) op st = Some (e, st')"
    let ?r = "as_rib st" and ?ni = "op_NetworkInstance op"
    have rinv: "rib_inv ?r" using inv by (simp add: add_inv_def)
    have acc: "acceptable ?r ?ni op" using ord op(1) by (simp add: order_inv_def additions_def)
    show "order_inv E A acked st'"
    proof (cases "op_Id op \<in> set (as_stack st)")
      case True
      with call ord show ?thesis by simp
    next
      case False
      obtain rh where get: "gm_get (niRIB ?r) ?ni = Some rh" and at: "at_ni E ?r ?ni rh" and v: "IsValid rh"
        by (rule acceptable_at_ni [OF env rinv acc])
      obtain c r where ir: "installEntry E ?ni op rh ?r = (c, r)" by (rule prod.exhaust)
      consider (installed) k where "c = Installed k" | (refused) "refused (c, r) ?r"
        using installed_or_refused [OF at, of op] acc ir by (auto simp: acceptable_def)
      then show ?thesis
      proof cases
        case installed
        obtain r2 where r2: "niRIB r2 = niRIB r" "pendingEntries r2 = gm_del (op_Id op) (pendingEntries r)" "ribCheck r2 = ribCheck r"
          "disableForwardReferences r2 = disableForwardReferences r"
          "addEntryInternal E sched (Suc n) ?ni op st = pending_loop (addEntryInternal E sched n)
            (sched (op_Id op # as_stack st) (getPending r2))
            (st\<lparr>as_rib := r2, as_oks := as_oks st @ [okResult op], as_stack := op_Id op # as_stack st\<rparr>)"
          by (rule addEntryInternal_installed [OF env get v False ir [unfolded installed]])
        define st1 where "st1 = st\<lparr>as_rib := r2, as_oks := as_oks st @ [okResult op], as_stack := op_Id op # as_stack st\<rparr>"
        note s1 = install_state [OF env inv acc op(2) False fin get at ir [unfolded installed] r2(1-3) st1_def]
        have o1: "order_inv E A acked st1"
          by (rule order_install [OF ord op(1) _ at ir [unfolded installed] r2(1,2,4) st1_def]) (use op(2) new in auto)
        have "\<forall>pe\<in>set (sched (op_Id op # as_stack st) (getPending r2)).
            \<exists>op\<in>A. op_Id op \<in> U \<and> pe = \<lparr>pe_ni = op_NetworkInstance op, pe_op = op\<rparr>"
        proof
          fix pe assume "pe \<in> set (sched (op_Id op # as_stack st) (getPending r2))"
          then have pe: "pe \<in> set (getPending (as_rib st1))" using fair by (simp add: fair_def st1_def)
          obtain o' where o': "o' \<in> A" "pe = \<lparr>pe_ni = op_NetworkInstance o', pe_op = o'\<rparr>"
            using o1 pe by (auto simp: order_inv_def)
          have "op_Id (pe_op pe) \<in> U"
            using getPending_ids(1) [OF _ pe] s1(1) by (auto simp: add_inv_def)
          with o' show "\<exists>op\<in>A. op_Id op \<in> U \<and> pe = \<lparr>pe_ni = op_NetworkInstance op, pe_op = op\<rparr>" by auto
        qed
        moreover have "card U < n + length (as_stack st1)" using fuel by (simp add: st1_def)
        ultimately show ?thesis
          by (rule loop_keeps_order [OF addEntryInternal_ok [OF env fair fin] Suc.IH s1(1) o1 _ _ call [unfolded r2(5), folded st1_def]])
      next
        case refused
        note R = addEntryInternal_refused [OF get v False ir refused]
        have st': "st' = refuse ?ni op c r st" using call R(3) [of sched n] by simp
        have "niRIB (as_rib st') = niRIB ?r" "as_stack st' = as_stack st"
          "disableForwardReferences (as_rib st') = disableForwardReferences ?r"
          and p: "pendingEntries (as_rib st') = pendingEntries ?r \<or>
            pendingEntries (as_rib st') = gm_put (op_Id op) \<lparr>pe_ni = ?ni, pe_op = op\<rparr> (pendingEntries ?r)"
          using R(1,2) by (auto simp: st' refuse_def addPending_def)
        moreover have "set (getPending (as_rib st')) \<subseteq> insert \<lparr>pe_ni = ?ni, pe_op = op\<rparr> (set (getPending ?r))"
          using p inv by (auto simp: getPending_def add_inv_def pend_wf_def gm_set_put)
        ultimately show ?thesis
          using ord op(1) tables_of_cong [of "as_rib st'" ?r] additions_known [of "as_rib st'" ?r A]
          by (auto simp: order_inv_def known_ni_def)
      qed
    qed
  qed
qed

subsection \<open>Which additions resolve\<close>

text \<open>
  The specification: next-hops with a non-zero index are offered; a group is offered when its
  next-hops are; and an entry is resolvable when the group it names is.
\<close>

definition offers_hop :: "rib_env \<Rightarrow> AFTOperation set \<Rightarrow> string \<times> u64 \<Rightarrow> bool" where
  "offers_hop E A x \<longleftrightarrow> snd x \<noteq> 0 \<and>
     (\<exists>op\<in>A. op_NetworkInstance op = fst x \<and> slot_of op = Some (Slot_nh (snd x)) \<and> content E op \<noteq> None)"

definition offers_group :: "rib_env \<Rightarrow> AFTOperation set \<Rightarrow> string \<times> u64 \<Rightarrow> bool" where
  "offers_group E A x \<longleftrightarrow> (\<exists>op\<in>A. op_NetworkInstance op = fst x \<and> slot_of op = Some (Slot_nhg (snd x)) \<and>
     (case content E op of None \<Rightarrow> False | Some v \<Rightarrow> allowed (\<lambda>_. False) (offers_hop E A) (fst x) (Slot_nhg (snd x)) v))"

definition resolvable :: "rib_env \<Rightarrow> AFTOperation set \<Rightarrow> AFTOperation \<Rightarrow> bool" where
  "resolvable E A op = (case (slot_of op, content E op) of
     (Some s, Some v) \<Rightarrow> allowed (offers_group E A) (offers_hop E A) (op_NetworkInstance op) s v
   | _ \<Rightarrow> False)"

lemma resolvable_iff: "resolvable E A op \<longleftrightarrow> (\<exists>s v. slot_of op = Some s \<and> content E op = Some v \<and>
    allowed (offers_group E A) (offers_hop E A) (op_NetworkInstance op) s v)"
  by (auto simp: resolvable_def split: option.splits)

lemma content_kind:
  "slot_of op = Some (Slot_nh i) \<Longrightarrow> content E op = Some v \<Longrightarrow> \<exists>w. v = St_nh w"
  "slot_of op = Some (Slot_nhg i) \<Longrightarrow> content E op = Some v \<Longrightarrow> \<exists>w. v = St_nhg w"
  by (auto simp: slot_defs split: option.splits AFTOperation_Entry.splits)

text \<open>Tables in which exactly the acceptable operations of a set are stored are its resolution.\<close>

definition resolution :: "rib_env \<Rightarrow> AFTOperation set \<Rightarrow> (string \<Rightarrow> Afts) \<Rightarrow> bool" where
  "resolution E A T \<longleftrightarrow> (\<forall>op\<in>A. op_Op op = Op_ADD \<and> op_wf op) \<and> (\<forall>n s v. at_slot (T n) s = Some v \<longleftrightarrow>
     (\<exists>op\<in>A. op_NetworkInstance op = n \<and> slot_of op = Some s \<and> content E op = Some v \<and> op_ok E T op))"

lemma resolution_allowed:
  assumes "resolution E A T"
  shows "at_slot (T n) s = Some v \<longleftrightarrow> (\<exists>op\<in>A. op_NetworkInstance op = n \<and> slot_of op = Some s \<and>
    content E op = Some v \<and> allowed (group_in T) (hop_in T) n s v)"
proof -
  have ok: "(op_NetworkInstance op = n \<and> slot_of op = Some s \<and> content E op = Some v \<and> op_ok E T op) \<longleftrightarrow>
      (op_NetworkInstance op = n \<and> slot_of op = Some s \<and> content E op = Some v \<and> allowed (group_in T) (hop_in T) n s v)"
    if "op \<in> A" for op
    using assms op_ok_iff [of op E T] that by (auto simp: resolution_def)
  show ?thesis
    unfolding assms [unfolded resolution_def, THEN conjunct2, rule_format, of n s v] by (rule bex_cong [OF refl ok])
qed

lemma resolution_offers:
  assumes "resolution E A T"
  shows "hop_in T = offers_hop E A" "group_in T = offers_group E A"
proof -
  show h: "hop_in T = offers_hop E A"
  proof
    fix x
    have "hop_in T x \<longleftrightarrow> (\<exists>v. at_slot (T (fst x)) (Slot_nh (snd x)) = Some v)" by (simp add: in_at_slot del: at_slot.simps)
    also have "\<dots> \<longleftrightarrow> offers_hop E A x"
      unfolding resolution_allowed [OF assms] offers_hop_def by (fastforce dest: content_kind(1))
    finally show "hop_in T x = offers_hop E A x" .
  qed
  show "group_in T = offers_group E A"
  proof
    fix x
    have "group_in T x \<longleftrightarrow> (\<exists>v. at_slot (T (fst x)) (Slot_nhg (snd x)) = Some v)" by (simp add: in_at_slot del: at_slot.simps)
    also have "\<dots> \<longleftrightarrow> offers_group E A x"
      unfolding resolution_allowed [OF assms] offers_group_def h by (fastforce dest: content_kind(2) split: option.splits)
    finally show "group_in T x = offers_group E A x" .
  qed
qed

lemma resolution_op_ok:
  assumes "resolution E A T" and "op \<in> A"
  shows "op_ok E T op \<longleftrightarrow> resolvable E A op"
proof -
  have "op_Op op = Op_ADD" "op_wf op" using assms by (simp_all add: resolution_def)
  then show ?thesis by (simp only: op_ok_iff resolvable_iff resolution_offers [OF assms(1)] simp_thms)
qed

lemma resolution_tables:
  assumes "resolution E A T"
  shows "at_slot (T n) s = Some v \<longleftrightarrow>
    (\<exists>op\<in>A. resolvable E A op \<and> op_NetworkInstance op = n \<and> slot_of op = Some s \<and> content E op = Some v)"
proof -
  have ok: "(op_NetworkInstance op = n \<and> slot_of op = Some s \<and> content E op = Some v \<and> op_ok E T op) \<longleftrightarrow>
      (resolvable E A op \<and> op_NetworkInstance op = n \<and> slot_of op = Some s \<and> content E op = Some v)" if "op \<in> A" for op
    using resolution_op_ok [OF assms that] by blast
  show ?thesis
    unfolding assms [unfolded resolution_def, THEN conjunct2, rule_format, of n s v] by (rule bex_cong [OF refl ok])
qed

subsection \<open>Lists of additions\<close>

abbreviation fresh_state :: "RIB \<Rightarrow> add_state" where
  "fresh_state r \<equiv> \<lparr>as_rib = r, as_oks = [], as_fails = [], as_stack = []\<rparr>"

text \<open>The state between two calls, \<open>D\<close> being the operations sent and \<open>acked\<close> the identifiers acknowledged.\<close>

definition order_state :: "rib_env \<Rightarrow> AFTOperation set \<Rightarrow> AFTOperation set \<Rightarrow> u64 set \<Rightarrow> RIB \<Rightarrow> bool" where
  "order_state E A D acked r \<longleftrightarrow> rib_inv r \<and> pend_wf r \<and> quiescent E r \<and> order_inv E A acked (fresh_state r) \<and>
     acked \<union> pend_ids r \<subseteq> op_Id ` D \<and> acked \<inter> pend_ids r = {} \<and>
     (\<forall>op\<in>D. op_Id op \<in> acked \<or> op_Id op \<in> pend_ids r \<or> never_ok E r op)"

definition load :: "RIB \<Rightarrow> nat" where
  "load r = n_rib r + length (pendingEntries r)"

lemma pend_ids_card: "pend_wf r \<Longrightarrow> card (pend_ids r) = length (pendingEntries r)"
  unfolding pend_ids_def pend_wf_def by (metis distinct_card length_map list.set_map)

lemma addition_step:
  assumes env: "env_laws E" and fair: "fair sched" and st: "order_state E A D acked r" and op: "op \<in> A" "op \<notin> D" and D: "D \<subseteq> A"
    and room: "Suc (load r) < 2 ^ 64"
  shows "\<exists>oks fails r'. AddEntry E sched (op_NetworkInstance op) op r = Some (Inr (oks, fails), r') \<and>
    order_state E A (insert op D) (acked \<union> or_ID ` set oks) r' \<and> load r' \<le> Suc (load r)"
proof -
  let ?ni = "op_NetworkInstance op"
  define U where "U = insert (op_Id op) (pend_ids r)"
  define st0 where "st0 = fresh_state r"
  have inv: "rib_inv r" "pend_wf r" "quiescent E r" and ord: "order_inv E A acked (fresh_state r)"
    and ids: "acked \<union> pend_ids r \<subseteq> op_Id ` D" "acked \<inter> pend_ids r = {}"
    and D': "\<forall>o'\<in>D. op_Id o' \<in> acked \<or> op_Id o' \<in> pend_ids r \<or> never_ok E r o'"
    using st by (simp_all add: order_state_def)
  have add: "additions r A" and df: "\<not> disableForwardReferences r" using ord by (simp_all add: order_inv_def)
  have acc: "acceptable r ?ni op" and a: "op_Op op = Op_ADD" using add op by (simp_all add: additions_def)
  have new: "op_Id op \<notin> acked \<union> pend_ids r"
  proof
    assume "op_Id op \<in> acked \<union> pend_ids r"
    then obtain o' where "o' \<in> D" "op_Id o' = op_Id op" using ids(1) by auto
    then have "o' = op" using add D op(1) by (auto simp: additions_def inj_on_def)
    with \<open>o' \<in> D\<close> op(2) show False by simp
  qed
  have "room r" using room by (simp add: room_def load_def)
  note s = AddEntry_start [OF inv(1,2) this acc U_def st0_def]
  obtain st' where st': "addEntryInternal E sched (length (pendingEntries r) + 2) ?ni op st0 = Some (None, st')"
      "add_inv U (n_rib r) st'" "extends st0 st'" "settled op st'"
      "installable E r \<lparr>pe_ni = ?ni, pe_op = op\<rparr> \<longrightarrow> op_Id op \<in> set (as_stack st')"
    and calm: "\<And>S. calm_except E S (as_rib st0) \<Longrightarrow> calm_except E (S - {\<lparr>pe_ni = ?ni, pe_op = op\<rparr>}) (as_rib st')"
    using call_okD [OF addEntryInternal_ok [OF env fair s(1,2)] s(3-6)] by (auto simp: st0_def)
  have "U \<inter> acked = {}" using new ids(2) by (auto simp: U_def)
  from addEntryInternal_keeps_order [OF env fair s(1,2) this, unfolded keeps_order_def]
  have "order_inv E A acked st'" using op(1) s(3,5,6) st'(1) ord by (simp add: st0_def)
  let ?r' = "as_rib st'" and ?k = "set (as_stack st')"
  have known: "known_ni ?r' n = known_ni r n" for n using st'(3) by (simp add: extends_def st0_def)
  have oks: "or_ID ` set (as_oks st') = ?k" using st'(2) by (metis add_inv_def list.set_map set_rev)
  have AE: "AddEntry E sched ?ni op r = Some (Inr (as_oks st', as_fails st'), ?r')" using st'(1) s(7) by simp
  have ai: "rib_inv ?r'" "pend_wf ?r'" "distinct (as_stack st')" "?k \<subseteq> U" "pend_ids ?r' \<subseteq> U" "?k \<inter> pend_ids ?r' = {}"
    "n_rib ?r' \<le> n_rib r + length (as_stack st')"
    using st'(2) by (simp_all add: add_inv_def)
  have pend: "pend_ids r \<subseteq> ?k \<union> pend_ids ?r'" using st'(3) by (simp add: extends_def st0_def)
  have settled: "op_Id op \<in> ?k \<or> op_Id op \<in> pend_ids ?r' \<or> never_ok E ?r' op"
  proof (cases "installable E r \<lparr>pe_ni = ?ni, pe_op = op\<rparr> \<or> never_ok E r op")
    case True
    with st'(5) never_ok_known [of ?r' r E op] known show ?thesis by blast
  next
    case False
    obtain rh where get: "gm_get (niRIB r) ?ni = Some rh" and at: "at_ni E r ?ni rh" and v: "IsValid rh"
      by (rule acceptable_at_ni [OF env inv(1) acc])
    have "op_wf op" using acc by (simp add: acceptable_def)
    with False installable_op_ok [OF at _ a refl] have "installEntry E ?ni op rh r = (Unresolved, r)"
      by (intro install_unresolved [OF at _ a refl]) auto
    from AddEntry_unresolved [OF get v at_niD(4) [OF at] this] AE df
    have "?r' = addPending (op_Id op) \<lparr>pe_ni = ?ni, pe_op = op\<rparr> r" by simp
    then show ?thesis using pend_ids_put [of r ?r'] inv(2) by (simp add: addPending_def pend_wf_def)
  qed
  have "order_inv E A (acked \<union> ?k) (fresh_state ?r')"
    using \<open>order_inv E A acked st'\<close> by (simp add: order_inv_def Un_assoc)
  moreover have "quiescent E ?r'"
    using calm [of "{}"] inv(3) by (simp add: quiescent_def calm_except_def st0_def)
  moreover have "acked \<union> ?k \<union> pend_ids ?r' \<subseteq> op_Id ` insert op D"
    using ai(4,5) ids(1) by (auto simp: U_def)
  moreover have "(acked \<union> ?k) \<inter> pend_ids ?r' = {}"
    using ai(5,6) new ids(2) by (auto simp: U_def)
  moreover have "\<forall>o'\<in>insert op D. op_Id o' \<in> acked \<union> ?k \<or> op_Id o' \<in> pend_ids ?r' \<or> never_ok E ?r' o'"
    using settled D' pend never_ok_known [of ?r' r E] known by blast
  moreover have "load ?r' \<le> Suc (load r)"
  proof -
    have "card ?k + card (pend_ids ?r') = card (?k \<union> pend_ids ?r')"
      using ai(6) s(1) finite_subset [OF ai(5)] by (intro card_Un_disjoint [symmetric]) auto
    also have "\<dots> \<le> card U" using ai(4,5) s(1) by (intro card_mono) auto
    also have "\<dots> \<le> Suc (length (pendingEntries r))"
      using pend_ids_card [OF inv(2)] card_insert_le_m1 by (simp add: U_def card_insert_if pend_ids_def)
    finally show ?thesis
      using ai(7) distinct_card [OF ai(3)] pend_ids_card [OF ai(2)] by (simp add: load_def)
  qed
  ultimately show ?thesis using AE ai(1,2) oks by (auto simp: order_state_def)
qed

lemma additions_run:
  assumes env: "env_laws E" and fair: "fair sched"
  shows "order_state E A D acked r \<Longrightarrow> set ops \<subseteq> A \<Longrightarrow> D \<subseteq> A \<Longrightarrow> distinct ops \<Longrightarrow> D \<inter> set ops = {} \<Longrightarrow>
    load r + length ops < 2 ^ 64 \<Longrightarrow>
    \<exists>oks fails r'. program_ops E sched ops r = Some ((oks, fails), r') \<and>
      order_state E A (D \<union> set ops) (acked \<union> or_ID ` set oks) r'"
proof (induction ops arbitrary: r D acked)
  case Nil
  then show ?case by auto
next
  case (Cons op ops)
  have a: "op_Op op = Op_ADD" using Cons.prems(1,2) by (simp add: order_state_def order_inv_def additions_def)
  obtain oks fails r1 where r1: "AddEntry E sched (op_NetworkInstance op) op r = Some (Inr (oks, fails), r1)"
      "order_state E A (insert op D) (acked \<union> or_ID ` set oks) r1" "load r1 \<le> Suc (load r)"
    using addition_step [OF env fair Cons.prems(1), of op] Cons.prems by auto
  obtain oks' fails' r' where r': "program_ops E sched ops r1 = Some ((oks', fails'), r')"
      "order_state E A (insert op D \<union> set ops) (acked \<union> or_ID ` set oks \<union> or_ID ` set oks') r'"
    using Cons.IH [OF r1(2)] Cons.prems r1(3) by auto
  have "program_ops E sched (op # ops) r = Some ((oks @ oks', fails @ fails'), r')"
    using r1(1) r'(1) a by (simp add: program_one_def)
  moreover have "order_state E A (D \<union> set (op # ops)) (acked \<union> or_ID ` set (oks @ oks')) r'"
    using r'(2) by (simp add: image_Un Un_assoc)
  ultimately show ?case by blast
qed

text \<open>After the last operation the tables are the resolution of the list.\<close>

lemma order_state_stored:
  assumes env: "env_laws E" and st: "order_state E A A acked r" and op: "op \<in> A"
  shows "in_tables (tables_of r) op \<longleftrightarrow> op_ok E (tables_of r) op"
proof
  have ord: "order_inv E A acked (fresh_state r)" and inv: "rib_inv r" "pend_wf r" "quiescent E r"
    using st by (simp_all add: order_state_def)
  have add: "additions r A" and src: "sourced E A (tables_of r)"
    and pes: "\<And>pe. pe \<in> set (getPending r) \<Longrightarrow> \<exists>op\<in>A. pe = \<lparr>pe_ni = op_NetworkInstance op, pe_op = op\<rparr>"
    and ack: "op_Id op \<in> acked \<longleftrightarrow> in_tables (tables_of r) op"
    using ord op by (simp_all add: order_inv_def)
  have acc: "acceptable r (op_NetworkInstance op) op" and a: "op_Op op = Op_ADD" using add op by (simp_all add: additions_def)
  { assume "in_tables (tables_of r) op"
    then obtain s v where "slot_of op = Some s" "at_slot (tables_of r (op_NetworkInstance op)) s = Some v"
      by (auto simp: in_tables_def)
    then obtain o' where o': "o' \<in> A" "op_NetworkInstance o' = op_NetworkInstance op" "slot_of o' = slot_of op" "op_ok E (tables_of r) o'"
      using src unfolding sourced_def by metis
    then have "o' = op" using add op by (auto simp: additions_def inj_on_def)
    with o'(4) show "op_ok E (tables_of r) op" by simp }
  assume ok: "op_ok E (tables_of r) op"
  show "in_tables (tables_of r) op"
  proof (rule ccontr)
    assume "\<not> in_tables (tables_of r) op"
    moreover have "\<not> never_ok E r op" using ok group_in_known unfolding never_ok_def by blast
    ultimately have "op_Id op \<in> pend_ids r" using st op ack by (auto simp: order_state_def)
    then obtain p where p: "p \<in> set (pendingEntries r)" "fst p = op_Id op" by (auto simp: pend_ids_def)
    then have pe: "snd p \<in> set (getPending r)" "op_Id (pe_op (snd p)) = op_Id op"
      using inv(2) by (auto simp: getPending_def pend_wf_def)
    obtain o' where o': "o' \<in> A" "snd p = \<lparr>pe_ni = op_NetworkInstance o', pe_op = o'\<rparr>" using pes [OF pe(1)] by blast
    then have "o' = op" using pe(2) add op by (auto simp: additions_def inj_on_def)
    moreover obtain rh where "at_ni E r (op_NetworkInstance op) rh" by (rule acceptable_at_ni [OF env inv(1) acc])
    then have "installable E r \<lparr>pe_ni = op_NetworkInstance op, pe_op = op\<rparr>"
      using installable_op_ok [OF _ _ a refl] ok acc by (simp add: acceptable_def)
    ultimately show False using inv(3) pe(1) o'(2) by (auto simp: quiescent_def)
  qed
qed

lemma order_state_resolution:
  assumes env: "env_laws E" and st: "order_state E A A acked r"
  shows "resolution E A (tables_of r)" and "op \<in> A \<Longrightarrow> op_Id op \<in> acked \<longleftrightarrow> resolvable E A op"
proof -
  have ord: "order_inv E A acked (fresh_state r)" using st by (simp add: order_state_def)
  have add: "\<And>op. op \<in> A \<Longrightarrow> op_Op op = Op_ADD \<and> op_wf op" and src: "sourced E A (tables_of r)"
    using ord by (simp_all add: order_inv_def additions_def acceptable_def)
  have inj: "o' = o''" if "o' \<in> A" "o'' \<in> A" "op_NetworkInstance o' = op_NetworkInstance o''" "slot_of o' = slot_of o''" for o' o''
    using ord that by (auto simp: order_inv_def additions_def inj_on_def)
  have "at_slot (tables_of r (op_NetworkInstance op)) s = Some v"
    if op: "op \<in> A" "slot_of op = Some s" "content E op = Some v" "op_ok E (tables_of r) op" for op s v
  proof -
    have "in_tables (tables_of r) op" using order_state_stored [OF env st op(1)] op(4) by simp
    then obtain w where w: "at_slot (tables_of r (op_NetworkInstance op)) s = Some w"
      using op(2) by (auto simp: in_tables_def)
    then obtain o' where "o' \<in> A" "op_NetworkInstance o' = op_NetworkInstance op" "slot_of o' = Some s" "content E o' = Some w"
      using src unfolding sourced_def by metis
    then have "o' = op" using inj [of o' op] op(1,2) by simp
    with \<open>content E o' = Some w\<close> op(3) w show ?thesis by simp
  qed
  then show R: "resolution E A (tables_of r)"
    using add src unfolding resolution_def sourced_def by blast
  show "op_Id op \<in> acked \<longleftrightarrow> resolvable E A op" if "op \<in> A"
    using order_state_stored [OF env st that] resolution_op_ok [OF R that] ord that by (simp add: order_inv_def)
qed

lemma no_entries_at_slot: "n_entries a = 0 \<Longrightarrow> at_slot a s = None"
  by (cases s) (simp_all add: n_entries_def)

lemma empty_tables: "n_rib r = 0 \<Longrightarrow> at_slot (tables_of r n) s = None"
  by (fastforce simp: tables_of_def n_rib_def intro!: no_entries_at_slot dest: map_of_SomeD split: option.split)

text \<open>
  C5: Additions of different entries to an empty RIB are resolved as a set.  Whatever the order in
  which they arrive and in which the pending queue is retried, the RIB acknowledges exactly the
  resolvable ones, and its tables hold exactly their entries.
\<close>
theorem additions_resolved:
  assumes "env_laws E" and "rib_reach E fl r" and "n_rib r = 0" and "pendingEntries r = []"
    and "\<not> disableForwardReferences r" and "fair sched" and "additions r (set ops)" and "distinct ops" and "length ops < 2 ^ 64"
  shows "\<exists>oks fails r'. program_ops E sched ops r = Some ((oks, fails), r') \<and>
    or_ID ` set oks = op_Id ` {op \<in> set ops. resolvable E (set ops) op} \<and>
    (\<forall>n s v. at_slot (tables_of r' n) s = Some v \<longleftrightarrow>
      (\<exists>op\<in>set ops. resolvable E (set ops) op \<and> op_NetworkInstance op = n \<and> slot_of op = Some s \<and> content E op = Some v))"
proof -
  have "order_state E (set ops) {} {} r"
    using assms(2-7) reach_facts [OF assms(1,2)] rib_reach_inv [OF assms(1,2)] empty_tables [OF assms(3)]
    by (auto simp: order_state_def order_inv_def sourced_def in_tables_def getPending_def pend_ids_def run_inv_def)
  then obtain oks fails r' where r': "program_ops E sched ops r = Some ((oks, fails), r')"
      "order_state E (set ops) (set ops) (or_ID ` set oks) r'"
    using additions_run [OF assms(1,6), of "set ops" "{}" "{}" r ops] assms(3,4,8,9) by (auto simp: load_def)
  note R = order_state_resolution [OF assms(1) r'(2)]
  have "or_ID ` set oks \<subseteq> op_Id ` set ops" using r'(2) by (simp add: order_state_def)
  then have "or_ID ` set oks = op_Id ` {op \<in> set ops. resolvable E (set ops) op}"
    using R(2) by (auto simp: subset_iff image_iff) metis+
  with r'(1) resolution_tables [OF R(1)] show ?thesis by (intro exI conjI) (assumption | rule allI)+
qed

text \<open>Three additions, the route first; a group without its next-hop stays behind.\<close>

definition mixed_ops :: "AFTOperation list" where
  "mixed_ops = [v4_op 3 Op_ADD ''1.0.0.0/8'' 1, nhg_op 2 Op_ADD 1 [1] None, nhg_op 4 Op_ADD 2 [9] None, nh_op 1 Op_ADD 1]"

theorem additions_resolved_witness:
  "\<exists>oks fails r'. program_ops sample_env in_order mixed_ops sample0 = Some ((oks, fails), r') \<and> or_ID ` set oks = {1, 2, 3}"
proof -
  have a: "\<not> disableForwardReferences sample0" "pendingEntries sample0 = []" "n_rib sample0 = 0" by code_simp+
  have add: "additions sample0 (set mixed_ops)"
    by (simp add: additions_def mixed_ops_def) code_simp
  have k: "op_Id ` {op \<in> set mixed_ops. resolvable sample_env (set mixed_ops) op} = {1, 2, 3}"
    by code_simp
  have d: "distinct mixed_ops" by code_simp
  have l: "length mixed_ops < 2 ^ 64" by (simp add: mixed_ops_def)
  show ?thesis
    using additions_resolved [OF sample_laws sample_reach(1) a(3,2,1) sample_fair add d l]
    by (elim exE conjE) (intro exI conjI, assumption, simp only: k)
qed

end
