(* ===== verification/RibHelpers.thy ===== *)
theory RibHelpers
  imports RibOps
begin

text \<open>
  \<open>rib/helpers.go\<close>: a RIB rebuilt from the entries of Get responses, and the fake RIB that
  tests fill entry by entry.
\<close>

subsection \<open>A RIB from Get responses\<close>

datatype helper_err =
    UnhandledResponseType | CannotBuildRIB string string | CannotCreateNIRIB string rib_err
  | InjectUnknownNI string | CannotInject rib_err

text \<open>The AFT message collected for each network instance; a nil \<open>entry\<close> is unhandled too.\<close>

definition add_response_entry :: "AFTEntry_Entry option \<Rightarrow> Afts_pb \<Rightarrow> helper_err + Afts_pb" where
  "add_response_entry t a =
     (case t of
        Some (AFTEntry_Ipv4 e) \<Rightarrow> Inr (a\<lparr>pb_Ipv4Entry := pb_Ipv4Entry a @ [e]\<rparr>)
      | Some (AFTEntry_Mpls e) \<Rightarrow> Inr (a\<lparr>pb_LabelEntry := pb_LabelEntry a @ [e]\<rparr>)
      | Some (AFTEntry_Ipv6 e) \<Rightarrow> Inr (a\<lparr>pb_Ipv6Entry := pb_Ipv6Entry a @ [e]\<rparr>)
      | Some (AFTEntry_NextHopGroup e) \<Rightarrow> Inr (a\<lparr>pb_NextHopGroup := pb_NextHopGroup a @ [e]\<rparr>)
      | Some (AFTEntry_NextHop e) \<Rightarrow> Inr (a\<lparr>pb_NextHop := pb_NextHop a @ [e]\<rparr>)
      | _ \<Rightarrow> Inl UnhandledResponseType)"

fun collect_entries :: "AFTEntry list \<Rightarrow> (string, Afts_pb) gomap \<Rightarrow> helper_err + (string, Afts_pb) gomap" where
  "collect_entries [] m = Inr m"
| "collect_entries (e # es) m =
     (let ni = ae_NetworkInstance e;
          a = (case gm_get m ni of None \<Rightarrow> empty_Afts_pb | Some a \<Rightarrow> a)
      in case add_response_entry (ae_Entry e) a of
           Inl err \<Rightarrow> Inl err
         | Inr a' \<Rightarrow> collect_entries es (gm_put ni a' m))"

text \<open>
  The loop over the collected messages.  \<open>GetOrCreateAfts\<close> creates the AFTs of a candidate
  without entries.  Assigning to the \<open>r\<close> field of a network instance that is not in the
  map dereferences nil, the panic of \<open>None\<close>.
\<close>

fun build_nis ::
    "rib_env \<Rightarrow> string \<Rightarrow> (string, Afts_pb) gomap \<Rightarrow> RIB \<Rightarrow> (helper_err + RIB) option" where
  "build_nis E dn [] r = Some (Inr r)"
| "build_nis E dn ((ni, a) # nis) r =
     (case candidate E a of
        Inl m \<Rightarrow> Some (Inl (CannotBuildRIB ni m))
      | Inr cr \<Rightarrow>
     (case (if ni \<noteq> dn then AddNetworkInstance ni r else (None, r)) of
        (Some e, _) \<Rightarrow> Some (Inl (CannotCreateNIRIB ni e))
      | (None, r1) \<Rightarrow>
     (case gm_get (niRIB r1) ni of
        None \<Rightarrow> None
      | Some rh \<Rightarrow> build_nis E dn nis (r1\<lparr>niRIB := gm_put ni (rh\<lparr>rh_r := Some (GetAfts cr)\<rparr>) (niRIB r1)\<rparr>))))"

definition FromGetResponses ::
    "rib_env \<Rightarrow> string \<Rightarrow> GetResponse list \<Rightarrow> RIBOpt list \<Rightarrow> (helper_err + RIB) option" where
  "FromGetResponses E dn responses opt =
     (case collect_entries (concat responses) [] of
        Inl e \<Rightarrow> Some (Inl e)
      | Inr niAFTs \<Rightarrow> build_nis E dn niAFTs (New dn opt))"

subsection \<open>The fake RIB\<close>

type_synonym fakeRIB = RIB

definition NewFake :: "string \<Rightarrow> RIBOpt list \<Rightarrow> fakeRIB" where
  "NewFake dn opt = New dn opt"

text \<open>The common part of the injections: only errors are reported, and no counter is touched.\<close>

definition inject ::
    "string \<Rightarrow> (check_fn \<Rightarrow> RIBHolder \<Rightarrow> (rib_err + 'a) \<times> RIBHolder) \<Rightarrow> fakeRIB \<Rightarrow> helper_err option \<times> fakeRIB" where
  "inject ni add f =
     (case NetworkInstanceRIB f ni of
        None \<Rightarrow> (Some (InjectUnknownNI ni), f)
      | Some niR \<Rightarrow>
          (case add (holder_check f niR) niR of
             (res, rh) \<Rightarrow> (case res of Inl e \<Rightarrow> Some (CannotInject e) | Inr _ \<Rightarrow> None,
                           f\<lparr>niRIB := gm_put ni rh (niRIB f)\<rparr>)))"

definition InjectIPv4 :: "rib_env \<Rightarrow> string \<Rightarrow> string \<Rightarrow> u64 \<Rightarrow> fakeRIB \<Rightarrow> helper_err option \<times> fakeRIB" where
  "InjectIPv4 E ni pfx nhg f =
     inject ni (\<lambda>chk. AddIPv4 E chk (Some \<lparr>v4k_Prefix = pfx, v4k_Ipv4Entry = Some
       \<lparr>v4pb_NextHopGroup = Some nhg, v4pb_NextHopGroupNetworkInstance = None, v4pb_EntryMetadata = None\<rparr>\<rparr>) False) f"

definition InjectIPv6 :: "rib_env \<Rightarrow> string \<Rightarrow> string \<Rightarrow> u64 \<Rightarrow> fakeRIB \<Rightarrow> helper_err option \<times> fakeRIB" where
  "InjectIPv6 E ni pfx nhg f =
     inject ni (\<lambda>chk. AddIPv6 E chk (Some \<lparr>v6k_Prefix = pfx, v6k_Ipv6Entry = Some
       \<lparr>v6pb_NextHopGroup = Some nhg, v6pb_NextHopGroupNetworkInstance = None, v6pb_EntryMetadata = None\<rparr>\<rparr>) False) f"

definition InjectNHG :: "rib_env \<Rightarrow> string \<Rightarrow> u64 \<Rightarrow> (u64, u64) gomap \<Rightarrow> fakeRIB \<Rightarrow> helper_err option \<times> fakeRIB" where
  "InjectNHG E ni nhgID nhs f =
     inject ni (\<lambda>chk. AddNextHopGroup E chk (Some \<lparr>nhgk_Id = nhgID, nhgk_NextHopGroup = Some
       \<lparr>nhgpb_NextHop = map (\<lambda>(nh, weight). \<lparr>nhgnhk_Index = nh,
            nhgnhk_NextHop = Some \<lparr>nhgnhpb_Weight = Some weight\<rparr>\<rparr>) nhs,
        nhgpb_BackupNextHopGroup = None\<rparr>\<rparr>) False) f"

definition InjectNH :: "rib_env \<Rightarrow> string \<Rightarrow> u64 \<Rightarrow> string \<Rightarrow> fakeRIB \<Rightarrow> helper_err option \<times> fakeRIB" where
  "InjectNH E ni nhIdx intName f =
     inject ni (\<lambda>chk. AddNextHop E chk (Some \<lparr>nhk_Index = nhIdx, nhk_NextHop = Some
       \<lparr>nhpb_IpAddress = None, nhpb_InterfaceRef = Some \<lparr>ifr_Interface = Some intName, ifr_Subinterface = None\<rparr>,
        nhpb_MacAddress = None, nhpb_IpInIp = None, nhpb_NetworkInstance = None, nhpb_PopTopLabel = None,
        nhpb_PushedMplsLabelStack = [], nhpb_EncapHeader = [], nhpb_DecapsulateHeader = ENCAP_UNSET,
        nhpb_EncapsulateHeader = ENCAP_UNSET\<rparr>\<rparr>) False) f"

definition InjectMPLS :: "rib_env \<Rightarrow> string \<Rightarrow> u64 \<Rightarrow> u64 \<Rightarrow> fakeRIB \<Rightarrow> helper_err option \<times> fakeRIB" where
  "InjectMPLS E ni label nhg f =
     inject ni (\<lambda>chk. AddMPLS E chk (Some \<lparr>lek_Label = Some (LabelUint64 label), lek_LabelEntry = Some
       \<lparr>lepb_NextHopGroup = Some nhg, lepb_NextHopGroupNetworkInstance = None, lepb_PoppedMplsLabelStack = []\<rparr>\<rparr>) False) f"

end
