(* ===== verification/Client.thy ===== *)
theory Client
  imports Server
begin

text \<open>
  The gRIBI client of \<open>client/gribiclient.go\<close>: its options, the queues of messages to send,
  of operations waiting for an answer and of results, the two goroutines of a Modify stream,
  and the Get and Flush RPCs.

  One definition per method; a method that changes the client returns it updated.  Calls of
  \<open>unixTS\<close> read the clock: a method that reads it once takes the reading, a loop takes the
  function from its reads to their values.  \<open>treat\<close> is the package variable
  \<open>TreatRIBACKAsCompletedInFIBACKMode\<close>.  \<open>None\<close> as the result of a method that writes to or
  closes \<open>modifyCh\<close> is the panic of doing so on a closed channel.

  API calls are taken one at a time, while the sender and the receiver run concurrently
  (\<open>sender_step\<close>, \<open>receiver_step\<close>).  Messages in \<open>modifyCh\<close> beyond its capacity are those of
  a call that is blocked in a channel write (\<open>blocked\<close>).  A call that waits for the two
  goroutines is split at that point.
\<close>

subsection \<open>Errors, options and configuration\<close>

datatype client_err =
    AllAndSinglePrimary | CannotCreateClient client_err
  | CannotDial string | AlreadyHasStub | MustStopToReplaceStub
  | CannotOpenModify string | StreamErr string
  | NilModifyResponse | FieldsMutuallyExclusive
  | DuplicatePendingID u64 | TreatRIBACKLogicError AckType | UnknownOperation u64
  | CannotRemovePending u64 client_err
  | CannotFindAcks "u64 list" | ClientErrs "client_err list" "client_err list" | ContextErr string
  | SessionAndOperation | MoreThanOneKey
  | GetRequestNil | GetNetworkInstanceNil | GetNameRequired | GetAFTRequired | CannotSendGet string | ErrorInGet string
  | FlushRequestNil | FlushEmptyName | FlushNeedsElection | FlushElectionNotSinglePrimary
  | FlushOverrideAllPrimary | FlushErrStatus string
  | ClientPanic

text \<open>An election ID option holds a pointer that may be nil.\<close>

datatype Opt = allPrimaryClients | electedPrimaryClient "Uint128 option" | persistEntries | fibACK

record cl_clientState =
  SessParams :: "SessionParameters option"
  ElectionID :: "Uint128 option"

definition zero_SessionParameters :: SessionParameters where
  "zero_SessionParameters = \<lparr>sp_Redundancy = ALL_PRIMARY, sp_Persistence = Persist_DELETE, sp_AckType = RIB_ACK\<rparr>"

fun handle_opts :: "Opt list \<Rightarrow> SessionParameters \<Rightarrow> Uint128 option \<Rightarrow> client_err + cl_clientState" where
  "handle_opts [] p e = Inr \<lparr>SessParams = Some p, ElectionID = e\<rparr>"
| "handle_opts (o' # os) p e =
     (case o' of
        allPrimaryClients \<Rightarrow>
          if e \<noteq> None then Inl AllAndSinglePrimary else handle_opts os (p\<lparr>sp_Redundancy := ALL_PRIMARY\<rparr>) e
      | electedPrimaryClient i \<Rightarrow> handle_opts os (p\<lparr>sp_Redundancy := SINGLE_PRIMARY\<rparr>) i
      | persistEntries \<Rightarrow> handle_opts os (p\<lparr>sp_Persistence := PRESERVE\<rparr>) e
      | fibACK \<Rightarrow> handle_opts os (p\<lparr>sp_AckType := RIB_AND_FIB_ACK\<rparr>) e)"

definition handleParams :: "Opt list \<Rightarrow> client_err + cl_clientState" where
  "handleParams opts =
     (if length opts = 0 then Inr \<lparr>SessParams = None, ElectionID = None\<rparr>
      else handle_opts opts zero_SessionParameters None)"

text \<open>\<open>SessParams.GetAckType()\<close>, of a pointer that may be nil.\<close>

definition GetAckType :: "SessionParameters option \<Rightarrow> AckType" where
  "GetAckType po = (case po of None \<Rightarrow> RIB_ACK | Some p \<Rightarrow> sp_AckType p)"

subsection \<open>State\<close>

record PendingOp =
  po_Timestamp :: u64
  po_Op :: AFTOperation

record ElectionReqDetails =
  erd_Timestamp :: u64
  erd_ID :: Uint128

record SessionParamReqDetails =
  spd_Timestamp :: u64
  spd_Outgoing :: SessionParameters

record pendingQueue =
  pq_Ops :: "(u64, PendingOp) gomap"
  pq_Election :: "ElectionReqDetails option"
  pq_SessionParams :: "SessionParamReqDetails option"

definition empty_pendingQueue :: pendingQueue where
  "empty_pendingQueue = \<lparr>pq_Ops = [], pq_Election = None, pq_SessionParams = None\<rparr>"

definition pendingQueue_Len :: "pendingQueue option \<Rightarrow> nat" where
  "pendingQueue_Len po =
     (case po of None \<Rightarrow> 0
      | Some p \<Rightarrow> (if pq_SessionParams p \<noteq> None then 1 else 0) + (if pq_Election p \<noteq> None then 1 else 0) + length (pq_Ops p))"

datatype PendingRequest =
  PendingRequest_Op PendingOp | PendingRequest_Election ElectionReqDetails
| PendingRequest_SessionParams SessionParamReqDetails

record OpDetailsResults =
  odr_Type :: OpType
  odr_NextHopIndex :: u64
  odr_NextHopGroupID :: u64
  odr_IPv4Prefix :: string
  odr_IPv6Prefix :: string
  odr_MPLSLabel :: u64

text \<open>The server's error message is kept as the model's message; an absent one is \<open>None\<close>.\<close>

record ClientOpResult =
  cor_Timestamp :: u64
  cor_Latency :: u64
  cor_CurrentServerElectionID :: "Uint128 option"
  cor_SessionParameters :: "SessionParametersResult option"
  cor_OperationID :: u64
  cor_ClientError :: string
  cor_ServerError :: "result_msg option"
  cor_ProgrammingResult :: AFTResult_Status
  cor_Details :: "OpDetailsResults option"

definition zero_OpResult :: ClientOpResult where
  "zero_OpResult = \<lparr>cor_Timestamp = 0, cor_Latency = 0, cor_CurrentServerElectionID = None,
     cor_SessionParameters = None, cor_OperationID = 0, cor_ClientError = [], cor_ServerError = None,
     cor_ProgrammingResult = Res_UNSET, cor_Details = None\<rparr>"

record clientQs =
  sendq :: "ModifyRequest list"
  pendq :: pendingQueue
  modifyCh :: "ModifyRequest list"
  modifyCh_closed :: bool
  resultq :: "ClientOpResult option list"
  sending :: bool

text \<open>
  The gRPC stub is outside the repository: what its calls return is a parameter.  A Get
  stream is the messages received and the error after them, \<open>None\<close> being \<open>io.EOF\<close>.
\<close>

datatype FlushResult = Flush_UNSET | Flush_OK | NON_ZERO_REFERENCE_REMAIN

record FlushResponse =
  flr_Timestamp :: u64
  flr_Result :: FlushResult

record GRIBIClient =
  stub_Modify :: "string option"
  stub_Get :: "GetRequest \<Rightarrow> string + GetResponse list \<times> string option"
  stub_Flush :: "FlushRequest \<Rightarrow> string + FlushResponse"

text \<open>\<open>sendExitCh\<close> is nil before the first \<open>Connect\<close>; the sender writes to it and closes it.\<close>

datatype exitCh = ExitNil | ExitOpen | ExitClosed

text \<open>\<open>sender\<close> and \<open>receiver\<close> say which goroutines run; they are what \<open>wg\<close> counts.\<close>

record Client =
  cl_state :: cl_clientState
  cl_c :: "GRIBIClient option"
  cl_conn :: bool
  qs :: clientQs
  shut :: bool
  sendErr :: "client_err list"
  readErr :: "client_err list"
  doneCh :: bool
  sendExitCh :: exitCh
  sender :: bool
  receiver :: bool

definition modifyBuffer :: nat where
  "modifyBuffer = 5"

definition NewClient :: "Opt list \<Rightarrow> client_err + Client" where
  "NewClient opts =
     (case handleParams opts of
        Inl e \<Rightarrow> Inl (CannotCreateClient e)
      | Inr s \<Rightarrow> Inr \<lparr>cl_state = s, cl_c = None, cl_conn = False,
          qs = \<lparr>sendq = [], pendq = empty_pendingQueue, modifyCh = [], modifyCh_closed = False, resultq = [], sending = False\<rparr>,
          shut = False, sendErr = [], readErr = [], doneCh = False, sendExitCh = ExitNil, sender = False, receiver = False\<rparr>)"

text \<open>\<open>Dial\<close> is given what \<open>grpc.NewClient\<close> and \<open>NewGRIBIClient\<close> return.\<close>

definition Dial :: "string + GRIBIClient \<Rightarrow> Client \<Rightarrow> client_err option \<times> Client" where
  "Dial conn c = (case conn of
     Inl e \<Rightarrow> (Some (CannotDial e), c)
   | Inr stub \<Rightarrow> (None, c\<lparr>cl_conn := True, cl_c := Some stub\<rparr>))"

definition UseStub :: "GRIBIClient \<Rightarrow> Client \<Rightarrow> client_err option \<times> Client" where
  "UseStub stub c = (if cl_c c \<noteq> None then (Some AlreadyHasStub, c) else (None, c\<lparr>cl_c := Some stub\<rparr>))"

definition ReplaceStub :: "GRIBIClient \<Rightarrow> Client \<Rightarrow> client_err option \<times> Client" where
  "ReplaceStub stub c =
     (if sending (qs c) then (Some MustStopToReplaceStub, c) else (None, c\<lparr>cl_c := Some stub\<rparr>))"

definition addReadErr :: "client_err \<Rightarrow> Client \<Rightarrow> Client" where
  "addReadErr e c = c\<lparr>readErr := readErr c @ [e]\<rparr>"

definition addSendErr :: "client_err \<Rightarrow> Client \<Rightarrow> Client" where
  "addSendErr e c = c\<lparr>sendErr := sendErr c @ [e]\<rparr>"

text \<open>The fields of the queues, updated in place.\<close>

definition set_pendq :: "pendingQueue \<Rightarrow> Client \<Rightarrow> Client" where
  "set_pendq p c = c\<lparr>qs := (qs c)\<lparr>pendq := p\<rparr>\<rparr>"

definition add_result :: "ClientOpResult option \<Rightarrow> Client \<Rightarrow> Client" where
  "add_result r c = c\<lparr>qs := (qs c)\<lparr>resultq := resultq (qs c) @ [r]\<rparr>\<rparr>"

subsection \<open>The pending queue\<close>

definition addPendingOp :: "u64 \<Rightarrow> AFTOperation \<Rightarrow> Client \<Rightarrow> client_err option \<times> Client" where
  "addPendingOp ts op c =
     (let p = pendq (qs c)
      in if gm_get (pq_Ops p) (op_Id op) \<noteq> None then (Some (DuplicatePendingID (op_Id op)), c)
         else (None, set_pendq (p\<lparr>pq_Ops := gm_put (op_Id op) \<lparr>po_Timestamp = ts, po_Op = op\<rparr> (pq_Ops p)\<rparr>) c))"

definition updatePendingElection :: "u64 \<Rightarrow> Uint128 \<Rightarrow> Client \<Rightarrow> Client" where
  "updatePendingElection ts i c =
     set_pendq ((pendq (qs c))\<lparr>pq_Election := Some \<lparr>erd_Timestamp = ts, erd_ID = i\<rparr>\<rparr>) c"

definition clearPendingElection :: "u64 \<Rightarrow> Client \<Rightarrow> ClientOpResult \<times> Client" where
  "clearPendingElection ts c =
     (case pq_Election (pendq (qs c)) of
        None \<Rightarrow> (zero_OpResult\<lparr>cor_Timestamp := ts,
                   cor_ClientError := ''received a election update when there was none pending''\<rparr>, c)
      | Some e \<Rightarrow> (zero_OpResult\<lparr>cor_Timestamp := ts, cor_Latency := ts - erd_Timestamp e\<rparr>,
                   set_pendq ((pendq (qs c))\<lparr>pq_Election := None\<rparr>) c))"

definition pendingSessionParams :: "u64 \<Rightarrow> SessionParameters \<Rightarrow> Client \<Rightarrow> Client" where
  "pendingSessionParams ts out c =
     set_pendq ((pendq (qs c))\<lparr>pq_SessionParams := Some \<lparr>spd_Timestamp = ts, spd_Outgoing = out\<rparr>\<rparr>) c"

definition clearPendingSessionParams :: "u64 \<Rightarrow> Client \<Rightarrow> ClientOpResult \<times> Client" where
  "clearPendingSessionParams ts c =
     (case pq_SessionParams (pendq (qs c)) of
        None \<Rightarrow> (zero_OpResult\<lparr>cor_Timestamp := ts,
                   cor_ClientError := ''received a session parameter result when there was none pending''\<rparr>, c)
      | Some e \<Rightarrow> (zero_OpResult\<lparr>cor_Timestamp := ts, cor_Latency := ts - spd_Timestamp e\<rparr>,
                   set_pendq ((pendq (qs c))\<lparr>pq_SessionParams := None\<rparr>) c))"

text \<open>Whether a result ends its operation: the switch on the status of \<open>clearPendingOp\<close>.\<close>

definition dequeues :: "bool \<Rightarrow> AckType \<Rightarrow> AFTResult_Status \<Rightarrow> bool" where
  "dequeues treat ack st = (case st of
     FIB_FAILED \<Rightarrow> True | FIB_PROGRAMMED \<Rightarrow> True
   | RIB_PROGRAMMED \<Rightarrow> (if treat then True else if ack \<noteq> RIB_AND_FIB_ACK then True else False)
   | Res_FAILED \<Rightarrow> True | _ \<Rightarrow> False)"

text \<open>The details of an operation; the getters of a nil entry return zero values.\<close>

definition op_details :: "AFTOperation \<Rightarrow> OpDetailsResults" where
  "op_details op =
     (let det = \<lparr>odr_Type = OpFromAFTOp (op_Op op), odr_NextHopIndex = 0, odr_NextHopGroupID = 0,
                 odr_IPv4Prefix = [], odr_IPv6Prefix = [], odr_MPLSLabel = 0\<rparr>
      in case op_Entry op of
           Some (AFTOp_Ipv4 e) \<Rightarrow> det\<lparr>odr_IPv4Prefix := (case e of None \<Rightarrow> [] | Some k \<Rightarrow> v4k_Prefix k)\<rparr>
         | Some (AFTOp_Ipv6 e) \<Rightarrow> det\<lparr>odr_IPv6Prefix := (case e of None \<Rightarrow> [] | Some k \<Rightarrow> v6k_Prefix k)\<rparr>
         | Some (AFTOp_Mpls e) \<Rightarrow> det\<lparr>odr_MPLSLabel := (case e of None \<Rightarrow> 0 | Some k \<Rightarrow> GetLabelUint64 k)\<rparr>
         | Some (AFTOp_NextHopGroup e) \<Rightarrow> det\<lparr>odr_NextHopGroupID := (case e of None \<Rightarrow> 0 | Some k \<Rightarrow> nhgk_Id k)\<rparr>
         | Some (AFTOp_NextHop e) \<Rightarrow> det\<lparr>odr_NextHopIndex := (case e of None \<Rightarrow> 0 | Some k \<Rightarrow> nhk_Index k)\<rparr>
         | _ \<Rightarrow> det)"

definition clearPendingOp ::
    "bool \<Rightarrow> u64 \<Rightarrow> AFTResult \<Rightarrow> Client \<Rightarrow> (ClientOpResult option \<times> client_err option) \<times> Client" where
  "clearPendingOp treat ts op c =
     (let ack = GetAckType (SessParams (cl_state c)); p = pendq (qs c)
      in if treat \<and> ack \<noteq> RIB_AND_FIB_ACK then ((None, Some (TreatRIBACKLogicError ack)), c)
         else case gm_get (pq_Ops p) (res_Id op) of
           None \<Rightarrow>
             (if res_Status op = FIB_PROGRAMMED \<and> treat then ((None, None), c)
              else if res_Status op = RIB_PROGRAMMED \<and> ack = RIB_AND_FIB_ACK
              then ((Some (zero_OpResult\<lparr>cor_Timestamp := ts, cor_OperationID := res_Id op,
                           cor_ProgrammingResult := res_Status op\<rparr>), None), c)
              else ((None, Some (UnknownOperation (res_Id op))), c))
         | Some v \<Rightarrow>
             ((Some (zero_OpResult\<lparr>cor_Timestamp := ts, cor_Latency := ts - po_Timestamp v,
                 cor_OperationID := res_Id op, cor_ProgrammingResult := res_Status op,
                 cor_ServerError := res_ErrorDetails op, cor_Details := Some (op_details (po_Op v))\<rparr>), None),
              (if dequeues treat ack (res_Status op) then set_pendq (p\<lparr>pq_Ops := gm_del (res_Id op) (pq_Ops p)\<rparr>) c
               else c)))"

subsection \<open>Messages sent and received\<close>

text \<open>The loop over the operations stops at the first duplicate.\<close>

fun add_ops :: "(nat \<Rightarrow> u64) \<Rightarrow> nat \<Rightarrow> AFTOperation list \<Rightarrow> Client \<Rightarrow> client_err option \<times> Client" where
  "add_ops clk n [] c = (None, c)"
| "add_ops clk n (o' # os) c =
     (case addPendingOp (clk n) o' c of
        (Some e, c') \<Rightarrow> (Some e, c')
      | (None, c') \<Rightarrow> add_ops clk (Suc n) os c')"

definition handleModifyRequest :: "(nat \<Rightarrow> u64) \<Rightarrow> ModifyRequest \<Rightarrow> Client \<Rightarrow> client_err option \<times> Client" where
  "handleModifyRequest clk m c =
     (case add_ops clk 0 (mreq_Operation m) c of
        (Some e, c1) \<Rightarrow> (Some e, c1)
      | (None, c1) \<Rightarrow>
          (let n = length (mreq_Operation m);
               c2 = (case mreq_ElectionId m of None \<Rightarrow> c1 | Some i \<Rightarrow> updatePendingElection (clk n) i c1);
               c3 = (case mreq_Params m of None \<Rightarrow> c2 | Some p \<Rightarrow> pendingSessionParams (clk (Suc n)) p c2)
           in (None, c3)))"

fun clear_results ::
    "bool \<Rightarrow> (nat \<Rightarrow> u64) \<Rightarrow> nat \<Rightarrow> AFTResult list \<Rightarrow> Client \<Rightarrow> client_err option \<times> Client" where
  "clear_results treat clk n [] c = (None, c)"
| "clear_results treat clk n (r # rs) c =
     (case clearPendingOp treat (clk n) r c of
        ((res, err), c1) \<Rightarrow>
          (let c2 = add_result res c1
           in case err of
                Some e \<Rightarrow> (Some (CannotRemovePending (res_Id r) e), c2)
              | None \<Rightarrow> clear_results treat clk (Suc n) rs c2))"

definition handleModifyResponse ::
    "bool \<Rightarrow> (nat \<Rightarrow> u64) \<Rightarrow> ModifyResponse option \<Rightarrow> Client \<Rightarrow> client_err option \<times> Client" where
  "handleModifyResponse treat clk mo c =
     (case mo of
        None \<Rightarrow> (Some NilModifyResponse, c)
      | Some m \<Rightarrow>
          (let resPop = (resp_Result m \<noteq> []); elecPop = (resp_ElectionId m \<noteq> None);
               sessPop = (resp_SessionParamsResult m \<noteq> None)
           in if 1 < length (filter (\<lambda>v. v) [resPop, elecPop, sessPop]) then (Some FieldsMutuallyExclusive, c)
              else
               (let c1 = (case resp_ElectionId m of None \<Rightarrow> c
                     | Some i \<Rightarrow> (case clearPendingElection (clk 0) c of
                         (er, c') \<Rightarrow> add_result (Some (er\<lparr>cor_CurrentServerElectionID := Some i\<rparr>)) c'));
                    c2 = (case resp_SessionParamsResult m of None \<Rightarrow> c1
                     | Some s \<Rightarrow> (case clearPendingSessionParams (clk 1) c1 of
                         (sr, c') \<Rightarrow> add_result (Some (sr\<lparr>cor_SessionParameters := Some s\<rparr>)) c'))
                in clear_results treat clk 2 (resp_Result m) c2)))"

text \<open>A write to \<open>modifyCh\<close>; a message is dropped once the sender has exited.\<close>

definition chIsClosed :: "exitCh \<Rightarrow> bool" where
  "chIsClosed ch = (ch = ExitClosed)"

definition q :: "ModifyRequest \<Rightarrow> Client \<Rightarrow> Client option" where
  "q m c =
     (if \<not> chIsClosed (sendExitCh c) then
        (if modifyCh_closed (qs c) then None
         else Some (c\<lparr>qs := (qs c)\<lparr>modifyCh := modifyCh (qs c) @ [m]\<rparr>\<rparr>))
      else Some c)"

definition blocked :: "Client \<Rightarrow> bool" where
  "blocked c = (modifyBuffer < length (modifyCh (qs c)))"

definition Q :: "(nat \<Rightarrow> u64) \<Rightarrow> ModifyRequest \<Rightarrow> Client \<Rightarrow> Client option" where
  "Q clk m c =
     (let c1 = (case handleModifyRequest clk m c of (Some e, c') \<Rightarrow> addSendErr e c' | (None, c') \<Rightarrow> c')
      in if \<not> sending (qs c1) then Some (c1\<lparr>qs := (qs c1)\<lparr>sendq := sendq (qs c1) @ [m]\<rparr>\<rparr>)
         else q m c1)"

definition params_request :: "SessionParameters \<Rightarrow> ModifyRequest" where
  "params_request p = \<lparr>mreq_Operation = [], mreq_ElectionId = None, mreq_Params = Some p\<rparr>"

definition election_request :: "Uint128 \<Rightarrow> ModifyRequest" where
  "election_request i = \<lparr>mreq_Operation = [], mreq_ElectionId = Some i, mreq_Params = None\<rparr>"

fun q_all :: "ModifyRequest list \<Rightarrow> Client \<Rightarrow> Client option" where
  "q_all [] c = Some c"
| "q_all (m # ms) c = (case q m c of None \<Rightarrow> None | Some c' \<Rightarrow> q_all ms c')"

text \<open>The two clock functions are those of the calls that queue the parameters and the election.\<close>

definition StartSending :: "(nat \<Rightarrow> u64) \<Rightarrow> (nat \<Rightarrow> u64) \<Rightarrow> Client \<Rightarrow> Client option" where
  "StartSending clkp clke c =
     (let c1 = c\<lparr>qs := (qs c)\<lparr>sending := True\<rparr>\<rparr>
      in case (case SessParams (cl_state c1) of None \<Rightarrow> Some c1 | Some p \<Rightarrow> Q clkp (params_request p) c1) of
           None \<Rightarrow> None
         | Some c2 \<Rightarrow>
      (case (case ElectionID (cl_state c2) of None \<Rightarrow> Some c2 | Some i \<Rightarrow> Q clke (election_request i) c2) of
           None \<Rightarrow> None
         | Some c3 \<Rightarrow>
      (case q_all (sendq (qs c3)) c3 of
           None \<Rightarrow> None
         | Some c4 \<Rightarrow> Some (c4\<lparr>qs := (qs c4)\<lparr>sendq := []\<rparr>\<rparr>))))"

definition StopSending :: "Client \<Rightarrow> Client" where
  "StopSending c = c\<lparr>qs := (qs c)\<lparr>sending := False\<rparr>\<rparr>"

subsection \<open>The Modify stream\<close>

text \<open>\<open>Connect\<close> is for a client whose goroutines do not run.\<close>

definition Connect :: "Client \<Rightarrow> client_err option \<times> Client" where
  "Connect c =
     (let c1 = c\<lparr>shut := False, sendExitCh := ExitOpen\<rparr>
      in case cl_c c1 of
           None \<Rightarrow> (Some ClientPanic, c1)
         | Some stub \<Rightarrow>
             (case stub_Modify stub of
                Some e \<Rightarrow> (Some (CannotOpenModify e), c1)
              | None \<Rightarrow> (None, c1\<lparr>sender := True, receiver := True\<rparr>)))"

text \<open>The non-blocking write of \<open>informDone\<close> fills the one-place channel.\<close>

definition informDone :: "Client \<Rightarrow> Client" where
  "informDone c = c\<lparr>doneCh := True\<rparr>"

text \<open>What \<open>stream.Recv\<close> returns.\<close>

datatype recv_event = RecvMsg "ModifyResponse option" | RecvEOF | RecvErr string

definition respHandler :: "bool \<Rightarrow> (nat \<Rightarrow> u64) \<Rightarrow> recv_event \<Rightarrow> Client \<Rightarrow> bool \<times> Client" where
  "respHandler treat clk ev c =
     (case ev of
        RecvEOF \<Rightarrow> (True, c\<lparr>shut := True\<rparr>)
      | RecvErr e \<Rightarrow> (True, addReadErr (StreamErr e) c)
      | RecvMsg m \<Rightarrow>
          (case handleModifyResponse treat clk m c of
             (Some e, c') \<Rightarrow> (True, addReadErr e c')
           | (None, c') \<Rightarrow> (False, c')))"

text \<open>One round of the receiver's loop.\<close>

definition receiver_step :: "bool \<Rightarrow> (nat \<Rightarrow> u64) \<Rightarrow> recv_event \<Rightarrow> Client \<Rightarrow> Client" where
  "receiver_step treat clk ev c =
     (let exit = (\<lambda>c. informDone (c\<lparr>receiver := False\<rparr>))
      in if shut c then exit c
         else case respHandler treat clk ev c of
           (True, c') \<Rightarrow> exit c'
         | (False, c') \<Rightarrow> c')"

text \<open>
  One round of the sender's loop, given what \<open>stream.Send\<close> returns for the message; the
  first result is the message handed to the stream.  \<open>None\<close> is a sender that waits.
\<close>

definition sender_step :: "string option \<Rightarrow> Client \<Rightarrow> (ModifyRequest option \<times> Client) option" where
  "sender_step send_err c =
     (let exit = (\<lambda>c. informDone (c\<lparr>sendExitCh := ExitClosed, sender := False\<rparr>))
      in if shut c then Some (None, exit c)
         else case modifyCh (qs c) of
           [] \<Rightarrow> if modifyCh_closed (qs c) then Some (None, exit c) else None
         | m # ms \<Rightarrow>
             (let c' = c\<lparr>qs := (qs c)\<lparr>modifyCh := ms\<rparr>\<rparr>
              in case send_err of
                   Some e \<Rightarrow> Some (Some m, exit (addSendErr (StreamErr e) c'))
                 | None \<Rightarrow> Some (Some m, c')))"

text \<open>\<open>disconnect\<close> up to \<open>wg.Wait\<close>, which returns when neither goroutine runs.\<close>

definition disconnect :: "Client \<Rightarrow> Client option" where
  "disconnect c =
     (if sendExitCh c = ExitNil \<or> chIsClosed (sendExitCh c) then Some c
      else if modifyCh_closed (qs c) then None
      else Some (c\<lparr>qs := (qs c)\<lparr>modifyCh_closed := True\<rparr>\<rparr>))"

definition disconnected :: "Client \<Rightarrow> bool" where
  "disconnected c = (\<not> sender c \<and> \<not> receiver c)"

text \<open>\<open>Close\<close> also closes the connection, whose error it returns, after waiting.\<close>

definition Close :: "Client \<Rightarrow> Client option" where
  "Close c = disconnect c"

text \<open>\<open>Reset\<close> before and after waiting for the goroutines.\<close>

definition Reset_begin :: "Client \<Rightarrow> Client option" where
  "Reset_begin c = disconnect (StopSending c)"

definition Reset_end :: "Client \<Rightarrow> Client" where
  "Reset_end c = c\<lparr>sendErr := [], readErr := [],
     qs := (qs c)\<lparr>sendq := [], pendq := empty_pendingQueue, resultq := [], modifyCh := [], modifyCh_closed := False\<rparr>,
     doneCh := False\<rparr>"

subsection \<open>Results, status and convergence\<close>

definition Pending :: "Client \<Rightarrow> PendingRequest list" where
  "Pending c =
     (let p = pendq (qs c)
      in map (\<lambda>i. PendingRequest_Op (the (gm_get (pq_Ops p) i))) (sort (map fst (pq_Ops p))) @
         (case pq_Election p of None \<Rightarrow> [] | Some e \<Rightarrow> [PendingRequest_Election e]) @
         (case pq_SessionParams p of None \<Rightarrow> [] | Some s \<Rightarrow> [PendingRequest_SessionParams s]))"

definition Results :: "Client \<Rightarrow> ClientOpResult option list" where
  "Results c = resultq (qs c)"

text \<open>
  The results to acknowledge and those of the queue are pointers; dereferencing a nil one
  panics.  The error lists the identifiers that no result of the queue has.
\<close>

definition AckResult :: "ClientOpResult option list \<Rightarrow> Client \<Rightarrow> client_err option \<times> Client" where
  "AckResult res c =
     (if list_ex (\<lambda>r. r = None) res \<or> list_ex (\<lambda>r. r = None) (resultq (qs c)) then (Some ClientPanic, c)
      else
       (let toACK = remdups (map (\<lambda>r. cor_OperationID (the r)) res);
            found = (\<lambda>k. list_ex (\<lambda>r. cor_OperationID (the r) = k) (resultq (qs c)));
            missing = filter (\<lambda>k. \<not> found k) toACK
        in (if missing = [] then None else Some (CannotFindAcks missing),
            c\<lparr>qs := (qs c)\<lparr>resultq := filter (\<lambda>r. cor_OperationID (the r) \<notin> set toACK) (resultq (qs c))\<rparr>\<rparr>)))"

record ClientStatus =
  cst_Timestamp :: u64
  cst_PendingTransactions :: "PendingRequest list"
  cst_Results :: "ClientOpResult option list"
  cst_SendErrs :: "client_err list"
  cst_ReadErrs :: "client_err list"

definition Status :: "u64 \<Rightarrow> Client \<Rightarrow> ClientStatus" where
  "Status ts c = \<lparr>cst_Timestamp = ts, cst_PendingTransactions = Pending c, cst_Results = Results c,
     cst_SendErrs = sendErr c, cst_ReadErrs = readErr c\<rparr>"

definition isConverged :: "Client \<Rightarrow> bool" where
  "isConverged c = (length (sendq (qs c)) = 0 \<and> pendingQueue_Len (Some (pendq (qs c))) = 0)"

definition hasErrors :: "Client \<Rightarrow> client_err list \<times> client_err list" where
  "hasErrors c = (if length (readErr c) \<noteq> 0 \<or> length (sendErr c) \<noteq> 0 then (sendErr c, readErr c) else ([], []))"

text \<open>
  One check of \<open>AwaitConverged\<close> (\<open>None\<close> is to go on waiting), and its loop over the states
  it sees, each with the error of the context then; \<open>None\<close> is a call that still waits.
\<close>

definition await_poll :: "Client \<Rightarrow> client_err option option" where
  "await_poll c =
     (case hasErrors c of (sendE, recvE) \<Rightarrow>
        if length sendE \<noteq> 0 \<or> length recvE \<noteq> 0 then Some (Some (ClientErrs sendE recvE))
        else if isConverged c then Some None else None)"

fun AwaitConverged :: "(string option \<times> Client) list \<Rightarrow> client_err option option" where
  "AwaitConverged [] = None"
| "AwaitConverged ((ctx, c) # rest) =
     (case ctx of
        Some e \<Rightarrow> Some (Some (ContextErr e))
      | None \<Rightarrow> (case await_poll c of Some r \<Rightarrow> Some r | None \<Rightarrow> AwaitConverged rest))"

subsection \<open>Get and Flush\<close>

text \<open>The \<open>All\<close> member of a request is never a nil message here.\<close>

definition ClientGet :: "GetRequest option \<Rightarrow> Client \<Rightarrow> client_err + GetResponse" where
  "ClientGet sreqo c =
     (case sreqo of
        None \<Rightarrow> Inl GetRequestNil
      | Some sreq \<Rightarrow>
          if get_NetworkInstance sreq = None then Inl GetNetworkInstanceNil
          else if get_NetworkInstance sreq = Some (NI_Name []) then Inl GetNameRequired
          else if get_Aft sreq = AFT_INVALID then Inl GetAFTRequired
          else
     (case cl_c c of
        None \<Rightarrow> Inl ClientPanic
      | Some stub \<Rightarrow>
     (case stub_Get stub sreq of
        Inl e \<Rightarrow> Inl (CannotSendGet e)
      | Inr (_, Some e) \<Rightarrow> Inl (ErrorInGet e)
      | Inr (msgs, None) \<Rightarrow> Inr (concat msgs))))"

definition ClientFlush :: "FlushRequest option \<Rightarrow> Client \<Rightarrow> client_err + FlushResponse" where
  "ClientFlush reqo c =
     (case reqo of
        None \<Rightarrow> Inl FlushRequestNil
      | Some req \<Rightarrow>
     (let single = (case SessParams (cl_state c) of None \<Rightarrow> False | Some p \<Rightarrow> sp_Redundancy p = SINGLE_PRIMARY)
      in if flush_NetworkInstance req = Some (NI_Name []) then Inl FlushEmptyName
         else if flush_Election req = None \<and> ElectionID (cl_state c) \<noteq> None then Inl FlushNeedsElection
         else if (case flush_Election req of Some (Flush_Id _) \<Rightarrow> \<not> single | _ \<Rightarrow> False)
         then Inl FlushElectionNotSinglePrimary
         else if flush_Election req = Some Flush_Override \<and> \<not> single then Inl FlushOverrideAllPrimary
         else
     (case cl_c c of
        None \<Rightarrow> Inl ClientPanic
      | Some stub \<Rightarrow>
     (case stub_Flush stub req of
        Inl e \<Rightarrow> Inl (FlushErrStatus e)
      | Inr res \<Rightarrow> Inr res))))"

subsection \<open>Results as protobufs\<close>

datatype Details_T = T_UNKNOWN | T_ADD | T_REPLACE | T_DELETE

datatype Details_Result =
  NexthopIndex u64 | NexthopGroupId u64 | Ipv4Prefix string | Ipv6Prefix string | MplsLabel u64

record Details_pb =
  det_Type :: Details_T
  det_Result :: "Details_Result option"

datatype OpResult_Kind =
  Kind_Session "Uint128 option" "SessionParametersResult option"
| Kind_Operation u64 AFTResult_Status "Details_pb option"

record OpResult_pb =
  orp_Timestamp :: u64
  orp_Latency :: u64
  orp_ClientError :: string
  orp_ServerError :: "result_msg option"
  orp_Kind :: "OpResult_Kind option"

text \<open>A key is set unless it has its zero value; a second one is an error.\<close>

definition set_key :: "bool \<Rightarrow> Details_Result \<Rightarrow> client_err + Details_Result option \<Rightarrow> client_err + Details_Result option" where
  "set_key present k r =
     (case r of Inl e \<Rightarrow> Inl e
      | Inr d \<Rightarrow> if present \<and> d \<noteq> None then Inl MoreThanOneKey
                 else if present then Inr (Some k) else Inr d)"

definition details_proto :: "OpDetailsResults \<Rightarrow> client_err + Details_pb" where
  "details_proto d =
     (let typ = (case odr_Type d of Add \<Rightarrow> T_ADD | Replace \<Rightarrow> T_REPLACE | Delete \<Rightarrow> T_DELETE | _ \<Rightarrow> T_UNKNOWN);
          r1 = set_key (odr_NextHopIndex d \<noteq> 0) (NexthopIndex (odr_NextHopIndex d)) (Inr None);
          r2 = set_key (odr_NextHopGroupID d \<noteq> 0) (NexthopGroupId (odr_NextHopGroupID d)) r1;
          r3 = set_key (odr_IPv4Prefix d \<noteq> []) (Ipv4Prefix (odr_IPv4Prefix d)) r2;
          r4 = set_key (odr_IPv6Prefix d \<noteq> []) (Ipv6Prefix (odr_IPv6Prefix d)) r3;
          r5 = set_key (odr_MPLSLabel d \<noteq> 0) (MplsLabel (odr_MPLSLabel d)) r4
      in case r5 of Inl e \<Rightarrow> Inl e | Inr res \<Rightarrow> Inr \<lparr>det_Type = typ, det_Result = res\<rparr>)"

definition OpResult_Proto :: "ClientOpResult option \<Rightarrow> client_err + OpResult_pb option" where
  "OpResult_Proto oo =
     (case oo of
        None \<Rightarrow> Inr None
      | Some o' \<Rightarrow>
          (let session = (cor_CurrentServerElectionID o' \<noteq> None \<or> cor_SessionParameters o' \<noteq> None);
               operation = (cor_OperationID o' \<noteq> 0 \<or> cor_ProgrammingResult o' \<noteq> Res_UNSET \<or> cor_Details o' \<noteq> None);
               ret = (\<lambda>k. Inr (Some \<lparr>orp_Timestamp = cor_Timestamp o', orp_Latency = cor_Latency o',
                        orp_ClientError = cor_ClientError o', orp_ServerError = cor_ServerError o', orp_Kind = k\<rparr>))
           in if session \<and> operation then Inl SessionAndOperation
              else if session then ret (Some (Kind_Session (cor_CurrentServerElectionID o') (cor_SessionParameters o')))
              else if operation then
                (case cor_Details o' of
                   None \<Rightarrow> ret (Some (Kind_Operation (cor_OperationID o') (cor_ProgrammingResult o') None))
                 | Some d \<Rightarrow>
                     (case details_proto d of
                        Inl e \<Rightarrow> Inl e
                      | Inr dp \<Rightarrow> ret (Some (Kind_Operation (cor_OperationID o') (cor_ProgrammingResult o') (Some dp)))))
              else ret None))"

end
