(* ===== verification/Remote.thy ===== *)
theory Remote
  imports RibHelpers Client
begin

text \<open>
  \<open>rib/reconciler/remote.go\<close>: the RIB of a remote gRIBI server as a target of the reconciler.
  Its contents are read with one Get RPC of the client and rebuilt into a RIB without checks.
\<close>

datatype remote_err =
    CannotCreateGRIBIClient client_err | CannotDialRemote client_err | CannotSetGRIBIClient client_err
  | CannotGetRemote client_err | CannotBuildRemote helper_err

record RemoteRIB =
  rr_c :: Client
  rr_defaultName :: string

text \<open>\<open>conn\<close> is what dialling the address gives.\<close>

definition NewRemoteRIB :: "string + GRIBIClient \<Rightarrow> string \<Rightarrow> remote_err + RemoteRIB" where
  "NewRemoteRIB conn defName =
     (case NewClient [] of
        Inl e \<Rightarrow> Inl (CannotCreateGRIBIClient e)
      | Inr gc \<Rightarrow>
          (case Dial conn gc of
             (Some e, _) \<Rightarrow> Inl (CannotDialRemote e)
           | (None, c) \<Rightarrow> Inr \<lparr>rr_c = c, rr_defaultName = defName\<rparr>))"

definition NewRemoteRIBWithStub :: "string \<Rightarrow> GRIBIClient \<Rightarrow> remote_err + RemoteRIB" where
  "NewRemoteRIBWithStub defName stub =
     (case NewClient [] of
        Inl e \<Rightarrow> Inl (CannotCreateGRIBIClient e)
      | Inr c \<Rightarrow>
          (case UseStub stub c of
             (Some e, _) \<Rightarrow> Inl (CannotSetGRIBIClient e)
           | (None, c') \<Rightarrow> Inr \<lparr>rr_c = c', rr_defaultName = defName\<rparr>))"

text \<open>\<open>CleanUp\<close> closes the client; its error is dropped, and \<open>None\<close> is the client's panic.\<close>

definition RemoteRIB_CleanUp :: "RemoteRIB \<Rightarrow> RemoteRIB option" where
  "RemoteRIB_CleanUp r = (case Close (rr_c r) of None \<Rightarrow> None | Some c \<Rightarrow> Some (r\<lparr>rr_c := c\<rparr>))"

definition RemoteRIB_Get :: "rib_env \<Rightarrow> RemoteRIB \<Rightarrow> (remote_err + RIB) option" where
  "RemoteRIB_Get E r =
     (case ClientGet (Some \<lparr>get_NetworkInstance = Some NI_All, get_Aft = AFT_ALL\<rparr>) (rr_c r) of
        Inl e \<Rightarrow> Some (Inl (CannotGetRemote e))
      | Inr resp \<Rightarrow>
          (case FromGetResponses E (rr_defaultName r) [resp] [DisableRIBCheckFn] of
             None \<Rightarrow> None
           | Some (Inl e) \<Rightarrow> Some (Inl (CannotBuildRemote e))
           | Some (Inr remRIB) \<Rightarrow> Some (Inr remRIB)))"

end
