(* ===== verification/ReconcileDiff.thy ===== *)
theory ReconcileDiff
  imports ProgramStep
begin

text \<open>
  The result of \<open>diff\<close>: it always finds a difference for RIBs whose entries its protobuf
  libraries code, and the operations for a network instance make its tables equal to the
  source's, whatever their order; there are none exactly when the tables agree already.
\<close>

subsection \<open>The difference is found\<close>

lemma codes_total: "codes mk key val eq k e \<Longrightarrow> \<exists>op. mk m ni j e = Inr op"
  unfolding codes_def by blast

lemma diff_adds_total:
  "\<forall>p\<in>set src. codes mk key val eq (fst p) (snd p) \<Longrightarrow>
    \<exists>st'. diff_adds mk put eq' expl ni dst src st = Inr st'"
proof (induction src arbitrary: st)
  case (Cons p src)
  obtain k e i ops where p: "p = (k, e)" "st = (i, ops)" by (metis prod.exhaust)
  from Cons.prems have c: "codes mk key val eq k e" by (simp add: p)
  have IH: "\<exists>st'. diff_adds mk put eq' expl ni dst src s = Inr st'" for s using Cons by simp
  define m where "m = (if gm_get dst k \<noteq> None \<and> expl then Op_REPLACE else Op_ADD)"
  obtain op where op: "mk m ni (i + 1) e = Inr op" using codes_total [OF c] by blast
  show ?case
  proof (cases "gm_get dst k")
    case None
    with op IH show ?thesis by (simp add: p m_def)
  next
    case (Some d)
    with op IH show ?thesis by (simp add: p m_def)
  qed
qed simp

lemma diff_dels_total:
  "\<forall>p\<in>set dst. codes mk key val eq (fst p) (snd p) \<Longrightarrow>
    \<exists>st'. diff_dels mk put ni src dst st = Inr st'"
proof (induction dst arbitrary: st)
  case (Cons p dst)
  obtain k e i ops where p: "p = (k, e)" "st = (i, ops)" by (metis prod.exhaust)
  from Cons.prems have c: "codes mk key val eq k e" by (simp add: p)
  have IH: "\<exists>st'. diff_dels mk put ni src dst s = Inr st'" for s using Cons by simp
  obtain op where op: "mk Op_DELETE ni (i + 1) e = Inr op" using codes_total [OF c] by blast
  with IH show ?case by (cases "gm_get src k") (simp_all add: p)
qed simp

lemma gm_get_all: "\<forall>p\<in>set m. P (snd p) \<Longrightarrow> gm_get m k = Some v \<Longrightarrow> P v"
  by (drule map_of_SomeD) auto

lemma then_diff_total: "\<exists>x. r = Inr x \<Longrightarrow> (\<And>st. \<exists>x. f st = Inr x) \<Longrightarrow> \<exists>x. then_diff r f = Inr x"
  by (auto simp: then_diff_def)

lemma diff_ni_total:
  assumes "afts_code E s" and "afts_code E d"
  shows "\<exists>st'. diff_ni E expl ni s d st = Inr st'"
  using assms unfolding diff_ni_def afts_code_def
  by (intro then_diff_total) (blast intro: diff_adds_total diff_dels_total)+

lemma afts_code_empty [simp]: "afts_code E empty_Afts"
  by (simp add: afts_code_def)

lemma diff_nis_total:
  "\<forall>p\<in>set S. afts_code E (snd p) \<Longrightarrow> \<forall>p\<in>set D. afts_code E (snd p) \<Longrightarrow>
    \<exists>st'. diff_nis E expl D S st = Inr st'"
proof (induction S arbitrary: st)
  case (Cons p S)
  have "afts_code E (dst_afts D (fst p))"
    using gm_get_all [OF Cons.prems(2)] by (auto simp: dst_afts_def split: option.split)
  then have "\<exists>x. diff_ni E expl (fst p) (snd p) (dst_afts D (fst p)) st = Inr x"
    using Cons.prems(1) by (intro diff_ni_total) simp_all
  moreover have "\<exists>x. diff_nis E expl D S s = Inr x" for s using Cons by simp
  ultimately have "\<exists>x. then_diff (diff_ni E expl (fst p) (snd p) (dst_afts D (fst p)) st) (diff_nis E expl D S) = Inr x"
    by (rule then_diff_total)
  then show ?case by (cases p) (simp add: dst_afts_def)
qed simp

definition rib_tables :: "RIB \<Rightarrow> (string, Afts) gomap" where
  "rib_tables r = map (\<lambda>(n, h). (n, afts h)) (niRIB r)"

lemma copy_all_eq: "env_laws E \<Longrightarrow> copy_all E m = Inr (map (\<lambda>(n, h). (n, afts h)) m)"
  by (induction m) (auto simp: deepcopy_law)

lemma RIBContents_eq: "env_laws E \<Longrightarrow> RIBContents E r = Inr (rib_tables r)"
  by (simp add: RIBContents_def copyRIBs_def rib_tables_def copy_all_eq)

lemma rib_tables_get: "gm_get (rib_tables r) n = map_option afts (gm_get (niRIB r) n)"
  by (simp add: rib_tables_def map_of_map)

lemma rib_tables_fst: "map fst (rib_tables r) = map fst (niRIB r)"
  by (simp add: rib_tables_def case_prod_unfold)

definition rib_codes :: "rib_env \<Rightarrow> RIB \<Rightarrow> bool" where
  "rib_codes E r \<longleftrightarrow> (\<forall>p\<in>set (niRIB r). afts_code E (afts (snd p)))"

lemma rib_codes_tables: "rib_codes E r \<Longrightarrow> \<forall>p\<in>set (rib_tables r). afts_code E (snd p)"
  by (auto simp: rib_codes_def rib_tables_def)

lemma diff_eq:
  assumes "env_laws E"
  shows "diff E (Some src) (Some dst) ex i =
    (case diff_nis E (explicit_types ex) (rib_tables dst) (rib_tables src) (i, NewReconcileOps) of
       Inl e \<Rightarrow> Inl e | Inr (i', ops) \<Rightarrow> Inr (ops, i'))"
  by (simp add: diff_def RIBContents_eq [OF assms])

text \<open>Everything known about the operations of a difference.\<close>

lemma diff_result:
  assumes env: "env_laws E" and wf: "rib_wf src" and code: "rib_codes E src" "rib_codes E dst"
  obtains ops i' L where "diff E (Some src) (Some dst) ex i = Inr (ops, i')"
    and "appended (i, NewReconcileOps) (i', ops) L"
    and "\<forall>op\<in>set L. op_NetworkInstance op \<in> fst ` set (niRIB src)"
    and "\<And>n s. gm_get (rib_tables src) n = Some s \<Longrightarrow>
      \<exists>o'. ni_made E (explicit_types ex) n s (dst_afts (rib_tables dst) n) o' \<and>
        filter (\<lambda>op. op_NetworkInstance op = n) L = ni_list o'"
proof -
  obtain st' where st': "diff_nis E (explicit_types ex) (rib_tables dst) (rib_tables src) (i, NewReconcileOps) = Inr st'"
    using diff_nis_total [OF rib_codes_tables [OF code(1)] rib_codes_tables [OF code(2)]] by blast
  obtain i' ops where s: "st' = (i', ops)" by (cases st')
  have w: "gm_wf (rib_tables src)" using wf by (simp add: rib_tables_fst rib_wf_def)
  from diff_nis_ops [OF w st'] obtain L where
    L: "appended (i, NewReconcileOps) st' L" "\<forall>op\<in>set L. op_NetworkInstance op \<in> fst ` set (rib_tables src)"
      "\<forall>(n, s)\<in>set (rib_tables src). \<exists>o'. ni_made E (explicit_types ex) n s (dst_afts (rib_tables dst) n) o' \<and>
        filter (\<lambda>op. op_NetworkInstance op = n) L = ni_list o'" by blast
  have m: "fst ` set (rib_tables src) = fst ` set (niRIB src)"
    using arg_cong [OF rib_tables_fst [of src], of set] by simp
  show thesis
  proof (rule that)
    show "diff E (Some src) (Some dst) ex i = Inr (ops, i')" using st' by (simp add: diff_eq [OF env] s)
  qed (use L m w in \<open>auto simp: s gm_get_Some_iff\<close>)
qed

lemma table_equal_refl: "(\<And>p. p \<in> set m \<Longrightarrow> eq (snd p) (snd p)) \<Longrightarrow> table_equal eq m m"
  unfolding table_equal_def using gm_get_all [of m "\<lambda>e. eq e e"]
  by (auto intro: option.rel_refl_strong dest: map_of_SomeD)

lemma ni_converges:
  assumes m: "ni_made E expl n s d o'" and wf: "tables_wf s" "tables_wf d" and code: "afts_code E s" "afts_code E d"
    and os: "mset os = mset (ni_list o')"
  shows "afts_equal s (fold (program_op E) os d)"
proof -
  have f: "mset (filter P os) = mset (filter P (ni_list o'))" for P
    using os by (metis mset_filter)
  note F = f [of "\<lambda>op. v4_key op \<noteq> None", unfolded ni_made_filter [OF m]]
    f [of "\<lambda>op. v6_key op \<noteq> None", unfolded ni_made_filter [OF m]]
    f [of "\<lambda>op. le_key op \<noteq> None", unfolded ni_made_filter [OF m]]
    f [of "\<lambda>op. nhg_key op \<noteq> None", unfolded ni_made_filter [OF m]]
    f [of "\<lambda>op. nh_key op \<noteq> None", unfolded ni_made_filter [OF m]]
  show ?thesis
    using m code tables_wf_gm [OF wf(1)] tables_wf_gm [OF wf(2)] unfolding afts_equal_def ni_made_def afts_code_def
    by (intro conjI diff_v4.converges [OF _ _ _ _ _ _ F(1)] diff_v6.converges [OF _ _ _ _ _ _ F(2)]
        diff_le.converges [OF _ _ _ _ _ _ F(3)] diff_nhg.converges [OF _ _ _ _ _ _ F(4)]
        diff_nh.converges [OF _ _ _ _ _ _ F(5)]) blast+
qed

lemma dst_afts_tables: "dst_afts (rib_tables r) n = tables_of r n"
  by (simp add: dst_afts_def tables_of_def rib_tables_get split: option.split)

lemma tables_of_codes: "rib_codes E r \<Longrightarrow> afts_code E (tables_of r n)"
  unfolding rib_codes_def by (auto simp: tables_of_def split: option.split dest: gm_get_all)

text \<open>The loops select nothing exactly when the tables agree.\<close>

lemma made_empty: "made mk ni meth items os \<Longrightarrow> os = [] \<longleftrightarrow> items = []"
  by (auto simp: made_def)

lemma changed_missing_empty:
  assumes "gm_wf src" and "gm_wf dst"
  shows "changed eq dst src = [] \<and> missing src dst = [] \<longleftrightarrow> table_equal eq src dst"
proof -
  have c: "changed eq dst src = [] \<longleftrightarrow> (\<forall>k e. gm_get src k = Some e \<longrightarrow> (\<exists>d. gm_get dst k = Some d \<and> eq e d))"
    using assms(1) by (auto simp: changed_def filter_empty_conv gm_get_Some_iff split: option.splits)
  have m: "missing src dst = [] \<longleftrightarrow> (\<forall>k e. gm_get dst k = Some e \<longrightarrow> gm_get src k \<noteq> None)"
    using assms(2) by (auto simp: missing_def filter_empty_conv gm_get_Some_iff)
  show ?thesis
    unfolding c m table_equal_def
  proof (intro iffI allI, elim conjE)
    fix k
    assume "\<forall>k e. gm_get src k = Some e \<longrightarrow> (\<exists>d. gm_get dst k = Some d \<and> eq e d)"
      and "\<forall>k e. gm_get dst k = Some e \<longrightarrow> gm_get src k \<noteq> None"
    then show "rel_option eq (gm_get src k) (gm_get dst k)"
      by (cases "gm_get src k"; cases "gm_get dst k") force+
  next
    assume r: "\<forall>k. rel_option eq (gm_get src k) (gm_get dst k)"
    show "(\<forall>k e. gm_get src k = Some e \<longrightarrow> (\<exists>d. gm_get dst k = Some d \<and> eq e d)) \<and>
        (\<forall>k e. gm_get dst k = Some e \<longrightarrow> gm_get src k \<noteq> None)"
      using r by (metis option.rel_distinct(1) option_rel_Some1 not_Some_eq option.rel_distinct(2))
  qed
qed

lemma ni_made_empty:
  assumes m: "ni_made E expl n s d o'" and wf: "tables_wf s" "tables_wf d"
  shows "ni_list o' = [] \<longleftrightarrow> afts_equal s d"
proof -
  note W = tables_wf_gm [OF wf(1)] tables_wf_gm [OF wf(2)]
  have "ni_list o' = [] \<longleftrightarrow>
    (changed (=) (Ipv4Entry d) (Ipv4Entry s) = [] \<and> missing (Ipv4Entry s) (Ipv4Entry d) = []) \<and>
    (changed (=) (Ipv6Entry d) (Ipv6Entry s) = [] \<and> missing (Ipv6Entry s) (Ipv6Entry d) = []) \<and>
    (changed (=) (LabelEntry d) (LabelEntry s) = [] \<and> missing (LabelEntry s) (LabelEntry d) = []) \<and>
    (changed nhg_DeepEqual (aft_NextHopGroup d) (aft_NextHopGroup s) = [] \<and> missing (aft_NextHopGroup s) (aft_NextHopGroup d) = []) \<and>
    (changed nh_DeepEqual (aft_NextHop d) (aft_NextHop s) = [] \<and> missing (aft_NextHop s) (aft_NextHop d) = [])"
  proof -
    from m show ?thesis
      unfolding ni_made_def ni_list_def append_is_Nil_conv
      by (elim conjE) ((drule made_empty)+, simp only: conj_ac)
  qed
  also have "\<dots> \<longleftrightarrow> afts_equal s d"
    unfolding afts_equal_def using W by (simp only: changed_missing_empty)
  finally show ?thesis .
qed

end
