(* ===== verification/ReconcilePhase.thy ===== *)
theory ReconcilePhase
  imports ReconcileDiff ProgramRun
begin

text \<open>
  The order in which a client can program a difference without forward references, and
  make-before-break: next-hops, next-hop-groups and top-level entries are added or replaced
  in this order, and deleted in the opposite one.
\<close>

subsection \<open>The phases\<close>

definition phases :: "ReconcileOps \<Rightarrow> AFTOperation list list" where
  "phases r = [ops_NH (rec_Add r) @ ops_NH (rec_Replace r), ops_NHG (rec_Add r) @ ops_NHG (rec_Replace r),
     ops_TopLevel (rec_Add r) @ ops_TopLevel (rec_Replace r), ops_TopLevel (rec_Delete r),
     ops_NHG (rec_Delete r), ops_NH (rec_Delete r)]"

definition make_before_break :: "ReconcileOps \<Rightarrow> AFTOperation list" where
  "make_before_break r = concat (phases r)"

lemma mset_make_before_break: "mset (make_before_break r) = mset (rec_all r)"
  by (simp add: make_before_break_def phases_def rec_all_def ops_all_def)

definition phase_of :: "AFTOperation \<Rightarrow> nat" where
  "phase_of op = (if nh_key op \<noteq> None then (if op_Op op = Op_DELETE then 5 else 0)
     else if nhg_key op \<noteq> None then (if op_Op op = Op_DELETE then 4 else 1)
     else (if op_Op op = Op_DELETE then 3 else 2))"

text \<open>Every operation of a result is filed under its phase.\<close>

definition filed :: "ReconcileOps \<Rightarrow> bool" where
  "filed r \<longleftrightarrow> list_all2 (\<lambda>j os. \<forall>op\<in>set os. phase_of op = j) [0, 1, 2, 3, 4, 5] (phases r)"

lemma filed_New: "filed NewReconcileOps"
  by (simp add: filed_def phases_def NewReconcileOps_def empty_Ops_def)

lemma filed_put:
  assumes "filed r"
  shows "phase_of op = 2 \<Longrightarrow> filed (add_top ok op r)" and "phase_of op = 1 \<Longrightarrow> filed (add_nhg ok op r)"
    and "phase_of op = 0 \<Longrightarrow> filed (add_nh ok op r)" and "phase_of op = 3 \<Longrightarrow> filed (delete_top op r)"
    and "phase_of op = 4 \<Longrightarrow> filed (delete_nhg op r)" and "phase_of op = 5 \<Longrightarrow> filed (delete_nh op r)"
  using assms by (auto simp: filed_def phases_def add_top_def add_nhg_def add_nh_def delete_top_def delete_nhg_def delete_nh_def)

lemma diff_adds_filed:
  assumes "\<And>m j e op. mk m ni j e = Inr op \<Longrightarrow> m \<noteq> Op_DELETE \<Longrightarrow> phase_of op = p"
    and "\<And>b op r. filed r \<Longrightarrow> phase_of op = p \<Longrightarrow> filed (put b op r)"
  shows "diff_adds mk put eq expl ni dst src st = Inr st' \<Longrightarrow> filed (snd st) \<Longrightarrow> filed (snd st')"
proof (induction src arbitrary: st)
  case (Cons p src)
  obtain k e i ops where p: "p = (k, e)" "st = (i, ops)" by (metis prod.exhaust)
  show ?case
  proof (cases "case gm_get dst k of None \<Rightarrow> True | Some d \<Rightarrow> \<not> eq e d")
    case True
    let ?m = "if gm_get dst k \<noteq> None \<and> expl then Op_REPLACE else Op_ADD" and ?b = "gm_get dst k \<noteq> None"
    have "\<exists>op. mk ?m ni (i + 1) e = Inr op \<and> diff_adds mk put eq expl ni dst src (i + 1, put ?b op ops) = Inr st'"
      using Cons.prems(1) True p by (cases "gm_get dst k"; cases "mk ?m ni (i + 1) e") (simp_all add: Let_def)
    then obtain op where op: "mk ?m ni (i + 1) e = Inr op"
      and rest: "diff_adds mk put eq expl ni dst src (i + 1, put ?b op ops) = Inr st'" by blast
    have m: "?m \<noteq> Op_DELETE" by simp
    have f: "filed ops" using Cons.prems(2) p by simp
    show ?thesis using Cons.IH [OF rest] assms(2) [OF f assms(1) [OF op m]] by simp
  next
    case False
    then obtain d where "gm_get dst k = Some d" "eq e d" by (auto split: option.splits)
    with Cons p show ?thesis by (simp add: Let_def)
  qed
qed simp

lemma diff_dels_filed:
  assumes "\<And>j e op. mk Op_DELETE ni j e = Inr op \<Longrightarrow> phase_of op = p"
    and "\<And>op r. filed r \<Longrightarrow> phase_of op = p \<Longrightarrow> filed (put op r)"
  shows "diff_dels mk put ni src dst st = Inr st' \<Longrightarrow> filed (snd st) \<Longrightarrow> filed (snd st')"
proof (induction dst arbitrary: st)
  case (Cons p dst)
  obtain k e i ops where p: "p = (k, e)" "st = (i, ops)" by (metis prod.exhaust)
  show ?case
  proof (cases "gm_get src k")
    case None
    with Cons.prems p obtain op where op: "mk Op_DELETE ni (i + 1) e = Inr op"
        and rest: "diff_dels mk put ni src dst (i + 1, put op ops) = Inr st'"
      by (auto split: sum.splits)
    have f: "filed ops" using Cons.prems(2) p by simp
    show ?thesis using Cons.IH [OF rest] assms(2) [OF f assms(1) [OF op]] by simp
  next
    case (Some d)
    with Cons p show ?thesis by simp
  qed
qed simp

lemma builder_phase:
  "v4Operation E m ni j e4 = Inr op \<Longrightarrow> phase_of op = (if m = Op_DELETE then 3 else 2)"
  "v6Operation E m ni j e6 = Inr op \<Longrightarrow> phase_of op = (if m = Op_DELETE then 3 else 2)"
  "mplsOperation E m ni j el = Inr op \<Longrightarrow> phase_of op = (if m = Op_DELETE then 3 else 2)"
  "nhgOperation E m ni j eg = Inr op \<Longrightarrow> phase_of op = (if m = Op_DELETE then 4 else 1)"
  "nhOperation E m ni j en = Inr op \<Longrightarrow> phase_of op = (if m = Op_DELETE then 5 else 0)"
  by (auto simp: phase_of_def key_defs v4Operation_def v6Operation_def mplsOperation_def nhgOperation_def
      nhOperation_def build_op_def split: sum.splits)

lemma diff_ni_filed:
  assumes "diff_ni E expl ni s d st = Inr st'" and "filed (snd st)"
  shows "filed (snd st')"
proof -
  have A: "diff_adds (v4Operation E) add_top eq b ni D4 S4 x = Inr y \<Longrightarrow> filed (snd x) \<Longrightarrow> filed (snd y)"
    "diff_adds (v6Operation E) add_top eq6 b ni D6 S6 x = Inr y \<Longrightarrow> filed (snd x) \<Longrightarrow> filed (snd y)"
    "diff_adds (mplsOperation E) add_top eql b ni Dl Sl x = Inr y \<Longrightarrow> filed (snd x) \<Longrightarrow> filed (snd y)"
    "diff_adds (nhgOperation E) add_nhg eqg b ni Dg Sg x = Inr y \<Longrightarrow> filed (snd x) \<Longrightarrow> filed (snd y)"
    "diff_adds (nhOperation E) add_nh eqn b ni Dn Sn x = Inr y \<Longrightarrow> filed (snd x) \<Longrightarrow> filed (snd y)"
    for eq b x y D4 S4 eq6 D6 S6 eql Dl Sl eqg Dg Sg eqn Dn and Sn :: "(u64, Afts_NextHop) gomap"
    by (erule diff_adds_filed [rotated 2], assumption, auto dest: builder_phase intro: filed_put)+
  have D: "diff_dels (v4Operation E) delete_top ni S4 D4 x = Inr y \<Longrightarrow> filed (snd x) \<Longrightarrow> filed (snd y)"
    "diff_dels (v6Operation E) delete_top ni S6 D6 x = Inr y \<Longrightarrow> filed (snd x) \<Longrightarrow> filed (snd y)"
    "diff_dels (mplsOperation E) delete_top ni Sl Dl x = Inr y \<Longrightarrow> filed (snd x) \<Longrightarrow> filed (snd y)"
    "diff_dels (nhgOperation E) delete_nhg ni Sg Dg x = Inr y \<Longrightarrow> filed (snd x) \<Longrightarrow> filed (snd y)"
    "diff_dels (nhOperation E) delete_nh ni Sn Dn x = Inr y \<Longrightarrow> filed (snd x) \<Longrightarrow> filed (snd y)"
    for x y D4 S4 D6 S6 Dl Sl Dg Sg Dn and Sn :: "(u64, Afts_NextHop) gomap"
    by (erule diff_dels_filed [rotated 2], assumption, auto dest: builder_phase intro: filed_put)+
  from assms show ?thesis unfolding diff_ni_def then_diff_Inr by (elim exE conjE) (blast dest: A D)
qed

lemma diff_nis_filed: "diff_nis E expl D S st = Inr st' \<Longrightarrow> filed (snd st) \<Longrightarrow> filed (snd st')"
proof (induction S arbitrary: st)
  case (Cons p S)
  obtain n s where p: "p = (n, s)" by (cases p)
  from Cons.prems(1) obtain st1 where "diff_ni E expl n s (dst_afts D n) st = Inr st1" "diff_nis E expl D S st1 = Inr st'"
    by (auto simp: p then_diff_Inr dst_afts_def)
  with Cons.IH Cons.prems(2) diff_ni_filed show ?case by blast
qed simp

lemma diff_filed:
  assumes "env_laws E" and "diff E (Some src) (Some dst) ex i = Inr (ops, i')"
  shows "filed ops"
  using assms(2) diff_nis_filed [OF _ , of E "explicit_types ex" "rib_tables dst" "rib_tables src" "(i, NewReconcileOps)"] filed_New
  by (auto simp: diff_eq [OF assms(1)] split: sum.splits)

subsection \<open>The first phases\<close>

definition upto_phase :: "nat \<Rightarrow> ReconcileOps \<Rightarrow> AFTOperation list" where
  "upto_phase j r = concat (take (Suc j) (phases r))"

lemma filter_mset_all: "\<forall>x\<in>set xs. P x \<Longrightarrow> filter_mset P (mset xs) = mset xs"
  "\<forall>x\<in>set xs. \<not> P x \<Longrightarrow> filter_mset P (mset xs) = {#}"
  by (induction xs) auto

lemma mset_upto_phase:
  assumes "filed r" and "j < 6"
  shows "mset (upto_phase j r) = filter_mset (\<lambda>op. phase_of op \<le> j) (mset (rec_all r))"
proof -
  obtain p0 p1 p2 p3 p4 p5 where p: "phases r = [p0, p1, p2, p3, p4, p5]" by (simp add: phases_def)
  have F: "\<forall>op\<in>set p0. phase_of op = 0" "\<forall>op\<in>set p1. phase_of op = 1" "\<forall>op\<in>set p2. phase_of op = 2"
    "\<forall>op\<in>set p3. phase_of op = 3" "\<forall>op\<in>set p4. phase_of op = 4" "\<forall>op\<in>set p5. phase_of op = 5"
    using assms(1) by (simp_all add: filed_def p)
  have m: "mset (rec_all r) = mset p0 + mset p1 + mset p2 + mset p3 + mset p4 + mset p5"
    unfolding mset_make_before_break [symmetric] by (simp add: make_before_break_def p)
  have "j = 0 \<or> j = 1 \<or> j = 2 \<or> j = 3 \<or> j = 4 \<or> j = 5" using assms(2) by linarith
  then show ?thesis
    unfolding m filter_union_mset
    by (elim disjE) (simp_all add: upto_phase_def p F filter_mset_all numeral_2_eq_2 numeral_3_eq_3 numeral_eq_Suc)
qed

end
