(* ===== verification/ReconcileRun.thy ===== *)
theory ReconcileRun
  imports ReconcilePhase
begin

text \<open>
  Programming a difference make-before-break: at each operation, what it refers to is
  already there, or nothing refers to what it deletes any more.
\<close>

subsection \<open>A difference of closed tables\<close>

text \<open>
  What is known when the tables \<open>S\<close> of the source and \<open>T\<close> of the destination have been
  compared: in the source every reference leads to a stored entry.
\<close>

definition closed :: "(string \<Rightarrow> Afts) \<Rightarrow> bool" where
  "closed S \<longleftrightarrow> (\<forall>n y. y \<in># raw_refs (S n) \<longrightarrow> group_in S (resolve_ref n y)) \<and>
     (\<forall>n i. i \<in># raw_nh_refs (S n) \<longrightarrow> hop_in S (n, i))"

definition ops_for :: "string \<Rightarrow> ReconcileOps \<Rightarrow> AFTOperation multiset" where
  "ops_for n ops = filter_mset (\<lambda>op. op_NetworkInstance op = n) (mset (rec_all ops))"

definition compared :: "rib_env \<Rightarrow> (string \<Rightarrow> Afts) \<Rightarrow> (string \<Rightarrow> Afts) \<Rightarrow> ReconcileOps \<Rightarrow> bool" where
  "compared E S T ops \<longleftrightarrow> env_laws E \<and> filed ops \<and> closed S \<and>
     (\<forall>n. tables_wf (S n) \<and> tables_wf (T n) \<and> afts_code E (S n) \<and> afts_code E (T n) \<and>
       (\<exists>o'. ni_made E (\<lambda>_. False) n (S n) (T n) o' \<and> ops_for n ops = mset (ni_list o')))"

lemma comparedE:
  assumes "compared E S T ops"
  obtains o' where "ni_made E (\<lambda>_. False) n (S n) (T n) o'" "ops_for n ops = mset (ni_list o')"
  using assms unfolding compared_def by blast

lemma comparedD:
  assumes "compared E S T ops"
  shows "env_laws E" "filed ops" "closed S" "tables_wf (S n)" "tables_wf (T n)" "afts_code E (S n)" "afts_code E (T n)"
  using assms unfolding compared_def by blast+

subsection \<open>The phase of each loop\<close>

lemma made_in:
  assumes "made mk ni meth items os" and "op \<in> set os"
  shows "\<exists>k e j. (k, e) \<in> set items \<and> mk (meth k) ni j e = Inr op"
proof -
  from assms(2) obtain i where i: "i < length os" "os ! i = op" by (auto simp: in_set_conv_nth)
  obtain k e where p: "items ! i = (k, e)" by (cases "items ! i")
  have l: "i < length items" using assms(1) i unfolding made_def by (simp add: list_all2_lengthD)
  have "\<exists>j. mk (meth k) ni j e = Inr op"
    using list_all2_nthD [OF assms(1) [unfolded made_def] l] unfolding p i(2) case_prod_conv .
  with p l show ?thesis by (metis nth_mem)
qed

definition phased :: "'e op_builder \<Rightarrow> nat \<Rightarrow> nat \<Rightarrow> bool" where
  "phased mk a d \<longleftrightarrow> (\<forall>m ni j e op. mk m ni j e = Inr op \<longrightarrow> phase_of op = (if m = Op_DELETE then d else a))"

lemma phased_builders:
  "phased (v4Operation E) 2 3" "phased (v6Operation E) 2 3" "phased (mplsOperation E) 2 3"
  "phased (nhgOperation E) 1 4" "phased (nhOperation E) 0 5"
  unfolding phased_def by (intro allI impI, erule builder_phase)+

lemma made_phase:
  assumes "made mk ni meth items os" and "phased mk a d" and "op \<in> set os" and "\<forall>k. (meth k = Op_DELETE) = b"
  shows "phase_of op = (if b then d else a)"
proof -
  obtain k e j where "mk (meth k) ni j e = Inr op" using made_in [OF assms(1,3)] by blast
  then show ?thesis using assms(2,4) unfolding phased_def by metis
qed

lemma add_meth_not_delete: "\<forall>k. (add_meth expl dst k = Op_DELETE) = False"
  by (simp add: add_meth_def)

lemma ni_made_phases:
  assumes "ni_made E expl n s d o'"
  shows "op \<in> set (an o') \<Longrightarrow> phase_of op = 0" "op \<in> set (ag o') \<Longrightarrow> phase_of op = 1"
    "op \<in> set (a4 o') \<union> set (a6 o') \<union> set (al o') \<Longrightarrow> phase_of op = 2"
    "op \<in> set (d4 o') \<union> set (d6 o') \<union> set (dl o') \<Longrightarrow> phase_of op = 3"
    "op \<in> set (dg o') \<Longrightarrow> phase_of op = 4" "op \<in> set (dn o') \<Longrightarrow> phase_of op = 5"
proof -
  note M = assms [unfolded ni_made_def]
  note A = made_phase [OF _ phased_builders(1) _ add_meth_not_delete]
    made_phase [OF _ phased_builders(2) _ add_meth_not_delete]
    made_phase [OF _ phased_builders(3) _ add_meth_not_delete]
    made_phase [OF _ phased_builders(4) _ add_meth_not_delete]
    made_phase [OF _ phased_builders(5) _ add_meth_not_delete]
  note D = made_phase [where meth = "\<lambda>_. Op_DELETE" and b = True, OF _ phased_builders(1)]
    made_phase [where meth = "\<lambda>_. Op_DELETE" and b = True, OF _ phased_builders(2)]
    made_phase [where meth = "\<lambda>_. Op_DELETE" and b = True, OF _ phased_builders(3)]
    made_phase [where meth = "\<lambda>_. Op_DELETE" and b = True, OF _ phased_builders(4)]
    made_phase [where meth = "\<lambda>_. Op_DELETE" and b = True, OF _ phased_builders(5)]
  note R = A [simplified] D [simplified]
  show "op \<in> set (an o') \<Longrightarrow> phase_of op = 0" using M R(5) by blast
  show "op \<in> set (ag o') \<Longrightarrow> phase_of op = 1" unfolding One_nat_def using M R(4) by blast
  have "op \<in> set (a4 o') \<Longrightarrow> phase_of op = 2" using M R(1) by blast
  moreover have "op \<in> set (a6 o') \<Longrightarrow> phase_of op = 2" using M R(2) by blast
  moreover have "op \<in> set (al o') \<Longrightarrow> phase_of op = 2" using M R(3) by blast
  ultimately show "op \<in> set (a4 o') \<union> set (a6 o') \<union> set (al o') \<Longrightarrow> phase_of op = 2" by blast
  have "op \<in> set (d4 o') \<Longrightarrow> phase_of op = 3" using M R(6) by blast
  moreover have "op \<in> set (d6 o') \<Longrightarrow> phase_of op = 3" using M R(7) by blast
  moreover have "op \<in> set (dl o') \<Longrightarrow> phase_of op = 3" using M R(8) by blast
  ultimately show "op \<in> set (d4 o') \<union> set (d6 o') \<union> set (dl o') \<Longrightarrow> phase_of op = 3" by blast
  show "op \<in> set (dg o') \<Longrightarrow> phase_of op = 4" using M R(9) by blast
  show "op \<in> set (dn o') \<Longrightarrow> phase_of op = 5" using M R(10) by blast
qed

lemma in_phase:
  assumes c: "compared E S T ops" and op: "op \<in> set (phases ops ! j)" "j < 6"
  obtains o' where "ni_made E (\<lambda>_. False) (op_NetworkInstance op) (S (op_NetworkInstance op)) (T (op_NetworkInstance op)) o'"
    "phase_of op = j" "op \<in> set (ni_list o')"
proof -
  let ?n = "op_NetworkInstance op"
  obtain o' where o': "ni_made E (\<lambda>_. False) ?n (S ?n) (T ?n) o'" "ops_for ?n ops = mset (ni_list o')" by (rule comparedE [OF c])
  have len: "length (phases ops) = 6" by (simp add: phases_def)
  have j: "[0, 1, 2, 3, 4, 5] ! j = j"
  proof -
    have "j = 0 \<or> j = 1 \<or> j = 2 \<or> j = 3 \<or> j = 4 \<or> j = 5" using op(2) by linarith
    then show ?thesis by (elim disjE) simp_all
  qed
  have "\<forall>i<6. \<forall>op\<in>set (phases ops ! i). phase_of op = [0, 1, 2, 3, 4, 5] ! i"
    using comparedD(2) [OF c] unfolding filed_def list_all2_conv_all_nth by simp
  with op have "phase_of op = [0, 1, 2, 3, 4, 5] ! j" by blast
  then have "phase_of op = j" by (simp only: j)
  moreover have "op \<in> set (make_before_break ops)"
    using op len unfolding make_before_break_def by (auto intro!: bexI [of _ "phases ops ! j"])
  then have "op \<in># mset (rec_all ops)" unfolding mset_make_before_break [symmetric] by simp
  then have "op \<in># ops_for ?n ops" by (simp add: ops_for_def)
  then have "op \<in> set (ni_list o')" by (simp add: o'(2))
  ultimately show thesis using that o'(1) by blast
qed

lemma in_phase_list:
  assumes m: "ni_made E expl n s d o'" and op: "op \<in> set (ni_list o')"
  shows "phase_of op = 0 \<Longrightarrow> op \<in> set (an o')" and "phase_of op = 1 \<Longrightarrow> op \<in> set (ag o')"
    and "phase_of op = 2 \<Longrightarrow> op \<in> set (a4 o') \<union> set (a6 o') \<union> set (al o')"
    and "phase_of op = 3 \<Longrightarrow> op \<in> set (d4 o') \<union> set (d6 o') \<union> set (dl o')"
    and "phase_of op = 4 \<Longrightarrow> op \<in> set (dg o')" and "phase_of op = 5 \<Longrightarrow> op \<in> set (dn o')"
  using op ni_made_phases [OF m, of op] unfolding ni_list_def by auto

subsection \<open>The tables after the first phases\<close>

text \<open>The operations of one table among those up to a phase.\<close>

lemma upto_for:
  assumes c: "compared E S T ops" and o': "ops_for n ops = mset (ni_list o')" and j: "j < 6"
  shows "mset (filter P (filter (\<lambda>op. op_NetworkInstance op = n) (upto_phase j ops))) =
    mset (filter (\<lambda>op. phase_of op \<le> j) (filter P (ni_list o')))"
proof -
  have "mset (filter P (filter (\<lambda>op. op_NetworkInstance op = n) (upto_phase j ops))) =
    filter_mset P (filter_mset (\<lambda>op. phase_of op \<le> j) (ops_for n ops))"
    by (simp add: mset_upto_phase [OF comparedD(2) [OF c] j] ops_for_def filter_filter_mset conj_ac)
  then show ?thesis by (simp add: o' filter_filter_mset conj_ac)
qed

lemma filter_phases:
  "\<forall>op\<in>set xs. phase_of op = a \<Longrightarrow> \<forall>op\<in>set ys. phase_of op = b \<Longrightarrow>
    filter (\<lambda>op. phase_of op \<le> j) (xs @ ys) = (if a \<le> j then xs else []) @ (if b \<le> j then ys else [])"
  by (simp add: filter_id_conv filter_empty_conv)

lemma upto_table:
  assumes c: "compared E S T ops" and o': "ni_made E (\<lambda>_. False) n (S n) (T n) o'" "ops_for n ops = mset (ni_list o')"
    and P: "ni_made E (\<lambda>_. False) n (S n) (T n) o' \<Longrightarrow> filter P (ni_list o') = xs @ ys"
    and "\<And>op. op \<in> set xs \<Longrightarrow> phase_of op = a" and "\<And>op. op \<in> set ys \<Longrightarrow> phase_of op = b"
    and "j < 6" and "zs = (if a \<le> j then xs else []) @ (if b \<le> j then ys else [])"
  shows "mset (filter P (filter (\<lambda>op. op_NetworkInstance op = n) (upto_phase j ops))) = mset zs"
  unfolding upto_for [OF c o'(2) assms(7)] P [OF o'(1)]
  by (subst filter_phases [where a = a and b = b]) (use assms in simp_all)

lemma after_hops:
  assumes c: "compared E S T ops" and h: "hop_in S x"
  shows "hop_in (run_tables E (upto_phase 0 ops) T) x"
proof -
  obtain n i where x: "x = (n, i)" by (cases x)
  obtain o' where o': "ni_made E (\<lambda>_. False) n (S n) (T n) o'" "ops_for n ops = mset (ni_list o')" by (rule comparedE [OF c])
  obtain e where e: "gm_get (aft_NextHop (S n)) i = Some e" using h by (auto simp: x hop_in_def)
  have m: "mset (filter (\<lambda>op. nh_key op \<noteq> None) (filter (\<lambda>op. op_NetworkInstance op = n) (upto_phase 0 ops))) = mset (an o')"
    by (rule upto_table [where a = 0 and b = 5, OF c o' ni_made_filter(5)]) (simp_all add: ni_made_phases [OF o'(1)])
  have "\<exists>v. gm_get (aft_NextHop (run_tables E (upto_phase 0 ops) T n)) i = Some v \<and> nh_DeepEqual e v"
    unfolding run_tables_at
    by (rule diff_nh.additions [OF _ _ _ m e])
      (use tables_wf_gm [OF comparedD(4) [OF c, of n]] comparedD(6) [OF c, of n, unfolded afts_code_def]
        o'(1) [unfolded ni_made_def] in blast)+
  then show ?thesis by (auto simp: x hop_in_def)
qed

lemma after_groups:
  assumes c: "compared E S T ops" and h: "group_in S x"
  shows "group_in (run_tables E (upto_phase 1 ops) T) x"
proof -
  obtain n i where x: "x = (n, i)" by (cases x)
  obtain o' where o': "ni_made E (\<lambda>_. False) n (S n) (T n) o'" "ops_for n ops = mset (ni_list o')" by (rule comparedE [OF c])
  obtain e where e: "gm_get (aft_NextHopGroup (S n)) i = Some e" using h by (auto simp: x group_in_def)
  have m: "mset (filter (\<lambda>op. nhg_key op \<noteq> None) (filter (\<lambda>op. op_NetworkInstance op = n) (upto_phase 1 ops))) = mset (ag o')"
    by (rule upto_table [where a = 1 and b = 4, OF c o' ni_made_filter(4)]) (simp_all add: ni_made_phases [OF o'(1)])
  have "\<exists>v. gm_get (aft_NextHopGroup (run_tables E (upto_phase 1 ops) T n)) i = Some v \<and> nhg_DeepEqual e v"
    unfolding run_tables_at
    by (rule diff_nhg.additions [OF _ _ _ m e])
      (use tables_wf_gm [OF comparedD(4) [OF c, of n]] comparedD(6) [OF c, of n, unfolded afts_code_def]
        o'(1) [unfolded ni_made_def] in blast)+
  then show ?thesis by (auto simp: x group_in_def)
qed

lemma after_tops:
  assumes c: "compared E S T ops"
  shows "table_equal (=) (Ipv4Entry (S n)) (Ipv4Entry (run_tables E (upto_phase 3 ops) T n))"
    and "table_equal (=) (Ipv6Entry (S n)) (Ipv6Entry (run_tables E (upto_phase 3 ops) T n))"
    and "table_equal (=) (LabelEntry (S n)) (LabelEntry (run_tables E (upto_phase 3 ops) T n))"
proof -
  obtain o' where o': "ni_made E (\<lambda>_. False) n (S n) (T n) o'" "ops_for n ops = mset (ni_list o')" by (rule comparedE [OF c])
  have m: "mset (filter (\<lambda>op. v4_key op \<noteq> None) (filter (\<lambda>op. op_NetworkInstance op = n) (upto_phase 3 ops))) = mset (a4 o' @ d4 o')"
    "mset (filter (\<lambda>op. v6_key op \<noteq> None) (filter (\<lambda>op. op_NetworkInstance op = n) (upto_phase 3 ops))) = mset (a6 o' @ d6 o')"
    "mset (filter (\<lambda>op. le_key op \<noteq> None) (filter (\<lambda>op. op_NetworkInstance op = n) (upto_phase 3 ops))) = mset (al o' @ dl o')"
    by (rule upto_table [where a = 2 and b = 3, OF c o' ni_made_filter(1)] upto_table [where a = 2 and b = 3, OF c o' ni_made_filter(2)] upto_table [where a = 2 and b = 3, OF c o' ni_made_filter(3)];
        simp add: ni_made_phases [OF o'(1)])+
  note W = tables_wf_gm [OF comparedD(4) [OF c, of n]] tables_wf_gm [OF comparedD(5) [OF c, of n]]
    and C = comparedD(6,7) [OF c, of n, unfolded afts_code_def] and M = o'(1) [unfolded ni_made_def]
  show "table_equal (=) (Ipv4Entry (S n)) (Ipv4Entry (run_tables E (upto_phase 3 ops) T n))"
    unfolding run_tables_at by (rule diff_v4.converges [OF _ _ _ _ _ _ m(1)]) (use W C M in blast)+
  show "table_equal (=) (Ipv6Entry (S n)) (Ipv6Entry (run_tables E (upto_phase 3 ops) T n))"
    unfolding run_tables_at by (rule diff_v6.converges [OF _ _ _ _ _ _ m(2)]) (use W C M in blast)+
  show "table_equal (=) (LabelEntry (S n)) (LabelEntry (run_tables E (upto_phase 3 ops) T n))"
    unfolding run_tables_at by (rule diff_le.converges [OF _ _ _ _ _ _ m(3)]) (use W C M in blast)+
qed

lemma after_group_deletes:
  assumes c: "compared E S T ops"
  shows "table_equal nhg_DeepEqual (aft_NextHopGroup (S n)) (aft_NextHopGroup (run_tables E (upto_phase 4 ops) T n))"
proof -
  obtain o' where o': "ni_made E (\<lambda>_. False) n (S n) (T n) o'" "ops_for n ops = mset (ni_list o')" by (rule comparedE [OF c])
  have m: "mset (filter (\<lambda>op. nhg_key op \<noteq> None) (filter (\<lambda>op. op_NetworkInstance op = n) (upto_phase 4 ops))) = mset (ag o' @ dg o')"
    by (rule upto_table [where a = 1 and b = 4, OF c o' ni_made_filter(4)]) (simp_all add: ni_made_phases [OF o'(1)])
  note W = tables_wf_gm [OF comparedD(4) [OF c, of n]] tables_wf_gm [OF comparedD(5) [OF c, of n]]
    and C = comparedD(6,7) [OF c, of n, unfolded afts_code_def] and M = o'(1) [unfolded ni_made_def]
  show ?thesis
    unfolding run_tables_at by (rule diff_nhg.converges [OF _ _ _ _ _ _ m]) (use W C M in blast)+
qed

end
