(* ===== verification/ReconcileAccept.thy ===== *)
theory ReconcileAccept
  imports ReconcileRun
begin

text \<open>
  Every operation of a difference is acceptable at its place in the make-before-break order,
  so the RIB acknowledges all of them.
\<close>

subsection \<open>The operations of a loop\<close>

lemma added_op:
  assumes m: "made mk ni (add_meth False dst) (changed eq dst src) os" and op: "op \<in> set os" and nb: "numbered mk"
    and c: "\<forall>p\<in>set src. codes mk key val eq (fst p) (snd p)"
  shows "\<exists>k e v. (k, e) \<in> set src \<and> op_Op op = Op_ADD \<and> op_wf op \<and> key op = Some k \<and> val op = Some v \<and> eq e v"
proof -
  obtain k e j where k: "(k, e) \<in> set (changed eq dst src)" "mk (add_meth False dst k) ni j e = Inr op"
    using made_in [OF m op] by blast
  have s: "(k, e) \<in> set src" using k(1) by (simp add: changed_def)
  with c have "codes mk key val eq k e" by fastforce
  from codesD [OF this k(2)] s nb k(2) show ?thesis unfolding numbered_def by (auto simp: add_meth_def)
qed

lemma deleted_op:
  assumes m: "made mk ni (\<lambda>_. Op_DELETE) (missing src dst) os" and op: "op \<in> set os" and nb: "numbered mk"
    and c: "\<forall>p\<in>set dst. codes mk key val eq (fst p) (snd p)"
  shows "\<exists>k e. (k, e) \<in> set dst \<and> gm_get src k = None \<and> op_Op op = Op_DELETE \<and> op_wf op \<and> key op = Some k"
proof -
  obtain k e j where k: "(k, e) \<in> set (missing src dst)" "mk Op_DELETE ni j e = Inr op"
    using made_in [OF m op] by blast
  have s: "(k, e) \<in> set dst" "gm_get src k = None" using k(1) by (simp_all add: missing_def)
  with c have "codes mk key val eq k e" by fastforce
  from codesD [OF this k(2)] s nb k(2) show ?thesis unfolding numbered_def by blast
qed

lemma ni_added:
  assumes m: "ni_made E (\<lambda>_. False) n s d o'" and c: "afts_code E s"
  shows "op \<in> set (a4 o') \<Longrightarrow> \<exists>k e v. (k, e) \<in> set (Ipv4Entry s) \<and> op_Op op = Op_ADD \<and> op_wf op \<and>
      v4_key op = Some k \<and> v4_val E op = Some v \<and> e = v"
    and "op \<in> set (a6 o') \<Longrightarrow> \<exists>k e v. (k, e) \<in> set (Ipv6Entry s) \<and> op_Op op = Op_ADD \<and> op_wf op \<and>
      v6_key op = Some k \<and> v6_val E op = Some v \<and> e = v"
    and "op \<in> set (al o') \<Longrightarrow> \<exists>k e v. (k, e) \<in> set (LabelEntry s) \<and> op_Op op = Op_ADD \<and> op_wf op \<and>
      le_key op = Some k \<and> le_val E op = Some v \<and> e = v"
    and "op \<in> set (ag o') \<Longrightarrow> \<exists>k e v. (k, e) \<in> set (aft_NextHopGroup s) \<and> op_Op op = Op_ADD \<and> op_wf op \<and>
      nhg_key op = Some k \<and> nhg_val E op = Some v \<and> nhg_DeepEqual e v"
    and "op \<in> set (an o') \<Longrightarrow> \<exists>k e v. (k, e) \<in> set (aft_NextHop s) \<and> op_Op op = Op_ADD \<and> op_wf op \<and>
      nh_key op = Some k \<and> nh_val E op = Some v \<and> nh_DeepEqual e v"
proof -
  note M = m [unfolded ni_made_def] and C = c [unfolded afts_code_def]
  show "op \<in> set (a4 o') \<Longrightarrow> \<exists>k e v. (k, e) \<in> set (Ipv4Entry s) \<and> op_Op op = Op_ADD \<and> op_wf op \<and>
      v4_key op = Some k \<and> v4_val E op = Some v \<and> e = v"
    by (rule added_op [OF M [THEN conjunct1] _ numbered_builders(1) C [THEN conjunct1]])
  show "op \<in> set (a6 o') \<Longrightarrow> \<exists>k e v. (k, e) \<in> set (Ipv6Entry s) \<and> op_Op op = Op_ADD \<and> op_wf op \<and>
      v6_key op = Some k \<and> v6_val E op = Some v \<and> e = v"
    by (rule added_op [OF M [THEN conjunct2, THEN conjunct1] _ numbered_builders(2) C [THEN conjunct2, THEN conjunct1]])
  show "op \<in> set (al o') \<Longrightarrow> \<exists>k e v. (k, e) \<in> set (LabelEntry s) \<and> op_Op op = Op_ADD \<and> op_wf op \<and>
      le_key op = Some k \<and> le_val E op = Some v \<and> e = v"
    by (rule added_op [OF M [THEN conjunct2, THEN conjunct2, THEN conjunct1] _ numbered_builders(3) C [THEN conjunct2, THEN conjunct2, THEN conjunct1]])
  show "op \<in> set (ag o') \<Longrightarrow> \<exists>k e v. (k, e) \<in> set (aft_NextHopGroup s) \<and> op_Op op = Op_ADD \<and> op_wf op \<and>
      nhg_key op = Some k \<and> nhg_val E op = Some v \<and> nhg_DeepEqual e v"
    by (rule added_op [OF M [THEN conjunct2, THEN conjunct2, THEN conjunct2, THEN conjunct1] _ numbered_builders(4) C [THEN conjunct2, THEN conjunct2, THEN conjunct2, THEN conjunct1]])
  show "op \<in> set (an o') \<Longrightarrow> \<exists>k e v. (k, e) \<in> set (aft_NextHop s) \<and> op_Op op = Op_ADD \<and> op_wf op \<and>
      nh_key op = Some k \<and> nh_val E op = Some v \<and> nh_DeepEqual e v"
    by (rule added_op [OF M [THEN conjunct2, THEN conjunct2, THEN conjunct2, THEN conjunct2, THEN conjunct1] _ numbered_builders(5) C [THEN conjunct2, THEN conjunct2, THEN conjunct2, THEN conjunct2]])
qed

lemma ni_deleted:
  assumes m: "ni_made E (\<lambda>_. False) n s d o'" and c: "afts_code E d"
  shows "op \<in> set (d4 o') \<Longrightarrow> \<exists>k e. (k, e) \<in> set (Ipv4Entry d) \<and> gm_get (Ipv4Entry s) k = None \<and> op_Op op = Op_DELETE \<and>
      op_wf op \<and> v4_key op = Some k"
    and "op \<in> set (d6 o') \<Longrightarrow> \<exists>k e. (k, e) \<in> set (Ipv6Entry d) \<and> gm_get (Ipv6Entry s) k = None \<and> op_Op op = Op_DELETE \<and>
      op_wf op \<and> v6_key op = Some k"
    and "op \<in> set (dl o') \<Longrightarrow> \<exists>k e. (k, e) \<in> set (LabelEntry d) \<and> gm_get (LabelEntry s) k = None \<and> op_Op op = Op_DELETE \<and>
      op_wf op \<and> le_key op = Some k"
    and "op \<in> set (dg o') \<Longrightarrow> \<exists>k e. (k, e) \<in> set (aft_NextHopGroup d) \<and> gm_get (aft_NextHopGroup s) k = None \<and> op_Op op = Op_DELETE \<and>
      op_wf op \<and> nhg_key op = Some k"
    and "op \<in> set (dn o') \<Longrightarrow> \<exists>k e. (k, e) \<in> set (aft_NextHop d) \<and> gm_get (aft_NextHop s) k = None \<and> op_Op op = Op_DELETE \<and>
      op_wf op \<and> nh_key op = Some k"
proof -
  note M = m [unfolded ni_made_def] and C = c [unfolded afts_code_def]
  show "op \<in> set (d4 o') \<Longrightarrow> \<exists>k e. (k, e) \<in> set (Ipv4Entry d) \<and> gm_get (Ipv4Entry s) k = None \<and> op_Op op = Op_DELETE \<and>
      op_wf op \<and> v4_key op = Some k"
    by (rule deleted_op [OF M [THEN conjunct2, THEN conjunct2, THEN conjunct2, THEN conjunct2, THEN conjunct2, THEN conjunct1] _ numbered_builders(1) C [THEN conjunct1]])
  show "op \<in> set (d6 o') \<Longrightarrow> \<exists>k e. (k, e) \<in> set (Ipv6Entry d) \<and> gm_get (Ipv6Entry s) k = None \<and> op_Op op = Op_DELETE \<and>
      op_wf op \<and> v6_key op = Some k"
    by (rule deleted_op [OF M [THEN conjunct2, THEN conjunct2, THEN conjunct2, THEN conjunct2, THEN conjunct2, THEN conjunct2, THEN conjunct1] _ numbered_builders(2) C [THEN conjunct2, THEN conjunct1]])
  show "op \<in> set (dl o') \<Longrightarrow> \<exists>k e. (k, e) \<in> set (LabelEntry d) \<and> gm_get (LabelEntry s) k = None \<and> op_Op op = Op_DELETE \<and>
      op_wf op \<and> le_key op = Some k"
    by (rule deleted_op [OF M [THEN conjunct2, THEN conjunct2, THEN conjunct2, THEN conjunct2, THEN conjunct2, THEN conjunct2, THEN conjunct2, THEN conjunct1] _ numbered_builders(3) C [THEN conjunct2, THEN conjunct2, THEN conjunct1]])
  show "op \<in> set (dg o') \<Longrightarrow> \<exists>k e. (k, e) \<in> set (aft_NextHopGroup d) \<and> gm_get (aft_NextHopGroup s) k = None \<and> op_Op op = Op_DELETE \<and>
      op_wf op \<and> nhg_key op = Some k"
    by (rule deleted_op [OF M [THEN conjunct2, THEN conjunct2, THEN conjunct2, THEN conjunct2, THEN conjunct2, THEN conjunct2, THEN conjunct2, THEN conjunct2, THEN conjunct1] _ numbered_builders(4) C [THEN conjunct2, THEN conjunct2, THEN conjunct2, THEN conjunct1]])
  show "op \<in> set (dn o') \<Longrightarrow> \<exists>k e. (k, e) \<in> set (aft_NextHop d) \<and> gm_get (aft_NextHop s) k = None \<and> op_Op op = Op_DELETE \<and>
      op_wf op \<and> nh_key op = Some k"
    by (rule deleted_op [OF M [THEN conjunct2, THEN conjunct2, THEN conjunct2, THEN conjunct2, THEN conjunct2, THEN conjunct2, THEN conjunct2, THEN conjunct2, THEN conjunct2] _ numbered_builders(5) C [THEN conjunct2, THEN conjunct2, THEN conjunct2, THEN conjunct2]])
qed

lemma entry_of_key:
  "v4_key op = Some p \<Longrightarrow> \<exists>e. op_Entry op = Some (AFTOp_Ipv4 (Some e)) \<and> v4_value E e = v4_val E op"
  "v6_key op = Some q \<Longrightarrow> \<exists>e. op_Entry op = Some (AFTOp_Ipv6 (Some e)) \<and> v6_value E e = v6_val E op"
  "le_key op = Some l \<Longrightarrow> \<exists>e. op_Entry op = Some (AFTOp_Mpls (Some e)) \<and> le_value E e = le_val E op"
  "nhg_key op = Some g \<Longrightarrow> \<exists>e. op_Entry op = Some (AFTOp_NextHopGroup (Some e)) \<and> nhgk_Id e = g \<and> nhg_value E e = nhg_val E op"
  "nh_key op = Some i \<Longrightarrow> \<exists>e. op_Entry op = Some (AFTOp_NextHop (Some e)) \<and> nhk_Index e = i \<and> nh_value E e = nh_val E op"
  by (auto simp: key_defs val_defs split: option.splits AFTOperation_Entry.splits)

lemma keyed_in: "keyed ok m \<Longrightarrow> (k, e) \<in> set m \<Longrightarrow> ok k e"
  by (force simp: keyed_def)

text \<open>The references of stored entries.\<close>

lemma raw_refs_in:
  "y \<in># raw_refs a \<longleftrightarrow> (\<exists>p\<in>set (Ipv4Entry a). v4_ref (snd p) = y) \<or> (\<exists>p\<in>set (Ipv6Entry a). v6_ref (snd p) = y) \<or>
    (\<exists>p\<in>set (LabelEntry a). le_ref (snd p) = y)"
  by (auto simp: raw_refs_def table_refs_def)

lemma raw_nh_refs_in:
  "i \<in># raw_nh_refs a \<longleftrightarrow> (\<exists>p\<in>set (aft_NextHopGroup a). i \<in> fst ` set (nhg_NextHop (snd p)))"
  by (auto simp: raw_nh_refs_def in_sum_list_mset group_nhs_def)

lemma DeepEqual_nhs:
  assumes "nhg_DeepEqual a b"
  shows "fst ` set (nhg_NextHop a) = fst ` set (nhg_NextHop b)" and "nhg_NextHop a = [] \<longleftrightarrow> nhg_NextHop b = []"
proof -
  have "(k, v) \<in> set (nhg_NextHop a) \<Longrightarrow> (k, v) \<in> set (nhg_NextHop b)"
    "(k, v) \<in> set (nhg_NextHop b) \<Longrightarrow> (k, v) \<in> set (nhg_NextHop a)" for k v
    using assms by (auto simp: nhg_DeepEqual_def gm_equal_def list_all_iff dest: map_of_SomeD)
  then have "set (nhg_NextHop a) = set (nhg_NextHop b)" by auto
  then show "fst ` set (nhg_NextHop a) = fst ` set (nhg_NextHop b)" "nhg_NextHop a = [] \<longleftrightarrow> nhg_NextHop b = []"
    by (simp, metis set_empty)
qed

subsection \<open>Acceptance, phase by phase\<close>

lemma accept_hops:
  assumes c: "compared E S T ops" and op: "op \<in> set (phases ops ! 0)"
  shows "op_ok E X op"
proof -
  obtain o' where m: "ni_made E (\<lambda>_. False) (op_NetworkInstance op) (S (op_NetworkInstance op)) (T (op_NetworkInstance op)) o'"
    and p: "phase_of op = 0" and l: "op \<in> set (ni_list o')" by (rule in_phase [OF c op]) simp
  have o: "op \<in> set (an o')" by (rule in_phase_list(1) [OF m l p])
  note D = comparedD(1-3) [OF c] comparedD(4-7) [OF c, where n = "op_NetworkInstance op"]
  obtain k e v where k: "(k, e) \<in> set (aft_NextHop (S (op_NetworkInstance op)))" "op_Op op = Op_ADD" "op_wf op" "nh_key op = Some k"
      "nh_val E op = Some v"
    using ni_added(5) [OF m D(6) o] by blast
  have "k \<noteq> 0" using keyed_in [OF _ k(1), of nh_ok] D(4) by (simp add: tables_wf_def nh_ok_def)
  with k entry_of_key(5) [OF k(4), of E] show ?thesis by (auto simp: op_ok_def add_ok_def)
qed

lemma accept_groups:
  assumes c: "compared E S T ops" and op: "op \<in> set (phases ops ! 1)" and X: "\<And>x. hop_in S x \<Longrightarrow> hop_in X x"
  shows "op_ok E X op"
proof -
  let ?n = "op_NetworkInstance op"
  obtain o' where m: "ni_made E (\<lambda>_. False) ?n (S ?n) (T ?n) o'" and p: "phase_of op = 1" and l: "op \<in> set (ni_list o')"
    by (rule in_phase [OF c op]) simp
  have o: "op \<in> set (ag o')" by (rule in_phase_list(2) [OF m l p])
  note D = comparedD(1-3) [OF c] comparedD(4-7) [OF c, where n = ?n]
  obtain k e v where k: "(k, e) \<in> set (aft_NextHopGroup (S ?n))" "op_Op op = Op_ADD" "op_wf op" "nhg_key op = Some k"
      "nhg_val E op = Some v" "nhg_DeepEqual e v"
    using ni_added(4) [OF m D(6) o] by blast
  have g: "group_ok k e" using keyed_in [OF _ k(1), of group_ok] D(4) by (simp add: tables_wf_def)
  have hop: "fst q \<noteq> 0 \<and> hop_in X (?n, fst q)" if q: "q \<in> set (nhg_NextHop v)" for q
  proof -
    have "fst q \<in> fst ` set (nhg_NextHop e)" using DeepEqual_nhs(1) [OF k(6)] q by simp
    then have "fst q \<in># raw_nh_refs (S ?n)" using k(1) unfolding raw_nh_refs_in by (intro bexI [of _ "(k, e)"]) simp_all
    then have h: "hop_in S (?n, fst q)" using D(3) by (simp add: closed_def)
    then obtain w where "gm_get (aft_NextHop (S ?n)) (fst q) = Some w" by (auto simp: hop_in_def)
    then have "fst q \<noteq> 0" using D(4) keyed_get [of nh_ok] unfolding tables_wf_def nh_ok_def by blast
    with X [OF h] show ?thesis by simp
  qed
  obtain e' where e': "op_Entry op = Some (AFTOp_NextHopGroup (Some e'))" "nhgk_Id e' = k" "nhg_value E e' = Some v"
    using entry_of_key(4) [OF k(4), of E] k(5) by auto
  have "nhgk_Id e' \<noteq> 0" "nhg_NextHop v \<noteq> []" using g DeepEqual_nhs(2) [OF k(6)] e'(2) by (simp_all add: group_ok_def)
  with hop k(2,3) e' show ?thesis by (simp add: op_ok_def add_ok_def)
qed

lemma refers_group:
  assumes c: "compared E S T ops" and y: "y \<in># raw_refs (S n)" and X: "\<And>x. group_in S x \<Longrightarrow> group_in X x"
  shows "refers_ok X n y"
proof -
  have g: "group_in S (resolve_ref n y)" using comparedD(3) [OF c] y unfolding closed_def by blast
  then obtain w where "gm_get (aft_NextHopGroup (S (fst (resolve_ref n y)))) (snd (resolve_ref n y)) = Some w" by (auto simp: group_in_def)
  then have "snd (resolve_ref n y) \<noteq> 0"
    using comparedD(4) [OF c] keyed_get [of group_ok] unfolding tables_wf_def group_ok_def by blast
  with X [OF g] show ?thesis by (simp add: refers_ok_def resolve_ref_def)
qed

lemma accept_tops:
  assumes c: "compared E S T ops" and op: "op \<in> set (phases ops ! 2)" and X: "\<And>x. group_in S x \<Longrightarrow> group_in X x"
  shows "op_ok E X op"
proof -
  let ?n = "op_NetworkInstance op"
  obtain o' where m: "ni_made E (\<lambda>_. False) ?n (S ?n) (T ?n) o'" and p: "phase_of op = 2" and l: "op \<in> set (ni_list o')"
    by (rule in_phase [OF c op]) simp
  note D = comparedD(1-3) [OF c] comparedD(4-7) [OF c, where n = ?n]
  note R = refers_group [OF c _ X, of _ ?n, unfolded raw_refs_in]
  from in_phase_list(3) [OF m l p] show ?thesis
  proof (elim UnE)
    assume o: "op \<in> set (a4 o')"
    obtain k e v where k: "(k, e) \<in> set (Ipv4Entry (S ?n))" "op_Op op = Op_ADD" "op_wf op" "v4_key op = Some k" "v4_val E op = Some v" "e = v"
      using ni_added(1) [OF m D(6) o] by blast
    have "refers_ok X ?n (v4_ref v)" by (rule R) (use k(1,6) in force)
    with k entry_of_key(1) [OF k(4), of E] show ?thesis by (auto simp: op_ok_def add_ok_def split: option.split)
  next
    assume o: "op \<in> set (a6 o')"
    obtain k e v where k: "(k, e) \<in> set (Ipv6Entry (S ?n))" "op_Op op = Op_ADD" "op_wf op" "v6_key op = Some k" "v6_val E op = Some v" "e = v"
      using ni_added(2) [OF m D(6) o] by blast
    have "refers_ok X ?n (v6_ref v)" by (rule R) (use k(1,6) in force)
    with k entry_of_key(2) [OF k(4), of E] show ?thesis by (auto simp: op_ok_def add_ok_def split: option.split)
  next
    assume o: "op \<in> set (al o')"
    obtain k e v where k: "(k, e) \<in> set (LabelEntry (S ?n))" "op_Op op = Op_ADD" "op_wf op" "le_key op = Some k" "le_val E op = Some v" "e = v"
      using ni_added(3) [OF m D(6) o] by blast
    have "refers_ok X ?n (le_ref v)" by (rule R) (use k(1,6) in force)
    with k entry_of_key(3) [OF k(4), of E] show ?thesis by (auto simp: op_ok_def add_ok_def split: option.split)
  qed
qed

lemma accept_top_deletes:
  assumes c: "compared E S T ops" and op: "op \<in> set (phases ops ! 3)"
  shows "op_ok E X op"
proof -
  let ?n = "op_NetworkInstance op"
  obtain o' where m: "ni_made E (\<lambda>_. False) ?n (S ?n) (T ?n) o'" and p: "phase_of op = 3" and l: "op \<in> set (ni_list o')"
    by (rule in_phase [OF c op]) simp
  note D = comparedD(1-3) [OF c] comparedD(4-7) [OF c, where n = ?n]
  from in_phase_list(4) [OF m l p] show ?thesis
  proof (elim UnE)
    assume o: "op \<in> set (d4 o')"
    obtain k where k: "op_Op op = Op_DELETE" "op_wf op" "v4_key op = Some k"
      using ni_deleted(1) [OF m D(7) o] by blast
    with entry_of_key(1) [OF k(3), of E] show ?thesis by (auto simp: op_ok_def delete_ok_def)
  next
    assume o: "op \<in> set (d6 o')"
    obtain k where k: "op_Op op = Op_DELETE" "op_wf op" "v6_key op = Some k"
      using ni_deleted(2) [OF m D(7) o] by blast
    with entry_of_key(2) [OF k(3), of E] show ?thesis by (auto simp: op_ok_def delete_ok_def)
  next
    assume o: "op \<in> set (dl o')"
    obtain k where k: "op_Op op = Op_DELETE" "op_wf op" "le_key op = Some k"
      using ni_deleted(3) [OF m D(7) o] by blast
    with entry_of_key(3) [OF k(3), of E] show ?thesis by (auto simp: op_ok_def delete_ok_def)
  qed
qed

lemma accept_group_deletes:
  assumes c: "compared E S T ops" and op: "op \<in> set (phases ops ! 4)"
    and X: "\<And>n y. y \<in># raw_refs (X n) \<Longrightarrow> y \<in># raw_refs (S n)"
  shows "op_ok E X op"
proof -
  let ?n = "op_NetworkInstance op"
  obtain o' where m: "ni_made E (\<lambda>_. False) ?n (S ?n) (T ?n) o'" and p: "phase_of op = 4" and l: "op \<in> set (ni_list o')"
    by (rule in_phase [OF c op]) simp
  note D = comparedD(1-3) [OF c] comparedD(4-7) [OF c, where n = ?n]
  obtain k e where k: "(k, e) \<in> set (aft_NextHopGroup (T ?n))" "gm_get (aft_NextHopGroup (S ?n)) k = None"
      "op_Op op = Op_DELETE" "op_wf op" "nhg_key op = Some k"
    using ni_deleted(4) [OF m D(7) in_phase_list(5) [OF m l p]] by blast
  have "k \<noteq> 0" using keyed_in [OF _ k(1), of group_ok] D(5) by (simp add: tables_wf_def group_ok_def)
  moreover have "resolve_ref n y \<noteq> (?n, k)" if "y \<in># raw_refs (X n)" for n y
    using D(3) X [OF that] k(2) unfolding closed_def by (metis group_in_def fst_conv snd_conv)
  ultimately show ?thesis using k entry_of_key(4) [OF k(5), of E] by (auto simp: op_ok_def delete_ok_def)
qed

lemma accept_hop_deletes:
  assumes c: "compared E S T ops" and op: "op \<in> set (phases ops ! 5)"
    and X: "\<And>n i. i \<in># raw_nh_refs (X n) \<Longrightarrow> i \<in># raw_nh_refs (S n)"
  shows "op_ok E X op"
proof -
  let ?n = "op_NetworkInstance op"
  obtain o' where m: "ni_made E (\<lambda>_. False) ?n (S ?n) (T ?n) o'" and p: "phase_of op = 5" and l: "op \<in> set (ni_list o')"
    by (rule in_phase [OF c op]) simp
  note D = comparedD(1-3) [OF c] comparedD(4-7) [OF c, where n = ?n]
  obtain k e where k: "(k, e) \<in> set (aft_NextHop (T ?n))" "gm_get (aft_NextHop (S ?n)) k = None"
      "op_Op op = Op_DELETE" "op_wf op" "nh_key op = Some k"
    using ni_deleted(5) [OF m D(7) in_phase_list(6) [OF m l p]] by blast
  have "k \<noteq> 0" using keyed_in [OF _ k(1), of nh_ok] D(5) by (simp add: tables_wf_def nh_ok_def)
  moreover have "k \<notin># raw_nh_refs (X ?n)"
  proof
    assume "k \<in># raw_nh_refs (X ?n)"
    then have "hop_in S (?n, k)" using D(3) X unfolding closed_def by blast
    with k(2) show False by (simp add: hop_in_def)
  qed
  ultimately show ?thesis using k entry_of_key(5) [OF k(5), of E] by (auto simp: op_ok_def delete_ok_def)
qed

end
