(* ===== verification/ReconcileOrder.thy ===== *)
theory ReconcileOrder
  imports ReconcileAccept
begin

text \<open>
  The whole make-before-break run: each phase keeps what the later ones rely on.
\<close>

subsection \<open>What an operation leaves alone\<close>

lemma program_other:
  "nh_key op = None \<Longrightarrow> aft_NextHop (program_op E op a) = aft_NextHop a"
  "nhg_key op = None \<Longrightarrow> aft_NextHopGroup (program_op E op a) = aft_NextHopGroup a"
  "nhg_key op \<noteq> None \<or> nh_key op \<noteq> None \<Longrightarrow> raw_refs (program_op E op a) = raw_refs a"
  "nh_key op \<noteq> None \<Longrightarrow> raw_nh_refs (program_op E op a) = raw_nh_refs a"
  by (auto simp: program_op_def put_value_def key_defs raw_refs_def raw_nh_refs_def put_defs del_defs
      split: option.splits AFTOperation_Entry.splits)

lemma step_other:
  "nh_key op = None \<Longrightarrow> hop_in (step_tables E op X) x = hop_in X x"
  "nhg_key op = None \<Longrightarrow> group_in (step_tables E op X) x = group_in X x"
  "nhg_key op \<noteq> None \<or> nh_key op \<noteq> None \<Longrightarrow> raw_refs (step_tables E op X n) = raw_refs (X n)"
  "nh_key op \<noteq> None \<Longrightarrow> raw_nh_refs (step_tables E op X n) = raw_nh_refs (X n)"
  by (simp_all add: step_tables_def hop_in_def group_in_def program_other)

definition gms :: "Afts \<Rightarrow> bool" where
  "gms a \<longleftrightarrow> gm_wf (Ipv4Entry a) \<and> gm_wf (Ipv6Entry a) \<and> gm_wf (LabelEntry a) \<and> gm_wf (aft_NextHopGroup a) \<and> gm_wf (aft_NextHop a)"

lemma gms_program: "gms a \<Longrightarrow> gms (program_op E op a)"
  by (auto simp: gms_def program_op_def put_value_def put_defs del_defs split: option.split AFTOperation_Entry.split)

lemma gms_run: "\<forall>n. gms (X n) \<Longrightarrow> gms (run_tables E os X n)"
proof (induction os arbitrary: X)
  case (Cons op os)
  have "\<forall>n. gms (step_tables E op X n)" using Cons.prems gms_program by (simp add: step_tables_def)
  from Cons.IH [OF this] show ?case by (simp add: run_tables_def)
qed (simp add: run_tables_def)

lemma table_equal_in:
  assumes "table_equal eq s t" and "gm_wf t" and "p \<in> set t"
  shows "\<exists>e. (fst p, e) \<in> set s \<and> eq e (snd p)"
proof -
  have "gm_get t (fst p) = Some (snd p)" using assms(2,3) by (simp add: gm_get_Some_iff)
  with assms(1) have "rel_option eq (gm_get s (fst p)) (Some (snd p))" unfolding table_equal_def by metis
  then obtain e where "gm_get s (fst p) = Some e" "eq e (snd p)" by (auto simp: option_rel_Some2)
  then show ?thesis by (blast dest: map_of_SomeD)
qed

subsection \<open>The run\<close>

lemma phase_keys:
  "phase_of op = 1 \<Longrightarrow> nh_key op = None" "phase_of op = 2 \<Longrightarrow> nhg_key op = None"
  "phase_of op = 4 \<Longrightarrow> nhg_key op \<noteq> None" "phase_of op = 5 \<Longrightarrow> nh_key op \<noteq> None"
  by (auto simp: phase_of_def split: if_splits)

lemma phase_at: "compared E S T ops \<Longrightarrow> op \<in> set (phases ops ! j) \<Longrightarrow> j < 6 \<Longrightarrow> phase_of op = j"
  by (erule in_phase)

lemma upto_refs:
  assumes c: "compared E S T ops" and y: "y \<in># raw_refs (run_tables E (upto_phase 3 ops) T n)"
  shows "y \<in># raw_refs (S n)"
proof -
  have "gms (T m)" for m using tables_wf_gm [OF comparedD(5) [OF c, of m]] by (simp add: gms_def)
  then have w: "gms (run_tables E (upto_phase 3 ops) T n)" by (simp add: gms_run)
  note t = after_tops [OF c, of n]
  show ?thesis
    using y table_equal_in [OF t(1)] table_equal_in [OF t(2)] table_equal_in [OF t(3)] w
    unfolding raw_refs_in gms_def by (elim disjE bexE) (metis snd_conv)+
qed

lemma upto_nh_refs:
  assumes c: "compared E S T ops" and i: "i \<in># raw_nh_refs (run_tables E (upto_phase 4 ops) T n)"
  shows "i \<in># raw_nh_refs (S n)"
proof -
  have "gms (T m)" for m using tables_wf_gm [OF comparedD(5) [OF c, of m]] by (simp add: gms_def)
  then have w: "gms (run_tables E (upto_phase 4 ops) T n)" by (simp add: gms_run)
  obtain p where p: "p \<in> set (aft_NextHopGroup (run_tables E (upto_phase 4 ops) T n))" "i \<in> fst ` set (nhg_NextHop (snd p))"
    using i unfolding raw_nh_refs_in by blast
  obtain e where e: "(fst p, e) \<in> set (aft_NextHopGroup (S n))" "nhg_DeepEqual e (snd p)"
    using table_equal_in [OF after_group_deletes [OF c, of n] _ p(1)] w by (auto simp: gms_def)
  with p(2) show ?thesis unfolding raw_nh_refs_in using DeepEqual_nhs(1) [OF e(2)] by (intro bexI [of _ "(fst p, e)"]) simp_all
qed

lemma make_before_break_ok:
  assumes c: "compared E S T ops"
  shows "run_ok E (make_before_break ops) T"
proof -
  let ?p = "\<lambda>j. phases ops ! j" and ?X = "\<lambda>j. run_tables E (upto_phase j ops) T"
  have ph: "phases ops = [?p 0, ?p 1, ?p 2, ?p 3, ?p 4, ?p 5]" by (simp add: phases_def)
  have U: "upto_phase 0 ops = ?p 0" "upto_phase 1 ops = upto_phase 0 ops @ ?p 1" "upto_phase 2 ops = upto_phase 1 ops @ ?p 2"
    "upto_phase 3 ops = upto_phase 2 ops @ ?p 3" "upto_phase 4 ops = upto_phase 3 ops @ ?p 4"
    by (simp_all add: upto_phase_def phases_def numeral_eq_Suc)
  have all: "make_before_break ops = upto_phase 4 ops @ ?p 5"
    by (simp add: upto_phase_def make_before_break_def phases_def numeral_eq_Suc)
  have 0: "run_ok E (?p 0) T" using run_ok_inv [of "\<lambda>_. True" T "?p 0" E] accept_hops [OF c] by simp
  have 1: "run_ok E (?p 1) (?X 0)"
  proof -
    have "nh_key op = None" if "op \<in> set (?p 1)" for op using phase_at [OF c that] phase_keys(1) by simp
    note none = this
    show ?thesis
    proof (rule run_ok_inv [where P = "\<lambda>X. \<forall>x. hop_in S x \<longrightarrow> hop_in X x", THEN conjunct1])
      show "\<forall>x. hop_in S x \<longrightarrow> hop_in (?X 0) x" using after_hops [OF c] by blast
      fix X op assume op: "op \<in> set (?p 1)" and X: "\<forall>x. hop_in S x \<longrightarrow> hop_in X x"
      show "op_ok E X op \<and> (\<forall>x. hop_in S x \<longrightarrow> hop_in (step_tables E op X) x)"
        using accept_groups [OF c op] X none [OF op] by (simp only: step_other; blast)
    qed
  qed
  have 2: "run_ok E (?p 2) (?X 1)"
  proof -
    have "nhg_key op = None" if "op \<in> set (?p 2)" for op using phase_at [OF c that] phase_keys(2) by simp
    note none = this
    show ?thesis
    proof (rule run_ok_inv [where P = "\<lambda>X. \<forall>x. group_in S x \<longrightarrow> group_in X x", THEN conjunct1])
      show "\<forall>x. group_in S x \<longrightarrow> group_in (?X 1) x" using after_groups [OF c] by blast
      fix X op assume op: "op \<in> set (?p 2)" and X: "\<forall>x. group_in S x \<longrightarrow> group_in X x"
      show "op_ok E X op \<and> (\<forall>x. group_in S x \<longrightarrow> group_in (step_tables E op X) x)"
        using accept_tops [OF c op] X none [OF op] by (simp only: step_other; blast)
    qed
  qed
  have 3: "run_ok E (?p 3) (?X 2)" using run_ok_inv [of "\<lambda>_. True" "?X 2" "?p 3" E] accept_top_deletes [OF c] by simp
  have 4: "run_ok E (?p 4) (?X 3)"
  proof -
    have "nhg_key op \<noteq> None" if "op \<in> set (?p 4)" for op using phase_at [OF c that] phase_keys(3) by simp
    note none = this
    show ?thesis
    proof (rule run_ok_inv [where P = "\<lambda>X. \<forall>n y. y \<in># raw_refs (X n) \<longrightarrow> y \<in># raw_refs (S n)", THEN conjunct1])
      show "\<forall>n y. y \<in># raw_refs (?X 3 n) \<longrightarrow> y \<in># raw_refs (S n)" using upto_refs [OF c] by blast
      fix X op assume op: "op \<in> set (?p 4)" and X: "\<forall>n y. y \<in># raw_refs (X n) \<longrightarrow> y \<in># raw_refs (S n)"
      show "op_ok E X op \<and> (\<forall>n y. y \<in># raw_refs (step_tables E op X n) \<longrightarrow> y \<in># raw_refs (S n))"
      proof
        show "op_ok E X op" using accept_group_deletes [OF c op] X by blast
        have "raw_refs (step_tables E op X n) = raw_refs (X n)" for n by (rule step_other(3)) (use none [OF op] in simp)
        with X show "\<forall>n y. y \<in># raw_refs (step_tables E op X n) \<longrightarrow> y \<in># raw_refs (S n)" by (simp only:)
      qed
    qed
  qed
  have 5: "run_ok E (?p 5) (?X 4)"
  proof -
    have "nh_key op \<noteq> None" if "op \<in> set (?p 5)" for op using phase_at [OF c that] phase_keys(4) by simp
    note none = this
    show ?thesis
    proof (rule run_ok_inv [where P = "\<lambda>X. \<forall>n i. i \<in># raw_nh_refs (X n) \<longrightarrow> i \<in># raw_nh_refs (S n)", THEN conjunct1])
      show "\<forall>n i. i \<in># raw_nh_refs (?X 4 n) \<longrightarrow> i \<in># raw_nh_refs (S n)" using upto_nh_refs [OF c] by blast
      fix X op assume op: "op \<in> set (?p 5)" and X: "\<forall>n i. i \<in># raw_nh_refs (X n) \<longrightarrow> i \<in># raw_nh_refs (S n)"
      show "op_ok E X op \<and> (\<forall>n i. i \<in># raw_nh_refs (step_tables E op X n) \<longrightarrow> i \<in># raw_nh_refs (S n))"
      proof
        show "op_ok E X op" using accept_hop_deletes [OF c op] X by blast
        have "raw_nh_refs (step_tables E op X n) = raw_nh_refs (X n)" for n by (rule step_other(4)) (rule none [OF op])
        with X show "\<forall>n i. i \<in># raw_nh_refs (step_tables E op X n) \<longrightarrow> i \<in># raw_nh_refs (S n)" by (simp only:)
      qed
    qed
  qed
  from 0 1 2 3 4 5 show ?thesis unfolding all U run_ok_append by simp
qed

end
