(* ===== verification/ReconcileSample.thy ===== *)
theory ReconcileSample
  imports ReconcileOrder RibProps
begin

text \<open>
  The sample libraries lose nothing of the entries that the sample operations store, and two
  sample RIBs to reconcile: they differ in a route, in a next-hop and in the contents of a
  next-hop-group.
\<close>

definition plain_v4 :: "string \<Rightarrow> Afts_Ipv4Entry \<Rightarrow> bool" where
  "plain_v4 k e \<longleftrightarrow> v4_Prefix e = Some k \<and> v4_DecapsulateHeader e = 0"

definition plain_v6 :: "string \<Rightarrow> Afts_Ipv6Entry \<Rightarrow> bool" where
  "plain_v6 k e \<longleftrightarrow> v6_Prefix e = Some k \<and> v6_DecapsulateHeader e = 0"

definition plain_le :: "Label_Union \<Rightarrow> Afts_LabelEntry \<Rightarrow> bool" where
  "plain_le k e \<longleftrightarrow> le_Label e = Some k \<and> le_EntryMetadata e = None \<and> le_PoppedMplsLabelStack e = [] \<and>
     (case k of UnionUint32 _ \<Rightarrow> True | _ \<Rightarrow> False)"

definition plain_nhg :: "u64 \<Rightarrow> Afts_NextHopGroup \<Rightarrow> bool" where
  "plain_nhg k e \<longleftrightarrow> nhg_Id e = Some k \<and> nhg_Color e = None \<and> gm_wf (nhg_NextHop e) \<and>
     list_all (\<lambda>(i, n). nhgnh_Index n = Some i) (nhg_NextHop e)"

definition plain_nh :: "u64 \<Rightarrow> Afts_NextHop \<Rightarrow> bool" where
  "plain_nh k e \<longleftrightarrow> e = (NewNextHop k)\<lparr>nh_IpAddress := nh_IpAddress e\<rparr>"

lemmas builder_defs = v4Operation_def v6Operation_def mplsOperation_def nhgOperation_def nhOperation_def build_op_def
  ConcreteIPv4Proto_def ConcreteIPv6Proto_def ConcreteMPLSProto_def ConcreteNextHopGroupProto_def ConcreteNextHopProto_def

lemma conv_nhs_map:
  "gm_wf m \<Longrightarrow> list_all (\<lambda>(i, n). nhgnh_Index n = Some i) m \<Longrightarrow>
    conv_nhs (map (\<lambda>(k, n). \<lparr>nhgnhk_Index = k, nhgnhk_NextHop = Some \<lparr>nhgnhpb_Weight = nhgnh_Weight n\<rparr>\<rparr>) m) = m"
proof (induction m rule: rev_induct)
  case Nil
  then show ?case by (simp add: conv_nhs_def)
next
  case (snoc p m)
  obtain k n where p: "p = (k, n)" by (cases p)
  have "gm_get m k = None" using snoc.prems(1) by (simp add: p map_of_eq_None_iff)
  then have "gm_put k n m = m @ [(k, n)]" by (induction m) auto
  moreover have "\<lparr>nhgnh_Index = Some k, nhgnh_Weight = nhgnh_Weight n\<rparr> = n" using snoc.prems(2) by (cases n) (simp add: p)
  ultimately have "gm_put k \<lparr>nhgnh_Index = Some k, nhgnh_Weight = nhgnh_Weight n\<rparr> m = m @ [(k, n)]" by (simp only:)
  then show ?case using snoc by (simp add: p conv_nhs_snoc)
qed

lemma gm_equal_refl: "gm_wf m \<Longrightarrow> gm_equal m m"
  by (auto simp: gm_equal_def list_all_iff)

lemma ucast_label: "ucast (ucast (l :: u32) :: u64) = l"
  by (rule ucast_up_ucast_id) (simp add: is_up)

lemma sample_codes:
  "plain_v4 p e4 \<Longrightarrow> codes (v4Operation sample_env) v4_key (v4_val sample_env) (=) p e4"
  "plain_v6 q e6 \<Longrightarrow> codes (v6Operation sample_env) v6_key (v6_val sample_env) (=) q e6"
  "plain_le l el \<Longrightarrow> codes (mplsOperation sample_env) le_key (le_val sample_env) (=) l el"
  "plain_nhg g eg \<Longrightarrow> codes (nhgOperation sample_env) nhg_key (nhg_val sample_env) nhg_DeepEqual g eg"
  "plain_nh i en \<Longrightarrow> codes (nhOperation sample_env) nh_key (nh_val sample_env) nh_DeepEqual i en"
proof -
  show "plain_v4 p e4 \<Longrightarrow> codes (v4Operation sample_env) v4_key (v4_val sample_env) (=) p e4"
    by (simp add: codes_def builder_defs plain_v4_def sample_env_def candidateRIB_def sample_ygot_def v4_key_def v4_val_def v4_value_def
        sample_conv_def conv_v4_def empty_Afts_pb_def op_wf_def)
  show "plain_v6 q e6 \<Longrightarrow> codes (v6Operation sample_env) v6_key (v6_val sample_env) (=) q e6"
    by (simp add: codes_def builder_defs plain_v6_def sample_env_def candidateRIB_def sample_ygot_def v6_key_def v6_val_def v6_value_def
        sample_conv_def conv_v6_def empty_Afts_pb_def op_wf_def)
  show "plain_le l el \<Longrightarrow> codes (mplsOperation sample_env) le_key (le_val sample_env) (=) l el"
    by (cases l; cases el) (simp_all add: ucast_label codes_def builder_defs plain_le_def sample_env_def candidateRIB_def sample_ygot_def le_key_def le_val_def le_value_def
        sample_conv_def conv_le_def empty_Afts_pb_def op_wf_def numeric_label_def label_of_def GetLabelUint64_def)
  show "plain_nhg g eg \<Longrightarrow> codes (nhgOperation sample_env) nhg_key (nhg_val sample_env) nhg_DeepEqual g eg"
    by (simp add: codes_def builder_defs plain_nhg_def sample_env_def candidateRIB_def sample_ygot_def nhg_key_def nhg_val_def nhg_value_def
        sample_conv_def conv_nhg_def empty_Afts_pb_def op_wf_def pb_nhs_def conv_nhs_map [unfolded case_prod_unfold] nhg_DeepEqual_def gm_equal_refl o_def case_prod_unfold)
  assume "plain_nh i en"
  then obtain a where "en = (NewNextHop i)\<lparr>nh_IpAddress := a\<rparr>" by (auto simp: plain_nh_def)
  then show "codes (nhOperation sample_env) nh_key (nh_val sample_env) nh_DeepEqual i en"
    by (simp add: codes_def builder_defs sample_env_def candidateRIB_def sample_ygot_def nh_key_def nh_val_def nh_value_def
        sample_conv_def conv_nh_def NewNextHop_def empty_Afts_pb_def op_wf_def nh_DeepEqual_def gm_equal_def)
qed

definition plain_tables :: "Afts \<Rightarrow> bool" where
  "plain_tables a \<longleftrightarrow> list_all (\<lambda>(k, e). plain_v4 k e) (Ipv4Entry a) \<and> list_all (\<lambda>(k, e). plain_v6 k e) (Ipv6Entry a) \<and>
     list_all (\<lambda>(k, e). plain_le k e) (LabelEntry a) \<and> list_all (\<lambda>(k, e). plain_nhg k e) (aft_NextHopGroup a) \<and>
     list_all (\<lambda>(k, e). plain_nh k e) (aft_NextHop a)"

lemma plain_rib_codes: "list_all (\<lambda>(n, h). plain_tables (afts h)) (niRIB r) \<Longrightarrow> rib_codes sample_env r"
  by (fastforce simp: rib_codes_def afts_code_def plain_tables_def list_all_iff intro: sample_codes)

definition other_rib :: RIB where
  "other_rib = sample_add (v4_op 3 Op_ADD ''2.0.0.0/8'' 1)
     (sample_add (nhg_op 2 Op_ADD 1 [2] None) (sample_add (nh_op 1 Op_ADD 2) sample0))"

lemma other_reach: "rib_reach sample_env False other_rib"
proof -
  let ?r1 = "sample_add (nh_op 1 Op_ADD 2) sample0"
  let ?r2 = "sample_add (nhg_op 2 Op_ADD 1 [2] None) ?r1"
  have a: "acceptable sample0 ''DEFAULT'' (nh_op 1 Op_ADD 2)" "acceptable ?r1 ''DEFAULT'' (nhg_op 2 Op_ADD 1 [2] None)"
    "acceptable ?r2 ''DEFAULT'' (v4_op 3 Op_ADD ''2.0.0.0/8'' 1)" by code_simp+
  have n: "n_rib ?r1 + length (pendingEntries ?r1) \<le> 9" "n_rib ?r2 + length (pendingEntries ?r2) \<le> 9" by code_simp+
  note s = sample_step [OF sample_reach(1) sample_room(1) a(1)]
  show ?thesis unfolding other_rib_def
    using sample_step [OF sample_step [OF s small_room [OF n(1)] a(2)] small_room [OF n(2)] a(3)] .
qed

lemma sample_plain: "rib_codes sample_env sample0" "rib_codes sample_env sample3" "rib_codes sample_env other_rib"
  by (rule plain_rib_codes, code_simp)+

end
