(* ===== verification/RemoteProps.thy ===== *)
theory RemoteProps
  imports Remote ReconcileSample ServerQuery
begin

text \<open>
  The round trip of a RIB: the messages that a server sends for a Get of everything, read by
  the client and rebuilt by \<open>FromGetResponses\<close>, give a RIB with the tables of the server's.
\<close>

subsection \<open>Collecting the entries of one network instance\<close>

text \<open>A network instance gets a message with its first entry.\<close>

definition put_ni :: "string \<Rightarrow> Afts_pb \<Rightarrow> (string, Afts_pb) gomap \<Rightarrow> (string, Afts_pb) gomap" where
  "put_ni n p m = (if p = empty_Afts_pb then m else gm_put n p m)"

definition add_entry :: "AFTEntry_Entry \<Rightarrow> Afts_pb \<Rightarrow> Afts_pb" where
  "add_entry x a = (case add_response_entry (Some x) a of Inr a' \<Rightarrow> a' | Inl _ \<Rightarrow> a)"

lemma add_entry:
  assumes "x \<noteq> AFTEntry_Other"
  shows "add_response_entry (Some x) a = Inr (add_entry x a)" "add_entry x a \<noteq> empty_Afts_pb"
proof -
  show "add_response_entry (Some x) a = Inr (add_entry x a)"
    using assms by (cases x) (simp_all add: add_entry_def add_response_entry_def)
  have e: "a = empty_Afts_pb \<Longrightarrow> pb_Ipv4Entry a = [] \<and> pb_Ipv6Entry a = [] \<and> pb_LabelEntry a = [] \<and>
      pb_NextHopGroup a = [] \<and> pb_NextHop a = []" for a
    by (simp add: empty_Afts_pb_def)
  show "add_entry x a \<noteq> empty_Afts_pb"
    using assms by (cases x) (auto simp: add_entry_def add_response_entry_def dest: e)
qed

definition tag :: "string \<Rightarrow> AFTEntry_Entry \<Rightarrow> AFTEntry" where
  "tag n x = \<lparr>ae_NetworkInstance = n, ae_Entry = Some x\<rparr>"

lemma collect_tagged:
  assumes fresh: "gm_get m n = None"
  shows "AFTEntry_Other \<notin> set xs \<Longrightarrow>
    collect_entries (map (tag n) xs @ es) (put_ni n p m) = collect_entries es (put_ni n (fold add_entry xs p) m)"
proof (induction xs arbitrary: p)
  case (Cons x xs)
  then have x: "x \<noteq> AFTEntry_Other" by auto
  have g: "(case gm_get (put_ni n p m) n of None \<Rightarrow> empty_Afts_pb | Some a \<Rightarrow> a) = p"
    using fresh by (auto simp: put_ni_def gomap)
  have "gm_put n (add_entry x p) (put_ni n p m) = put_ni n (add_entry x p) m"
    using add_entry(2) [OF x] by (simp add: put_ni_def gm_put_put)
  with Cons.IH [of "add_entry x p"] Cons.prems show ?case by (simp add: g tag_def add_entry(1) [OF x])
qed simp

text \<open>The entries of a message, in the order in which \<open>GetRIB\<close> writes the tables.\<close>

definition pb_entries :: "Afts_pb \<Rightarrow> AFTEntry_Entry list" where
  "pb_entries a = map AFTEntry_Ipv4 (pb_Ipv4Entry a) @ map AFTEntry_Ipv6 (pb_Ipv6Entry a) @
     map AFTEntry_Mpls (pb_LabelEntry a) @ map AFTEntry_NextHopGroup (pb_NextHopGroup a) @
     map AFTEntry_NextHop (pb_NextHop a)"

lemma fold_table:
  "fold add_entry (map AFTEntry_Ipv4 x4) a = a\<lparr>pb_Ipv4Entry := pb_Ipv4Entry a @ x4\<rparr>"
  "fold add_entry (map AFTEntry_Ipv6 x6) a = a\<lparr>pb_Ipv6Entry := pb_Ipv6Entry a @ x6\<rparr>"
  "fold add_entry (map AFTEntry_Mpls xl) a = a\<lparr>pb_LabelEntry := pb_LabelEntry a @ xl\<rparr>"
  "fold add_entry (map AFTEntry_NextHopGroup xg) a = a\<lparr>pb_NextHopGroup := pb_NextHopGroup a @ xg\<rparr>"
  "fold add_entry (map AFTEntry_NextHop xn) a = a\<lparr>pb_NextHop := pb_NextHop a @ xn\<rparr>"
proof -
  show "fold add_entry (map AFTEntry_Ipv4 x4) a = a\<lparr>pb_Ipv4Entry := pb_Ipv4Entry a @ x4\<rparr>"
    by (induction x4 arbitrary: a) (simp_all add: add_entry_def add_response_entry_def)
  show "fold add_entry (map AFTEntry_Ipv6 x6) a = a\<lparr>pb_Ipv6Entry := pb_Ipv6Entry a @ x6\<rparr>"
    by (induction x6 arbitrary: a) (simp_all add: add_entry_def add_response_entry_def)
  show "fold add_entry (map AFTEntry_Mpls xl) a = a\<lparr>pb_LabelEntry := pb_LabelEntry a @ xl\<rparr>"
    by (induction xl arbitrary: a) (simp_all add: add_entry_def add_response_entry_def)
  show "fold add_entry (map AFTEntry_NextHopGroup xg) a = a\<lparr>pb_NextHopGroup := pb_NextHopGroup a @ xg\<rparr>"
    by (induction xg arbitrary: a) (simp_all add: add_entry_def add_response_entry_def)
  show "fold add_entry (map AFTEntry_NextHop xn) a = a\<lparr>pb_NextHop := pb_NextHop a @ xn\<rparr>"
    by (induction xn arbitrary: a) (simp_all add: add_entry_def add_response_entry_def)
qed

lemma collect_ni:
  assumes "gm_get m n = None"
  shows "collect_entries (map (tag n) (pb_entries a) @ es) m = collect_entries es (put_ni n a m)"
proof -
  have o: "AFTEntry_Other \<notin> set (pb_entries a)" by (auto simp: pb_entries_def)
  have f: "fold add_entry (pb_entries a) empty_Afts_pb = a"
    by (simp add: pb_entries_def fold_table) (simp add: empty_Afts_pb_def)
  have "put_ni n empty_Afts_pb m = m" by (simp add: put_ni_def)
  with collect_tagged [OF assms o, of es empty_Afts_pb] f show ?thesis by simp
qed

lemma collect_nis:
  "distinct nis \<Longrightarrow> \<forall>n\<in>set nis. gm_get m n = None \<Longrightarrow>
    collect_entries (concat (map (\<lambda>n. map (tag n) (pb_entries (f n))) nis)) m =
    Inr (m @ filter (\<lambda>p. snd p \<noteq> empty_Afts_pb) (map (\<lambda>n. (n, f n)) nis))"
proof (induction nis arbitrary: m)
  case (Cons n nis)
  have n: "gm_get m n = None" using Cons.prems by simp
  have p: "put_ni n (f n) m = (if f n = empty_Afts_pb then m else m @ [(n, f n)])"
    by (simp add: put_ni_def gm_put_absent n)
  have "\<forall>k\<in>set nis. gm_get (put_ni n (f n) m) k = None" using Cons.prems by (auto simp: put_ni_def gomap)
  with Cons have "collect_entries (concat (map (\<lambda>n. map (tag n) (pb_entries (f n))) nis)) (put_ni n (f n) m) =
      Inr (put_ni n (f n) m @ filter (\<lambda>p. snd p \<noteq> empty_Afts_pb) (map (\<lambda>n. (n, f n)) nis))" by simp
  then show ?case by (simp add: collect_ni [OF n] p)
qed simp


subsection \<open>Candidates of several entries\<close>

text \<open>
  What \<open>FromGetResponses\<close> relies on beyond \<open>env_laws\<close>: the candidate of a message whose
  entries have distinct keys and each have a candidate of their own holds the union of these.
\<close>

definition entries_ok :: "('m \<Rightarrow> 'k) \<Rightarrow> ('m \<Rightarrow> 'v option) \<Rightarrow> 'm list \<Rightarrow> bool" where
  "entries_ok key val ms \<longleftrightarrow> distinct (map key ms) \<and> (\<forall>m\<in>set ms. val m \<noteq> None)"

definition rebuilt :: "('m \<Rightarrow> 'k) \<Rightarrow> ('m \<Rightarrow> 'v option) \<Rightarrow> 'm list \<Rightarrow> ('k, 'v) gomap \<Rightarrow> bool" where
  "rebuilt key val ms t \<longleftrightarrow> gm_wf t \<and> set t = (\<lambda>m. (key m, the (val m))) ` set ms"

definition batch_ok :: "rib_env \<Rightarrow> Afts_pb \<Rightarrow> bool" where
  "batch_ok E a \<longleftrightarrow> entries_ok v4k_Prefix (v4_value E) (pb_Ipv4Entry a) \<and>
     entries_ok v6k_Prefix (v6_value E) (pb_Ipv6Entry a) \<and>
     entries_ok label_of (le_value E) (pb_LabelEntry a) \<and> list_all numeric_label (pb_LabelEntry a) \<and>
     entries_ok nhgk_Id (nhg_value E) (pb_NextHopGroup a) \<and> entries_ok nhk_Index (nh_value E) (pb_NextHop a)"

definition batch_tables :: "rib_env \<Rightarrow> Afts_pb \<Rightarrow> Afts \<Rightarrow> bool" where
  "batch_tables E a c \<longleftrightarrow> rebuilt v4k_Prefix (v4_value E) (pb_Ipv4Entry a) (Ipv4Entry c) \<and>
     rebuilt v6k_Prefix (v6_value E) (pb_Ipv6Entry a) (Ipv6Entry c) \<and>
     rebuilt label_of (le_value E) (pb_LabelEntry a) (LabelEntry c) \<and>
     rebuilt nhgk_Id (nhg_value E) (pb_NextHopGroup a) (aft_NextHopGroup c) \<and>
     rebuilt nhk_Index (nh_value E) (pb_NextHop a) (aft_NextHop c)"

definition batch_laws :: "rib_env \<Rightarrow> bool" where
  "batch_laws E \<longleftrightarrow> (\<forall>a. batch_ok E a \<longrightarrow> (\<exists>c. candidate E a = Inr c \<and> batch_tables E a (GetAfts c)))"

lemma rebuilt_map:
  assumes "entries_ok key val ms" and "\<And>m v. m \<in> set ms \<Longrightarrow> val m = Some v \<Longrightarrow> conv m = (key m, v)"
  shows "rebuilt key val ms (map conv ms)"
proof -
  have c: "conv m = (key m, the (val m))" if "m \<in> set ms" for m
    using assms that by (auto simp: entries_ok_def)
  then have "map fst (map conv ms) = map key ms" by simp
  then have "gm_wf (map conv ms)" using assms(1) by (simp only: entries_ok_def)
  with c show ?thesis by (auto simp: rebuilt_def image_iff)
qed

lemma sample_batch: "batch_laws sample_env"
proof -
  have v: "v4_value sample_env e4 = Some x4 \<Longrightarrow> conv_v4 e4 = (v4k_Prefix e4, x4)"
    "v6_value sample_env e6 = Some x6 \<Longrightarrow> conv_v6 e6 = (v6k_Prefix e6, x6)"
    "numeric_label el \<Longrightarrow> le_value sample_env el = Some xl \<Longrightarrow> conv_le el = (label_of el, xl)"
    "nhg_value sample_env eg = Some xg \<Longrightarrow> conv_nhg eg = (nhgk_Id eg, xg)"
    "nh_value sample_env en = Some xn \<Longrightarrow> conv_nh en = (nhk_Index en, xn)" for e4 x4 e6 x6 el xl eg xg en xn
    by (simp_all add: value_defs sample_candidate sample_conv_def empty_Afts_pb_def conv_v4_def conv_v6_def conv_le_def
        conv_nhg_def conv_nh_def)
  show ?thesis
    unfolding batch_laws_def batch_tables_def sample_candidate
    by (auto simp: sample_conv_def batch_ok_def list_all_iff intro!: rebuilt_map v)
qed

subsection \<open>The message of a holder's tables\<close>

lemma codes_built:
  assumes "codes (\<lambda>m ni i e. build_op con (conc e) m ni i) key val eq k e"
  obtains x op v where "conc e = Inr x" "op_Entry op = Some (con (Some x))" "op_wf op" "key op = Some k" "val op = Some v" "eq e v"
proof -
  obtain op v where o: "build_op con (conc e) Op_ADD [] 0 = Inr op" "op_wf op" "key op = Some k" "val op = Some v" "eq e v"
    using assms unfolding codes_def by blast
  then obtain x where x: "conc e = Inr x" by (cases "conc e") (simp_all add: build_op_def)
  with o(1) have "op_Entry op = Some (con (Some x))" by (auto simp: build_op_def)
  with o x show thesis by (blast intro: that)
qed

text \<open>A message \<open>carries\<close> an entry of a table.\<close>

definition carries :: "('e \<Rightarrow> proto_err + 'm) \<Rightarrow> ('m \<Rightarrow> 'k) \<Rightarrow> ('m \<Rightarrow> 'e option) \<Rightarrow> ('e \<Rightarrow> 'e \<Rightarrow> bool) \<Rightarrow> 'k \<times> 'e \<Rightarrow> bool" where
  "carries conc key val eq p \<longleftrightarrow>
     (\<exists>m v. conc (snd p) = Inr m \<and> key m = fst p \<and> val m = Some v \<and> eq (snd p) v)"

lemma codes_carries:
  "codes (v4Operation E) v4_key (v4_val E) (=) k e4 \<Longrightarrow> carries (ConcreteIPv4Proto E) v4k_Prefix (v4_value E) (=) (k, e4)"
  "codes (v6Operation E) v6_key (v6_val E) (=) k6 e6 \<Longrightarrow> carries (ConcreteIPv6Proto E) v6k_Prefix (v6_value E) (=) (k6, e6)"
  "codes (mplsOperation E) le_key (le_val E) (=) l el \<Longrightarrow> carries (ConcreteMPLSProto E) label_of (le_value E) (=) (l, el)"
  "codes (nhgOperation E) nhg_key (nhg_val E) nhg_DeepEqual g eg \<Longrightarrow>
     carries (ConcreteNextHopGroupProto E) nhgk_Id (nhg_value E) nhg_DeepEqual (g, eg)"
  "codes (nhOperation E) nh_key (nh_val E) nh_DeepEqual i en \<Longrightarrow>
     carries (ConcreteNextHopProto E) nhk_Index (nh_value E) nh_DeepEqual (i, en)"
  unfolding v4Operation_def [abs_def] v6Operation_def [abs_def] mplsOperation_def [abs_def] nhgOperation_def [abs_def]
    nhOperation_def [abs_def] carries_def
  by (erule codes_built, simp add: key_defs val_defs)+

lemma Concrete_label: "ConcreteMPLSProto E e = Inr m \<Longrightarrow> numeric_label m"
  by (auto simp: ConcreteMPLSProto_def numeric_label_def split: sum.splits option.splits Label_Union.splits)

definition msgs_of :: "('e \<Rightarrow> proto_err + 'm) \<Rightarrow> ('k, 'e) gomap \<Rightarrow> 'm list" where
  "msgs_of conc t = map (\<lambda>p. projr (conc (snd p))) t"

definition pb_of :: "rib_env \<Rightarrow> Afts \<Rightarrow> Afts_pb" where
  "pb_of E a = \<lparr>pb_Ipv4Entry = msgs_of (ConcreteIPv4Proto E) (Ipv4Entry a), pb_Ipv6Entry = msgs_of (ConcreteIPv6Proto E) (Ipv6Entry a),
     pb_LabelEntry = msgs_of (ConcreteMPLSProto E) (LabelEntry a),
     pb_NextHopGroup = msgs_of (ConcreteNextHopGroupProto E) (aft_NextHopGroup a),
     pb_NextHop = msgs_of (ConcreteNextHopProto E) (aft_NextHop a)\<rparr>"

lemma msgs_of_carried:
  assumes "\<forall>p\<in>set t. carries conc key val eq p"
  shows "map (\<lambda>p. aft_entry ni con (conc (snd p))) t = map Inr (map (\<lambda>m. \<lparr>ae_NetworkInstance = ni, ae_Entry = Some (con m)\<rparr>) (msgs_of conc t))"
    and "gm_wf t \<Longrightarrow> entries_ok key val (msgs_of conc t)"
proof -
  show "map (\<lambda>p. aft_entry ni con (conc (snd p))) t = map Inr (map (\<lambda>m. \<lparr>ae_NetworkInstance = ni, ae_Entry = Some (con m)\<rparr>) (msgs_of conc t))"
    using assms by (auto simp: msgs_of_def aft_entry_def carries_def)
  have "map key (msgs_of conc t) = map fst t" using assms by (auto simp: msgs_of_def carries_def)
  moreover have "\<forall>m\<in>set (msgs_of conc t). val m \<noteq> None" using assms by (fastforce simp: msgs_of_def carries_def)
  ultimately show "gm_wf t \<Longrightarrow> entries_ok key val (msgs_of conc t)" by (simp add: entries_ok_def)
qed

text \<open>A table rebuilt from its messages equals the original.\<close>

lemma table_rebuilt:
  assumes wf: "gm_wf s" and c: "\<forall>p\<in>set s. carries conc key val eq p" and t: "rebuilt key val (msgs_of conc s) t"
  shows "table_equal eq s t"
proof -
  let ?f = "\<lambda>e. the (val (projr (conc e)))"
  have f: "(\<lambda>m. (key m, the (val m))) (projr (conc (snd p))) = (fst p, ?f (snd p)) \<and> eq (snd p) (?f (snd p))" if "p \<in> set s" for p
    using c that by (auto simp: carries_def)
  have "set t = set (map (\<lambda>(k, e). (k, ?f e)) s)"
    using t f by (force simp: rebuilt_def msgs_of_def image_iff)
  moreover have "gm_wf (map (\<lambda>(k, e). (k, ?f e)) s)" using wf by (simp add: case_prod_unfold o_def)
  ultimately have "map_of t = map_of (map (\<lambda>(k, e). (k, ?f e)) s)"
    using t map_of_inject_set [of t] by (simp add: rebuilt_def)
  then have g: "gm_get t k = map_option ?f (gm_get s k)" for k by (simp add: map_of_map)
  have "eq e (?f e)" if "gm_get s k = Some e" for k e using f [OF map_of_SomeD [OF that]] by simp
  then have "rel_option eq (gm_get s k) (gm_get t k)" for k by (cases "gm_get s k") (simp_all add: g)
  then show ?thesis by (simp add: table_equal_def)
qed


lemma carried_tables:
  assumes "afts_code E a"
  shows "\<forall>p\<in>set (Ipv4Entry a). carries (ConcreteIPv4Proto E) v4k_Prefix (v4_value E) (=) p"
    "\<forall>p\<in>set (Ipv6Entry a). carries (ConcreteIPv6Proto E) v6k_Prefix (v6_value E) (=) p"
    "\<forall>p\<in>set (LabelEntry a). carries (ConcreteMPLSProto E) label_of (le_value E) (=) p"
    "\<forall>p\<in>set (aft_NextHopGroup a). carries (ConcreteNextHopGroupProto E) nhgk_Id (nhg_value E) nhg_DeepEqual p"
    "\<forall>p\<in>set (aft_NextHop a). carries (ConcreteNextHopProto E) nhk_Index (nh_value E) nh_DeepEqual p"
proof -
  note c = assms [unfolded afts_code_def]
  show "\<forall>p\<in>set (Ipv4Entry a). carries (ConcreteIPv4Proto E) v4k_Prefix (v4_value E) (=) p"
    using c codes_carries(1) [of E] by fastforce
  show "\<forall>p\<in>set (Ipv6Entry a). carries (ConcreteIPv6Proto E) v6k_Prefix (v6_value E) (=) p"
    using c codes_carries(2) [of E] by fastforce
  show "\<forall>p\<in>set (LabelEntry a). carries (ConcreteMPLSProto E) label_of (le_value E) (=) p"
    using c codes_carries(3) [of E] by fastforce
  show "\<forall>p\<in>set (aft_NextHopGroup a). carries (ConcreteNextHopGroupProto E) nhgk_Id (nhg_value E) nhg_DeepEqual p"
    using c codes_carries(4) [of E] by fastforce
  show "\<forall>p\<in>set (aft_NextHop a). carries (ConcreteNextHopProto E) nhk_Index (nh_value E) nh_DeepEqual p"
    using c codes_carries(5) [of E] by fastforce
qed

lemma pb_of_ok:
  assumes wf: "tables_wf a" and code: "afts_code E a"
  shows "batch_ok E (pb_of E a)"
proof -
  note c = carried_tables [OF code] and w = tables_wf_gm [OF wf]
  have "list_all numeric_label (msgs_of (ConcreteMPLSProto E) (LabelEntry a))"
    using c(3) Concrete_label by (fastforce simp: msgs_of_def list_all_iff carries_def)
  then show ?thesis
    by (simp add: batch_ok_def pb_of_def msgs_of_carried(2) [OF c(1) w(1)] msgs_of_carried(2) [OF c(2) w(2)]
        msgs_of_carried(2) [OF c(3) w(3)] msgs_of_carried(2) [OF c(4) w(4)] msgs_of_carried(2) [OF c(5) w(5)])
qed

lemma pb_of_rebuilt:
  assumes wf: "tables_wf a" and code: "afts_code E a" and t: "batch_tables E (pb_of E a) c"
  shows "afts_equal a c"
proof -
  note k = carried_tables [OF code] and w = tables_wf_gm [OF wf]
  note b = t [unfolded batch_tables_def pb_of_def, simplified]
  show ?thesis
    unfolding afts_equal_def
    by (intro conjI table_rebuilt [OF w(1) k(1)] table_rebuilt [OF w(2) k(2)] table_rebuilt [OF w(3) k(3)]
        table_rebuilt [OF w(4) k(4)] table_rebuilt [OF w(5) k(5)]) (use b in simp_all)
qed

lemma rib_messages_pb:
  assumes "holder_wf n h" and "afts_code E (afts h)"
  shows "rib_messages E (\<lambda>t. t = AFT_ALL) h = map Inr (map (tag n) (pb_entries (pb_of E (afts h))))"
proof -
  note c = carried_tables [OF assms(2)]
  have "rh_name h = n" using assms(1) by (simp add: holder_wf_def)
  then show ?thesis
    by (simp add: rib_messages_def Let_def all_filter_def msgs_of_carried(1) [OF c(1)] msgs_of_carried(1) [OF c(2)]
        msgs_of_carried(1) [OF c(3)] msgs_of_carried(1) [OF c(4)] msgs_of_carried(1) [OF c(5)] pb_entries_def pb_of_def tag_def o_def)
qed

subsection \<open>Building the network instances\<close>

lemma build_nis_result:
  "gm_wf nas \<Longrightarrow> \<forall>p\<in>set nas. candidate E (snd p) = Inr (cand (fst p)) \<Longrightarrow> gm_get (niRIB r) defNI \<noteq> None \<Longrightarrow>
    \<forall>p\<in>set nas. fst p \<noteq> defNI \<longrightarrow> gm_get (niRIB r) (fst p) = None \<Longrightarrow>
    \<exists>r'. build_nis E defNI nas r = Some (Inr r') \<and>
      (\<forall>n. tables_of r' n = (if gm_get nas n = None then tables_of r n else GetAfts (cand n)))"
proof (induction nas arbitrary: r)
  case (Cons p nas)
  obtain ni a where p: "p = (ni, a)" by (cases p)
  have c: "candidate E a = Inr (cand ni)" using Cons.prems(2) by (simp add: p)
  have "\<exists>r1 rh. (if ni \<noteq> defNI then AddNetworkInstance ni r else (None, r)) = (None, r1) \<and> gm_get (niRIB r1) ni = Some rh \<and>
      (\<forall>n. n \<noteq> ni \<longrightarrow> gm_get (niRIB r1) n = gm_get (niRIB r) n)"
    using Cons.prems(3,4) by (cases "ni = defNI") (auto simp: p AddNetworkInstance_def Let_def gomap)
  then obtain r1 rh where r1: "(if ni \<noteq> defNI then AddNetworkInstance ni r else (None, r)) = (None, r1)"
      "gm_get (niRIB r1) ni = Some rh" "\<And>n. n \<noteq> ni \<Longrightarrow> gm_get (niRIB r1) n = gm_get (niRIB r) n" by blast
  let ?r2 = "r1\<lparr>niRIB := gm_put ni (rh\<lparr>rh_r := Some (GetAfts (cand ni))\<rparr>) (niRIB r1)\<rparr>"
  have step: "build_nis E defNI (p # nas) r = build_nis E defNI nas ?r2" by (simp add: p c r1(1) r1(2) del: split_paired_Ex)
  have nas: "gm_get nas ni = None" using Cons.prems(1) by (auto simp: p map_of_eq_None_iff)
  have "gm_get (niRIB ?r2) defNI \<noteq> None" using Cons.prems(3) r1(3) by (auto simp: gomap)
  moreover have "\<forall>q\<in>set nas. fst q \<noteq> defNI \<longrightarrow> gm_get (niRIB ?r2) (fst q) = None"
    using Cons.prems(1,4) r1(3) by (auto simp: p gomap)
  ultimately obtain r' where r': "build_nis E defNI nas ?r2 = Some (Inr r')"
      "\<And>n. tables_of r' n = (if gm_get nas n = None then tables_of ?r2 n else GetAfts (cand n))"
    using Cons.IH [of ?r2] Cons.prems(1,2) by auto
  have "tables_of ?r2 n = (if n = ni then GetAfts (cand ni) else tables_of r n)" for n
    using r1(3) [of n] by (simp add: tables_of_def gomap afts_def)
  with step r' nas show ?case by (intro exI [of _ r']) (auto simp: p)
qed simp


subsection \<open>The round trip\<close>

text \<open>A stub whose Get RPC is the server's; an error of the server is some status error.\<close>

definition link_get :: "rib_env \<Rightarrow> Server \<Rightarrow> GetRequest \<Rightarrow> string + GetResponse list \<times> string option" where
  "link_get E s req = (case Get E (Some req) s of (msgs, e) \<Rightarrow> Inr (msgs, map_option (\<lambda>_. ''rpc error'') e))"

lemma known_nis:
  "rib_wf r \<Longrightarrow> distinct (KnownNetworkInstances r)" "set (KnownNetworkInstances r) = fst ` set (niRIB r)"
proof -
  have m: "mset (KnownNetworkInstances r) = mset (map fst (niRIB r))" by (simp add: KnownNetworkInstances_sorted)
  show "rib_wf r \<Longrightarrow> distinct (KnownNetworkInstances r)" by (simp add: mset_eq_imp_distinct_iff [OF m] rib_wf_def)
  show "set (KnownNetworkInstances r) = fst ` set (niRIB r)" using mset_eq_setD [OF m] by simp
qed

lemma server_sends:
  assumes wf: "rib_wf (masterRIB s)" and code: "rib_codes E (masterRIB s)"
  shows "Get E (Some \<lparr>get_NetworkInstance = Some NI_All, get_Aft = AFT_ALL\<rparr>) s =
    (map (\<lambda>x. [x]) (concat (map (\<lambda>n. map (tag n) (pb_entries (pb_of E (tables_of (masterRIB s) n))))
      (KnownNetworkInstances (masterRIB s)))), None)"
proof -
  let ?r = "masterRIB s" and ?m = "\<lambda>n. map (tag n) (pb_entries (pb_of E (tables_of (masterRIB s) n)))"
  have k: "known_ni ?r n \<and> ni_messages E AFT_ALL s n = map Inr (?m n)" if n: "n \<in> set (KnownNetworkInstances ?r)" for n
  proof -
    obtain h where h: "gm_get (niRIB ?r) n = Some h" using n known_nis(2) by (metis map_of_eq_None_iff not_Some_eq)
    have "afts_code E (afts h)" using code map_of_SomeD [OF h] by (force simp: rib_codes_def)
    with h rib_messages_pb [OF rib_wf_holder [OF wf h]] show ?thesis
      by (simp add: known_ni_def ni_messages_def NetworkInstanceRIB_def tables_of_def)
  qed
  have "all_ok (map Inr xs)" for xs :: "AFTEntry list" by (simp add: all_ok_def list_all_iff)
  then have "all_ok (ni_messages E AFT_ALL s n)" if "n \<in> set (KnownNetworkInstances ?r)" for n using conjunct2 [OF k [OF that]] by metis
  with k have "\<forall>n\<in>set (KnownNetworkInstances ?r). known_ni ?r n \<and> all_ok (ni_messages E AFT_ALL s n)" by blast
  from get_nis_done [OF this] obtain l where
    l: "get_nis E (\<lambda>t'. t' = AFT_ALL) (\<lambda>_. False) (KnownNetworkInstances ?r) s = map (\<lambda>x. GetMsg [x]) l"
      "map Inr l = concat (map (ni_messages E AFT_ALL s) (KnownNetworkInstances ?r))" by blast
  have m: "map (ni_messages E AFT_ALL s) (KnownNetworkInstances ?r) = map (map Inr) (map ?m (KnownNetworkInstances ?r))"
    using k by simp
  have "map (Inr :: AFTEntry \<Rightarrow> proto_err + AFTEntry) l = map Inr (concat (map ?m (KnownNetworkInstances ?r)))"
    unfolding l(2) m map_concat ..
  then have "l = concat (map ?m (KnownNetworkInstances ?r))" by (simp add: inj_def inj_map_eq_map)
  then show ?thesis using l(1) by (simp add: Get_def doGet_def get_supported_def get_loop_msgs)
qed

lemma fresh_tables: "tables_of (New dname opt) n = empty_Afts"
  by (simp add: New_def tables_of_def Let_def NewRIBHolder_def afts_def)

lemma empty_pb: "pb_of E a = empty_Afts_pb \<Longrightarrow> afts_equal a empty_Afts"
  by (simp add: pb_of_def empty_Afts_pb_def msgs_of_def afts_equal_def table_equal_def)

text \<open>
  What a remote RIB reads: the tables of every network instance, rebuilt from the server's
  messages, and nothing for a network instance that the server does not have.
\<close>

lemma remote_rib_read:
  assumes "env_laws E" and "batch_laws E" and "reachable E (masterRIB s)" and "rib_codes E (masterRIB s)"
    and "cl_c (rr_c R) = Some stub" and "stub_Get stub = link_get E s"
  obtains r' where "RemoteRIB_Get E R = Some (Inr r')"
    and "\<And>n. afts_equal (tables_of (masterRIB s) n) (tables_of r' n)"
    and "\<And>n. tables_of r' n = empty_Afts \<or> batch_tables E (pb_of E (tables_of (masterRIB s) n)) (tables_of r' n)"
    and "\<And>n. \<not> known_ni (masterRIB s) n \<Longrightarrow> tables_of r' n = empty_Afts"
proof -
  let ?r = "masterRIB s" and ?nis = "KnownNetworkInstances (masterRIB s)" and ?new = "New (rr_defaultName R) [DisableRIBCheckFn]"
  define f where "f n = pb_of E (tables_of ?r n)" for n
  define nas where "nas = filter (\<lambda>p. snd p \<noteq> empty_Afts_pb) (map (\<lambda>n. (n, f n)) ?nis)"
  have wf: "rib_wf ?r" by (rule reachable_inv(3) [OF assms(1,3)])
  have ok: "tables_wf (tables_of ?r n) \<and> afts_code E (tables_of ?r n)" for n
    using rib_wf_holder [OF wf] assms(4)
    by (cases "gm_get (niRIB ?r) n")
      (auto simp: tables_of_def holder_wf_def rib_codes_def tables_wf_def dest: map_of_SomeD bspec)
  then have "\<exists>c. candidate E (f n) = Inr c \<and> batch_tables E (f n) (GetAfts c)" for n
    using assms(2) pb_of_ok unfolding batch_laws_def f_def by blast
  then obtain cand where cand: "\<And>n. candidate E (f n) = Inr (cand n)" "\<And>n. batch_tables E (f n) (GetAfts (cand n))" by metis
  have "ClientGet (Some \<lparr>get_NetworkInstance = Some NI_All, get_Aft = AFT_ALL\<rparr>) (rr_c R) =
      Inr (concat (map (\<lambda>n. map (tag n) (pb_entries (f n))) ?nis))"
    by (simp add: ClientGet_def assms(5,6) link_get_def server_sends [OF wf assms(4)] f_def)
  moreover have "collect_entries (concat (map (\<lambda>n. map (tag n) (pb_entries (f n))) ?nis)) [] = Inr nas"
    using collect_nis [OF known_nis(1) [OF wf], of "[]" f] by (simp add: nas_def)
  moreover have nas: "gm_wf nas" "\<forall>p\<in>set nas. candidate E (snd p) = Inr (cand (fst p))"
    using known_nis(1) [OF wf] cand(1) by (auto simp: nas_def distinct_map_filter o_def distinct_map inj_on_def)
  obtain r' where r': "build_nis E (rr_defaultName R) nas ?new = Some (Inr r')"
      "\<And>n. tables_of r' n = (if gm_get nas n = None then tables_of ?new n else GetAfts (cand n))"
    using build_nis_result [OF nas, of ?new "rr_defaultName R"] by (auto simp: New_def Let_def)
  ultimately have get: "RemoteRIB_Get E R = Some (Inr r')" by (simp add: RemoteRIB_Get_def FromGetResponses_def)
  have unknown: "f n = empty_Afts_pb \<and> gm_get nas n = None" if "\<not> known_ni ?r n" for n
  proof -
    have n: "gm_get (niRIB ?r) n = None" using that by (simp add: known_ni_def)
    then have "n \<notin> set ?nis" by (simp add: known_nis(2) map_of_eq_None_iff)
    then have "gm_get nas n = None" by (auto simp: nas_def map_of_eq_None_iff)
    with n show ?thesis by (simp add: f_def tables_of_def pb_of_def msgs_of_def empty_Afts_pb_def)
  qed
  have unread: "f n = empty_Afts_pb" if "gm_get nas n = None" for n
  proof (cases "known_ni ?r n")
    case True
    then have "n \<in> set ?nis" by (simp add: known_nis(2) known_ni_def map_of_eq_None_iff)
    with that show ?thesis by (force simp: nas_def map_of_eq_None_iff image_iff)
  qed (use unknown in blast)
  have "afts_equal (tables_of ?r n) (tables_of r' n)" for n
    using r'(2) [of n] unread [of n] empty_pb [of E "tables_of ?r n"] fresh_tables
      pb_of_rebuilt [OF conjunct1 [OF ok] conjunct2 [OF ok] cand(2) [of n, unfolded f_def]]
    by (cases "gm_get nas n") (simp_all add: f_def)
  moreover have "tables_of r' n = empty_Afts \<or> batch_tables E (pb_of E (tables_of ?r n)) (tables_of r' n)" for n
    using r'(2) [of n] fresh_tables cand(2) [of n] by (cases "gm_get nas n") (simp_all add: f_def)
  moreover have "tables_of r' n = empty_Afts" if "\<not> known_ni ?r n" for n
    using r'(2) [of n] fresh_tables unknown [OF that] by simp
  ultimately show thesis by (rule that [OF get])
qed

text \<open>
  C13: The RIB that a remote RIB reads from a server has, in every network instance, the five
  tables of the server's RIB: the Get RPC of the server, the client's Get and
  \<open>FromGetResponses\<close> compose to the identity on tables.
\<close>
theorem remote_rib_roundtrip:
  assumes "env_laws E" and "batch_laws E" and "reachable E (masterRIB s)" and "rib_codes E (masterRIB s)"
    and "cl_c (rr_c R) = Some stub" and "stub_Get stub = link_get E s"
  shows "\<exists>r'. RemoteRIB_Get E R = Some (Inr r') \<and> (\<forall>n. afts_equal (tables_of (masterRIB s) n) (tables_of r' n))"
proof -
  obtain r' where "RemoteRIB_Get E R = Some (Inr r')" "\<And>n. afts_equal (tables_of (masterRIB s) n) (tables_of r' n)"
    by (rule remote_rib_read [OF assms]) blast
  then show ?thesis by blast
qed

definition server3 :: Server where
  "server3 = (w_srv world0)\<lparr>masterRIB := sample3\<rparr>"

definition stub3 :: GRIBIClient where
  "stub3 = \<lparr>stub_Modify = None, stub_Get = link_get sample_env server3, stub_Flush = (\<lambda>_. Inl ''rpc error'')\<rparr>"

definition remote3 :: RemoteRIB where
  "remote3 = projr (NewRemoteRIBWithStub ''DEFAULT'' stub3)"

theorem remote_rib_roundtrip_witness:
  "\<exists>r'. RemoteRIB_Get sample_env remote3 = Some (Inr r') \<and> afts_equal (tables_of sample3 ''DEFAULT'') (tables_of r' ''DEFAULT'') \<and>
    n_entries (tables_of sample3 ''DEFAULT'') = 3"
proof -
  have m: "masterRIB server3 = sample3" by (simp add: server3_def)
  have c: "cl_c (rr_c remote3) = Some stub3"
    by (simp add: remote3_def NewRemoteRIBWithStub_def NewClient_def handleParams_def handle_opts.simps UseStub_def)
  have g: "stub_Get stub3 = link_get sample_env server3" by (simp add: stub3_def)
  have r: "reachable sample_env (masterRIB server3)" using sample_reach(4) by (auto simp: m reachable_def)
  have k: "rib_codes sample_env (masterRIB server3)" by (simp add: m sample_plain)
  have "n_entries (tables_of sample3 ''DEFAULT'') = 3" by code_simp
  with remote_rib_roundtrip [OF sample_laws sample_batch r k c g] show ?thesis by (auto simp: m)
qed

end
