(* ===== verification/ReconcileProps.thy ===== *)
theory ReconcileProps
  imports ReconcileSample
begin

text \<open>
  Properties of the reconciler: the difference it finds makes the destination equal to the
  source, in any order on the tables and make-before-break on the RIB itself; the identifiers
  are fresh and consecutive; nothing is found exactly when the tables agree already.
\<close>

subsection \<open>The difference of two reachable RIBs\<close>

lemma no_dangling_closed: "rib_wf r \<Longrightarrow> no_dangling r \<Longrightarrow> closed (tables_of r)"
  unfolding closed_def no_dangling_def has_in
  using nhg_refs_tables nh_refs_tables by blast

lemma ni_made_empty_tables: "ni_made E expl n empty_Afts empty_Afts
    \<lparr>a4 = [], a6 = [], al = [], ag = [], an = [], d4 = [], d6 = [], dl = [], dg = [], dn = []\<rparr>"
  by (simp add: ni_made_def made_def changed_def missing_def)

lemma no_explicit: "explicit_types [] = (\<lambda>_. False)"
  by (rule ext) (simp add: explicit_types_def)

text \<open>The destination may be any RIB with well-formed tables, not only one that operations built.\<close>

lemma diff_compared:
  assumes env: "env_laws E" and src: "rib_reach E False src" and dst: "\<And>n. tables_wf (tables_of dst n)"
    and nis: "\<And>n. \<not> known_ni src n \<Longrightarrow> tables_of dst n = empty_Afts" and code: "rib_codes E src" "rib_codes E dst"
  obtains ops i' where "diff E (Some src) (Some dst) [] i = Inr (ops, i')" "compared E (tables_of src) (tables_of dst) ops"
    "\<forall>op\<in>set (rec_all ops). known_ni src (op_NetworkInstance op)"
proof -
  have "reachable E src" using src unfolding reachable_def by blast
  note wf = reachable_inv(3) [OF env this]
  have cl: "closed (tables_of src)"
    using rib_reach_inv [OF env src] wf by (simp add: run_inv_def no_dangling_closed)
  obtain ops i' L where d: "diff E (Some src) (Some dst) [] i = Inr (ops, i')"
    and L: "appended (i, NewReconcileOps) (i', ops) L"
    and k: "\<forall>op\<in>set L. op_NetworkInstance op \<in> fst ` set (niRIB src)"
    and m: "\<And>n s. gm_get (rib_tables src) n = Some s \<Longrightarrow>
      \<exists>o'. ni_made E (explicit_types []) n s (dst_afts (rib_tables dst) n) o' \<and>
        filter (\<lambda>op. op_NetworkInstance op = n) L = ni_list o'"
    by (rule diff_result [OF env wf code]) blast
  have mL: "mset (rec_all ops) = mset L" using L by (simp add: appended_def)
  have "\<exists>o'. ni_made E (\<lambda>_. False) n (tables_of src n) (tables_of dst n) o' \<and> ops_for n ops = mset (ni_list o')" for n
  proof (cases "gm_get (niRIB src) n")
    case (Some h)
    then have "gm_get (rib_tables src) n = Some (tables_of src n)" by (simp add: rib_tables_get tables_of_def)
    from m [OF this] show ?thesis
      unfolding no_explicit dst_afts_tables ops_for_def mL by (metis mset_filter)
  next
    case None
    then have "n \<notin> fst ` set (niRIB src)" by (simp add: map_of_eq_None_iff)
    then have "ops_for n ops = {#}" using k unfolding ops_for_def mL by auto
    moreover have "tables_of src n = empty_Afts" "tables_of dst n = empty_Afts"
      using None nis [of n] by (simp_all add: tables_of_def known_ni_def)
    moreover obtain o0 where "ni_made E (\<lambda>_. False) n empty_Afts empty_Afts o0" "ni_list o0 = []"
      using ni_made_empty_tables that by (force simp: ni_list_def)
    ultimately show ?thesis by (intro exI [of _ o0]) simp
  qed
  then have "compared E (tables_of src) (tables_of dst) ops"
    unfolding compared_def using env cl diff_filed [OF env d] wf dst code by (simp add: tables_of_wf tables_of_codes)
  moreover have "\<forall>op\<in>set (rec_all ops). known_ni src (op_NetworkInstance op)"
    using k arg_cong [OF mL, of set_mset] by (auto simp: known_ni_def weak_map_of_SomeI image_iff)
  ultimately show thesis using that d by blast
qed

text \<open>Operations made for a comparison turn the tables of the destination into the source's.\<close>

lemma compared_converges:
  assumes c: "compared E S T ops"
  shows "afts_equal (S n) (run_tables E (make_before_break ops) T n)"
proof -
  obtain o' where o': "ni_made E (\<lambda>_. False) n (S n) (T n) o'" "ops_for n ops = mset (ni_list o')"
    by (rule comparedE [OF c])
  have "mset (filter (\<lambda>op. op_NetworkInstance op = n) (make_before_break ops)) = mset (ni_list o')"
    using o'(2) by (simp add: ops_for_def mset_make_before_break)
  then show ?thesis
    unfolding run_tables_at by (rule ni_converges [OF o'(1) comparedD(4,5,6,7) [OF c]])
qed

subsection \<open>Properties\<close>




text \<open>
  C34: the operations of a difference carry the identifiers that follow the counter's value,
  one each, and the counter is left at the last of them; they are pairwise different as long
  as there are fewer than \<open>2 ^ 64\<close> of them.
\<close>

theorem diff_ids:
  assumes "env_laws E" and "reachable E src" and "reachable E dst" and "rib_codes E src" and "rib_codes E dst"
  shows "\<exists>ops n. diff E (Some src) (Some dst) ex i = Inr (ops, i + of_nat n) \<and> size (mset (rec_all ops)) = n \<and>
    image_mset op_Id (mset (rec_all ops)) = mset (map (\<lambda>j. i + of_nat (Suc j)) [0..<n]) \<and>
    (n < 2 ^ 64 \<longrightarrow> distinct (map op_Id (rec_all ops)))"
proof -
  note wf = reachable_inv(3) [OF assms(1,2)] reachable_inv(3) [OF assms(1,3)]
  obtain ops i' L where d: "diff E (Some src) (Some dst) ex i = Inr (ops, i')"
    and L: "appended (i, NewReconcileOps) (i', ops) L"
    by (rule diff_result [OF assms(1) wf(1) assms(4,5)]) blast
  have m: "mset (rec_all ops) = mset L" and ids: "map op_Id L = ids_after i (length L)"
    and i': "i' = i + of_nat (length L)" using L by (simp_all add: appended_def)
  have im: "image_mset op_Id (mset (rec_all ops)) = mset (ids_after i (length L))"
    unfolding m ids [symmetric] by simp
  have "distinct (map op_Id (rec_all ops))" if "length L < 2 ^ 64"
    using ids_after_distinct [OF that, of i] im by (metis mset_eq_imp_distinct_iff mset_map)
  then show ?thesis
    using d im by (intro exI [of _ ops] exI [of _ "length L"]) (simp add: i' m ids_after_def)
qed

theorem diff_ids_witness:
  "\<exists>ops n. diff sample_env (Some sample3) (Some other_rib) [] 7 = Inr (ops, 7 + of_nat n) \<and> size (mset (rec_all ops)) = n"
proof -
  have r: "reachable sample_env sample3" "reachable sample_env other_rib"
    using sample_reach(4) other_reach unfolding reachable_def by blast+
  show ?thesis using diff_ids [OF sample_laws r sample_plain(2,3), of "[]" 7] by blast
qed



text \<open>
  C7: a reconciliation reaches its target without a forward reference or a refused deletion.
  When intended and target RIB have the same network instances, nothing waits in the target
  and no \<open>Flush\<close> left the intended one with dangling references, the target acknowledges
  every operation of \<open>Reconcile\<close> if they are sent make-before-break, and its tables are the
  intended ones then.
\<close>

theorem reconcile_make_before_break:
  assumes "env_laws E" and "fair sched" and "rib_reach E False src" and "reachable E dst"
    and "pendingEntries dst = []" and "\<And>n. known_ni dst n = known_ni src n" and "\<not> known_ni src []"
    and "rib_codes E src" and "rib_codes E dst"
  shows "\<exists>ops i'. Reconcile E (NewR (NewLocalRIB (Some src)) (NewLocalRIB (Some dst))) i = Inr (ops, i') \<and>
    (n_rib dst + length (rec_all ops) < 2 ^ 64 \<longrightarrow>
      (\<exists>dst'. program_ops E sched (make_before_break ops) dst = Some ((map okResult (make_before_break ops), []), dst') \<and>
        (\<forall>n. afts_equal (tables_of src n) (tables_of dst' n))))"
proof -
  have wf: "rib_wf dst" by (rule reachable_inv(3) [OF assms(1,4)])
  have empty: "tables_of dst n = empty_Afts" if "\<not> known_ni src n" for n
    using that assms(6) [of n] by (simp add: tables_of_def known_ni_def)
  obtain ops i' where d: "diff E (Some src) (Some dst) [] i = Inr (ops, i')"
    and c: "compared E (tables_of src) (tables_of dst) ops" and k: "\<forall>op\<in>set (rec_all ops). known_ni src (op_NetworkInstance op)"
    by (rule diff_compared [OF assms(1,3) tables_of_wf [OF wf] empty assms(8,9)])
  let ?os = "make_before_break ops"
  have set: "set ?os = set (rec_all ops)" "length ?os = length (rec_all ops)"
    using mset_make_before_break [of ops] by (auto dest: mset_eq_setD mset_eq_length)
  have "\<exists>dst'. program_ops E sched ?os dst = Some ((map okResult ?os, []), dst') \<and>
      (\<forall>n. afts_equal (tables_of src n) (tables_of dst' n))" if room: "n_rib dst + length (rec_all ops) < 2 ^ 64"
  proof -
    have calm: "calm (length ?os) dst"
      using reachable_inv(1) [OF assms(1,4)] assms(5) room by (simp add: calm_def set)
    have nis: "\<forall>op\<in>set ?os. op_NetworkInstance op \<noteq> [] \<and> known_ni dst (op_NetworkInstance op)"
      using k assms(6,7) unfolding set by metis
    obtain dst' where dst': "program_ops E sched ?os dst = Some ((map okResult ?os, []), dst')"
      "tables_of dst' = run_tables E ?os (tables_of dst)"
      using program_run [OF assms(1,2) calm nis make_before_break_ok [OF c]] by blast
    have "afts_equal (tables_of src n) (tables_of dst' n)" for n
      unfolding dst'(2) by (rule compared_converges [OF c])
    with dst'(1) show ?thesis by blast
  qed
  moreover have "Reconcile E (NewR (NewLocalRIB (Some src)) (NewLocalRIB (Some dst))) i = Inr (ops, i')"
    by (simp add: Reconcile_def NewR_def NewLocalRIB_def d)
  ultimately show ?thesis by blast
qed

lemma sample_reconcile:
  "case Reconcile sample_env (NewR (NewLocalRIB (Some sample3)) (NewLocalRIB (Some other_rib))) 7 of
     Inl _ \<Rightarrow> False | Inr (ops, i') \<Rightarrow> n_rib other_rib + length (rec_all ops) = 8 \<and> i' = 12"
  by code_simp

theorem reconcile_make_before_break_witness:
  "\<exists>ops dst'. Reconcile sample_env (NewR (NewLocalRIB (Some sample3)) (NewLocalRIB (Some other_rib))) 7 = Inr (ops, 12) \<and>
    program_ops sample_env in_order (make_before_break ops) other_rib = Some ((map okResult (make_before_break ops), []), dst') \<and>
    afts_equal (tables_of sample3 ''DEFAULT'') (tables_of dst' ''DEFAULT'')"
proof -
  have r: "reachable sample_env other_rib" using other_reach unfolding reachable_def by blast
  have p: "pendingEntries other_rib = []" by code_simp
  have m: "map fst (niRIB other_rib) = map fst (niRIB sample3)" "map fst (niRIB sample3) = [''DEFAULT'']" by code_simp+
  have k: "known_ni other_rib n = known_ni sample3 n" for n
    using arg_cong [OF m(1), of set] by (simp add: known_ni_def map_of_eq_None_iff)
  have e: "\<not> known_ni sample3 []"
    using arg_cong [OF m(2), of set] by (simp add: known_ni_def map_of_eq_None_iff)
  obtain ops i' where o: "Reconcile sample_env (NewR (NewLocalRIB (Some sample3)) (NewLocalRIB (Some other_rib))) 7 = Inr (ops, i')"
    "n_rib other_rib + length (rec_all ops) < 2 ^ 64 \<longrightarrow>
      (\<exists>dst'. program_ops sample_env in_order (make_before_break ops) other_rib = Some ((map okResult (make_before_break ops), []), dst') \<and>
        (\<forall>n. afts_equal (tables_of sample3 n) (tables_of dst' n)))"
    using reconcile_make_before_break [OF sample_laws sample_fair sample_reach(4) r p k e sample_plain(2,3), of 7] by blast
  then show ?thesis using sample_reconcile by auto
qed

text \<open>
  \<open>diff\<close> loops over the network instances of the source only: no operation names a
  network instance that only the destination has, so its entries are never deleted.
\<close>

theorem diff_skips_destination_only:
  assumes "env_laws E" and "reachable E src" and "reachable E dst" and "rib_codes E src" and "rib_codes E dst"
    and "\<not> known_ni src n" and "known_ni dst n"
  shows "\<exists>ops i'. diff E (Some src) (Some dst) ex i = Inr (ops, i') \<and> ops_for n ops = {#}"
proof -
  note wf = reachable_inv(3) [OF assms(1,2)] reachable_inv(3) [OF assms(1,3)]
  obtain ops i' L where d: "diff E (Some src) (Some dst) ex i = Inr (ops, i')"
    and L: "appended (i, NewReconcileOps) (i', ops) L"
    and k: "\<forall>op\<in>set L. op_NetworkInstance op \<in> fst ` set (niRIB src)"
    by (rule diff_result [OF assms(1) wf(1) assms(4,5)]) blast
  have "n \<notin> fst ` set (niRIB src)" using assms(6) by (simp add: known_ni_def map_of_eq_None_iff)
  then have "ops_for n ops = {#}"
    using k L by (auto simp: ops_for_def appended_def)
  with d show ?thesis by blast
qed

definition vrf_rib :: RIB where
  "vrf_rib = snd (AddNetworkInstance ''VRF-1'' sample3)"

theorem diff_skips_destination_only_witness:
  "\<exists>ops i'. diff sample_env (Some sample3) (Some vrf_rib) [] 7 = Inr (ops, i') \<and> ops_for ''VRF-1'' ops = {#}"
proof -
  have a: "AddNetworkInstance ''VRF-1'' sample3 = (None, vrf_rib)" by (simp add: vrf_rib_def prod_eq_iff) code_simp
  have r: "reachable sample_env sample3" "reachable sample_env vrf_rib"
    using sample_reach(4) rib_reach.ni [OF sample_reach(4) a] unfolding reachable_def by blast+
  have c: "rib_codes sample_env vrf_rib" by (rule plain_rib_codes) code_simp
  have k: "\<not> known_ni sample3 ''VRF-1''" "known_ni vrf_rib ''VRF-1''" by code_simp+
  show ?thesis by (rule diff_skips_destination_only [OF sample_laws r sample_plain(2) c k])
qed

text \<open>
  C37: the tables of a reachable RIB are typed: each is a map whose entries carry their own
  key, no group or next-hop has the identifier zero, and no group is empty.
\<close>

theorem stored_tables_typed:
  assumes "env_laws E" and "reachable E r" and "gm_get (niRIB r) n = Some h"
  shows "keyed v4_ok (Ipv4Entry (afts h)) \<and> keyed v6_ok (Ipv6Entry (afts h)) \<and> keyed le_ok (LabelEntry (afts h)) \<and>
    keyed group_ok (aft_NextHopGroup (afts h)) \<and> keyed nh_ok (aft_NextHop (afts h))"
  using rib_wf_holder [OF reachable_inv(3) [OF assms(1,2)] assms(3)] by (simp add: holder_wf_def tables_wf_def)

theorem stored_tables_typed_witness:
  "\<exists>h. gm_get (niRIB sample3) ''DEFAULT'' = Some h \<and> keyed group_ok (aft_NextHopGroup (afts h))"
proof -
  have r: "reachable sample_env sample3" using sample_reach(4) unfolding reachable_def by blast
  have "gm_get (niRIB sample3) ''DEFAULT'' \<noteq> None" by code_simp
  then obtain h where "gm_get (niRIB sample3) ''DEFAULT'' = Some h" by blast
  with stored_tables_typed [OF sample_laws r this] show ?thesis by blast
qed

end
