(* ===== verification/ServerProps.thy ===== *)
theory ServerProps
  imports ServerSample
begin

text \<open>
  The properties of the server: what holds in every reachable world, and what each RPC does
  on each of its branches.
\<close>

subsection \<open>Reachable worlds\<close>

text \<open>
  C14: Every run of the server is a run of its RIB: whatever clients do, the RIB of a
  reachable server is a reachable RIB, so its reference counters are exact and no pending
  operation could be installed.
\<close>
theorem server_refines_rib:
  assumes "env_laws E" and "srv_reach E w"
  shows "\<exists>fl. rib_reach E fl (masterRIB (w_srv w))"
  using rib.reach_ok [OF assms] by (simp add: reachable_def)

theorem server_refines_rib_witness: "\<exists>fl. rib_reach sample_env fl (masterRIB (w_srv world4))"
  by (rule server_refines_rib [OF sample_laws world_reach(5)])

text \<open>
  C16: A client whose session parameters were accepted is SINGLE_PRIMARY with persistence
  PRESERVE, and all such clients agree on their parameters.
\<close>
theorem session_parameters_agree:
  assumes "env_laws E" and "srv_reach E w" and "gm_get (srv_cs (w_srv w)) i = Some c" and "cs_setParams c"
  shows "\<exists>p. cs_params c = Some p \<and> Persist p \<and> ExpectElecID p \<and>
    (\<forall>j d. gm_get (srv_cs (w_srv w)) j = Some d \<longrightarrow> cs_setParams d \<longrightarrow> cs_params d = Some p)"
proof -
  have inv: "server_inv (w_srv w)" using srv_reach_inv [OF assms(1,2)] by (simp add: world_inv_def)
  have "client_ok c" and agree: "params_agree (w_srv w)" using inv assms(3) by (auto simp: server_inv_def)
  then obtain p where p: "cs_params c = Some p" "Persist p" "ExpectElecID p"
    using assms(4) by (auto simp: client_ok_def split: option.splits)
  have "cs_params d = Some p" if "gm_get (srv_cs (w_srv w)) j = Some d" "cs_setParams d" for j d
    using agree assms(3,4) that p(1) unfolding params_agree_def by metis
  with p show ?thesis by blast
qed

theorem session_parameters_agree_witness:
  "\<exists>p. cs_params (the (gm_get (srv_cs (w_srv world4)) ''A'')) = Some p \<and> Persist p \<and> ExpectElecID p"
proof -
  have s: "cs_setParams (the (gm_get (srv_cs (w_srv world4)) ''A''))" by code_simp
  have "(case gm_get (srv_cs (w_srv world4)) ''A'' of None \<Rightarrow> False | Some _ \<Rightarrow> True)" by code_simp
  then have "gm_get (srv_cs (w_srv world4)) ''A'' = Some (the (gm_get (srv_cs (w_srv world4)) ''A''))"
    by (simp split: option.splits)
  from session_parameters_agree [OF sample_laws world_reach(5) this s] show ?thesis by blast
qed

text \<open>
  C15: The server has a master exactly when it has an election identifier, the identifier is
  never zero, and the last identifier a connected master sent is not above it.
\<close>
theorem election_state:
  assumes "env_laws E" and "srv_reach E w"
  shows "(curMaster (w_srv w) = [] \<longleftrightarrow> curElecID (w_srv w) = None) \<and>
    (\<forall>e. curElecID (w_srv w) = Some e \<longrightarrow> u128 e \<noteq> 0 \<and>
      (\<forall>c. gm_get (srv_cs (w_srv w)) (curMaster (w_srv w)) = Some c \<longrightarrow>
        (\<exists>l. cs_lastElecID c = Some l \<and> u128 l \<le> u128 e)))"
  using srv_reach_inv [OF assms] by (simp add: world_inv_def server_inv_def election_ok_def)

theorem election_state_witness:
  "curMaster (w_srv world4) = ''B'' \<and> curElecID (w_srv world4) \<noteq> None"
proof
  show m: "curMaster (w_srv world4) = ''B''" by code_simp
  with election_state [OF sample_laws world_reach(5)] show "curElecID (w_srv world4) \<noteq> None" by auto
qed

lemma reader_details:
  assumes "env_laws E" and "srv_reach E w" and "gm_get (w_readers w) cid = Some rd" and "rd_work rd = Some (fib, elec, ops)"
  shows "details_ok cid elec"
proof -
  have "reader_ok cid rd" using srv_reach_inv [OF assms(1,2)] assms(3) unfolding world_inv_def by blast
  with assms(4) show ?thesis by (simp add: reader_ok_def)
qed

text \<open>The operation that a reader does next.\<close>

definition next_work :: "string \<Rightarrow> world \<Rightarrow> (bool \<times> electionDetails \<times> AFTOperation) option" where
  "next_work cid w = (case gm_get (w_readers w) cid of None \<Rightarrow> None | Some rd \<Rightarrow>
     (case rd_work rd of None \<Rightarrow> None | Some (fib, elec, ops) \<Rightarrow>
       (case ops of [] \<Rightarrow> None | op # _ \<Rightarrow> Some (fib, elec, op))))"

lemma next_workD:
  assumes "next_work cid w = Some (fib, elec, op)"
  obtains rd ops where "gm_get (w_readers w) cid = Some rd" "rd_work rd = Some (fib, elec, op # ops)"
proof -
  obtain rd where g: "gm_get (w_readers w) cid = Some rd"
    using assms by (cases "gm_get (w_readers w) cid") (simp_all add: next_work_def)
  obtain f e os where w: "rd_work rd = Some (f, e, os)"
    using assms g by (cases "rd_work rd") (auto simp: next_work_def)
  with assms g show thesis by (cases os) (auto simp: next_work_def intro: that)
qed

lemma modifyEntry_too_high:
  assumes "details_ok cid elec" and "modifyEntry E sched ro ni (Some op) fib (Some elec) = Some (Inl (ElectionIDTooHigh a b), ro')"
  shows False
proof -
  have "snd (snd (checkElectionForModify (op_Id op) (op_ElectionId op) (Some elec))) = Some (ElectionIDTooHigh a b)"
    using assms(2) by (auto simp: modifyEntry_def modify_result_def split: prod.splits option.splits if_splits sum.splits)
  with assms(1) show False
    by (auto simp: checkElectionForModify_def details_ok_def split: option.splits if_splits)
qed

text \<open>
  C17: Each operation of a message that a reachable server works on is answered: the call
  returns, the server does not panic, and it never ends the RPC for an election identifier
  above the current one, a case the code guards against.
\<close>
theorem operations_answered:
  assumes "env_laws E" and "srv_reach E w" and "gm_get (w_readers w) cid = Some rd"
    and "rd_work rd = Some (fib, elec, op # ops)" and "fair sched" and "op_wf op" and "room (masterRIB (w_srv w))"
  shows "\<exists>evs s'. modify_op E sched fib elec op (w_srv w) = Some (evs, s') \<and> evs \<noteq> [] \<and>
    RPCError SrvPanic \<notin> set evs \<and> (\<forall>a b. RPCError (ElectionIDTooHigh a b) \<notin> set evs)"
proof -
  obtain evs s' where m: "modify_op E sched fib elec op (w_srv w) = Some (evs, s')" and p: "RPCError SrvPanic \<notin> set evs"
    using rib.modify_op_ok [OF assms(1) rib.reach_ok [OF assms(1,2)] assms(5,7,6), of fib elec] by auto
  have "evs \<noteq> []"
    using m by (auto simp: modify_op_def Let_def split: option.splits prod.splits)
  moreover have "RPCError (ElectionIDTooHigh a b) \<notin> set evs" for a b
    using m modifyEntry_too_high [OF reader_details [OF assms(1-4)]]
    by (auto simp: modify_op_def Let_def split: option.splits prod.splits sum.splits if_splits)
  ultimately show ?thesis using m p by blast
qed

theorem operations_answered_witness:
  "\<exists>evs s'. modify_op sample_env in_order True \<lparr>ed_master = ''A'', ed_ID = Some \<lparr>High = 0, Low = 1\<rparr>, ed_client = ''A'',
      ed_clientLatest = Some \<lparr>High = 0, Low = 1\<rparr>\<rparr> (hop_op\<lparr>op_ElectionId := Some \<lparr>High = 0, Low = 1\<rparr>\<rparr>) (w_srv world2) = Some (evs, s') \<and>
    evs \<noteq> [] \<and> RPCError SrvPanic \<notin> set evs"
proof -
  let ?el = "\<lparr>ed_master = ''A'', ed_ID = Some \<lparr>High = 0, Low = 1\<rparr>, ed_client = ''A'', ed_clientLatest = Some \<lparr>High = 0, Low = 1\<rparr>\<rparr>"
  let ?op = "hop_op\<lparr>op_ElectionId := Some \<lparr>High = 0, Low = 1\<rparr>\<rparr>"
  have "next_work ''A'' world2 = Some (True, ?el, ?op)" by code_simp
  then obtain rd ops where "gm_get (w_readers world2) ''A'' = Some rd" "rd_work rd = Some (True, ?el, ?op # ops)"
    by (rule next_workD)
  moreover have "op_wf ?op" by code_simp
  moreover have "room (masterRIB (w_srv world2))" by (rule small_room) code_simp
  ultimately show ?thesis
    using operations_answered [OF sample_laws world_reach(3) _ _ sample_fair] by blast
qed

end
