(* ===== verification/ServerRpc.thy ===== *)
theory ServerRpc
  imports ServerProps
begin

text \<open>
  What each RPC of the server does: which operations of a Modify stream reach the RIB and how
  they are answered, elections, Get, Flush, and the construction of the server.
\<close>

subsection \<open>Which operations reach the RIB\<close>

text \<open>The conditions under which \<open>checkElectionForModify\<close> lets an operation proceed.\<close>

definition primary_for :: "electionDetails \<Rightarrow> AFTOperation \<Rightarrow> bool" where
  "primary_for elec op \<longleftrightarrow> ed_master elec \<noteq> [] \<and> ed_client elec = ed_master elec \<and>
     (\<exists>i l e. op_ElectionId op = Some i \<and> ed_clientLatest elec = Some l \<and> ed_ID elec = Some e \<and>
        u128 i = u128 l \<and> u128 i = u128 e)"

lemma checkElection_proceeds:
  "snd (snd (checkElectionForModify j (op_ElectionId op) (Some elec))) = None \<and>
   fst (snd (checkElectionForModify j (op_ElectionId op) (Some elec))) \<longleftrightarrow> primary_for elec op"
  by (auto simp: checkElectionForModify_def primary_for_def split: option.split)

lemma checkElection_failed:
  assumes "checkElectionForModify j i election = (Some m, b, e)"
  shows "m = failed_response j None"
  using assms by (auto simp: checkElectionForModify_def split: option.splits if_splits)

text \<open>All results of a response are failures.\<close>

definition only_failures :: "ModifyResponse \<Rightarrow> bool" where
  "only_failures m = list_all (\<lambda>r. res_Status r = Res_FAILED) (resp_Result m)"

lemma failed_only [simp]: "only_failures (failed_response i m)"
  by (simp add: only_failures_def failed_response_def result_response_def)

lemma modify_op_refused:
  assumes no: "\<not> primary_for elec op" and run: "modify_op E sched fib elec op s = Some (evs, s')"
  shows "s' = s \<and> (\<forall>m. Response m \<in> set evs \<longrightarrow> only_failures m)"
proof -
  obtain m b e where c: "checkElectionForModify (op_Id op) (op_ElectionId op) (Some elec) = (m, b, e)"
    by (metis prod.exhaust)
  have stop: "e \<noteq> None \<or> \<not> b" using checkElection_proceeds [of "op_Id op" op elec] no c by auto
  have m: "only_failures x" if "m = Some x" for x
    using checkElection_failed [OF c [unfolded that]] by simp
  have "only_failures (result_response [])" by (simp add: only_failures_def result_response_def)
  with stop m run c show ?thesis
    by (auto simp: modify_op_def modifyEntry_def Let_def split: option.splits if_splits)
qed

lemma modify_ops_refused:
  assumes "\<forall>op\<in>set ops. \<not> primary_for elec op" and "modify_ops E sched fib elec ops s = Some (evs, s')"
  shows "s' = s \<and> (\<forall>m. Response m \<in> set evs \<longrightarrow> only_failures m)"
  using assms
proof (induction ops arbitrary: evs)
  case (Cons op ops)
  from Cons.prems(2) obtain evs1 s1 evs2 where e: "modify_op E sched fib elec op s = Some (evs1, s1)"
      "modify_ops E sched fib elec ops s1 = Some (evs2, s')" "evs = evs1 @ evs2"
    by (auto split: option.splits prod.splits)
  have "s1 = s \<and> (\<forall>m. Response m \<in> set evs1 \<longrightarrow> only_failures m)"
    using modify_op_refused [OF _ e(1)] Cons.prems(1) by simp
  moreover from this have "s' = s \<and> (\<forall>m. Response m \<in> set evs2 \<longrightarrow> only_failures m)"
    using Cons.IH e(2) Cons.prems(1) by simp
  ultimately show ?case using e(3) by auto
qed simp



subsection \<open>Responses\<close>

lemma ok_results_ids:
  "map res_Id (filter (\<lambda>r. res_Status r = RIB_PROGRAMMED) (ok_results fib oks @ fail_results fails)) = map or_ID oks"
  "map res_Id (filter (\<lambda>r. res_Status r = FIB_PROGRAMMED) (ok_results fib oks @ fail_results fails)) = (if fib then map or_ID oks else [])"
  "map res_Id (filter (\<lambda>r. res_Status r = Res_FAILED) (ok_results fib oks @ fail_results fails)) = map or_ID fails"
proof -
  have f: "filter (\<lambda>r. res_Status r = st) (fail_results fails) = (if st = Res_FAILED then fail_results fails else [])" for st
    by (induction fails) (auto simp: fail_results_def)
  have i: "map res_Id (fail_results fails) = map or_ID fails" by (simp add: fail_results_def)
  have "map res_Id (filter (\<lambda>r. res_Status r = RIB_PROGRAMMED) (ok_results fib oks)) = map or_ID oks"
    "map res_Id (filter (\<lambda>r. res_Status r = FIB_PROGRAMMED) (ok_results fib oks)) = (if fib then map or_ID oks else [])"
    "filter (\<lambda>r. res_Status r = Res_FAILED) (ok_results fib oks) = []"
    by (induction oks) (simp_all add: ok_results_def)
  with f i show "map res_Id (filter (\<lambda>r. res_Status r = RIB_PROGRAMMED) (ok_results fib oks @ fail_results fails)) = map or_ID oks"
    "map res_Id (filter (\<lambda>r. res_Status r = FIB_PROGRAMMED) (ok_results fib oks @ fail_results fails)) = (if fib then map or_ID oks else [])"
    "map res_Id (filter (\<lambda>r. res_Status r = Res_FAILED) (ok_results fib oks @ fail_results fails)) = map or_ID fails"
    by simp_all
qed

lemma modifyEntry_primary_add:
  assumes "NetworkInstanceRIB r ni = Some rh" and "IsValid rh" and "primary_for elec op"
    and "op_Op op = Op_ADD \<or> op_Op op = Op_REPLACE" and "AddEntry E sched ni op r = Some (Inr (oks, fails), r')"
  shows "modifyEntry E sched (Some r) ni (Some op) fib (Some elec) =
    Some (Inr (result_response (ok_results fib oks @ fail_results fails)), Some r')"
proof -
  obtain m b e where c: "checkElectionForModify (op_Id op) (op_ElectionId op) (Some elec) = (m, b, e)"
    by (metis prod.exhaust)
  then have "e = None" "b" using checkElection_proceeds [of "op_Id op" op elec] assms(3) by auto
  with c assms show ?thesis by (auto simp: modifyEntry_def modify_result_def)
qed



end
