(* ===== verification/RemoteReconcile.thy ===== *)
theory RemoteReconcile
  imports RemoteProps ReconcileProps ServerRpc
begin

text \<open>
  The reconciler against a remote server, end to end: the target RIB is read with the Get RPC
  and rebuilt, the operations of the difference are sent by the elected client in
  make-before-break order, and the server's own RIB ends with the intended tables.

  The rebuilt copy may list the entries of a map in another order than the server does, so
  what is accepted on the copy is first carried over to the server's tables.
\<close>

subsection \<open>Tables equal up to the order of maps\<close>

lemma gm_equal_sym: "gm_equal a b \<Longrightarrow> gm_equal b a"
  by (simp add: gm_equal_def)

lemma gm_equal_trans: "gm_equal a b \<Longrightarrow> gm_equal b c \<Longrightarrow> gm_equal a c"
  by (force simp: gm_equal_def list_all_iff dest: map_of_SomeD)

lemma DeepEqual_sym:
  "nhg_DeepEqual g g' \<Longrightarrow> nhg_DeepEqual g' g" "nh_DeepEqual h h' \<Longrightarrow> nh_DeepEqual h' h"
  by (simp_all add: nhg_DeepEqual_def nh_DeepEqual_def gm_equal_sym)

lemma DeepEqual_trans:
  "nhg_DeepEqual g g' \<Longrightarrow> nhg_DeepEqual g' g'' \<Longrightarrow> nhg_DeepEqual g g''"
  "nh_DeepEqual h h' \<Longrightarrow> nh_DeepEqual h' h'' \<Longrightarrow> nh_DeepEqual h h''"
  by (auto simp: nhg_DeepEqual_def nh_DeepEqual_def intro: gm_equal_trans)

lemma table_equal_sym: "table_equal eq s t \<Longrightarrow> (\<And>x y. eq x y \<Longrightarrow> eq y x) \<Longrightarrow> table_equal eq t s"
  unfolding table_equal_def by (metis (no_types, lifting) option.rel_cases option.rel_intros)

lemma table_equal_trans:
  "table_equal eq s t \<Longrightarrow> table_equal eq t u \<Longrightarrow> (\<And>x y z. eq x y \<Longrightarrow> eq y z \<Longrightarrow> eq x z) \<Longrightarrow> table_equal eq s u"
  unfolding table_equal_def by (smt (verit) option.rel_cases option.rel_inject(2) option.rel_intros)

lemma afts_equal_sym: "afts_equal a b \<Longrightarrow> afts_equal b a"
  unfolding afts_equal_def by (auto intro: table_equal_sym DeepEqual_sym)

lemma afts_equal_trans: "afts_equal a b \<Longrightarrow> afts_equal b c \<Longrightarrow> afts_equal a c"
  unfolding afts_equal_def by (auto intro: table_equal_trans DeepEqual_trans)

definition alike :: "(string \<Rightarrow> Afts) \<Rightarrow> (string \<Rightarrow> Afts) \<Rightarrow> bool" where
  "alike X Y \<longleftrightarrow> (\<forall>n. gms (X n) \<and> gms (Y n) \<and> afts_equal (X n) (Y n))"

text \<open>Programming the same operation keeps equal tables equal.\<close>

lemma table_equal_update:
  assumes "table_equal eq s t"
  shows "table_equal eq (gm_del k s) (gm_del k t)" and "eq v v \<Longrightarrow> table_equal eq (gm_put k v s) (gm_put k v t)"
  using assms by (simp_all add: table_equal_def gomap)

lemma value_reflexive:
  assumes "env_laws E"
  shows "nhg_value E eg = Some g \<Longrightarrow> nhg_DeepEqual g g" and "nh_value E en = Some h \<Longrightarrow> nh_DeepEqual h h"
  using value_candidate(4,5) [OF assms]
  by (auto simp: nhg_DeepEqual_def nh_DeepEqual_def nhg_of_def nh_of_def group_wf_def intro!: gm_equal_refl)

lemma program_op_equal:
  assumes "env_laws E" and "afts_equal a b"
  shows "afts_equal (program_op E op a) (program_op E op b)"
  using assms(2) value_reflexive [OF assms(1)] unfolding afts_equal_def
  by (auto simp: program_op_def put_value_def put_defs del_defs table_equal_update
      split: option.split AFTOperation_Entry.split)

lemma step_alike: "env_laws E \<Longrightarrow> alike X Y \<Longrightarrow> alike (step_tables E op X) (step_tables E op Y)"
  by (simp add: alike_def step_tables_def gms_program program_op_equal)

subsection \<open>What is accepted on a copy\<close>

lemma alike_present:
  assumes "alike X Y"
  shows "group_in X x = group_in Y x" and "hop_in X x = hop_in Y x"
proof -
  have "afts_equal (X (fst x)) (Y (fst x))" using assms by (simp add: alike_def)
  then show "group_in X x = group_in Y x" "hop_in X x = hop_in Y x"
    unfolding afts_equal_def table_equal_def group_in_def hop_in_def
    by (metis option.rel_distinct not_None_eq)+
qed

lemma table_equal_subset: "table_equal (=) s t \<Longrightarrow> gm_wf t \<Longrightarrow> set t \<subseteq> set s"
  using table_equal_in [of "(=)" s t] by (metis prod.collapse subsetI)

lemma alike_refs:
  assumes "alike X Y"
  shows "y \<in># raw_refs (X n) \<Longrightarrow> y \<in># raw_refs (Y n)" and "i \<in># raw_nh_refs (X n) \<Longrightarrow> i \<in># raw_nh_refs (Y n)"
proof -
  have e: "afts_equal (Y n) (X n)" and w: "gms (X n)" using assms afts_equal_sym by (auto simp: alike_def)
  note E = e [unfolded afts_equal_def] and W = w [unfolded gms_def]
  have "set (Ipv4Entry (X n)) \<subseteq> set (Ipv4Entry (Y n))" "set (Ipv6Entry (X n)) \<subseteq> set (Ipv6Entry (Y n))"
    "set (LabelEntry (X n)) \<subseteq> set (LabelEntry (Y n))"
    using E W table_equal_subset by blast+
  then show "y \<in># raw_refs (X n) \<Longrightarrow> y \<in># raw_refs (Y n)" unfolding raw_refs_in by blast
  have "\<exists>g. (fst p, g) \<in> set (aft_NextHopGroup (Y n)) \<and> nhg_DeepEqual g (snd p)" if "p \<in> set (aft_NextHopGroup (X n))" for p
    by (rule table_equal_in) (use E W that in blast)+
  note groups = this
  show "i \<in># raw_nh_refs (X n) \<Longrightarrow> i \<in># raw_nh_refs (Y n)"
  proof -
    assume "i \<in># raw_nh_refs (X n)"
    then obtain p where p: "p \<in> set (aft_NextHopGroup (X n))" "i \<in> fst ` set (nhg_NextHop (snd p))"
      unfolding raw_nh_refs_in by blast
    obtain g where g: "(fst p, g) \<in> set (aft_NextHopGroup (Y n))" "nhg_DeepEqual g (snd p)" using groups [OF p(1)] by blast
    show "i \<in># raw_nh_refs (Y n)"
      unfolding raw_nh_refs_in using p(2) g(1) DeepEqual_nhs(1) [OF g(2)] by (intro bexI [of _ "(fst p, g)"]) simp_all
  qed
qed

lemma op_ok_alike:
  assumes "alike X Y" and "op_ok E Y op"
  shows "op_ok E X op"
proof -
  have r: "refers_ok X ni ref = refers_ok Y ni ref" for ni ref
    by (simp add: refers_ok_def alike_present [OF assms(1)])
  have "add_ok E X ni t = add_ok E Y ni t" for ni t
    by (simp add: add_ok_def r alike_present [OF assms(1)] cong: option.case_cong AFTOperation_Entry.case_cong)
  moreover have "delete_ok Y ni t \<Longrightarrow> delete_ok X ni t" for ni t
    using alike_refs [OF assms(1)]
    by (auto simp: delete_ok_def split: option.splits AFTOperation_Entry.splits)
  ultimately show ?thesis using assms(2) by (auto simp: op_ok_def)
qed

lemma run_alike:
  "env_laws E \<Longrightarrow> alike X Y \<Longrightarrow> run_ok E os Y \<Longrightarrow>
    run_ok E os X \<and> alike (run_tables E os X) (run_tables E os Y)"
proof (induction os arbitrary: X Y)
  case (Cons op os)
  from Cons.IH [OF Cons.prems(1) step_alike [OF Cons.prems(1,2)]] Cons.prems op_ok_alike [OF Cons.prems(2)]
  show ?case by (simp add: run_tables_def)
qed (simp add: run_tables_def)

subsection \<open>The server programs a list of operations\<close>

text \<open>The client is the elected master, and its last election identifier is the current one.\<close>

definition is_master :: "string \<Rightarrow> Uint128 \<Rightarrow> bool \<Rightarrow> Server \<Rightarrow> bool" where
  "is_master cid eid fib s \<longleftrightarrow> cid \<noteq> [] \<and> curMaster s = cid \<and> curElecID s = Some eid \<and>
     (case begin_modify cid s of Inl _ \<Rightarrow> False
      | Inr (ack, elec) \<Rightarrow> ack = fib \<and> ed_clientLatest elec = Some eid)"

definition sent_by :: "Uint128 \<Rightarrow> AFTOperation \<Rightarrow> AFTOperation" where
  "sent_by eid op = op\<lparr>op_ElectionId := Some eid\<rparr>"

text \<open>The response to an operation that was programmed.\<close>

definition programmed :: "bool \<Rightarrow> AFTOperation \<Rightarrow> event" where
  "programmed fib op = Response (result_response (ok_results fib [okResult op]))"

lemma is_masterD:
  assumes "is_master cid eid fib s"
  obtains elec where "begin_modify cid s = Inr (fib, elec)" and "\<And>op. primary_for elec (sent_by eid op)"
proof -
  obtain elec where b: "begin_modify cid s = Inr (fib, elec)" "ed_clientLatest elec = Some eid"
    using assms by (auto simp: is_master_def split: sum.splits)
  moreover have "ed_master elec = curMaster s \<and> ed_client elec = cid \<and> ed_ID elec = curElecID s"
    using b(1) by (auto simp: begin_modify_def getElection_def split: option.splits if_splits)
  ultimately show thesis
    using assms by (intro that [of elec]) (auto simp: is_master_def primary_for_def sent_by_def)
qed

lemma modify_op_programs:
  assumes "program_one E sched op (masterRIB s) = Some (([okResult op], []), r')" and "primary_for elec op"
    and "op_Op op = Op_ADD \<or> op_Op op = Op_DELETE" and at: "at_ni E (masterRIB s) (op_NetworkInstance op) rh"
  shows "modify_op E sched fib elec op s = Some ([programmed fib op], s\<lparr>masterRIB := r'\<rparr>)"
proof -
  obtain m b e where c: "checkElectionForModify (op_Id op) (op_ElectionId op) (Some elec) = (m, b, e)"
    by (metis prod.exhaust)
  then have "e = None" "b" using checkElection_proceeds [of "op_Id op" op elec] assms(2) by auto
  with c assms(1,3) at_niD(3,4) [OF at] at_ni_valid [OF at] show ?thesis
    by (auto simp: modify_op_def Let_def NetworkInstanceRIB_def modifyEntry_def modify_result_def program_one_def
        programmed_def fail_results_def split: option.splits prod.splits sum.splits)
qed

lemma modify_ops_program:
  assumes env: "env_laws E" and fair: "fair sched"
  shows "calm (length ops) (masterRIB s) \<Longrightarrow>
    \<forall>op\<in>set ops. op_NetworkInstance op \<noteq> [] \<and> known_ni (masterRIB s) (op_NetworkInstance op) \<and> primary_for elec op \<Longrightarrow>
    run_ok E ops (tables_of (masterRIB s)) \<Longrightarrow>
    \<exists>r'. modify_ops E sched fib elec ops s = Some (map (programmed fib) ops, s\<lparr>masterRIB := r'\<rparr>) \<and>
      tables_of r' = run_tables E ops (tables_of (masterRIB s))"
proof (induction ops arbitrary: s)
  case Nil
  then show ?case by (intro exI [of _ "masterRIB s"]) (simp add: run_tables_def)
next
  case (Cons op ops)
  let ?n = "op_NetworkInstance op" and ?r = "masterRIB s"
  obtain r1 where r1: "program_one E sched op ?r = Some (([okResult op], []), r1)" "calm (length ops) r1"
      "\<forall>m. known_ni r1 m = known_ni ?r m" "tables_of r1 = step_tables E op (tables_of ?r)"
    using program_step [OF env fair, of "length ops" ?r op ?n] Cons.prems by (auto simp: step_tables_def)
  obtain rh where "gm_get (niRIB ?r) ?n = Some rh" using Cons.prems(2) by (auto simp: known_ni_def)
  then have at: "at_ni E ?r ?n rh" using env Cons.prems(1,2) by (simp add: at_ni_def calm_def rib_inv_def)
  have "op_Op op = Op_ADD \<or> op_Op op = Op_DELETE" using Cons.prems(3) by (auto simp: op_ok_def)
  from modify_op_programs [OF r1(1) _ this at] Cons.prems(2)
  have step: "modify_op E sched fib elec op s = Some ([programmed fib op], s\<lparr>masterRIB := r1\<rparr>)" by simp
  obtain r' where "modify_ops E sched fib elec ops (s\<lparr>masterRIB := r1\<rparr>) = Some (map (programmed fib) ops, s\<lparr>masterRIB := r'\<rparr>)"
      "tables_of r' = run_tables E ops (tables_of r1)"
    using Cons.IH [of "s\<lparr>masterRIB := r1\<rparr>"] r1(2-4) Cons.prems by auto
  with step r1(4) show ?case by (intro exI [of _ r']) (simp add: run_tables_def)
qed

text \<open>The election identifier of an operation has no effect on what it programs.\<close>

lemma sent_by_fields [simp]:
  "op_Op (sent_by eid op) = op_Op op" "op_Entry (sent_by eid op) = op_Entry op" "op_Id (sent_by eid op) = op_Id op"
  "op_NetworkInstance (sent_by eid op) = op_NetworkInstance op"
  by (simp_all add: sent_by_def)

lemma program_sent_by [simp]: "program_op E (sent_by eid op) a = program_op E op a"
  by (simp add: program_op_def split: option.split AFTOperation_Entry.split)

lemma sent_by_simps [simp]:
  "op_ok E T (sent_by eid op) = op_ok E T op" "step_tables E (sent_by eid op) = step_tables E op"
  "programmed fib (sent_by eid op) = programmed fib op"
  by (simp_all add: op_ok_def op_wf_def step_tables_def programmed_def ok_results_def okResult_def fun_eq_iff)

lemma run_sent_by [simp]:
  "run_ok E (map (sent_by eid) ops) T = run_ok E ops T"
  "run_tables E (map (sent_by eid) ops) T = run_tables E ops T"
  by (induction ops arbitrary: T) (simp_all add: run_tables_def)

subsection \<open>Reconciling a remote server\<close>

lemma rebuilt_from:
  assumes "rebuilt key val ms t" and "entries_ok key val ms" and "(k, e) \<in> set t"
  shows "\<exists>m. key m = k \<and> val m = Some e"
  using assms by (auto simp: rebuilt_def entries_ok_def)

lemma batch_tables_wf:
  assumes env: "env_laws E" and wf: "tables_wf a" and code: "afts_code E a" and b: "batch_tables E (pb_of E a) c"
  shows "tables_wf c"
proof -
  have eq: "afts_equal a c" by (rule pb_of_rebuilt [OF wf code b])
  have ok: "batch_ok E (pb_of E a)" by (rule pb_of_ok [OF wf code])
  note V = value_candidate [OF env] and B = b [unfolded batch_tables_def] and K = ok [unfolded batch_ok_def]
  have W: "gms c" using B by (simp add: gms_def rebuilt_def)
  have nhg: "group_ok i g" if x: "(i, g) \<in> set (aft_NextHopGroup c)" for i g
  proof -
    obtain m where "nhgk_Id m = i" "nhg_value E m = Some g"
      using rebuilt_from [of nhgk_Id "nhg_value E" _ "aft_NextHopGroup c" i g] x B K by blast
    then have "nhg_Id g = Some i" "group_wf g" using V(4) by (auto simp: nhg_of_def)
    moreover obtain g0 where "(i, g0) \<in> set (aft_NextHopGroup a)" "nhg_DeepEqual g0 g"
      using table_equal_in [of nhg_DeepEqual "aft_NextHopGroup a" "aft_NextHopGroup c" "(i, g)"] eq W x
      by (auto simp: afts_equal_def gms_def)
    ultimately show ?thesis
      using wf DeepEqual_nhs(2) [of g0 g] by (fastforce simp: tables_wf_def keyed_def group_ok_def)
  qed
  have nh: "nh_ok i h" if x: "(i, h) \<in> set (aft_NextHop c)" for i h
  proof -
    obtain m where "nhk_Index m = i" "nh_value E m = Some h"
      using rebuilt_from [of nhk_Index "nh_value E" _ "aft_NextHop c" i h] x B K by blast
    then have "nh_Index h = Some i" using V(5) by (auto simp: nh_of_def)
    moreover obtain h0 where "(i, h0) \<in> set (aft_NextHop a)"
      using table_equal_in [of nh_DeepEqual "aft_NextHop a" "aft_NextHop c" "(i, h)"] eq W x
      by (auto simp: afts_equal_def gms_def)
    ultimately show ?thesis using wf by (fastforce simp: tables_wf_def keyed_def nh_ok_def)
  qed
  have "v4_ok k e" if x: "(k, e) \<in> set (Ipv4Entry c)" for k e
  proof -
    obtain m where "v4k_Prefix m = k" "v4_value E m = Some e"
      using rebuilt_from [of v4k_Prefix "v4_value E" _ "Ipv4Entry c" k e] x B K by blast
    then show ?thesis using V(1) by (auto simp: v4_ok_def v4_of_def)
  qed
  moreover have "v6_ok k e" if x: "(k, e) \<in> set (Ipv6Entry c)" for k e
  proof -
    obtain m where "v6k_Prefix m = k" "v6_value E m = Some e"
      using rebuilt_from [of v6k_Prefix "v6_value E" _ "Ipv6Entry c" k e] x B K by blast
    then show ?thesis using V(2) by (auto simp: v6_ok_def v6_of_def)
  qed
  moreover have "le_ok k e" if x: "(k, e) \<in> set (LabelEntry c)" for k e
  proof -
    obtain m where "m \<in> set (pb_LabelEntry (pb_of E a))" "label_of m = k" "le_value E m = Some e"
      using x B K by (auto simp: rebuilt_def entries_ok_def)
    then show ?thesis using V(3) K by (auto simp: le_ok_def le_of_def list_all_iff)
  qed
  ultimately show ?thesis using W nhg nh by (auto simp: tables_wf_def keyed_def gms_def)
qed

lemma gms_wf: "tables_wf a \<Longrightarrow> gms a"
  by (simp add: gms_def tables_wf_gm)

lemma remote_tables_wf:
  assumes "env_laws E" and "tables_wf a" and "afts_code E a" and "c = empty_Afts \<or> batch_tables E (pb_of E a) c"
  shows "tables_wf c"
  using assms(4) batch_tables_wf [OF assms(1-3)] by (auto simp: tables_wf_def)

text \<open>
  C8: a client that reconciles a remote server gets it there.  The elected master reads the
  server's RIB with its Get RPC, computes the difference to the intended RIB, and sends the
  operations make-before-break with its election identifier: the server answers each of them
  as programmed, and the tables of its own RIB are the intended ones then.  (Nothing waits in
  the server's RIB, it has the network instances of the intended one, and the protobuf
  conversions lose nothing of the entries.)
\<close>

theorem remote_reconcile:
  assumes "env_laws E" and "batch_laws E" and "fair sched"
    and "rib_reach E False src" and "\<not> known_ni src []" and "rib_codes E src"
    and "reachable E (masterRIB s)" and "pendingEntries (masterRIB s) = []" and "rib_codes E (masterRIB s)"
    and "\<And>n. known_ni (masterRIB s) n = known_ni src n"
    and "cl_c (rr_c R) = Some stub" and "stub_Get stub = link_get E s" and "is_master cid eid fib s"
  shows "\<exists>T. RemoteRIB_Get E R = Some (Inr T) \<and> (rib_codes E T \<longrightarrow>
    (\<exists>ops i'. Reconcile E (NewR (NewLocalRIB (Some src)) \<lparr>target_Get = Inr (Some T)\<rparr>) i = Inr (ops, i') \<and>
      (n_rib (masterRIB s) + length (rec_all ops) < 2 ^ 64 \<longrightarrow>
        (\<exists>s'. doModify E sched cid (map (sent_by eid) (make_before_break ops)) s =
            Some (map (programmed fib) (make_before_break ops), s') \<and>
          (\<forall>n. afts_equal (tables_of src n) (tables_of (masterRIB s') n))))))"
proof -
  let ?r = "masterRIB s"
  note env = assms(1)
  have wf: "rib_wf ?r" by (rule reachable_inv(3) [OF env assms(7)])
  obtain T where get: "RemoteRIB_Get E R = Some (Inr T)" and eq: "\<And>n. afts_equal (tables_of ?r n) (tables_of T n)"
    and built: "\<And>n. tables_of T n = empty_Afts \<or> batch_tables E (pb_of E (tables_of ?r n)) (tables_of T n)"
    and none: "\<And>n. \<not> known_ni ?r n \<Longrightarrow> tables_of T n = empty_Afts"
    by (rule remote_rib_read [OF env assms(2,7,9,11,12)]) blast
  have twf: "tables_wf (tables_of T n)" for n
    by (rule remote_tables_wf [OF env tables_of_wf [OF wf] tables_of_codes [OF assms(9)] built])
  have like: "alike (tables_of ?r) (tables_of T)"
    by (simp add: alike_def gms_wf [OF tables_of_wf [OF wf]] gms_wf [OF twf] eq)
  have none': "tables_of T n = empty_Afts" if "\<not> known_ni src n" for n using none that assms(10) by blast
  obtain elec where el: "begin_modify cid s = Inr (fib, elec)" "\<And>op. primary_for elec (sent_by eid op)"
    by (rule is_masterD [OF assms(13)]) blast
  have "\<exists>ops i'. Reconcile E (NewR (NewLocalRIB (Some src)) \<lparr>target_Get = Inr (Some T)\<rparr>) i = Inr (ops, i') \<and>
      (n_rib ?r + length (rec_all ops) < 2 ^ 64 \<longrightarrow>
        (\<exists>s'. doModify E sched cid (map (sent_by eid) (make_before_break ops)) s =
            Some (map (programmed fib) (make_before_break ops), s') \<and>
          (\<forall>n. afts_equal (tables_of src n) (tables_of (masterRIB s') n))))" if codes: "rib_codes E T"
  proof -
    obtain ops i' where d: "diff E (Some src) (Some T) [] i = Inr (ops, i')" and c: "compared E (tables_of src) (tables_of T) ops"
      and k: "\<forall>op\<in>set (rec_all ops). known_ni src (op_NetworkInstance op)"
      by (rule diff_compared [OF env assms(4) twf none' assms(6) codes])
    let ?os = "make_before_break ops" and ?sent = "map (sent_by eid) (make_before_break ops)"
    have set: "set ?os = set (rec_all ops)" "length ?os = length (rec_all ops)"
      using mset_make_before_break [of ops] by (auto dest: mset_eq_setD mset_eq_length)
    have run: "run_ok E ?os (tables_of ?r)" "alike (run_tables E ?os (tables_of ?r)) (run_tables E ?os (tables_of T))"
      using run_alike [OF env like make_before_break_ok [OF c]] by simp_all
    have "\<exists>s'. doModify E sched cid ?sent s = Some (map (programmed fib) ?os, s') \<and>
        (\<forall>n. afts_equal (tables_of src n) (tables_of (masterRIB s') n))" if room: "n_rib ?r + length (rec_all ops) < 2 ^ 64"
    proof -
      have "calm (length ?sent) ?r"
        using reachable_inv(1) [OF env assms(7)] assms(8) room by (simp add: calm_def set)
      moreover have "\<forall>op\<in>set ?sent. op_NetworkInstance op \<noteq> [] \<and> known_ni ?r (op_NetworkInstance op) \<and> primary_for elec op"
        using k assms(5,10) el(2) set(1) by auto
      ultimately obtain r' where r': "modify_ops E sched fib elec ?sent s = Some (map (programmed fib) ?sent, s\<lparr>masterRIB := r'\<rparr>)"
          "tables_of r' = run_tables E ?os (tables_of ?r)"
        using modify_ops_program [OF env assms(3), of ?sent s elec fib] run(1) by auto
      have "afts_equal (tables_of src n) (tables_of r' n)" for n
        unfolding r'(2) using afts_equal_trans [OF compared_converges [OF c, of n] afts_equal_sym] run(2)
        by (simp add: alike_def)
      with r'(1) el(1) show ?thesis
        by (intro exI [of _ "s\<lparr>masterRIB := r'\<rparr>"]) (simp add: doModify_def o_def)
    qed
    with d show ?thesis by (auto simp: Reconcile_def NewR_def NewLocalRIB_def)
  qed
  with get show ?thesis by blast
qed

text \<open>The server of the sample session, with a RIB that differs from the intended one.\<close>

definition server_other :: Server where
  "server_other = (w_srv world2)\<lparr>masterRIB := other_rib\<rparr>"

definition stub_other :: GRIBIClient where
  "stub_other = \<lparr>stub_Modify = None, stub_Get = link_get sample_env server_other, stub_Flush = (\<lambda>_. Inl ''rpc error'')\<rparr>"

definition remote_other :: RemoteRIB where
  "remote_other = projr (NewRemoteRIBWithStub ''DEFAULT'' stub_other)"

lemma server_other_rib: "masterRIB server_other = other_rib"
  by (simp add: server_other_def)

lemma remote_other_read:
  "case RemoteRIB_Get sample_env remote_other of
     Some (Inr T) \<Rightarrow> list_all (\<lambda>(n, h). plain_tables (afts h)) (niRIB T) \<and>
       (case Reconcile sample_env (NewR (NewLocalRIB (Some sample3)) \<lparr>target_Get = Inr (Some T)\<rparr>) 7 of
          Inl _ \<Rightarrow> False | Inr (ops, i') \<Rightarrow> n_rib other_rib + length (rec_all ops) = 8 \<and> length (make_before_break ops) = 5)
   | _ \<Rightarrow> False"
  by code_simp

theorem remote_reconcile_witness:
  "\<exists>T ops i' s'. RemoteRIB_Get sample_env remote_other = Some (Inr T) \<and>
    Reconcile sample_env (NewR (NewLocalRIB (Some sample3)) \<lparr>target_Get = Inr (Some T)\<rparr>) 7 = Inr (ops, i') \<and>
    length (make_before_break ops) = 5 \<and>
    doModify sample_env in_order ''A'' (map (sent_by \<lparr>High = 0, Low = 1\<rparr>) (make_before_break ops)) server_other =
      Some (map (programmed True) (make_before_break ops), s') \<and>
    afts_equal (tables_of sample3 ''DEFAULT'') (tables_of (masterRIB s') ''DEFAULT'')"
proof -
  note m = server_other_rib
  have r: "reachable sample_env (masterRIB server_other)" using other_reach unfolding m reachable_def by blast
  have p: "pendingEntries (masterRIB server_other) = []" unfolding m by code_simp
  have n: "map fst (niRIB other_rib) = map fst (niRIB sample3)" "map fst (niRIB sample3) = [''DEFAULT'']" by code_simp+
  have k: "known_ni (masterRIB server_other) n = known_ni sample3 n" for n
    using arg_cong [OF n(1), of set] by (simp add: m known_ni_def map_of_eq_None_iff)
  have e: "\<not> known_ni sample3 []"
    using arg_cong [OF n(2), of set] by (simp add: known_ni_def map_of_eq_None_iff)
  have c: "rib_codes sample_env (masterRIB server_other)" by (simp add: m sample_plain)
  have s: "cl_c (rr_c remote_other) = Some stub_other" "stub_Get stub_other = link_get sample_env server_other"
    by (simp_all add: remote_other_def stub_other_def NewRemoteRIBWithStub_def NewClient_def handleParams_def
        handle_opts.simps UseStub_def)
  have i: "is_master ''A'' \<lparr>High = 0, Low = 1\<rparr> True server_other" by code_simp
  show ?thesis
    using remote_reconcile [OF sample_laws sample_batch sample_fair sample_reach(4) e sample_plain(2) r p c k s i, of 7]
      remote_other_read plain_rib_codes
    by (fastforce simp: m)
qed

end
