(* ===== verification/ServerElection.thy ===== *)
theory ServerElection
  imports ServerRpc
begin

text \<open>
  Elections: the outcome of an election message, the two ways in which the code departs from
  the election rules, and the number of answers to a message of operations.
\<close>

subsection \<open>Election messages\<close>

text \<open>The state after a client's election identifier is stored.\<close>

definition with_last :: "string \<Rightarrow> Uint128 \<Rightarrow> Server \<Rightarrow> Server" where
  "with_last cid e s = snd (storeClientElectionID cid e s)"

text \<open>
  An election message of a client that negotiated SINGLE_PRIMARY: identifier zero is
  refused and changes nothing; any other is stored as the client's latest and answered with
  the server's election identifier afterwards.  It makes the client the master when there is
  no identifier yet, when it is at or above the current one, and (the flaw of the
  comparison) when its low half alone is above; otherwise the master stays.
\<close>
theorem election_outcome:
  assumes "gm_get (srv_cs s) cid = Some c" and "cs_params c = Some p" and "ExpectElecID p"
  shows "runElection cid e s =
    (if u128 e = 0 then (Inl (ZeroElectionID cid), s)
     else if (case curElecID s of None \<Rightarrow> True | Some x \<Rightarrow> u128 x \<le> u128 e \<or> Low x < Low e)
     then (Inr \<lparr>resp_Result = [], resp_ElectionId = Some e, resp_SessionParamsResult = None\<rparr>,
           (with_last cid e s)\<lparr>curElecID := Some e, curMaster := cid\<rparr>)
     else (Inr \<lparr>resp_Result = [], resp_ElectionId = curElecID s, resp_SessionParamsResult = None\<rparr>, with_last cid e s))"
proof -
  have "fst (isNewMaster e (curElecID s)) = (case curElecID s of None \<Rightarrow> True | Some x \<Rightarrow> u128 x \<le> u128 e \<or> Low x < Low e)"
    by (cases "curElecID s") (simp add: isNewMaster_def, simp add: isNewMaster_iff)
  then show ?thesis
    using assms by (simp add: runElection_def getClientStateCopy_def clientState_DeepCopy_def
        clientParams_DeepCopy_def storeClientElectionID_def with_last_def Let_def)
qed

theorem election_outcome_witness:
  "fst (runElection ''A'' \<lparr>High = 0, Low = 3\<rparr> (w_srv world4)) =
     Inr \<lparr>resp_Result = [], resp_ElectionId = Some \<lparr>High = 0, Low = 3\<rparr>, resp_SessionParamsResult = None\<rparr>"
proof -
  let ?c = "the (gm_get (srv_cs (w_srv world4)) ''A'')" and ?e = "\<lparr>High = 0, Low = 3\<rparr>"
  have "(case gm_get (srv_cs (w_srv world4)) ''A'' of None \<Rightarrow> False | Some _ \<Rightarrow> True)" by code_simp
  then have c: "gm_get (srv_cs (w_srv world4)) ''A'' = Some ?c" by (simp split: option.splits)
  have p: "cs_params ?c = Some \<lparr>Persist = True, ExpectElecID = True, FIBAck = True\<rparr>" by code_simp
  have x: "curElecID (w_srv world4) = Some \<lparr>High = 0, Low = 2\<rparr>" by code_simp
  have "u128 ?e \<noteq> 0" "u128 \<lparr>High = 0, Low = 2\<rparr> \<le> u128 ?e" by code_simp+
  with election_outcome [OF c p, of ?e] x show ?thesis by simp
qed


text \<open>
  The operations left of a message are still applied after another client has won the
  election: in a reachable world whose master is B, client A's next operation installs a
  next-hop-group.
\<close>
theorem stale_election_applies:
  "srv_reach sample_env world4 \<and> curMaster (w_srv world4) = ''B'' \<and>
   srv_step sample_env world4 (do_operation ''A'' world4) \<and>
   \<not> has_nhg (masterRIB (w_srv world4)) (''DEFAULT'', 1) \<and>
   has_nhg (masterRIB (w_srv (do_operation ''A'' world4))) (''DEFAULT'', 1)"
proof (intro conjI)
  have "room (masterRIB (w_srv world4))" by (rule small_room) code_simp
  then show "srv_step sample_env world4 (do_operation ''A'' world4)"
    by (rule operation_step [rotated]) code_simp
  show "has_nhg (masterRIB (w_srv (do_operation ''A'' world4))) (''DEFAULT'', 1)" by code_simp
  show "\<not> has_nhg (masterRIB (w_srv world4)) (''DEFAULT'', 1)" by code_simp
  show "curMaster (w_srv world4) = ''B''" by code_simp
qed (rule world_reach)

subsection \<open>Answers\<close>

lemma modify_op_count:
  assumes "modify_op E sched fib elec op s = Some (evs, s')"
  shows "length evs = (if op_NetworkInstance op = [] then 2 else 1)"
  using assms by (auto simp: modify_op_def Let_def split: option.splits prod.splits)

lemma modify_ops_count:
  "modify_ops E sched fib elec ops s = Some (evs, s') \<Longrightarrow>
    length evs = length ops + length (filter (\<lambda>op. op_NetworkInstance op = []) ops)"
proof (induction ops arbitrary: s evs)
  case (Cons op ops)
  then obtain evs1 s1 evs2 where e: "modify_op E sched fib elec op s = Some (evs1, s1)"
      "modify_ops E sched fib elec ops s1 = Some (evs2, s')" "evs = evs1 @ evs2"
    by (auto split: option.splits prod.splits)
  from Cons.IH [OF e(2)] modify_op_count [OF e(1)] e(3) show ?case by auto
qed simp

text \<open>
  A message of operations whose client may send operations gets one answer per
  operation, except that an operation with an empty network instance name gets two: the
  code reports the empty name and then, without leaving the round of the loop, that it is
  unknown.
\<close>
theorem one_answer_per_operation:
  assumes "doModify E sched cid ops s = Some (evs, s')" and "begin_modify cid s = Inr (fib, elec)"
  shows "length evs = length ops + length (filter (\<lambda>op. op_NetworkInstance op = []) ops)"
  using assms by (auto simp: doModify_def dest: modify_ops_count)

theorem one_answer_per_operation_witness:
  "\<exists>evs s'. doModify sample_env in_order ''B'' [hop_op, hop_op\<lparr>op_NetworkInstance := []\<rparr>] (w_srv world4) = Some (evs, s') \<and>
    length evs = 3"
proof -
  let ?ops = "[hop_op, hop_op\<lparr>op_NetworkInstance := []\<rparr>]"
  have "(case doModify sample_env in_order ''B'' ?ops (w_srv world4) of None \<Rightarrow> False | Some _ \<Rightarrow> True)" by code_simp
  then obtain evs s' where d: "doModify sample_env in_order ''B'' ?ops (w_srv world4) = Some (evs, s')"
    by (auto split: option.splits)
  have "(case begin_modify ''B'' (w_srv world4) of Inl _ \<Rightarrow> False | Inr _ \<Rightarrow> True)" by code_simp
  then obtain fib elec where "begin_modify ''B'' (w_srv world4) = Inr (fib, elec)"
    by (auto split: sum.splits)
  from one_answer_per_operation [OF d this] d show ?thesis by (simp add: hop_op_def nh_op_def)
qed

end
