(* ===== verification/FluentEntries.thy ===== *)
theory FluentEntries
  imports Client
begin

text \<open>
  The enumerated types and the entry builders of the fluent API, \<open>fluent/fluent.go\<close>.

  The methods of a builder update it through a pointer and return the pointer, so that calls
  can be chained; here each takes the builder last and returns it updated.  \<open>OpProto\<close> and
  \<open>EntryProto\<close> clone the message they are given.  A method is named after its type and
  itself, where several types have a method of the name.
\<close>

subsection \<open>Enumerated types\<close>

text \<open>The first value of each type stands for the unset one and any other integer.\<close>

datatype RedundancyMode = Redundancy_UNSET | AllPrimaryClients | ElectedPrimaryClient

datatype fluent_AFT = FAFT_UNSET | FAFT_AllAFTs | FAFT_IPv4 | FAFT_NextHopGroup | FAFT_NextHop | FAFT_IPv6

definition aftMap :: "fluent_AFT \<Rightarrow> AFTType" where
  "aftMap a = (case a of FAFT_AllAFTs \<Rightarrow> AFT_ALL | FAFT_IPv4 \<Rightarrow> AFT_IPV4 | FAFT_NextHopGroup \<Rightarrow> AFT_NEXTHOP_GROUP
     | FAFT_NextHop \<Rightarrow> AFT_NEXTHOP | FAFT_IPv6 \<Rightarrow> AFT_IPV6 | FAFT_UNSET \<Rightarrow> AFT_INVALID)"

datatype Header = Header_UNSET | Header_IPinIP | Header_MPLS | Header_UDPV4 | Header_UDPV6

definition encapMap :: "Header \<Rightarrow> EncapType" where
  "encapMap h = (case h of Header_IPinIP \<Rightarrow> ENCAP_IPV4 | Header_MPLS \<Rightarrow> ENCAP_MPLS | Header_UDPV4 \<Rightarrow> ENCAP_UDPV4
     | Header_UDPV6 \<Rightarrow> ENCAP_UDPV6 | Header_UNSET \<Rightarrow> ENCAP_UNSET)"

datatype ModifyErrReason =
  MER_UNSET | UnsupportedParameters | ModifyParamsNotAllowed | ParamsDifferFromOtherClients | ElectionIDNotAllowed

definition reasonMap :: "ModifyErrReason \<Rightarrow> modify_reason" where
  "reasonMap r = (case r of UnsupportedParameters \<Rightarrow> UNSUPPORTED_PARAMS | ModifyParamsNotAllowed \<Rightarrow> MODIFY_NOT_ALLOWED
     | ParamsDifferFromOtherClients \<Rightarrow> PARAMS_DIFFER_FROM_OTHER_CLIENTS
     | ElectionIDNotAllowed \<Rightarrow> ELECTION_ID_IN_ALL_PRIMARY_modify | MER_UNSET \<Rightarrow> Reason_UNKNOWN)"

text \<open>\<open>ProgrammingFailed\<close> is the zero value here.\<close>

datatype ProgrammingResult = ProgrammingFailed | InstalledInRIB | InstalledInFIB

definition programmingResultMap :: "ProgrammingResult \<Rightarrow> AFTResult_Status" where
  "programmingResultMap r = (case r of ProgrammingFailed \<Rightarrow> Res_FAILED | InstalledInRIB \<Rightarrow> RIB_PROGRAMMED
     | InstalledInFIB \<Rightarrow> FIB_PROGRAMMED)"

subsection \<open>Entries\<close>

text \<open>An implementation of the interface \<open>GRIBIEntry\<close> is what its two methods return.\<close>

record GRIBIEntry =
  OpProto :: "string + AFTOperation"
  EntryProto :: "string + AFTEntry"

definition entry_op :: "string \<Rightarrow> AFTOperation_Entry \<Rightarrow> Uint128 option \<Rightarrow> AFTOperation" where
  "entry_op ni e el = \<lparr>op_Id = 0, op_NetworkInstance = ni, op_Op = Op_INVALID, op_Entry = Some e, op_ElectionId = el\<rparr>"

definition entry_of :: "string \<Rightarrow> AFTEntry_Entry \<Rightarrow> AFTEntry" where
  "entry_of ni e = \<lparr>ae_NetworkInstance = ni, ae_Entry = Some e\<rparr>"

subsubsection \<open>IPv4\<close>

record ipv4Entry =
  i4_pb :: Afts_Ipv4EntryKey
  i4_ni :: string
  i4_electionID :: "Uint128 option"

definition IPv4Entry :: ipv4Entry where
  "IPv4Entry = \<lparr>i4_pb = \<lparr>v4k_Prefix = [], v4k_Ipv4Entry = Some \<lparr>v4pb_NextHopGroup = None,
     v4pb_NextHopGroupNetworkInstance = None, v4pb_EntryMetadata = None\<rparr>\<rparr>, i4_ni = [], i4_electionID = None\<rparr>"

text \<open>The constructor sets the message inside the key, so the pointer to it is never nil.\<close>

definition i4_set :: "(Afts_Ipv4Entry_pb \<Rightarrow> Afts_Ipv4Entry_pb) \<Rightarrow> ipv4Entry \<Rightarrow> ipv4Entry" where
  "i4_set f i = i\<lparr>i4_pb := (i4_pb i)\<lparr>v4k_Ipv4Entry := map_option f (v4k_Ipv4Entry (i4_pb i))\<rparr>\<rparr>"

definition ipv4Entry_WithPrefix :: "string \<Rightarrow> ipv4Entry \<Rightarrow> ipv4Entry" where
  "ipv4Entry_WithPrefix p i = i\<lparr>i4_pb := (i4_pb i)\<lparr>v4k_Prefix := p\<rparr>\<rparr>"

definition ipv4Entry_WithNetworkInstance :: "string \<Rightarrow> ipv4Entry \<Rightarrow> ipv4Entry" where
  "ipv4Entry_WithNetworkInstance n i = i\<lparr>i4_ni := n\<rparr>"

definition ipv4Entry_WithNextHopGroup :: "u64 \<Rightarrow> ipv4Entry \<Rightarrow> ipv4Entry" where
  "ipv4Entry_WithNextHopGroup u i = i4_set (\<lambda>e. e\<lparr>v4pb_NextHopGroup := Some u\<rparr>) i"

definition ipv4Entry_WithNextHopGroupNetworkInstance :: "string \<Rightarrow> ipv4Entry \<Rightarrow> ipv4Entry" where
  "ipv4Entry_WithNextHopGroupNetworkInstance n i = i4_set (\<lambda>e. e\<lparr>v4pb_NextHopGroupNetworkInstance := Some n\<rparr>) i"

definition ipv4Entry_WithMetadata :: "string \<Rightarrow> ipv4Entry \<Rightarrow> ipv4Entry" where
  "ipv4Entry_WithMetadata b i = i4_set (\<lambda>e. e\<lparr>v4pb_EntryMetadata := Some b\<rparr>) i"

definition ipv4Entry_WithElectionID :: "u64 \<Rightarrow> u64 \<Rightarrow> ipv4Entry \<Rightarrow> ipv4Entry" where
  "ipv4Entry_WithElectionID low high i = i\<lparr>i4_electionID := Some \<lparr>High = high, Low = low\<rparr>\<rparr>"

definition ipv4Entry_GRIBIEntry :: "ipv4Entry \<Rightarrow> GRIBIEntry" where
  "ipv4Entry_GRIBIEntry i = \<lparr>OpProto = Inr (entry_op (i4_ni i) (AFTOp_Ipv4 (Some (i4_pb i))) (i4_electionID i)),
     EntryProto = Inr (entry_of (i4_ni i) (AFTEntry_Ipv4 (i4_pb i)))\<rparr>"

subsubsection \<open>IPv6\<close>

record ipv6Entry =
  i6_pb :: Afts_Ipv6EntryKey
  i6_ni :: string
  i6_electionID :: "Uint128 option"

definition IPv6Entry :: ipv6Entry where
  "IPv6Entry = \<lparr>i6_pb = \<lparr>v6k_Prefix = [], v6k_Ipv6Entry = Some \<lparr>v6pb_NextHopGroup = None,
     v6pb_NextHopGroupNetworkInstance = None, v6pb_EntryMetadata = None\<rparr>\<rparr>, i6_ni = [], i6_electionID = None\<rparr>"

definition i6_set :: "(Afts_Ipv6Entry_pb \<Rightarrow> Afts_Ipv6Entry_pb) \<Rightarrow> ipv6Entry \<Rightarrow> ipv6Entry" where
  "i6_set f i = i\<lparr>i6_pb := (i6_pb i)\<lparr>v6k_Ipv6Entry := map_option f (v6k_Ipv6Entry (i6_pb i))\<rparr>\<rparr>"

definition ipv6Entry_WithPrefix :: "string \<Rightarrow> ipv6Entry \<Rightarrow> ipv6Entry" where
  "ipv6Entry_WithPrefix p i = i\<lparr>i6_pb := (i6_pb i)\<lparr>v6k_Prefix := p\<rparr>\<rparr>"

definition ipv6Entry_WithNetworkInstance :: "string \<Rightarrow> ipv6Entry \<Rightarrow> ipv6Entry" where
  "ipv6Entry_WithNetworkInstance n i = i\<lparr>i6_ni := n\<rparr>"

definition ipv6Entry_WithNextHopGroup :: "u64 \<Rightarrow> ipv6Entry \<Rightarrow> ipv6Entry" where
  "ipv6Entry_WithNextHopGroup u i = i6_set (\<lambda>e. e\<lparr>v6pb_NextHopGroup := Some u\<rparr>) i"

definition ipv6Entry_WithNextHopGroupNetworkInstance :: "string \<Rightarrow> ipv6Entry \<Rightarrow> ipv6Entry" where
  "ipv6Entry_WithNextHopGroupNetworkInstance n i = i6_set (\<lambda>e. e\<lparr>v6pb_NextHopGroupNetworkInstance := Some n\<rparr>) i"

definition ipv6Entry_WithMetadata :: "string \<Rightarrow> ipv6Entry \<Rightarrow> ipv6Entry" where
  "ipv6Entry_WithMetadata b i = i6_set (\<lambda>e. e\<lparr>v6pb_EntryMetadata := Some b\<rparr>) i"

definition ipv6Entry_WithElectionID :: "u64 \<Rightarrow> u64 \<Rightarrow> ipv6Entry \<Rightarrow> ipv6Entry" where
  "ipv6Entry_WithElectionID low high i = i\<lparr>i6_electionID := Some \<lparr>High = high, Low = low\<rparr>\<rparr>"

definition ipv6Entry_GRIBIEntry :: "ipv6Entry \<Rightarrow> GRIBIEntry" where
  "ipv6Entry_GRIBIEntry i = \<lparr>OpProto = Inr (entry_op (i6_ni i) (AFTOp_Ipv6 (Some (i6_pb i))) (i6_electionID i)),
     EntryProto = Inr (entry_of (i6_ni i) (AFTEntry_Ipv6 (i6_pb i)))\<rparr>"

subsubsection \<open>MPLS\<close>

record labelEntry =
  fle_ni :: string
  fle_pb :: Afts_LabelEntryKey
  fle_electionID :: "Uint128 option"

definition LabelEntryBuilder :: labelEntry where
  "LabelEntryBuilder = \<lparr>fle_ni = [], fle_pb = \<lparr>lek_Label = None, lek_LabelEntry = Some \<lparr>lepb_NextHopGroup = None,
     lepb_NextHopGroupNetworkInstance = None, lepb_PoppedMplsLabelStack = []\<rparr>\<rparr>, fle_electionID = None\<rparr>"

definition fle_set :: "(Afts_LabelEntry_pb \<Rightarrow> Afts_LabelEntry_pb) \<Rightarrow> labelEntry \<Rightarrow> labelEntry" where
  "fle_set f l = l\<lparr>fle_pb := (fle_pb l)\<lparr>lek_LabelEntry := map_option f (lek_LabelEntry (fle_pb l))\<rparr>\<rparr>"

definition labelEntry_WithLabel :: "u32 \<Rightarrow> labelEntry \<Rightarrow> labelEntry" where
  "labelEntry_WithLabel v l = l\<lparr>fle_pb := (fle_pb l)\<lparr>lek_Label := Some (LabelUint64 (ucast v))\<rparr>\<rparr>"

definition labelEntry_WithNetworkInstance :: "string \<Rightarrow> labelEntry \<Rightarrow> labelEntry" where
  "labelEntry_WithNetworkInstance n l = l\<lparr>fle_ni := n\<rparr>"

definition labelEntry_WithNextHopGroup :: "u64 \<Rightarrow> labelEntry \<Rightarrow> labelEntry" where
  "labelEntry_WithNextHopGroup i l = fle_set (\<lambda>e. e\<lparr>lepb_NextHopGroup := Some i\<rparr>) l"

definition labelEntry_WithNextHopGroupNetworkInstance :: "string \<Rightarrow> labelEntry \<Rightarrow> labelEntry" where
  "labelEntry_WithNextHopGroupNetworkInstance n l = fle_set (\<lambda>e. e\<lparr>lepb_NextHopGroupNetworkInstance := Some n\<rparr>) l"

definition labelEntry_WithPoppedLabelStack :: "u32 list \<Rightarrow> labelEntry \<Rightarrow> labelEntry" where
  "labelEntry_WithPoppedLabelStack labels l = fle_set (\<lambda>e. e\<lparr>lepb_PoppedMplsLabelStack := map ucast labels\<rparr>) l"

text \<open>The builder has no method that sets an election identifier.\<close>

definition labelEntry_GRIBIEntry :: "labelEntry \<Rightarrow> GRIBIEntry" where
  "labelEntry_GRIBIEntry l = \<lparr>OpProto = Inr (entry_op (fle_ni l) (AFTOp_Mpls (Some (fle_pb l))) (fle_electionID l)),
     EntryProto = Inr (entry_of (fle_ni l) (AFTEntry_Mpls (fle_pb l)))\<rparr>"

subsubsection \<open>Next-hops\<close>

record nextHopEntry =
  fnh_ni :: string
  fnh_pb :: Afts_NextHopKey
  fnh_electionID :: "Uint128 option"

definition NextHopEntry :: nextHopEntry where
  "NextHopEntry = \<lparr>fnh_ni = [], fnh_pb = \<lparr>nhk_Index = 0, nhk_NextHop = None\<rparr>, fnh_electionID = None\<rparr>"

definition empty_NextHop_pb :: Afts_NextHop_pb where
  "empty_NextHop_pb = \<lparr>nhpb_IpAddress = None, nhpb_InterfaceRef = None, nhpb_MacAddress = None, nhpb_IpInIp = None,
     nhpb_NetworkInstance = None, nhpb_PopTopLabel = None, nhpb_PushedMplsLabelStack = [], nhpb_EncapHeader = [],
     nhpb_DecapsulateHeader = ENCAP_UNSET, nhpb_EncapsulateHeader = ENCAP_UNSET\<rparr>"

text \<open>A setter creates the inner message when it is still nil.\<close>

definition fnh_set :: "(Afts_NextHop_pb \<Rightarrow> Afts_NextHop_pb) \<Rightarrow> nextHopEntry \<Rightarrow> nextHopEntry" where
  "fnh_set f n = n\<lparr>fnh_pb := (fnh_pb n)\<lparr>nhk_NextHop :=
     Some (f (case nhk_NextHop (fnh_pb n) of None \<Rightarrow> empty_NextHop_pb | Some p \<Rightarrow> p))\<rparr>\<rparr>"

definition nextHopEntry_WithIndex :: "u64 \<Rightarrow> nextHopEntry \<Rightarrow> nextHopEntry" where
  "nextHopEntry_WithIndex i n = n\<lparr>fnh_pb := (fnh_pb n)\<lparr>nhk_Index := i\<rparr>\<rparr>"

definition nextHopEntry_WithNetworkInstance :: "string \<Rightarrow> nextHopEntry \<Rightarrow> nextHopEntry" where
  "nextHopEntry_WithNetworkInstance ni n = n\<lparr>fnh_ni := ni\<rparr>"

definition nextHopEntry_WithIPAddress :: "string \<Rightarrow> nextHopEntry \<Rightarrow> nextHopEntry" where
  "nextHopEntry_WithIPAddress addr n = fnh_set (\<lambda>p. p\<lparr>nhpb_IpAddress := Some addr\<rparr>) n"

definition nextHopEntry_WithInterfaceRef :: "string \<Rightarrow> nextHopEntry \<Rightarrow> nextHopEntry" where
  "nextHopEntry_WithInterfaceRef name n =
     fnh_set (\<lambda>p. p\<lparr>nhpb_InterfaceRef := Some \<lparr>ifr_Interface = Some name, ifr_Subinterface = None\<rparr>\<rparr>) n"

definition nextHopEntry_WithSubinterfaceRef :: "string \<Rightarrow> u64 \<Rightarrow> nextHopEntry \<Rightarrow> nextHopEntry" where
  "nextHopEntry_WithSubinterfaceRef name sub n =
     fnh_set (\<lambda>p. p\<lparr>nhpb_InterfaceRef := Some \<lparr>ifr_Interface = Some name, ifr_Subinterface = Some sub\<rparr>\<rparr>) n"

definition nextHopEntry_WithMacAddress :: "string \<Rightarrow> nextHopEntry \<Rightarrow> nextHopEntry" where
  "nextHopEntry_WithMacAddress mac n = fnh_set (\<lambda>p. p\<lparr>nhpb_MacAddress := Some mac\<rparr>) n"

definition nextHopEntry_WithIPinIP :: "string \<Rightarrow> string \<Rightarrow> nextHopEntry \<Rightarrow> nextHopEntry" where
  "nextHopEntry_WithIPinIP srcIP dstIP n = fnh_set (\<lambda>p. p\<lparr>nhpb_IpInIp := Some (Some srcIP, Some dstIP)\<rparr>) n"

definition nextHopEntry_WithNextHopNetworkInstance :: "string \<Rightarrow> nextHopEntry \<Rightarrow> nextHopEntry" where
  "nextHopEntry_WithNextHopNetworkInstance ni n = fnh_set (\<lambda>p. p\<lparr>nhpb_NetworkInstance := Some ni\<rparr>) n"

definition nextHopEntry_WithPopTopLabel :: "nextHopEntry \<Rightarrow> nextHopEntry" where
  "nextHopEntry_WithPopTopLabel n = fnh_set (\<lambda>p. p\<lparr>nhpb_PopTopLabel := Some True\<rparr>) n"

definition nextHopEntry_WithPushedLabelStack :: "u32 list \<Rightarrow> nextHopEntry \<Rightarrow> nextHopEntry" where
  "nextHopEntry_WithPushedLabelStack labels n = fnh_set (\<lambda>p. p\<lparr>nhpb_PushedMplsLabelStack := map ucast labels\<rparr>) n"

definition nextHopEntry_WithDecapsulateHeader :: "Header \<Rightarrow> nextHopEntry \<Rightarrow> nextHopEntry" where
  "nextHopEntry_WithDecapsulateHeader h n = fnh_set (\<lambda>p. p\<lparr>nhpb_DecapsulateHeader := encapMap h\<rparr>) n"

definition nextHopEntry_WithEncapsulateHeader :: "Header \<Rightarrow> nextHopEntry \<Rightarrow> nextHopEntry" where
  "nextHopEntry_WithEncapsulateHeader h n = fnh_set (\<lambda>p. p\<lparr>nhpb_EncapsulateHeader := encapMap h\<rparr>) n"

definition nextHopEntry_WithElectionID :: "u64 \<Rightarrow> u64 \<Rightarrow> nextHopEntry \<Rightarrow> nextHopEntry" where
  "nextHopEntry_WithElectionID low high n = n\<lparr>fnh_electionID := Some \<lparr>High = high, Low = low\<rparr>\<rparr>"

text \<open>The index of the next encapsulation header; asking for it creates the inner message.\<close>

definition nextEncapHeaderKeyIndex :: "nextHopEntry \<Rightarrow> u64 \<times> nextHopEntry" where
  "nextEncapHeaderKeyIndex n =
     (let n' = fnh_set (\<lambda>p. p) n
      in (of_nat (length (nhpb_EncapHeader (the (nhk_NextHop (fnh_pb n'))))) + 1, n'))"

text \<open>An encapsulation header is the message its \<open>EncapProto\<close> returns.\<close>

fun AddEncapHeader :: "Afts_NextHop_EncapHeader_pb list \<Rightarrow> nextHopEntry \<Rightarrow> nextHopEntry" where
  "AddEncapHeader [] n = n"
| "AddEncapHeader (eh # ehs) n =
     (case nextEncapHeaderKeyIndex n of
        (idx, n') \<Rightarrow> AddEncapHeader ehs (fnh_set (\<lambda>p. p\<lparr>nhpb_EncapHeader := nhpb_EncapHeader p @ [(idx, eh)]\<rparr>) n'))"

definition nextHopEntry_GRIBIEntry :: "nextHopEntry \<Rightarrow> GRIBIEntry" where
  "nextHopEntry_GRIBIEntry n = \<lparr>OpProto = Inr (entry_op (fnh_ni n) (AFTOp_NextHop (Some (fnh_pb n))) (fnh_electionID n)),
     EntryProto = Inr (entry_of (fnh_ni n) (AFTEntry_NextHop (fnh_pb n)))\<rparr>"

subsubsection \<open>Encapsulation headers\<close>

definition MPLSEncapHeader :: Afts_NextHop_EncapHeader_pb where
  "MPLSEncapHeader = \<lparr>eh_Type = encapMap Header_MPLS, eh_Mpls = Some [], eh_UdpV4 = None, eh_UdpV6 = None\<rparr>"

definition WithLabels :: "u64 list \<Rightarrow> Afts_NextHop_EncapHeader_pb \<Rightarrow> Afts_NextHop_EncapHeader_pb" where
  "WithLabels labels eh = eh\<lparr>eh_Mpls := map_option (\<lambda>ls. ls @ labels) (eh_Mpls eh)\<rparr>"

definition empty_EncapUdp :: EncapUdp_pb where
  "empty_EncapUdp = \<lparr>udp_Dscp = None, udp_DstIp = None, udp_DstUdpPort = None, udp_IpTtl = None, udp_SrcIp = None, udp_SrcUdpPort = None\<rparr>"

definition UDPV6EncapHeader :: Afts_NextHop_EncapHeader_pb where
  "UDPV6EncapHeader = \<lparr>eh_Type = encapMap Header_UDPV6, eh_Mpls = None, eh_UdpV4 = None, eh_UdpV6 = Some empty_EncapUdp\<rparr>"

definition UDPV4EncapHeader :: Afts_NextHop_EncapHeader_pb where
  "UDPV4EncapHeader = \<lparr>eh_Type = encapMap Header_UDPV4, eh_Mpls = None, eh_UdpV4 = Some empty_EncapUdp, eh_UdpV6 = None\<rparr>"

definition udp6_set :: "(EncapUdp_pb \<Rightarrow> EncapUdp_pb) \<Rightarrow> Afts_NextHop_EncapHeader_pb \<Rightarrow> Afts_NextHop_EncapHeader_pb" where
  "udp6_set f eh = eh\<lparr>eh_UdpV6 := map_option f (eh_UdpV6 eh)\<rparr>"

definition udp4_set :: "(EncapUdp_pb \<Rightarrow> EncapUdp_pb) \<Rightarrow> Afts_NextHop_EncapHeader_pb \<Rightarrow> Afts_NextHop_EncapHeader_pb" where
  "udp4_set f eh = eh\<lparr>eh_UdpV4 := map_option f (eh_UdpV4 eh)\<rparr>"

text \<open>The setters of the two UDP headers.\<close>

definition udpv6_WithDSCP :: "u64 \<Rightarrow> Afts_NextHop_EncapHeader_pb \<Rightarrow> Afts_NextHop_EncapHeader_pb" where
  "udpv6_WithDSCP dscp = udp6_set (\<lambda>u. u\<lparr>udp_Dscp := Some dscp\<rparr>)"
definition udpv6_WithDstIP :: "string \<Rightarrow> Afts_NextHop_EncapHeader_pb \<Rightarrow> Afts_NextHop_EncapHeader_pb" where
  "udpv6_WithDstIP ip = udp6_set (\<lambda>u. u\<lparr>udp_DstIp := Some ip\<rparr>)"
definition udpv6_WithDstUDPPort :: "u64 \<Rightarrow> Afts_NextHop_EncapHeader_pb \<Rightarrow> Afts_NextHop_EncapHeader_pb" where
  "udpv6_WithDstUDPPort port = udp6_set (\<lambda>u. u\<lparr>udp_DstUdpPort := Some port\<rparr>)"
definition udpv6_WithIPTTL :: "u64 \<Rightarrow> Afts_NextHop_EncapHeader_pb \<Rightarrow> Afts_NextHop_EncapHeader_pb" where
  "udpv6_WithIPTTL ttl = udp6_set (\<lambda>u. u\<lparr>udp_IpTtl := Some ttl\<rparr>)"
definition udpv6_WithSrcIP :: "string \<Rightarrow> Afts_NextHop_EncapHeader_pb \<Rightarrow> Afts_NextHop_EncapHeader_pb" where
  "udpv6_WithSrcIP ip = udp6_set (\<lambda>u. u\<lparr>udp_SrcIp := Some ip\<rparr>)"
definition udpv6_WithSrcUDPPort :: "u64 \<Rightarrow> Afts_NextHop_EncapHeader_pb \<Rightarrow> Afts_NextHop_EncapHeader_pb" where
  "udpv6_WithSrcUDPPort port = udp6_set (\<lambda>u. u\<lparr>udp_SrcUdpPort := Some port\<rparr>)"
definition udpv4_WithDSCP :: "u64 \<Rightarrow> Afts_NextHop_EncapHeader_pb \<Rightarrow> Afts_NextHop_EncapHeader_pb" where
  "udpv4_WithDSCP dscp = udp4_set (\<lambda>u. u\<lparr>udp_Dscp := Some dscp\<rparr>)"
definition udpv4_WithDstIP :: "string \<Rightarrow> Afts_NextHop_EncapHeader_pb \<Rightarrow> Afts_NextHop_EncapHeader_pb" where
  "udpv4_WithDstIP ip = udp4_set (\<lambda>u. u\<lparr>udp_DstIp := Some ip\<rparr>)"
definition udpv4_WithDstUDPPort :: "u64 \<Rightarrow> Afts_NextHop_EncapHeader_pb \<Rightarrow> Afts_NextHop_EncapHeader_pb" where
  "udpv4_WithDstUDPPort port = udp4_set (\<lambda>u. u\<lparr>udp_DstUdpPort := Some port\<rparr>)"
definition udpv4_WithIPTTL :: "u64 \<Rightarrow> Afts_NextHop_EncapHeader_pb \<Rightarrow> Afts_NextHop_EncapHeader_pb" where
  "udpv4_WithIPTTL ttl = udp4_set (\<lambda>u. u\<lparr>udp_IpTtl := Some ttl\<rparr>)"
definition udpv4_WithSrcIP :: "string \<Rightarrow> Afts_NextHop_EncapHeader_pb \<Rightarrow> Afts_NextHop_EncapHeader_pb" where
  "udpv4_WithSrcIP ip = udp4_set (\<lambda>u. u\<lparr>udp_SrcIp := Some ip\<rparr>)"
definition udpv4_WithSrcUDPPort :: "u64 \<Rightarrow> Afts_NextHop_EncapHeader_pb \<Rightarrow> Afts_NextHop_EncapHeader_pb" where
  "udpv4_WithSrcUDPPort port = udp4_set (\<lambda>u. u\<lparr>udp_SrcUdpPort := Some port\<rparr>)"

subsubsection \<open>Next-hop-groups\<close>

record nextHopGroupEntry =
  fng_ni :: string
  fng_pb :: Afts_NextHopGroupKey
  fng_electionID :: "Uint128 option"

definition NextHopGroupEntry :: nextHopGroupEntry where
  "NextHopGroupEntry = \<lparr>fng_ni = [], fng_pb = \<lparr>nhgk_Id = 0, nhgk_NextHopGroup = Some \<lparr>nhgpb_NextHop = [],
     nhgpb_BackupNextHopGroup = None\<rparr>\<rparr>, fng_electionID = None\<rparr>"

definition fng_set :: "(Afts_NextHopGroup_pb \<Rightarrow> Afts_NextHopGroup_pb) \<Rightarrow> nextHopGroupEntry \<Rightarrow> nextHopGroupEntry" where
  "fng_set f n = n\<lparr>fng_pb := (fng_pb n)\<lparr>nhgk_NextHopGroup := map_option f (nhgk_NextHopGroup (fng_pb n))\<rparr>\<rparr>"

definition nextHopGroupEntry_WithID :: "u64 \<Rightarrow> nextHopGroupEntry \<Rightarrow> nextHopGroupEntry" where
  "nextHopGroupEntry_WithID i n = n\<lparr>fng_pb := (fng_pb n)\<lparr>nhgk_Id := i\<rparr>\<rparr>"

definition nextHopGroupEntry_WithNetworkInstance :: "string \<Rightarrow> nextHopGroupEntry \<Rightarrow> nextHopGroupEntry" where
  "nextHopGroupEntry_WithNetworkInstance ni n = n\<lparr>fng_ni := ni\<rparr>"

definition nextHopGroupEntry_WithBackupNHG :: "u64 \<Rightarrow> nextHopGroupEntry \<Rightarrow> nextHopGroupEntry" where
  "nextHopGroupEntry_WithBackupNHG i n = fng_set (\<lambda>g. g\<lparr>nhgpb_BackupNextHopGroup := Some i\<rparr>) n"

definition nextHopGroupEntry_AddNextHop :: "u64 \<Rightarrow> u64 \<Rightarrow> nextHopGroupEntry \<Rightarrow> nextHopGroupEntry" where
  "nextHopGroupEntry_AddNextHop index weight n =
     fng_set (\<lambda>g. g\<lparr>nhgpb_NextHop := nhgpb_NextHop g @
       [\<lparr>nhgnhk_Index = index, nhgnhk_NextHop = Some \<lparr>nhgnhpb_Weight = Some weight\<rparr>\<rparr>]\<rparr>) n"

definition nextHopGroupEntry_WithElectionID :: "u64 \<Rightarrow> u64 \<Rightarrow> nextHopGroupEntry \<Rightarrow> nextHopGroupEntry" where
  "nextHopGroupEntry_WithElectionID low high n = n\<lparr>fng_electionID := Some \<lparr>High = high, Low = low\<rparr>\<rparr>"

definition nextHopGroupEntry_GRIBIEntry :: "nextHopGroupEntry \<Rightarrow> GRIBIEntry" where
  "nextHopGroupEntry_GRIBIEntry n =
     \<lparr>OpProto = Inr (entry_op (fng_ni n) (AFTOp_NextHopGroup (Some (fng_pb n))) (fng_electionID n)),
      EntryProto = Inr (entry_of (fng_ni n) (AFTEntry_NextHopGroup (fng_pb n)))\<rparr>"

end
