(* ===== verification/Fluent.thy ===== *)
theory Fluent
  imports FluentEntries
begin

text \<open>
  The client of the fluent API, \<open>fluent/fluent.go\<close>: its connection, its Modify, Get and Flush
  requests, and the builders of the errors and results a test expects.

  The object that a method returns to be used next has a pointer to its client, its parent;
  here such methods take the client.  Methods that take a \<open>testing.TB\<close> end the test on an
  error (\<open>t.Fatalf\<close>): these ends, and panics, are the values of \<open>fluent_fatal\<close>.
\<close>

subsection \<open>State\<close>

datatype fluent_err = CannotBuildEntry string | ExplicitOperationID u64

datatype fluent_fatal =
    NoTargetOrStub | NoElectionIDInElectedPrimary | CannotCreateNewClient client_err | CannotDialTarget client_err
  | CannotConnectModify client_err | CannotBuildModify fluent_err | FluentPanic

record gRIBIConnection =
  targetAddr :: string
  conn_stub :: "GRIBIClient option"
  redundMode :: RedundancyMode
  conn_electionID :: "Uint128 option"
  persist :: bool
  conn_fibACK :: bool

record FluentClient =
  connection :: "gRIBIConnection option"
  fc :: "Client option"
  opCount :: u64
  currentElectionID :: "Uint128 option"

definition NewFluentClient :: FluentClient where
  "NewFluentClient = \<lparr>connection = None, fc = None, opCount = 0, currentElectionID = None\<rparr>"

definition new_connection :: gRIBIConnection where
  "new_connection = \<lparr>targetAddr = [], conn_stub = None, redundMode = Redundancy_UNSET, conn_electionID = None,
     persist = False, conn_fibACK = False\<rparr>"

definition Connection :: "FluentClient \<Rightarrow> FluentClient" where
  "Connection g = (if connection g \<noteq> None then g else g\<lparr>connection := Some new_connection\<rparr>)"

text \<open>A method of the connection that \<open>Connection\<close> returned.\<close>

definition on_connection :: "(gRIBIConnection \<Rightarrow> gRIBIConnection) \<Rightarrow> FluentClient \<Rightarrow> FluentClient" where
  "on_connection f g = g\<lparr>connection := map_option f (connection g)\<rparr>"

definition WithTarget :: "string \<Rightarrow> FluentClient \<Rightarrow> FluentClient" where
  "WithTarget addr = on_connection (\<lambda>c. c\<lparr>targetAddr := addr, conn_stub := None\<rparr>)"

definition WithStub :: "GRIBIClient option \<Rightarrow> FluentClient \<Rightarrow> FluentClient" where
  "WithStub stub = on_connection (\<lambda>c. c\<lparr>targetAddr := [], conn_stub := stub\<rparr>)"

definition WithPersistence :: "FluentClient \<Rightarrow> FluentClient" where
  "WithPersistence = on_connection (\<lambda>c. c\<lparr>persist := True\<rparr>)"

definition WithFIBACK :: "FluentClient \<Rightarrow> FluentClient" where
  "WithFIBACK = on_connection (\<lambda>c. c\<lparr>conn_fibACK := True\<rparr>)"

definition WithRedundancyMode :: "RedundancyMode \<Rightarrow> FluentClient \<Rightarrow> FluentClient" where
  "WithRedundancyMode m = on_connection (\<lambda>c. c\<lparr>redundMode := m\<rparr>)"

definition WithInitialElectionID :: "u64 \<Rightarrow> u64 \<Rightarrow> FluentClient \<Rightarrow> FluentClient" where
  "WithInitialElectionID low high g =
     (on_connection (\<lambda>c. c\<lparr>conn_electionID := Some \<lparr>High = high, Low = low\<rparr>\<rparr>) g)
       \<lparr>currentElectionID := Some \<lparr>High = high, Low = low\<rparr>\<rparr>"

subsection \<open>Starting and stopping\<close>

definition start_opts :: "gRIBIConnection \<Rightarrow> Opt list" where
  "start_opts c =
     (case redundMode c of AllPrimaryClients \<Rightarrow> [allPrimaryClients]
      | ElectedPrimaryClient \<Rightarrow> [electedPrimaryClient (conn_electionID c)] | Redundancy_UNSET \<Rightarrow> []) @
     (if persist c then [persistEntries] else []) @ (if conn_fibACK c then [fibACK] else [])"

text \<open>\<open>dialled\<close> is what dialling an address gives.  The result of \<open>UseStub\<close> is not looked at.\<close>

definition Start :: "(string \<Rightarrow> string + GRIBIClient) \<Rightarrow> FluentClient \<Rightarrow> fluent_fatal + FluentClient" where
  "Start dialled g =
     (case connection g of
        None \<Rightarrow> Inl FluentPanic
      | Some c \<Rightarrow>
          if targetAddr c = [] \<and> conn_stub c = None then Inl NoTargetOrStub
          else if redundMode c = ElectedPrimaryClient \<and> conn_electionID c = None then Inl NoElectionIDInElectedPrimary
          else
     (case NewClient (start_opts c) of
        Inl e \<Rightarrow> Inl (CannotCreateNewClient e)
      | Inr cl \<Rightarrow>
     (case conn_stub c of
        Some stub \<Rightarrow> Inr (g\<lparr>fc := Some (snd (UseStub stub cl))\<rparr>)
      | None \<Rightarrow>
          (case Dial (dialled (targetAddr c)) cl of
             (Some e, _) \<Rightarrow> Inl (CannotDialTarget e)
           | (None, cl') \<Rightarrow> Inr (g\<lparr>fc := Some cl'\<rparr>)))))"

text \<open>A call on the client, which panics before \<open>Start\<close> and when the call does.\<close>

definition on_client :: "(Client \<Rightarrow> Client option) \<Rightarrow> FluentClient \<Rightarrow> fluent_fatal + FluentClient" where
  "on_client f g =
     (case fc g of None \<Rightarrow> Inl FluentPanic
      | Some c \<Rightarrow> (case f c of None \<Rightarrow> Inl FluentPanic | Some c' \<Rightarrow> Inr (g\<lparr>fc := Some c'\<rparr>)))"

definition Stop :: "FluentClient \<Rightarrow> fluent_fatal + FluentClient" where
  "Stop g = (if fc g = None then Inr g else on_client (\<lambda>c. Close (StopSending c)) g)"

definition FluentStartSending :: "(nat \<Rightarrow> u64) \<Rightarrow> (nat \<Rightarrow> u64) \<Rightarrow> FluentClient \<Rightarrow> fluent_fatal + FluentClient" where
  "FluentStartSending clkp clke g =
     (case fc g of
        None \<Rightarrow> Inl FluentPanic
      | Some c \<Rightarrow>
          (case Connect c of
             (Some e, _) \<Rightarrow> Inl (if e = ClientPanic then FluentPanic else CannotConnectModify e)
           | (None, c') \<Rightarrow> on_client (StartSending clkp clke) (g\<lparr>fc := Some c'\<rparr>)))"

text \<open>\<open>Await\<close> over the states that \<open>AwaitConverged\<close> sees.\<close>

definition Await :: "(string option \<times> Client) list \<Rightarrow> client_err option option" where
  "Await polls = AwaitConverged polls"

definition FluentResults :: "FluentClient \<Rightarrow> fluent_fatal + ClientOpResult option list" where
  "FluentResults g = (case fc g of None \<Rightarrow> Inl FluentPanic | Some c \<Rightarrow> Inr (Results c))"

definition FluentStatus :: "u64 \<Rightarrow> FluentClient \<Rightarrow> fluent_fatal + ClientStatus" where
  "FluentStatus ts g = (case fc g of None \<Rightarrow> Inl FluentPanic | Some c \<Rightarrow> Inr (Status ts c))"

subsection \<open>Modify\<close>

text \<open>The loop over the entries; the counter keeps the increments made before an error.\<close>

fun entries_to_ops :: "AFTOperation_Operation \<Rightarrow> GRIBIEntry list \<Rightarrow> FluentClient \<Rightarrow>
    (fluent_err + AFTOperation list) \<times> FluentClient" where
  "entries_to_ops op [] g = (Inr [], g)"
| "entries_to_ops op (e # es) g =
     (case OpProto e of
        Inl err \<Rightarrow> (Inl (CannotBuildEntry err), g)
      | Inr ep \<Rightarrow>
          if op_Id ep \<noteq> 0 then (Inl (ExplicitOperationID (op_Id ep)), g)
          else
           (let g1 = g\<lparr>opCount := opCount g + 1\<rparr>;
                elected = (case connection g1 of None \<Rightarrow> False | Some c \<Rightarrow> redundMode c = ElectedPrimaryClient);
                ep1 = ep\<lparr>op_Op := op, op_Id := opCount g1\<rparr>;
                ep2 = (if elected \<and> op_ElectionId ep1 = None then ep1\<lparr>op_ElectionId := currentElectionID g1\<rparr> else ep1)
            in case entries_to_ops op es g1 of
                 (Inl err, g2) \<Rightarrow> (Inl err, g2)
               | (Inr ops, g2) \<Rightarrow> (Inr (ep2 # ops), g2)))"

definition entriesToModifyRequest :: "AFTOperation_Operation \<Rightarrow> GRIBIEntry list \<Rightarrow> FluentClient \<Rightarrow>
    (fluent_err + ModifyRequest) \<times> FluentClient" where
  "entriesToModifyRequest op entries g =
     (case entries_to_ops op entries g of
        (Inl e, g1) \<Rightarrow> (Inl e, g1)
      | (Inr ops, g1) \<Rightarrow> (Inr \<lparr>mreq_Operation = ops, mreq_ElectionId = None, mreq_Params = None\<rparr>, g1))"

definition InjectRequest :: "(nat \<Rightarrow> u64) \<Rightarrow> ModifyRequest \<Rightarrow> FluentClient \<Rightarrow> fluent_fatal + FluentClient" where
  "InjectRequest clk m g = on_client (Q clk m) g"

text \<open>The common body of the three methods that send entries.\<close>

definition modify_entries :: "AFTOperation_Operation \<Rightarrow> (nat \<Rightarrow> u64) \<Rightarrow> GRIBIEntry list \<Rightarrow> FluentClient \<Rightarrow>
    fluent_fatal + FluentClient" where
  "modify_entries op clk entries g =
     (case entriesToModifyRequest op entries g of
        (Inl e, _) \<Rightarrow> Inl (CannotBuildModify e)
      | (Inr m, g1) \<Rightarrow> on_client (Q clk m) g1)"

definition FluentAddEntry :: "(nat \<Rightarrow> u64) \<Rightarrow> GRIBIEntry list \<Rightarrow> FluentClient \<Rightarrow> fluent_fatal + FluentClient" where
  "FluentAddEntry clk entries g = modify_entries Op_ADD clk entries g"

definition FluentDeleteEntry :: "(nat \<Rightarrow> u64) \<Rightarrow> GRIBIEntry list \<Rightarrow> FluentClient \<Rightarrow> fluent_fatal + FluentClient" where
  "FluentDeleteEntry clk entries g = modify_entries Op_DELETE clk entries g"

definition FluentReplaceEntry :: "(nat \<Rightarrow> u64) \<Rightarrow> GRIBIEntry list \<Rightarrow> FluentClient \<Rightarrow> fluent_fatal + FluentClient" where
  "FluentReplaceEntry clk entries g = modify_entries Op_REPLACE clk entries g"

text \<open>\<open>clks n\<close> is the clock of the \<open>n\<close>-th request.\<close>

fun Enqueue :: "(nat \<Rightarrow> nat \<Rightarrow> u64) \<Rightarrow> nat \<Rightarrow> ModifyRequest list \<Rightarrow> FluentClient \<Rightarrow> fluent_fatal + FluentClient" where
  "Enqueue clks n [] g = Inr g"
| "Enqueue clks n (m # ms) g =
     (case on_client (Q (clks n) m) g of Inl e \<Rightarrow> Inl e | Inr g1 \<Rightarrow> Enqueue clks (Suc n) ms g1)"

definition UpdateElectionID :: "(nat \<Rightarrow> u64) \<Rightarrow> u64 \<Rightarrow> u64 \<Rightarrow> FluentClient \<Rightarrow> fluent_fatal + FluentClient" where
  "UpdateElectionID clk low high g =
     (let eid = \<lparr>High = high, Low = low\<rparr>
      in on_client (Q clk (election_request eid)) (g\<lparr>currentElectionID := Some eid\<rparr>))"

subsection \<open>Get and Flush\<close>

definition gRIBIGet :: GetRequest where
  "gRIBIGet = \<lparr>get_NetworkInstance = None, get_Aft = AFT_INVALID\<rparr>"

definition gRIBIGet_AllNetworkInstances :: "GetRequest \<Rightarrow> GetRequest" where
  "gRIBIGet_AllNetworkInstances pb = pb\<lparr>get_NetworkInstance := Some NI_All\<rparr>"

definition gRIBIGet_WithNetworkInstance :: "string \<Rightarrow> GetRequest \<Rightarrow> GetRequest" where
  "gRIBIGet_WithNetworkInstance ni pb = pb\<lparr>get_NetworkInstance := Some (NI_Name ni)\<rparr>"

definition gRIBIGet_WithAFT :: "fluent_AFT \<Rightarrow> GetRequest \<Rightarrow> GetRequest" where
  "gRIBIGet_WithAFT a pb = pb\<lparr>get_Aft := aftMap a\<rparr>"

text \<open>The outer error is a call before \<open>Start\<close>.\<close>

definition gRIBIGet_Send :: "GetRequest \<Rightarrow> FluentClient \<Rightarrow> fluent_fatal + (client_err + GetResponse)" where
  "gRIBIGet_Send pb g = (case fc g of None \<Rightarrow> Inl FluentPanic | Some c \<Rightarrow> Inr (ClientGet (Some pb) c))"

definition gRIBIFlush :: FlushRequest where
  "gRIBIFlush = \<lparr>flush_NetworkInstance = None, flush_Election = None\<rparr>"

definition gRIBIFlush_WithElectionID :: "u64 \<Rightarrow> u64 \<Rightarrow> FlushRequest \<Rightarrow> FlushRequest" where
  "gRIBIFlush_WithElectionID low high pb = pb\<lparr>flush_Election := Some (Flush_Id \<lparr>High = high, Low = low\<rparr>)\<rparr>"

definition gRIBIFlush_WithElectionOverride :: "FlushRequest \<Rightarrow> FlushRequest" where
  "gRIBIFlush_WithElectionOverride pb = pb\<lparr>flush_Election := Some Flush_Override\<rparr>"

definition gRIBIFlush_WithNetworkInstance :: "string \<Rightarrow> FlushRequest \<Rightarrow> FlushRequest" where
  "gRIBIFlush_WithNetworkInstance n pb = pb\<lparr>flush_NetworkInstance := Some (NI_Name n)\<rparr>"

definition gRIBIFlush_WithAllNetworkInstances :: "FlushRequest \<Rightarrow> FlushRequest" where
  "gRIBIFlush_WithAllNetworkInstances pb = pb\<lparr>flush_NetworkInstance := Some NI_All\<rparr>"

definition gRIBIFlush_Send :: "FlushRequest \<Rightarrow> FluentClient \<Rightarrow> fluent_fatal + (client_err + FlushResponse)" where
  "gRIBIFlush_Send pb g = (case fc g of None \<Rightarrow> Inl FluentPanic | Some c \<Rightarrow> Inr (ClientFlush (Some pb) c))"

subsection \<open>Expected errors\<close>

record modifyError =
  me_Reason :: modify_reason
  me_Code :: nat

text \<open>A gRPC status: its code, message and details.\<close>

record 'd status =
  st_Code :: nat
  st_Message :: string
  st_Details :: "'d list"

definition ModifyError :: modifyError where
  "ModifyError = \<lparr>me_Reason = Reason_UNKNOWN, me_Code = 0\<rparr>"

definition modifyError_WithReason :: "ModifyErrReason \<Rightarrow> modifyError \<Rightarrow> modifyError" where
  "modifyError_WithReason r m = m\<lparr>me_Reason := reasonMap r\<rparr>"

definition modifyError_WithCode :: "nat \<Rightarrow> modifyError \<Rightarrow> modifyError" where
  "modifyError_WithCode c m = m\<lparr>me_Code := c\<rparr>"

text \<open>\<open>WithDetails\<close> of the status library fails on a status of code OK, which is zero.\<close>

definition AsStatus :: "modifyError \<Rightarrow> modify_reason status option" where
  "AsStatus m = (if me_Code m = 0 then None
     else Some \<lparr>st_Code = me_Code m, st_Message = [], st_Details = [me_Reason m]\<rparr>)"

subsection \<open>Expected results\<close>

definition OperationResult :: ClientOpResult where
  "OperationResult = zero_OpResult"

definition WithCurrentServerElectionID :: "u64 \<Rightarrow> u64 \<Rightarrow> ClientOpResult \<Rightarrow> ClientOpResult" where
  "WithCurrentServerElectionID low high r = r\<lparr>cor_CurrentServerElectionID := Some \<lparr>High = high, Low = low\<rparr>\<rparr>"

definition WithSuccessfulSessionParams :: "ClientOpResult \<Rightarrow> ClientOpResult" where
  "WithSuccessfulSessionParams r = r\<lparr>cor_SessionParameters := Some SessionParams_OK\<rparr>"

definition WithOperationID :: "u64 \<Rightarrow> ClientOpResult \<Rightarrow> ClientOpResult" where
  "WithOperationID i r = r\<lparr>cor_OperationID := i\<rparr>"

definition zero_details :: OpDetailsResults where
  "zero_details = \<lparr>odr_Type = OpType_unset, odr_NextHopIndex = 0, odr_NextHopGroupID = 0, odr_IPv4Prefix = [],
     odr_IPv6Prefix = [], odr_MPLSLabel = 0\<rparr>"

definition on_details :: "(OpDetailsResults \<Rightarrow> OpDetailsResults) \<Rightarrow> ClientOpResult \<Rightarrow> ClientOpResult" where
  "on_details f r = r\<lparr>cor_Details := Some (f (case cor_Details r of None \<Rightarrow> zero_details | Some d \<Rightarrow> d))\<rparr>"

definition WithIPv4Operation :: "string \<Rightarrow> ClientOpResult \<Rightarrow> ClientOpResult" where
  "WithIPv4Operation p = on_details (\<lambda>d. d\<lparr>odr_IPv4Prefix := p\<rparr>)"

definition WithIPv6Operation :: "string \<Rightarrow> ClientOpResult \<Rightarrow> ClientOpResult" where
  "WithIPv6Operation p = on_details (\<lambda>d. d\<lparr>odr_IPv6Prefix := p\<rparr>)"

definition WithNextHopGroupOperation :: "u64 \<Rightarrow> ClientOpResult \<Rightarrow> ClientOpResult" where
  "WithNextHopGroupOperation i = on_details (\<lambda>d. d\<lparr>odr_NextHopGroupID := i\<rparr>)"

definition WithNextHopOperation :: "u64 \<Rightarrow> ClientOpResult \<Rightarrow> ClientOpResult" where
  "WithNextHopOperation i = on_details (\<lambda>d. d\<lparr>odr_NextHopIndex := i\<rparr>)"

definition WithMPLSOperation :: "u64 \<Rightarrow> ClientOpResult \<Rightarrow> ClientOpResult" where
  "WithMPLSOperation i = on_details (\<lambda>d. d\<lparr>odr_MPLSLabel := i\<rparr>)"

definition WithOperationType :: "OpType \<Rightarrow> ClientOpResult \<Rightarrow> ClientOpResult" where
  "WithOperationType c = on_details (\<lambda>d. d\<lparr>odr_Type := c\<rparr>)"

definition WithProgrammingResult :: "ProgrammingResult \<Rightarrow> ClientOpResult \<Rightarrow> ClientOpResult" where
  "WithProgrammingResult r res = res\<lparr>cor_ProgrammingResult := programmingResultMap r\<rparr>"

end
