(* ===== verification/ClientRun.thy ===== *)
theory ClientRun
  imports Client
begin

text \<open>
  Runs of the client: its API calls, one at a time, interleaved with the rounds of its two
  goroutines.  A run records the operations queued and the results acknowledged since the
  client was created or reset.  The invariant accounts for every operation: it is pending or
  has exactly one final result.
\<close>

subsection \<open>Runs\<close>

text \<open>The results that \<open>AckResult\<close> takes out of the queue.\<close>

definition acked :: "ClientOpResult option list \<Rightarrow> Client \<Rightarrow> ClientOpResult option list" where
  "acked res c =
     (if list_ex (\<lambda>r. r = None) res \<or> list_ex (\<lambda>r. r = None) (resultq (qs c)) then []
      else filter (\<lambda>r. cor_OperationID (the r) \<in> set (map (\<lambda>r. cor_OperationID (the r)) res)) (resultq (qs c)))"

inductive client_run :: "bool \<Rightarrow> AFTOperation list \<Rightarrow> ClientOpResult option list \<Rightarrow> Client \<Rightarrow> bool" for treat where
  new: "NewClient opts = Inr c \<Longrightarrow> client_run treat [] [] c"
| dial: "client_run treat os rs c \<Longrightarrow> client_run treat os rs (snd (Dial conn c))"
| use_stub: "client_run treat os rs c \<Longrightarrow> client_run treat os rs (snd (UseStub stub c))"
| replace_stub: "client_run treat os rs c \<Longrightarrow> client_run treat os rs (snd (ReplaceStub stub c))"
| queue: "client_run treat os rs c \<Longrightarrow> \<not> blocked c \<Longrightarrow> Q clk m c = Some c' \<Longrightarrow>
    client_run treat (os @ mreq_Operation m) rs c'"
| start: "client_run treat os rs c \<Longrightarrow> \<not> blocked c \<Longrightarrow> StartSending clkp clke c = Some c' \<Longrightarrow> client_run treat os rs c'"
| stop: "client_run treat os rs c \<Longrightarrow> client_run treat os rs (StopSending c)"
| connect: "client_run treat os rs c \<Longrightarrow> disconnected c \<Longrightarrow> client_run treat os rs (snd (Connect c))"
| send: "client_run treat os rs c \<Longrightarrow> sender c \<Longrightarrow> sender_step err c = Some (sent, c') \<Longrightarrow> client_run treat os rs c'"
| recv: "client_run treat os rs c \<Longrightarrow> receiver c \<Longrightarrow> client_run treat os rs (receiver_step treat clk ev c)"
| close: "client_run treat os rs c \<Longrightarrow> \<not> blocked c \<Longrightarrow> Close c = Some c' \<Longrightarrow> client_run treat os rs c'"
| reset_begin: "client_run treat os rs c \<Longrightarrow> \<not> blocked c \<Longrightarrow> Reset_begin c = Some c' \<Longrightarrow> client_run treat os rs c'"
| reset_end: "client_run treat os rs c \<Longrightarrow> disconnected c \<Longrightarrow> client_run treat [] [] (Reset_end c)"
| ack: "client_run treat os rs c \<Longrightarrow> client_run treat os (rs @ acked res c) (snd (AckResult res c))"

subsection \<open>Accounting\<close>

definition pending_ids :: "Client \<Rightarrow> u64 list" where
  "pending_ids c = map fst (pq_Ops (pendq (qs c)))"

definition session_ack :: "Client \<Rightarrow> AckType" where
  "session_ack c = GetAckType (SessParams (cl_state c))"

text \<open>A result is final when it belongs to a pending operation and takes it off the queue.\<close>

definition final :: "bool \<Rightarrow> AckType \<Rightarrow> ClientOpResult option \<Rightarrow> bool" where
  "final treat ack ro = (case ro of None \<Rightarrow> False
     | Some r \<Rightarrow> cor_Details r \<noteq> None \<and> dequeues treat ack (cor_ProgrammingResult r))"

definition final_ids :: "bool \<Rightarrow> AckType \<Rightarrow> ClientOpResult option list \<Rightarrow> u64 list" where
  "final_ids treat ack rs = map (\<lambda>r. cor_OperationID (the r)) (filter (final treat ack) rs)"

lemma final_ids_simps [simp]:
  "final_ids treat ack [] = []"
  "final_ids treat ack (rs @ rs') = final_ids treat ack rs @ final_ids treat ack rs'"
  "final_ids treat ack (r # rs) = (if final treat ack r then [cor_OperationID (the r)] else []) @ final_ids treat ack rs"
  by (simp_all add: final_ids_def)

definition answered_ids :: "bool \<Rightarrow> ClientOpResult option list \<Rightarrow> Client \<Rightarrow> u64 list" where
  "answered_ids treat rs c = final_ids treat (session_ack c) (rs @ resultq (qs c))"

text \<open>The pending map names its operations by their identifiers.\<close>

definition pend_ok :: "Client \<Rightarrow> bool" where
  "pend_ok c \<longleftrightarrow> distinct (pending_ids c) \<and> (\<forall>(i, p)\<in>set (pq_Ops (pendq (qs c))). op_Id (po_Op p) = i)"

text \<open>A result with details is that of an operation that was queued.\<close>

definition from_op :: "AFTOperation list \<Rightarrow> ClientOpResult option \<Rightarrow> bool" where
  "from_op os ro = (case ro of None \<Rightarrow> True
     | Some r \<Rightarrow> (case cor_Details r of None \<Rightarrow> True
         | Some d \<Rightarrow> list_ex (\<lambda>op. op_Id op = cor_OperationID r \<and> op_details op = d) os))"

definition accounted :: "bool \<Rightarrow> AFTOperation list \<Rightarrow> ClientOpResult option list \<Rightarrow> Client \<Rightarrow> bool" where
  "accounted treat os rs c \<longleftrightarrow>
     pend_ok c \<and> (\<forall>(i, p)\<in>set (pq_Ops (pendq (qs c))). po_Op p \<in> set os) \<and>
     list_all (from_op os) (rs @ resultq (qs c)) \<and>
     mset (pending_ids c) + mset (answered_ids treat rs c) \<subseteq># mset (map op_Id os) \<and>
     (sendErr c = [] \<longrightarrow> mset (pending_ids c) + mset (answered_ids treat rs c) = mset (map op_Id os))"

text \<open>
  Steps that keep the pending operations, the results and the parameters, and drop no send
  error, keep the accounting.
\<close>

definition same_books :: "Client \<Rightarrow> Client \<Rightarrow> bool" where
  "same_books c c' \<longleftrightarrow> pq_Ops (pendq (qs c')) = pq_Ops (pendq (qs c)) \<and> resultq (qs c') = resultq (qs c) \<and>
     SessParams (cl_state c') = SessParams (cl_state c) \<and> (sendErr c' = [] \<longrightarrow> sendErr c = [])"

lemma same_books_refl [simp]: "same_books c c"
  by (simp add: same_books_def)

lemma same_books_trans: "same_books a b \<Longrightarrow> same_books b c \<Longrightarrow> same_books a c"
  by (simp add: same_books_def)

lemma accounted_same: "same_books c c' \<Longrightarrow> accounted treat os rs c \<Longrightarrow> accounted treat os rs c'"
  by (auto simp: same_books_def accounted_def pend_ok_def pending_ids_def answered_ids_def session_ack_def)

lemma q_same: "q m c = Some c' \<Longrightarrow> same_books c c'"
  by (auto simp: q_def same_books_def split: if_splits)

lemma q_all_same: "q_all ms c = Some c' \<Longrightarrow> same_books c c'"
proof (induction ms arbitrary: c)
  case (Cons m ms)
  then obtain c1 where "q m c = Some c1" "q_all ms c1 = Some c'" by (auto split: option.splits)
  with Cons.IH q_same same_books_trans show ?case by blast
qed simp

lemma small_steps_same:
  "same_books c (snd (Dial conn c))" "same_books c (snd (UseStub stub c))" "same_books c (snd (ReplaceStub stub c))"
  "same_books c (StopSending c)" "same_books c (snd (Connect c))" "disconnect c = Some c' \<Longrightarrow> same_books c c'"
  "sender_step err c = Some (sent, c') \<Longrightarrow> same_books c c'"
  by (auto simp: same_books_def Dial_def UseStub_def ReplaceStub_def StopSending_def Connect_def disconnect_def
      sender_step_def informDone_def addSendErr_def Let_def split: sum.splits option.splits list.splits if_splits)

subsection \<open>Queueing\<close>

lemma accounted_add:
  assumes "accounted treat os rs c" and "addPendingOp ts op c = (None, c')"
  shows "accounted treat (os @ [op]) rs c'"
proof -
  have a: "gm_get (pq_Ops (pendq (qs c))) (op_Id op) = None" and
    c': "c' = set_pendq ((pendq (qs c))\<lparr>pq_Ops := gm_put (op_Id op) \<lparr>po_Timestamp = ts, po_Op = op\<rparr> (pq_Ops (pendq (qs c)))\<rparr>) c"
    using assms(2) by (auto simp: addPendingOp_def Let_def split: if_splits)
  have n: "op_Id op \<notin> set (pending_ids c)" using a by (simp add: pending_ids_def map_of_eq_None_iff)
  have p: "pending_ids c' = pending_ids c @ [op_Id op]"
    using a by (simp add: c' pending_ids_def set_pendq_def gm_put_absent)
  have f: "from_op (os @ [op]) r" if "from_op os r" for r
    using that by (auto simp: from_op_def split: option.splits)
  have w: "gm_wf (pq_Ops (pendq (qs c)))" using assms(1) by (simp add: accounted_def pend_ok_def pending_ids_def)
  show ?thesis
    using assms(1) n f unfolding accounted_def p answered_ids_def session_ack_def pend_ok_def
    by (auto simp: c' set_pendq_def gm_set_put [OF w] list_all_iff)
qed

lemma accounted_more:
  assumes "accounted treat os rs c" and "sendErr c \<noteq> []"
  shows "accounted treat (os @ os') rs c"
proof -
  have "from_op (os @ os') r" if "from_op os r" for r
    using that by (auto simp: from_op_def split: option.splits)
  with assms show ?thesis
    unfolding accounted_def by (auto simp: list_all_iff intro: subset_mset.order_trans)
qed

lemma accounted_add_ops:
  assumes "accounted treat os rs c" and "add_ops clk n ops c = (err, c')"
  obtains k where "accounted treat (os @ take k ops) rs c'" "err = None \<longrightarrow> length ops \<le> k"
  using assms
proof (induction clk n ops c arbitrary: os thesis rule: add_ops.induct)
  case (1 clk n c)
  then show ?case by (intro "1.prems"(1) [of 0]) auto
next
  case (2 clk n op ops c)
  show ?case
  proof (cases "addPendingOp (clk n) op c")
    case (Pair e c1)
    show ?thesis
    proof (cases e)
      case None
      with Pair "2.prems"(3) have "add_ops clk (Suc n) ops c1 = (err, c')" by simp
      moreover have "accounted treat (os @ [op]) rs c1" using Pair None "2.prems"(2) by (auto intro: accounted_add)
      ultimately obtain k where "accounted treat ((os @ [op]) @ take k ops) rs c'" "err = None \<longrightarrow> length ops \<le> k"
        using "2.IH" [OF Pair [symmetric] None] by blast
      then show ?thesis by (intro "2.prems"(1) [of "Suc k"]) simp_all
    next
      case (Some e')
      with Pair "2.prems" have "err = Some e'" "c' = c1" by auto
      moreover have "c1 = c" using Pair Some by (auto simp: addPendingOp_def Let_def split: if_splits)
      ultimately show ?thesis using "2.prems"(2) by (intro "2.prems"(1) [of 0]) simp_all
    qed
  qed
qed

lemma updates_same: "same_books c (updatePendingElection ts i c)" "same_books c (pendingSessionParams ts p c)"
  by (simp_all add: same_books_def updatePendingElection_def pendingSessionParams_def set_pendq_def)

lemma accounted_addSendErr: "accounted treat os rs c \<Longrightarrow> accounted treat (os @ os') rs (addSendErr e c)"
  by (rule accounted_more, rule accounted_same) (simp_all add: same_books_def addSendErr_def)

lemma accounted_request:
  assumes "accounted treat os rs c"
  shows "accounted treat (os @ mreq_Operation m) rs
    (case handleModifyRequest clk m c of (Some e, c') \<Rightarrow> addSendErr e c' | (None, c') \<Rightarrow> c')"
proof -
  obtain err c1 where a: "add_ops clk 0 (mreq_Operation m) c = (err, c1)" by (rule prod.exhaust)
  obtain k where k: "accounted treat (os @ take k (mreq_Operation m)) rs c1" "err = None \<longrightarrow> length (mreq_Operation m) \<le> k"
    by (rule accounted_add_ops [OF assms a])
  show ?thesis
  proof (cases err)
    case None
    obtain c' where h: "handleModifyRequest clk m c = (None, c')" and s: "same_books c1 c'"
      using a None unfolding handleModifyRequest_def Let_def
      by (cases "mreq_ElectionId m"; cases "mreq_Params m") (auto intro: same_books_trans updates_same)
    show ?thesis using k None accounted_same [OF s] by (simp add: h)
  next
    case (Some e)
    then have "handleModifyRequest clk m c = (Some e, c1)" using a by (simp add: handleModifyRequest_def)
    then show ?thesis
      using accounted_addSendErr [OF k(1), of "drop k (mreq_Operation m)" e] by simp
  qed
qed

lemma Q_accounted:
  assumes "accounted treat os rs c" and "Q clk m c = Some c'"
  shows "accounted treat (os @ mreq_Operation m) rs c'"
proof -
  let ?c = "case handleModifyRequest clk m c of (Some e, c') \<Rightarrow> addSendErr e c' | (None, c') \<Rightarrow> c'"
  have "same_books ?c c'"
  proof (cases "sending (qs ?c)")
    case True
    with assms(2) show ?thesis unfolding Q_def Let_def by (intro q_same) simp
  next
    case False
    with assms(2) have "c' = ?c\<lparr>qs := (qs ?c)\<lparr>sendq := sendq (qs ?c) @ [m]\<rparr>\<rparr>" unfolding Q_def Let_def by simp
    then show ?thesis by (simp add: same_books_def)
  qed
  from accounted_same [OF this accounted_request [OF assms(1)]] show ?thesis .
qed

lemma StartSending_accounted:
  assumes "accounted treat os rs c" and "StartSending clkp clke c = Some c'"
  shows "accounted treat os rs c'"
proof -
  define c1 where "c1 = c\<lparr>qs := (qs c)\<lparr>sending := True\<rparr>\<rparr>"
  have "accounted treat os rs c1" by (rule accounted_same [OF _ assms(1)]) (simp add: c1_def same_books_def)
  moreover obtain c2 where c2: "(case SessParams (cl_state c1) of None \<Rightarrow> Some c1 | Some p \<Rightarrow> Q clkp (params_request p) c1) = Some c2"
    using assms(2) unfolding StartSending_def Let_def c1_def [symmetric] by (auto split: option.splits)
  ultimately have a2: "accounted treat os rs c2"
    using Q_accounted [of treat os rs c1 clkp "params_request _" c2] by (auto simp: params_request_def split: option.splits)
  obtain c3 where c3: "(case ElectionID (cl_state c2) of None \<Rightarrow> Some c2 | Some i \<Rightarrow> Q clke (election_request i) c2) = Some c3"
    using assms(2) c2 unfolding StartSending_def Let_def c1_def [symmetric] by (auto split: option.splits)
  with a2 have a3: "accounted treat os rs c3"
    using Q_accounted [of treat os rs c2 clke "election_request _" c3] by (auto simp: election_request_def split: option.splits)
  obtain c4 where c4: "q_all (sendq (qs c3)) c3 = Some c4" "c' = c4\<lparr>qs := (qs c4)\<lparr>sendq := []\<rparr>\<rparr>"
    using assms(2) c2 c3 unfolding StartSending_def Let_def c1_def [symmetric] by (auto split: option.splits)
  have "same_books c4 c'" by (simp add: c4(2) same_books_def)
  then show ?thesis using a3 q_all_same [OF c4(1)] accounted_same by blast
qed

subsection \<open>Answers\<close>

lemma from_op_pending: "op \<in> set os \<Longrightarrow> cor_OperationID r = op_Id op \<Longrightarrow> cor_Details r = Some (op_details op) \<Longrightarrow> from_op os (Some r)"
  by (auto simp: from_op_def list_ex_iff)

text \<open>A result without details changes no book.\<close>

lemma accounted_note:
  assumes "accounted treat os rs c" and "\<And>r'. r = Some r' \<Longrightarrow> cor_Details r' = None"
  shows "accounted treat os rs (add_result r c)"
proof -
  have "\<not> final treat (session_ack c) r" "from_op os r"
    using assms(2) by (auto simp: final_def from_op_def split: option.splits)
  with assms(1) show ?thesis
    by (auto simp: accounted_def pend_ok_def pending_ids_def answered_ids_def session_ack_def add_result_def)
qed

lemma accounted_clear:
  assumes "accounted treat os rs c" and "clearPendingOp treat ts op c = ((res, err), c')"
  shows "accounted treat os rs (add_result res c')"
proof (cases "treat \<and> session_ack c \<noteq> RIB_AND_FIB_ACK \<or> gm_get (pq_Ops (pendq (qs c))) (res_Id op) = None")
  case True
  then have "c' = c" and "\<And>r'. res = Some r' \<Longrightarrow> cor_Details r' = None"
    using assms(2) by (auto simp: clearPendingOp_def session_ack_def Let_def zero_OpResult_def split: if_splits)
  with assms(1) accounted_note show ?thesis by blast
next
  case False
  let ?m = "pq_Ops (pendq (qs c))"
  from False obtain v where v: "gm_get ?m (res_Id op) = Some v" by auto
  have w: "gm_wf ?m" using assms(1) by (simp add: accounted_def pend_ok_def pending_ids_def)
  have vin: "(res_Id op, v) \<in> set ?m" using v w by (simp add: gm_get_Some_iff)
  then have vo: "op_Id (po_Op v) = res_Id op" "po_Op v \<in> set os"
    using assms(1) by (auto simp: accounted_def pend_ok_def)
  obtain r where r: "res = Some r" "cor_OperationID r = res_Id op" "cor_ProgrammingResult r = res_Status op"
      "cor_Details r = Some (op_details (po_Op v))"
    and c': "c' = (if dequeues treat (session_ack c) (res_Status op)
        then set_pendq ((pendq (qs c))\<lparr>pq_Ops := gm_del (res_Id op) ?m\<rparr>) c else c)"
    using assms(2) v False by (auto simp: clearPendingOp_def session_ack_def Let_def split: if_splits)
  have f: "from_op os res" using vo r by (auto intro: from_op_pending)
  show ?thesis
  proof (cases "dequeues treat (session_ack c) (res_Status op)")
    case True
    have "mset (map fst ?m) = add_mset (res_Id op) (mset (map fst (gm_del (res_Id op) ?m)))"
      using gm_del_mset [OF w] v by simp
    then show ?thesis
      using assms(1) f True r w
      by (auto simp: c' accounted_def pend_ok_def pending_ids_def answered_ids_def session_ack_def add_result_def
          set_pendq_def final_def gm_set_del)
  next
    case False
    then show ?thesis
      using assms(1) f r
      by (auto simp: c' accounted_def pend_ok_def pending_ids_def answered_ids_def session_ack_def add_result_def final_def)
  qed
qed

lemma accounted_clear_results:
  "accounted treat os rs c \<Longrightarrow> accounted treat os rs (snd (clear_results treat clk n ops c))"
proof (induction treat clk n ops c rule: clear_results.induct)
  case (2 treat clk n r rs' c)
  obtain res err c1 where e: "clearPendingOp treat (clk n) r c = ((res, err), c1)" by (metis prod.exhaust)
  with "2.prems" have a: "accounted treat os rs (add_result res c1)" by (rule accounted_clear)
  show ?case
  proof (cases err)
    case None
    with "2.IH" [OF e [symmetric] refl refl None] a e show ?thesis by simp
  qed (use a e in simp)
qed simp

lemma clear_election_accounted:
  "accounted treat os rs c \<Longrightarrow> clearPendingElection ts c = (er, c') \<Longrightarrow>
    accounted treat os rs (add_result (Some (er\<lparr>cor_CurrentServerElectionID := i\<rparr>)) c')"
  by (rule accounted_note, erule accounted_same [rotated])
    (auto simp: clearPendingElection_def same_books_def set_pendq_def zero_OpResult_def split: option.splits)

lemma clear_params_accounted:
  "accounted treat os rs c \<Longrightarrow> clearPendingSessionParams ts c = (sr, c') \<Longrightarrow>
    accounted treat os rs (add_result (Some (sr\<lparr>cor_SessionParameters := p\<rparr>)) c')"
  by (rule accounted_note, erule accounted_same [rotated])
    (auto simp: clearPendingSessionParams_def same_books_def set_pendq_def zero_OpResult_def split: option.splits)

text \<open>The part of a response that answers an election or the session parameters.\<close>

definition session_part :: "(nat \<Rightarrow> u64) \<Rightarrow> ModifyResponse \<Rightarrow> Client \<Rightarrow> Client" where
  "session_part clk m c =
     (let c1 = (case resp_ElectionId m of None \<Rightarrow> c
          | Some i \<Rightarrow> (case clearPendingElection (clk 0) c of
              (er, c') \<Rightarrow> add_result (Some (er\<lparr>cor_CurrentServerElectionID := Some i\<rparr>)) c'))
      in case resp_SessionParamsResult m of None \<Rightarrow> c1
          | Some s \<Rightarrow> (case clearPendingSessionParams (clk 1) c1 of
              (sr, c') \<Rightarrow> add_result (Some (sr\<lparr>cor_SessionParameters := Some s\<rparr>)) c'))"

lemma session_part_accounted: "accounted treat os rs c \<Longrightarrow> accounted treat os rs (session_part clk m c)"
  unfolding session_part_def Let_def
  by (auto split: option.splits prod.splits dest: clear_params_accounted [rotated] clear_election_accounted [rotated])

lemma handleModifyResponse_Some:
  "handleModifyResponse treat clk (Some m) c =
     (if 1 < length (filter (\<lambda>v. v) [resp_Result m \<noteq> [], resp_ElectionId m \<noteq> None, resp_SessionParamsResult m \<noteq> None])
      then (Some FieldsMutuallyExclusive, c)
      else clear_results treat clk 2 (resp_Result m) (session_part clk m c))"
  unfolding handleModifyResponse_def session_part_def Let_def option.case ..

lemma accounted_response:
  "accounted treat os rs c \<Longrightarrow> accounted treat os rs (snd (handleModifyResponse treat clk mo c))"
proof (cases mo)
  case None
  then show "accounted treat os rs c \<Longrightarrow> ?thesis" by (simp add: handleModifyResponse_def)
next
  case (Some m)
  then show "accounted treat os rs c \<Longrightarrow> ?thesis"
    unfolding Some handleModifyResponse_Some by (simp add: accounted_clear_results session_part_accounted)
qed

lemma accounted_receiver:
  assumes "accounted treat os rs c"
  shows "accounted treat os rs (receiver_step treat clk ev c)"
proof -
  have x: "accounted treat os rs (informDone (c'\<lparr>receiver := b\<rparr>))" "accounted treat os rs (c'\<lparr>shut := b\<rparr>)"
    "accounted treat os rs (addReadErr e c')" if "accounted treat os rs c'" for b c' e
    by (rule accounted_same [OF _ that], simp add: same_books_def informDone_def addReadErr_def)+
  have "accounted treat os rs (snd (respHandler treat clk ev c))"
  proof (cases ev)
    case (RecvMsg m)
    obtain err c' where h: "handleModifyResponse treat clk m c = (err, c')" by (rule prod.exhaust)
    then have "accounted treat os rs c'" using accounted_response [OF assms, of clk m] by simp
    with h RecvMsg show ?thesis by (cases err) (simp_all add: respHandler_def x)
  qed (simp_all add: respHandler_def assms x)
  then show ?thesis
    using assms unfolding receiver_step_def Let_def by (auto split: prod.splits bool.splits intro: x)
qed

lemma AckResult_eq:
  "qs (snd (AckResult res c)) = (if list_ex (\<lambda>r. r = None) res \<or> list_ex (\<lambda>r. r = None) (resultq (qs c)) then qs c
     else (qs c)\<lparr>resultq := filter (\<lambda>r. \<not> cor_OperationID (the r) \<in> set (map (\<lambda>r. cor_OperationID (the r)) res)) (resultq (qs c))\<rparr>)"
  "cl_state (snd (AckResult res c)) = cl_state c" "sendErr (snd (AckResult res c)) = sendErr c"
  by (simp_all add: AckResult_def Let_def)

lemma final_ids_partition:
  "mset (final_ids treat ack (filter P rs)) + mset (final_ids treat ack (filter (\<lambda>r. \<not> P r) rs)) = mset (final_ids treat ack rs)"
  by (induction rs) auto

lemma accounted_ack:
  assumes "accounted treat os rs c"
  shows "accounted treat os (rs @ acked res c) (snd (AckResult res c))"
proof (cases "list_ex (\<lambda>r. r = None) res \<or> list_ex (\<lambda>r. r = None) (resultq (qs c))")
  case True
  then have "acked res c = []" "snd (AckResult res c) = c" by (simp_all only: acked_def AckResult_def if_True snd_conv)
  with assms show ?thesis by simp
next
  case False
  let ?P = "\<lambda>r. cor_OperationID (the r) \<in> set (map (\<lambda>r. cor_OperationID (the r)) res)"
  have a: "acked res c = filter ?P (resultq (qs c))" unfolding acked_def if_not_P [OF False] ..
  have k: "qs (snd (AckResult res c)) = (qs c)\<lparr>resultq := filter (\<lambda>r. \<not> ?P r) (resultq (qs c))\<rparr>"
    unfolding AckResult_eq if_not_P [OF False] ..
  show ?thesis
    using assms final_ids_partition [of treat "session_ack c" ?P "resultq (qs c)"]
    unfolding accounted_def pend_ok_def pending_ids_def answered_ids_def session_ack_def a k AckResult_eq(2,3)
    by (auto simp: list_all_iff add.assoc [symmetric] simp flip: add.assoc)
qed

lemma accounted_empty: "pq_Ops (pendq (qs c)) = [] \<Longrightarrow> resultq (qs c) = [] \<Longrightarrow> accounted treat [] [] c"
  by (simp add: accounted_def pend_ok_def pending_ids_def answered_ids_def)

theorem client_run_accounted: "client_run treat os rs c \<Longrightarrow> accounted treat os rs c"
proof (induction rule: client_run.induct)
  case (new opts c)
  then show ?case
    by (intro accounted_empty) (auto simp: NewClient_def empty_pendingQueue_def split: sum.splits)
next
  case (queue os rs c clk m c')
  then show ?case by (blast intro: Q_accounted)
next
  case (start os rs c clkp clke c')
  then show ?case by (blast intro: StartSending_accounted)
next
  case (send os rs c err sent c')
  then show ?case by (blast intro: accounted_same small_steps_same)
next
  case (close os rs c c')
  then show ?case unfolding Close_def by (blast intro: accounted_same small_steps_same)
next
  case (reset_begin os rs c c')
  then show ?case unfolding Reset_begin_def by (blast intro: accounted_same small_steps_same same_books_trans)
next
  case (reset_end os rs c)
  then show ?case by (intro accounted_empty) (simp_all add: Reset_end_def empty_pendingQueue_def)
qed (blast intro: accounted_same small_steps_same accounted_receiver accounted_ack)+

end
