(* ===== verification/ClientServer.thy ===== *)
theory ClientServer
  imports ClientRun ServerRpc
begin

text \<open>
  The client and the server together: the answers of the server to an operation keep the
  client's pending operations equal to those the server's RIB still holds back.
\<close>

subsection \<open>What the server answers\<close>

definition one_result :: "AFTOperation \<Rightarrow> OpResult list \<Rightarrow> OpResult list \<Rightarrow> bool" where
  "one_result op oks fails \<longleftrightarrow> (\<exists>x. or_ID x = op_Id op \<and> (oks = [x] \<and> fails = [] \<or> oks = [] \<and> fails = [x]))"

lemma finishDelete_one: "finishDelete E ni op ref a k r = ((oks, fails, None), r') \<Longrightarrow> one_result op oks fails"
  by (auto simp: finishDelete_def okResult_def one_result_def split: sum.splits prod.splits option.splits)

lemma deleteOutcome_one: "deleteOutcome op res = (oks, fails, None) \<Longrightarrow> one_result op oks fails"
  by (auto simp: deleteOutcome_def okResult_def failResult_def one_result_def split: sum.splits prod.splits bool.splits)

lemma delete_case_one:
  assumes "(case x of (Inr (True, Some e), rh) \<Rightarrow> f e rh | (res, rh) \<Rightarrow> (deleteOutcome op res, g rh)) = ((oks, fails, None), r')"
    and "\<And>e rh. f e rh = ((oks, fails, None), r') \<Longrightarrow> one_result op oks fails"
  shows "one_result op oks fails"
  using assms by (auto split: prod.splits sum.splits bool.splits option.splits dest: deleteOutcome_one)

lemma DeleteEntry_one:
  assumes "DeleteEntry E ni (Some op) r = ((oks, fails, None), r')"
  shows "one_result op oks fails"
proof -
  obtain rh e where "NetworkInstanceRIB r ni = Some rh" "IsValid rh" "op_Entry op = Some e"
    using assms by (auto simp: DeleteEntry_def Let_def split: option.splits if_splits)
  note d = assms [unfolded DeleteEntry_def, simplified this option.case Let_def not_True_eq_False if_False]
  show ?thesis
  proof (cases e)
    case (AFTOp_NextHop t)
    with d show ?thesis by (auto split: prod.splits dest: deleteOutcome_one)
  next
    case OtherEntry
    with d show ?thesis by simp
  next
    case (AFTOp_NextHopGroup t)
    from d show ?thesis unfolding AFTOp_NextHopGroup AFTOperation_Entry.case
      by (rule delete_case_one) (auto simp: one_result_def okResult_def)
  next
    case (AFTOp_Ipv4 t)
    from d show ?thesis unfolding AFTOp_Ipv4 AFTOperation_Entry.case
      by (rule delete_case_one) (rule finishDelete_one)
  next
    case (AFTOp_Ipv6 t)
    from d show ?thesis unfolding AFTOp_Ipv6 AFTOperation_Entry.case
      by (rule delete_case_one) (rule finishDelete_one)
  next
    case (AFTOp_Mpls t)
    from d show ?thesis unfolding AFTOp_Mpls AFTOperation_Entry.case
      by (rule delete_case_one) (rule finishDelete_one)
  qed
qed

lemma pending_loop_oks:
  assumes "\<And>ni op st x st'. f ni op st = Some (x, st') \<Longrightarrow> length (as_oks st) \<le> length (as_oks st')"
  shows "pending_loop f es st = Some (x, st') \<Longrightarrow> length (as_oks st) \<le> length (as_oks st')"
proof (induction es arbitrary: st)
  case (Cons e es)
  obtain err st1 where f: "f (pe_ni e) (pe_op e) st = Some (err, st1)"
    using Cons.prems by (auto split: option.splits)
  then have le: "length (as_oks st) \<le> length (as_oks st1)" by (rule assms)
  show ?case
  proof (cases err)
    case None
    with f Cons.prems Cons.IH [of st1] le show ?thesis by simp
  qed (use f Cons.prems le in auto)
qed simp

lemma addEntryInternal_oks:
  "addEntryInternal E sched n ni op st = Some (x, st') \<Longrightarrow> length (as_oks st) \<le> length (as_oks st')"
proof (induction n arbitrary: ni op st x st')
  case (Suc n)
  have l: "pending_loop (addEntryInternal E sched n) es st1 = Some (x, st') \<Longrightarrow> length (as_oks st1) \<le> length (as_oks st')" for es st1
    by (rule pending_loop_oks [OF Suc.IH])
  from Suc.prems show ?case
    by (auto simp: Let_def split: if_splits option.splits prod.splits install_result.splits dest!: l)
qed simp

text \<open>An addition that acknowledges nothing failed at once, or waits.\<close>

lemma pend_ids_addPending: "pend_ids (addPending i p r) = insert i (pend_ids r)"
  by (auto simp: pend_ids_def addPending_def AList.dom_update)

lemma addEntryInternal_no_oks:
  assumes "addEntryInternal E sched (Suc n) ni op st0 = Some (None, st)" and "as_oks st = []" and "as_stack st0 = []"
  shows "(\<exists>e. as_fails st = as_fails st0 @ [failResult op e]) \<and> pend_ids (as_rib st) = pend_ids (as_rib st0) \<or>
    as_fails st = as_fails st0 \<and> pend_ids (as_rib st) = insert (op_Id op) (pend_ids (as_rib st0))"
proof -
  obtain rh where rh: "NetworkInstanceRIB (as_rib st0) ni = Some rh" "IsValid rh"
    using assms(1,3) by (auto split: option.splits if_splits)
  obtain o' r1 where i: "installEntry E ni op rh (as_rib st0) = (o', r1)" by (rule prod.exhaust)
  have p: "pend_ids r1 = pend_ids (as_rib st0)"
    using installEntry_frame [of "as_rib st0" ni rh E op rh] i rh by (simp add: NetworkInstanceRIB_def pend_ids_def)
  have l: "pending_loop (addEntryInternal E sched n) es st1 = Some (None, st) \<Longrightarrow> length (as_oks st1) \<le> length (as_oks st)" for es st1
    by (rule pending_loop_oks [OF addEntryInternal_oks])
  show ?thesis
  proof (cases o')
    case (Installed call)
    then show ?thesis
      using assms rh i by (auto simp: Let_def split: option.splits prod.splits dest!: l)
  next
    case Unresolved
    then have "st = (if \<not> disableForwardReferences r1 then st0\<lparr>as_rib := addPending (op_Id op) \<lparr>pe_ni = ni, pe_op = op\<rparr> r1\<rparr>
        else st0\<lparr>as_rib := r1, as_fails := as_fails st0 @ [failResult op (UnresolvedDependencies (op_Id op))]\<rparr>)"
      using assms(1,3) rh i by simp
    then show ?thesis by (auto simp: pend_ids_addPending p)
  next
    case (OpFailed e)
    then have "st = st0\<lparr>as_rib := r1, as_fails := as_fails st0 @ [failResult op e]\<rparr>"
      using assms(1,3) rh i by simp
    then show ?thesis by (auto simp: p)
  next
    case (Fatal e)
    then show ?thesis using assms(1,3) rh i by simp
  qed
qed

lemma AddEntry_no_oks:
  assumes "AddEntry E sched ni op r = Some (Inr ([], fails), r')"
  shows "(\<exists>e. fails = [failResult op e]) \<and> pend_ids r' = pend_ids r \<or>
    fails = [] \<and> pend_ids r' = insert (op_Id op) (pend_ids r)"
proof -
  let ?st = "\<lparr>as_rib = r, as_oks = [], as_fails = [], as_stack = []\<rparr>"
  let ?n = "Suc (length (pendingEntries r))"
  obtain st where st: "addEntryInternal E sched (Suc ?n) ni op ?st = Some (None, st)"
    "as_oks st = []" "fails = as_fails st" "r' = as_rib st"
    using assms by (auto simp: AddEntry_def simp del: addEntryInternal.simps split: if_splits option.splits)
  show ?thesis using addEntryInternal_no_oks [OF st(1,2)] by (simp add: st(3,4))
qed

text \<open>A response that acknowledges operations and reports a failure as well.\<close>

definition mixed :: "ModifyResponse \<Rightarrow> bool" where
  "mixed m = (list_ex (\<lambda>r. res_Status r = RIB_PROGRAMMED) (resp_Result m) \<and>
     list_ex (\<lambda>r. res_Status r = Res_FAILED) (resp_Result m))"

text \<open>
  The answer to an operation, with the identifiers that are pending in the RIB before and
  after it.
\<close>

definition answer_of :: "bool \<Rightarrow> AFTOperation \<Rightarrow> ModifyResponse \<Rightarrow> u64 set \<Rightarrow> u64 set \<Rightarrow> bool" where
  "answer_of fib op m p p' \<longleftrightarrow>
     (\<exists>oks. m = result_response (ok_results fib oks) \<and> distinct (map or_ID oks) \<and>
        set (map or_ID oks) \<subseteq> insert (op_Id op) p \<and> p' = insert (op_Id op) p - set (map or_ID oks)) \<or>
     (\<exists>msg. m = failed_response (op_Id op) msg \<and> p' = p)"

lemma mixed_result:
  "mixed (result_response (ok_results fib oks @ fail_results fails)) \<longleftrightarrow> oks \<noteq> [] \<and> fails \<noteq> []"
proof -
  have ex: "list_ex (\<lambda>r. res_Status r = st) rs \<longleftrightarrow> map res_Id (filter (\<lambda>r. res_Status r = st) rs) \<noteq> []" for st rs
    by (induction rs) auto
  show ?thesis
    unfolding mixed_def result_response_def ModifyResponse.select_convs ex ok_results_ids by simp
qed

lemma answer_failed: "or_ID x = op_Id op \<Longrightarrow> answer_of fib op (result_response (ok_results fib [] @ fail_results [x])) p p"
  by (auto simp: answer_of_def failed_response_def fail_results_def ok_results_def)

lemma answer_one:
  assumes "one_result op oks fails" and new: "op_Id op \<notin> p"
  shows "answer_of fib op (result_response (ok_results fib oks @ fail_results fails)) p p"
proof -
  from assms(1) obtain x where x: "or_ID x = op_Id op" "oks = [x] \<and> fails = [] \<or> oks = [] \<and> fails = [x]"
    unfolding one_result_def by blast
  from x(2) show ?thesis
  proof
    assume o: "oks = [x] \<and> fails = []"
    show ?thesis unfolding answer_of_def by (intro disjI1 exI [of _ "[x]"]) (use o x(1) new in \<open>auto simp: fail_results_def\<close>)
  qed (use answer_failed [OF x(1)] in simp)
qed

lemma answer_add:
  assumes env: "env_laws E" and r: "reachable E r" and fair: "fair sched" and room: "room r" and owf: "op_wf op"
    and new: "op_Id op \<notin> pend_ids r" and add: "AddEntry E sched ni op r = Some (Inr (oks, fails), r')"
    and mix: "\<not> mixed (result_response (ok_results fib oks @ fail_results fails))"
  shows "answer_of fib op (result_response (ok_results fib oks @ fail_results fails)) (pend_ids r) (pend_ids r')"
proof (cases "oks = []")
  case True
  with AddEntry_no_oks [of E sched ni op r fails r'] add
  consider (fail) e where "fails = [failResult op e]" "pend_ids r' = pend_ids r" | (wait) "fails = []" "pend_ids r' = insert (op_Id op) (pend_ids r)"
    by auto
  then show ?thesis
  proof cases
    case fail
    with True answer_failed [of "failResult op e" op fib "pend_ids r"] show ?thesis by (simp add: failResult_def)
  next
    case wait
    with True show ?thesis unfolding answer_of_def by (intro disjI1 exI [of _ "[]"]) (simp add: fail_results_def)
  qed
next
  case False
  then have f: "fails = []" using mix by (simp add: mixed_result)
  have "acceptable r ni op"
    using AddEntry_refused [OF reachable_inv(3) [OF env r], of ni op E sched] add owf
    by (auto simp: acceptable_def split: if_splits)
  then have "distinct (map or_ID oks)" "set (map or_ID oks) \<subseteq> insert (op_Id op) (pend_ids r)"
      "pend_ids r' = insert (op_Id op) (pend_ids r) - set (map or_ID oks)"
    by (rule AddEntry_result [OF env fair reachable_inv(1,2) [OF env r] room], use add f in auto)+
  then show ?thesis unfolding answer_of_def by (intro disjI1 exI [of _ oks] conjI) (simp_all add: f fail_results_def)
qed

lemma server_answer:
  assumes env: "env_laws E" and r: "reachable E (masterRIB s)" and fair: "fair sched" and room: "room (masterRIB s)"
    and owf: "op_wf op" and ni: "op_NetworkInstance op \<noteq> []" and new: "op_Id op \<notin> pend_ids (masterRIB s)"
    and run: "modify_op E sched fib elec op s = Some ([Response m], s')" and mix: "\<not> mixed m"
  shows "answer_of fib op m (pend_ids (masterRIB s)) (pend_ids (masterRIB s'))"
proof -
  let ?r = "masterRIB s" and ?n = "op_NetworkInstance op"
  have failed: "answer_of fib op (failed_response (op_Id op) msg) p p" for msg p by (auto simp: answer_of_def)
  show ?thesis
  proof (cases "NetworkInstanceRIB ?r ?n")
    case None
    with run ni show ?thesis by (auto simp: modify_op_def Let_def failed)
  next
    case (Some rh)
    then obtain ro where me: "modifyEntry E sched (Some ?r) ?n (Some op) fib (Some elec) = Some (Inr m, ro)"
        "s' = (case ro of None \<Rightarrow> s | Some r \<Rightarrow> s\<lparr>masterRIB := r\<rparr>)"
      using run ni by (auto simp: modify_op_def Let_def split: option.splits sum.splits prod.splits)
    obtain res ok err where c: "checkElectionForModify (op_Id op) (op_ElectionId op) (Some elec) = (res, ok, err)"
      by (metis prod.exhaust)
    have e: "err = None" using me(1) c by (auto simp: modifyEntry_def split: option.splits)
    show ?thesis
    proof (cases ok)
      case False
      then obtain m' where m': "res = Some m'"
        using c e by (auto simp: checkElectionForModify_def split: option.splits if_splits)
      with checkElection_failed c have "m' = failed_response (op_Id op) None" by blast
      with me c e False m' show ?thesis by (auto simp: modifyEntry_def failed)
    next
      case True
      note me' = me(1) [unfolded modifyEntry_def, simplified c e True Some option.case prod.case]
      have v: "IsValid rh" using me' by (auto split: if_splits)
      note me'' = me' [simplified v]
      consider (add) "op_Op op = Op_ADD \<or> op_Op op = Op_REPLACE" | (del) "op_Op op = Op_DELETE" | (inv) "op_Op op = Op_INVALID"
        by (cases "op_Op op") auto
      then show ?thesis
      proof cases
        case add
        with me'' obtain oks fails r' where a: "AddEntry E sched ?n op ?r = Some (Inr (oks, fails), r')" "ro = Some r'"
            "m = result_response (ok_results fib oks @ fail_results fails)"
          by (auto simp: modify_result_def split: option.splits sum.splits prod.splits if_splits)
        then show ?thesis
          using answer_add [OF env r fair room owf new a(1), of fib] mix me(2) by simp
      next
        case del
        obtain oks fails err r' where d: "DeleteEntry E ?n (Some op) ?r = ((oks, fails, err), r')" by (metis prod.exhaust)
        have "err = None" "ro = Some r'" "m = result_response (ok_results fib oks @ fail_results fails)"
          using me'' del d by (auto simp: modify_result_def split: option.splits if_splits)
        moreover have "pend_ids r' = pend_ids ?r"
          using DeleteEntry_shrinks [of E ?n "Some op" ?r] d by (simp add: shrinks_def pend_ids_def)
        moreover have "one_result op oks fails" using DeleteEntry_one d \<open>err = None\<close> by simp
        ultimately show ?thesis using answer_one [OF _ new, of oks fails fib] me(2) by simp
      next
        case inv
        with me'' me(2) show ?thesis by (auto simp: failed)
      qed
    qed
  qed
qed

subsection \<open>What the client makes of it\<close>

lemma clear_pending_one:
  assumes "res_Id r \<in> set (pending_ids c)" and "pend_ok c"
  obtains res c1 where "clearPendingOp False ts r c = ((res, None), c1)" "pend_ok (add_result res c1)"
    "pending_ids (add_result res c1) =
      (if dequeues False (session_ack c) (res_Status r) then filter (\<lambda>i. i \<noteq> res_Id r) (pending_ids c) else pending_ids c)"
    "cl_state (add_result res c1) = cl_state c"
proof -
  obtain v where v: "gm_get (pq_Ops (pendq (qs c))) (res_Id r) = Some v"
    using assms(1) by (auto simp: pending_ids_def dest: weak_map_of_SomeI)
  show thesis
  proof (cases "clearPendingOp False ts r c")
    case (Pair x c1)
    with v obtain res where x: "x = (res, None)" by (auto simp: clearPendingOp_def Let_def)
    show thesis
    proof (rule that [of res c1])
      show "clearPendingOp False ts r c = ((res, None), c1)" using Pair x by simp
      show "pend_ok (add_result res c1)" "cl_state (add_result res c1) = cl_state c"
        "pending_ids (add_result res c1) =
          (if dequeues False (session_ack c) (res_Status r) then filter (\<lambda>i. i \<noteq> res_Id r) (pending_ids c) else pending_ids c)"
        using Pair x v assms(2)
        by (auto simp: clearPendingOp_def Let_def add_result_def set_pendq_def pend_ok_def pending_ids_def session_ack_def
            gm_del_keys gm_set_del split: if_splits)
    qed
  qed
qed

lemma clear_results_Cons:
  assumes "clearPendingOp treat (clk n) r c = ((res, None), c1)"
  shows "clear_results treat clk n (r # rs) c = clear_results treat clk (Suc n) rs (add_result res c1)"
  using assms by simp

lemma clear_acknowledged:
  assumes "distinct (map or_ID oks)" and "set (map or_ID oks) \<subseteq> set (pending_ids c)" and "pend_ok c"
    and "fib \<longleftrightarrow> session_ack c = RIB_AND_FIB_ACK"
  shows "\<exists>c'. clear_results False clk n (ok_results fib oks) c = (None, c') \<and> pend_ok c' \<and>
    set (pending_ids c') = set (pending_ids c) - set (map or_ID oks)"
  using assms
proof (induction oks arbitrary: n c)
  case Nil
  then show ?case by (simp add: ok_results_def)
next
  case (Cons x oks)
  let ?rib = "\<lparr>res_Id = or_ID x, res_Status = RIB_PROGRAMMED, res_ErrorDetails = None\<rparr>"
  let ?fib = "\<lparr>res_Id = or_ID x, res_Status = FIB_PROGRAMMED, res_ErrorDetails = None\<rparr>"
  have "res_Id ?rib \<in> set (pending_ids c)" using Cons.prems by simp
  then obtain res c1 where
    c1: "clearPendingOp False (clk n) ?rib c = ((res, None), c1)" "pend_ok (add_result res c1)"
      "cl_state (add_result res c1) = cl_state c"
      "pending_ids (add_result res c1) = (if dequeues False (session_ack c) (res_Status ?rib)
         then filter (\<lambda>i. i \<noteq> res_Id ?rib) (pending_ids c) else pending_ids c)"
    using clear_pending_one [OF _ Cons.prems(3)] by metis
  have deq: "dequeues False (session_ack c) RIB_PROGRAMMED \<longleftrightarrow> \<not> fib" "dequeues False (session_ack c) FIB_PROGRAMMED"
    using Cons.prems(4) by (simp_all add: dequeues_def)
  have rest: "\<exists>c'. clear_results False clk m (ok_results fib oks) c2 = (None, c') \<and> pend_ok c' \<and>
      set (pending_ids c') = set (pending_ids c) - set (map or_ID (x # oks))"
    if "pend_ok c2" "cl_state c2 = cl_state c" "pending_ids c2 = filter (\<lambda>i. i \<noteq> or_ID x) (pending_ids c)" for m c2
  proof -
    note ok2 = that(1)
    have a: "session_ack c2 = session_ack c" using that(2) by (simp add: session_ack_def)
    have b: "set (map or_ID oks) \<subseteq> set (pending_ids c2)" using Cons.prems(1,2) that(3) by (auto simp: image_iff)
    obtain c' where c': "clear_results False clk m (ok_results fib oks) c2 = (None, c')" "pend_ok c'"
      "set (pending_ids c') = set (pending_ids c2) - set (map or_ID oks)"
      using Cons.IH [OF _ b ok2, of m] Cons.prems(1,4) a by auto
    from c'(3) have "set (pending_ids c') = set (pending_ids c) - set (map or_ID (x # oks))"
      using that(3) by auto
    with c' show ?thesis by blast
  qed
  show ?case
  proof (cases fib)
    case False
    then have "ok_results fib (x # oks) = ?rib # ok_results fib oks" by (simp add: ok_results_def)
    with c1 False deq rest [of "add_result res c1" "Suc n"] show ?thesis by simp
  next
    case True
    then have o: "ok_results fib (x # oks) = ?rib # ?fib # ok_results fib oks" by (simp add: ok_results_def)
    let ?c = "add_result res c1"
    have ids: "pending_ids ?c = pending_ids c" "session_ack ?c = session_ack c"
      using c1(3,4) deq True by (simp_all add: session_ack_def)
    then have "res_Id ?fib \<in> set (pending_ids ?c)" using Cons.prems by simp
    then obtain res2 c2 where "clearPendingOp False (clk (Suc n)) ?fib ?c = ((res2, None), c2)" "pend_ok (add_result res2 c2)"
        "cl_state (add_result res2 c2) = cl_state ?c" "pending_ids (add_result res2 c2) = (if dequeues False (session_ack ?c) (res_Status ?fib)
         then filter (\<lambda>i. i \<noteq> res_Id ?fib) (pending_ids ?c) else pending_ids ?c)"
      using clear_pending_one [OF _ c1(2)] by metis
    then have c2: "clearPendingOp False (clk (Suc n)) ?fib ?c = ((res2, None), c2)" "pend_ok (add_result res2 c2)"
        "cl_state (add_result res2 c2) = cl_state c" "pending_ids (add_result res2 c2) = filter (\<lambda>i. i \<noteq> or_ID x) (pending_ids c)"
      using ids deq c1(3) by simp_all
    show ?thesis
      unfolding o clear_results_Cons [of False clk n, OF c1(1)] clear_results_Cons [of False clk "Suc n", OF c2(1)] by (rule rest [OF c2(2,3,4)])
  qed
qed

lemma Q_fresh:
  assumes "Q clk m c = Some c1" and "mreq_Operation m = [op]" and "op_Id op \<notin> set (pending_ids c)" and "pend_ok c"
  shows "pending_ids c1 = pending_ids c @ [op_Id op]" "pend_ok c1" "session_ack c1 = session_ack c"
proof -
  let ?p = "pendq (qs c)"
  let ?c = "set_pendq (?p\<lparr>pq_Ops := pq_Ops ?p @ [(op_Id op, \<lparr>po_Timestamp = clk 0, po_Op = op\<rparr>)]\<rparr>) c"
  have n: "gm_get (pq_Ops ?p) (op_Id op) = None" using assms(3) by (simp add: pending_ids_def map_of_eq_None_iff)
  have a: "addPendingOp (clk 0) op c = (None, ?c)" by (simp add: addPendingOp_def Let_def n gm_put_absent)
  obtain c2 where "handleModifyRequest clk m c = (None, c2)" and s: "same_books ?c c2"
    using a assms(2) unfolding handleModifyRequest_def Let_def
    by (cases "mreq_ElectionId m"; cases "mreq_Params m") (auto intro: same_books_trans updates_same)
  then have "same_books c2 c1"
    using assms(1) by (auto simp: Q_def Let_def same_books_def split: if_splits dest: q_same [unfolded same_books_def])
  with s have b: "same_books ?c c1" by (rule same_books_trans)
  then show "pending_ids c1 = pending_ids c @ [op_Id op]" "session_ack c1 = session_ack c"
    by (simp_all add: same_books_def pending_ids_def session_ack_def set_pendq_def)
  then show "pend_ok c1"
    using assms(3,4) b by (auto simp: pend_ok_def same_books_def set_pendq_def)
qed

lemma response_results:
  "handleModifyResponse treat clk (Some (result_response rs)) c = clear_results treat clk 2 rs c"
  by (simp add: handleModifyResponse_Some session_part_def result_response_def)

lemma client_answer:
  assumes "answer_of fib op m p p'" and "pend_ok c" and "set (pending_ids c) = insert (op_Id op) p" and "op_Id op \<notin> p"
    and "fib \<longleftrightarrow> session_ack c = RIB_AND_FIB_ACK"
  shows "\<exists>c'. handleModifyResponse False clk (Some m) c = (None, c') \<and> pend_ok c' \<and> set (pending_ids c') = p'"
  using assms(1) unfolding answer_of_def
proof (elim disjE exE conjE)
  fix oks assume "m = result_response (ok_results fib oks)" "distinct (map or_ID oks)"
    "set (map or_ID oks) \<subseteq> insert (op_Id op) p" "p' = insert (op_Id op) p - set (map or_ID oks)"
  then show ?thesis using clear_acknowledged [of oks c fib clk 2] assms(2,3,5) by (simp add: response_results)
next
  fix msg assume m: "m = failed_response (op_Id op) msg" and p': "p' = p"
  let ?r = "\<lparr>res_Id = op_Id op, res_Status = Res_FAILED, res_ErrorDetails = msg\<rparr>"
  have "res_Id ?r \<in> set (pending_ids c)" using assms(3) by simp
  then obtain res c1 where r: "clearPendingOp False (clk 2) ?r c = ((res, None), c1)" "pend_ok (add_result res c1)"
    "pending_ids (add_result res c1) = (if dequeues False (session_ack c) (res_Status ?r)
       then filter (\<lambda>i. i \<noteq> res_Id ?r) (pending_ids c) else pending_ids c)"
    using clear_pending_one [OF _ assms(2)] by metis
  have "handleModifyResponse False clk (Some m) c = (None, add_result res c1)"
    using r(1) by (simp add: m failed_response_def response_results)
  moreover have "set (pending_ids (add_result res c1)) = p'"
    using r(3) assms(3,4) by (auto simp: p' dequeues_def)
  ultimately show ?thesis using r(2) by blast
qed
end
