(* ===== verification/Session.thy ===== *)
theory Session
  imports ClientServer
begin

text \<open>
  A Modify session with messages in flight: one client and the server it programs, connected
  by two queues.  The client queues requests, the server takes one operation after the other,
  its answers arrive later, in order; calls of other clients may come in between.  Over all
  interleavings the client's pending operations are those on their way to the server, those
  whose answer is on its way back, and those the RIB holds back.
\<close>

subsection \<open>The session\<close>

record session =
  se_client :: Client
  se_out :: "AFTOperation list"
  se_back :: "ModifyResponse list"
  se_srv :: Server

text \<open>A client step that leaves the pending operations alone, and one of the server that does.\<close>

definition keeps_pending :: "Client \<Rightarrow> Client \<Rightarrow> bool" where
  "keeps_pending c c' \<longleftrightarrow> pq_Ops (pendq (qs c')) = pq_Ops (pendq (qs c)) \<and>
     SessParams (cl_state c') = SessParams (cl_state c) \<and> readErr c' = readErr c"

text \<open>
  \<open>fib\<close> tells whether the session asked for FIB acknowledgements.  A queued request carries
  fresh identifiers, and an answer does not both acknowledge and fail operations.
\<close>

inductive session_run :: "rib_env \<Rightarrow> bool \<Rightarrow> session \<Rightarrow> bool" for E fib where
  start: "pending_ids c = [] \<Longrightarrow> readErr c = [] \<Longrightarrow> (fib \<longleftrightarrow> session_ack c = RIB_AND_FIB_ACK) \<Longrightarrow>
    reachable E (masterRIB s) \<Longrightarrow> pend_ids (masterRIB s) = {} \<Longrightarrow>
    session_run E fib \<lparr>se_client = c, se_out = [], se_back = [], se_srv = s\<rparr>"
| own: "session_run E fib S \<Longrightarrow> keeps_pending (se_client S) c' \<Longrightarrow> session_run E fib (S\<lparr>se_client := c'\<rparr>)"
| queue: "session_run E fib S \<Longrightarrow> Q clk req (se_client S) = Some c' \<Longrightarrow> distinct (map op_Id (mreq_Operation req)) \<Longrightarrow>
    op_Id ` set (mreq_Operation req) \<inter> set (pending_ids (se_client S)) = {} \<Longrightarrow>
    \<forall>op\<in>set (mreq_Operation req). op_wf op \<and> op_NetworkInstance op \<noteq> [] \<Longrightarrow>
    session_run E fib (S\<lparr>se_client := c', se_out := se_out S @ mreq_Operation req\<rparr>)"
| serve: "session_run E fib S \<Longrightarrow> se_out S = op # ops \<Longrightarrow> fair sched \<Longrightarrow> room (masterRIB (se_srv S)) \<Longrightarrow>
    modify_op E sched fib elec op (se_srv S) = Some ([Response m], s') \<Longrightarrow> \<not> mixed m \<Longrightarrow>
    session_run E fib (S\<lparr>se_out := ops, se_back := se_back S @ [m], se_srv := s'\<rparr>)"
| other: "session_run E fib S \<Longrightarrow> reachable E (masterRIB s') \<Longrightarrow> pend_ids (masterRIB s') = pend_ids (masterRIB (se_srv S)) \<Longrightarrow>
    session_run E fib (S\<lparr>se_srv := s'\<rparr>)"
| recv: "session_run E fib S \<Longrightarrow> se_back S = m # ms \<Longrightarrow> \<not> shut (se_client S) \<Longrightarrow>
    session_run E fib (S\<lparr>se_client := receiver_step False clk (RecvMsg (Some m)) (se_client S), se_back := ms\<rparr>)"

subsection \<open>The operations an answer settles\<close>

definition settles :: "ModifyResponse \<Rightarrow> u64 list" where
  "settles m = map res_Id (filter (\<lambda>r. res_Status r \<noteq> FIB_PROGRAMMED) (resp_Result m))"

definition answer_form :: "bool \<Rightarrow> ModifyResponse \<Rightarrow> bool" where
  "answer_form fib m \<longleftrightarrow> (\<exists>oks. m = result_response (ok_results fib oks)) \<or> (\<exists>i msg. m = failed_response i msg)"

lemma settles_simps [simp]:
  "settles (result_response (ok_results fib oks)) = map or_ID oks" "settles (failed_response i msg) = [i]"
proof -
  show "settles (result_response (ok_results fib oks)) = map or_ID oks"
    by (induction oks) (simp_all add: settles_def result_response_def ok_results_def)
qed (simp add: settles_def failed_response_def result_response_def)

text \<open>An answer moves identifiers from the operation and the RIB's queue to the answer.\<close>

lemma answer_settles:
  assumes "answer_of fib op m p p'" and "op_Id op \<notin> p"
  shows "answer_form fib m" "distinct (settles m)" "set (settles m) \<inter> p' = {}" "set (settles m) \<union> p' = insert (op_Id op) p"
proof -
  have "answer_form fib m \<and> distinct (settles m) \<and> set (settles m) \<inter> p' = {} \<and> set (settles m) \<union> p' = insert (op_Id op) p"
    using assms(1) unfolding answer_of_def
  proof (elim disjE exE conjE)
    fix oks assume m: "m = result_response (ok_results fib oks)" and "distinct (map or_ID oks)"
      "set (map or_ID oks) \<subseteq> insert (op_Id op) p" "p' = insert (op_Id op) p - set (map or_ID oks)"
    then show ?thesis by (intro conjI) (auto simp only: settles_simps answer_form_def)
  next
    fix msg assume m: "m = failed_response (op_Id op) msg" and "p' = p"
    with assms(2) show ?thesis by (auto simp: answer_form_def)
  qed
  then show "answer_form fib m" "distinct (settles m)" "set (settles m) \<inter> p' = {}" "set (settles m) \<union> p' = insert (op_Id op) p"
    by blast+
qed

subsection \<open>The client's side\<close>

lemma keeps_pendingD:
  assumes "keeps_pending c c'"
  shows "pending_ids c' = pending_ids c" "pend_ok c' = pend_ok c" "session_ack c' = session_ack c" "readErr c' = readErr c"
  using assms by (simp_all add: keeps_pending_def pending_ids_def pend_ok_def session_ack_def)

lemma add_ops_new_ids:
  assumes "distinct (map op_Id ops)" and "op_Id ` set ops \<inter> set (pending_ids c) = {}" and "pend_ok c"
  shows "\<exists>c'. add_ops clk n ops c = (None, c') \<and> pending_ids c' = pending_ids c @ map op_Id ops \<and> pend_ok c' \<and>
    SessParams (cl_state c') = SessParams (cl_state c) \<and> readErr c' = readErr c"
  using assms
proof (induction ops arbitrary: n c)
  case (Cons op ops)
  let ?p = "pendq (qs c)"
  let ?c = "set_pendq (?p\<lparr>pq_Ops := pq_Ops ?p @ [(op_Id op, \<lparr>po_Timestamp = clk n, po_Op = op\<rparr>)]\<rparr>) c"
  have g: "gm_get (pq_Ops ?p) (op_Id op) = None" using Cons.prems(2) by (simp add: pending_ids_def map_of_eq_None_iff)
  have a: "addPendingOp (clk n) op c = (None, ?c)" by (simp add: addPendingOp_def Let_def g gm_put_absent)
  have i: "pending_ids ?c = pending_ids c @ [op_Id op]" by (simp add: pending_ids_def set_pendq_def)
  have k: "pend_ok ?c" using Cons.prems(2,3) unfolding pend_ok_def i by (auto simp: set_pendq_def)
  have "op_Id ` set ops \<inter> set (pending_ids ?c) = {}" using Cons.prems(1,2) i by auto
  with Cons.IH [OF _ _ k, of "Suc n"] Cons.prems(1) obtain c' where
    "add_ops clk (Suc n) ops ?c = (None, c')" "pending_ids c' = pending_ids ?c @ map op_Id ops" "pend_ok c'"
    "SessParams (cl_state c') = SessParams (cl_state ?c)" "readErr c' = readErr ?c" by auto
  with a i show ?case by (simp add: set_pendq_def)
qed simp

lemma q_readErr: "q m c = Some c' \<Longrightarrow> readErr c' = readErr c"
  by (auto simp: q_def split: if_splits)

lemma queue_pending:
  assumes "Q clk m c = Some c'" and "distinct (map op_Id (mreq_Operation m))"
    and "op_Id ` set (mreq_Operation m) \<inter> set (pending_ids c) = {}" and "pend_ok c"
  shows "pending_ids c' = pending_ids c @ map op_Id (mreq_Operation m)" "pend_ok c'" "session_ack c' = session_ack c"
    "readErr c' = readErr c"
proof -
  obtain c1 where c1: "add_ops clk 0 (mreq_Operation m) c = (None, c1)" "pending_ids c1 = pending_ids c @ map op_Id (mreq_Operation m)"
      "pend_ok c1" "SessParams (cl_state c1) = SessParams (cl_state c)" "readErr c1 = readErr c"
    using add_ops_new_ids [OF assms(2-4), of clk 0] by auto
  obtain c2 where c2: "handleModifyRequest clk m c = (None, c2)" "keeps_pending c1 c2"
    using c1(1) unfolding handleModifyRequest_def Let_def
    by (cases "mreq_ElectionId m"; cases "mreq_Params m")
      (auto simp: keeps_pending_def updatePendingElection_def pendingSessionParams_def set_pendq_def)
  have "keeps_pending c2 c'"
    using assms(1) c2(1) q_same [of m c2 c'] q_readErr [of m c2 c']
    by (auto simp: Q_def Let_def keeps_pending_def same_books_def split: if_splits)
  note K = keeps_pendingD [OF this] keeps_pendingD [OF c2(2)]
  show "pending_ids c' = pending_ids c @ map op_Id (mreq_Operation m)" "pend_ok c'" "readErr c' = readErr c"
    using K c1 by simp_all
  show "session_ack c' = session_ack c" using K c1(4) by (simp add: session_ack_def)
qed

lemma clear_results_frame:
  "clear_results treat clk n rs c = (e, c') \<Longrightarrow> cl_state c' = cl_state c \<and> readErr c' = readErr c"
proof (induction rs arbitrary: n c)
  case (Cons r rs)
  obtain res e1 c1 where p: "clearPendingOp treat (clk n) r c = ((res, e1), c1)" by (metis prod.exhaust)
  have "cl_state (add_result res c1) = cl_state c \<and> readErr (add_result res c1) = readErr c"
    "cl_state c1 = cl_state c \<and> readErr c1 = readErr c"
    using p by (auto simp: clearPendingOp_def Let_def add_result_def set_pendq_def split: option.splits if_splits)
  with Cons.IH Cons.prems p show ?case by (fastforce simp: Let_def split: option.splits)
qed simp

lemma receive_answer:
  assumes "answer_form fib m" and "distinct (settles m)" and "set (settles m) \<subseteq> set (pending_ids c)" and ok: "pend_ok c"
    and "fib \<longleftrightarrow> session_ack c = RIB_AND_FIB_ACK" and "\<not> shut c"
  shows "\<exists>c'. receiver_step False clk (RecvMsg (Some m)) c = c' \<and> pend_ok c' \<and> session_ack c' = session_ack c \<and>
    readErr c' = readErr c \<and> set (pending_ids c') = set (pending_ids c) - set (settles m)"
proof -
  obtain rs where m: "m = result_response rs" using assms(1) by (auto simp: answer_form_def failed_response_def)
  have "\<exists>c'. handleModifyResponse False clk (Some m) c = (None, c') \<and> pend_ok c' \<and>
      set (pending_ids c') = set (pending_ids c) - set (settles m)"
    using assms(1) unfolding answer_form_def
  proof (elim disjE exE)
    fix oks assume "m = result_response (ok_results fib oks)"
    then show ?thesis using clear_acknowledged [of oks c fib clk 2] assms(2-5) by (simp add: response_results)
  next
    fix i msg assume f: "m = failed_response i msg"
    let ?r = "\<lparr>res_Id = i, res_Status = Res_FAILED, res_ErrorDetails = msg\<rparr>"
    have "res_Id ?r \<in> set (pending_ids c)" using assms(3) f by simp
    then obtain res c1 where r: "clearPendingOp False (clk 2) ?r c = ((res, None), c1)" "pend_ok (add_result res c1)"
      "pending_ids (add_result res c1) = (if dequeues False (session_ack c) (res_Status ?r)
         then filter (\<lambda>i. i \<noteq> res_Id ?r) (pending_ids c) else pending_ids c)"
      using clear_pending_one [OF _ ok] by metis
    then have "handleModifyResponse False clk (Some m) c = (None, add_result res c1)"
      by (simp add: f failed_response_def response_results)
    moreover have "set (pending_ids (add_result res c1)) = set (pending_ids c) - set (settles m)"
      using r(3) by (auto simp: f dequeues_def)
    ultimately show ?thesis using r(2) by blast
  qed
  then obtain c' where c': "handleModifyResponse False clk (Some m) c = (None, c')" "pend_ok c'"
      "set (pending_ids c') = set (pending_ids c) - set (settles m)" by blast
  have "cl_state c' = cl_state c \<and> readErr c' = readErr c"
    using c'(1) clear_results_frame [of False clk 2 rs c None c'] by (simp add: m response_results)
  then show ?thesis using c' assms(6) by (simp add: receiver_step_def respHandler_def session_ack_def)
qed

subsection \<open>The invariant\<close>

definition session_ok :: "rib_env \<Rightarrow> bool \<Rightarrow> session \<Rightarrow> bool" where
  "session_ok E fib S \<longleftrightarrow> (let c = se_client S; r = masterRIB (se_srv S);
       flight = concat (map settles (se_back S)) @ map op_Id (se_out S)
     in reachable E r \<and> pend_ok c \<and> (fib \<longleftrightarrow> session_ack c = RIB_AND_FIB_ACK) \<and> readErr c = [] \<and>
       distinct flight \<and> set flight \<inter> pend_ids r = {} \<and> set (pending_ids c) = set flight \<union> pend_ids r \<and>
       list_all (answer_form fib) (se_back S) \<and> list_all (\<lambda>op. op_wf op \<and> op_NetworkInstance op \<noteq> []) (se_out S))"

lemmas session_ok_simps = session_ok_def Let_def list_all_iff

lemma flight_serve:
  assumes "distinct (b @ i # o')" and "set (b @ i # o') \<inter> p = {}" and "w = set (b @ i # o') \<union> p"
    and "distinct k" and "set k \<inter> p' = {}" and "set k \<union> p' = insert i p"
  shows "distinct (b @ k @ o')" "set (b @ k @ o') \<inter> p' = {}" "w = set (b @ k @ o') \<union> p'"
proof -
  have "set k \<subseteq> insert i p" "p' \<subseteq> insert i p" using assms(6) by blast+
  with assms(1,2,4,5) show "distinct (b @ k @ o')" "set (b @ k @ o') \<inter> p' = {}" by (simp_all, blast+)
  show "w = set (b @ k @ o') \<union> p'" using assms(3,6) by auto
qed

lemma session_serve:
  assumes env: "env_laws E" and ok: "session_ok E fib S" and out: "se_out S = op # ops" and fair: "fair sched"
    and room: "room (masterRIB (se_srv S))"
    and run: "modify_op E sched fib elec op (se_srv S) = Some ([Response m], s')" and mix: "\<not> mixed m"
  shows "session_ok E fib (S\<lparr>se_out := ops, se_back := se_back S @ [m], se_srv := s'\<rparr>)"
proof -
  let ?p = "pend_ids (masterRIB (se_srv S))"
  have r: "reachable E (masterRIB (se_srv S))" and o: "op_wf op" "op_NetworkInstance op \<noteq> []" and n: "op_Id op \<notin> ?p"
    using ok out by (auto simp: session_ok_simps)
  note A = answer_settles [OF server_answer [OF env r fair room o n run mix] n]
  have r': "reachable E (masterRIB s')"
    using rib.modify_op_ok [OF env r fair room o(1), of fib elec] run by auto
  have ok': "distinct (concat (map settles (se_back S)) @ op_Id op # map op_Id ops)"
    "set (concat (map settles (se_back S)) @ op_Id op # map op_Id ops) \<inter> ?p = {}"
    "set (pending_ids (se_client S)) = set (concat (map settles (se_back S)) @ op_Id op # map op_Id ops) \<union> ?p"
    using ok out by (simp_all only: session_ok_def Let_def list.map)
  note F = flight_serve [OF ok' A(2-4)]
  show ?thesis
    using ok out r' A(1) F by (cases fib) (simp_all add: session_ok_def Let_def)
qed

lemma session_run_ok:
  assumes env: "env_laws E" and "session_run E fib S"
  shows "session_ok E fib S"
  using assms(2)
proof (induction rule: session_run.induct)
  case (start c s)
  then show ?case by (simp add: session_ok_simps pend_ok_def) (simp add: pending_ids_def)
next
  case (own S c')
  then show ?case using keeps_pendingD [OF own.hyps(2)] by (auto simp: session_ok_simps)
next
  case (queue S clk req c')
  have ok: "pend_ok (se_client S)" using queue.IH by (simp add: session_ok_simps)
  note K = queue_pending [OF queue.hyps(2,3,4) ok]
  have "op_Id ` set (mreq_Operation req) \<inter> (set (concat (map settles (se_back S))) \<union> op_Id ` set (se_out S) \<union> pend_ids (masterRIB (se_srv S))) = {}"
    using queue.IH queue.hyps(4) by (auto simp: session_ok_simps)
  with queue.IH queue.hyps(3,5) show ?case by (auto simp: session_ok_simps K)
next
  case (serve S op ops sched elec m s')
  show ?case by (rule session_serve [OF env serve.IH serve.hyps(2-6)])
next
  case (other S s')
  then show ?case by (auto simp: session_ok_simps)
next
  case (recv S m ms clk)
  have "\<exists>c'. receiver_step False clk (RecvMsg (Some m)) (se_client S) = c' \<and> pend_ok c' \<and> session_ack c' = session_ack (se_client S) \<and>
    readErr c' = readErr (se_client S) \<and> set (pending_ids c') = set (pending_ids (se_client S)) - set (settles m)"
    by (rule receive_answer [where fib = fib]) (use recv.IH recv.hyps(2,3) in \<open>auto simp: session_ok_simps\<close>)
  with recv.IH recv.hyps(2) show ?case by (auto simp: session_ok_simps)
qed

end
