(* ===== verification/ClientProps.thy ===== *)
theory ClientProps
  imports Session ServerSample
begin

text \<open>
  Properties of the client: every operation is accounted for over whole runs, convergence
  means that all were answered, and the client's pending operations are those the server
  holds back.
\<close>

subsection \<open>A run of the client\<close>

definition ticks :: "nat \<Rightarrow> u64" where
  "ticks n = of_nat n"

definition plain_stub :: GRIBIClient where
  "plain_stub = \<lparr>stub_Modify = None, stub_Get = (\<lambda>_. Inr ([], None)),
     stub_Flush = (\<lambda>_. Inr \<lparr>flr_Timestamp = 0, flr_Result = Flush_OK\<rparr>)\<rparr>"

definition client0 :: Client where
  "client0 = (case NewClient [electedPrimaryClient (Some \<lparr>High = 0, Low = 1\<rparr>), persistEntries, fibACK] of Inr c \<Rightarrow> c)"

definition client1 :: Client where
  "client1 = (case StartSending ticks ticks (snd (Connect (snd (UseStub plain_stub client0)))) of Some c \<Rightarrow> c)"

definition hop_request :: ModifyRequest where
  "hop_request = \<lparr>mreq_Operation = [hop_op\<lparr>op_ElectionId := Some \<lparr>High = 0, Low = 1\<rparr>\<rparr>], mreq_ElectionId = None, mreq_Params = None\<rparr>"

definition client2 :: Client where
  "client2 = (case Q ticks hop_request client1 of Some c \<Rightarrow> c)"

definition receive :: "ModifyResponse \<Rightarrow> Client \<Rightarrow> Client" where
  "receive m = receiver_step False ticks (RecvMsg (Some m))"

definition client3 :: Client where
  "client3 = receive \<lparr>resp_Result = [], resp_ElectionId = Some \<lparr>High = 0, Low = 1\<rparr>, resp_SessionParamsResult = None\<rparr>
     (receive \<lparr>resp_Result = [], resp_ElectionId = None, resp_SessionParamsResult = Some SessionParams_OK\<rparr> client2)"

definition client4 :: Client where
  "client4 = receive (result_response (ok_results True [okResult hop_op])) client3"

lemma client_runs:
  "client_run False [] [] client0" "client_run False [] [] client1"
  "client_run False (mreq_Operation hop_request) [] client2" "client_run False (mreq_Operation hop_request) [] client3"
  "client_run False (mreq_Operation hop_request) [] client4"
proof -
  have "NewClient [electedPrimaryClient (Some \<lparr>High = 0, Low = 1\<rparr>), persistEntries, fibACK] = Inr client0"
    by (simp add: client0_def NewClient_def handleParams_def)
  then show c0: "client_run False [] [] client0" by (rule client_run.new)
  let ?c = "snd (Connect (snd (UseStub plain_stub client0)))"
  have d: "disconnected (snd (UseStub plain_stub client0))" by code_simp
  have "length (modifyCh (qs ?c)) = 0" by code_simp
  then have "\<not> blocked ?c" unfolding blocked_def by simp
  moreover have "client_run False [] [] ?c" by (rule client_run.connect [OF client_run.use_stub [OF c0] d])
  ultimately have r: "client_run False [] [] ?c" "\<not> blocked ?c" by blast+
  have "StartSending ticks ticks ?c \<noteq> None" by code_simp
  then have "StartSending ticks ticks ?c = Some client1" by (auto simp: client1_def)
  then show c1: "client_run False [] [] client1" by (rule client_run.start [OF r])
  have "length (modifyCh (qs client1)) = 2" "Q ticks hop_request client1 \<noteq> None" by code_simp+
  then have "\<not> blocked client1" "Q ticks hop_request client1 = Some client2"
    by (auto simp: client2_def blocked_def modifyBuffer_def)
  from client_run.queue [OF c1 this] show c2: "client_run False (mreq_Operation hop_request) [] client2" by simp
  have "receiver client2" "receiver (receive \<lparr>resp_Result = [], resp_ElectionId = None, resp_SessionParamsResult = Some SessionParams_OK\<rparr> client2)"
    by code_simp+
  then show c3: "client_run False (mreq_Operation hop_request) [] client3"
    unfolding client3_def receive_def by (intro client_run.recv c2)
  have "receiver client3" by code_simp
  then show "client_run False (mreq_Operation hop_request) [] client4"
    unfolding client4_def receive_def by (intro client_run.recv c3)
qed

subsection \<open>Accounting\<close>

text \<open>
  C11: in every run of the client each queued operation is accounted for at most once: it is
  pending or has one final result, and exactly once as long as no send error occurred.  A
  pending operation is one that was queued, under its own identifier, and a result with
  details carries those of a queued operation.
\<close>

theorem operations_accounted:
  assumes "client_run treat os rs c"
  shows "mset (pending_ids c) + mset (answered_ids treat rs c) \<subseteq># mset (map op_Id os) \<and>
    (sendErr c = [] \<longrightarrow> mset (pending_ids c) + mset (answered_ids treat rs c) = mset (map op_Id os)) \<and>
    (\<forall>(i, p)\<in>set (pq_Ops (pendq (qs c))). po_Op p \<in> set os \<and> op_Id (po_Op p) = i) \<and>
    list_all (from_op os) (rs @ resultq (qs c))"
  using client_run_accounted [OF assms] unfolding accounted_def pend_ok_def by blast

theorem operations_accounted_witness:
  "mset (pending_ids client3) + mset (answered_ids False [] client3) = {#op_Id hop_op#} \<and>
   mset (pending_ids client4) + mset (answered_ids False [] client4) = {#op_Id hop_op#}"
proof -
  have e: "sendErr client3 = []" "sendErr client4 = []" "map op_Id (mreq_Operation hop_request) = [op_Id hop_op]" by code_simp+
  show ?thesis
    using operations_accounted [OF client_runs(4)] operations_accounted [OF client_runs(5)] e by simp
qed

lemma await_poll_converged:
  "await_poll c = Some None \<Longrightarrow> sendErr c = [] \<and> readErr c = [] \<and> isConverged c"
  by (auto simp: await_poll_def hasErrors_def split: if_splits)

lemma AwaitConverged_last:
  "AwaitConverged polls = Some None \<Longrightarrow> \<exists>c. (None, c) \<in> set polls \<and> await_poll c = Some None"
  by (induction polls rule: AwaitConverged.induct) (auto split: option.splits)

text \<open>
  C12: When \<open>AwaitConverged\<close> returns without an error, the state it saw last has no error, no
  message waiting to be sent and no pending election or session parameters, and every
  operation queued on that run has exactly one final result.
\<close>

theorem converged_all_answered:
  assumes "AwaitConverged polls = Some None"
  shows "\<exists>c. (None, c) \<in> set polls \<and> sendErr c = [] \<and> readErr c = [] \<and> sendq (qs c) = [] \<and>
    pendq (qs c) = empty_pendingQueue \<and>
    (\<forall>treat os rs. client_run treat os rs c \<longrightarrow> mset (answered_ids treat rs c) = mset (map op_Id os))"
proof -
  obtain c where c: "(None, c) \<in> set polls" "await_poll c = Some None" using AwaitConverged_last [OF assms] by blast
  note a = await_poll_converged [OF c(2)]
  then have q: "sendq (qs c) = []" "pendq (qs c) = empty_pendingQueue"
    by (auto simp: isConverged_def pendingQueue_Len_def empty_pendingQueue_def intro!: pendingQueue.equality split: if_splits)
  then have "pending_ids c = []" by (simp add: pending_ids_def empty_pendingQueue_def)
  then have "mset (answered_ids treat rs c) = mset (map op_Id os)" if "client_run treat os rs c" for treat os rs
    using client_run_accounted [OF that] a by (simp add: accounted_def)
  with a c(1) q show ?thesis by blast
qed

theorem converged_all_answered_witness:
  "AwaitConverged [(None, client3), (None, client4)] = Some None \<and>
   mset (answered_ids False [] client4) = {#op_Id hop_op#}"
proof -
  have a: "AwaitConverged [(None, client3), (None, client4)] = Some None" by code_simp
  have n: "pendq (qs client3) \<noteq> empty_pendingQueue" by code_simp
  have i: "map op_Id (mreq_Operation hop_request) = [op_Id hop_op]" by code_simp
  obtain c where "c = client3 \<or> c = client4" "pendq (qs c) = empty_pendingQueue"
    "\<forall>treat os rs. client_run treat os rs c \<longrightarrow> mset (answered_ids treat rs c) = mset (map op_Id os)"
    using converged_all_answered [OF a] by auto
  with n client_runs(5) have "mset (answered_ids False [] client4) = mset (map op_Id (mreq_Operation hop_request))" by blast
  with a i show ?thesis by simp
qed

subsection \<open>With the server\<close>


text \<open>One exchange on its own: the answer to an operation brings both sides back to agreement.\<close>

theorem client_tracks_server:
  assumes "env_laws E" and "srv_reach E w" and "fair sched" and "room (masterRIB (w_srv w))"
    and "op_wf op" and "op_NetworkInstance op \<noteq> []"
    and "set (pending_ids c) = pend_ids (masterRIB (w_srv w))" and "pend_ok c" and "op_Id op \<notin> set (pending_ids c)"
    and "mreq_Operation req = [op]" and "Q clk req c = Some c1"
    and "modify_op E sched (session_ack c = RIB_AND_FIB_ACK) elec op (w_srv w) = Some ([Response m], s')" and "\<not> mixed m"
  shows "\<exists>c2. handleModifyResponse False clk' (Some m) c1 = (None, c2) \<and> pend_ok c2 \<and>
    set (pending_ids c2) = pend_ids (masterRIB s')"
proof -
  have "answer_of (session_ack c = RIB_AND_FIB_ACK) op m (pend_ids (masterRIB (w_srv w))) (pend_ids (masterRIB s'))"
    using assms(7,9) by (intro server_answer [OF assms(1) rib.reach_ok [OF assms(1,2)] assms(3-6) _ assms(12,13)]) simp
  note Q = Q_fresh [OF assms(11,10,9,8)]
  show ?thesis
    by (rule client_answer [OF \<open>answer_of _ _ _ _ _\<close> Q(2)]) (use Q assms(7,9) in simp_all)
qed

lemma hop_answer:
  "\<exists>m s'. modify_op sample_env in_order True \<lparr>ed_master = ''A'', ed_ID = Some \<lparr>High = 0, Low = 1\<rparr>, ed_client = ''A'',
      ed_clientLatest = Some \<lparr>High = 0, Low = 1\<rparr>\<rparr> (hop_op\<lparr>op_ElectionId := Some \<lparr>High = 0, Low = 1\<rparr>\<rparr>) (w_srv world2) = Some ([Response m], s') \<and>
    \<not> mixed m"
proof -
  have run: "case modify_op sample_env in_order True \<lparr>ed_master = ''A'', ed_ID = Some \<lparr>High = 0, Low = 1\<rparr>, ed_client = ''A'',
      ed_clientLatest = Some \<lparr>High = 0, Low = 1\<rparr>\<rparr> (hop_op\<lparr>op_ElectionId := Some \<lparr>High = 0, Low = 1\<rparr>\<rparr>) (w_srv world2) of
      Some (evs, _) \<Rightarrow> length evs = 1 \<and> (case hd evs of Response m \<Rightarrow> \<not> mixed m | _ \<Rightarrow> False) | None \<Rightarrow> False" by code_simp
  then show ?thesis by (auto simp: length_Suc_conv split: option.splits prod.splits event.splits)
qed

theorem client_tracks_server_witness:
  "\<exists>m s' c2. modify_op sample_env in_order True \<lparr>ed_master = ''A'', ed_ID = Some \<lparr>High = 0, Low = 1\<rparr>, ed_client = ''A'',
      ed_clientLatest = Some \<lparr>High = 0, Low = 1\<rparr>\<rparr> (hop_op\<lparr>op_ElectionId := Some \<lparr>High = 0, Low = 1\<rparr>\<rparr>) (w_srv world2) = Some ([Response m], s') \<and>
    handleModifyResponse False ticks (Some m) client2 = (None, c2) \<and> set (pending_ids c2) = pend_ids (masterRIB s')"
proof -
  let ?el = "\<lparr>ed_master = ''A'', ed_ID = Some \<lparr>High = 0, Low = 1\<rparr>, ed_client = ''A'', ed_clientLatest = Some \<lparr>High = 0, Low = 1\<rparr>\<rparr>"
  let ?op = "hop_op\<lparr>op_ElectionId := Some \<lparr>High = 0, Low = 1\<rparr>\<rparr>"
  obtain m s' where m: "modify_op sample_env in_order True ?el ?op (w_srv world2) = Some ([Response m], s')" "\<not> mixed m"
    using hop_answer by blast
  have rm: "room (masterRIB (w_srv world2))" by (rule small_room) code_simp
  have o: "op_wf ?op" "op_NetworkInstance ?op \<noteq> []" "op_Id ?op \<notin> set (pending_ids client1)"
    "set (pending_ids client1) = pend_ids (masterRIB (w_srv world2))" "session_ack client1 = RIB_AND_FIB_ACK" "mreq_Operation hop_request = [?op]"
    by code_simp+
  have "pending_ids client1 = []" by code_simp
  then have p: "pend_ok client1" by (simp add: pend_ok_def pending_ids_def)
  have "Q ticks hop_request client1 \<noteq> None" by code_simp
  then have q: "Q ticks hop_request client1 = Some client2" by (auto simp: client2_def)
  have "modify_op sample_env in_order (session_ack client1 = RIB_AND_FIB_ACK) ?el ?op (w_srv world2) = Some ([Response m], s')"
    using m(1) o(5) by simp
  from client_tracks_server [OF sample_laws world_reach(3) sample_fair rm o(1,2,4) p o(3,6) q this m(2), of ticks] m(1)
  show ?thesis by blast
qed


text \<open>A session in which the client queues a next-hop and receives its acknowledgement.\<close>

definition hop_session :: "ModifyResponse \<Rightarrow> Server \<Rightarrow> session" where
  "hop_session m s = \<lparr>se_client = receiver_step False ticks (RecvMsg (Some m)) client2, se_out = [], se_back = [], se_srv = s\<rparr>"




end
