(* ===== verification/FluentProps.thy ===== *)
theory FluentProps
  imports Fluent ClientProps
begin

text \<open>
  A test that programs entries through the fluent API only: its operations are numbered from
  one on, none is refused as a duplicate, and the run is one of the client.
\<close>

subsection \<open>Numbering\<close>

text \<open>An entry whose message leaves the identifier to the library, as all builders do.\<close>

definition unnumbered :: "GRIBIEntry \<Rightarrow> bool" where
  "unnumbered e = (case OpProto e of Inl _ \<Rightarrow> True | Inr p \<Rightarrow> op_Id p = 0)"

lemma builders_unnumbered:
  "unnumbered (ipv4Entry_GRIBIEntry e4)" "unnumbered (ipv6Entry_GRIBIEntry e6)" "unnumbered (labelEntry_GRIBIEntry el)"
  "unnumbered (nextHopGroupEntry_GRIBIEntry eg)" "unnumbered (nextHopEntry_GRIBIEntry en)"
  by (simp_all add: unnumbered_def ipv4Entry_GRIBIEntry_def ipv6Entry_GRIBIEntry_def labelEntry_GRIBIEntry_def
      nextHopGroupEntry_GRIBIEntry_def nextHopEntry_GRIBIEntry_def entry_op_def)

definition elected :: "FluentClient \<Rightarrow> bool" where
  "elected g = (case connection g of None \<Rightarrow> False | Some c \<Rightarrow> redundMode c = ElectedPrimaryClient)"

lemma entries_to_ops_result:
  "entries_to_ops t es g = (Inr ops, g') \<Longrightarrow>
    length ops = length es \<and> map op_Id ops = map (\<lambda>k. opCount g + of_nat k) [1..<Suc (length ops)] \<and>
    g' = g\<lparr>opCount := opCount g + of_nat (length ops)\<rparr> \<and>
    (elected g \<longrightarrow> currentElectionID g \<noteq> None \<longrightarrow> (\<forall>op\<in>set ops. op_ElectionId op \<noteq> None))"
proof (induction es arbitrary: g ops)
  case (Cons e es)
  let ?g = "g\<lparr>opCount := opCount g + 1\<rparr>"
  obtain ep where ep: "OpProto e = Inr ep" "op_Id ep = 0" using Cons.prems by (auto split: sum.splits if_splits)
  let ?ep = "ep\<lparr>op_Op := t, op_Id := opCount g + 1\<rparr>"
  let ?op = "if elected g \<and> op_ElectionId ep = None then ?ep\<lparr>op_ElectionId := currentElectionID g\<rparr> else ?ep"
  obtain ops' where ops': "entries_to_ops t es ?g = (Inr ops', g')" "ops = ?op # ops'"
    using Cons.prems ep by (auto simp: Let_def elected_def split: sum.splits prod.splits)
  from Cons.IH [OF ops'(1)] have IH: "length ops' = length es"
      "map op_Id ops' = map (\<lambda>k. opCount g + 1 + of_nat k) [1..<Suc (length ops')]"
      "g' = ?g\<lparr>opCount := opCount g + 1 + of_nat (length ops')\<rparr>"
      "elected g \<longrightarrow> currentElectionID g \<noteq> None \<longrightarrow> (\<forall>op\<in>set ops'. op_ElectionId op \<noteq> None)"
    by (simp_all add: elected_def)
  have "[1..<Suc (Suc (length ops'))] = 1 # map Suc [1..<Suc (length ops')]"
    by (simp add: upt_conv_Cons map_Suc_upt del: upt_Suc)
  then have "map op_Id ops = map (\<lambda>k. opCount g + of_nat k) [1..<Suc (length ops)]"
    using IH(2) by (simp add: ops'(2) o_def add.assoc del: upt_Suc)
  with IH ops' show ?case by (auto simp: add.assoc)
qed simp

lemma entriesToModifyRequest_ops:
  assumes "entriesToModifyRequest t es g = (Inr m, g')"
  shows "entries_to_ops t es g = (Inr (mreq_Operation m), g')"
  using assms by (auto simp: entriesToModifyRequest_def split: prod.splits sum.splits)

lemma fluent_request_elected:
  assumes "entriesToModifyRequest t es g = (Inr m, g')" and "elected g" and "currentElectionID g = Some i"
  shows "length (mreq_Operation m) = length es \<and> (\<forall>op\<in>set (mreq_Operation m). op_ElectionId op \<noteq> None)"
  using entries_to_ops_result [OF entriesToModifyRequest_ops [OF assms(1)]] assms(2,3) by auto

subsection \<open>Requests that queue without an error\<close>

definition fresh_ops :: "AFTOperation list \<Rightarrow> Client \<Rightarrow> bool" where
  "fresh_ops ops c \<longleftrightarrow> distinct (map op_Id ops) \<and> op_Id ` set ops \<inter> set (pending_ids c) = {}"

lemma add_ops_fresh: "fresh_ops ops c \<Longrightarrow> \<exists>c'. add_ops clk n ops c = (None, c') \<and> sendErr c' = sendErr c"
proof (induction ops arbitrary: n c)
  case (Cons op ops)
  have g: "gm_get (pq_Ops (pendq (qs c))) (op_Id op) = None"
    using Cons.prems by (auto simp: fresh_ops_def pending_ids_def map_of_eq_None_iff)
  then obtain c1 where c1: "addPendingOp (clk n) op c = (None, c1)" "sendErr c1 = sendErr c"
      "pending_ids c1 = pending_ids c @ [op_Id op]"
    by (simp add: addPendingOp_def Let_def set_pendq_def pending_ids_def gm_put_absent)
  then have "fresh_ops ops c1" using Cons.prems by (auto simp: fresh_ops_def)
  from Cons.IH [OF this, of "Suc n"] c1 show ?case by auto
qed simp

lemma Q_no_error:
  assumes "fresh_ops (mreq_Operation m) c" and "Q clk m c = Some c'"
  shows "sendErr c' = sendErr c"
proof -
  obtain c1 where "add_ops clk 0 (mreq_Operation m) c = (None, c1)" "sendErr c1 = sendErr c"
    using add_ops_fresh [OF assms(1)] by blast
  then have "\<exists>c2. handleModifyRequest clk m c = (None, c2) \<and> sendErr c2 = sendErr c"
    by (auto simp: handleModifyRequest_def Let_def updatePendingElection_def pendingSessionParams_def set_pendq_def split: option.split)
  with assms(2) show ?thesis by (auto simp: Q_def q_def split: if_splits)
qed

lemma q_all_sendErr: "q_all ms c = Some c' \<Longrightarrow> sendErr c' = sendErr c"
  by (induction ms arbitrary: c) (auto simp: q_def split: option.splits if_splits)

lemma StartSending_no_error: "StartSending clkp clke c = Some c' \<Longrightarrow> sendErr c' = sendErr c"
proof -
  assume s: "StartSending clkp clke c = Some c'"
  have p: "Q clk (params_request p) d = Some d' \<Longrightarrow> sendErr d' = sendErr d" for clk p d d'
    by (rule Q_no_error) (simp_all add: fresh_ops_def params_request_def)
  have e: "Q clk (election_request i) d = Some d' \<Longrightarrow> sendErr d' = sendErr d" for clk i d d'
    by (rule Q_no_error) (simp_all add: fresh_ops_def election_request_def)
  from s show ?thesis
    by (auto simp: StartSending_def Let_def split: option.splits dest!: p e q_all_sendErr)
qed

lemma clear_results_sendErr: "sendErr (snd (clear_results treat clk n rs c)) = sendErr c"
  by (induction rs arbitrary: n c)
    (auto simp: clearPendingOp_def add_result_def set_pendq_def Let_def split: prod.split option.split)

lemma receiver_sendErr: "sendErr (receiver_step treat clk ev c) = sendErr c"
proof -
  have "sendErr (snd (handleModifyResponse treat clk m c)) = sendErr c" for m
    by (auto simp: handleModifyResponse_def Let_def clear_results_sendErr add_result_def clearPendingElection_def
        clearPendingSessionParams_def set_pendq_def split: option.split)
  then show ?thesis
    by (auto simp: receiver_step_def Let_def respHandler_def informDone_def addReadErr_def split: recv_event.split prod.split option.split)
      (metis snd_conv)+
qed

lemma sender_sendErr: "sender_step err c = Some (m, c') \<Longrightarrow> set (sendErr c') \<subseteq> set (sendErr c) \<union> range StreamErr"
  by (auto simp: sender_step_def Let_def informDone_def addSendErr_def split: if_splits list.splits option.splits)

subsection \<open>Runs of the fluent client\<close>

text \<open>
  The calls of a test that queues entries only through the entry methods, and the rounds of
  the two goroutines.  \<open>os\<close> are the operations queued.
\<close>

inductive fluent_run :: "bool \<Rightarrow> AFTOperation list \<Rightarrow> FluentClient \<Rightarrow> bool" for treat where
  start: "opCount g = 0 \<Longrightarrow> Start dialled g = Inr g' \<Longrightarrow> fluent_run treat [] g'"
| modify: "fluent_run treat os g \<Longrightarrow> fc g = Some c \<Longrightarrow> \<not> blocked c \<Longrightarrow>
    entriesToModifyRequest t es g = (Inr m, g1) \<Longrightarrow> modify_entries t clk es g = Inr g' \<Longrightarrow>
    fluent_run treat (os @ mreq_Operation m) g'"
| election: "fluent_run treat os g \<Longrightarrow> fc g = Some c \<Longrightarrow> \<not> blocked c \<Longrightarrow> UpdateElectionID clk low high g = Inr g' \<Longrightarrow>
    fluent_run treat os g'"
| start_sending: "fluent_run treat os g \<Longrightarrow> fc g = Some c \<Longrightarrow> disconnected c \<Longrightarrow> \<not> blocked c \<Longrightarrow>
    FluentStartSending clkp clke g = Inr g' \<Longrightarrow> fluent_run treat os g'"
| stop: "fluent_run treat os g \<Longrightarrow> fc g = Some c \<Longrightarrow> \<not> blocked c \<Longrightarrow> Stop g = Inr g' \<Longrightarrow> fluent_run treat os g'"
| send: "fluent_run treat os g \<Longrightarrow> fc g = Some c \<Longrightarrow> sender c \<Longrightarrow> sender_step err c = Some (sent, c') \<Longrightarrow>
    fluent_run treat os (g\<lparr>fc := Some c'\<rparr>)"
| recv: "fluent_run treat os g \<Longrightarrow> fc g = Some c \<Longrightarrow> receiver c \<Longrightarrow>
    fluent_run treat os (g\<lparr>fc := Some (receiver_step treat clk ev c)\<rparr>)"

definition numbered_from_1 :: "AFTOperation list \<Rightarrow> bool" where
  "numbered_from_1 os \<longleftrightarrow> map op_Id os = map of_nat [1..<Suc (length os)]"

text \<open>The client holds a run of the operations queued, and refused none as a duplicate.\<close>

definition fluent_ok :: "bool \<Rightarrow> AFTOperation list \<Rightarrow> FluentClient \<Rightarrow> Client \<Rightarrow> bool" where
  "fluent_ok treat os g c \<longleftrightarrow> fc g = Some c \<and> client_run treat os [] c \<and> numbered_from_1 os \<and>
     opCount g = of_nat (length os) \<and>
     (length os < 2 ^ 64 \<longrightarrow> (\<forall>i. DuplicatePendingID i \<notin> set (sendErr c)))"

lemma on_client_Some: "on_client f g = Inr g' \<Longrightarrow> fc g = Some c \<Longrightarrow> \<exists>c'. f c = Some c' \<and> g' = g\<lparr>fc := Some c'\<rparr>"
  by (auto simp: on_client_def split: option.splits)

lemma fluent_ok_step:
  assumes "fluent_ok treat os g c" and "client_run treat os [] c'" and "set (sendErr c') \<subseteq> set (sendErr c) \<union> range StreamErr"
    and "fc g' = Some c'" and "opCount g' = opCount g"
  shows "fluent_ok treat os g' c'"
  using assms unfolding fluent_ok_def by (metis Un_iff client_err.distinct rangeE subsetD)

lemma of_nat_u64_inj: "i < 2 ^ 64 \<Longrightarrow> j < 2 ^ 64 \<Longrightarrow> (of_nat i :: u64) = of_nat j \<longleftrightarrow> i = j"
  by (simp add: word_of_nat_eq_iff take_bit_nat_eq_self)

lemma numbered_distinct: "numbered_from_1 os \<Longrightarrow> length os < 2 ^ 64 \<Longrightarrow> distinct (map op_Id os)"
  by (auto simp: numbered_from_1_def distinct_map inj_on_def of_nat_u64_inj simp del: upt_Suc)

lemma fluent_ok_modify:
  assumes ok: "fluent_ok treat os g c" and nb: "\<not> blocked c"
    and e: "entriesToModifyRequest t es g = (Inr m, g1)" and q: "Q clk m c = Some c'"
  shows "fluent_ok treat (os @ mreq_Operation m) (g1\<lparr>fc := Some c'\<rparr>) c'"
proof -
  let ?ops = "mreq_Operation m" and ?n = "length os"
  from ok have c: "client_run treat os [] c" "map op_Id os = map of_nat [1..<Suc ?n]" "opCount g = of_nat ?n"
    by (simp_all add: fluent_ok_def numbered_from_1_def)
  note r = entries_to_ops_result [OF entriesToModifyRequest_ops [OF e]]
  have "map op_Id ?ops = map of_nat (map (\<lambda>k. ?n + k) [1..<Suc (length ?ops)])" using r c(3) by (simp add: o_def)
  also have "map (\<lambda>k. ?n + k) [1..<Suc (length ?ops)] = [Suc ?n..<Suc (length (os @ ?ops))]"
    by (rule nth_equalityI) (simp_all del: upt_Suc)
  finally have ids: "map op_Id ?ops = map of_nat [Suc ?n..<Suc (length (os @ ?ops))]" .
  have "[1..<Suc (length (os @ ?ops))] = [1..<Suc ?n] @ [Suc ?n..<Suc (length (os @ ?ops))]"
    using upt_add_eq_append [of 1 "Suc ?n" "length ?ops"] by (simp del: upt_Suc)
  then have num: "numbered_from_1 (os @ ?ops)" using c(2) ids unfolding numbered_from_1_def by (simp del: upt_Suc)
  have "\<forall>i. DuplicatePendingID i \<notin> set (sendErr c')" if l: "length (os @ ?ops) < 2 ^ 64"
  proof -
    have "set (pending_ids c) \<subseteq> set (map op_Id os)"
      using client_run_accounted [OF c(1)] set_mset_mono unfolding accounted_def
      by (metis mset_subset_eq_add_left set_mset_mset subset_mset.order_trans)
    moreover have "distinct (map op_Id (os @ ?ops))" by (rule numbered_distinct [OF num l])
    ultimately have "fresh_ops ?ops c" by (auto simp: fresh_ops_def)
    from Q_no_error [OF this q] ok l show ?thesis by (simp add: fluent_ok_def)
  qed
  with client_run.queue [OF c(1) nb q] num c(3) r show ?thesis by (simp add: fluent_ok_def)
qed

lemma Start_ok:
  assumes "Start dialled g = Inr g'"
  shows "\<exists>c. fc g' = Some c \<and> client_run treat [] [] c \<and> sendErr c = [] \<and> opCount g' = opCount g"
proof -
  obtain conn cl where cl: "NewClient (start_opts conn) = Inr cl"
    and g': "(case conn_stub conn of Some stub \<Rightarrow> Inr (g\<lparr>fc := Some (snd (UseStub stub cl))\<rparr>)
      | None \<Rightarrow> (case Dial (dialled (targetAddr conn)) cl of (Some e, _) \<Rightarrow> Inl (CannotDialTarget e)
          | (None, cl') \<Rightarrow> Inr (g\<lparr>fc := Some cl'\<rparr>))) = Inr g'"
    using assms by (auto simp: Start_def split: option.splits sum.splits if_splits)
  have d: "(\<exists>stub. g' = g\<lparr>fc := Some (snd (UseStub stub cl))\<rparr>) \<or> (\<exists>d. g' = g\<lparr>fc := Some (snd (Dial d cl))\<rparr>)"
  proof (cases "conn_stub conn")
    case None
    with g' have "g' = g\<lparr>fc := Some (snd (Dial (dialled (targetAddr conn)) cl))\<rparr>" by (auto split: prod.splits option.splits)
    then show ?thesis by blast
  next
    case (Some stub)
    with g' show ?thesis by auto
  qed
  have n: "client_run treat [] [] cl" by (rule client_run.new [OF cl])
  have "sendErr cl = []" using cl by (auto simp: NewClient_def split: sum.splits)
  then have "sendErr (snd (UseStub stub cl)) = []" "sendErr (snd (Dial d cl)) = []" for stub d
    by (simp_all add: UseStub_def Dial_def split: sum.split)
  with d client_run.use_stub [OF n] client_run.dial [OF n] show ?thesis by auto
qed

lemma Stop_ok:
  assumes "Stop g = Inr g'" and "fc g = Some c" and "\<not> blocked c" and "client_run treat os [] c"
  shows "\<exists>c'. fc g' = Some c' \<and> client_run treat os [] c' \<and> sendErr c' = sendErr c \<and> opCount g' = opCount g"
proof -
  obtain c' where c': "Close (StopSending c) = Some c'" "g' = g\<lparr>fc := Some c'\<rparr>"
    using assms(1,2) on_client_Some [of _ g g' c] by (auto simp: Stop_def)
  have "\<not> blocked (StopSending c)" using assms(3) by (simp add: blocked_def StopSending_def)
  from client_run.close [OF client_run.stop [OF assms(4)] this c'(1)] c' show ?thesis
    by (auto simp: Close_def disconnect_def StopSending_def split: if_splits)
qed

lemma FluentStartSending_ok:
  assumes "FluentStartSending clkp clke g = Inr g'" and "fc g = Some c" and "disconnected c" and "\<not> blocked c"
    and "client_run treat os [] c"
  shows "\<exists>c'. fc g' = Some c' \<and> client_run treat os [] c' \<and> sendErr c' = sendErr c \<and> opCount g' = opCount g"
proof -
  obtain c1 where c1: "Connect c = (None, c1)" "on_client (StartSending clkp clke) (g\<lparr>fc := Some c1\<rparr>) = Inr g'"
    using assms(1,2) by (auto simp: FluentStartSending_def split: prod.splits option.splits)
  obtain c2 where c2: "StartSending clkp clke c1 = Some c2" "g' = g\<lparr>fc := Some c2\<rparr>"
    using on_client_Some [OF c1(2), of c1] by auto
  have b: "\<not> blocked c1" "sendErr c1 = sendErr c"
    using c1(1) assms(4) by (auto simp: Connect_def Let_def blocked_def split: option.splits)
  have "client_run treat os [] c1" using client_run.connect [OF assms(5,3)] c1(1) by simp
  from client_run.start [OF this b(1) c2(1)] StartSending_no_error [OF c2(1)] b c2 show ?thesis by auto
qed

lemma UpdateElectionID_ok:
  assumes "UpdateElectionID clk low high g = Inr g'" and "fc g = Some c" and "\<not> blocked c" and "client_run treat os [] c"
  shows "\<exists>c'. fc g' = Some c' \<and> client_run treat os [] c' \<and> sendErr c' = sendErr c \<and> opCount g' = opCount g"
proof -
  let ?m = "election_request \<lparr>High = high, Low = low\<rparr>"
  obtain c' where c': "Q clk ?m c = Some c'" "fc g' = Some c'" "opCount g' = opCount g"
    using assms(1,2) by (auto simp: UpdateElectionID_def Let_def on_client_def split: option.splits)
  have "fresh_ops (mreq_Operation ?m) c" by (simp add: fresh_ops_def election_request_def)
  from Q_no_error [OF this c'(1)] client_run.queue [OF assms(4,3) c'(1)] c' show ?thesis
    by (auto simp: election_request_def)
qed

lemma fluent_run_ok: "fluent_run treat os g \<Longrightarrow> \<exists>c. fluent_ok treat os g c"
proof (induction rule: fluent_run.induct)
  case (start g dialled g')
  then show ?case using Start_ok [of dialled g g' treat] by (auto simp: fluent_ok_def numbered_from_1_def)
next
  case (modify os g c t es m g1 clk g')
  then have ok: "fluent_ok treat os g c" by (auto simp: fluent_ok_def)
  have "fc g1 = fc g" using entries_to_ops_result [OF entriesToModifyRequest_ops [OF modify.hyps(4)]] by simp
  then obtain c' where c': "Q clk m c = Some c'" "g' = g1\<lparr>fc := Some c'\<rparr>"
    using modify.hyps(2,4,5) on_client_Some [of "Q clk m" g1 g' c] by (auto simp: modify_entries_def)
  show ?case using fluent_ok_modify [OF ok modify.hyps(3,4) c'(1)] c'(2) by auto
next
  case (election os g c clk low high g')
  then have ok: "fluent_ok treat os g c" by (auto simp: fluent_ok_def)
  then have "client_run treat os [] c" by (simp add: fluent_ok_def)
  from UpdateElectionID_ok [OF election.hyps(4,2,3) this] fluent_ok_step [OF ok] show ?case by (metis Un_upper1)
next
  case (start_sending os g c clkp clke g')
  then have ok: "fluent_ok treat os g c" by (auto simp: fluent_ok_def)
  then have "client_run treat os [] c" by (simp add: fluent_ok_def)
  from FluentStartSending_ok [OF start_sending.hyps(5,2-4) this] fluent_ok_step [OF ok] show ?case by (metis Un_upper1)
next
  case (stop os g c g')
  then have ok: "fluent_ok treat os g c" by (auto simp: fluent_ok_def)
  then have "client_run treat os [] c" by (simp add: fluent_ok_def)
  from Stop_ok [OF stop.hyps(4,2,3) this] fluent_ok_step [OF ok] show ?case by (metis Un_upper1)
next
  case (send os g c err sent c')
  then have ok: "fluent_ok treat os g c" by (auto simp: fluent_ok_def)
  then have "client_run treat os [] c'" by (auto simp: fluent_ok_def intro: client_run.send [OF _ send.hyps(3,4)])
  from fluent_ok_step [OF ok this sender_sendErr [OF send.hyps(4)], of "g\<lparr>fc := Some c'\<rparr>"] show ?case by auto
next
  case (recv os g c clk ev)
  then have ok: "fluent_ok treat os g c" by (auto simp: fluent_ok_def)
  then have "client_run treat os [] (receiver_step treat clk ev c)" by (auto simp: fluent_ok_def intro: client_run.recv [OF _ recv.hyps(3)])
  from fluent_ok_step [OF ok this, of "g\<lparr>fc := Some (receiver_step treat clk ev c)\<rparr>"] show ?case by (auto simp: receiver_sendErr)
qed


subsection \<open>The properties\<close>

text \<open>
  C21: The entries of a test that programs through the fluent API only are numbered from one on
  in the order of the calls.  Below \<open>2^64\<close> entries the identifiers differ, the client refuses
  none as a duplicate, and when it has converged without an error each entry has exactly one
  final result.
\<close>
theorem fluent_entries_accounted:
  assumes "fluent_run treat os g" and "length os < 2 ^ 64"
  shows "\<exists>c. fc g = Some c \<and> map op_Id os = map of_nat [1..<Suc (length os)] \<and> distinct (map op_Id os) \<and>
    (\<forall>i. DuplicatePendingID i \<notin> set (sendErr c)) \<and>
    (await_poll c = Some None \<longrightarrow> mset (answered_ids treat [] c) = mset (map of_nat [1..<Suc (length os)]))"
proof -
  obtain c where c: "fc g = Some c" "client_run treat os [] c" "numbered_from_1 os"
      "\<forall>i. DuplicatePendingID i \<notin> set (sendErr c)"
    using fluent_run_ok [OF assms(1)] assms(2) by (auto simp: fluent_ok_def)
  have "mset (answered_ids treat [] c) = mset (map op_Id os)" if "await_poll c = Some None"
  proof -
    have "sendErr c = []" "pending_ids c = []"
      using that by (auto simp: await_poll_def hasErrors_def isConverged_def pendingQueue_Len_def pending_ids_def split: if_splits)
    with client_run_accounted [OF c(2)] show ?thesis by (simp add: accounted_def)
  qed
  with c numbered_distinct [OF c(3) assms(2)] show ?thesis by (auto simp: numbered_from_1_def simp del: upt_Suc)
qed

subsubsection \<open>A test that adds a next-hop and a group\<close>

definition fluent0 :: FluentClient where
  "fluent0 = projr (Start (\<lambda>_. Inl ''no route to host'') (WithFIBACK (WithPersistence (WithInitialElectionID 1 0
     (WithRedundancyMode ElectedPrimaryClient (WithStub (Some plain_stub) (Connection NewFluentClient)))))))"

definition fluent1 :: FluentClient where
  "fluent1 = projr (FluentStartSending ticks ticks fluent0)"

definition fluent_entries :: "GRIBIEntry list" where
  "fluent_entries =
     [nextHopEntry_GRIBIEntry (nextHopEntry_WithIPAddress ''192.0.2.1'' (nextHopEntry_WithIndex 1
        (nextHopEntry_WithNetworkInstance ''DEFAULT'' NextHopEntry))),
      nextHopGroupEntry_GRIBIEntry (nextHopGroupEntry_AddNextHop 1 1 (nextHopGroupEntry_WithID 1
        (nextHopGroupEntry_WithNetworkInstance ''DEFAULT'' NextHopGroupEntry)))]"

definition fluent2 :: FluentClient where
  "fluent2 = projr (FluentAddEntry ticks fluent_entries fluent1)"

definition fluent_receive :: "ModifyResponse \<Rightarrow> FluentClient \<Rightarrow> FluentClient" where
  "fluent_receive m g = g\<lparr>fc := Some (receive m (the (fc g)))\<rparr>"

definition fluent3 :: FluentClient where
  "fluent3 = fluent_receive \<lparr>resp_Result = [], resp_ElectionId = None, resp_SessionParamsResult = Some SessionParams_OK\<rparr> fluent2"

definition fluent4 :: FluentClient where
  "fluent4 = fluent_receive \<lparr>resp_Result = [], resp_ElectionId = Some \<lparr>High = 0, Low = 1\<rparr>, resp_SessionParamsResult = None\<rparr> fluent3"

definition fluent5 :: FluentClient where
  "fluent5 = fluent_receive (result_response [\<lparr>res_Id = 1, res_Status = FIB_PROGRAMMED, res_ErrorDetails = None\<rparr>,
     \<lparr>res_Id = 2, res_Status = FIB_PROGRAMMED, res_ErrorDetails = None\<rparr>]) fluent4"

definition fluent_ops :: "AFTOperation list" where
  "fluent_ops = mreq_Operation (projr (fst (entriesToModifyRequest Op_ADD fluent_entries fluent1)))"

lemma fluent_receive_run:
  assumes "fluent_run False os g" and "map_option receiver (fc g) = Some True"
  shows "fluent_run False os (fluent_receive m g)"
  using assms by (auto simp: fluent_receive_def receive_def intro: fluent_run.recv)

lemma isr_projr: "isl x = False \<Longrightarrow> x = Inr (projr x)"
  by (cases x) simp_all

lemma fluent_runs: "fluent_run False fluent_ops fluent5"
proof -
  have "isl (Start (\<lambda>_. Inl ''no route to host'') (WithFIBACK (WithPersistence (WithInitialElectionID 1 0
     (WithRedundancyMode ElectedPrimaryClient (WithStub (Some plain_stub) (Connection NewFluentClient))))))) = False" by code_simp
  from fluent_run.start [OF _ isr_projr [OF this]] have 0: "fluent_run False [] fluent0"
    by (simp add: fluent0_def WithFIBACK_def WithPersistence_def WithInitialElectionID_def WithRedundancyMode_def WithStub_def
        Connection_def NewFluentClient_def on_connection_def)
  have c: "fc fluent0 \<noteq> None" "disconnected (the (fc fluent0))" "modifyCh (qs (the (fc fluent0))) = []"
    "isl (FluentStartSending ticks ticks fluent0) = False" by code_simp+
  then obtain c0 where c0: "fc fluent0 = Some c0" "disconnected c0" "\<not> blocked c0" by (auto simp: blocked_def)
  have 1: "fluent_run False [] fluent1"
    unfolding fluent1_def by (rule fluent_run.start_sending [OF 0 c0 isr_projr [OF c(4)]])
  have c: "fc fluent1 \<noteq> None" "length (modifyCh (qs (the (fc fluent1)))) = 2"
    "isl (fst (entriesToModifyRequest Op_ADD fluent_entries fluent1)) = False"
    "isl (FluentAddEntry ticks fluent_entries fluent1) = False" by code_simp+
  then obtain c1 where c1: "fc fluent1 = Some c1" "\<not> blocked c1" by (auto simp: blocked_def modifyBuffer_def)
  have e: "entriesToModifyRequest Op_ADD fluent_entries fluent1 =
      (Inr (projr (fst (entriesToModifyRequest Op_ADD fluent_entries fluent1))), snd (entriesToModifyRequest Op_ADD fluent_entries fluent1))"
    using isr_projr [OF c(3)] by (metis prod.collapse)
  have 2: "fluent_run False fluent_ops fluent2"
    using fluent_run.modify [OF 1 c1 e isr_projr [OF c(4) [unfolded FluentAddEntry_def]]]
    by (simp add: fluent2_def fluent_ops_def FluentAddEntry_def)
  have r: "map_option receiver (fc fluent2) = Some True" "map_option receiver (fc fluent3) = Some True"
    "map_option receiver (fc fluent4) = Some True" by code_simp+
  have 3: "fluent_run False fluent_ops fluent3" unfolding fluent3_def by (rule fluent_receive_run [OF 2 r(1)])
  have 4: "fluent_run False fluent_ops fluent4" unfolding fluent4_def by (rule fluent_receive_run [OF 3 r(2)])
  show ?thesis unfolding fluent5_def by (rule fluent_receive_run [OF 4 r(3)])
qed

theorem fluent_entries_accounted_witness:
  "\<exists>c. fc fluent5 = Some c \<and> await_poll c = Some None \<and> mset (answered_ids False [] c) = {#1, 2#}"
proof -
  have l: "length fluent_ops = 2" by code_simp
  have "map_option await_poll (fc fluent5) = Some (Some None)" by code_simp
  moreover have "map of_nat [1..<Suc 2] = [1, 2 :: u64]" by code_simp
  ultimately show ?thesis using fluent_entries_accounted [OF fluent_runs] by (auto simp: l simp del: upt_Suc)
qed

end
