(* ===== verification/Chk.thy ===== *)
theory Chk
  imports Fluent
begin

text \<open>
  The checks of \<open>chk/chk.go\<close> on the values a client returns.  A check either passes, ends the
  test (\<open>t.Fatalf\<close>), or panics on a nil pointer.
\<close>

datatype verdict = Pass | Fatal | Panics

text \<open>The checks of a loop, which stops at the first that does not pass.\<close>

fun all_pass :: "verdict list \<Rightarrow> verdict" where
  "all_pass [] = Pass"
| "all_pass (v # vs) = (if v = Pass then all_pass vs else v)"

subsection \<open>Results\<close>

datatype resultOpt = ignoreOpID | includeServerError

definition hasIgnoreOperationID :: "resultOpt list \<Rightarrow> bool" where
  "hasIgnoreOperationID opt = list_ex (\<lambda>o'. o' = ignoreOpID) opt"

definition hasIncludeServerError :: "resultOpt list \<Rightarrow> bool" where
  "hasIncludeServerError opt = list_ex (\<lambda>o'. o' = includeServerError) opt"

text \<open>\<open>cmp.Equal\<close> with the fields ignored: always the two times.\<close>

definition result_matches :: "resultOpt list \<Rightarrow> ClientOpResult \<Rightarrow> ClientOpResult \<Rightarrow> bool" where
  "result_matches opt r want \<longleftrightarrow>
     cor_CurrentServerElectionID r = cor_CurrentServerElectionID want \<and>
     cor_SessionParameters r = cor_SessionParameters want \<and>
     (hasIgnoreOperationID opt \<or> cor_OperationID r = cor_OperationID want) \<and>
     cor_ClientError r = cor_ClientError want \<and>
     (\<not> hasIncludeServerError opt \<or> cor_ServerError r = cor_ServerError want) \<and>
     cor_ProgrammingResult r = cor_ProgrammingResult want \<and>
     (cor_Details want = None \<or> cor_Details r = cor_Details want)"

text \<open>A nil result equals no wanted one; a nil \<open>want\<close> is dereferenced.\<close>

definition HasResult :: "ClientOpResult option list \<Rightarrow> ClientOpResult option \<Rightarrow> resultOpt list \<Rightarrow> verdict" where
  "HasResult res wanto opt =
     (case wanto of
        None \<Rightarrow> Panics
      | Some want \<Rightarrow>
          if list_ex (\<lambda>ro. case ro of None \<Rightarrow> False | Some r \<Rightarrow> result_matches opt r want) res then Pass else Fatal)"

record results_cache =
  byOpID :: "(u64, ClientOpResult) gomap"
  byNHID :: "(u64, ClientOpResult) gomap"
  byNHGID :: "(u64, ClientOpResult) gomap"
  byIPv4Prefix :: "(string, ClientOpResult) gomap"

definition empty_cache :: results_cache where
  "empty_cache = \<lparr>byOpID = [], byNHID = [], byNHGID = [], byIPv4Prefix = []\<rparr>"

definition cache_result :: "ClientOpResult \<Rightarrow> results_cache \<Rightarrow> results_cache" where
  "cache_result r m =
     (let m1 = m\<lparr>byOpID := gm_put (cor_OperationID r) r (byOpID m)\<rparr>
      in case cor_Details r of
           None \<Rightarrow> m1
         | Some d \<Rightarrow>
             if odr_NextHopGroupID d \<noteq> 0 then m1\<lparr>byNHGID := gm_put (odr_NextHopGroupID d) r (byNHGID m1)\<rparr>
             else if odr_NextHopIndex d \<noteq> 0 then m1\<lparr>byNHID := gm_put (odr_NextHopIndex d) r (byNHID m1)\<rparr>
             else if odr_IPv4Prefix d \<noteq> [] then m1\<lparr>byIPv4Prefix := gm_put (odr_IPv4Prefix d) r (byIPv4Prefix m1)\<rparr>
             else m1)"

text \<open>A nil result is dereferenced.\<close>

fun build_cache :: "ClientOpResult option list \<Rightarrow> results_cache \<Rightarrow> results_cache option" where
  "build_cache [] m = Some m"
| "build_cache (None # rs) m = None"
| "build_cache (Some r # rs) m = build_cache rs (cache_result r m)"

text \<open>A wanted result whose details name none of the three cached keys is not checked.\<close>

definition check_cached :: "results_cache \<Rightarrow> resultOpt list \<Rightarrow> ClientOpResult option \<Rightarrow> verdict" where
  "check_cached m opt wanto =
     (case wanto of
        None \<Rightarrow> Panics
      | Some want \<Rightarrow>
          if \<not> hasIgnoreOperationID opt then HasResult [gm_get (byOpID m) (cor_OperationID want)] wanto opt
          else
     (case cor_Details want of
        None \<Rightarrow> Fatal
      | Some d \<Rightarrow>
          if odr_NextHopGroupID d \<noteq> 0 then HasResult [gm_get (byNHGID m) (odr_NextHopGroupID d)] wanto opt
          else if odr_NextHopIndex d \<noteq> 0 then HasResult [gm_get (byNHID m) (odr_NextHopIndex d)] wanto opt
          else if odr_IPv4Prefix d \<noteq> [] then HasResult [gm_get (byIPv4Prefix m) (odr_IPv4Prefix d)] wanto opt
          else Pass))"

definition HasResultsCache :: "ClientOpResult option list \<Rightarrow> ClientOpResult option list \<Rightarrow> resultOpt list \<Rightarrow> verdict" where
  "HasResultsCache res wants opt =
     (case build_cache res empty_cache of
        None \<Rightarrow> Panics
      | Some m \<Rightarrow> all_pass (map (check_cached m opt) wants))"

subsection \<open>Errors\<close>

text \<open>The send and receive errors of a \<open>*client.ClientErr\<close>; any other error is of the wrong type.\<close>

definition clientError :: "client_err option \<Rightarrow> (client_err list \<times> client_err list) option" where
  "clientError eo = (case eo of Some (ClientErrs s r) \<Rightarrow> Some (s, r) | _ \<Rightarrow> None)"

definition HasNSendErrors :: "client_err option \<Rightarrow> nat \<Rightarrow> verdict" where
  "HasNSendErrors eo n =
     (if eo = None \<and> n = 0 then Pass
      else case clientError eo of None \<Rightarrow> Fatal | Some (s, r) \<Rightarrow> if length s \<noteq> n then Fatal else Pass)"

definition HasNRecvErrors :: "client_err option \<Rightarrow> nat \<Rightarrow> verdict" where
  "HasNRecvErrors eo n =
     (if eo = None \<and> n = 0 then Pass
      else case clientError eo of None \<Rightarrow> Fatal | Some (s, r) \<Rightarrow> if length r \<noteq> n then Fatal else Pass)"

datatype ErrorOpt = allowUnimplemented | ignoreDetails

text \<open>
  \<open>status.FromError\<close> of the gRPC library is an argument; \<open>codes.Unimplemented\<close> is 12.  The
  statuses accepted are the one wanted and those that the options add.
\<close>

definition code_Unimplemented :: nat where
  "code_Unimplemented = 12"

definition ok_statuses :: "'d status \<Rightarrow> ErrorOpt list \<Rightarrow> 'd status list" where
  "ok_statuses want opts = want # map (\<lambda>o'. case o' of
     allowUnimplemented \<Rightarrow> \<lparr>st_Code = code_Unimplemented, st_Message = [], st_Details = []\<rparr>
   | ignoreDetails \<Rightarrow> want\<lparr>st_Details := []\<rparr>) opts"

definition status_accepted :: "ErrorOpt list \<Rightarrow> 'd status \<Rightarrow> 'd status \<Rightarrow> bool" where
  "status_accepted opts s wo =
     (let ns = (if st_Message wo = [] then s\<lparr>st_Message := []\<rparr> else s);
          ns' = (if (allowUnimplemented \<in> set opts \<and> st_Code wo = code_Unimplemented) \<or> ignoreDetails \<in> set opts
                 then ns\<lparr>st_Details := []\<rparr> else ns)
      in ns' = wo)"

definition HasRecvClientErrorWithStatus ::
    "(client_err \<Rightarrow> ('d status) option) \<Rightarrow> client_err option \<Rightarrow> 'd status \<Rightarrow> ErrorOpt list \<Rightarrow> verdict" where
  "HasRecvClientErrorWithStatus FromError eo want opts =
     (case clientError eo of
        None \<Rightarrow> Fatal
      | Some (_, recv) \<Rightarrow>
          if list_ex (\<lambda>e. list_ex (\<lambda>wo. case FromError e of None \<Rightarrow> False | Some s \<Rightarrow> status_accepted opts s wo)
               (ok_statuses want opts)) recv
          then Pass else Fatal)"

subsection \<open>Entries of a Get\<close>

record entries_cache =
  ec_ipv4 :: "(string, AFTEntry) gomap"
  ec_nhg :: "(u64, AFTEntry) gomap"
  ec_nh :: "(u64, AFTEntry) gomap"

definition cache_entry :: "AFTEntry \<Rightarrow> entries_cache \<Rightarrow> entries_cache" where
  "cache_entry r ni =
     (case ae_Entry r of
        Some (AFTEntry_NextHopGroup e) \<Rightarrow> if nhgk_Id e \<noteq> 0 then ni\<lparr>ec_nhg := gm_put (nhgk_Id e) r (ec_nhg ni)\<rparr> else ni
      | Some (AFTEntry_NextHop e) \<Rightarrow> if nhk_Index e \<noteq> 0 then ni\<lparr>ec_nh := gm_put (nhk_Index e) r (ec_nh ni)\<rparr> else ni
      | Some (AFTEntry_Ipv4 e) \<Rightarrow> if v4k_Prefix e \<noteq> [] then ni\<lparr>ec_ipv4 := gm_put (v4k_Prefix e) r (ec_ipv4 ni)\<rparr> else ni
      | _ \<Rightarrow> ni)"

fun cache_entries :: "AFTEntry list \<Rightarrow> (string, entries_cache) gomap \<Rightarrow> (string, entries_cache) gomap" where
  "cache_entries [] m = m"
| "cache_entries (r # rs) m =
     (let ni = (case gm_get m (ae_NetworkInstance r) of None \<Rightarrow> \<lparr>ec_ipv4 = [], ec_nhg = [], ec_nh = []\<rparr> | Some c \<Rightarrow> c)
      in cache_entries rs (gm_put (ae_NetworkInstance r) (cache_entry r ni) m))"

text \<open>Only the key of a wanted entry is looked for.\<close>

definition check_entry :: "(string, entries_cache) gomap \<Rightarrow> GRIBIEntry \<Rightarrow> verdict" where
  "check_entry m want =
     (case EntryProto want of
        Inl e \<Rightarrow> Fatal
      | Inr wantProto \<Rightarrow>
          if ae_NetworkInstance wantProto = [] then Fatal
          else
     (case ae_Entry wantProto of
        None \<Rightarrow> Fatal
      | Some v \<Rightarrow>
     (case gm_get m (ae_NetworkInstance wantProto) of
        None \<Rightarrow> Fatal
      | Some ni \<Rightarrow>
     (case v of
        AFTEntry_NextHopGroup e \<Rightarrow> if gm_get (ec_nhg ni) (nhgk_Id e) = None then Fatal else Pass
      | AFTEntry_NextHop e \<Rightarrow> if gm_get (ec_nh ni) (nhk_Index e) = None then Fatal else Pass
      | AFTEntry_Ipv4 e \<Rightarrow> if gm_get (ec_ipv4 ni) (v4k_Prefix e) = None then Fatal else Pass
      | _ \<Rightarrow> Pass))))"

definition GetResponseHasEntries :: "GetResponse \<Rightarrow> GRIBIEntry list \<Rightarrow> verdict" where
  "GetResponseHasEntries getres wants = all_pass (map (check_entry (cache_entries getres [])) wants)"

end
