(* ===== verification/ChkProps.thy ===== *)
theory ChkProps
  imports Chk
begin

text \<open>
  \<open>HasResultsCache\<close> against the check it makes faster, and what \<open>GetResponseHasEntries\<close> finds.
\<close>

lemma all_pass_iff: "all_pass vs = Pass \<longleftrightarrow> (\<forall>v\<in>set vs. v = Pass)"
  by (induction vs) auto

lemma build_cache_append:
  "build_cache (xs @ ys) m = (case build_cache xs m of None \<Rightarrow> None | Some m' \<Rightarrow> build_cache ys m')"
  by (induction xs m rule: build_cache.induct) auto

text \<open>The last result of an operation, which is the one the cache keeps.\<close>

lemma build_cache_op:
  assumes "build_cache (map Some rs) m = Some m'"
  shows "gm_get (byOpID m') k =
    (case find (\<lambda>r. cor_OperationID r = k) (rev rs) of Some r \<Rightarrow> Some r | None \<Rightarrow> gm_get (byOpID m) k)"
  using assms
proof (induction rs arbitrary: m' rule: rev_induct)
  case (snoc r rs)
  from snoc.prems obtain m1 where m1: "build_cache (map Some rs) m = Some m1" "m' = cache_result r m1"
    by (auto simp: build_cache_append split: option.splits)
  have "gm_get (byOpID (cache_result r m1)) k = (if cor_OperationID r = k then Some r else gm_get (byOpID m1) k)"
    by (auto simp: cache_result_def Let_def gomap split: option.split)
  with snoc.IH [OF m1(1)] m1(2) show ?case by simp
qed simp

lemma build_cache_total: "\<exists>m'. build_cache (map Some rs) m = Some m'"
  by (induction rs arbitrary: m) auto

lemma find_SomeD: "find P xs = Some x \<Longrightarrow> x \<in> set xs \<and> P x"
  by (auto simp: find_Some_iff)

lemma find_unique:
  assumes "distinct (map f rs)"
  shows "find (\<lambda>r. f r = k) (rev rs) = Some r \<longleftrightarrow> r \<in> set rs \<and> f r = k"
proof
  assume "r \<in> set rs \<and> f r = k"
  then obtain r' where r': "find (\<lambda>r. f r = k) (rev rs) = Some r'"
    by (metis (mono_tags, lifting) find_None_iff not_None_eq set_rev)
  with find_SomeD [OF r'] assms \<open>r \<in> set rs \<and> f r = k\<close> have "r' = r" by (auto simp: distinct_map inj_on_def)
  with r' show "find (\<lambda>r. f r = k) (rev rs) = Some r" by simp
qed (auto dest: find_SomeD)


definition ack_result :: "u64 \<Rightarrow> AFTResult_Status \<Rightarrow> ClientOpResult" where
  "ack_result i st = zero_OpResult\<lparr>cor_OperationID := i, cor_ProgrammingResult := st,
     cor_Details := Some (zero_details\<lparr>odr_Type := Add, odr_NextHopIndex := i\<rparr>)\<rparr>"


text \<open>
  The condition on the operations is needed: with FIB acknowledgements an operation has two
  results, of which the cache keeps the last.  And when identifiers are ignored, a wanted
  IPv6 or MPLS result is not looked for at all.
\<close>

lemma results_cache_loses_rib_ack:
  "(let res = [Some (ack_result 1 RIB_PROGRAMMED), Some (ack_result 1 FIB_PROGRAMMED)];
        want = Some (WithProgrammingResult InstalledInRIB (WithOperationID 1 OperationResult))
    in HasResult res want [] = Pass \<and> HasResultsCache res [want] [] = Fatal)"
  by code_simp

lemma results_cache_skips_ipv6:
  "(let want = Some (WithProgrammingResult InstalledInRIB (WithIPv6Operation ''2001:db8::/32'' OperationResult))
    in HasResult [] want [ignoreOpID] = Fatal \<and> HasResultsCache [] [want] [ignoreOpID] = Pass)"
  by code_simp

subsection \<open>Entries of a Get\<close>

text \<open>The cache of a network instance holds the entries of that instance, and only those.\<close>

lemma cache_entries_get:
  "gm_get (cache_entries rs m) n =
     (if n \<in> ae_NetworkInstance ` set rs
      then Some (fold cache_entry (filter (\<lambda>r. ae_NetworkInstance r = n) rs)
        (case gm_get m n of None \<Rightarrow> \<lparr>ec_ipv4 = [], ec_nhg = [], ec_nh = []\<rparr> | Some c \<Rightarrow> c))
      else gm_get m n)"
proof (induction rs arbitrary: m)
  case (Cons r rs)
  show ?case
  proof (cases "n \<in> ae_NetworkInstance ` set rs")
    case True
    then show ?thesis by (auto simp: Cons.IH gomap Let_def)
  next
    case False
    then have "filter (\<lambda>r. ae_NetworkInstance r = n) rs = []" by (auto simp: filter_empty_conv)
    with False show ?thesis by (auto simp: Cons.IH gomap Let_def)
  qed
qed simp

definition nhg_with :: "u64 \<Rightarrow> AFTEntry \<Rightarrow> bool" where
  "nhg_with k r \<longleftrightarrow> k \<noteq> 0 \<and> (case ae_Entry r of Some (AFTEntry_NextHopGroup e) \<Rightarrow> nhgk_Id e = k | _ \<Rightarrow> False)"

definition nh_with :: "u64 \<Rightarrow> AFTEntry \<Rightarrow> bool" where
  "nh_with k r \<longleftrightarrow> k \<noteq> 0 \<and> (case ae_Entry r of Some (AFTEntry_NextHop e) \<Rightarrow> nhk_Index e = k | _ \<Rightarrow> False)"

definition ipv4_with :: "string \<Rightarrow> AFTEntry \<Rightarrow> bool" where
  "ipv4_with k r \<longleftrightarrow> k \<noteq> [] \<and> (case ae_Entry r of Some (AFTEntry_Ipv4 e) \<Rightarrow> v4k_Prefix e = k | _ \<Rightarrow> False)"

lemmas with_defs = nhg_with_def nh_with_def ipv4_with_def

lemma fold_cache_entry:
  "gm_get (ec_nhg (fold cache_entry rs c)) k \<noteq> None \<longleftrightarrow> gm_get (ec_nhg c) k \<noteq> None \<or> list_ex (nhg_with k) rs"
  "gm_get (ec_nh (fold cache_entry rs c)) k \<noteq> None \<longleftrightarrow> gm_get (ec_nh c) k \<noteq> None \<or> list_ex (nh_with k) rs"
  "gm_get (ec_ipv4 (fold cache_entry rs c)) p \<noteq> None \<longleftrightarrow> gm_get (ec_ipv4 c) p \<noteq> None \<or> list_ex (ipv4_with p) rs"
proof (induction rs arbitrary: c)
  case (Cons r rs)
  {
    case 1
    have "gm_get (ec_nhg (cache_entry r c)) k \<noteq> None \<longleftrightarrow> gm_get (ec_nhg c) k \<noteq> None \<or> nhg_with k r"
      by (auto simp: cache_entry_def with_defs gomap split: option.split AFTEntry_Entry.split)
    with Cons.IH(1) [of "cache_entry r c"] show ?case by simp
  next
    case 2
    have "gm_get (ec_nh (cache_entry r c)) k \<noteq> None \<longleftrightarrow> gm_get (ec_nh c) k \<noteq> None \<or> nh_with k r"
      by (auto simp: cache_entry_def with_defs gomap split: option.split AFTEntry_Entry.split)
    with Cons.IH(2) [of "cache_entry r c"] show ?case by simp
  next
    case 3
    have "gm_get (ec_ipv4 (cache_entry r c)) p \<noteq> None \<longleftrightarrow> gm_get (ec_ipv4 c) p \<noteq> None \<or> ipv4_with p r"
      by (auto simp: cache_entry_def with_defs gomap split: option.split AFTEntry_Entry.split)
    with Cons.IH(3) [of "cache_entry r c"] show ?case by simp
  }
qed simp_all

lemma fold_cache_entry_None:
  "gm_get (ec_nhg (fold cache_entry rs c)) k = None \<longleftrightarrow> gm_get (ec_nhg c) k = None \<and> \<not> list_ex (nhg_with k) rs"
  "gm_get (ec_nh (fold cache_entry rs c)) k = None \<longleftrightarrow> gm_get (ec_nh c) k = None \<and> \<not> list_ex (nh_with k) rs"
  "gm_get (ec_ipv4 (fold cache_entry rs c)) p = None \<longleftrightarrow> gm_get (ec_ipv4 c) p = None \<and> \<not> list_ex (ipv4_with p) rs"
  using fold_cache_entry by blast+

text \<open>
  What a check finds for a wanted entry: an entry of the same kind and key in the same network
  instance; for an IPv6 or an MPLS entry, any entry at all of that instance.
\<close>

definition entry_key_in :: "GetResponse \<Rightarrow> AFTEntry \<Rightarrow> bool" where
  "entry_key_in getres want =
     list_ex (\<lambda>r. ae_NetworkInstance r = ae_NetworkInstance want \<and>
       (case ae_Entry want of
          None \<Rightarrow> False
        | Some (AFTEntry_NextHopGroup e) \<Rightarrow> nhg_with (nhgk_Id e) r
        | Some (AFTEntry_NextHop e) \<Rightarrow> nh_with (nhk_Index e) r
        | Some (AFTEntry_Ipv4 e) \<Rightarrow> ipv4_with (v4k_Prefix e) r
        | Some _ \<Rightarrow> True)) getres"

lemma check_entry_iff:
  "check_entry (cache_entries getres []) want = Pass \<longleftrightarrow>
     (\<exists>wp. EntryProto want = Inr wp \<and> ae_NetworkInstance wp \<noteq> [] \<and> entry_key_in getres wp)"
proof (cases "EntryProto want")
  case (Inr wp)
  let ?n = "ae_NetworkInstance wp"
  have p: "list_ex (\<lambda>r. ae_NetworkInstance r = ?n \<and> P r) getres \<longleftrightarrow>
      ?n \<in> ae_NetworkInstance ` set getres \<and> list_ex P (filter (\<lambda>r. ae_NetworkInstance r = ?n) getres)" for P
    unfolding list_ex_iff set_filter image_iff by (metis (mono_tags, lifting) mem_Collect_eq)
  have p': "list_ex (\<lambda>r. ae_NetworkInstance r = ?n) getres \<longleftrightarrow> ?n \<in> ae_NetworkInstance ` set getres"
    unfolding list_ex_iff image_iff by metis
  show ?thesis
  proof (cases "ae_Entry wp")
    case (Some v)
    show ?thesis
    proof (cases "?n \<in> ae_NetworkInstance ` set getres")
      case True
      from True Inr Some show ?thesis
        by (cases v) (simp_all add: check_entry_def entry_key_in_def cache_entries_get p p' gomap fold_cache_entry_None)
    next
      case False
      with Inr Some show ?thesis by (cases v) (simp_all add: check_entry_def entry_key_in_def cache_entries_get p p' gomap)
    qed
  qed (use Inr in \<open>simp add: check_entry_def entry_key_in_def list_ex_iff\<close>)
qed (simp add: check_entry_def)

lemma get_response_has_entries:
  "GetResponseHasEntries getres wants = Pass \<longleftrightarrow>
     (\<forall>want\<in>set wants. \<exists>wp. EntryProto want = Inr wp \<and> ae_NetworkInstance wp \<noteq> [] \<and> entry_key_in getres wp)"
  by (simp add: GetResponseHasEntries_def all_pass_iff check_entry_iff)

text \<open>An entry is found whatever the next-hop group it points to.\<close>

lemma has_entries_ignores_contents:
  "(let e = ipv4Entry_WithPrefix ''1.0.0.0/8'' (ipv4Entry_WithNetworkInstance ''DEFAULT'' IPv4Entry)
    in case EntryProto (ipv4Entry_GRIBIEntry (ipv4Entry_WithNextHopGroup 1 e)) of
         Inr r \<Rightarrow> GetResponseHasEntries [r] [ipv4Entry_GRIBIEntry (ipv4Entry_WithNextHopGroup 2 e)] = Pass
       | Inl _ \<Rightarrow> False)"
  by code_simp

end
