(* ===== verification/Netip.thy ===== *)
theory Netip
  imports Prelude
begin

text \<open>
  What the repository uses of Go's \<open>net/netip\<close>: whether \<open>ParsePrefix\<close> accepts a string, and
  whether the address is an IPv4 one.  One definition per function of the package; the bytes
  of the address are not kept.
\<close>

definition digit_val :: "char \<Rightarrow> nat" where
  "digit_val c = of_char c - of_char CHR ''0''"

definition is_digit :: "char \<Rightarrow> bool" where
  "is_digit c \<longleftrightarrow> 48 \<le> (of_char c :: nat) \<and> (of_char c :: nat) \<le> 57"

definition is_hex :: "char \<Rightarrow> bool" where
  "is_hex c \<longleftrightarrow> is_digit c \<or> 97 \<le> (of_char c :: nat) \<and> (of_char c :: nat) \<le> 102 \<or>
     65 \<le> (of_char c :: nat) \<and> (of_char c :: nat) \<le> 70"

text \<open>\<open>parseIPv4Fields\<close>, with the fields completed, the digits of the current one and its value.\<close>

fun parseIPv4Fields :: "string \<Rightarrow> nat \<Rightarrow> nat \<Rightarrow> nat \<Rightarrow> bool" where
  "parseIPv4Fields [] pos digLen val = (pos = 3)"
| "parseIPv4Fields (c # s) pos digLen val =
     (if is_digit c then
        (if digLen = 1 \<and> val = 0 \<or> 255 < val * 10 + digit_val c then False
         else parseIPv4Fields s pos (Suc digLen) (val * 10 + digit_val c))
      else if c = CHR ''.'' then
        (if digLen = 0 \<or> s = [] \<or> pos = 3 then False else parseIPv4Fields s (Suc pos) 0 0)
      else False)"

text \<open>
  The loop of \<open>parseIPv6\<close>: the 16-bit groups left, whether an ellipsis was seen, and the rest
  of the string; \<open>None\<close> is an error.
\<close>

fun parseIPv6_loop :: "nat \<Rightarrow> bool \<Rightarrow> string \<Rightarrow> (nat \<times> bool \<times> string) option" where
  "parseIPv6_loop 0 ell s = Some (0, ell, s)"
| "parseIPv6_loop (Suc n) ell s =
     (let h = takeWhile is_hex s
      in if length h = 0 \<or> 4 < length h then None
         else case dropWhile is_hex s of
           [] \<Rightarrow> Some (n, ell, [])
         | c # r \<Rightarrow>
             if c = CHR ''.'' then
               (if \<not> ell \<and> n \<noteq> 1 \<or> n = 0 \<or> \<not> parseIPv4Fields s 0 0 0 then None else Some (n - 1, ell, []))
             else if c \<noteq> CHR '':'' \<or> r = [] then None
             else if hd r = CHR '':'' then
               (if ell then None
                else if tl r = [] then Some (n, True, []) else parseIPv6_loop n True (tl r))
             else parseIPv6_loop n ell r)"

text \<open>An address with a zone is refused by \<open>ParsePrefix\<close> in any case.\<close>

definition parseIPv6 :: "string \<Rightarrow> bool" where
  "parseIPv6 s =
     (if CHR ''%'' \<in> set s then False
      else
       (let ell = (take 2 s = ''::''); s1 = (if ell then drop 2 s else s)
        in if ell \<and> s1 = [] then True
           else case parseIPv6_loop 8 ell s1 of
             None \<Rightarrow> False
           | Some (n, ell', rest) \<Rightarrow> rest = [] \<and> (if 0 < n then ell' else \<not> ell')))"

text \<open>The result says whether the address is an IPv4 one.\<close>

definition ParseAddr :: "string \<Rightarrow> bool option" where
  "ParseAddr s =
     (case List.find (\<lambda>c. c = CHR ''.'' \<or> c = CHR '':'' \<or> c = CHR ''%'') s of
        None \<Rightarrow> None
      | Some c \<Rightarrow>
          if c = CHR ''.'' then (if parseIPv4Fields s 0 0 0 then Some True else None)
          else if c = CHR '':'' then (if parseIPv6 s then Some False else None)
          else None)"

text \<open>The digits after the slash: no sign, no leading zero, at most the length of the address.\<close>

definition bits_ok :: "nat \<Rightarrow> string \<Rightarrow> bool" where
  "bits_ok maxBits b \<longleftrightarrow> b \<noteq> [] \<and> list_all is_digit b \<and> (1 < length b \<longrightarrow> hd b \<noteq> CHR ''0'') \<and>
     foldl (\<lambda>v c. v * 10 + digit_val c) 0 b \<le> maxBits"

definition ParsePrefix :: "string \<Rightarrow> bool option" where
  "ParsePrefix s =
     (if CHR ''/'' \<notin> set s then None
      else
       (let bits = rev (takeWhile (\<lambda>c. c \<noteq> CHR ''/'') (rev s));
            addr = rev (tl (dropWhile (\<lambda>c. c \<noteq> CHR ''/'') (rev s)))
        in case ParseAddr addr of
             None \<Rightarrow> None
           | Some is4 \<Rightarrow> if bits_ok (if is4 then 32 else 128) bits then Some is4 else None))"

lemma ParsePrefix_examples:
  "map ParsePrefix [''1.0.0.0/8'', ''10.0.0.0/33'', ''1.2.3/8'', ''01.2.3.4/8'', ''1.2.3.4'', ''2001:db8::/32'',
     ''::ffff:1.2.3.4/128'', ''::/0'', ''1:2:3:4:5:6:7::/64'', ''1:2:3:4:5:6:7:8::/64'', ''fe80::1%eth0/64'', ''::1/08''] =
   [Some True, None, None, None, None, Some False, Some False, Some False, Some False, None, None, None]"
  by code_simp

end
