(* ===== verification/AftHelper.thy ===== *)
theory AftHelper
  imports Netip Rib
begin

text \<open>
  \<open>afthelper/afthelper.go\<close>: the next-hops that a prefix resolves to in a copy of the RIBs.
  The errors of the code are the constructors of \<open>afthelper_err\<close>.
\<close>

record NextHopSummary =
  nhs_Weight :: u64
  nhs_Address :: string
  nhs_NetworkInstance :: string
  nhs_Index :: u64

datatype afthelper_err =
    NoSuchNetworkInstance string | InvalidPrefix string | NoIPv4PrefixInAFT | NoIPv6PrefixInAFT
  | GotInvalidNI string | GotUnknownNHG u64 string | InvalidNextHopAddr u64

text \<open>The weights by index; a missing leaf reads as zero.\<close>

definition nhg_weights :: "Afts_NextHopGroup \<Rightarrow> (u64, u64) gomap" where
  "nhg_weights g = fold (\<lambda>(k, nh). 
     gm_put (Afts_NextHopGroup_NextHop_GetIndex (Some nh)) (Afts_NextHopGroup_NextHop_GetWeight (Some nh))) (nhg_NextHop g) []"

text \<open>The loop over the weights, in the order of the map; a later next-hop with the same
  address replaces an earlier one.\<close>

fun summaries :: "aft_RIB \<Rightarrow> string \<Rightarrow> (u64, u64) gomap \<Rightarrow> (string, NextHopSummary) gomap \<Rightarrow>
    afthelper_err + (string, NextHopSummary) gomap" where
  "summaries a nhNI [] ret = Inr ret"
| "summaries a nhNI ((nhID, w) # ws) ret =
     (let nh = Afts_NextHop_GetIpAddress (Afts_GetNextHop nhID a)
      in if nh = [] then Inl (InvalidNextHopAddr nhID)
         else summaries a nhNI ws (gm_put nh \<lparr>nhs_Weight = w, nhs_Address = nh, nhs_NetworkInstance = nhNI, nhs_Index = nhID\<rparr> ret))"

definition NextHopAddrsForPrefix ::
    "(string, aft_RIB) gomap \<Rightarrow> string \<Rightarrow> string \<Rightarrow> afthelper_err + (string, NextHopSummary) gomap" where
  "NextHopAddrsForPrefix rib netinst prefix =
     (case gm_get rib netinst of
        None \<Rightarrow> Inl (NoSuchNetworkInstance netinst)
      | Some niAFT \<Rightarrow>
     (case ParsePrefix prefix of
        None \<Rightarrow> Inl (InvalidPrefix prefix)
      | Some is4 \<Rightarrow>
     (case (if is4 then
              (case Afts_GetIpv4Entry prefix niAFT of
                 None \<Rightarrow> Inl NoIPv4PrefixInAFT
               | Some v4 \<Rightarrow> Inr (Afts_Ipv4Entry_GetNextHopGroupNetworkInstance (Some v4), Afts_Ipv4Entry_GetNextHopGroup (Some v4)))
            else
              (case Afts_GetIpv6Entry prefix niAFT of
                 None \<Rightarrow> Inl NoIPv6PrefixInAFT
               | Some v6 \<Rightarrow> Inr (Afts_Ipv6Entry_GetNextHopGroupNetworkInstance (Some v6), Afts_Ipv6Entry_GetNextHopGroup (Some v6)))) of
        Inl e \<Rightarrow> Inl e
      | Inr (otherNI, nhgID) \<Rightarrow>
     (let nhNI = (if otherNI \<noteq> [] then otherNI else netinst)
      in case gm_get rib nhNI of
           None \<Rightarrow> Inl (GotInvalidNI nhNI)
         | Some nhAFT \<Rightarrow>
     (case Afts_GetNextHopGroup nhgID nhAFT of
        None \<Rightarrow> Inl (GotUnknownNHG nhgID nhNI)
      | Some nhg \<Rightarrow> summaries nhAFT nhNI (nhg_weights nhg) [])))))"

end
