(* ===== verification/AftHelperProps.thy ===== *)
theory AftHelperProps
  imports AftHelper ReconcileSample
begin

text \<open>
  Resolving a stored prefix: on the contents of a RIB whose references all resolve, the only
  way to fail is a next-hop without an address.
\<close>

lemma fold_put_fresh:
  "distinct (map f xs) \<Longrightarrow> \<forall>x\<in>set xs. gm_get m (f x) = None \<Longrightarrow>
    fold (\<lambda>x. gm_put (f x) (v x)) xs m = m @ map (\<lambda>x. (f x, v x)) xs"
proof (induction xs arbitrary: m)
  case (Cons x xs)
  then have "\<forall>y\<in>set xs. gm_get (gm_put (f x) (v x) m) (f y) = None" by (auto simp: gomap)
  with Cons show ?case by (simp add: gm_put_absent)
qed simp

lemma nhg_weights_wf:
  assumes "group_wf g"
  shows "nhg_weights g = map (\<lambda>(i, n). (i, uval (nhgnh_Weight n))) (nhg_NextHop g)"
proof -
  have i: "\<forall>p\<in>set (nhg_NextHop g). uval (nhgnh_Index (snd p)) = fst p" using assms by (simp add: group_wf_def)
  then have "map (\<lambda>p. uval (nhgnh_Index (snd p))) (nhg_NextHop g) = map fst (nhg_NextHop g)" by simp
  then have "distinct (map (\<lambda>p. uval (nhgnh_Index (snd p))) (nhg_NextHop g))" using assms by (simp only: group_wf_def)
  from fold_put_fresh [OF this, of "[]" "\<lambda>p. uval (nhgnh_Weight (snd p))"] i show ?thesis
    by (simp add: nhg_weights_def case_prod_unfold)
qed

text \<open>The address of a next-hop, empty for one that has none or is not stored.\<close>

definition addr_in :: "Afts \<Rightarrow> u64 \<Rightarrow> string" where
  "addr_in a i = (case gm_get (aft_NextHop a) i of None \<Rightarrow> [] | Some n \<Rightarrow> sval (nh_IpAddress n))"

definition summary :: "Afts \<Rightarrow> string \<Rightarrow> u64 \<times> u64 \<Rightarrow> NextHopSummary" where
  "summary a ni p = \<lparr>nhs_Weight = snd p, nhs_Address = addr_in a (fst p), nhs_NetworkInstance = ni, nhs_Index = fst p\<rparr>"

lemma summaries_result:
  "case summaries (Some a) ni ws ret of
     Inl e \<Rightarrow> \<exists>p\<in>set ws. addr_in a (fst p) = [] \<and> e = InvalidNextHopAddr (fst p)
   | Inr m \<Rightarrow> (\<forall>p\<in>set ws. addr_in a (fst p) \<noteq> []) \<and>
       fst ` set m = fst ` set ret \<union> (addr_in a \<circ> fst) ` set ws \<and>
       (\<forall>q\<in>set m. q \<in> set ret \<or> (\<exists>p\<in>set ws. q = (addr_in a (fst p), summary a ni p)))"
proof (induction ws arbitrary: ret)
  case (Cons p ws)
  obtain i w where p: "p = (i, w)" by (cases p)
  show ?case
  proof (cases "addr_in a i = []")
    case True
    then show ?thesis by (simp add: p addr_in_def Let_def)
  next
    case False
    let ?ret = "gm_put (addr_in a i) (summary a ni p) ret"
    have step: "summaries (Some a) ni (p # ws) ret = summaries (Some a) ni ws ?ret"
      using False by (simp add: p summary_def addr_in_def Let_def)
    have k: "fst ` set ?ret = insert (addr_in a i) (fst ` set ret)" by (simp add: AList.dom_update)
    have s: "set ?ret \<subseteq> insert (addr_in a i, summary a ni p) (set ret)" by (induction ret) auto
    show ?thesis
    proof (cases "summaries (Some a) ni ws ?ret")
      case (Inl e)
      with Cons.IH [of ?ret] step show ?thesis by (auto simp: p)
    next
      case (Inr m)
      with Cons.IH [of ?ret] have m: "\<forall>p\<in>set ws. addr_in a (fst p) \<noteq> []"
          "fst ` set m = fst ` set ?ret \<union> (addr_in a \<circ> fst) ` set ws"
          "\<forall>q\<in>set m. q \<in> set ?ret \<or> (\<exists>p\<in>set ws. q = (addr_in a (fst p), summary a ni p))" by simp_all
      have "\<forall>q\<in>set m. q \<in> set ret \<or> (\<exists>p'\<in>set (p # ws). q = (addr_in a (fst p'), summary a ni p'))"
        using m(3) s by (fastforce simp: p)
      moreover have "fst ` set m = fst ` set ret \<union> (addr_in a \<circ> fst) ` set (p # ws)"
        using m(2) k by (simp add: p)
      ultimately show ?thesis using m(1) False step Inr by (simp add: p)
    qed
  qed
qed simp

text \<open>The next-hop-group that a prefix of one of the two address families refers to.\<close>

definition prefix_ref :: "Afts \<Rightarrow> bool \<Rightarrow> string \<Rightarrow> nhg_ref option" where
  "prefix_ref a is4 p = (if is4 then map_option v4_ref (gm_get (Ipv4Entry a) p) else map_option v6_ref (gm_get (Ipv6Entry a) p))"

lemma prefix_ref_raw: "prefix_ref a is4 p = Some ref \<Longrightarrow> ref \<in># raw_refs a"
  by (fastforce simp: prefix_ref_def raw_refs_in dest: map_of_SomeD split: if_splits)

definition contents :: "(string, Afts) gomap \<Rightarrow> (string, aft_RIB) gomap" where
  "contents c = map (\<lambda>(n, a). (n, Some a)) c"

lemma lookup_unfold:
  assumes "gm_get (niRIB r) ni = Some h" and "ParsePrefix p = Some is4" and "prefix_ref (afts h) is4 p = Some ref"
    and "gm_get (niRIB r) (fst (resolve_ref ni ref)) = Some h'"
    and "gm_get (aft_NextHopGroup (afts h')) (snd (resolve_ref ni ref)) = Some nhg"
  shows "NextHopAddrsForPrefix (contents (rib_tables r)) ni p = summaries (Some (afts h')) (fst (resolve_ref ni ref)) (nhg_weights nhg) []"
proof -
  have c: "gm_get (contents (rib_tables r)) n = map_option (\<lambda>h. Some (afts h)) (gm_get (niRIB r) n)" for n
    by (simp add: contents_def map_of_map rib_tables_get option.map_comp o_def)
  show ?thesis
    using assms by (auto simp: NextHopAddrsForPrefix_def c prefix_ref_def resolve_ref_def v4_ref_def v6_ref_def Let_def split: if_splits)
qed


text \<open>A route through two next-hops with addresses.\<close>

definition addr_op :: "u64 \<Rightarrow> u64 \<Rightarrow> string \<Rightarrow> AFTOperation" where
  "addr_op i idx ip = (nh_op i Op_ADD idx)\<lparr>op_Entry := Some (AFTOp_NextHop (Some \<lparr>nhk_Index = idx, nhk_NextHop = Some
     \<lparr>nhpb_IpAddress = Some ip, nhpb_InterfaceRef = None, nhpb_MacAddress = None, nhpb_IpInIp = None, nhpb_NetworkInstance = None,
      nhpb_PopTopLabel = None, nhpb_PushedMplsLabelStack = [], nhpb_EncapHeader = [], nhpb_DecapsulateHeader = ENCAP_UNSET,
      nhpb_EncapsulateHeader = ENCAP_UNSET\<rparr>\<rparr>))\<rparr>"

definition routed1 :: RIB where "routed1 = sample_add (addr_op 1 1 ''192.0.2.1'') sample0"
definition routed2 :: RIB where "routed2 = sample_add (addr_op 2 2 ''192.0.2.2'') routed1"
definition routed3 :: RIB where "routed3 = sample_add (nhg_op 3 Op_ADD 1 [1, 2] None) routed2"
definition routed4 :: RIB where "routed4 = sample_add (v4_op 4 Op_ADD ''1.0.0.0/8'' 1) routed3"

lemma routed_reach: "rib_reach sample_env False routed4"
proof -
  have a: "acceptable sample0 ''DEFAULT'' (addr_op 1 1 ''192.0.2.1'')" "acceptable routed1 ''DEFAULT'' (addr_op 2 2 ''192.0.2.2'')"
    "acceptable routed2 ''DEFAULT'' (nhg_op 3 Op_ADD 1 [1, 2] None)" "acceptable routed3 ''DEFAULT'' (v4_op 4 Op_ADD ''1.0.0.0/8'' 1)"
    by code_simp+
  have n: "room routed1" "room routed2" "room routed3" by (rule small_room, code_simp)+
  have 1: "rib_reach sample_env False routed1"
    unfolding routed1_def by (rule sample_step [OF sample_reach(1) sample_room(1) a(1)])
  have 2: "rib_reach sample_env False routed2" unfolding routed2_def by (rule sample_step [OF 1 n(1) a(2)])
  have 3: "rib_reach sample_env False routed3" unfolding routed3_def by (rule sample_step [OF 2 n(2) a(3)])
  show ?thesis unfolding routed4_def by (rule sample_step [OF 3 n(3) a(4)])
qed


end
