(* ===== verification/TestBed.thy ===== *)
theory TestBed
  imports Chk Device Sample Netip
begin

text \<open>
  What the compliance tests run on: a device, and two fluent clients whose Modify streams end at
  its server.  This is the system the tests drive, put together from the models of its parts;
  the tests themselves are in the theories that follow.

  Messages move when a test waits (\<open>Await\<close>), when a client stops, and when its channel is full:
  the sender then writes its messages to the stream, the server handles them one by one, and
  the receiver reads the answers.  No test sends on a stream after the server has ended it.
\<close>

subsection \<open>Libraries\<close>

text \<open>The libraries below the RIB, of which the sample ones are extended by the validation of IPv4 prefixes.\<close>

definition suite_env :: rib_env where
  "suite_env = sample_env\<lparr>candidate := (\<lambda>a.
     if list_all (\<lambda>e. ParsePrefix (v4k_Prefix e) \<noteq> None) (pb_Ipv4Entry a) then candidate sample_env a
     else Inl ''invalid prefix'')\<rparr>"

subsection \<open>Errors on the wire\<close>

text \<open>
  A gRPC error reaches the client as a string from which \<open>status.FromError\<close> recovers the code
  and the details: here they are written in unary.
\<close>

definition code_number :: "rpc_code \<Rightarrow> nat" where
  "code_number c = (case c of Internal \<Rightarrow> 13 | InvalidArgument \<Rightarrow> 3 | FailedPrecondition \<Rightarrow> 9 | Unimplemented \<Rightarrow> 12
     | Code_Unknown \<Rightarrow> 2)"

definition reasons :: "modify_reason list" where
  "reasons = [Reason_UNKNOWN, MODIFY_NOT_ALLOWED, UNSUPPORTED_PARAMS, PARAMS_DIFFER_FROM_OTHER_CLIENTS,
     ELECTION_ID_IN_ALL_PRIMARY_modify]"

definition flush_statuses :: "flush_status list" where
  "flush_statuses = [UNSPECIFIED_NETWORK_INSTANCE, INVALID_NETWORK_INSTANCE, UNSPECIFIED_ELECTION_BEHAVIOR,
     ELECTION_ID_IN_ALL_PRIMARY, INVALID_ELECTION_ID, NOT_PRIMARY]"

fun position :: "'a \<Rightarrow> 'a list \<Rightarrow> nat" where
  "position x [] = 0"
| "position x (y # ys) = (if x = y then 0 else Suc (position x ys))"

definition unary :: "char \<Rightarrow> 'a list \<Rightarrow> 'a option \<Rightarrow> string" where
  "unary c xs xo = (case xo of None \<Rightarrow> [] | Some x \<Rightarrow> replicate (Suc (position x xs)) c)"

definition from_unary :: "char \<Rightarrow> 'a list \<Rightarrow> string \<Rightarrow> 'a list" where
  "from_unary c xs s = (case length (filter (\<lambda>d. d = c) s) of 0 \<Rightarrow> [] | Suc n \<Rightarrow> [xs ! n])"

definition wire_error :: "srv_err \<Rightarrow> string" where
  "wire_error e = replicate (code_number (err_code e)) CHR ''c'' @ unary CHR ''m'' reasons (modify_detail e) @
     unary CHR ''f'' flush_statuses (flush_detail e)"

definition wire_code :: "string \<Rightarrow> nat" where
  "wire_code s = length (filter (\<lambda>d. d = CHR ''c'') s)"

definition modify_FromError :: "client_err \<Rightarrow> modify_reason status option" where
  "modify_FromError e = (case e of
     StreamErr s \<Rightarrow> Some \<lparr>st_Code = wire_code s, st_Message = ''error'', st_Details = from_unary CHR ''m'' reasons s\<rparr>
   | _ \<Rightarrow> None)"

definition flush_FromError :: "client_err \<Rightarrow> flush_status status option" where
  "flush_FromError e = (case e of
     FlushErrStatus s \<Rightarrow> Some \<lparr>st_Code = wire_code s, st_Message = ''error'', st_Details = from_unary CHR ''f'' flush_statuses s\<rparr>
   | _ \<Rightarrow> None)"

subsection \<open>State\<close>

text \<open>The two clients: the one of every test, and the one of \<open>SecondClient\<close>.\<close>

datatype who = ClientA | ClientB

record lab =
  lab_srv :: Server
  lab_A :: FluentClient
  lab_B :: FluentClient
  lab_streams :: "(who, string \<times> bool) gomap"
  lab_ids :: "string list"
  lab_electionID :: u64

text \<open>
  \<open>lab_streams\<close> holds, for a stream that the server serves, the client's identifier (drawn from
  \<open>lab_ids\<close>) and whether a message has been received; \<open>lab_electionID\<close> is the variable
  \<open>electionID\<close> of the tests.
\<close>

definition lab_client :: "who \<Rightarrow> lab \<Rightarrow> FluentClient" where
  "lab_client w l = (case w of ClientA \<Rightarrow> lab_A l | ClientB \<Rightarrow> lab_B l)"

definition set_lab_client :: "who \<Rightarrow> FluentClient \<Rightarrow> lab \<Rightarrow> lab" where
  "set_lab_client w g l = (case w of ClientA \<Rightarrow> l\<lparr>lab_A := g\<rparr> | ClientB \<Rightarrow> l\<lparr>lab_B := g\<rparr>)"

definition set_fc :: "who \<Rightarrow> Client \<Rightarrow> lab \<Rightarrow> lab" where
  "set_fc w c l = set_lab_client w ((lab_client w l)\<lparr>fc := Some c\<rparr>) l"

subsection \<open>The network\<close>

text \<open>The sender writes every message of its channel to the stream.\<close>

fun drain :: "nat \<Rightarrow> Client \<Rightarrow> ModifyRequest list \<times> Client" where
  "drain 0 c = ([], c)"
| "drain (Suc n) c =
     (case sender_step None c of
        None \<Rightarrow> ([], c)
      | Some (None, c') \<Rightarrow> ([], c')
      | Some (Some m, c') \<Rightarrow> (case drain n c' of (ms, c'') \<Rightarrow> (m # ms, c'')))"

definition drain_all :: "Client \<Rightarrow> ModifyRequest list \<times> Client" where
  "drain_all c = (if sender c then drain (Suc (length (modifyCh (qs c)))) c else ([], c))"

fun receive_all :: "recv_event list \<Rightarrow> Client \<Rightarrow> Client" where
  "receive_all [] c = c"
| "receive_all (e # es) c = (if receiver c then receive_all es (receiver_step False (\<lambda>_. 0) e c) else c)"

text \<open>
  The server handles the messages of a stream, and the end of the stream when the client has
  closed it; a stream that ends, or fails, is no longer served.  A run of the server that does
  not end (\<open>None\<close>) leaves everything as it is.
\<close>

definition server_turn :: "who \<Rightarrow> ModifyRequest list \<Rightarrow> bool \<Rightarrow> lab \<Rightarrow> recv_event list \<times> lab" where
  "server_turn w ms closed l =
     (case gm_get (lab_streams l) w of
        None \<Rightarrow> ([], l)
      | Some (cid, got) \<Rightarrow>
     (case modify_stream suite_env in_order cid got (map Some ms) (lab_srv l) of
        None \<Rightarrow> ([], l)
      | Some (out, err, s) \<Rightarrow>
          (let l' = l\<lparr>lab_srv := s, lab_streams := gm_put w (cid, got \<or> ms \<noteq> []) (lab_streams l)\<rparr>;
               ended = l'\<lparr>lab_srv := deleteClient cid s, lab_streams := gm_del w (lab_streams l)\<rparr>
           in case err of
                Some e \<Rightarrow> (map (\<lambda>m. RecvMsg (Some m)) out @ [RecvErr (wire_error e)], ended)
              | None \<Rightarrow> if closed then (map (\<lambda>m. RecvMsg (Some m)) out @ [RecvEOF], ended)
                        else (map (\<lambda>m. RecvMsg (Some m)) out, l'))))"

definition transmit :: "who \<Rightarrow> lab \<Rightarrow> lab" where
  "transmit w l =
     (case fc (lab_client w l) of
        None \<Rightarrow> l
      | Some c \<Rightarrow>
          (case drain_all c of
             (ms, c') \<Rightarrow>
               (case server_turn w ms (\<not> sender c') (set_fc w c' l) of
                  (evs, l') \<Rightarrow> set_fc w (receive_all evs c') l')))"

text \<open>The stub that a client is given: its Get and Flush calls reach the server as it is.\<close>

definition server_get :: "Server \<Rightarrow> GetRequest \<Rightarrow> string + GetResponse list \<times> string option" where
  "server_get s req = (case Get suite_env (Some req) s of (rs, e) \<Rightarrow> Inr (rs, map_option wire_error e))"

definition server_flush :: "Server \<Rightarrow> FlushRequest \<Rightarrow> string + FlushResponse" where
  "server_flush s req = (case ServerFlush (Some req) s of
     (Some e, _) \<Rightarrow> Inl (wire_error e) | (None, _) \<Rightarrow> Inr \<lparr>flr_Timestamp = 0, flr_Result = Flush_OK\<rparr>)"

definition server_stub :: "lab \<Rightarrow> GRIBIClient" where
  "server_stub l = \<lparr>stub_Modify = None, stub_Get = server_get (lab_srv l), stub_Flush = server_flush (lab_srv l)\<rparr>"

text \<open>A client keeps a stub of the idle server, which is replaced by the current one when it is called.\<close>

definition idle_Get :: "GetRequest \<Rightarrow> string + GetResponse list \<times> string option" where
  "idle_Get req = Inr ([], None)"

definition idle_Flush :: "FlushRequest \<Rightarrow> string + FlushResponse" where
  "idle_Flush req = Inr \<lparr>flr_Timestamp = 0, flr_Result = Flush_OK\<rparr>"

definition idle_stub :: GRIBIClient where
  "idle_stub = \<lparr>stub_Modify = None, stub_Get = idle_Get, stub_Flush = idle_Flush\<rparr>"

definition current_stub :: "who \<Rightarrow> lab \<Rightarrow> FluentClient" where
  "current_stub w l =
     (let g = lab_client w l in g\<lparr>fc := map_option (\<lambda>c. c\<lparr>cl_c := map_option (\<lambda>_. server_stub l) (cl_c c)\<rparr>) (fc g)\<rparr>)"

subsection \<open>Steps of a test\<close>

text \<open>
  A step of a test passes, or ends the test.  A function that returns a value is given what is
  done with it.  Deferred calls run when a function returns and when the test has ended.
\<close>

type_synonym step = "lab \<Rightarrow> verdict \<times> lab"

definition skip :: step where
  "skip l = (Pass, l)"

fun steps :: "step list \<Rightarrow> step" where
  "steps [] l = (Pass, l)"
| "steps (f # fs) l = (case f l of (Pass, l') \<Rightarrow> steps fs l' | (v, l') \<Rightarrow> (v, l'))"

definition deferring :: "step \<Rightarrow> step \<Rightarrow> step" where
  "deferring d f l = (case f l of (v, l1) \<Rightarrow> (case d l1 of (v', l2) \<Rightarrow> (if v = Pass then v' else v, l2)))"

definition check :: "verdict \<Rightarrow> step" where
  "check v l = (v, l)"

definition reading :: "(lab \<Rightarrow> step) \<Rightarrow> step" where
  "reading f l = f l l"

definition electionID_Add :: "u64 \<Rightarrow> step" where
  "electionID_Add n l = (Pass, l\<lparr>lab_electionID := lab_electionID l + n\<rparr>)"

definition electionID_Inc :: step where
  "electionID_Inc = electionID_Add 1"

definition fatal_verdict :: "fluent_fatal \<Rightarrow> verdict" where
  "fatal_verdict e = (if e = FluentPanic then Panics else Fatal)"

text \<open>A call of the fluent API.  A full channel is emptied before the call returns.\<close>

definition api :: "who \<Rightarrow> (FluentClient \<Rightarrow> fluent_fatal + FluentClient) \<Rightarrow> step" where
  "api w f l =
     (case f (lab_client w l) of
        Inl e \<Rightarrow> (fatal_verdict e, l)
      | Inr g \<Rightarrow>
          (let l' = set_lab_client w g l
           in (Pass, if map_option blocked (fc g) = Some True then transmit w l' else l')))"

definition on_conn :: "who \<Rightarrow> (FluentClient \<Rightarrow> FluentClient) \<Rightarrow> step" where
  "on_conn w f l =
     (api w (\<lambda>g. Inr (f (Connection g)))) l"

definition start_call :: "who \<Rightarrow> step" where
  "start_call w l = api w (Start (\<lambda>_. Inr idle_stub)) l"

text \<open>\<open>Connect\<close> opens a Modify stream, whose client the server adds.\<close>

definition start_sending :: "who \<Rightarrow> step" where
  "start_sending w l =
     (case lab_ids l of
        [] \<Rightarrow> (Fatal, l)
      | cid # ids \<Rightarrow>
          (case newClient cid (lab_srv l) of
             (Some _, _) \<Rightarrow> (Fatal, l)
           | (None, s) \<Rightarrow>
               api w (FluentStartSending (\<lambda>_. 0) (\<lambda>_. 0))
                 (l\<lparr>lab_srv := s, lab_ids := ids, lab_streams := gm_put w (cid, False) (lab_streams l)\<rparr>)))"

definition stop_call :: "who \<Rightarrow> step" where
  "stop_call w l = (case api w Stop l of (Pass, l') \<Rightarrow> (Pass, transmit w l') | r \<Rightarrow> r)"

text \<open>\<open>Await\<close> under a timeout: it looks at the client once everything has been delivered, and
  again when the context has expired.\<close>

definition await :: "who \<Rightarrow> (client_err option \<Rightarrow> step) \<Rightarrow> step" where
  "await w k l =
     (let l' = transmit w l
      in case fc (lab_client w l') of
           None \<Rightarrow> (Panics, l')
         | Some c \<Rightarrow> (case Await [(None, c), (Some ''context deadline exceeded'', c)] of
               None \<Rightarrow> (Fatal, l') | Some e \<Rightarrow> k e l'))"

definition results :: "who \<Rightarrow> (ClientOpResult option list \<Rightarrow> step) \<Rightarrow> step" where
  "results w k l = (case FluentResults (lab_client w l) of Inl e \<Rightarrow> (fatal_verdict e, l) | Inr rs \<Rightarrow> k rs l)"

definition send_get :: "who \<Rightarrow> GetRequest \<Rightarrow> (client_err + GetResponse \<Rightarrow> step) \<Rightarrow> step" where
  "send_get w req k l = (case gRIBIGet_Send req (current_stub w l) of Inl e \<Rightarrow> (fatal_verdict e, l) | Inr r \<Rightarrow> k r l)"

text \<open>A Flush that the client sends changes the server.\<close>

definition send_flush :: "who \<Rightarrow> FlushRequest \<Rightarrow> (client_err + FlushResponse \<Rightarrow> step) \<Rightarrow> step" where
  "send_flush w req k l =
     (case gRIBIFlush_Send req (current_stub w l) of
        Inl e \<Rightarrow> (fatal_verdict e, l)
      | Inr (Inr r) \<Rightarrow> k (Inr r) (l\<lparr>lab_srv := snd (ServerFlush (Some req) (lab_srv l))\<rparr>)
      | Inr (Inl (FlushErrStatus e)) \<Rightarrow> k (Inl (FlushErrStatus e)) (l\<lparr>lab_srv := snd (ServerFlush (Some req) (lab_srv l))\<rparr>)
      | Inr (Inl e) \<Rightarrow> k (Inl e) l)"

definition send_add :: "who \<Rightarrow> GRIBIEntry list \<Rightarrow> step" where
  "send_add w es l =
     (api w (FluentAddEntry (\<lambda>_. 0) es)) l"

definition send_delete :: "who \<Rightarrow> GRIBIEntry list \<Rightarrow> step" where
  "send_delete w es l =
     (api w (FluentDeleteEntry (\<lambda>_. 0) es)) l"

definition send_replace :: "who \<Rightarrow> GRIBIEntry list \<Rightarrow> step" where
  "send_replace w es l =
     (api w (FluentReplaceEntry (\<lambda>_. 0) es)) l"

definition inject_request :: "who \<Rightarrow> ModifyRequest \<Rightarrow> step" where
  "inject_request w m l =
     (api w (InjectRequest (\<lambda>_. 0) m)) l"

definition update_election_id :: "who \<Rightarrow> u64 \<Rightarrow> u64 \<Rightarrow> step" where
  "update_election_id w low high l =
     (api w (UpdateElectionID (\<lambda>_. 0) low high)) l"

end
