(* ===== verification/Compliance.thy ===== *)
theory Compliance
  imports TestBed
begin

text \<open>
  The tests of \<open>compliance/compliance.go\<close> and \<open>compliance/mpls.go\<close>.  A test takes the client it
  drives; \<open>clientAB\<close> gives the second one.  The names of the network instances are those the
  package starts with.
\<close>

subsection \<open>Names and helpers\<close>

definition defaultNetworkInstanceName :: string where
  "defaultNetworkInstanceName = DefaultNetworkInstanceName"

definition vrfName :: string where
  "vrfName = ''NON-DEFAULT-VRF''"

definition nonexistentVRFName :: string where
  "nonexistentVRFName = ''NonExistentVrf''"

definition SetElectionID :: "u64 \<Rightarrow> step" where
  "SetElectionID v l = (Pass, l\<lparr>lab_electionID := v\<rparr>)"

text \<open>The chains of builder calls that the tests repeat.\<close>

definition nh_in :: "string \<Rightarrow> u64 \<Rightarrow> string \<Rightarrow> nextHopEntry" where
  "nh_in ni i ip = nextHopEntry_WithIPAddress ip (nextHopEntry_WithIndex i (nextHopEntry_WithNetworkInstance ni NextHopEntry))"

definition nhg_in :: "string \<Rightarrow> u64 \<Rightarrow> u64 list \<Rightarrow> nextHopGroupEntry" where
  "nhg_in ni i nhs = fold (\<lambda>n. nextHopGroupEntry_AddNextHop n 1) nhs
     (nextHopGroupEntry_WithID i (nextHopGroupEntry_WithNetworkInstance ni NextHopGroupEntry))"

definition v4_in :: "string \<Rightarrow> string \<Rightarrow> u64 \<Rightarrow> ipv4Entry" where
  "v4_in ni p g = ipv4Entry_WithNextHopGroup g (ipv4Entry_WithNetworkInstance ni (ipv4Entry_WithPrefix p IPv4Entry))"

definition v6_in :: "string \<Rightarrow> string \<Rightarrow> u64 \<Rightarrow> ipv6Entry" where
  "v6_in ni p g = ipv6Entry_WithNextHopGroup g (ipv6Entry_WithNetworkInstance ni (ipv6Entry_WithPrefix p IPv6Entry))"

definition nh :: "u64 \<Rightarrow> string \<Rightarrow> GRIBIEntry" where
  "nh i ip = nextHopEntry_GRIBIEntry (nh_in defaultNetworkInstanceName i ip)"

definition nhg :: "u64 \<Rightarrow> u64 list \<Rightarrow> GRIBIEntry" where
  "nhg i nhs = nextHopGroupEntry_GRIBIEntry (nhg_in defaultNetworkInstanceName i nhs)"

definition ipv4 :: "string \<Rightarrow> u64 \<Rightarrow> GRIBIEntry" where
  "ipv4 p g = ipv4Entry_GRIBIEntry (v4_in defaultNetworkInstanceName p g)"

definition ipv6 :: "string \<Rightarrow> u64 \<Rightarrow> GRIBIEntry" where
  "ipv6 p g = ipv6Entry_GRIBIEntry (v6_in defaultNetworkInstanceName p g)"

definition mpls :: "u32 \<Rightarrow> u64 \<Rightarrow> GRIBIEntry" where
  "mpls v g = labelEntry_GRIBIEntry (labelEntry_WithNextHopGroup g
     (labelEntry_WithNetworkInstance defaultNetworkInstanceName (labelEntry_WithLabel v LabelEntryBuilder)))"

text \<open>The entries as they are named for a deletion.\<close>

definition named_nh :: "u64 \<Rightarrow> GRIBIEntry" where
  "named_nh i = nextHopEntry_GRIBIEntry (nextHopEntry_WithIndex i (nextHopEntry_WithNetworkInstance defaultNetworkInstanceName NextHopEntry))"

definition named_nhg :: "u64 \<Rightarrow> GRIBIEntry" where
  "named_nhg i = nhg i []"

definition named_ipv4 :: "string \<Rightarrow> GRIBIEntry" where
  "named_ipv4 p = ipv4Entry_GRIBIEntry (ipv4Entry_WithNetworkInstance defaultNetworkInstanceName (ipv4Entry_WithPrefix p IPv4Entry))"

definition named_mpls :: "u32 \<Rightarrow> GRIBIEntry" where
  "named_mpls v = labelEntry_GRIBIEntry (labelEntry_WithNetworkInstance defaultNetworkInstanceName (labelEntry_WithLabel v LabelEntryBuilder))"

definition metadata :: string where
  "metadata = map char_of [1, 2, 3, 4, 5, 6, 7, 8 :: nat]"

text \<open>A check of one result, and the results that most tests expect.\<close>

definition has :: "ClientOpResult option list \<Rightarrow> ClientOpResult \<Rightarrow> step" where
  "has res want l =
     (check (HasResult res (Some want) [])) l"

definition has_ignoring :: "ClientOpResult option list \<Rightarrow> ClientOpResult \<Rightarrow> step" where
  "has_ignoring res want l =
     (check (HasResult res (Some want) [ignoreOpID])) l"

definition want :: "OpType \<Rightarrow> ProgrammingResult \<Rightarrow> ClientOpResult \<Rightarrow> ClientOpResult" where
  "want t r o' = WithProgrammingResult r (WithOperationType t o')"

definition want_id :: "u64 \<Rightarrow> ProgrammingResult \<Rightarrow> ClientOpResult" where
  "want_id i r = WithProgrammingResult r (WithOperationID i OperationResult)"

definition want_nh :: "u64 \<Rightarrow> OpType \<Rightarrow> ProgrammingResult \<Rightarrow> ClientOpResult" where
  "want_nh i t r = want t r (WithNextHopOperation i OperationResult)"

definition want_nhg :: "u64 \<Rightarrow> OpType \<Rightarrow> ProgrammingResult \<Rightarrow> ClientOpResult" where
  "want_nhg i t r = want t r (WithNextHopGroupOperation i OperationResult)"

definition want_ipv4 :: "string \<Rightarrow> OpType \<Rightarrow> ProgrammingResult \<Rightarrow> ClientOpResult" where
  "want_ipv4 p t r = want t r (WithIPv4Operation p OperationResult)"

definition want_ipv6 :: "string \<Rightarrow> OpType \<Rightarrow> ProgrammingResult \<Rightarrow> ClientOpResult" where
  "want_ipv6 p t r = want t r (WithIPv6Operation p OperationResult)"

definition want_mpls :: "u64 \<Rightarrow> OpType \<Rightarrow> ProgrammingResult \<Rightarrow> ClientOpResult" where
  "want_mpls v t r = want t r (WithMPLSOperation v OperationResult)"

text \<open>A wait in which an error, or its absence, ends the test.\<close>

definition await_ok :: "who \<Rightarrow> step" where
  "await_ok w l =
     (await w (\<lambda>e. case e of None \<Rightarrow> skip | Some _ \<Rightarrow> check Fatal)) l"

definition await_error :: "who \<Rightarrow> (client_err option \<Rightarrow> step) \<Rightarrow> step" where
  "await_error w k l =
     (await w (\<lambda>e. if e = None then check Fatal else k e)) l"

text \<open>The options of a connection that takes part in an election.\<close>

definition elect_as :: "who \<Rightarrow> u64 \<Rightarrow> step" where
  "elect_as w low l =
     (on_conn w (\<lambda>g. WithPersistence (WithInitialElectionID low 0 (WithRedundancyMode ElectedPrimaryClient g)))) l"

subsection \<open>Clean-up and programming\<close>

definition flushServer :: "who \<Rightarrow> step" where
  "flushServer c l =
     (steps [start_call c, deferring (stop_call c)
     (send_flush c (gRIBIFlush_WithAllNetworkInstances (gRIBIFlush_WithElectionOverride gRIBIFlush))
       (\<lambda>r. case r of Inl _ \<Rightarrow> check Fatal | Inr _ \<Rightarrow> skip))]) l"

text \<open>\<open>shuffle\<close> is the random order of \<open>rand.Shuffle\<close>.\<close>

definition DoModifyOps ::
    "who \<Rightarrow> (step list \<Rightarrow> step list) \<Rightarrow> step list \<Rightarrow> ProgrammingResult \<Rightarrow> bool \<Rightarrow>
     (ClientOpResult option list \<Rightarrow> step) \<Rightarrow> step" where
  "DoModifyOps c shuffle ops wantACK randomise k l =
     (let body = steps ([reading (\<lambda>l. elect_as c (lab_electionID l)),
                         if wantACK = InstalledInFIB then on_conn c WithFIBACK else skip, start_call c]);
          run = steps ([start_sending c, await_ok c] @ (if randomise then shuffle ops else ops) @ [await_ok c])
      in case body l of
           (Pass, l1) \<Rightarrow>
             (case run l1 of
                (Pass, l2) \<Rightarrow>
                  results c (\<lambda>rs l3. steps [stop_call c, electionID_Inc, k rs] l3) l2
              | (v, l2) \<Rightarrow> deferring electionID_Inc (deferring (stop_call c) (check v)) l2)
         | (v, l1) \<Rightarrow> deferring electionID_Inc (check v) l1)"

definition do_ops :: "who \<Rightarrow> step list \<Rightarrow> ProgrammingResult \<Rightarrow> (ClientOpResult option list \<Rightarrow> step) \<Rightarrow> step" where
  "do_ops c ops wantACK k l =
     (DoModifyOps c (\<lambda>x. x) ops wantACK False k) l"

subsection \<open>Sessions\<close>

definition ModifyConnection :: "who \<Rightarrow> step" where
  "ModifyConnection c l =
     (steps [start_call c, deferring (stop_call c) (steps
     [start_sending c, await c (\<lambda>_. skip), results c (\<lambda>r. if length r \<noteq> 0 then check Fatal else skip)])]) l"

definition ModifyConnectionWithElectionID :: "who \<Rightarrow> step" where
  "ModifyConnectionWithElectionID c l =
     (deferring electionID_Inc (steps
     [reading (\<lambda>l. elect_as c (lab_electionID l)), start_call c, deferring (stop_call c) (steps
       [start_sending c, await_ok c,
        reading (\<lambda>l. results c (\<lambda>r. has r (WithCurrentServerElectionID (lab_electionID l) 0 OperationResult))),
        results c (\<lambda>r. has r (WithSuccessfulSessionParams OperationResult))])])) l"

definition ModifyConnectionSinglePrimaryPreserve :: "who \<Rightarrow> step" where
  "ModifyConnectionSinglePrimaryPreserve c l =
     (steps
     [on_conn c (\<lambda>g. WithPersistence (WithRedundancyMode AllPrimaryClients g)), start_call c, deferring (stop_call c) (steps
       [start_sending c,
        await_error c (\<lambda>err. steps
          [check (HasNSendErrors err 0), check (HasNRecvErrors err 1),
           case AsStatus (modifyError_WithReason UnsupportedParameters (modifyError_WithCode 9 ModifyError)) of
             None \<Rightarrow> check Fatal
           | Some st \<Rightarrow> check (HasRecvClientErrorWithStatus modify_FromError err st [allowUnimplemented])])])]) l"

text \<open>The end of the tests that inject a bad message: the code of the error is compared.\<close>

definition expect_code :: "who \<Rightarrow> nat \<Rightarrow> step" where
  "expect_code c code l =
     (await_error c (\<lambda>err.
     case AsStatus (modifyError_WithCode code ModifyError) of
       None \<Rightarrow> check Fatal
     | Some st \<Rightarrow> check (HasRecvClientErrorWithStatus modify_FromError err st [ignoreDetails]))) l"

definition injected_op :: "u64 \<Rightarrow> AFTOperation" where
  "injected_op low = \<lparr>op_Id = 1, op_NetworkInstance = defaultNetworkInstanceName, op_Op = Op_ADD,
     op_Entry = Some (AFTOp_NextHop (Some \<lparr>nhk_Index = 1, nhk_NextHop = Some empty_NextHop_pb\<rparr>)),
     op_ElectionId = Some \<lparr>High = 0, Low = low\<rparr>\<rparr>"

definition injected_params :: SessionParameters where
  "injected_params = \<lparr>sp_Redundancy = SINGLE_PRIMARY, sp_Persistence = PRESERVE, sp_AckType = RIB_ACK\<rparr>"

definition inject_and_expect :: "who \<Rightarrow> (u64 \<Rightarrow> ModifyRequest) \<Rightarrow> nat \<Rightarrow> step" where
  "inject_and_expect c m code l =
     (deferring electionID_Inc (steps
     [reading (\<lambda>l. elect_as c (lab_electionID l)), start_call c, deferring (stop_call c) (steps
       [start_sending c, reading (\<lambda>l. inject_request c (m (lab_electionID l))), expect_code c code])])) l"

definition InvalidElectionIDAndAFTOperation :: "who \<Rightarrow> step" where
  "InvalidElectionIDAndAFTOperation c l =
     (inject_and_expect c (\<lambda>i.
     \<lparr>mreq_Operation = [injected_op i], mreq_ElectionId = Some \<lparr>High = 0, Low = i\<rparr>, mreq_Params = None\<rparr>) 3) l"

definition InvalidElectionIDAndParams :: "who \<Rightarrow> step" where
  "InvalidElectionIDAndParams c l =
     (inject_and_expect c (\<lambda>i.
     \<lparr>mreq_Operation = [], mreq_ElectionId = Some \<lparr>High = 0, Low = i\<rparr>, mreq_Params = Some injected_params\<rparr>) 3) l"

definition InvalidParamsAndAFTOperation :: "who \<Rightarrow> step" where
  "InvalidParamsAndAFTOperation c l =
     (inject_and_expect c (\<lambda>i.
     \<lparr>mreq_Operation = [injected_op i], mreq_ElectionId = None, mreq_Params = Some injected_params\<rparr>) 3) l"

definition ModifyConnectionRepeatedSessionParameters :: "who \<Rightarrow> step" where
  "ModifyConnectionRepeatedSessionParameters c l =
     (inject_and_expect c (\<lambda>i. params_request injected_params) 9) l"

subsection \<open>Additions\<close>

definition AddIPv4Entry :: "who \<Rightarrow> ProgrammingResult \<Rightarrow> step" where
  "AddIPv4Entry c wantACK l =
     (deferring (flushServer c) (do_ops c
     [send_add c [nh 1 ''192.0.2.1''], send_add c [nhg 42 [1]], send_add c [ipv4 ''1.1.1.1/32'' 42]] wantACK
     (\<lambda>res. steps [has res (want_id 1 wantACK), has res (want_id 2 wantACK), has res (want_id 3 wantACK)]))) l"

definition AddIPv4EntryRandom :: "who \<Rightarrow> (step list \<Rightarrow> step list) \<Rightarrow> step" where
  "AddIPv4EntryRandom c shuffle l =
     (deferring (flushServer c) (DoModifyOps c shuffle
     [send_add c [nh 1 ''1.1.1.1''], send_add c [nhg 42 [1]], send_add c [ipv4 ''1.1.1.1/32'' 42]] InstalledInRIB True
     (\<lambda>res. steps [has_ignoring res (want_ipv4 ''1.1.1.1/32'' Add InstalledInRIB),
       has_ignoring res (want_nhg 42 Add InstalledInRIB), has_ignoring res (want_nh 1 Add InstalledInRIB)]))) l"

definition AddIPv4Metadata :: "who \<Rightarrow> step" where
  "AddIPv4Metadata c l =
     (deferring (flushServer c) (do_ops c
     [send_add c [nh 1 ''192.0.2.3''], send_add c [nhg 1 [1]],
      send_add c [ipv4Entry_GRIBIEntry (ipv4Entry_WithMetadata metadata (v4_in defaultNetworkInstanceName ''1.1.1.1/32'' 1))]]
     InstalledInRIB
     (\<lambda>res. steps [has_ignoring res (want_ipv4 ''1.1.1.1/32'' Add InstalledInRIB),
       has_ignoring res (want_nhg 1 Add InstalledInRIB), has_ignoring res (want_nh 1 Add InstalledInRIB)]))) l"

definition AddIPv4EntryDifferentNINHG :: "who \<Rightarrow> ProgrammingResult \<Rightarrow> step" where
  "AddIPv4EntryDifferentNINHG c wantACK l =
     (deferring (flushServer c) (do_ops c
     [send_add c [nh 1 ''192.0.2.3''], send_add c [nhg 1 [1]],
      send_add c [ipv4Entry_GRIBIEntry (ipv4Entry_WithNextHopGroupNetworkInstance defaultNetworkInstanceName
        (v4_in vrfName ''1.1.1.1/32'' 1))]] wantACK
     (\<lambda>res. steps [has_ignoring res (want_nhg 1 Add wantACK), has_ignoring res (want_nh 1 Add wantACK),
       has_ignoring res (want_ipv4 ''1.1.1.1/32'' Add wantACK)]))) l"

definition AddUnreferencedNextHopGroup :: "who \<Rightarrow> ProgrammingResult \<Rightarrow> step" where
  "AddUnreferencedNextHopGroup c wantACK l =
     (deferring (flushServer c) (do_ops c
     [send_add c [nh 1 ''192.0.2.1''], send_add c [nhg 42 [1]]] wantACK
     (\<lambda>res. steps [has res (want_id 1 wantACK), has res (want_id 2 wantACK)]))) l"

text \<open>An expected result that also names its operation.\<close>

definition with_id :: "u64 \<Rightarrow> ClientOpResult \<Rightarrow> ClientOpResult" where
  "with_id i r = WithOperationID i r"

definition ImplicitReplaceNH :: "who \<Rightarrow> ProgrammingResult \<Rightarrow> step" where
  "ImplicitReplaceNH c wantACK l =
     (deferring (flushServer c) (do_ops c
     [send_add c [nh 1 ''192.0.2.1''], send_add c [nh 1 ''192.0.2.2'']] wantACK
     (\<lambda>res. steps [has res (with_id 1 (want_nh 1 Add wantACK)), has res (with_id 2 (want_nh 1 Add wantACK))]))) l"

definition ImplicitReplaceNHG :: "who \<Rightarrow> ProgrammingResult \<Rightarrow> step" where
  "ImplicitReplaceNHG c wantACK l =
     (deferring (flushServer c) (do_ops c
     [send_add c [nh 1 ''192.0.2.1''], send_add c [nh 2 ''192.0.2.3''], send_add c [nhg 1 [1]], send_add c [nhg 1 [2]]] wantACK
     (\<lambda>res. steps [has res (with_id 1 (want_nh 1 Add wantACK)), has res (with_id 2 (want_nh 2 Add wantACK)),
       has res (with_id 3 (want_nhg 1 Add wantACK)), has res (with_id 4 (want_nhg 1 Add wantACK))]))) l"

definition ImplicitReplaceIPv4Entry :: "who \<Rightarrow> ProgrammingResult \<Rightarrow> step" where
  "ImplicitReplaceIPv4Entry c wantACK l =
     (deferring (flushServer c) (do_ops c
     [send_add c [nh 1 ''192.0.2.1''], send_add c [nh 2 ''192.0.2.1''], send_add c [nhg 1 [1]], send_add c [nhg 2 [2]],
      send_add c [ipv4 ''1.0.0.0/8'' 1], send_add c [ipv4 ''1.0.0.0/8'' 2]] wantACK
     (\<lambda>res. steps [has res (with_id 1 (want_nh 1 Add wantACK)), has res (with_id 2 (want_nh 2 Add wantACK)),
       has res (with_id 3 (want_nhg 1 Add wantACK)), has res (with_id 4 (want_nhg 2 Add wantACK)),
       has res (with_id 5 (want_ipv4 ''1.0.0.0/8'' Add wantACK)), has res (with_id 6 (want_ipv4 ''1.0.0.0/8'' Add wantACK))]))) l"

subsection \<open>The base topology\<close>

definition baseTopologyEntries :: "who \<Rightarrow> step" where
  "baseTopologyEntries c l =
     (steps [send_add c [nh 1 ''192.0.2.3''], send_add c [nh 2 ''192.0.2.5''],
     send_add c [nhg 1 [1, 2]], send_add c [ipv4 ''1.0.0.0/8'' 1]]) l"

definition validateBaseTopologyEntries :: "ClientOpResult option list \<Rightarrow> ProgrammingResult \<Rightarrow> step" where
  "validateBaseTopologyEntries res wantACK l =
     (steps
     (map (\<lambda>i. has_ignoring res (want_nh i Add wantACK)) [1, 2] @
      [has_ignoring res (want_nhg 1 Add wantACK), has_ignoring res (want_ipv4 ''1.0.0.0/8'' Add wantACK)])) l"

definition AddIPv4ToMultipleNHsSingleRequest :: "who \<Rightarrow> ProgrammingResult \<Rightarrow> step" where
  "AddIPv4ToMultipleNHsSingleRequest c wantACK l =
     (deferring (flushServer c) (do_ops c
     [send_add c [nh 1 ''192.0.2.3'', nh 2 ''192.0.2.5'', nhg 1 [1, 2], ipv4 ''1.0.0.0/8'' 1]] wantACK
     (\<lambda>res. validateBaseTopologyEntries res wantACK))) l"

definition AddIPv4ToMultipleNHsMultipleRequests :: "who \<Rightarrow> ProgrammingResult \<Rightarrow> step" where
  "AddIPv4ToMultipleNHsMultipleRequests c wantACK l =
     (deferring (flushServer c) (do_ops c
     [baseTopologyEntries c] wantACK (\<lambda>res. validateBaseTopologyEntries res wantACK))) l"

subsection \<open>Deletions\<close>

definition IdempotentDelete :: "who \<Rightarrow> ProgrammingResult \<Rightarrow> step" where
  "IdempotentDelete c wantACK l =
     (deferring (flushServer c) (do_ops c
     [baseTopologyEntries c, send_delete c [named_ipv4 ''1.0.0.0/8''], send_delete c [named_ipv4 ''1.0.0.0/8''],
      send_delete c [named_nhg 1], send_delete c [named_nhg 1], send_delete c [named_nh 1], send_delete c [named_nh 1]] wantACK
     (\<lambda>res. steps [validateBaseTopologyEntries res wantACK,
       has res (with_id 5 (want_ipv4 ''1.0.0.0/8'' Delete wantACK)), has res (with_id 6 (want_ipv4 ''1.0.0.0/8'' Delete wantACK)),
       has res (with_id 7 (want_nhg 1 Delete wantACK)), has res (with_id 8 (want_nhg 1 Delete wantACK)),
       has res (with_id 9 (want_nh 1 Delete wantACK)), has res (with_id 10 (want_nh 1 Delete wantACK))]))) l"

definition DeleteIPv4Entry :: "who \<Rightarrow> ProgrammingResult \<Rightarrow> step" where
  "DeleteIPv4Entry c wantACK l =
     (deferring (flushServer c) (do_ops c
     [baseTopologyEntries c, send_delete c [named_ipv4 ''1.0.0.0/8'']] wantACK
     (\<lambda>res. steps [validateBaseTopologyEntries res wantACK, has_ignoring res (want_ipv4 ''1.0.0.0/8'' Delete wantACK)]))) l"

definition DeleteReferencedNHGFailure :: "who \<Rightarrow> ProgrammingResult \<Rightarrow> step" where
  "DeleteReferencedNHGFailure c wantACK l =
     (deferring (flushServer c) (do_ops c
     [baseTopologyEntries c, send_delete c [named_nhg 1]] wantACK
     (\<lambda>res. steps [validateBaseTopologyEntries res wantACK, has_ignoring res (want_nhg 1 Delete ProgrammingFailed)]))) l"

definition DeleteReferencedNHFailure :: "who \<Rightarrow> ProgrammingResult \<Rightarrow> step" where
  "DeleteReferencedNHFailure c wantACK l =
     (deferring (flushServer c) (do_ops c
     [baseTopologyEntries c, send_delete c [named_nh 1], send_delete c [named_nh 2]] wantACK
     (\<lambda>res. steps (validateBaseTopologyEntries res wantACK #
       map (\<lambda>i. has_ignoring res (want_nh i Delete ProgrammingFailed)) [1, 2])))) l"

definition DeleteNextHopGroup_test :: "who \<Rightarrow> ProgrammingResult \<Rightarrow> step" where
  "DeleteNextHopGroup_test c wantACK l =
     (deferring (flushServer c) (do_ops c
     [baseTopologyEntries c, send_delete c [named_ipv4 ''1.0.0.0/8'', named_nhg 1]] wantACK
     (\<lambda>res. steps [validateBaseTopologyEntries res wantACK, has_ignoring res (want_nhg 1 Delete wantACK),
       has_ignoring res (want_ipv4 ''1.0.0.0/8'' Delete wantACK)]))) l"

definition DeleteNextHop_test :: "who \<Rightarrow> ProgrammingResult \<Rightarrow> step" where
  "DeleteNextHop_test c wantACK l =
     (deferring (flushServer c) (do_ops c
     [baseTopologyEntries c, send_delete c [named_ipv4 ''1.0.0.0/8'', named_nhg 1, named_nh 1, named_nh 2]] wantACK
     (\<lambda>res. steps (validateBaseTopologyEntries res wantACK #
       map (\<lambda>i. has_ignoring res (want_nh i Delete wantACK)) [1, 2] @
       [has_ignoring res (want_nhg 1 Delete wantACK), has_ignoring res (want_ipv4 ''1.0.0.0/8'' Delete wantACK)])))) l"

definition AddDeleteAdd :: "who \<Rightarrow> ProgrammingResult \<Rightarrow> step" where
  "AddDeleteAdd c wantACK l =
     (deferring (flushServer c) (do_ops c
     [baseTopologyEntries c, steps [send_add c [ipv4 ''2.0.0.0/8'' 1], send_delete c [named_ipv4 ''2.0.0.0/8''],
        send_add c [ipv4 ''2.0.0.0/8'' 1]]] wantACK
     (\<lambda>res. steps [validateBaseTopologyEntries res wantACK, has_ignoring res (want_ipv4 ''2.0.0.0/8'' Add wantACK),
       has_ignoring res (want_ipv4 ''2.0.0.0/8'' Delete wantACK), has_ignoring res (want_ipv4 ''2.0.0.0/8'' Add wantACK)]))) l"

subsection \<open>Replacements of missing entries\<close>

definition ReplaceMissingNH :: "who \<Rightarrow> step" where
  "ReplaceMissingNH c l =
     (deferring (flushServer c) (do_ops c
     [send_replace c [named_nh 42]] InstalledInRIB
     (\<lambda>res. has res (with_id 1 (want_nh 42 Replace ProgrammingFailed))))) l"

definition ReplaceMissingNHG :: "who \<Rightarrow> step" where
  "ReplaceMissingNHG c l =
     (deferring (flushServer c) (do_ops c
     [steps [send_add c [nh 42 ''192.0.2.3''], send_replace c [nhg 42 [42]]], send_delete c [named_nh 42]] InstalledInRIB
     (\<lambda>res. steps [has res (with_id 1 (want_nh 42 Add InstalledInRIB)), has res (with_id 2 (want_nhg 42 Replace ProgrammingFailed)),
       has res (with_id 3 (want_nh 42 Delete InstalledInRIB))]))) l"

definition ReplaceMissingIPv4Entry :: "who \<Rightarrow> step" where
  "ReplaceMissingIPv4Entry c l =
     (deferring (flushServer c) (do_ops c
     [steps [send_add c [nh 42 ''192.0.2.3''], send_add c [nhg 42 [42]], send_replace c [ipv4 ''192.0.2.1/32'' 42]],
      steps [send_delete c [named_nhg 42], send_delete c [named_nh 42]]] InstalledInRIB
     (\<lambda>res. steps [has res (with_id 1 (want_nh 42 Add InstalledInRIB)), has res (with_id 2 (want_nhg 42 Add InstalledInRIB)),
       has res (with_id 3 (want_ipv4 ''192.0.2.1/32'' Replace ProgrammingFailed)),
       has res (with_id 4 (want_nhg 42 Delete InstalledInRIB)), has res (with_id 5 (want_nh 42 Delete InstalledInRIB))]))) l"

subsection \<open>IPv6, invalid entries and forward references\<close>

definition AddIPv6Entry :: "who \<Rightarrow> ProgrammingResult \<Rightarrow> step" where
  "AddIPv6Entry c wantACK l =
     (deferring (flushServer c) (do_ops c
     [send_add c [nh 1 ''192.0.2.1''], send_add c [nhg 42 [1]], send_add c [ipv6 ''2001:db8::/32'' 42]] wantACK
     (\<lambda>res. steps [has res (want_id 1 wantACK), has res (want_id 2 wantACK), has res (want_id 3 wantACK)]))) l"

definition AddIPv6Metadata :: "who \<Rightarrow> step" where
  "AddIPv6Metadata c l =
     (deferring (flushServer c) (do_ops c
     [send_add c [nh 1 ''192.0.2.3''], send_add c [nhg 1 [1]],
      send_add c [ipv6Entry_GRIBIEntry (ipv6Entry_WithMetadata metadata (v6_in defaultNetworkInstanceName ''2001:db8::1/128'' 1))]]
     InstalledInRIB
     (\<lambda>res. steps [has_ignoring res (want_ipv6 ''2001:db8::1/128'' Add InstalledInRIB),
       has_ignoring res (want_nhg 1 Add InstalledInRIB), has_ignoring res (want_nh 1 Add InstalledInRIB)]))) l"

definition AddToNonexistentNetworkInstance :: "who \<Rightarrow> step" where
  "AddToNonexistentNetworkInstance c l =
     (deferring (flushServer c) (do_ops c
     [send_add c [nh 1 ''192.0.2.3''], send_add c [nhg 1 [1]],
      send_add c [ipv6Entry_GRIBIEntry (v6_in nonexistentVRFName ''2001:db8::1/128'' 1)]] InstalledInFIB
     (\<lambda>res. has_ignoring res (want_ipv6 ''2001:db8::1/128'' Add ProgrammingFailed)))) l"

definition AddDuplicateNexthop :: "who \<Rightarrow> step" where
  "AddDuplicateNexthop c l =
     (deferring (flushServer c) (do_ops c
     [steps [send_add c [nh 1 ''192.0.2.1''], send_add c [nhg 1 [1]]],
      steps [send_add c [nh 2 ''192.0.2.1''], send_add c [nhg 1 [2]]]] InstalledInFIB
     (\<lambda>res. steps [has_ignoring res (want_nhg 1 Add InstalledInFIB), has_ignoring res (want_nh 1 Add InstalledInFIB),
       has_ignoring res (want_nh 2 Add InstalledInFIB)]))) l"

definition ForwardReferencesDisallowed :: "who \<Rightarrow> step" where
  "ForwardReferencesDisallowed c l =
     (deferring (flushServer c) (do_ops c
     [send_add c [nhg 1 [1]]] InstalledInFIB (\<lambda>res. has_ignoring res (want_nhg 1 Add ProgrammingFailed)))) l"

definition IPv4EntryInvalidPrefix :: "who \<Rightarrow> step" where
  "IPv4EntryInvalidPrefix c l =
     (deferring (flushServer c) (do_ops c
     [steps [send_add c [nh 1 ''192.0.2.3''], send_add c [nhg 11 [1]], send_add c [ipv4 ''203.0.113.1'' 11]]] InstalledInFIB
     (\<lambda>res. steps [has_ignoring res (want_nh 1 Add InstalledInFIB), has_ignoring res (want_nhg 11 Add InstalledInFIB),
       has_ignoring res (want_ipv4 ''203.0.113.1'' Add ProgrammingFailed)]))) l"

definition IPv4EntryMissingNextHopGroup :: "who \<Rightarrow> step" where
  "IPv4EntryMissingNextHopGroup c l =
     (deferring (flushServer c) (do_ops c
     [steps [send_add c [nh 1 ''192.0.2.3''], send_add c [ipv4 ''203.0.113.1/32'' 11]]] InstalledInFIB
     (\<lambda>res. steps [has_ignoring res (want_nh 1 Add InstalledInFIB),
       has_ignoring res (want_ipv4 ''203.0.113.1/32'' Add ProgrammingFailed)]))) l"

definition IPv4EntryEmptyNextHopGroup :: "who \<Rightarrow> step" where
  "IPv4EntryEmptyNextHopGroup c l =
     (deferring (flushServer c) (do_ops c
     [steps [send_add c [nh 1 ''192.0.2.3''], send_add c [nhg 11 []], send_add c [ipv4 ''203.0.113.1/32'' 11]]] InstalledInFIB
     (\<lambda>res. steps [has_ignoring res (want_nh 1 Add InstalledInFIB), has_ignoring res (want_nhg 11 Add ProgrammingFailed),
       has_ignoring res (want_ipv4 ''203.0.113.1/32'' Add ProgrammingFailed)]))) l"

subsection \<open>MPLS\<close>

definition AddMPLSEntry :: "who \<Rightarrow> ProgrammingResult \<Rightarrow> step" where
  "AddMPLSEntry c wantACK l =
     (deferring (flushServer c) (do_ops c
     [send_add c [nh 1 ''192.0.2.1''], send_add c [nhg 1 [1]], send_add c [mpls 100 1]] wantACK
     (\<lambda>res. steps [has_ignoring res (want_mpls 100 Add wantACK), has_ignoring res (want_nh 1 Add wantACK),
       has_ignoring res (want_nhg 1 Add wantACK)]))) l"

definition AddMPLSEntryWithLabelStack :: "who \<Rightarrow> ProgrammingResult \<Rightarrow> step" where
  "AddMPLSEntryWithLabelStack c wantACK l =
     (deferring (flushServer c) (do_ops c
     [send_add c [nextHopEntry_GRIBIEntry (nextHopEntry_WithPushedLabelStack [100, 200, 300]
        (nh_in defaultNetworkInstanceName 1 ''192.0.2.1''))],
      send_add c [nhg 1 [1]], send_add c [mpls 100 1]] wantACK
     (\<lambda>res. steps [has_ignoring res (want_mpls 100 Add wantACK), has_ignoring res (want_nh 1 Add wantACK),
       has_ignoring res (want_nhg 1 Add wantACK)]))) l"

definition DeleteMPLSEntry :: "who \<Rightarrow> ProgrammingResult \<Rightarrow> step" where
  "DeleteMPLSEntry c wantACK l =
     (deferring (flushServer c) (do_ops c
     [send_add c [nh 1 ''192.0.2.1''], send_add c [nhg 1 [1]], send_add c [mpls 100 1]] wantACK
     (\<lambda>res. steps [has_ignoring res (want_mpls 100 Add wantACK), has_ignoring res (want_nh 1 Add wantACK),
       has_ignoring res (want_nhg 1 Add wantACK),
       do_ops c [send_delete c [named_mpls 100]] wantACK (\<lambda>delRes. has_ignoring delRes (want_mpls 100 Delete wantACK))]))) l"

subsection \<open>Two clients\<close>

text \<open>\<open>clientAB\<close>: the client of the test and the one of the option \<open>SecondClient\<close>, which the suite always gives.\<close>

definition TestOperationIsolation :: "who \<Rightarrow> who \<Rightarrow> step" where
  "TestOperationIsolation clientA clientB l =
     (deferring (flushServer clientA) (deferring (electionID_Add 2) (steps
     [reading (\<lambda>l. elect_as clientA (lab_electionID l + 1)), start_call clientA, start_sending clientA,
      await clientA (\<lambda>err. check (HasNRecvErrors err 0)),
      reading (\<lambda>l. elect_as clientB (lab_electionID l)), start_call clientB, deferring (stop_call clientB) (steps
        [start_sending clientB,
         send_add clientA [nh 1 ''192.0.2.1'', nhg 42 [1], ipv4 ''1.1.1.1/32'' 42], stop_call clientA,
         await clientB (\<lambda>err. steps [check (HasNRecvErrors err 0), check (HasNSendErrors err 0)])])]))) l"

end
