(* ===== verification/ComplianceMore.thy ===== *)
theory ComplianceMore
  imports Compliance
begin

text \<open>
  The tests of \<open>compliance/election.go\<close>, \<open>compliance/get.go\<close> and \<open>compliance/flush.go\<close>.
\<close>

subsection \<open>Elections\<close>

definition TestUnsupportedElectionParams :: "who \<Rightarrow> step" where
  "TestUnsupportedElectionParams c l =
     (deferring electionID_Inc (steps
     [on_conn c (WithRedundancyMode AllPrimaryClients), start_call c, deferring (stop_call c) (steps
       [start_sending c, reading (\<lambda>l. update_election_id c (lab_electionID l) 0),
        await_error c (\<lambda>err. steps
          [check (HasNSendErrors err 0), check (HasNRecvErrors err 1),
           case AsStatus (modifyError_WithReason ElectionIDNotAllowed (modifyError_WithCode 9 ModifyError)) of
             None \<Rightarrow> check Fatal
           | Some st \<Rightarrow> check (HasRecvClientErrorWithStatus modify_FromError err st [allowUnimplemented])])])])) l"

text \<open>The error that a second client gets whose parameters differ.\<close>

definition expect_differ :: "who \<Rightarrow> ErrorOpt list \<Rightarrow> step" where
  "expect_differ clientB opts l =
     (await_error clientB (\<lambda>err. steps
     [check (HasNSendErrors err 0), check (HasNRecvErrors err 1),
      case AsStatus (modifyError_WithReason ParamsDifferFromOtherClients (modifyError_WithCode 9 ModifyError)) of
        None \<Rightarrow> check Fatal
      | Some st \<Rightarrow> check (HasRecvClientErrorWithStatus modify_FromError err st opts)])) l"

definition TestDifferingElectionParameters :: "who \<Rightarrow> who \<Rightarrow> step" where
  "TestDifferingElectionParameters clientA clientB l =
     (deferring (electionID_Add 2) (steps
     [reading (\<lambda>l. elect_as clientA (lab_electionID l)), start_call clientA, deferring (stop_call clientA) (steps
       [start_sending clientA, await_ok clientA,
        reading (\<lambda>l. elect_as clientB (lab_electionID l + 1)), on_conn clientB WithFIBACK, start_call clientB,
        deferring (stop_call clientB) (steps [start_sending clientB, expect_differ clientB []])])])) l"

definition TestParamsDifferFromOtherClients :: "who \<Rightarrow> who \<Rightarrow> step" where
  "TestParamsDifferFromOtherClients clientA clientB l =
     (deferring electionID_Inc (steps
     [reading (\<lambda>l. elect_as clientA (lab_electionID l)), start_call clientA, deferring (stop_call clientA) (steps
       [start_sending clientA, await_ok clientA,
        on_conn clientB (WithRedundancyMode AllPrimaryClients), start_call clientB,
        deferring (stop_call clientB) (steps [start_sending clientB, expect_differ clientB [allowUnimplemented]])])])) l"

text \<open>
  Two clients that connect, with the identifiers given as offsets, and must both be told the
  larger one.
\<close>

definition two_clients :: "who \<Rightarrow> who \<Rightarrow> u64 \<Rightarrow> u64 \<Rightarrow> u64 \<Rightarrow> u64 \<Rightarrow> step" where
  "two_clients clientA clientB offA offB wantA wantB l =
     (deferring (electionID_Add 2) (steps
     [reading (\<lambda>l. elect_as clientA (lab_electionID l + offA)), on_conn clientA WithFIBACK, start_call clientA, start_sending clientA,
      deferring (stop_call clientA) (await clientA (\<lambda>clientAErr. steps
       [if clientAErr \<noteq> None then check Fatal else skip,
        reading (\<lambda>l. elect_as clientB (lab_electionID l + offB)), on_conn clientB WithFIBACK, start_call clientB, start_sending clientB,
        deferring (stop_call clientB) (await clientB (\<lambda>clientBErr. steps
         [if clientBErr \<noteq> None then check Fatal else skip,
          check (HasNSendErrors clientAErr 0), check (HasNRecvErrors clientAErr 0),
          check (HasNSendErrors clientBErr 0), check (HasNRecvErrors clientBErr 0),
          reading (\<lambda>l. results clientA (\<lambda>r. has r (WithCurrentServerElectionID (lab_electionID l + wantA) 0 OperationResult))),
          reading (\<lambda>l. results clientB (\<lambda>r. has r (WithCurrentServerElectionID (lab_electionID l + wantB) 0 OperationResult)))]))]))])) l"

definition TestMatchingElectionParameters :: "who \<Rightarrow> who \<Rightarrow> step" where
  "TestMatchingElectionParameters clientA clientB l =
     (two_clients clientA clientB 0 1 0 1) l"

definition TestLowerElectionID :: "who \<Rightarrow> who \<Rightarrow> step" where
  "TestLowerElectionID clientA clientB l =
     (two_clients clientA clientB 1 0 1 1) l"

definition chkIPv4 :: "who \<Rightarrow> step" where
  "chkIPv4 c l =
     (send_get c (gRIBIGet_WithAFT FAFT_IPv4 (gRIBIGet_WithNetworkInstance defaultNetworkInstanceName gRIBIGet))
     (\<lambda>r. case r of Inl _ \<Rightarrow> check Fatal | Inr gr \<Rightarrow> check (GetResponseHasEntries gr [ipv4 ''1.1.1.1/32'' 42]))) l"

definition TestActiveAfterMasterChange :: "who \<Rightarrow> who \<Rightarrow> step" where
  "TestActiveAfterMasterChange clientA clientB l =
     (deferring (flushServer clientA) (deferring (electionID_Add 2) (steps
     [reading (\<lambda>l. elect_as clientA (lab_electionID l)), start_call clientA, start_sending clientA,
      deferring (stop_call clientA) (steps
       [send_add clientA [nh 1 ''192.0.2.1''], send_add clientA [nhg 42 [1]], send_add clientA [ipv4 ''1.1.1.1/32'' 42],
        await_ok clientA,
        results clientA (\<lambda>r. has_ignoring r (want_nh 1 Add InstalledInRIB)),
        results clientA (\<lambda>r. has_ignoring r (want_nhg 42 Add InstalledInRIB)),
        results clientA (\<lambda>r. has_ignoring r (want_ipv4 ''1.1.1.1/32'' Add InstalledInRIB)),
        chkIPv4 clientA,
        reading (\<lambda>l. elect_as clientB (lab_electionID l + 1)), start_call clientB, start_sending clientB,
        deferring (stop_call clientB) (steps [chkIPv4 clientA, chkIPv4 clientB])])]))) l"

definition TestNewElectionIDNoUpdateRejected :: "who \<Rightarrow> step" where
  "TestNewElectionIDNoUpdateRejected c l =
     (deferring (flushServer c) (deferring (electionID_Add 2) (steps
     [reading (\<lambda>l. elect_as c (lab_electionID l)), start_call c, start_sending c, deferring (stop_call c) (steps
       [reading (\<lambda>l. send_add c
          [nextHopEntry_GRIBIEntry (nextHopEntry_WithElectionID (lab_electionID l + 1) 0
             (nextHopEntry_WithNetworkInstance defaultNetworkInstanceName (nextHopEntry_WithIndex 1 NextHopEntry))),
           nextHopGroupEntry_GRIBIEntry (nextHopGroupEntry_WithElectionID (lab_electionID l + 1) 0 (nhg_in defaultNetworkInstanceName 1 [1])),
           ipv4Entry_GRIBIEntry (ipv4Entry_WithElectionID (lab_electionID l + 1) 0
             (ipv4Entry_WithNetworkInstance defaultNetworkInstanceName (ipv4Entry_WithPrefix ''1.1.1.1/32'' IPv4Entry)))]),
        await_ok c,
        results c (\<lambda>r. has_ignoring r (want_nh 1 Add ProgrammingFailed)),
        results c (\<lambda>r. has_ignoring r (want_nhg 1 Add ProgrammingFailed)),
        results c (\<lambda>r. has_ignoring r (want_ipv4 ''1.1.1.1/32'' Add ProgrammingFailed))])]))) l"

text \<open>A next-hop that names the election identifier it is sent with.\<close>

definition nh_elected :: "string \<Rightarrow> u64 \<Rightarrow> GRIBIEntry" where
  "nh_elected ip low = nextHopEntry_GRIBIEntry (nextHopEntry_WithElectionID low 0 (nh_in defaultNetworkInstanceName 1 ip))"

definition TestIncElectionID :: "who \<Rightarrow> step" where
  "TestIncElectionID c l =
     (deferring (flushServer c) (deferring electionID_Inc (steps
     [reading (\<lambda>l. elect_as c (lab_electionID l)), start_call c, start_sending c, deferring (stop_call c) (steps
       [send_add c [nh 1 ''192.0.2.1''], await_ok c,
        results c (\<lambda>r. has_ignoring r (want_nh 1 Add InstalledInRIB)),
        electionID_Inc, reading (\<lambda>l. update_election_id c (lab_electionID l) 0), await_ok c,
        reading (\<lambda>l. results c (\<lambda>r. has r (WithCurrentServerElectionID (lab_electionID l) 0 OperationResult))),
        reading (\<lambda>l. send_add c [nh_elected ''192.0.2.3'' (lab_electionID l - 1)]), await_ok c,
        results c (\<lambda>r. has_ignoring r (want_nh 1 Add ProgrammingFailed)),
        reading (\<lambda>l. send_add c [nh_elected ''192.0.2.5'' (lab_electionID l)]), await_ok c,
        results c (\<lambda>r. has_ignoring r (want_nh 1 Add InstalledInRIB))])]))) l"

definition TestDecElectionID :: "who \<Rightarrow> step" where
  "TestDecElectionID c l =
     (deferring electionID_Inc (steps
     [electionID_Inc, reading (\<lambda>l. elect_as c (lab_electionID l)), start_call c, start_sending c, deferring (stop_call c) (steps
       [await_ok c,
        reading (\<lambda>l. results c (\<lambda>r. has r (WithCurrentServerElectionID (lab_electionID l) 0 OperationResult))),
        reading (\<lambda>l. update_election_id c (lab_electionID l - 1) 0), await_ok c,
        reading (\<lambda>l. results c (\<lambda>r. has r (WithCurrentServerElectionID (lab_electionID l) 0 OperationResult)))])])) l"

definition TestSameElectionIDFromTwoClients :: "who \<Rightarrow> who \<Rightarrow> step" where
  "TestSameElectionIDFromTwoClients clientA clientB l =
     (deferring (flushServer clientA) (deferring electionID_Inc (steps
     [reading (\<lambda>l. elect_as clientA (lab_electionID l)), start_call clientA, start_sending clientA, deferring (stop_call clientA) (steps
       [await_ok clientA,
        reading (\<lambda>l. elect_as clientB (lab_electionID l)), start_call clientB, start_sending clientB, deferring (stop_call clientB) (steps
         [await_ok clientB, send_add clientA [nh 10 ''192.0.2.1''], send_add clientB [nh 10 ''192.0.2.1''],
          await clientA (\<lambda>clientAErr. steps
           [if clientAErr \<noteq> None then check Fatal else skip,
            await clientB (\<lambda>clientBErr. steps
             [if clientBErr \<noteq> None then check Fatal else skip,
              check (HasNSendErrors clientAErr 0), check (HasNRecvErrors clientAErr 0),
              check (HasNSendErrors clientBErr 0), check (HasNRecvErrors clientBErr 0),
              reading (\<lambda>l. results clientA (\<lambda>r. has r (WithCurrentServerElectionID (lab_electionID l) 0 OperationResult))),
              reading (\<lambda>l. results clientB (\<lambda>r. has r (WithCurrentServerElectionID (lab_electionID l) 0 OperationResult))),
              results clientA (\<lambda>r. has r (want_id 1 ProgrammingFailed)),
              results clientB (\<lambda>r. has r (want_id 1 InstalledInRIB))])])])])]))) l"

definition TestElectionIDAsZero :: "who \<Rightarrow> step" where
  "TestElectionIDAsZero c l =
     (steps
     [elect_as c 0, start_call c, deferring (stop_call c) (steps
       [start_sending c,
        await_error c (\<lambda>err. steps
          [check (HasNSendErrors err 0), check (HasNRecvErrors err 1),
           case AsStatus (modifyError_WithCode 3 ModifyError) of
             None \<Rightarrow> check Fatal
           | Some st \<Rightarrow> check (HasRecvClientErrorWithStatus modify_FromError err st [ignoreDetails])])])]) l"

subsection \<open>Get\<close>

text \<open>The Get that ends these tests.\<close>

definition get_and_check :: "who \<Rightarrow> fluent_AFT \<Rightarrow> GRIBIEntry list \<Rightarrow> step" where
  "get_and_check c aft entries l =
     (steps [start_call c, deferring (stop_call c)
     (send_get c (gRIBIGet_WithAFT aft (gRIBIGet_WithNetworkInstance defaultNetworkInstanceName gRIBIGet))
       (\<lambda>r. case r of Inl _ \<Rightarrow> check Fatal | Inr gr \<Rightarrow> check (GetResponseHasEntries gr entries)))]) l"

definition GetNH :: "who \<Rightarrow> ProgrammingResult \<Rightarrow> step" where
  "GetNH c wantACK l =
     (deferring (flushServer c) (do_ops c
     [send_add c [nh 1 ''192.0.2.3'']] wantACK
     (\<lambda>res. steps [has_ignoring res (want_nh 1 Add wantACK), get_and_check c FAFT_NextHop [nh 1 ''192.0.2.3'']]))) l"

definition GetNHG :: "who \<Rightarrow> ProgrammingResult \<Rightarrow> step" where
  "GetNHG c wantACK l =
     (deferring (flushServer c) (do_ops c
     [send_add c [nh 1 ''192.0.2.3''], send_add c [nhg 1 [1]]] wantACK
     (\<lambda>res. steps [has_ignoring res (want_nh 1 Add wantACK), has_ignoring res (want_nhg 1 Add wantACK),
       get_and_check c FAFT_NextHopGroup [nhg 1 [1]]]))) l"

definition GetIPv4 :: "who \<Rightarrow> ProgrammingResult \<Rightarrow> step" where
  "GetIPv4 c wantACK =
     (let e = ipv4Entry_GRIBIEntry (ipv4Entry_WithMetadata metadata (v4_in defaultNetworkInstanceName ''42.42.42.42/32'' 1))
      in deferring (flushServer c) (do_ops c
     [send_add c [nh 1 ''192.0.2.3''], send_add c [nhg 1 [1]], send_add c [e]] wantACK
     (\<lambda>res. steps [has_ignoring res (want_nh 1 Add wantACK), has_ignoring res (want_nhg 1 Add wantACK),
       has_ignoring res (want_ipv4 ''42.42.42.42/32'' Add wantACK), get_and_check c FAFT_IPv4 [e]])))"

definition GetIPv6 :: "who \<Rightarrow> ProgrammingResult \<Rightarrow> step" where
  "GetIPv6 c wantACK =
     (let e = ipv6Entry_GRIBIEntry (ipv6Entry_WithMetadata metadata (v6_in defaultNetworkInstanceName ''2001:db8::/32'' 1))
      in deferring (flushServer c) (do_ops c
     [send_add c [nh 1 ''192.0.2.3''], send_add c [nhg 1 [1]], send_add c [e]] wantACK
     (\<lambda>res. steps [has_ignoring res (want_nh 1 Add wantACK), has_ignoring res (want_nhg 1 Add wantACK),
       has_ignoring res (want_ipv6 ''2001:db8::/32'' Add wantACK), get_and_check c FAFT_IPv6 [e]])))"

definition GetIPv4Chain :: "who \<Rightarrow> ProgrammingResult \<Rightarrow> step" where
  "GetIPv4Chain c wantACK =
     (let es = [nh 1 ''192.0.2.3'', nhg 1 [1], ipv4 ''42.42.42.42/32'' 1]
      in deferring (flushServer c) (do_ops c
     (map (\<lambda>e. send_add c [e]) es) wantACK
     (\<lambda>res. steps [has_ignoring res (want_nh 1 Add wantACK), has_ignoring res (want_nhg 1 Add wantACK),
       has_ignoring res (want_ipv4 ''42.42.42.42/32'' Add wantACK), get_and_check c FAFT_AllAFTs (rev es)])))"

subsection \<open>Flush\<close>

definition checkNIHasNEntries :: "who \<Rightarrow> string \<Rightarrow> nat \<Rightarrow> step" where
  "checkNIHasNEntries c ni n l =
     (send_get c (gRIBIGet_WithAFT FAFT_AllAFTs (gRIBIGet_WithNetworkInstance ni gRIBIGet))
     (\<lambda>r. case r of Inl _ \<Rightarrow> check Fatal | Inr gr \<Rightarrow> if length gr \<noteq> n then check Fatal else skip)) l"

definition addFlushEntriesToNI :: "who \<Rightarrow> string \<Rightarrow> ProgrammingResult \<Rightarrow> step" where
  "addFlushEntriesToNI c niName wantACK l =
     (do_ops c
     [send_add c [nextHopEntry_GRIBIEntry (nh_in niName 1 ''192.0.2.3'')],
      send_add c [nextHopGroupEntry_GRIBIEntry (nhg_in niName 1 [1])],
      send_add c [ipv4Entry_GRIBIEntry (v4_in niName ''42.42.42.42/32'' 1)]] wantACK
     (\<lambda>res. steps [has_ignoring res (want_nh 1 Add wantACK), has_ignoring res (want_nhg 1 Add wantACK),
       has_ignoring res (want_ipv4 ''42.42.42.42/32'' Add wantACK)])) l"

text \<open>A Flush that must succeed; one that must fail with a code, and with one detail if given.\<close>

definition flush_ok :: "who \<Rightarrow> FlushRequest \<Rightarrow> step" where
  "flush_ok c req l =
     (send_flush c req
     (\<lambda>r. case r of Inl _ \<Rightarrow> check Fatal | Inr fr \<Rightarrow> if flr_Result fr \<noteq> Flush_OK then check Fatal else skip)) l"

definition flush_fails :: "who \<Rightarrow> FlushRequest \<Rightarrow> nat \<Rightarrow> flush_status option \<Rightarrow> step" where
  "flush_fails c req code detail l =
     (send_flush c req
     (\<lambda>r. case r of
        Inr _ \<Rightarrow> check Fatal
      | Inl e \<Rightarrow>
          (case flush_FromError e of
             None \<Rightarrow> check Fatal
           | Some s \<Rightarrow>
               if st_Code s \<noteq> code then check Fatal
               else if detail \<noteq> None \<and> st_Details s \<noteq> [the detail] then check Fatal else skip))) l"

definition FlushFromMasterDefaultNI :: "who \<Rightarrow> ProgrammingResult \<Rightarrow> step" where
  "FlushFromMasterDefaultNI c wantACK l =
     (deferring (flushServer c) (steps
     [addFlushEntriesToNI c defaultNetworkInstanceName wantACK, start_call c, deferring (stop_call c) (steps
       [reading (\<lambda>l. flush_ok c (gRIBIFlush_WithAllNetworkInstances (gRIBIFlush_WithElectionID (lab_electionID l - 1) 0 gRIBIFlush))),
        checkNIHasNEntries c defaultNetworkInstanceName 0])])) l"

definition FlushFromOverrideDefaultNI :: "who \<Rightarrow> ProgrammingResult \<Rightarrow> step" where
  "FlushFromOverrideDefaultNI c wantACK l =
     (deferring (flushServer c) (steps
     [addFlushEntriesToNI c defaultNetworkInstanceName wantACK, start_call c, deferring (stop_call c) (steps
       [flush_ok c (gRIBIFlush_WithAllNetworkInstances (gRIBIFlush_WithElectionOverride gRIBIFlush)),
        checkNIHasNEntries c defaultNetworkInstanceName 0])])) l"

definition FlushFromNonMasterDefaultNI :: "who \<Rightarrow> ProgrammingResult \<Rightarrow> step" where
  "FlushFromNonMasterDefaultNI c wantACK l =
     (deferring (flushServer c) (steps
     [addFlushEntriesToNI c defaultNetworkInstanceName wantACK, start_call c, deferring (stop_call c) (steps
       [reading (\<lambda>l. flush_fails c
          (gRIBIFlush_WithAllNetworkInstances (gRIBIFlush_WithElectionID (lab_electionID l - 2) 0 gRIBIFlush)) 9 None),
        checkNIHasNEntries c defaultNetworkInstanceName 3])])) l"

definition FlushNIUnspecified :: "who \<Rightarrow> ProgrammingResult \<Rightarrow> step" where
  "FlushNIUnspecified c wantACK l =
     (deferring (flushServer c) (steps
     [addFlushEntriesToNI c defaultNetworkInstanceName wantACK, start_call c, deferring (stop_call c) (steps
       [reading (\<lambda>l. flush_fails c (gRIBIFlush_WithElectionID (lab_electionID l - 1) 0 gRIBIFlush) 3 (Some UNSPECIFIED_NETWORK_INSTANCE)),
        checkNIHasNEntries c defaultNetworkInstanceName 3])])) l"

definition FlushOfSpecificNI :: "who \<Rightarrow> ProgrammingResult \<Rightarrow> step" where
  "FlushOfSpecificNI c wantACK l =
     (deferring (flushServer c) (steps
     [addFlushEntriesToNI c defaultNetworkInstanceName wantACK, addFlushEntriesToNI c vrfName wantACK,
      start_call c, deferring (stop_call c) (steps
       [reading (\<lambda>l. flush_ok c (gRIBIFlush_WithNetworkInstance defaultNetworkInstanceName
          (gRIBIFlush_WithElectionID (lab_electionID l - 1) 0 gRIBIFlush))),
        checkNIHasNEntries c defaultNetworkInstanceName 0, checkNIHasNEntries c vrfName 3])])) l"

text \<open>This test is skipped (\<open>t.Skip\<close>); its body runs on a network instance of its own.\<close>

definition FlushOfAllNIs_body :: "who \<Rightarrow> string \<Rightarrow> ProgrammingResult \<Rightarrow> step" where
  "FlushOfAllNIs_body c vrf wantACK l =
     (deferring (flushServer c) (steps
     [addFlushEntriesToNI c defaultNetworkInstanceName wantACK, addFlushEntriesToNI c vrf wantACK,
      start_call c, deferring (stop_call c) (steps
       [reading (\<lambda>l. flush_ok c (gRIBIFlush_WithAllNetworkInstances (gRIBIFlush_WithElectionID (lab_electionID l - 1) 0 gRIBIFlush))),
        checkNIHasNEntries c defaultNetworkInstanceName 0, checkNIHasNEntries c vrf 0])])) l"

definition FlushPreservesDefaultNI :: "who \<Rightarrow> ProgrammingResult \<Rightarrow> step" where
  "FlushPreservesDefaultNI c wantACK l =
     (deferring (flushServer c) (steps
     [addFlushEntriesToNI c defaultNetworkInstanceName wantACK, start_call c, deferring (stop_call c) (steps
       [reading (\<lambda>l. flush_ok c (gRIBIFlush_WithNetworkInstance vrfName (gRIBIFlush_WithElectionID (lab_electionID l - 1) 0 gRIBIFlush))),
        checkNIHasNEntries c defaultNetworkInstanceName 3])])) l"

end
