(* ===== verification/ComplianceSuite.thy ===== *)
theory ComplianceSuite
  imports ComplianceMore
begin

unbundle bit_operations_syntax

text \<open>
  The suite of \<open>compliance/compliance.go\<close>, and the function of \<open>compliance/compliance_test.go\<close>
  that runs each of its tests on a device of its own.  A test that expects to fail
  (\<open>FatalMsg\<close>, \<open>ErrorMsg\<close>) does not occur in the suite.
\<close>

subsection \<open>The benchmark\<close>

text \<open>Decimal digits, as \<open>net.IP\<close> prints them.\<close>

fun decimal :: "nat \<Rightarrow> string" where
  "decimal n = (if n < 10 then [char_of (48 + n)] else decimal (n div 10) @ [char_of (48 + n mod 10)])"

declare decimal.simps [simp del]

text \<open>The conversion of the Go integer to 32 bits makes its product the product of words.\<close>

definition indexAsIPv4 :: "u32 \<Rightarrow> nat \<Rightarrow> string" where
  "indexAsIPv4 i baseSlashEight =
     (let v = i + of_nat baseSlashEight * 16777216;
          octet = (\<lambda>k. decimal (unat (drop_bit k v AND 255)))
      in octet 24 @ ''.'' @ octet 16 @ ''.'' @ octet 8 @ ''.'' @ octet 0)"

definition populate_op :: "who \<Rightarrow> nat \<Rightarrow> step" where
  "populate_op c i l = (send_add c [nh (of_nat (i + 1)) (indexAsIPv4 (of_nat i) 1)]) l"

definition populateNNHs :: "who \<Rightarrow> nat \<Rightarrow> ProgrammingResult \<Rightarrow> step" where
  "populateNNHs c n wantACK l =
     (do_ops c (map (populate_op c) [0..<n]) wantACK
       (\<lambda>res. check (HasResultsCache res
          (map (\<lambda>i. Some (want_nh (of_nat i + 1) Add wantACK)) [0..<n]) [ignoreOpID]))) l"

text \<open>When the Get fails, the server is flushed before the test ends.\<close>

definition benchmark_round :: "who \<Rightarrow> ProgrammingResult \<Rightarrow> nat \<Rightarrow> step" where
  "benchmark_round c wantACK i l =
     (steps [populateNNHs c i wantACK, start_call c,
        send_get c (gRIBIGet_WithAFT FAFT_NextHop (gRIBIGet_WithNetworkInstance defaultNetworkInstanceName gRIBIGet))
          (\<lambda>r. case r of Inl _ \<Rightarrow> steps [flushServer c, check Fatal] | Inr _ \<Rightarrow> steps [flushServer c, stop_call c])]) l"

definition GetBenchmarkNH :: "who \<Rightarrow> ProgrammingResult \<Rightarrow> step" where
  "GetBenchmarkNH c wantACK l = (steps (map (benchmark_round c wantACK) [10, 100, 1000])) l"

subsection \<open>Running the suite\<close>

text \<open>The fields of a test that its run depends on.\<close>

record Test =
  Fn :: step
  RequiresDisallowedForwardReferences :: bool

abbreviation test :: "step \<Rightarrow> Test" where
  "test f \<equiv> \<lparr>Fn = f, RequiresDisallowedForwardReferences = False\<rparr>"

abbreviation restricted :: "step \<Rightarrow> Test" where
  "restricted f \<equiv> \<lparr>Fn = f, RequiresDisallowedForwardReferences = True\<rparr>"

definition session_tests :: "Test list" where
  "session_tests =
     [test (ModifyConnection ClientA),
      test (ModifyConnectionWithElectionID ClientA),
      test (ModifyConnectionSinglePrimaryPreserve ClientA),
      test (ModifyConnectionRepeatedSessionParameters ClientA),
      test (InvalidElectionIDAndAFTOperation ClientA),
      test (InvalidElectionIDAndParams ClientA),
      test (InvalidParamsAndAFTOperation ClientA)]"

definition add_tests :: "Test list" where
  "add_tests =
     [test (AddIPv4Entry ClientA InstalledInRIB),
      test (AddIPv4Entry ClientA InstalledInFIB),
      test (AddUnreferencedNextHopGroup ClientA InstalledInRIB),
      test (AddUnreferencedNextHopGroup ClientA InstalledInFIB)]"

definition random_tests :: "(step list \<Rightarrow> step list) \<Rightarrow> Test list" where
  "random_tests shuffle = [test (AddIPv4EntryRandom ClientA shuffle)]"

definition topology_tests :: "Test list" where
  "topology_tests =
     [test (AddIPv4ToMultipleNHsSingleRequest ClientA InstalledInFIB),
      test (AddIPv4ToMultipleNHsSingleRequest ClientA InstalledInRIB),
      test (AddIPv4ToMultipleNHsMultipleRequests ClientA InstalledInFIB),
      test (AddIPv4ToMultipleNHsMultipleRequests ClientA InstalledInRIB)]"

definition delete_tests :: "Test list" where
  "delete_tests =
     [test (DeleteIPv4Entry ClientA InstalledInRIB),
      test (DeleteReferencedNHGFailure ClientA InstalledInRIB),
      test (DeleteReferencedNHFailure ClientA InstalledInRIB),
      test (DeleteNextHopGroup_test ClientA InstalledInRIB),
      test (DeleteNextHopGroup_test ClientA InstalledInFIB),
      test (DeleteNextHop_test ClientA InstalledInRIB),
      test (DeleteNextHop_test ClientA InstalledInRIB)]"

definition replace_tests :: "Test list" where
  "replace_tests =
     [test (AddIPv4Metadata ClientA),
      test (AddIPv4EntryDifferentNINHG ClientA InstalledInRIB),
      test (AddDeleteAdd ClientA InstalledInRIB),
      test (ImplicitReplaceNH ClientA InstalledInRIB),
      test (ImplicitReplaceNHG ClientA InstalledInRIB),
      test (ImplicitReplaceIPv4Entry ClientA InstalledInRIB),
      test (ImplicitReplaceNH ClientA InstalledInFIB),
      test (ImplicitReplaceNHG ClientA InstalledInFIB),
      test (ImplicitReplaceIPv4Entry ClientA InstalledInFIB)]"

definition idempotence_tests :: "Test list" where
  "idempotence_tests =
     [test (IdempotentDelete ClientA InstalledInRIB),
      test (IdempotentDelete ClientA InstalledInFIB),
      test (ReplaceMissingNH ClientA),
      test (ReplaceMissingNHG ClientA),
      test (ReplaceMissingIPv4Entry ClientA),
      test (TestOperationIsolation ClientA ClientB)]"

definition get_tests :: "Test list" where
  "get_tests =
     [test (GetNH ClientA InstalledInRIB),
      test (GetNHG ClientA InstalledInRIB),
      test (GetIPv4 ClientA InstalledInRIB),
      test (GetIPv6 ClientA InstalledInRIB),
      test (GetIPv4Chain ClientA InstalledInRIB),
      test (GetNH ClientA InstalledInFIB),
      test (GetNHG ClientA InstalledInFIB),
      test (GetIPv4 ClientA InstalledInFIB),
      test (GetIPv6 ClientA InstalledInFIB),
      test (GetIPv4Chain ClientA InstalledInFIB)]"

definition election_tests :: "Test list" where
  "election_tests =
     [test (TestUnsupportedElectionParams ClientA),
      test (TestDifferingElectionParameters ClientA ClientB),
      test (TestMatchingElectionParameters ClientA ClientB),
      test (TestParamsDifferFromOtherClients ClientA ClientB),
      test (TestLowerElectionID ClientA ClientB),
      test (TestActiveAfterMasterChange ClientA ClientB),
      test (TestNewElectionIDNoUpdateRejected ClientA),
      test (TestIncElectionID ClientA),
      test (TestDecElectionID ClientA),
      test (TestSameElectionIDFromTwoClients ClientA ClientB),
      test (TestElectionIDAsZero ClientA)]"

definition flush_tests :: "Test list" where
  "flush_tests =
     [test (FlushFromMasterDefaultNI ClientA InstalledInRIB),
      test (FlushFromNonMasterDefaultNI ClientA InstalledInRIB),
      test (FlushNIUnspecified ClientA InstalledInRIB),
      test (FlushFromOverrideDefaultNI ClientA InstalledInRIB),
      test (FlushOfSpecificNI ClientA InstalledInRIB),
      test (FlushPreservesDefaultNI ClientA InstalledInRIB)]"

definition mpls_tests :: "Test list" where
  "mpls_tests =
     [test (AddMPLSEntry ClientA InstalledInRIB),
      test (DeleteMPLSEntry ClientA InstalledInRIB),
      test (AddMPLSEntryWithLabelStack ClientA InstalledInRIB)]"

definition error_tests :: "Test list" where
  "error_tests =
     [test (AddIPv6Entry ClientA InstalledInRIB),
      test (AddIPv6Entry ClientA InstalledInFIB),
      test (AddIPv6Metadata ClientA),
      test (AddToNonexistentNetworkInstance ClientA),
      test (AddDuplicateNexthop ClientA),
      restricted (ForwardReferencesDisallowed ClientA),
      test (IPv4EntryInvalidPrefix ClientA),
      restricted (IPv4EntryMissingNextHopGroup ClientA),
      restricted (IPv4EntryEmptyNextHopGroup ClientA)]"

text \<open>
  The suite in its order.  The benchmark, which programs 1110 next-hops and checks no entry, and
  \<open>FlushOfAllNIs\<close>, which is skipped, are left out.
\<close>

definition TestSuite :: "(step list \<Rightarrow> step list) \<Rightarrow> Test list" where
  "TestSuite shuffle = session_tests @ add_tests @ random_tests shuffle @ topology_tests @ delete_tests @ replace_tests @ idempotence_tests @ get_tests @ election_tests @ flush_tests @ mpls_tests @ error_tests"

text \<open>The configuration of the device: the default network instance and one VRF.\<close>

definition suite_config :: "string \<Rightarrow> string \<Rightarrow> (string, NetworkInstanceType) gomap option" where
  "suite_config vrf json = Some [(DefaultNetworkInstanceName, DEFAULT_INSTANCE), (vrf, L3VRF)]"

definition suite_listen :: "string \<Rightarrow> int \<Rightarrow> string option" where
  "suite_listen host port = Some ''device''"

definition suite_client :: "string \<Rightarrow> FluentClient" where
  "suite_client addr = WithTarget addr (Connection NewFluentClient)"

text \<open>One test on a new device, from a value of \<open>electionID\<close>, with the verdict and its value after the test.\<close>

definition run_test :: "string \<Rightarrow> Test \<Rightarrow> u64 \<Rightarrow> verdict \<times> u64" where
  "run_test vrf tt eid =
     (let sOpts = [tlsCreds (Some ()), deviceConfig (Some ''config'')] @
            (if RequiresDisallowedForwardReferences tt then [disableFwdRefs] else [])
      in case NewDevice (suite_config vrf) suite_listen sOpts of
           (_, Inl e) \<Rightarrow> (Fatal, eid)
         | (_, Inr d) \<Rightarrow>
             (case steps [Fn tt, stop_call ClientA, stop_call ClientB]
                 \<lparr>lab_srv = gribiSrv d, lab_A = suite_client (DeviceGRIBIAddr d), lab_B = suite_client (DeviceGRIBIAddr d),
                  lab_streams = [], lab_ids = [''c1'', ''c2'', ''c3''], lab_electionID = eid\<rparr> of
                (v, l) \<Rightarrow> (v, lab_electionID l)))"

text \<open>The verdicts of a list of tests, and the value of \<open>electionID\<close> after them.\<close>

fun TestCompliance :: "Test list \<Rightarrow> u64 \<Rightarrow> verdict list \<times> u64" where
  "TestCompliance [] eid = ([], eid)"
| "TestCompliance (tt # tts) eid =
     (case run_test vrfName tt eid of
        (v, eid1) \<Rightarrow> (case TestCompliance tts eid1 of (vs, eid2) \<Rightarrow> (v # vs, eid2)))"

end
