(* ===== verification/ComplianceProps.thy ===== *)
theory ComplianceProps
  imports ComplianceSuite
begin

text \<open>
  The composed system passes the compliance suite.  Each test is evaluated on the models of the
  device, the server, its RIB, the client, the fluent API and the checks, from the value of
  \<open>electionID\<close> that the tests before it leave.
\<close>

text \<open>The libraries of the suite behave as the RIB relies on.\<close>

lemma suite_candidate: "candidate suite_env a = Inr c \<Longrightarrow> candidate sample_env a = Inr c"
  by (simp add: suite_env_def split: if_splits)

lemma suite_env_laws: "env_laws suite_env"
proof -
  have "candidate_laws sample_env" "merge_laws sample_env" "\<forall>a. DeepCopy sample_env a = Inr a"
    using sample_laws by (simp_all add: env_laws_def)
  moreover have "MergeStructInto suite_env = MergeStructInto sample_env" "DeepCopy suite_env = DeepCopy sample_env"
    by (simp_all add: suite_env_def)
  moreover have "candidate_laws suite_env"
    unfolding candidate_laws_def using candidate_lawsD [OF sample_laws] suite_candidate by blast
  ultimately show ?thesis by (simp add: env_laws_def merge_laws_def)
qed

lemma TestCompliance_append:
  "TestCompliance (ts @ us) e =
     (case TestCompliance ts e of (vs, e1) \<Rightarrow> case TestCompliance us e1 of (ws, e2) \<Rightarrow> (vs @ ws, e2))"
  by (induction ts arbitrary: e) (auto split: prod.splits)

subsection \<open>The random order\<close>

definition permute :: "nat list \<Rightarrow> 'a list \<Rightarrow> 'a list" where
  "permute p xs = map (\<lambda>i. xs ! i) p"

lemma permutations_3:
  assumes "mset ys = mset [a, b, c]"
  shows "\<exists>p\<in>{[0, 1, 2], [0, 2, 1], [1, 0, 2], [1, 2, 0], [2, 0, 1], [2, 1, 0]}. ys = permute p [a, b, c]"
proof -
  have "length ys = 3" using mset_eq_length [OF assms] by simp
  then obtain x y z where ys: "ys = [x, y, z]" by (auto simp: length_Suc_conv numeral_3_eq_3)
  with assms have "(x = a \<and> y = b \<and> z = c) \<or> (x = a \<and> y = c \<and> z = b) \<or> (x = b \<and> y = a \<and> z = c) \<or>
      (x = b \<and> y = c \<and> z = a) \<or> (x = c \<and> y = a \<and> z = b) \<or> (x = c \<and> y = b \<and> z = a)"
    by (auto simp: add_eq_conv_ex)
  then show ?thesis by (auto simp: ys permute_def)
qed

lemma random_permuted:
  assumes "\<And>xs :: step list. mset (shuffle xs) = mset xs"
  shows "\<exists>p\<in>{[0, 1, 2], [0, 2, 1], [1, 0, 2], [1, 2, 0], [2, 0, 1], [2, 1, 0]}.
    AddIPv4EntryRandom c shuffle = AddIPv4EntryRandom c (permute p)"
proof -
  let ?ops = "[send_add c [nh 1 ''1.1.1.1''], send_add c [nhg 42 [1]], send_add c [ipv4 ''1.1.1.1/32'' 42]]"
  obtain p where p: "p \<in> {[0, 1, 2], [0, 2, 1], [1, 0, 2], [1, 2, 0], [2, 0, 1], [2, 1, 0 :: nat]}" "shuffle ?ops = permute p ?ops"
    using permutations_3 [OF assms [of ?ops]] by blast
  then have "DoModifyOps c shuffle ?ops ack True k = DoModifyOps c (permute p) ?ops ack True k" for ack k
    by (intro ext) (simp add: DoModifyOps_def Let_def)
  then have "AddIPv4EntryRandom c shuffle = AddIPv4EntryRandom c (permute p)"
    by (intro ext) (simp only: AddIPv4EntryRandom_def)
  with p(1) show ?thesis by blast
qed

lemma random_orders:
  "TestCompliance (random_tests (permute [0, 1, 2])) 10 = ([Pass], 11) \<and>
   TestCompliance (random_tests (permute [0, 2, 1])) 10 = ([Pass], 11) \<and>
   TestCompliance (random_tests (permute [1, 0, 2])) 10 = ([Pass], 11) \<and>
   TestCompliance (random_tests (permute [1, 2, 0])) 10 = ([Pass], 11) \<and>
   TestCompliance (random_tests (permute [2, 0, 1])) 10 = ([Pass], 11) \<and>
   TestCompliance (random_tests (permute [2, 1, 0])) 10 = ([Pass], 11)"
  by code_simp

lemma random_passes:
  assumes "\<And>xs :: step list. mset (shuffle xs) = mset xs"
  shows "TestCompliance (random_tests shuffle) 10 = ([Pass], 11)"
  using random_permuted [OF assms, of ClientA] random_orders by (auto simp: random_tests_def)

subsection \<open>The other tests\<close>

lemma session_pass: "TestCompliance session_tests 1 = ([Pass, Pass, Pass, Pass, Pass, Pass, Pass], 6)"
  by code_simp

lemma add_pass: "TestCompliance add_tests 6 = ([Pass, Pass, Pass, Pass], 10)"
  by code_simp

lemma topology_pass: "TestCompliance topology_tests 11 = ([Pass, Pass, Pass, Pass], 15)"
  by code_simp

lemma delete_pass: "TestCompliance delete_tests 15 = ([Pass, Pass, Pass, Pass, Pass, Pass, Pass], 22)"
  by code_simp

lemma replace_pass: "TestCompliance replace_tests 22 = ([Pass, Pass, Pass, Pass, Pass, Pass, Pass, Pass, Pass], 31)"
  by code_simp

lemma idempotence_pass: "TestCompliance idempotence_tests 31 = ([Pass, Pass, Pass, Pass, Pass, Pass], 38)"
  by code_simp

lemma get_pass: "TestCompliance get_tests 38 = ([Pass, Pass, Pass, Pass, Pass, Pass, Pass, Pass, Pass, Pass], 48)"
  by code_simp

lemma election_pass: "TestCompliance election_tests 48 = ([Pass, Pass, Pass, Pass, Pass, Pass, Pass, Pass, Pass, Pass, Pass], 65)"
  by code_simp

lemma flush_pass: "TestCompliance flush_tests 65 = ([Pass, Pass, Pass, Pass, Pass, Pass], 72)"
  by code_simp

lemma mpls_pass: "TestCompliance mpls_tests 72 = ([Pass, Pass, Pass], 76)"
  by code_simp

lemma error_pass: "TestCompliance error_tests 76 = ([Pass, Pass, Pass, Pass, Pass, Pass, Pass, Pass, Pass], 85)"
  by code_simp



text \<open>
  The suite depends on its order: run first, the test of a Flush with an old election identifier
  sends the identifier zero, which the server refuses with another code.
\<close>

lemma flush_test_first_fails:
  "TestCompliance [test (FlushFromNonMasterDefaultNI ClientA InstalledInRIB)] 1 = ([Fatal], 2)"
  by code_simp

text \<open>The body of \<open>FlushOfAllNIs\<close> passes on a device that has its VRF; a small benchmark round passes.\<close>

lemma skipped_flush_test_passes:
  "run_test ''TEST-VRF'' (test (FlushOfAllNIs_body ClientA ''TEST-VRF'' InstalledInRIB)) 1 = (Pass, 3)"
  by code_simp

lemma indexAsIPv4_example: "indexAsIPv4 258 1 = ''1.0.1.2''"
  by code_simp

lemma benchmark_round_passes:
  "run_test vrfName (test (benchmark_round ClientA InstalledInRIB 3)) 1 = (Pass, 2)"
  by code_simp

end
