(* ===== verification/Spec2Isabelle.thy ===== *)
theory Spec2Isabelle
  imports StubRouter AftCalls AftEnums RibOrder RemoteReconcile ServerElection FluentProps ChkProps AftHelperProps ComplianceProps
begin

text \<open>
  A model of gribigo, the Go reference implementation of the gRIBI protocol, and the
  properties that make it correct.

  \<^bold>\<open>The program.\<close>  A gRIBI client programs routes (IPv4, IPv6 and MPLS entries), the
  next-hop-groups they refer to and the next-hops of these into the RIB of a server.  The
  server (\<open>server/server.go\<close>) keeps the parameters and election identifiers of its connected
  clients, elects a master, and passes the operations of the master to its RIB
  (\<open>rib/rib.go\<close>), one \<open>RIBHolder\<close> per network instance.  The RIB installs an operation whose
  references resolve, holds it back in a pending queue otherwise, and counts references so
  that nothing in use is deleted.  The client (\<open>client/gribiclient.go\<close>) queues operations,
  sends them on a Modify stream and matches the answers to them.  The reconciler
  (\<open>rib/reconciler\<close>) computes the operations that turn one RIB into another, read locally
  or, through the client's Get RPC, from a remote server (\<open>rib/helpers.go\<close>).  Tests drive
  a client through the fluent API (\<open>fluent/fluent.go\<close>) and judge its results with the checks
  of \<open>chk/chk.go\<close>; \<open>device/device.go\<close> wraps a server with its start-up configuration, the tests of
  \<open>compliance/\<close> drive a device through two fluent clients, and
  \<open>afthelper/afthelper.go\<close> looks up the next-hops of a prefix in a copy of the RIB.

  \<^bold>\<open>The model, theory by theory.\<close>  Each definition has the name of the Go function, method
  or type it models (methods of equal names get a prefix), takes the receiver as an argument
  and returns it updated; errors are values of error datatypes, and panics are constructors
  of these or \<open>None\<close>.

  \<^item> \<open>Prelude\<close>: integer types, Go maps as association lists whose order stands for the
    unspecified iteration order, and their lemmas (collection \<open>gomap\<close>).
  \<^item> \<open>Constants\<close>, \<open>Gribi\<close>: \<open>constants/const.go\<close> and the protobuf messages.
  \<^item> \<open>AftStructs\<close>, \<open>AftAccess\<close>, \<open>AftLeaves\<close>, \<open>AftInterfaces\<close>, \<open>AftEnums\<close>: the generated code
    of \<open>aft/oc.go\<close> (the structs with every field; the methods of lists and containers; the leaf
    getters; interfaces and the root; the enumerations).  A method is named
    \<open><struct>_<method>\<close>.  \<open>Aft\<close>: \<open>candidateRIB\<close> and the \<open>Concrete...Proto\<close> functions.
  \<^item> \<open>RibHolder\<close>, \<open>Rib\<close>, \<open>RibOps\<close>: \<open>rib/rib.go\<close> (one network instance; checks, hooks and the
    pending queue; \<open>AddEntry\<close>, \<open>DeleteEntry\<close>, \<open>GetRIB\<close>, \<open>Flush\<close>).  \<open>RibHelpers\<close>:
    \<open>rib/helpers.go\<close>.
  \<^item> \<open>Server\<close>: \<open>server/server.go\<close>.  Operations of different Modify streams interleave one by
    one (\<open>modify_op\<close>); the election is read once per message, as in the code.
  \<^item> \<open>Client\<close>: \<open>client/gribiclient.go\<close>.  The sender and the receiver goroutine are one
    step function each.
  \<^item> \<open>Reconcile\<close>, \<open>Remote\<close>: \<open>rib/reconciler/reconcile.go\<close> and \<open>remote.go\<close>.
  \<^item> \<open>FluentEntries\<close>, \<open>Fluent\<close>: \<open>fluent/fluent.go\<close> (entry builders; the client, its requests
    and the expected errors and results).  A method that ends the test returns a value of
    \<open>fluent_fatal\<close>.
  \<^item> \<open>Chk\<close>: \<open>chk/chk.go\<close>, each check returning a verdict.
  \<^item> \<open>Netip\<close>, \<open>AftHelper\<close>: the prefix parser of Go's \<open>net/netip\<close> and \<open>afthelper/afthelper.go\<close>.
  \<^item> \<open>Device\<close>: \<open>device/device.go\<close>.  \<open>StubRouter\<close>: \<open>cmd/stubrtr/main.go\<close>, a server without a
    device.
  \<^item> \<open>TestBed\<close>: a device and two fluent clients connected by Modify streams, the system that
    tests drive.  \<open>Compliance\<close>, \<open>ComplianceMore\<close>, \<open>ComplianceSuite\<close>: the tests of
    \<open>compliance/\<close> as functions of that system, and their suite.

  \<^bold>\<open>The lemmas.\<close>

  \<^item> AFTs: \<open>AftCalls\<close> states what a generated list promises (locale \<open>aft_list\<close>, interpreted for
    its eleven lists), and that the AFTs answer any sequence of calls like seven maps.
  \<^item> RIB: \<open>RibLaws\<close> and \<open>RefCount\<close> state one contract per table (locale \<open>aft_table\<close> and its
    extensions), interpreted for the five AFTs; \<open>RibStep\<close>, \<open>RibInstall\<close>, \<open>RibNextHop\<close>,
    \<open>RibInv\<close>, \<open>RibFlush\<close> show that an operation keeps the invariant (exact counters, resolved
    references, well-formed tables); \<open>RibAdd\<close>, \<open>RibReach\<close>, \<open>RibRun\<close> lift it through the
    recursion of \<open>AddEntry\<close> to all reachable states; \<open>RibProps\<close> and \<open>RibQuery\<close> draw the
    properties.  \<open>RibOrder\<close>: a list of additions is resolved as a set, whatever its order.
  \<^item> Server: \<open>RibService\<close> states what the server needs of its RIB as the locale
    \<open>rib_service\<close>, interpreted on the reachable RIB states; \<open>ServerRun\<close> is the step relation
    of the server, \<open>ServerInv\<close>, \<open>ServerRpc\<close>, \<open>ServerProps\<close>, \<open>ServerElection\<close> and
    \<open>ServerQuery\<close> hold its invariant and properties.
  \<^item> Reconciler: \<open>ReconcileLaws\<close>, \<open>ReconcileApply\<close> (locale \<open>table_diff\<close>, interpreted for the
    five tables) and \<open>ReconcileDiff\<close> show what a difference contains and that it converges on
    tables; \<open>ProgramStep\<close> and \<open>ProgramRun\<close> carry lists of operations to the RIB itself;
    \<open>ReconcileRun\<close>, \<open>ReconcilePhase\<close>, \<open>ReconcileAccept\<close>, \<open>ReconcileOrder\<close> show that the
    make-before-break order is accepted at every step; \<open>ReconcileProps\<close> has the properties.
  \<^item> Client: \<open>ClientRun\<close> is the step relation of a session and the accounting of its
    operations, \<open>ClientServer\<close> composes one exchange with the server's answers, \<open>Session\<close>
    a session whose messages are in flight in both directions; \<open>ClientProps\<close> has the
    properties.
  \<^item> \<open>RemoteProps\<close>: server Get, client Get and \<open>FromGetResponses\<close> compose to the identity on
    tables.  \<open>RemoteReconcile\<close> composes it with the reconciler and the Modify RPC of the server.
  \<^item> \<open>FluentProps\<close>: the runs of a test over the fluent API are runs of the client, and its
    entries are numbered and accounted for.  \<open>ChkProps\<close>: the caches of the checks against the
    checks they make faster.  \<open>AftHelperProps\<close>: the lookup on copies of reachable RIBs.
    \<open>Device\<close>, \<open>StubRouter\<close>: when they start, and what they serve.  \<open>ComplianceProps\<close>: the composed
    system passes the compliance suite.
  \<^item> \<open>Sample\<close>, \<open>ServerSample\<close>, \<open>ReconcileSample\<close>: the concrete instances that the witnesses
    evaluate.

  \<^bold>\<open>Bounds and fuel.\<close>  \<open>AddEntry\<close> recurses over the pending queue; its fuel is the number of
  pending operations plus two, which \<open>AddEntry_terminates\<close> shows to be enough for every
  iteration order.  Reference counters are 64-bit words; \<open>room\<close> bounds the entries and
  pending operations of a RIB by \<open>2^64\<close>, so that no counter wraps.  Identifiers of reconciler
  operations are distinct below \<open>2^64\<close> operations.

  \<^bold>\<open>Parameters.\<close>  The ygot, protomap and gNMI value libraries are the records \<open>ygot\<close> and
  \<open>rib_env\<close>, with the laws \<open>env_laws\<close> and, for messages of several entries, \<open>batch_laws\<close>;
  \<open>sample_env\<close> satisfies both.  \<open>rib_codes\<close> says that the protobuf conversions lose nothing of
  the entries of a RIB.  The gRPC stub of a client, the clock, the iteration order of the
  pending map (\<open>sched\<close>) and what streams return are arguments, as are the
  network, the credentials and the unmarshalling of the configuration of a device.

  \<^bold>\<open>Not modelled.\<close>  Mutexes and the gRPC transport (their effect is the atomicity of the
  steps), log output and the \<open>String\<close> methods; the compressed schema of \<open>aft/oc.go\<close>
  with the methods that hand it to the ygot library, and \<open>ocrt/oc.go\<close>, generated code of which
  only the configured network instances are read; \<open>cmd/ccli\<close>, \<open>demo\<close> and the certificate paths of
  \<open>testcommon\<close>, which only wire the components to libraries outside the repository.  Of the
  compliance suite, the benchmark is defined but not run (a small round of it is), and one
  schedule of the messages is run.
\<close>

end
